(* ===== verification/Board_Prelude.thy ===== *)
theory Board_Prelude
  imports Main "HOL-Library.Word" "HOL-Library.Monad_Syntax"
begin

text \<open>
  What every component shares: the machine types of the 32-bit big-endian MIPS target, C's
  signed and unsigned wrap-around on mathematical integers, bounded access to a memory buffer
  (an access outside of the buffer has no value, i.e. is \<^term>\<open>None\<close>), the big-endian
  layout of a 32-bit word in memory, and NUL-terminated strings in fixed-size arrays.
\<close>

unbundle bit_operations_syntax

named_theorems c_simps \<open>evaluation of C integer conversions\<close>
named_theorems mem_simps \<open>length and content of buffers after bounded accesses\<close>

section \<open>Machine types\<close>

type_synonym u8 = "8 word"
type_synonym u16 = "16 word"
type_synonym u32 = "32 word"
type_synonym bytes = "8 word list"

section \<open>C integers\<close>

definition s32 :: "int \<Rightarrow> int" where
  "s32 x = (x + 2147483648) mod 4294967296 - 2147483648"

definition u32 :: "int \<Rightarrow> int" where
  "u32 x = x mod 4294967296"

definition u16 :: "int \<Rightarrow> int" where
  "u16 x = x mod 65536"

text \<open>\<open>x / 2\<close>, rounding to zero.\<close>

definition half :: "int \<Rightarrow> int" where
  "half x = (if x < 0 then - ((- x) div 2) else x div 2)"

section \<open>Buffers\<close>

definition mem_read :: "int \<Rightarrow> int \<Rightarrow> 'a list \<Rightarrow> 'a list option" where
  "mem_read off n buf =
     (if 0 \<le> off \<and> 0 \<le> n \<and> off + n \<le> int (length buf)
      then Some (take (nat n) (drop (nat off) buf)) else None)"

definition mem_write :: "int \<Rightarrow> 'a list \<Rightarrow> 'a list \<Rightarrow> 'a list option" where
  "mem_write off src buf =
     (if 0 \<le> off \<and> off + int (length src) \<le> int (length buf)
      then Some (take (nat off) buf @ src @ drop (nat off + length src) buf) else None)"

text \<open>A condition without which the access has no value.\<close>

definition c_assert :: "bool \<Rightarrow> unit option" where
  "c_assert b = (if b then Some () else None)"

section \<open>Words in memory, most significant byte first\<close>

definition be32 :: "u32 \<Rightarrow> bytes" where
  "be32 w = [ucast (drop_bit 24 w), ucast (drop_bit 16 w), ucast (drop_bit 8 w), ucast w]"

fun of_be32 :: "bytes \<Rightarrow> u32" where
  "of_be32 [a, b, c, d] =
     push_bit 24 (ucast a) OR push_bit 16 (ucast b) OR push_bit 8 (ucast c) OR ucast d"
| "of_be32 _ = 0"

section \<open>Strings\<close>

text \<open>
  \<open>cstring\<close> reads the array as a C string: the bytes before the first NUL.  \<open>strncpy0\<close>
  is \<open>strncpy\<close>: it pads the destination of \<open>n\<close> bytes with NUL and does not terminate a
  source of \<open>n\<close> bytes or more.
\<close>

definition ascii :: "string \<Rightarrow> bytes" where
  "ascii s = map of_char s"

definition cstring :: "bytes \<Rightarrow> bytes" where
  "cstring b = takeWhile (\<lambda>c. c \<noteq> 0) b"

definition strncpy0 :: "nat \<Rightarrow> bytes \<Rightarrow> bytes" where
  "strncpy0 n src = take n (cstring src @ replicate n 0)"

section \<open>Lemmas\<close>

lemma s32_id [c_simps]: "-2147483648 \<le> x \<Longrightarrow> x < 2147483648 \<Longrightarrow> s32 x = x"
  by (simp add: s32_def)

lemma u32_id [c_simps]: "0 \<le> x \<Longrightarrow> x < 4294967296 \<Longrightarrow> u32 x = x"
  by (simp add: u32_def)

lemma u16_id [c_simps]: "0 \<le> x \<Longrightarrow> x < 65536 \<Longrightarrow> u16 x = x"
  by (simp add: u16_def)

lemma s32_range: "-2147483648 \<le> s32 x \<and> s32 x < 2147483648"
  using pos_mod_bound [of 4294967296 "x + 2147483648"] pos_mod_sign [of 4294967296 "x + 2147483648"]
  by (simp add: s32_def)

lemma u32_range: "0 \<le> u32 x \<and> u32 x < 4294967296"
  by (simp add: u32_def)

lemma s32_u32 [simp]: "s32 (u32 x) = s32 x"
  by (simp add: s32_def u32_def mod_add_left_eq)

lemma u32_s32 [simp]: "u32 (s32 x) = u32 x"
  by (simp add: s32_def u32_def mod_diff_left_eq)

lemma s32_cong:
  assumes "x mod 4294967296 = y mod 4294967296"
  shows "s32 x = s32 y"
proof -
  have "(x + 2147483648) mod 4294967296 = (y + 2147483648) mod 4294967296"
    by (rule mod_add_cong [OF assms refl])
  then show ?thesis by (simp add: s32_def)
qed

lemma s32_mod: "s32 x mod 4294967296 = x mod 4294967296"
  using u32_s32 [of x] by (simp add: u32_def)

lemma u32_add_s32: "u32 (x + s32 y) = u32 (x + y)"
  unfolding u32_def by (metis mod_add_right_eq s32_mod)

lemma s32_diff: "s32 (s32 x - s32 y) = s32 (x - y)"
  by (rule s32_cong) (metis mod_diff_eq s32_mod)

lemma s32_add: "s32 (s32 x + s32 y) = s32 (x + y)"
  by (rule s32_cong) (metis mod_add_eq s32_mod)

lemma s32_diff_left: "s32 (s32 x - y) = s32 (x - y)"
  by (rule s32_cong) (metis mod_diff_left_eq s32_mod)

lemma s32_add_right: "s32 (x + s32 y) = s32 (x + y)"
  by (rule s32_cong) (metis mod_add_right_eq s32_mod)

lemma even_sum_list: "\<forall>n\<in>set ns. even n \<Longrightarrow> even (sum_list (ns :: nat list))"
  by (induction ns) auto

lemma c_assert_eq_Some [simp]: "c_assert b = Some u \<longleftrightarrow> b"
  by (simp add: c_assert_def)

lemma c_assert_bind [simp]: "b \<Longrightarrow> c_assert b \<bind> f = f ()"
  by (simp add: c_assert_def)

lemma mem_read_length [mem_simps]: "mem_read off n buf = Some r \<Longrightarrow> length r = nat n"
  by (auto simp: mem_read_def split: if_splits)

lemma mem_write_length [mem_simps]: "mem_write off src buf = Some r \<Longrightarrow> length r = length buf"
  by (auto simp: mem_write_def split: if_splits)

lemma mem_write_in_range:
  "0 \<le> off \<Longrightarrow> off + int (length src) \<le> int (length buf) \<Longrightarrow>
   mem_write off src buf = Some (take (nat off) buf @ src @ drop (nat off + length src) buf)"
  by (simp add: mem_write_def)

lemma mem_read_in_range:
  "0 \<le> off \<Longrightarrow> 0 \<le> n \<Longrightarrow> off + n \<le> int (length buf) \<Longrightarrow>
   mem_read off n buf = Some (take (nat n) (drop (nat off) buf))"
  by (simp add: mem_read_def)

lemma mem_read_int:
  "off + n \<le> length buf \<Longrightarrow> mem_read (int off) (int n) buf = Some (take n (drop off buf))"
  by (simp add: mem_read_def)

lemma mem_write_int:
  "off + length src \<le> length buf \<Longrightarrow>
   mem_write (int off) src buf = Some (take off buf @ src @ drop (off + length src) buf)"
  by (simp add: mem_write_def)

lemma mem_read_write_same:
  assumes "mem_write off src buf = Some buf'"
  shows "mem_read off (int (length src)) buf' = Some src"
proof -
  have r: "0 \<le> off" "off + int (length src) \<le> int (length buf)"
    and b: "buf' = take (nat off) buf @ src @ drop (nat off + length src) buf"
    using assms by (auto simp: mem_write_def split: if_splits)
  from r have "nat off \<le> length buf" by linarith
  then show ?thesis using r b by (simp add: mem_read_def)
qed

lemma mem_write_nth:
  assumes "mem_write off src buf = Some buf'" "i < length buf"
  shows "buf' ! i = (if nat off \<le> i \<and> i < nat off + length src then src ! (i - nat off) else buf ! i)"
proof -
  have r: "0 \<le> off" "off + int (length src) \<le> int (length buf)"
    and b: "buf' = take (nat off) buf @ src @ drop (nat off + length src) buf"
    using assms(1) by (auto simp: mem_write_def split: if_splits)
  from r have "nat off \<le> length buf" "nat off + length src \<le> length buf" by linarith+
  then show ?thesis using b assms(2) by (auto simp: nth_append min_def)
qed

lemma mem_read_nth:
  assumes "mem_read off n buf = Some r" "i < nat n"
  shows "r ! i = buf ! (nat off + i)"
  using assms by (auto simp: mem_read_def split: if_splits)

lemma mem_read_write_disjoint:
  assumes "mem_write off src buf = Some buf'"
    and "o2 + n \<le> off \<or> off + int (length src) \<le> o2"
  shows "mem_read o2 n buf' = mem_read o2 n buf"
proof (cases "0 \<le> o2 \<and> 0 \<le> n \<and> o2 + n \<le> int (length buf)")
  case True
  have l: "length buf' = length buf" by (rule mem_write_length [OF assms(1)])
  have "take (nat n) (drop (nat o2) buf') = take (nat n) (drop (nat o2) buf)"
  proof (rule nth_equalityI)
    show "length (take (nat n) (drop (nat o2) buf')) = length (take (nat n) (drop (nat o2) buf))"
      using l by simp
  next
    fix i assume i: "i < length (take (nat n) (drop (nat o2) buf'))"
    then have "nat o2 + i < length buf" "i < nat n" using l by auto
    moreover have "0 \<le> off" using assms(1) by (auto simp: mem_write_def split: if_splits)
    ultimately show "take (nat n) (drop (nat o2) buf') ! i = take (nat n) (drop (nat o2) buf) ! i"
      using mem_write_nth [OF assms(1), of "nat o2 + i"] assms(2) True l by auto
  qed
  then show ?thesis using l by (simp add: mem_read_def)
next
  case False
  then show ?thesis using mem_write_length [OF assms(1)] by (auto simp: mem_read_def)
qed

lemma length_be32 [simp]: "length (be32 w) = 4"
  by (simp add: be32_def)

lemma of_be32_be32 [simp]: "of_be32 (be32 w) = w"
proof (rule bit_word_eqI)
  fix n assume "n < LENGTH(32)"
  then show "bit (of_be32 (be32 w)) n = bit w n"
    by (cases "n < 8"; cases "n < 16"; cases "n < 24") (auto simp: be32_def bit_simps)
qed

lemma bit8_beyond: "8 \<le> n \<Longrightarrow> \<not> bit (x :: 8 word) n"
  using bit_imp_le_length [of x n] by auto

lemma bit32_less: "bit (x :: 32 word) n \<Longrightarrow> n < 32"
  using bit_imp_le_length [of x n] by auto

lemma word_xor_cancel: "a XOR c = b XOR c \<longleftrightarrow> a = (b :: 'a::len word)"
  by (metis xor.assoc xor_self_eq xor.right_neutral)

lemma word_xor_cancel_left: "c XOR a = c XOR b \<longleftrightarrow> a = (b :: 'a::len word)"
  by (metis word_xor_cancel xor.commute)

lemma and_0xffff [simp]: "(0xffff :: 16 word) AND w = w"
proof -
  have e: "(0xffff :: 16 word) = - 1" by simp
  show ?thesis unfolding e by (rule and.left_neutral)
qed

lemma length_4E: "length b = 4 \<Longrightarrow> \<exists>x y z w. b = [x, y, z, w]"
  by (auto simp: length_Suc_conv numeral_eq_Suc)

lemma be32_of_be32:
  assumes "length b = 4" shows "be32 (of_be32 b) = b"
proof -
  obtain x y z w where b: "b = [x, y, z, w]" using length_4E [OF assms] by blast
  show ?thesis unfolding b be32_def
    by (auto intro!: bit_word_eqI simp: bit_simps bit8_beyond)
qed

lemma length_strncpy0 [simp]: "length (strncpy0 n s) = n"
  by (simp add: strncpy0_def)

lemma cstring_replicate_zero [simp]: "cstring (replicate n 0) = []"
  by (cases n) (simp_all add: cstring_def)

lemma cstring_idem [simp]: "cstring (cstring b) = cstring b"
  by (simp add: cstring_def)

lemma cstring_append: "0 \<in> set b \<Longrightarrow> cstring (b @ c) = cstring b"
  by (auto simp: cstring_def)

lemma cstring_append_zeros: "cstring (cstring b @ replicate n 0) = cstring b"
  unfolding cstring_def by (induction b) (simp_all add: takeWhile_replicate)

lemma cstring_strncpy0: "length (cstring s) \<le> n \<Longrightarrow> cstring (strncpy0 n s) = cstring s"
  using cstring_append_zeros by (simp add: strncpy0_def)

end
