(* ===== verification/Crc32.thy ===== *)
theory Crc32
  imports Board_Prelude
begin

text \<open>
  The 32-bit checksum of \<open>board.c\<close> (\<open>getCrc32\<close>) with the table of
  \<open>bcmTag.h\<close>.  The table-driven loop is shown to be the bit-serial division by the
  reflected polynomial \<open>0xEDB88320\<close>, and to be injective in every single byte of its input,
  so that a record protected by it (the NVRAM data, an image tag) is rejected after any one-byte
  corruption.
\<close>

section \<open>Definitions\<close>

definition CRC32_INIT_VALUE :: "32 word" where
  "CRC32_INIT_VALUE = 0xffffffff"

definition Crc32_table :: "32 word list" where
  "Crc32_table =
    [0x00000000, 0x77073096, 0xEE0E612C, 0x990951BA, 0x076DC419, 0x706AF48F,
     0xE963A535, 0x9E6495A3, 0x0EDB8832, 0x79DCB8A4, 0xE0D5E91E, 0x97D2D988,
     0x09B64C2B, 0x7EB17CBD, 0xE7B82D07, 0x90BF1D91, 0x1DB71064, 0x6AB020F2,
     0xF3B97148, 0x84BE41DE, 0x1ADAD47D, 0x6DDDE4EB, 0xF4D4B551, 0x83D385C7,
     0x136C9856, 0x646BA8C0, 0xFD62F97A, 0x8A65C9EC, 0x14015C4F, 0x63066CD9,
     0xFA0F3D63, 0x8D080DF5, 0x3B6E20C8, 0x4C69105E, 0xD56041E4, 0xA2677172,
     0x3C03E4D1, 0x4B04D447, 0xD20D85FD, 0xA50AB56B, 0x35B5A8FA, 0x42B2986C,
     0xDBBBC9D6, 0xACBCF940, 0x32D86CE3, 0x45DF5C75, 0xDCD60DCF, 0xABD13D59,
     0x26D930AC, 0x51DE003A, 0xC8D75180, 0xBFD06116, 0x21B4F4B5, 0x56B3C423,
     0xCFBA9599, 0xB8BDA50F, 0x2802B89E, 0x5F058808, 0xC60CD9B2, 0xB10BE924,
     0x2F6F7C87, 0x58684C11, 0xC1611DAB, 0xB6662D3D, 0x76DC4190, 0x01DB7106,
     0x98D220BC, 0xEFD5102A, 0x71B18589, 0x06B6B51F, 0x9FBFE4A5, 0xE8B8D433,
     0x7807C9A2, 0x0F00F934, 0x9609A88E, 0xE10E9818, 0x7F6A0DBB, 0x086D3D2D,
     0x91646C97, 0xE6635C01, 0x6B6B51F4, 0x1C6C6162, 0x856530D8, 0xF262004E,
     0x6C0695ED, 0x1B01A57B, 0x8208F4C1, 0xF50FC457, 0x65B0D9C6, 0x12B7E950,
     0x8BBEB8EA, 0xFCB9887C, 0x62DD1DDF, 0x15DA2D49, 0x8CD37CF3, 0xFBD44C65,
     0x4DB26158, 0x3AB551CE, 0xA3BC0074, 0xD4BB30E2, 0x4ADFA541, 0x3DD895D7,
     0xA4D1C46D, 0xD3D6F4FB, 0x4369E96A, 0x346ED9FC, 0xAD678846, 0xDA60B8D0,
     0x44042D73, 0x33031DE5, 0xAA0A4C5F, 0xDD0D7CC9, 0x5005713C, 0x270241AA,
     0xBE0B1010, 0xC90C2086, 0x5768B525, 0x206F85B3, 0xB966D409, 0xCE61E49F,
     0x5EDEF90E, 0x29D9C998, 0xB0D09822, 0xC7D7A8B4, 0x59B33D17, 0x2EB40D81,
     0xB7BD5C3B, 0xC0BA6CAD, 0xEDB88320, 0x9ABFB3B6, 0x03B6E20C, 0x74B1D29A,
     0xEAD54739, 0x9DD277AF, 0x04DB2615, 0x73DC1683, 0xE3630B12, 0x94643B84,
     0x0D6D6A3E, 0x7A6A5AA8, 0xE40ECF0B, 0x9309FF9D, 0x0A00AE27, 0x7D079EB1,
     0xF00F9344, 0x8708A3D2, 0x1E01F268, 0x6906C2FE, 0xF762575D, 0x806567CB,
     0x196C3671, 0x6E6B06E7, 0xFED41B76, 0x89D32BE0, 0x10DA7A5A, 0x67DD4ACC,
     0xF9B9DF6F, 0x8EBEEFF9, 0x17B7BE43, 0x60B08ED5, 0xD6D6A3E8, 0xA1D1937E,
     0x38D8C2C4, 0x4FDFF252, 0xD1BB67F1, 0xA6BC5767, 0x3FB506DD, 0x48B2364B,
     0xD80D2BDA, 0xAF0A1B4C, 0x36034AF6, 0x41047A60, 0xDF60EFC3, 0xA867DF55,
     0x316E8EEF, 0x4669BE79, 0xCB61B38C, 0xBC66831A, 0x256FD2A0, 0x5268E236,
     0xCC0C7795, 0xBB0B4703, 0x220216B9, 0x5505262F, 0xC5BA3BBE, 0xB2BD0B28,
     0x2BB45A92, 0x5CB36A04, 0xC2D7FFA7, 0xB5D0CF31, 0x2CD99E8B, 0x5BDEAE1D,
     0x9B64C2B0, 0xEC63F226, 0x756AA39C, 0x026D930A, 0x9C0906A9, 0xEB0E363F,
     0x72076785, 0x05005713, 0x95BF4A82, 0xE2B87A14, 0x7BB12BAE, 0x0CB61B38,
     0x92D28E9B, 0xE5D5BE0D, 0x7CDCEFB7, 0x0BDBDF21, 0x86D3D2D4, 0xF1D4E242,
     0x68DDB3F8, 0x1FDA836E, 0x81BE16CD, 0xF6B9265B, 0x6FB077E1, 0x18B74777,
     0x88085AE6, 0xFF0F6A70, 0x66063BCA, 0x11010B5C, 0x8F659EFF, 0xF862AE69,
     0x616BFFD3, 0x166CCF45, 0xA00AE278, 0xD70DD2EE, 0x4E048354, 0x3903B3C2,
     0xA7672661, 0xD06016F7, 0x4969474D, 0x3E6E77DB, 0xAED16A4A, 0xD9D65ADC,
     0x40DF0B66, 0x37D83BF0, 0xA9BCAE53, 0xDEBB9EC5, 0x47B2CF7F, 0x30B5FFE9,
     0xBDBDF21C, 0xCABAC28A, 0x53B39330, 0x24B4A3A6, 0xBAD03605, 0xCDD70693,
     0x54DE5729, 0x23D967BF, 0xB3667A2E, 0xC4614AB8, 0x5D681B02, 0x2A6F2B94,
     0xB40BBE37, 0xC30C8EA1, 0x5A05DF1B, 0x2D02EF8D]"

definition crc_step :: "32 word \<Rightarrow> 8 word \<Rightarrow> 32 word" where
  "crc_step crc b = drop_bit 8 crc XOR Crc32_table ! unat ((crc XOR ucast b) AND 0xff)"

text \<open>
  The loop reads \<open>size\<close> bytes from \<open>pdata\<close>; reading past the end of the buffer
  has no value.
\<close>

fun getCrc32 :: "bytes \<Rightarrow> nat \<Rightarrow> 32 word \<Rightarrow> 32 word option" where
  "getCrc32 pdata 0 crc = Some crc"
| "getCrc32 [] (Suc n) crc = None"
| "getCrc32 (b # pdata) (Suc n) crc = getCrc32 pdata n (crc_step crc b)"

text \<open>The reference: shift the register right once per bit and subtract the polynomial.\<close>

definition crc_shift :: "32 word \<Rightarrow> 32 word" where
  "crc_shift c = drop_bit 1 c XOR (if bit c 0 then 0xEDB88320 else 0)"

definition crc_bitwise :: "32 word \<Rightarrow> 8 word \<Rightarrow> 32 word" where
  "crc_bitwise crc b = (crc_shift ^^ 8) (crc XOR ucast b)"

section \<open>The shift register is linear and injective\<close>

lemma crc_shift_xor: "crc_shift (a XOR b) = crc_shift a XOR crc_shift b"
  by (rule bit_word_eqI) (auto simp: crc_shift_def bit_simps)

lemma crc_shift_pow_xor: "(crc_shift ^^ n) (a XOR b) = (crc_shift ^^ n) a XOR (crc_shift ^^ n) b"
  by (induction n) (simp_all add: crc_shift_xor)

lemma crc_shift_inj: "inj crc_shift"
proof (rule injI)
  fix a b assume eq: "crc_shift a = crc_shift b"
  have top: "bit (crc_shift x) 31 = bit x 0" for x
    using bit_imp_le_length [of x 32] by (auto simp: crc_shift_def bit_simps)
  have "bit a 0 = bit b 0" using eq top by metis
  then have d: "drop_bit 1 a = drop_bit 1 b"
    using eq by (auto simp: crc_shift_def word_xor_cancel split: if_splits)
  show "a = b"
  proof (rule bit_word_eqI)
    fix n assume "n < LENGTH(32)"
    show "bit a n = bit b n"
    proof (cases n)
      case 0 then show ?thesis using \<open>bit a 0 = bit b 0\<close> by simp
    next
      case (Suc m)
      have "bit (drop_bit 1 a) m = bit (drop_bit 1 b) m" using d by simp
      then show ?thesis using Suc by (simp add: bit_drop_bit_eq)
    qed
  qed
qed

lemma crc_shift_even: "\<not> bit c 0 \<Longrightarrow> crc_shift c = drop_bit 1 c"
  by (simp add: crc_shift_def)

lemma crc_shift_pow_zero_low:
  "\<forall>i<n. \<not> bit c i \<Longrightarrow> (crc_shift ^^ n) c = drop_bit n c"
  by (induction n) (simp_all add: crc_shift_even bit_drop_bit_eq)

section \<open>Every table entry is eight shifts of its index\<close>

text \<open>
  Entry \<open>2 j\<close> shifted once is entry \<open>j\<close>, and entry \<open>2 j + 1\<close>
  differs from entry \<open>2 j\<close> by entry 1; the two lists are the table and its second,
  pairwise, reading.
\<close>

fun crc_table_steps :: "32 word list \<Rightarrow> 32 word list \<Rightarrow> bool" where
  "crc_table_steps (h # hs) (e # d # es) =
     (crc_shift e = h \<and> d = e XOR 0x77073096 \<and> crc_table_steps hs es)"
| "crc_table_steps hs [] = True"
| "crc_table_steps _ _ = False"

lemma crc_table_steps_table: "crc_table_steps Crc32_table Crc32_table"
  unfolding Crc32_table_def by (simp add: crc_shift_def)

lemma length_Crc32_table [simp]: "length Crc32_table = 256"
  by (simp add: Crc32_table_def)

lemma crc_table_steps_nth:
  "crc_table_steps hs es \<Longrightarrow> 2 * i + 1 < length es \<Longrightarrow>
   crc_shift (es ! (2 * i)) = hs ! i \<and> es ! (2 * i + 1) = es ! (2 * i) XOR 0x77073096"
proof (induction hs es arbitrary: i rule: crc_table_steps.induct)
  case (1 h hs e d es)
  then show ?case by (cases i) auto
qed auto

lemma crc_shift8_1: "(crc_shift ^^ 8) 1 = 0x77073096"
proof -
  have "(8 :: nat) = Suc (Suc (Suc (Suc (Suc (Suc (Suc (Suc 0)))))))" by simp
  then show ?thesis by (simp only: funpow.simps o_apply id_apply) (simp add: crc_shift_def)
qed

lemma crc_shift_even_nat:
  "even m \<Longrightarrow> m < 2 ^ 32 \<Longrightarrow> crc_shift (of_nat m) = of_nat (m div 2)"
  by (simp add: crc_shift_def bit_0 word_unat_eq_iff unat_div unsigned_of_nat
      take_bit_nat_eq_self drop_bit_eq_div)

lemma crc_shift_double: "j < 128 \<Longrightarrow> crc_shift (of_nat (2 * j)) = of_nat j"
  using crc_shift_even_nat [of "2 * j"] by simp

lemma of_nat_double_Suc: "j < 128 \<Longrightarrow> (of_nat (2 * j + 1) :: 32 word) = of_nat (2 * j) XOR 1"
  by (simp add: xor_one_eq)

lemma Crc32_table_nth: "i < 256 \<Longrightarrow> Crc32_table ! i = (crc_shift ^^ 8) (of_nat i)"
proof (induction i rule: less_induct)
  case (less i)
  note steps = crc_table_steps_nth [OF crc_table_steps_table]
  define j where "j = i div 2"
  have j: "j < 128" and i: "i = 2 * j \<or> i = 2 * j + 1" using less.prems by (auto simp: j_def)
  have even: "Crc32_table ! (2 * j) = (crc_shift ^^ 8) (of_nat (2 * j))"
  proof (cases "j = 0")
    case True
    have "(crc_shift ^^ n) 0 = 0" for n by (induction n) (simp_all add: crc_shift_def)
    then show ?thesis using True by (simp add: Crc32_table_def)
  next
    case False
    have "crc_shift (Crc32_table ! (2 * j)) = Crc32_table ! j" using steps [of j] j by simp
    also have "\<dots> = (crc_shift ^^ 8) (crc_shift (of_nat (2 * j)))"
      using less.IH [of j] False j i crc_shift_double [of j] by auto
    also have "\<dots> = crc_shift ((crc_shift ^^ 8) (of_nat (2 * j)))" by (simp add: funpow_swap1)
    finally show ?thesis using crc_shift_inj by (auto dest: injD)
  qed
  show ?case
  proof (cases "i = 2 * j")
    case True then show ?thesis using even by simp
  next
    case False
    then have odd: "i = 2 * j + 1" using i by simp
    have "Crc32_table ! i = (crc_shift ^^ 8) (of_nat (2 * j)) XOR (crc_shift ^^ 8) 1"
      using steps [of j] j even odd by (simp add: crc_shift8_1)
    then show ?thesis using odd of_nat_double_Suc [OF j] by (simp only: crc_shift_pow_xor)
  qed
qed

section \<open>The table-driven loop is the bit-serial one\<close>

lemma crc_step_bitwise: "crc_step crc b = crc_bitwise crc b"
proof -
  define x :: "32 word" where "x = crc XOR ucast b"
  have split: "x = (x AND NOT (mask 8)) XOR (x AND mask 8)"
    by (rule bit_word_eqI) (auto simp: bit_simps)
  have top: "bit x (8 + n) \<Longrightarrow> n < 24" for n
    using bit32_less [of x "8 + n"] by simp
  have hi: "(crc_shift ^^ 8) (x AND NOT (mask 8)) = drop_bit 8 x"
    by (subst crc_shift_pow_zero_low)
      (auto simp: bit_simps intro!: bit_word_eqI intro: top)
  have x8: "drop_bit 8 x = drop_bit 8 crc"
    by (rule bit_word_eqI) (auto simp: x_def bit_simps bit8_beyond)
  have lo: "Crc32_table ! unat (x AND mask 8) = (crc_shift ^^ 8) (x AND mask 8)"
  proof -
    have "unat (x AND mask 8) < 256"
      using take_bit_nat_less_exp [of 8 "unat x"]
      by (simp add: unsigned_take_bit_eq take_bit_eq_mask [symmetric])
    then show ?thesis by (simp add: Crc32_table_nth)
  qed
  have "crc_bitwise crc b = (crc_shift ^^ 8) ((x AND NOT (mask 8)) XOR (x AND mask 8))"
    using split by (simp add: crc_bitwise_def x_def)
  also have "\<dots> = drop_bit 8 crc XOR Crc32_table ! unat (x AND mask 8)"
    using crc_shift_pow_xor hi x8 lo by metis
  finally show ?thesis by (simp add: crc_step_def x_def mask_eq_exp_minus_1)
qed

lemma getCrc32_fold:
  "n \<le> length pdata \<Longrightarrow> getCrc32 pdata n crc = Some (foldl crc_bitwise crc (take n pdata))"
  by (induction pdata n crc rule: getCrc32.induct) (auto simp: crc_step_bitwise)

lemma getCrc32_overrun: "length pdata < n \<Longrightarrow> getCrc32 pdata n crc = None"
  by (induction pdata n crc rule: getCrc32.induct) auto

lemma crc_bitwise_eq_iff: "crc_bitwise a b = crc_bitwise a' b' \<longleftrightarrow> a XOR ucast b = a' XOR ucast b'"
  using inj_eq [OF inj_fn [OF crc_shift_inj, of 8]] by (simp add: crc_bitwise_def)

lemma crc_bitwise_inj_crc: "crc_bitwise a b = crc_bitwise a' b \<Longrightarrow> a = a'"
  by (simp add: crc_bitwise_eq_iff word_xor_cancel)

lemma crc_bitwise_inj_byte:
  assumes "crc_bitwise a b = crc_bitwise a b'"
  shows "b = b'"
proof -
  have low: "ucast (ucast x :: 32 word) = x" for x :: "8 word"
    by (rule bit_word_eqI) (simp add: bit_simps)
  have "(ucast b :: 32 word) = ucast b'"
    using assms by (simp add: crc_bitwise_eq_iff word_xor_cancel_left)
  then show ?thesis using low by metis
qed

lemma foldl_crc_inj: "foldl crc_bitwise a xs = foldl crc_bitwise a' xs \<Longrightarrow> a = a'"
  by (induction xs arbitrary: a a') (auto dest: crc_bitwise_inj_crc)

lemma foldl_crc_one_byte:
  assumes "foldl crc_bitwise c (xs @ b # ys) = foldl crc_bitwise c (xs @ b' # ys)"
  shows "b = b'"
  using assms by (auto dest!: foldl_crc_inj crc_bitwise_inj_byte)

text \<open>
  C4.  \<open>getCrc32\<close> computes the CRC-32 remainder: for every buffer, size and start value the
  table-driven loop returns what dividing bit by bit by the reflected polynomial
  \<open>0xEDB88320\<close> returns on the first \<open>size\<close> bytes, and it reads past the buffer
  exactly when the buffer has fewer than \<open>size\<close> bytes.
\<close>

theorem getCrc32_bitwise:
  "getCrc32 pdata n crc =
     (if n \<le> length pdata then Some (foldl crc_bitwise crc (take n pdata)) else None)"
  by (simp add: getCrc32_fold getCrc32_overrun)

end
