(* ===== verification/Flash_Api.thy ===== *)
theory Flash_Api
  imports Board_Prelude
begin

text \<open>
  The flash interface of \<open>flash_api.c\<close>: a table of driver functions
  (\<open>flash_device_info_t\<close>), the dispatchers that call through it, and the contract a driver
  gives its clients.  A driver works on a machine state of type \<^typ>\<open>'d\<close> (its static
  variables and the chip).  A call has the value \<^term>\<open>None\<close> when it accesses memory out
  of range or does not return.  Sector numbers are \<open>unsigned short\<close>, every other integer is
  a 32-bit \<open>int\<close>.
\<close>

section \<open>Definitions\<close>

definition FLASH_API_OK :: int where "FLASH_API_OK = 1"
definition FLASH_API_ERROR :: int where "FLASH_API_ERROR = -1"

definition FLASH_BASE :: int where "FLASH_BASE = 0xBFC00000"

record 'd flash_device_info =
  flash_device_id :: "16 word"
  flash_device_name :: string
  fn_flash_sector_erase_int :: "int \<Rightarrow> 'd \<Rightarrow> (int \<times> 'd) option"
  fn_flash_read_buf :: "int \<Rightarrow> int \<Rightarrow> bytes \<Rightarrow> int \<Rightarrow> 'd \<Rightarrow> (int \<times> bytes \<times> 'd) option"
  fn_flash_write_buf :: "int \<Rightarrow> int \<Rightarrow> bytes \<Rightarrow> int \<Rightarrow> 'd \<Rightarrow> (int \<times> 'd) option"
  fn_flash_get_numsectors :: "'d \<Rightarrow> int"
  fn_flash_get_sector_size :: "int \<Rightarrow> 'd \<Rightarrow> int option"
  fn_flash_get_memptr :: "int \<Rightarrow> 'd \<Rightarrow> int option"
  fn_flash_get_blk :: "int \<Rightarrow> 'd \<Rightarrow> int option"
  fn_flash_get_total_size :: "'d \<Rightarrow> int"
  fn_flash_get_total_memory_mapped_size :: "'d \<Rightarrow> int"

text \<open>
  \<open>flash_init\<close> tries the parallel driver, then the serial one.  The two driver
  initialisations are arguments; each returns its status, the table it published and the new
  state.  The result is the status and the new value of \<open>g_flash_info\<close>.
\<close>

definition flash_init ::
  "('d \<Rightarrow> (int \<times> 'd flash_device_info \<times> 'd) option) \<Rightarrow>
   ('d \<Rightarrow> (int \<times> 'd flash_device_info \<times> 'd) option) \<Rightarrow> bool \<Rightarrow> bool \<Rightarrow>
   'd flash_device_info option \<Rightarrow> 'd \<Rightarrow> (int \<times> 'd flash_device_info option \<times> 'd) option"
where
  "flash_init cfi_flash_init spi_flash_init include_cfi include_spi g s =
     do {
       (ret, g, s) \<leftarrow>
         (if include_cfi then
            do {
              (ret, flash_info, s) \<leftarrow> cfi_flash_init s;
              Some (ret, if ret = FLASH_API_OK then Some flash_info else g, s)
            }
          else Some (FLASH_API_ERROR, g, s));
       if ret \<noteq> FLASH_API_OK \<and> include_spi then
         do {
           (ret, flash_info, s) \<leftarrow> spi_flash_init s;
           Some (ret, if ret = FLASH_API_OK then Some flash_info else g, s)
         }
       else Some (ret, g, s)
     }"

definition flash_sector_erase_int ::
  "'d flash_device_info option \<Rightarrow> int \<Rightarrow> 'd \<Rightarrow> (int \<times> 'd) option" where
  "flash_sector_erase_int g sector s =
     (case g of Some dev \<Rightarrow> fn_flash_sector_erase_int dev (u16 sector) s
      | None \<Rightarrow> Some (FLASH_API_ERROR, s))"

definition flash_read_buf ::
  "'d flash_device_info option \<Rightarrow> int \<Rightarrow> int \<Rightarrow> bytes \<Rightarrow> int \<Rightarrow> 'd \<Rightarrow> (int \<times> bytes \<times> 'd) option"
where
  "flash_read_buf g sector offset buffer numbytes s =
     (case g of Some dev \<Rightarrow> fn_flash_read_buf dev (u16 sector) offset buffer numbytes s
      | None \<Rightarrow> Some (FLASH_API_ERROR, buffer, s))"

definition flash_write_buf ::
  "'d flash_device_info option \<Rightarrow> int \<Rightarrow> int \<Rightarrow> bytes \<Rightarrow> int \<Rightarrow> 'd \<Rightarrow> (int \<times> 'd) option"
where
  "flash_write_buf g sector offset buffer numbytes s =
     (case g of Some dev \<Rightarrow> fn_flash_write_buf dev (u16 sector) offset buffer numbytes s
      | None \<Rightarrow> Some (FLASH_API_ERROR, s))"

definition flash_get_numsectors :: "'d flash_device_info option \<Rightarrow> 'd \<Rightarrow> int" where
  "flash_get_numsectors g s =
     (case g of Some dev \<Rightarrow> fn_flash_get_numsectors dev s | None \<Rightarrow> FLASH_API_ERROR)"

definition flash_get_sector_size :: "'d flash_device_info option \<Rightarrow> int \<Rightarrow> 'd \<Rightarrow> int option" where
  "flash_get_sector_size g sector s =
     (case g of Some dev \<Rightarrow> fn_flash_get_sector_size dev (u16 sector) s
      | None \<Rightarrow> Some FLASH_API_ERROR)"

definition flash_get_memptr :: "'d flash_device_info option \<Rightarrow> int \<Rightarrow> 'd \<Rightarrow> int option" where
  "flash_get_memptr g sector s =
     (case g of Some dev \<Rightarrow> fn_flash_get_memptr dev (u16 sector) s | None \<Rightarrow> Some 0)"

definition flash_get_blk :: "'d flash_device_info option \<Rightarrow> int \<Rightarrow> 'd \<Rightarrow> int option" where
  "flash_get_blk g addr s =
     (case g of Some dev \<Rightarrow> fn_flash_get_blk dev (s32 addr) s | None \<Rightarrow> Some FLASH_API_ERROR)"

definition flash_get_total_size :: "'d flash_device_info option \<Rightarrow> 'd \<Rightarrow> int" where
  "flash_get_total_size g s =
     (case g of Some dev \<Rightarrow> fn_flash_get_total_size dev s | None \<Rightarrow> FLASH_API_ERROR)"

definition flash_get_total_memory_mapped_size :: "'d flash_device_info option \<Rightarrow> 'd \<Rightarrow> int" where
  "flash_get_total_memory_mapped_size g s =
     (case g of Some dev \<Rightarrow> fn_flash_get_total_memory_mapped_size dev s
      | None \<Rightarrow> FLASH_API_ERROR)"

text \<open>
  The sector that holds a byte address of the device, given the list of sector sizes: what
  \<open>flash_get_blk\<close> is for.
\<close>

fun blk_of :: "nat list \<Rightarrow> nat \<Rightarrow> nat" where
  "blk_of [] a = 0"
| "blk_of (n # ns) a = (if a < n then 0 else Suc (blk_of ns (a - n)))"

definition blk_base :: "nat list \<Rightarrow> nat \<Rightarrow> nat" where
  "blk_base geom i = sum_list (take i geom)"

section \<open>The sector of an address\<close>

lemma blk_of_less: "a < sum_list geom \<Longrightarrow> blk_of geom a < length geom"
  by (induction geom a rule: blk_of.induct) auto

lemma blk_base_0 [simp]: "blk_base geom 0 = 0"
  by (simp add: blk_base_def)

lemma blk_base_Suc: "i < length geom \<Longrightarrow> blk_base geom (Suc i) = blk_base geom i + geom ! i"
  by (simp add: blk_base_def take_Suc_conv_app_nth)

lemma blk_base_Cons [simp]: "blk_base (n # ns) (Suc i) = n + blk_base ns i"
  by (simp add: blk_base_def)

lemma blk_base_length [simp]: "blk_base geom (length geom) = sum_list geom"
  by (simp add: blk_base_def)

lemma blk_base_mono: "i \<le> j \<Longrightarrow> blk_base geom i \<le> blk_base geom j"
proof -
  assume "i \<le> j"
  then have "take j geom = take i geom @ take (j - i) (drop i geom)"
    by (metis le_add_diff_inverse take_add)
  then show ?thesis by (simp add: blk_base_def)
qed

lemma blk_base_le_total: "blk_base geom i \<le> sum_list geom"
  by (metis append_take_drop_id blk_base_def le_add1 sum_list_append)

lemma blk_of_bounds:
  "a < sum_list geom \<Longrightarrow>
   blk_base geom (blk_of geom a) \<le> a \<and> a < blk_base geom (Suc (blk_of geom a))"
proof (induction geom a rule: blk_of.induct)
  case (2 n ns a)
  show ?case
  proof (cases "a < n")
    case False
    then have "a - n < sum_list ns" using 2(2) by auto
    with 2(1) [OF False this] False show ?thesis by auto
  qed simp
qed simp

lemma blk_of_unique:
  assumes "i < length geom" "blk_base geom i \<le> a" "a < blk_base geom (Suc i)"
  shows "blk_of geom a = i"
  using assms
proof (induction geom a arbitrary: i rule: blk_of.induct)
  case (2 n ns a)
  then show ?case
  proof (cases i)
    case (Suc j)
    with 2 show ?thesis by auto
  qed auto
qed auto

lemma blk_of_mono: "a \<le> b \<Longrightarrow> b < sum_list geom \<Longrightarrow> blk_of geom a \<le> blk_of geom b"
proof (rule ccontr)
  assume ab: "a \<le> b" "b < sum_list geom" and n: "\<not> blk_of geom a \<le> blk_of geom b"
  have "blk_base geom (Suc (blk_of geom b)) \<le> blk_base geom (blk_of geom a)"
    using n by (intro blk_base_mono) simp
  then show False using blk_of_bounds [of b geom] blk_of_bounds [of a geom] ab by simp
qed

section \<open>The contract of a driver\<close>

text \<open>
  \<open>contents\<close> is the device as a list of sectors.  Every operation keeps the driver's
  invariant \<open>ok\<close> and touches no sector but the one it is given.  A write to a sector that was
  erased just before and that reports all its bytes has stored them.  Nothing is promised about a
  failing erase or write, nor about a write to a sector that was not erased.
\<close>

locale flash_device =
  fixes dev :: "'d flash_device_info"
    and ok :: "'d \<Rightarrow> bool"
    and geom :: "nat list"
    and contents :: "'d \<Rightarrow> bytes list"
  assumes geom_sectors: "0 < length geom" "length geom \<le> 1024"
    and geom_size: "n \<in> set geom \<Longrightarrow> 0 < n \<and> even n" "sum_list geom \<le> 0x4000000"
    and contents_shape: "ok d \<Longrightarrow> map length (contents d) = geom"
    and numsectors: "ok d \<Longrightarrow> fn_flash_get_numsectors dev d = int (length geom)"
    and sector_size: "ok d \<Longrightarrow> i < length geom \<Longrightarrow>
          fn_flash_get_sector_size dev (int i) d = Some (int (geom ! i))"
    and memptr: "ok d \<Longrightarrow> i < length geom \<Longrightarrow>
          fn_flash_get_memptr dev (int i) d = Some (FLASH_BASE + int (blk_base geom i))"
    and get_blk: "ok d \<Longrightarrow> a < sum_list geom \<Longrightarrow>
          fn_flash_get_blk dev (s32 (FLASH_BASE + int a)) d = Some (int (blk_of geom a))"
    and total_size: "ok d \<Longrightarrow> fn_flash_get_total_size dev d = int (sum_list geom)"
    and read_buf: "ok d \<Longrightarrow> i < length geom \<Longrightarrow> off + n \<le> geom ! i \<Longrightarrow> n \<le> length buf \<Longrightarrow>
          \<exists>r d'. fn_flash_read_buf dev (int i) (int off) buf (int n) d =
              Some (r, take n (drop off (contents d ! i)) @ drop n buf, d')
            \<and> ok d' \<and> contents d' = contents d"
    and erase: "ok d \<Longrightarrow> i < length geom \<Longrightarrow>
          \<exists>r x d'. fn_flash_sector_erase_int dev (int i) d = Some (r, d')
            \<and> ok d' \<and> contents d' = (contents d)[i := x] \<and> length x = geom ! i"
    and rewrite: "ok d \<Longrightarrow> i < length geom \<Longrightarrow> off + n \<le> geom ! i \<Longrightarrow> n \<le> length buf \<Longrightarrow>
          even off \<Longrightarrow> even n \<Longrightarrow> fn_flash_sector_erase_int dev (int i) d = Some (e, d1) \<Longrightarrow>
          \<exists>r x d'. fn_flash_write_buf dev (int i) (int off) buf (int n) d1 = Some (r, d')
            \<and> ok d' \<and> contents d' = (contents d)[i := x] \<and> length x = geom ! i
            \<and> (r = int n \<longrightarrow> take n (drop off x) = take n buf)"

text \<open>
  A device that does not fail: an erase leaves the sector at \<open>0xff\<close>, and a write to erased
  bytes stores its data and nothing else.
\<close>

locale reliable_flash_device = flash_device +
  assumes erase_reliable: "ok d \<Longrightarrow> i < length geom \<Longrightarrow>
          \<exists>r d'. fn_flash_sector_erase_int dev (int i) d = Some (r, d')
            \<and> ok d' \<and> contents d' = (contents d)[i := replicate (geom ! i) 0xff]"
    and write_reliable: "ok d \<Longrightarrow> i < length geom \<Longrightarrow> off + n \<le> geom ! i \<Longrightarrow> n \<le> length buf \<Longrightarrow>
          even off \<Longrightarrow> even n \<Longrightarrow> take n (drop off (contents d ! i)) = replicate n 0xff \<Longrightarrow>
          \<exists>d'. fn_flash_write_buf dev (int i) (int off) buf (int n) d = Some (int n, d')
            \<and> ok d' \<and> contents d' =
                (contents d)[i := take off (contents d ! i) @ take n buf @ drop (off + n) (contents d ! i)]"

end
