(* ===== verification/Cfi_Flash.thy ===== *)
theory Cfi_Flash
  imports Flash_Api
begin

text \<open>
  The parallel flash driver of \<open>cfiflash.c\<close>: identification of the part, the sector table
  built from its CFI query, the bus cycles of each command for each chip family, polling,
  programming with verify and retry, erasing, and the address arithmetic.  The chip is an
  argument: a word read and a word write on the 16-bit bus, by word address from
  \<open>FLASH_BASE\<close>.  The state holds the static variables of the file, the semaphore count of
  \<open>cfi_flash_lock\<close> and whether the call is made in interrupt context; waiting for a semaphore
  of count 0 does not return.
\<close>

section \<open>Parts\<close>

datatype flash_family = FLASH_UNDEFINED | FLASH_AMD | FLASH_INTEL | FLASH_SST

datatype flash_command =
  FLASH_RESET | FLASH_READ_ID | FLASH_CFIQUERY | FLASH_UB | FLASH_PROG | FLASH_UBRESET | FLASH_SERASE

datatype flash_status = STATUS_READY | STATUS_TIMEOUT

abbreviation MAXSECTORS :: nat where "MAXSECTORS \<equiv> 1024"

abbreviation ID_AM29DL800T :: "16 word" where "ID_AM29DL800T \<equiv> 0x224A"
abbreviation ID_AM29DL800B :: "16 word" where "ID_AM29DL800B \<equiv> 0x22CB"
abbreviation ID_AM29LV800T :: "16 word" where "ID_AM29LV800T \<equiv> 0x22DA"
abbreviation ID_AM29LV800B :: "16 word" where "ID_AM29LV800B \<equiv> 0x225B"
abbreviation ID_AM29LV400B :: "16 word" where "ID_AM29LV400B \<equiv> 0x22BA"
abbreviation ID_AM29LV200BT :: "16 word" where "ID_AM29LV200BT \<equiv> 0x223B"
abbreviation ID_AM29LV160B :: "16 word" where "ID_AM29LV160B \<equiv> 0x2249"
abbreviation ID_AM29LV160T :: "16 word" where "ID_AM29LV160T \<equiv> 0x22C4"
abbreviation ID_AM29LV320T :: "16 word" where "ID_AM29LV320T \<equiv> 0x22F6"
abbreviation ID_MX29LV320AT :: "16 word" where "ID_MX29LV320AT \<equiv> 0x22A7"
abbreviation ID_AM29LV320B :: "16 word" where "ID_AM29LV320B \<equiv> 0x22F9"
abbreviation ID_MX29LV320AB :: "16 word" where "ID_MX29LV320AB \<equiv> 0x22A8"
abbreviation ID_MX29LV640BT :: "16 word" where "ID_MX29LV640BT \<equiv> 0x22C9"
abbreviation ID_AM29LV320M :: "16 word" where "ID_AM29LV320M \<equiv> 0x227E"
abbreviation ID_AM29LV320MB :: "16 word" where "ID_AM29LV320MB \<equiv> 0x2200"
abbreviation ID_AM29LV320MT :: "16 word" where "ID_AM29LV320MT \<equiv> 0x2201"
abbreviation ID_SST39VF200A :: "16 word" where "ID_SST39VF200A \<equiv> 0x2789"
abbreviation ID_SST39VF400A :: "16 word" where "ID_SST39VF400A \<equiv> 0x2780"
abbreviation ID_SST39VF800A :: "16 word" where "ID_SST39VF800A \<equiv> 0x2781"
abbreviation ID_SST39VF1601 :: "16 word" where "ID_SST39VF1601 \<equiv> 0x234B"
abbreviation ID_SST39VF3201 :: "16 word" where "ID_SST39VF3201 \<equiv> 0x235B"
abbreviation ID_SST39VF6401 :: "16 word" where "ID_SST39VF6401 \<equiv> 0x236B"
abbreviation ID_I28F160C3T :: "16 word" where "ID_I28F160C3T \<equiv> 0x88C2"
abbreviation ID_I28F160C3B :: "16 word" where "ID_I28F160C3B \<equiv> 0x88C3"
abbreviation ID_I28F320C3T :: "16 word" where "ID_I28F320C3T \<equiv> 0x88C4"
abbreviation ID_I28F320C3B :: "16 word" where "ID_I28F320C3B \<equiv> 0x88C5"
abbreviation ID_I28F640J3 :: "16 word" where "ID_I28F640J3 \<equiv> 0x8916"
abbreviation ID_K8D6316UTM :: "16 word" where "ID_K8D6316UTM \<equiv> 0x22E0"
abbreviation ID_K8D6316UBM :: "16 word" where "ID_K8D6316UBM \<equiv> 0x22E2"
definition CFI_FLASH_DEVICES :: "(16 word \<times> string) list" where
  "CFI_FLASH_DEVICES =
    [(ID_AM29DL800T, ''AM29DL800T''), (ID_AM29DL800B, ''AM29DL800B''),
     (ID_AM29LV800T, ''AM29LV800T''), (ID_AM29LV800B, ''AM29LV800B''),
     (ID_AM29LV400B, ''AM29LV400B''), (ID_AM29LV200BT, ''AM29LV200BT''),
     (ID_AM29LV160B, ''AM29LV160B''), (ID_AM29LV160T, ''AM29LV160T''),
     (ID_AM29LV320T, ''AM29LV320T''), (ID_MX29LV320AT, ''MX29LV320AT''),
     (ID_AM29LV320B, ''AM29LV320B''), (ID_MX29LV320AB, ''MX29LV320AB''),
     (ID_AM29LV320M, ''AM29LV320M''), (ID_AM29LV320MB, ''AM29LV320MB''),
     (ID_AM29LV320MT, ''AM29LV320MT''), (ID_MX29LV640BT, ''MX29LV640BT''),
     (ID_SST39VF200A, ''SST39VF200A''), (ID_SST39VF400A, ''SST39VF400A''),
     (ID_SST39VF800A, ''SST39VF800A''), (ID_SST39VF1601, ''SST39VF1601''),
     (ID_SST39VF3201, ''SST39VF3201''), (ID_SST39VF6401, ''SST39VF6401''),
     (ID_I28F160C3T, ''I28F160C3T''), (ID_I28F160C3B, ''I28F160C3B''),
     (ID_I28F320C3T, ''I28F320C3T''), (ID_I28F320C3B, ''I28F320C3B''),
     (ID_I28F640J3, ''I28F640J3''), (ID_K8D6316UTM, ''K8D6316UTM''),
     (ID_K8D6316UBM, ''K8D6316UBM'')]"
text \<open>The two switches over the device id: the command family, and whether the sector table is
  built from the last erase region to the first (top boot parts).  Other ids are refused.\<close>

definition cfi_family :: "16 word \<Rightarrow> flash_family option" where
  "cfi_family device_id =
     (if device_id \<in> {ID_I28F160C3B, ID_I28F320C3B, ID_I28F160C3T, ID_I28F320C3T, ID_I28F640J3}
      then Some FLASH_INTEL
      else if device_id \<in> {ID_AM29DL800B, ID_AM29LV800B, ID_AM29LV400B, ID_AM29LV160B,
          ID_AM29LV320B, ID_MX29LV320AB, ID_AM29LV320MB, ID_AM29DL800T, ID_AM29LV800T,
          ID_AM29LV160T, ID_AM29LV320T, ID_MX29LV320AT, ID_AM29LV320MT, ID_AM29LV200BT,
          ID_MX29LV640BT, ID_K8D6316UTM, ID_K8D6316UBM}
      then Some FLASH_AMD
      else if device_id \<in> {ID_SST39VF200A, ID_SST39VF400A, ID_SST39VF800A, ID_SST39VF1601,
          ID_SST39VF3201, ID_SST39VF6401}
      then Some FLASH_SST
      else None)"

definition cfi_flip :: "16 word \<Rightarrow> bool option" where
  "cfi_flip device_id =
     (if device_id \<in> {ID_AM29DL800B, ID_AM29LV800B, ID_AM29LV400B, ID_AM29LV160B, ID_AM29LV320B,
          ID_MX29LV320AB, ID_AM29LV320MB, ID_I28F160C3B, ID_I28F320C3B, ID_I28F640J3,
          ID_I28F160C3T, ID_I28F320C3T, ID_SST39VF3201, ID_SST39VF6401, ID_SST39VF200A,
          ID_SST39VF400A, ID_SST39VF800A, ID_K8D6316UBM}
      then Some False
      else if device_id \<in> {ID_AM29DL800T, ID_AM29LV800T, ID_AM29LV160T, ID_AM29LV320T,
          ID_MX29LV320AT, ID_AM29LV320MT, ID_AM29LV200BT, ID_SST39VF1601, ID_MX29LV640BT,
          ID_K8D6316UTM}
      then Some True
      else None)"

definition cfi_data_struct_29W160 :: "16 word list" where
  "cfi_data_struct_29W160 =
    [0x0020, 0x0049, 0xffff, 0xffff, 0xffff, 0xffff, 0xffff, 0xffff,
     0xffff, 0xffff, 0xffff, 0xffff, 0xffff, 0xffff, 0xffff, 0xffff,
     0x0051, 0x0052, 0x0059, 0x0002, 0x0000, 0x0040, 0x0000, 0x0000,
     0x0000, 0x0000, 0x0000, 0x0027, 0x0036, 0x0000, 0x0000, 0x0004,
     0x0000, 0x000a, 0x0000, 0x0004, 0x0000, 0x0003, 0x0000, 0x0015,
     0x0002, 0x0000, 0x0000, 0x0000, 0x0004, 0x0000, 0x0000, 0x0040,
     0x0000, 0x0001, 0x0000, 0x0020, 0x0000, 0x0000, 0x0000, 0x0080,
     0x0000, 0x001e, 0x0000, 0x0000, 0x0001, 0xffff, 0xffff, 0xffff,
     0x0050, 0x0052, 0x0049, 0x0031, 0x0030, 0x0000, 0x0002, 0x0001,
     0x0001, 0x0004, 0x0000, 0x0000, 0x0000, 0xffff, 0xffff, 0x0002,
     0xffff, 0xffff, 0xffff, 0xffff, 0xffff, 0xffff, 0xffff, 0xffff,
     0xffff, 0xffff, 0xffff, 0xffff, 0xffff, 0xffff, 0xffff, 0xffff,
     0xffff, 0x0888, 0x252b, 0x8c84, 0x7dbc, 0xffff, 0xffff, 0xffff,
     0xffff, 0xffff, 0xffff, 0xffff, 0xffff, 0xffff, 0xffff, 0xffff,
     0xffff, 0xffff, 0xffff, 0xffff, 0xffff, 0xffff, 0xffff, 0xffff,
     0xffff, 0xffff, 0xffff, 0xffff, 0xffff, 0xffff, 0xffff, 0xffff]"

definition cfi_data_struct_29W200 :: "16 word list" where
  "cfi_data_struct_29W200 =
    [0x0020, 0x0049, 0xffff, 0xffff, 0xffff, 0xffff, 0xffff, 0xffff,
     0xffff, 0xffff, 0xffff, 0xffff, 0xffff, 0xffff, 0xffff, 0xffff,
     0x0051, 0x0052, 0x0059, 0x0002, 0x0000, 0x0040, 0x0000, 0x0000,
     0x0000, 0x0000, 0x0000, 0x0027, 0x0036, 0x0000, 0x0000, 0x0004,
     0x0000, 0x000a, 0x0000, 0x0004, 0x0000, 0x0003, 0x0000, 0x0015,
     0x0002, 0x0000, 0x0000, 0x0000, 0x0004, 0x0000, 0x0000, 0x0040,
     0x0000, 0x0001, 0x0000, 0x0020, 0x0000, 0x0000, 0x0000, 0x0080,
     0x0000, 0x0002, 0x0000, 0x0000, 0x0001, 0xffff, 0xffff, 0xffff,
     0x0050, 0x0052, 0x0049, 0x0031, 0x0030, 0x0000, 0x0002, 0x0001,
     0x0001, 0x0004, 0x0000, 0x0000, 0x0000, 0xffff, 0xffff, 0x0002,
     0xffff, 0xffff, 0xffff, 0xffff, 0xffff, 0xffff, 0xffff, 0xffff,
     0xffff, 0xffff, 0xffff, 0xffff, 0xffff, 0xffff, 0xffff, 0xffff,
     0xffff, 0x0888, 0x252b, 0x8c84, 0x7dbc, 0xffff, 0xffff, 0xffff,
     0xffff, 0xffff, 0xffff, 0xffff, 0xffff, 0xffff, 0xffff, 0xffff,
     0xffff, 0xffff, 0xffff, 0xffff, 0xffff, 0xffff, 0xffff, 0xffff,
     0xffff, 0xffff, 0xffff, 0xffff, 0xffff, 0xffff, 0xffff, 0xffff]"

definition cfi_data_struct_26LV800B :: "16 word list" where
  "cfi_data_struct_26LV800B =
    [0x0020, 0x0049, 0xffff, 0xffff, 0xffff, 0xffff, 0xffff, 0xffff,
     0xffff, 0xffff, 0xffff, 0xffff, 0xffff, 0xffff, 0xffff, 0xffff,
     0x0051, 0x0052, 0x0059, 0x0002, 0x0000, 0x0040, 0x0000, 0x0000,
     0x0000, 0x0000, 0x0000, 0x0027, 0x0036, 0x0000, 0x0000, 0x0004,
     0x0000, 0x000a, 0x0000, 0x0004, 0x0000, 0x0003, 0x0000, 0x0015,
     0x0002, 0x0000, 0x0000, 0x0000, 0x0004, 0x0000, 0x0000, 0x0040,
     0x0000, 0x0001, 0x0000, 0x0020, 0x0000, 0x0000, 0x0000, 0x0080,
     0x0000, 0x000e, 0x0000, 0x0000, 0x0001, 0xffff, 0xffff, 0xffff,
     0x0050, 0x0052, 0x0049, 0x0031, 0x0030, 0x0000, 0x0002, 0x0001,
     0x0001, 0x0004, 0x0000, 0x0000, 0x0000, 0xffff, 0xffff, 0x0002,
     0xffff, 0xffff, 0xffff, 0xffff, 0xffff, 0xffff, 0xffff, 0xffff,
     0xffff, 0xffff, 0xffff, 0xffff, 0xffff, 0xffff, 0xffff, 0xffff,
     0xffff, 0x0888, 0x252b, 0x8c84, 0x7dbc, 0xffff, 0xffff, 0xffff,
     0xffff, 0xffff, 0xffff, 0xffff, 0xffff, 0xffff, 0xffff, 0xffff,
     0xffff, 0xffff, 0xffff, 0xffff, 0xffff, 0xffff, 0xffff, 0xffff,
     0xffff, 0xffff, 0xffff, 0xffff, 0xffff, 0xffff, 0xffff, 0xffff]"
section \<open>State\<close>

record flash_sec =
  sec_size :: int
  sec_base :: int
  sec_bank :: int

record flashinfo =
  addr :: int
  areg :: int
  nsect :: int
  bank1start :: int
  bank2start :: int
  sec :: "nat \<Rightarrow> flash_sec"

record cfi_query =
  num_erase_blocks :: int
  device_size :: int
  erase_sector_size :: "nat \<Rightarrow> int"
  erase_num_sectors :: "nat \<Rightarrow> int"

record 'c nor_chip =
  nor_read :: "int \<Rightarrow> 'c \<Rightarrow> 16 word \<times> 'c"
  nor_write :: "int \<Rightarrow> 16 word \<Rightarrow> 'c \<Rightarrow> 'c"

record 'c cfi_state =
  meminfo :: flashinfo
  flashFamily :: flash_family
  totalSize :: int
  query :: cfi_query
  cfi_device_id :: "16 word"
  cfi_device_name :: string
  cfi_flash_lock :: nat
  in_interrupt :: bool
  chip :: 'c

text \<open>
  Taking the lock; a lock that is taken is waited for without end.  A wait that a signal interrupts is
  not modelled: the code does not look at the result, goes on without the lock and releases it
  nevertheless.
\<close>

definition down_interruptible :: "'c cfi_state \<Rightarrow> 'c cfi_state option" where
  "down_interruptible s =
     (if in_interrupt s then Some s
      else if cfi_flash_lock s = 0 then None
      else Some (s\<lparr>cfi_flash_lock := cfi_flash_lock s - 1\<rparr>))"

definition up :: "'c cfi_state \<Rightarrow> 'c cfi_state" where
  "up s = (if in_interrupt s then s else s\<lparr>cfi_flash_lock := cfi_flash_lock s + 1\<rparr>)"

section \<open>Addresses\<close>

definition cfi_flash_get_numsectors :: "'c cfi_state \<Rightarrow> int" where
  "cfi_flash_get_numsectors s = nsect (meminfo s)"

definition cfi_sec :: "'c cfi_state \<Rightarrow> int \<Rightarrow> flash_sec option" where
  "cfi_sec s sector =
     (if 0 \<le> sector \<and> sector < int MAXSECTORS then Some (sec (meminfo s) (nat sector)) else None)"

definition cfi_flash_get_sector_size :: "int \<Rightarrow> 'c cfi_state \<Rightarrow> int option" where
  "cfi_flash_get_sector_size sector s = map_option sec_size (cfi_sec s sector)"

definition cfi_flash_get_memptr :: "int \<Rightarrow> 'c cfi_state \<Rightarrow> int option" where
  "cfi_flash_get_memptr sector s =
     map_option (\<lambda>m. u32 (FLASH_BASE + sec_base m)) (cfi_sec s sector)"

function cfi_blk_loop :: "'c cfi_state \<Rightarrow> int \<Rightarrow> int \<Rightarrow> int \<Rightarrow> (int \<times> int) option" where
  "cfi_blk_loop s relative_addr blk_start i =
     (if i < relative_addr \<and> blk_start < cfi_flash_get_numsectors s then
        do {
          sz \<leftarrow> cfi_flash_get_sector_size (u16 blk_start) s;
          cfi_blk_loop s relative_addr (blk_start + 1) (s32 (i + sz))
        }
      else Some (blk_start, i))"
  by pat_completeness auto
termination
  by (relation "measure (\<lambda>(s, r, b, i). nat (cfi_flash_get_numsectors s - b))") auto

declare cfi_blk_loop.simps [simp del]

definition cfi_flash_get_blk :: "int \<Rightarrow> 'c cfi_state \<Rightarrow> int option" where
  "cfi_flash_get_blk a s =
     (let relative_addr = s32 (a - s32 FLASH_BASE) in
      do {
        (blk_start, i) \<leftarrow> cfi_blk_loop s relative_addr 0 0;
        Some (if i > relative_addr then blk_start - 1
              else if blk_start = cfi_flash_get_numsectors s then -1
              else blk_start)
      })"

definition cfi_flash_get_total_size :: "'c cfi_state \<Rightarrow> int" where
  "cfi_flash_get_total_size s = totalSize s"

section \<open>Bus cycles\<close>

text \<open>
  A pointer to a 16-bit array at byte offset \<open>p\<close> of the device, indexed by
  \<open>k\<close>, is word \<open>p div 2 + k\<close> (every sector base is even).  \<open>half\<close>
  is C's division by 2.
\<close>

fun cfi_cycles ::
  "flash_family \<Rightarrow> flash_command \<Rightarrow> int \<Rightarrow> int \<Rightarrow> int \<Rightarrow> 16 word \<Rightarrow> (int \<times> 16 word) list" where
  "cfi_cycles FLASH_UNDEFINED FLASH_RESET p b offset data = [(p, 0xF0), (p, 0xFF)]"
| "cfi_cycles FLASH_UNDEFINED FLASH_READ_ID p b offset data =
     [(p + 0x5555, 0xAA), (p + 0x2AAA, 0x55), (p + 0x5555, 0x90)]"
| "cfi_cycles FLASH_UNDEFINED FLASH_CFIQUERY p b offset data =
     [(b + 0x5555, 0xAA), (b + 0x2AAA, 0x55), (b + 0x5555, 0x90)]"
| "cfi_cycles FLASH_UNDEFINED _ p b offset data = []"
| "cfi_cycles FLASH_AMD FLASH_RESET p b offset data = [(p, 0xF0)]"
| "cfi_cycles FLASH_AMD FLASH_READ_ID p b offset data =
     [(p + 0x555, 0xAA), (p + 0x2AA, 0x55), (p + 0x555, 0x90)]"
| "cfi_cycles FLASH_AMD FLASH_CFIQUERY p b offset data = [(p + 0x55, 0x98)]"
| "cfi_cycles FLASH_AMD FLASH_UB p b offset data =
     [(p + 0x555, 0xAA), (p + 0x2AA, 0x55), (p + 0x555, 0x20)]"
| "cfi_cycles FLASH_AMD FLASH_PROG p b offset data = [(p, 0xA0), (p + half offset, data)]"
| "cfi_cycles FLASH_AMD FLASH_UBRESET p b offset data = [(p, 0x90), (p, 0x00)]"
| "cfi_cycles FLASH_AMD FLASH_SERASE p b offset data =
     [(p + 0x555, 0xAA), (p + 0x2AA, 0x55), (p + 0x555, 0x80), (p + 0x555, 0xAA),
      (p + 0x2AA, 0x55), (p, 0x30)]"
| "cfi_cycles FLASH_INTEL FLASH_RESET p b offset data = [(p, 0xFF)]"
| "cfi_cycles FLASH_INTEL FLASH_READ_ID p b offset data = [(p, 0x90)]"
| "cfi_cycles FLASH_INTEL FLASH_CFIQUERY p b offset data = [(p, 0x98)]"
| "cfi_cycles FLASH_INTEL FLASH_PROG p b offset data = [(p, 0x40), (p + half offset, data)]"
| "cfi_cycles FLASH_INTEL FLASH_SERASE p b offset data =
     [(p, 0x60), (p, 0xD0), (p, 0x20), (p, 0xD0)]"
| "cfi_cycles FLASH_INTEL _ p b offset data = []"
| "cfi_cycles FLASH_SST FLASH_RESET p b offset data =
     [(b + 0x5555, 0xAA), (b + 0x2AAA, 0x55), (b + 0x5555, 0xF0)]"
| "cfi_cycles FLASH_SST FLASH_READ_ID p b offset data =
     [(b + 0x5555, 0xAA), (b + 0x2AAA, 0x55), (b + 0x5555, 0x90)]"
| "cfi_cycles FLASH_SST FLASH_CFIQUERY p b offset data =
     [(b + 0x5555, 0xAA), (b + 0x2AAA, 0x55), (b + 0x5555, 0x98)]"
| "cfi_cycles FLASH_SST FLASH_PROG p b offset data =
     [(b + 0x5555, 0xAA), (b + 0x2AAA, 0x55), (b + 0x5555, 0xA0), (p + half offset, data)]"
| "cfi_cycles FLASH_SST FLASH_SERASE p b offset data =
     [(b + 0x5555, 0xAA), (b + 0x2AAA, 0x55), (b + 0x5555, 0x80), (b + 0x5555, 0xAA),
      (b + 0x2AAA, 0x55), (p, 0x30)]"
| "cfi_cycles FLASH_SST _ p b offset data = []"

definition bus_writes :: "'c nor_chip \<Rightarrow> (int \<times> 16 word) list \<Rightarrow> 'c \<Rightarrow> 'c" where
  "bus_writes nc ws c = fold (\<lambda>(a, d). nor_write nc a d) ws c"

definition cfi_word_ptr :: "int \<Rightarrow> 'c cfi_state \<Rightarrow> int option" where
  "cfi_word_ptr sector s = map_option (\<lambda>p. (p - FLASH_BASE) div 2) (cfi_flash_get_memptr sector s)"

definition cfi_flash_command ::
  "'c nor_chip \<Rightarrow> flash_command \<Rightarrow> int \<Rightarrow> int \<Rightarrow> 16 word \<Rightarrow> 'c cfi_state \<Rightarrow> 'c cfi_state option"
where
  "cfi_flash_command nc command sector offset data s =
     do {
       flashptr \<leftarrow> cfi_word_ptr sector s;
       flashbase \<leftarrow> cfi_word_ptr 0 s;
       Some (s\<lparr>chip := bus_writes nc
         (cfi_cycles (flashFamily s) command flashptr flashbase offset data) (chip s)\<rparr>)
     }"

section \<open>Polling\<close>

text \<open>
  The loop that polls a status word until the data appears or DQ5 is set; it may poll
  forever.  \<open>cfi_poll_more\<close> is the loop of 1000 further reads.
\<close>

partial_function (option) cfi_poll ::
  "'c nor_chip \<Rightarrow> int \<Rightarrow> 16 word \<Rightarrow> 'c \<Rightarrow> (bool \<times> 'c) option" where
  "cfi_poll nc a data c =
     (let (d1, c) = nor_read nc a c in
      if d1 = data then Some (True, c)
      else if bit d1 5 then Some (False, c)
      else cfi_poll nc a data c)"

fun cfi_poll_more :: "'c nor_chip \<Rightarrow> nat \<Rightarrow> int \<Rightarrow> 16 word \<Rightarrow> 'c \<Rightarrow> bool \<times> 'c" where
  "cfi_poll_more nc 0 a data c = (False, c)"
| "cfi_poll_more nc (Suc i) a data c =
     (let (d1, c) = nor_read nc a c in
      if d1 = data then (True, c) else cfi_poll_more nc i a data c)"

partial_function (option) cfi_poll_intel ::
  "'c nor_chip \<Rightarrow> int \<Rightarrow> 'c \<Rightarrow> 'c option" where
  "cfi_poll_intel nc a c =
     (let (d1, c) = nor_read nc a c in
      if bit d1 7 then Some c else cfi_poll_intel nc a c)"

definition cfi_flash_wait ::
  "'c nor_chip \<Rightarrow> int \<Rightarrow> int \<Rightarrow> 16 word \<Rightarrow> 'c cfi_state \<Rightarrow> (flash_status \<times> 'c cfi_state) option"
where
  "cfi_flash_wait nc sector offset data s =
     do {
       flashptr \<leftarrow> cfi_word_ptr sector s;
       if flashFamily s = FLASH_AMD \<or> flashFamily s = FLASH_SST then
         do {
           let a = flashptr + half offset;
           (found, c) \<leftarrow> cfi_poll nc a data (chip s);
           if found then Some (STATUS_READY, s\<lparr>chip := c\<rparr>)
           else
             let (d1, c) = nor_read nc a c in
             if d1 = data then Some (STATUS_READY, s\<lparr>chip := c\<rparr>)
             else
               let (found, c) = cfi_poll_more nc 1000 a data c in
               if found then Some (STATUS_READY, s\<lparr>chip := c\<rparr>)
               else
                 let (d1, c) = nor_read nc a c in
                 if d1 = data then Some (STATUS_READY, s\<lparr>chip := c\<rparr>)
                 else
                   do {
                     s \<leftarrow> cfi_flash_command nc FLASH_RESET 0 0 0 (s\<lparr>chip := c\<rparr>);
                     Some (STATUS_TIMEOUT, s)
                   }
         }
       else if flashFamily s = FLASH_INTEL then
         do {
           c \<leftarrow> cfi_poll_intel nc flashptr (nor_write nc flashptr 0x70 (chip s));
           let (d1, c) = nor_read nc flashptr c;
           s \<leftarrow> cfi_flash_command nc FLASH_RESET 0 0 0 (s\<lparr>chip := nor_write nc flashptr 0x50 c\<rparr>);
           Some (if d1 AND 0x30 \<noteq> 0 then STATUS_TIMEOUT else STATUS_READY, s)
         }
       else Some (STATUS_READY, s)
     }"

section \<open>Erase, read, write\<close>

fun cfi_erase_tries ::
  "'c nor_chip \<Rightarrow> nat \<Rightarrow> int \<Rightarrow> 'c cfi_state \<Rightarrow> 'c cfi_state option" where
  "cfi_erase_tries nc 0 sector s = Some s"
| "cfi_erase_tries nc (Suc i) sector s =
     do {
       s \<leftarrow> cfi_flash_command nc FLASH_SERASE sector 0 0 s;
       (st, s) \<leftarrow> cfi_flash_wait nc sector 0 0xffff s;
       if st = STATUS_READY then Some s else cfi_erase_tries nc i sector s
     }"

definition cfi_flash_sector_erase_int ::
  "'c nor_chip \<Rightarrow> int \<Rightarrow> 'c cfi_state \<Rightarrow> (int \<times> 'c cfi_state) option" where
  "cfi_flash_sector_erase_int nc sector s =
     do {
       s \<leftarrow> down_interruptible s;
       s \<leftarrow> cfi_erase_tries nc 3 sector s;
       Some (FLASH_API_OK, up s)
     }"

text \<open>A byte of the device: the high byte of a word is at the even address.\<close>

definition nor_read_byte :: "'c nor_chip \<Rightarrow> int \<Rightarrow> 'c \<Rightarrow> 8 word \<times> 'c" where
  "nor_read_byte nc a c =
     (let (w, c) = nor_read nc (a div 2) c in
      (if even a then ucast (drop_bit 8 w) else ucast w, c))"

fun cfi_read_loop :: "'c nor_chip \<Rightarrow> nat \<Rightarrow> int \<Rightarrow> 'c \<Rightarrow> bytes \<times> 'c" where
  "cfi_read_loop nc 0 a c = ([], c)"
| "cfi_read_loop nc (Suc n) a c =
     (let (b, c) = nor_read_byte nc a c; (bs, c) = cfi_read_loop nc n (a + 1) c in (b # bs, c))"

definition cfi_flash_read_buf ::
  "'c nor_chip \<Rightarrow> int \<Rightarrow> int \<Rightarrow> bytes \<Rightarrow> int \<Rightarrow> 'c cfi_state \<Rightarrow>
   (int \<times> bytes \<times> 'c cfi_state) option" where
  "cfi_flash_read_buf nc sector offset buffer numbytes s =
     do {
       s \<leftarrow> down_interruptible s;
       fwp \<leftarrow> cfi_flash_get_memptr sector s;
       c_assert (0 \<le> numbytes);
       let (bs, c) = cfi_read_loop nc (nat numbytes) (fwp - FLASH_BASE + offset) (chip s);
       buffer \<leftarrow> mem_write 0 bs buffer;
       Some (FLASH_API_OK, buffer, up (s\<lparr>chip := c\<rparr>))
     }"

text \<open>
  The programming loop takes 16-bit words from \<open>src\<close> (big-endian) and returns the number of
  bytes it has programmed.
\<close>

fun cfi_write_loop ::
  "'c nor_chip \<Rightarrow> int \<Rightarrow> int \<Rightarrow> bytes \<Rightarrow> int \<Rightarrow> 'c cfi_state \<Rightarrow> (int \<times> 'c cfi_state) option" where
  "cfi_write_loop nc sector offset (hi # lo # src) nbytes s =
     (if nbytes > 0 then
        do {
          let w = (push_bit 8 (ucast hi) OR ucast lo :: 16 word);
          s \<leftarrow> cfi_flash_command nc FLASH_PROG sector offset w s;
          (st, s) \<leftarrow> cfi_flash_wait nc sector offset w s;
          if st \<noteq> STATUS_READY then Some (0, s)
          else
            do {
              (n, s) \<leftarrow> cfi_write_loop nc sector (offset + 2) src (nbytes - 2) s;
              Some (n + 2, s)
            }
        }
      else Some (0, s))"
| "cfi_write_loop nc sector offset src nbytes s = (if nbytes > 0 then None else Some (0, s))"

definition cfi_flash_write ::
  "'c nor_chip \<Rightarrow> int \<Rightarrow> int \<Rightarrow> bytes \<Rightarrow> int \<Rightarrow> 'c cfi_state \<Rightarrow> (int \<times> 'c cfi_state) option" where
  "cfi_flash_write nc sector offset buf nbytes s =
     do {
       s \<leftarrow> down_interruptible s;
       if odd nbytes \<or> odd offset then Some (FLASH_API_ERROR, s)
       else
         do {
           s \<leftarrow> cfi_flash_command nc FLASH_UB 0 0 0 s;
           (n, s) \<leftarrow> cfi_write_loop nc sector offset buf nbytes s;
           s \<leftarrow> cfi_flash_command nc FLASH_UBRESET 0 0 0 s;
           Some (n, up s)
         }
     }"

text \<open>\<open>memcmp\<close> of the device with a buffer, as far as the first difference.\<close>

fun nor_memcmp :: "'c nor_chip \<Rightarrow> int \<Rightarrow> bytes \<Rightarrow> 'c \<Rightarrow> bool \<times> 'c" where
  "nor_memcmp nc a [] c = (True, c)"
| "nor_memcmp nc a (x # xs) c =
     (let (b, c) = nor_read_byte nc a c in if b = x then nor_memcmp nc (a + 1) xs c else (False, c))"

text \<open>
  The verify-and-retry loop.  \<open>flash_sector_erase_int\<close> goes through
  \<open>g_flash_info\<close>, which is this driver's table whenever this function is called.
\<close>

fun cfi_write_tries ::
  "'c nor_chip \<Rightarrow> nat \<Rightarrow> int \<Rightarrow> int \<Rightarrow> bytes \<Rightarrow> int \<Rightarrow> int \<Rightarrow> 'c cfi_state \<Rightarrow>
   (int \<times> 'c cfi_state) option" where
  "cfi_write_tries nc 0 sector offset buffer numbytes p s = Some (FLASH_API_ERROR, s)"
| "cfi_write_tries nc (Suc i) sector offset buffer numbytes p s =
     do {
       (ret, s) \<leftarrow> cfi_flash_write nc sector offset buffer numbytes s;
       src \<leftarrow> mem_read 0 numbytes buffer;
       let (same, c) = nor_memcmp nc p src (chip s);
       let s = s\<lparr>chip := c\<rparr>;
       if same then Some (ret, s)
       else
         do {
           (_, s) \<leftarrow> cfi_flash_sector_erase_int nc sector s;
           cfi_write_tries nc i sector offset buffer numbytes p s
         }
     }"

definition cfi_flash_write_buf ::
  "'c nor_chip \<Rightarrow> int \<Rightarrow> int \<Rightarrow> bytes \<Rightarrow> int \<Rightarrow> 'c cfi_state \<Rightarrow> (int \<times> 'c cfi_state) option" where
  "cfi_flash_write_buf nc sector offset buffer numbytes s =
     do {
       p \<leftarrow> cfi_flash_get_memptr sector s;
       cfi_write_tries nc 3 sector offset buffer numbytes (p - FLASH_BASE + offset) s
     }"

section \<open>Identification and the sector table\<close>

definition cfi_flash_get_device_id ::
  "'c nor_chip \<Rightarrow> 'c cfi_state \<Rightarrow> (16 word \<times> 'c cfi_state) option" where
  "cfi_flash_get_device_id nc s =
     do {
       fwp \<leftarrow> cfi_word_ptr 0 s;
       s \<leftarrow> cfi_flash_command nc FLASH_READ_ID 0 0 0 s;
       let (answer, c) = nor_read nc (fwp + 1) (chip s);
       let (answer, c) =
         (if answer = ID_AM29LV320M then
            let (_, c) = nor_read nc (fwp + 0xe) c in nor_read nc (fwp + 0xf) c
          else (answer, c));
       s \<leftarrow> cfi_flash_command nc FLASH_RESET 0 0 0 (s\<lparr>chip := c\<rparr>);
       Some (answer, s)
     }"

text \<open>
  \<open>fwp[k]\<close> of \<open>cfi_flash_get_cfi\<close>: a word of the chip, or of one of the canned tables.
  The signature test stops at the first letter that agrees.
\<close>

definition cfi_fetch ::
  "'c nor_chip \<Rightarrow> 16 word list option \<Rightarrow> int \<Rightarrow> int \<Rightarrow> 'c \<Rightarrow> (16 word \<times> 'c) option" where
  "cfi_fetch nc cfi_struct fwp k c =
     (case cfi_struct of
        None \<Rightarrow> Some (nor_read nc (fwp + k) c)
      | Some t \<Rightarrow> if 0 \<le> k \<and> nat k < length t then Some (t ! nat k, c) else None)"

definition cfi_not_qry ::
  "'c nor_chip \<Rightarrow> 16 word list option \<Rightarrow> int \<Rightarrow> 'c \<Rightarrow> (bool \<times> 'c) option" where
  "cfi_not_qry nc cfi_struct fwp c =
     do {
       (q, c) \<leftarrow> cfi_fetch nc cfi_struct fwp 0x10 c;
       if q = 0x51 then Some (False, c)
       else
         do {
           (r, c) \<leftarrow> cfi_fetch nc cfi_struct fwp 0x11 c;
           if r = 0x52 then Some (False, c)
           else
             do {
               (y, c) \<leftarrow> cfi_fetch nc cfi_struct fwp 0x12 c;
               Some (y \<noteq> 0x59, c)
             }
         }
     }"

fun cfi_erase_blocks ::
  "'c nor_chip \<Rightarrow> 16 word list option \<Rightarrow> int \<Rightarrow> nat \<Rightarrow> nat \<Rightarrow> cfi_query \<Rightarrow> 'c \<Rightarrow>
   (cfi_query \<times> 'c) option" where
  "cfi_erase_blocks nc cfi_struct fwp i 0 q c = Some (q, c)"
| "cfi_erase_blocks nc cfi_struct fwp i (Suc n) q c =
     (if 8 \<le> i then None
      else
        do {
          (nlo, c) \<leftarrow> cfi_fetch nc cfi_struct fwp (0x2D + 4 * int i) c;
          (nhi, c) \<leftarrow> cfi_fetch nc cfi_struct fwp (0x2E + 4 * int i) c;
          (shi, c) \<leftarrow> cfi_fetch nc cfi_struct fwp (0x30 + 4 * int i) c;
          (slo, c) \<leftarrow> cfi_fetch nc cfi_struct fwp (0x2F + 4 * int i) c;
          cfi_erase_blocks nc cfi_struct fwp (Suc i) n
            (q\<lparr>erase_num_sectors := (erase_num_sectors q)(i := uint nlo + uint nhi * 256 + 1),
               erase_sector_size := (erase_sector_size q)(i := u32 (256 * (256 * uint shi + uint slo)))\<rparr>)
            c
        })"

definition cfi_flash_get_cfi ::
  "'c nor_chip \<Rightarrow> 16 word list option \<Rightarrow> flash_family \<Rightarrow> 'c cfi_state \<Rightarrow> (int \<times> 'c cfi_state) option"
where
  "cfi_flash_get_cfi nc cfi_struct family s =
     do {
       s \<leftarrow> cfi_flash_command nc FLASH_CFIQUERY 0 0 0 s;
       fwp \<leftarrow> cfi_word_ptr 0 s;
       let q = (query s)\<lparr>erase_sector_size := \<lambda>i. if i < 8 then 0 else erase_sector_size (query s) i,
                         erase_num_sectors := \<lambda>i. if i < 8 then 0 else erase_num_sectors (query s) i\<rparr>;
       (none, c) \<leftarrow> cfi_not_qry nc cfi_struct fwp (chip s);
       if none then
         do {
           s \<leftarrow> cfi_flash_command nc FLASH_RESET 0 0 0 (s\<lparr>chip := c, query := q\<rparr>);
           Some (FLASH_API_ERROR, s)
         }
       else
         do {
           (temp, c) \<leftarrow> cfi_fetch nc cfi_struct fwp 0x27 c;
           c_assert (uint temp < 32);
           (neb, c) \<leftarrow> cfi_fetch nc cfi_struct fwp 0x2C c;
           let n = (if family = FLASH_SST then 1 else unat neb);
           (q, c) \<leftarrow> cfi_erase_blocks nc cfi_struct fwp 0 n
             (q\<lparr>device_size := s32 (2 ^ unat temp), num_erase_blocks := int n\<rparr>) c;
           s \<leftarrow> cfi_flash_command nc FLASH_RESET 0 0 0 (s\<lparr>chip := c, query := q\<rparr>);
           Some (FLASH_API_OK, s)
         }
     }"

text \<open>
  The sector table: one entry per sector, erase region by erase region.  An entry past
  \<open>MAXSECTORS\<close> is out of range.
\<close>

fun cfi_fill_region ::
  "nat \<Rightarrow> int \<Rightarrow> int \<times> int \<times> (nat \<Rightarrow> flash_sec) \<Rightarrow> (int \<times> int \<times> (nat \<Rightarrow> flash_sec)) option" where
  "cfi_fill_region 0 sz acc = Some acc"
| "cfi_fill_region (Suc j) sz (count, basecount, t) =
     (if count < int MAXSECTORS then
        cfi_fill_region j sz
          (count + 1, s32 (basecount + sz),
           t(nat count := (t (nat count))\<lparr>sec_size := sz, sec_base := basecount\<rparr>))
      else None)"

fun cfi_fill_table ::
  "cfi_query \<Rightarrow> nat list \<Rightarrow> int \<times> int \<times> (nat \<Rightarrow> flash_sec) \<Rightarrow>
   (int \<times> int \<times> (nat \<Rightarrow> flash_sec)) option" where
  "cfi_fill_table q [] acc = Some acc"
| "cfi_fill_table q (i # is) (count, basecount, t) =
     (if basecount < device_size q then
        do {
          c_assert (i < 8);
          acc \<leftarrow> cfi_fill_region (nat (erase_num_sectors q i)) (s32 (erase_sector_size q i))
            (count, basecount, t);
          cfi_fill_table q is acc
        }
      else Some (count, basecount, t))"

definition cfi_regions :: "bool \<Rightarrow> cfi_query \<Rightarrow> nat list" where
  "cfi_regions flip q =
     (if flip then rev [0..<nat (num_erase_blocks q)] else [0..<nat (num_erase_blocks q)])"

definition cfi_name_of :: "16 word \<Rightarrow> string \<Rightarrow> string" where
  "cfi_name_of device_id name =
     (if name = [] then (case map_of CFI_FLASH_DEVICES device_id of Some n \<Rightarrow> n | None \<Rightarrow> name)
      else name)"

text \<open>The first lines of the initialisation: one sector of 8 KB, so that the chip is mapped.\<close>

definition cfi_initial_meminfo :: "flashinfo \<Rightarrow> flashinfo" where
  "cfi_initial_meminfo m =
     m\<lparr>addr := 0, areg := 0, nsect := 1, bank1start := 0, bank2start := 0,
       sec := (sec m)(0 := \<lparr>sec_size = 8192, sec_base = 0, sec_bank = 1\<rparr>)\<rparr>"

definition cfi_query_or_table ::
  "'c nor_chip \<Rightarrow> flash_family \<Rightarrow> 16 word \<Rightarrow> 'c cfi_state \<Rightarrow> (int \<times> 'c cfi_state) option" where
  "cfi_query_or_table nc family device_id s =
     do {
       (r, s) \<leftarrow> cfi_flash_get_cfi nc None family s;
       if r \<noteq> -1 then Some (FLASH_API_OK, s)
       else if device_id = ID_AM29LV160T \<or> device_id = ID_AM29LV160B then
         do {
           (_, s) \<leftarrow> cfi_flash_get_cfi nc (Some cfi_data_struct_29W160) family s;
           Some (FLASH_API_OK, s)
         }
       else if device_id = ID_AM29LV200BT then
         do {
           (_, s) \<leftarrow> cfi_flash_get_cfi nc (Some cfi_data_struct_29W200) family s;
           Some (FLASH_API_OK, s)
         }
       else if device_id = ID_AM29LV800B then
         do {
           (_, s) \<leftarrow> cfi_flash_get_cfi nc (Some cfi_data_struct_26LV800B) family s;
           Some (FLASH_API_OK, s\<lparr>cfi_device_name := ''MX26LV800B''\<rparr>)
         }
       else Some (FLASH_API_ERROR, s)
     }"

definition cfi_set_table :: "bool \<Rightarrow> 'c cfi_state \<Rightarrow> 'c cfi_state option" where
  "cfi_set_table flip s =
     do {
       (count, _, t) \<leftarrow> cfi_fill_table (query s) (cfi_regions flip (query s)) (0, 0, sec (meminfo s));
       c_assert (0 < count);
       let l = t (nat (count - 1));
       Some (s\<lparr>meminfo := (meminfo s)\<lparr>nsect := count, sec := t\<rparr>,
               totalSize := s32 (sec_base l + sec_size l)\<rparr>)
     }"

definition flash_cfi_dev :: "'c nor_chip \<Rightarrow> 16 word \<Rightarrow> string \<Rightarrow> 'c cfi_state flash_device_info" where
  "flash_cfi_dev nc device_id name =
     \<lparr>flash_device_id = device_id, flash_device_name = name,
      fn_flash_sector_erase_int = cfi_flash_sector_erase_int nc,
      fn_flash_read_buf = cfi_flash_read_buf nc,
      fn_flash_write_buf = cfi_flash_write_buf nc,
      fn_flash_get_numsectors = cfi_flash_get_numsectors,
      fn_flash_get_sector_size = cfi_flash_get_sector_size,
      fn_flash_get_memptr = cfi_flash_get_memptr,
      fn_flash_get_blk = cfi_flash_get_blk,
      fn_flash_get_total_size = cfi_flash_get_total_size,
      fn_flash_get_total_memory_mapped_size = cfi_flash_get_total_size\<rparr>"

definition cfi_flash_init ::
  "'c nor_chip \<Rightarrow> 'c cfi_state \<Rightarrow>
   (int \<times> 'c cfi_state flash_device_info \<times> 'c cfi_state) option" where
  "cfi_flash_init nc s =
     do {
       s \<leftarrow> cfi_flash_command nc FLASH_RESET 0 0 0 (s\<lparr>meminfo := cfi_initial_meminfo (meminfo s)\<rparr>);
       (device_id, s) \<leftarrow> cfi_flash_get_device_id nc s;
       let s = s\<lparr>cfi_device_id := device_id, cfi_device_name := []\<rparr>;
       let dev = flash_cfi_dev nc device_id;
       case cfi_family device_id of
         None \<Rightarrow> Some (FLASH_API_ERROR, dev [], s)
       | Some family \<Rightarrow>
           do {
             (r, s) \<leftarrow> cfi_query_or_table nc family device_id (s\<lparr>flashFamily := family\<rparr>);
             if r = FLASH_API_ERROR then Some (FLASH_API_ERROR, dev (cfi_device_name s), s)
             else
               case cfi_flip device_id of
                 None \<Rightarrow> Some (FLASH_API_ERROR, dev (cfi_device_name s), s)
               | Some flip \<Rightarrow>
                   do {
                     s \<leftarrow> cfi_set_table flip s;
                     let name = cfi_name_of device_id (cfi_device_name s);
                     Some (FLASH_API_OK, dev name, s\<lparr>cfi_device_name := name\<rparr>)
                   }
           }
     }"

end
