(* ===== verification/Cfi_Geometry.thy ===== *)
theory Cfi_Geometry
  imports Cfi_Flash
begin

text \<open>
  The sector table of the parallel flash driver.  \<open>cfi_geom s geom\<close> says that the driver's
  table is the contiguous layout of sectors of sizes \<open>geom\<close>.  The initialisation establishes
  it for the regions the chip reports, and under it \<open>cfi_flash_get_blk\<close> finds the sector of
  an address.
\<close>

section \<open>Definitions\<close>

definition cfi_geom :: "'c cfi_state \<Rightarrow> nat list \<Rightarrow> bool" where
  "cfi_geom s geom \<longleftrightarrow>
     geom \<noteq> [] \<and> length geom \<le> MAXSECTORS \<and> (\<forall>n\<in>set geom. 0 < n \<and> even n) \<and> sum_list geom \<le> 0x4000000 \<and>
     nsect (meminfo s) = int (length geom) \<and> totalSize s = int (sum_list geom) \<and>
     (\<forall>i<length geom. sec_size (sec (meminfo s) i) = int (geom ! i) \<and>
        sec_base (sec (meminfo s) i) = int (blk_base geom i))"

text \<open>The sectors a list of erase regions describes, in table order.\<close>

definition region_sectors :: "cfi_query \<Rightarrow> nat list \<Rightarrow> nat list" where
  "region_sectors q is =
     concat (map (\<lambda>i. replicate (nat (erase_num_sectors q i)) (nat (erase_sector_size q i))) is)"

section \<open>Filling the table\<close>

lemma cfi_fill_region_eq:
  assumes "k + n \<le> MAXSECTORS" "0 \<le> sz" "0 \<le> base" "base + int n * sz < 0x80000000"
  shows "cfi_fill_region n sz (int k, base, t) =
     Some (int (k + n), base + int n * sz,
       \<lambda>i. if k \<le> i \<and> i < k + n then (t i)\<lparr>sec_size := sz, sec_base := base + int (i - k) * sz\<rparr> else t i)"
  using assms
proof (induction n arbitrary: k base t)
  case 0
  then show ?case by auto
next
  case (Suc n)
  have step: "s32 (base + sz) = base + sz"
  proof (rule s32_id)
    have "sz \<le> int (Suc n) * sz" using Suc.prems(2) mult_right_mono [of 1 "int (Suc n)" sz] by simp
    then show "base + sz < 2147483648" using Suc.prems by simp
  qed (use Suc.prems in simp)
  have "cfi_fill_region (Suc n) sz (int k, base, t) =
      cfi_fill_region n sz (int (Suc k), base + sz, t(k := (t k)\<lparr>sec_size := sz, sec_base := base\<rparr>))"
    using Suc.prems(1) step by (simp add: add.commute)
  also have "\<dots> = Some (int (Suc k + n), base + sz + int n * sz,
       \<lambda>i. if Suc k \<le> i \<and> i < Suc k + n
           then ((t(k := (t k)\<lparr>sec_size := sz, sec_base := base\<rparr>)) i)
             \<lparr>sec_size := sz, sec_base := base + sz + int (i - Suc k) * sz\<rparr>
           else (t(k := (t k)\<lparr>sec_size := sz, sec_base := base\<rparr>)) i)"
    using Suc.prems by (intro Suc.IH) (simp_all add: algebra_simps)
  finally show ?case
    using Suc.prems(2) by (auto simp: fun_eq_iff algebra_simps of_nat_diff)
qed

lemma blk_base_append:
  "blk_base (xs @ ys) i = (if i \<le> length xs then blk_base xs i else sum_list xs + blk_base ys (i - length xs))"
  by (simp add: blk_base_def)

lemma blk_base_replicate: "i \<le> n \<Longrightarrow> blk_base (replicate n z) i = i * z"
  by (simp add: blk_base_def sum_list_replicate min_def)

definition table_holds :: "(nat \<Rightarrow> flash_sec) \<Rightarrow> nat list \<Rightarrow> bool" where
  "table_holds t geom \<longleftrightarrow>
     (\<forall>i<length geom. sec_size (t i) = int (geom ! i) \<and> sec_base (t i) = int (blk_base geom i))"

lemma table_holds_region:
  assumes "table_holds t geom" "length geom + n \<le> MAXSECTORS"
    and "sum_list geom + n * z < 0x80000000"
  shows "\<exists>t'. cfi_fill_region n (int z) (int (length geom), int (sum_list geom), t) =
      Some (int (length (geom @ replicate n z)), int (sum_list (geom @ replicate n z)), t')
    \<and> table_holds t' (geom @ replicate n z)"
proof -
  let ?t = "\<lambda>i. if length geom \<le> i \<and> i < length geom + n
      then (t i)\<lparr>sec_size := int z, sec_base := int (sum_list geom) + int (i - length geom) * int z\<rparr>
      else t i"
  have "int (sum_list geom) + int n * int z < 0x80000000"
    using assms(3) by (metis of_nat_add of_nat_less_iff of_nat_mult of_nat_numeral)
  then have "cfi_fill_region n (int z) (int (length geom), int (sum_list geom), t) =
      Some (int (length geom + n), int (sum_list geom) + int n * int z, ?t)"
    using assms(2) by (intro cfi_fill_region_eq) simp_all
  moreover have "table_holds ?t (geom @ replicate n z)"
    using assms(1)
    by (auto simp: table_holds_def nth_append blk_base_append blk_base_replicate)
  ultimately show ?thesis by (auto simp: sum_list_replicate)
qed

lemma cfi_fill_table_holds:
  assumes "table_holds t g"
    and "\<And>i. i \<in> set is \<Longrightarrow> i < 8 \<and> 0 < erase_num_sectors q i \<and> 0 < erase_sector_size q i"
    and "length (g @ region_sectors q is) \<le> MAXSECTORS"
    and "int (sum_list (g @ region_sectors q is)) \<le> device_size q"
    and "sum_list (g @ region_sectors q is) < 0x80000000"
  shows "\<exists>t'. cfi_fill_table q is (int (length g), int (sum_list g), t) =
      Some (int (length (g @ region_sectors q is)), int (sum_list (g @ region_sectors q is)), t')
    \<and> table_holds t' (g @ region_sectors q is)"
  using assms
proof (induction "is" arbitrary: g t)
  case Nil
  then show ?case by (auto simp: region_sectors_def)
next
  case (Cons i "is")
  define n z where "n = nat (erase_num_sectors q i)" and "z = nat (erase_sector_size q i)"
  have pos: "i < 8" "0 < n" "0 < z" "erase_sector_size q i = int z"
    using Cons.prems(2) [of i] by (simp_all add: n_def z_def)
  have r: "g @ region_sectors q (i # is) = (g @ replicate n z) @ region_sectors q is"
    by (simp add: region_sectors_def n_def z_def)
  note p = Cons.prems(3-5) [unfolded r]
  have nz: "sum_list g + n * z < 0x80000000" using p(3) by (simp add: sum_list_replicate)
  have "z \<le> n * z" using pos by simp
  with nz have "z < 0x80000000" by linarith
  then have sz: "s32 (int z) = int z" by (intro s32_id) simp_all
  have "sum_list g < sum_list (g @ replicate n z)" using pos by (simp add: sum_list_replicate)
  with p(2) have before: "int (sum_list g) < device_size q" by simp
  obtain t1 where t1: "cfi_fill_region n (int z) (int (length g), int (sum_list g), t) =
      Some (int (length (g @ replicate n z)), int (sum_list (g @ replicate n z)), t1)"
    and h1: "table_holds t1 (g @ replicate n z)"
    using table_holds_region [OF Cons.prems(1) _ nz] p(1) by auto
  obtain t2 where "cfi_fill_table q is
        (int (length (g @ replicate n z)), int (sum_list (g @ replicate n z)), t1) =
      Some (int (length ((g @ replicate n z) @ region_sectors q is)),
        int (sum_list ((g @ replicate n z) @ region_sectors q is)), t2)"
    and h2: "table_holds t2 ((g @ replicate n z) @ region_sectors q is)"
    using Cons.IH [OF h1 _ p] Cons.prems(2) by auto
  then show ?case
    using t1 h2 before pos sz unfolding r by (auto simp: n_def)
qed

section \<open>The sector of an address\<close>

lemma cfi_geom_sector_size:
  "cfi_geom s geom \<Longrightarrow> i < length geom \<Longrightarrow> cfi_flash_get_sector_size (int i) s = Some (int (geom ! i))"
  by (simp add: cfi_geom_def cfi_flash_get_sector_size_def cfi_sec_def)

lemma cfi_geom_memptr:
  assumes "cfi_geom s geom" "i < length geom"
  shows "cfi_flash_get_memptr (int i) s = Some (FLASH_BASE + int (blk_base geom i))"
proof -
  have "blk_base geom i \<le> 0x4000000"
    using blk_base_le_total [of geom i] assms(1) by (simp add: cfi_geom_def)
  then have "u32 (FLASH_BASE + int (blk_base geom i)) = FLASH_BASE + int (blk_base geom i)"
    by (intro u32_id) (simp_all add: FLASH_BASE_def)
  then show ?thesis
    using assms by (simp add: cfi_geom_def cfi_flash_get_memptr_def cfi_sec_def)
qed

text \<open>The loop stops at the first sector base that is not below the address.\<close>

lemma cfi_blk_loop_eq:
  assumes g: "cfi_geom s geom" and k: "k \<le> length geom"
    and below: "\<forall>j<k. int (blk_base geom j) < rel"
  shows "\<exists>m. k \<le> m \<and> m \<le> length geom \<and> (\<forall>j<m. int (blk_base geom j) < rel) \<and>
     (rel \<le> int (blk_base geom m) \<or> m = length geom) \<and>
     cfi_blk_loop s rel (int k) (int (blk_base geom k)) = Some (int m, int (blk_base geom m))"
  using k below
proof (induction "length geom - k" arbitrary: k)
  case 0
  then show ?case
    using g by (intro exI [of _ k])
      (auto simp: cfi_blk_loop.simps cfi_flash_get_numsectors_def cfi_geom_def)
next
  case (Suc x)
  show ?case
  proof (cases "int (blk_base geom k) < rel")
    case False
    then show ?thesis using Suc.prems by (intro exI [of _ k]) (auto simp: cfi_blk_loop.simps)
  next
    case True
    have k: "k < length geom" using Suc.hyps by simp
    have kb: "k < 1024" using k g by (simp add: cfi_geom_def)
    have "blk_base geom (Suc k) \<le> 0x4000000"
      using blk_base_le_total [of geom "Suc k"] g by (simp add: cfi_geom_def)
    then have "s32 (int (blk_base geom k) + int (geom ! k)) = int (blk_base geom (Suc k))"
      using blk_base_Suc [OF k] by (subst s32_id) simp_all
    then have "cfi_blk_loop s rel (int k) (int (blk_base geom k)) =
        cfi_blk_loop s rel (int (Suc k)) (int (blk_base geom (Suc k)))"
      using True k kb g cfi_geom_sector_size [OF g k]
      by (subst cfi_blk_loop.simps)
        (simp add: cfi_flash_get_numsectors_def cfi_geom_def u16_id add.commute)
    moreover have "\<forall>j<Suc k. int (blk_base geom j) < rel"
      using True Suc.prems by (auto simp: less_Suc_eq)
    ultimately show ?thesis
      using Suc.hyps(1) [of "Suc k"] Suc.hyps(2) k by fastforce
  qed
qed

text \<open>What the test after the loop makes of the sector \<open>m\<close> it stopped at.\<close>

definition blk_found :: "nat list \<Rightarrow> int \<Rightarrow> nat \<Rightarrow> int" where
  "blk_found geom rel m =
     (if int (blk_base geom m) > rel then int m - 1 else if m = length geom then -1 else int m)"

lemma blk_found_inside:
  assumes pos: "\<And>i. i < length geom \<Longrightarrow> blk_base geom i < blk_base geom (Suc i)"
    and m: "m \<le> length geom" "\<forall>j<m. int (blk_base geom j) < rel"
      "rel \<le> int (blk_base geom m) \<or> m = length geom"
    and rel: "0 \<le> rel" "rel < int (sum_list geom)"
  shows "blk_found geom rel m = int (blk_of geom (nat rel))"
proof (cases "int (blk_base geom m) > rel")
  case True
  then obtain j where j: "m = Suc j" using rel by (cases m) auto
  have "blk_of geom (nat rel) = j"
    using m(1,2) True rel j by (intro blk_of_unique) auto
  then show ?thesis using True j by (simp add: blk_found_def)
next
  case False
  then have len: "m < length geom"
    using m(1) rel blk_base_length [of geom] by (cases "m = length geom") auto
  then have "rel = int (blk_base geom m)" using m(3) False by auto
  then have "blk_of geom (nat rel) = m"
    using len pos [of m] False by (intro blk_of_unique) auto
  then show ?thesis using False len by (simp add: blk_found_def)
qed

lemma blk_found_outside:
  assumes pos: "\<And>i. i < length geom \<Longrightarrow> blk_base geom i < blk_base geom (Suc i)"
    and m: "m \<le> length geom" "\<forall>j<m. int (blk_base geom j) < rel"
      "rel \<le> int (blk_base geom m) \<or> m = length geom"
    and rel: "rel < 0 \<or> int (sum_list geom) \<le> rel"
  shows "blk_found geom rel m = -1"
proof (cases "rel < 0")
  case True
  then have "m = 0" using m(2) by (cases m) auto
  then show ?thesis using True by (simp add: blk_found_def)
next
  case False
  have "m = length geom"
  proof (rule ccontr)
    assume n: "m \<noteq> length geom"
    then have "blk_base geom m < sum_list geom"
      using pos [of m] m(1) blk_base_le_total [of geom "Suc m"] by simp
    then show False using m(3) n rel False by simp
  qed
  then show ?thesis using rel False by (simp add: blk_found_def)
qed

lemma cfi_flash_get_blk_eq:
  assumes g: "cfi_geom s geom" and rel: "- 0x40000000 \<le> rel" "rel < 0x40000000"
  shows "cfi_flash_get_blk (s32 (FLASH_BASE + rel)) s =
     Some (if 0 \<le> rel \<and> rel < int (sum_list geom) then int (blk_of geom (nat rel)) else -1)"
proof -
  have r: "s32 (s32 (FLASH_BASE + rel) - s32 FLASH_BASE) = rel"
    using rel by (simp add: s32_diff s32_id)
  obtain m where m: "m \<le> length geom" "\<forall>j<m. int (blk_base geom j) < rel"
      "rel \<le> int (blk_base geom m) \<or> m = length geom"
      "cfi_blk_loop s rel 0 0 = Some (int m, int (blk_base geom m))"
    using cfi_blk_loop_eq [OF g, of 0 rel] by auto
  have "cfi_flash_get_numsectors s = int (length geom)"
    using g by (simp add: cfi_flash_get_numsectors_def cfi_geom_def)
  then have "cfi_flash_get_blk (s32 (FLASH_BASE + rel)) s = Some (blk_found geom rel m)"
    using m(4) r by (simp add: cfi_flash_get_blk_def blk_found_def)
  moreover have pos: "blk_base geom i < blk_base geom (Suc i)" if "i < length geom" for i
    using g that blk_base_Suc [OF that] by (simp add: cfi_geom_def)
  have "blk_found geom rel m = (if 0 \<le> rel \<and> rel < int (sum_list geom) then int (blk_of geom (nat rel)) else -1)"
    using blk_found_inside [OF pos m(1-3)] blk_found_outside [OF pos m(1-3)] by auto
  ultimately show ?thesis by simp
qed

end
