(* ===== verification/Cfi_Driver.thy ===== *)
theory Cfi_Driver
  imports Cfi_Geometry
begin

text \<open>
  The parallel driver keeps the contract of \<^verbatim>\<open>Flash_Api\<close> on every chip that
  obeys the AMD command set.  The chip is described by what its data sheet promises of a sequence of bus
  cycles: reading in array mode, entering and leaving unlock bypass, and the outcome of a program or
  sector-erase command, which either shows its data within the polling limits or sets DQ5, does not show
  them, and is back in array mode after a reset.
\<close>

section \<open>Definitions\<close>

primrec nor_reads :: "'c nor_chip \<Rightarrow> int \<Rightarrow> nat \<Rightarrow> 'c \<Rightarrow> 16 word list \<times> 'c" where
  "nor_reads nc a 0 c = ([], c)"
| "nor_reads nc a (Suc n) c =
     (let (w, c) = nor_read nc a c; (ws, c) = nor_reads nc a n c in (w # ws, c))"

inductive poll_settles :: "'c nor_chip \<Rightarrow> int \<Rightarrow> 16 word \<Rightarrow> 'c \<Rightarrow> 'c \<Rightarrow> bool"
  for nc a d where
  hit: "nor_read nc a c = (d, c') \<Longrightarrow> poll_settles nc a d c c'"
| busy: "nor_read nc a c = (w, c1) \<Longrightarrow> w \<noteq> d \<Longrightarrow> \<not> bit w 5 \<Longrightarrow> poll_settles nc a d c1 c' \<Longrightarrow>
    poll_settles nc a d c c'"
| late: "nor_read nc a c = (w, c1) \<Longrightarrow> w \<noteq> d \<Longrightarrow> bit w 5 \<Longrightarrow> n < 1002 \<Longrightarrow>
    nor_reads nc a n c1 = (ws, c2) \<Longrightarrow> d \<notin> set ws \<Longrightarrow> nor_read nc a c2 = (d, c') \<Longrightarrow>
    poll_settles nc a d c c'"

inductive poll_fails :: "'c nor_chip \<Rightarrow> int \<Rightarrow> 16 word \<Rightarrow> 'c \<Rightarrow> 'c \<Rightarrow> bool"
  for nc a d where
  dq5: "nor_read nc a c = (w, c1) \<Longrightarrow> w \<noteq> d \<Longrightarrow> bit w 5 \<Longrightarrow>
    nor_reads nc a 1002 c1 = (ws, c') \<Longrightarrow> d \<notin> set ws \<Longrightarrow> poll_fails nc a d c c'"
| more: "nor_read nc a c = (w, c1) \<Longrightarrow> w \<noteq> d \<Longrightarrow> \<not> bit w 5 \<Longrightarrow> poll_fails nc a d c1 c' \<Longrightarrow>
    poll_fails nc a d c c'"

text \<open>The AMD bus cycles of a sector erase at word \<open>p\<close>, and of programming \<open>d\<close> at word \<open>a\<close> of
  the sector at word \<open>p\<close> in unlock-bypass mode.\<close>

definition erase_cycles :: "nat \<Rightarrow> (int \<times> 16 word) list" where
  "erase_cycles p =
     [(int p + 0x555, 0xAA), (int p + 0x2AA, 0x55), (int p + 0x555, 0x80),
      (int p + 0x555, 0xAA), (int p + 0x2AA, 0x55), (int p, 0x30)]"

definition program_cycles :: "nat \<Rightarrow> nat \<Rightarrow> 16 word \<Rightarrow> (int \<times> 16 word) list" where
  "program_cycles p a d = [(int p, 0xA0), (int a, d)]"

text \<open>Two word arrays that differ at most from word \<open>lo\<close> to before word \<open>hi\<close>.\<close>

definition same_outside :: "nat \<Rightarrow> nat \<Rightarrow> 'a list \<Rightarrow> 'a list \<Rightarrow> bool" where
  "same_outside lo hi xs ys \<longleftrightarrow>
     length xs = length ys \<and> (\<forall>k<length xs. k < lo \<or> hi \<le> k \<longrightarrow> xs ! k = ys ! k)"

definition byte_at :: "16 word list \<Rightarrow> nat \<Rightarrow> 8 word" where
  "byte_at ws k = (if even k then ucast (drop_bit 8 (ws ! (k div 2))) else ucast (ws ! (k div 2)))"

text \<open>The words the programming loop makes of a buffer.\<close>

definition be16 :: "8 word \<Rightarrow> 8 word \<Rightarrow> 16 word" where
  "be16 hi lo = push_bit 8 (ucast hi) OR ucast lo"

fun words_of :: "bytes \<Rightarrow> 16 word list" where
  "words_of (hi # lo # bs) = be16 hi lo # words_of bs"
| "words_of _ = []"

definition sector_bytes :: "nat list \<Rightarrow> 16 word list \<Rightarrow> nat \<Rightarrow> bytes" where
  "sector_bytes geom ws i = map (\<lambda>k. byte_at ws (blk_base geom i + k)) [0..<geom ! i]"

definition cfi_contents :: "nat list \<Rightarrow> ('c \<Rightarrow> 16 word list) \<Rightarrow> 'c cfi_state \<Rightarrow> bytes list" where
  "cfi_contents geom cells s = map (sector_bytes geom (cells (chip s))) [0..<length geom]"

definition cfi_ok :: "nat list \<Rightarrow> ('c \<Rightarrow> bool) \<Rightarrow> 'c cfi_state \<Rightarrow> bool" where
  "cfi_ok geom ready s \<longleftrightarrow>
     cfi_geom s geom \<and> flashFamily s = FLASH_AMD \<and> ready (chip s) \<and>
     (in_interrupt s \<or> 0 < cfi_flash_lock s)"

section \<open>Waiting\<close>

lemma nor_reads_add:
  "nor_reads nc a (m + n) c =
     (let (ws, c) = nor_reads nc a m c; (vs, c) = nor_reads nc a n c in (ws @ vs, c))"
  by (induction m arbitrary: c) (auto simp: Let_def split: prod.splits)

lemma length_nor_reads: "nor_reads nc a n c = (ws, c') \<Longrightarrow> length ws = n"
  by (induction n arbitrary: c ws) (auto simp: Let_def split: prod.splits)

lemma cfi_poll_more_miss:
  "nor_reads nc a k c = (ws, c') \<Longrightarrow> d \<notin> set ws \<Longrightarrow> cfi_poll_more nc k a d c = (False, c')"
  by (induction k arbitrary: c ws) (auto simp: Let_def split: prod.splits)

lemma cfi_poll_more_hit:
  "nor_reads nc a n c = (ws, c1) \<Longrightarrow> d \<notin> set ws \<Longrightarrow> nor_read nc a c1 = (d, c') \<Longrightarrow> n < k \<Longrightarrow>
   cfi_poll_more nc k a d c = (True, c')"
proof (induction n arbitrary: c ws k)
  case 0
  then show ?case by (cases k) auto
next
  case (Suc n)
  then show ?case by (cases k) (auto simp: Let_def split: prod.splits)
qed

text \<open>The reads after DQ5, as the driver makes them: one, 1000 in a loop, one.\<close>

definition cfi_after_dq5 :: "'c nor_chip \<Rightarrow> int \<Rightarrow> 16 word \<Rightarrow> 'c \<Rightarrow> bool \<times> 'c" where
  "cfi_after_dq5 nc a d c =
     (let (d1, c) = nor_read nc a c in
      if d1 = d then (True, c)
      else
        let (found, c) = cfi_poll_more nc 1000 a d c in
        if found then (True, c) else let (d1, c) = nor_read nc a c in (d1 = d, c))"

lemma cfi_poll_more_Suc:
  "cfi_poll_more nc (Suc m) a d c =
     (let (found, c) = cfi_poll_more nc m a d c in
      if found then (True, c) else let (d1, c) = nor_read nc a c in (d1 = d, c))"
proof (induction m arbitrary: c)
  case 0
  then show ?case by (simp add: Let_def split: prod.splits)
next
  case (Suc m)
  obtain w c1 where r: "nor_read nc a c = (w, c1)" by fastforce
  show ?case
  proof (cases "w = d")
    case True
    then show ?thesis by (simp add: r)
  next
    case False
    have l: "cfi_poll_more nc (Suc (Suc m)) a d c = cfi_poll_more nc (Suc m) a d c1"
      using r False by (subst cfi_poll_more.simps) (simp del: cfi_poll_more.simps)
    have r': "cfi_poll_more nc (Suc m) a d c = cfi_poll_more nc m a d c1"
      using r False by simp
    show ?thesis unfolding l r' by (rule Suc.IH)
  qed
qed

lemma cfi_after_dq5_more: "cfi_after_dq5 nc a d c = cfi_poll_more nc 1002 a d c"
proof -
  have n: "(1002 :: nat) = Suc (Suc 1000)" by simp
  show ?thesis
    unfolding n cfi_poll_more.simps(2) [of nc "Suc 1000"] cfi_poll_more_Suc [of nc 1000]
    by (simp add: cfi_after_dq5_def)
qed

lemma cfi_flash_wait_amd:
  assumes "flashFamily s = FLASH_AMD" "cfi_word_ptr sector s = Some p"
  shows "cfi_flash_wait nc sector offset d s =
     do {
       let a = p + half offset;
       (found, c) \<leftarrow> cfi_poll nc a d (chip s);
       let (found, c) = (if found then (True, c) else cfi_poll_more nc 1002 a d c);
       if found then Some (STATUS_READY, s\<lparr>chip := c\<rparr>)
       else do {
         s \<leftarrow> cfi_flash_command nc FLASH_RESET 0 0 0 (s\<lparr>chip := c\<rparr>);
         Some (STATUS_TIMEOUT, s)
       }
     }"
  unfolding cfi_after_dq5_more [symmetric] cfi_flash_wait_def cfi_after_dq5_def
  using assms by (cases "cfi_poll nc (p + half offset) d (chip s)") (auto simp: Let_def split: prod.splits)

lemma cfi_poll_settles:
  assumes "poll_settles nc a d c c'"
  shows "\<exists>f c1. cfi_poll nc a d c = Some (f, c1) \<and>
    (if f then (True, c1) else cfi_poll_more nc 1002 a d c1) = (True, c')"
  using assms
proof induction
  case (hit c c')
  then show ?case by (subst cfi_poll.simps) auto
next
  case (busy c w c1 c')
  then show ?case by (subst cfi_poll.simps) auto
next
  case (late c w c1 n ws c2 c')
  then have "cfi_poll nc a d c = Some (False, c1)" by (subst cfi_poll.simps) auto
  then show ?case using late cfi_poll_more_hit [of nc a n c1 ws c2 d c' 1002] by auto
qed

lemma cfi_poll_fails:
  assumes "poll_fails nc a d c c'"
  shows "\<exists>c1. cfi_poll nc a d c = Some (False, c1) \<and> cfi_poll_more nc 1002 a d c1 = (False, c')"
  using assms
proof induction
  case (dq5 c w c1 ws c')
  then have "cfi_poll nc a d c = Some (False, c1)" by (subst cfi_poll.simps) auto
  then show ?case using dq5 cfi_poll_more_miss [of nc a 1002 c1 ws c' d] by auto
next
  case (more c w c1 c')
  then show ?case by (subst cfi_poll.simps) auto
qed

lemma cfi_wait_settles:
  assumes "flashFamily s = FLASH_AMD" "cfi_word_ptr sector s = Some p"
    and "poll_settles nc (p + half offset) d (chip s) c'"
  shows "cfi_flash_wait nc sector offset d s = Some (STATUS_READY, s\<lparr>chip := c'\<rparr>)"
  using cfi_poll_settles [OF assms(3)] cfi_flash_wait_amd [OF assms(1,2)]
  by (auto simp: Let_def split: if_splits)

lemma cfi_wait_fails:
  assumes "flashFamily s = FLASH_AMD" "cfi_word_ptr sector s = Some p" "cfi_word_ptr 0 s = Some 0"
    and "poll_fails nc (p + half offset) d (chip s) c'"
  shows "cfi_flash_wait nc sector offset d s =
    Some (STATUS_TIMEOUT, s\<lparr>chip := nor_write nc 0 0xF0 c'\<rparr>)"
  using cfi_poll_fails [OF assms(4)] cfi_flash_wait_amd [OF assms(1,2)] assms(1,3)
  by (auto simp: Let_def cfi_flash_command_def bus_writes_def cfi_word_ptr_def cfi_flash_get_memptr_def
      cfi_sec_def)

section \<open>Sectors as bytes\<close>

lemma cfi_geom_even_base: "cfi_geom s geom \<Longrightarrow> even (blk_base geom i)"
  unfolding blk_base_def by (rule even_sum_list) (auto simp: cfi_geom_def dest: in_set_takeD)

lemma cfi_geom_word_ptr:
  assumes "cfi_geom s geom" "i < length geom"
  shows "cfi_word_ptr (int i) s = Some (int (blk_base geom i div 2))"
  using cfi_geom_memptr [OF assms] by (simp add: cfi_word_ptr_def zdiv_int)

lemma cfi_geom_word_ptr_0: "cfi_geom s geom \<Longrightarrow> cfi_word_ptr 0 s = Some 0"
  using cfi_geom_word_ptr [of s geom 0] by (auto simp: cfi_geom_def)

lemma cfi_geom_chip [simp]: "cfi_geom (s\<lparr>chip := c\<rparr>) geom = cfi_geom s geom"
  by (simp add: cfi_geom_def)

lemma cfi_geom_lock [simp]: "cfi_geom (s\<lparr>cfi_flash_lock := n\<rparr>) geom = cfi_geom s geom"
  by (simp add: cfi_geom_def)

lemma length_sector_bytes [simp]: "length (sector_bytes geom ws i) = geom ! i"
  by (simp add: sector_bytes_def)

lemma take_drop_sector_bytes:
  "off + n \<le> geom ! i \<Longrightarrow>
   take n (drop off (sector_bytes geom ws i)) =
     map (byte_at ws) [blk_base geom i + off..<blk_base geom i + off + n]"
  by (rule nth_equalityI) (simp_all add: sector_bytes_def add.assoc)

lemma same_outside_refl [simp]: "same_outside lo hi xs xs"
  by (simp add: same_outside_def)

lemma same_outside_trans:
  "same_outside lo hi xs ys \<Longrightarrow> same_outside lo hi ys zs \<Longrightarrow> same_outside lo hi xs zs"
  by (simp add: same_outside_def)

lemma same_outside_update: "lo \<le> a \<Longrightarrow> a < hi \<Longrightarrow> same_outside lo hi xs (xs[a := x])"
  by (auto simp: same_outside_def nth_list_update)

text \<open>A change inside the words of sector \<open>i\<close> shows in that sector only.\<close>

lemma same_outside_sector_bytes:
  assumes "same_outside (blk_base geom i div 2) (blk_base geom (Suc i) div 2) ws ws'"
    and ev: "\<And>j. even (blk_base geom j)"
    and j: "j < length geom" "i \<noteq> j" "sum_list geom \<le> 2 * length ws"
  shows "sector_bytes geom ws' j = sector_bytes geom ws j"
proof (rule nth_equalityI)
  fix k assume k: "k < length (sector_bytes geom ws' j)"
  let ?a = "blk_base geom j + k"
  have hi: "?a < blk_base geom (Suc j)" using k blk_base_Suc [OF j(1)] by simp
  then have "?a div 2 < length ws"
    using blk_base_le_total [of geom "Suc j"] j(3) by simp
  moreover have "?a div 2 < blk_base geom i div 2 \<or> blk_base geom (Suc i) div 2 \<le> ?a div 2"
  proof (cases "j < i")
    case True
    then have "blk_base geom (Suc j) \<le> blk_base geom i" by (intro blk_base_mono) simp
    then have "?a < blk_base geom i" using hi by simp
    then show ?thesis using ev [of i] by (auto elim!: evenE)
  next
    case False
    then have "blk_base geom (Suc i) \<le> blk_base geom j" using j(2) by (intro blk_base_mono) simp
    then show ?thesis by (simp add: div_le_mono)
  qed
  ultimately have "ws ! (?a div 2) = ws' ! (?a div 2)"
    using assms(1) by (auto simp: same_outside_def)
  then show "sector_bytes geom ws' j ! k = sector_bytes geom ws j ! k"
    using k by (simp add: sector_bytes_def byte_at_def)
qed simp

lemma same_outside_contents:
  assumes "cfi_geom s geom" "i < length geom" "sum_list geom \<le> 2 * length (cells (chip s))"
    and "same_outside (blk_base geom i div 2) (blk_base geom (Suc i) div 2) (cells (chip s)) (cells c')"
  shows "cfi_contents geom cells (s\<lparr>chip := c'\<rparr>) =
    (cfi_contents geom cells s)[i := sector_bytes geom (cells c') i]"
proof (rule nth_equalityI)
  fix j assume "j < length (cfi_contents geom cells (s\<lparr>chip := c'\<rparr>))"
  then have "j < length geom" by (simp add: cfi_contents_def)
  then show "cfi_contents geom cells (s\<lparr>chip := c'\<rparr>) ! j =
      (cfi_contents geom cells s)[i := sector_bytes geom (cells c') i] ! j"
    using same_outside_sector_bytes [OF assms(4) cfi_geom_even_base [OF assms(1)], of j] assms(3)
    by (cases "i = j") (simp_all add: cfi_contents_def)
qed (simp add: cfi_contents_def)

section \<open>The chip\<close>

text \<open>
  \<open>ready\<close> is array mode, \<open>bypass\<close> unlock-bypass mode with no operation in progress,
  \<open>cells\<close> the array, \<open>geom\<close> the sector sizes in bytes.
\<close>

locale amd_chip =
  fixes nc :: "'c nor_chip"
    and ready :: "'c \<Rightarrow> bool"
    and bypass :: "'c \<Rightarrow> bool"
    and cells :: "'c \<Rightarrow> 16 word list"
    and geom :: "nat list"
  assumes sectors: "0 < length geom" "length geom \<le> 1024"
      "n \<in> set geom \<Longrightarrow> 0 < n \<and> even n" "sum_list geom \<le> 0x4000000"
    and cells_length: "ready c \<or> bypass c \<Longrightarrow> 2 * length (cells c) = sum_list geom"
    and array_read: "ready c \<Longrightarrow> a < length (cells c) \<Longrightarrow> nor_read nc (int a) c = (cells c ! a, c)"
    and enter_bypass: "ready c \<Longrightarrow>
          bypass (bus_writes nc [(0x555, 0xAA), (0x2AA, 0x55), (0x555, 0x20)] c)
          \<and> cells (bus_writes nc [(0x555, 0xAA), (0x2AA, 0x55), (0x555, 0x20)] c) = cells c"
    and leave_bypass: "ready c \<or> bypass c \<Longrightarrow>
          ready (bus_writes nc [(0, 0x90), (0, 0x00)] c)
          \<and> cells (bus_writes nc [(0, 0x90), (0, 0x00)] c) = cells c"
    and program: "bypass c \<Longrightarrow> i < length geom \<Longrightarrow>
          blk_base geom i div 2 \<le> a \<Longrightarrow> a < blk_base geom (Suc i) div 2 \<Longrightarrow>
          c1 = bus_writes nc (program_cycles (blk_base geom i div 2) a d) c \<Longrightarrow>
          \<exists>c' x. poll_settles nc (int a) d c1 c' \<and> bypass c' \<and> cells c' = (cells c)[a := x]
            \<or> poll_fails nc (int a) d c1 c'
              \<and> ready (nor_write nc 0 0xF0 c') \<and> cells (nor_write nc 0 0xF0 c') = (cells c)[a := x]"
    and sector_erase: "ready c \<Longrightarrow> i < length geom \<Longrightarrow> p = blk_base geom i div 2 \<Longrightarrow>
          c1 = bus_writes nc (erase_cycles p) c \<Longrightarrow>
          \<exists>c'. poll_settles nc (int p) 0xffff c1 c' \<and> ready c'
              \<and> same_outside p (blk_base geom (Suc i) div 2) (cells c) (cells c')
            \<or> poll_fails nc (int p) 0xffff c1 c' \<and> ready (nor_write nc 0 0xF0 c')
              \<and> same_outside p (blk_base geom (Suc i) div 2) (cells c) (cells (nor_write nc 0 0xF0 c'))"

text \<open>A chip that does not fail: bits are cleared as asked, and an erase sets a whole sector.\<close>

locale reliable_amd_chip = amd_chip +
  assumes program_reliable: "bypass c \<Longrightarrow> i < length geom \<Longrightarrow>
          blk_base geom i div 2 \<le> a \<Longrightarrow> a < blk_base geom (Suc i) div 2 \<Longrightarrow> cells c ! a AND d = d \<Longrightarrow>
          c1 = bus_writes nc (program_cycles (blk_base geom i div 2) a d) c \<Longrightarrow>
          \<exists>c'. poll_settles nc (int a) d c1 c' \<and> bypass c' \<and> cells c' = (cells c)[a := d]"
    and erase_reliable: "ready c \<Longrightarrow> i < length geom \<Longrightarrow> p = blk_base geom i div 2 \<Longrightarrow>
          c1 = bus_writes nc (erase_cycles p) c \<Longrightarrow>
          \<exists>c'. poll_settles nc (int p) 0xffff c1 c' \<and> ready c'
              \<and> same_outside p (blk_base geom (Suc i) div 2) (cells c) (cells c')
              \<and> (\<forall>k. p \<le> k \<and> k < blk_base geom (Suc i) div 2 \<longrightarrow> cells c' ! k = 0xffff)"

section \<open>The driver on such a chip\<close>

lemma half_even: "half (int (2 * k)) = int k"
  by (simp add: half_def)

lemma cfi_ok_down:
  assumes "cfi_ok geom ready s"
  obtains s1 where "down_interruptible s = Some s1" "cfi_geom s1 geom" "flashFamily s1 = FLASH_AMD"
    "chip s1 = chip s" "\<And>c. up (s1\<lparr>chip := c\<rparr>) = s\<lparr>chip := c\<rparr>"
proof (cases "in_interrupt s")
  case True
  then show ?thesis using assms that [of s] by (simp add: down_interruptible_def up_def cfi_ok_def)
next
  case False
  then show ?thesis
    using assms that [of "s\<lparr>cfi_flash_lock := cfi_flash_lock s - 1\<rparr>"]
    by (simp add: down_interruptible_def up_def cfi_ok_def)
qed

lemma cfi_ok_chip: "cfi_ok geom ready s \<Longrightarrow> ready c \<Longrightarrow> cfi_ok geom ready (s\<lparr>chip := c\<rparr>)"
  by (simp add: cfi_ok_def)

context amd_chip
begin

lemma read_byte:
  assumes "ready c" "a < sum_list geom"
  shows "nor_read_byte nc (int a) c = (byte_at (cells c) a, c)"
proof -
  have "a div 2 < length (cells c)" using assms cells_length [of c] by simp
  then show ?thesis
    using array_read [OF assms(1), of "a div 2"]
    by (simp add: nor_read_byte_def byte_at_def zdiv_int)
qed

lemma read_loop:
  "ready c \<Longrightarrow> a + n \<le> sum_list geom \<Longrightarrow>
   cfi_read_loop nc n (int a) c = (map (byte_at (cells c)) [a..<a + n], c)"
proof (induction n arbitrary: a)
  case (Suc n)
  then show ?case
    using Suc.IH [of "Suc a"] Suc.prems read_byte [of c a]
    by (simp add: upt_conv_Cons add.commute del: upt_Suc)
qed simp

lemma memcmp:
  "ready c \<Longrightarrow> a + length bs \<le> sum_list geom \<Longrightarrow>
   nor_memcmp nc (int a) bs c = (map (byte_at (cells c)) [a..<a + length bs] = bs, c)"
proof (induction bs arbitrary: a)
  case (Cons x xs)
  then show ?case
    using Cons.IH [of "Suc a"] Cons.prems read_byte [of c a]
    by (simp add: upt_conv_Cons add.commute del: upt_Suc)
qed simp

text \<open>The two commands, and the wait after them.\<close>

lemma erase_command:
  assumes "cfi_geom s geom" "flashFamily s = FLASH_AMD" "i < length geom"
  shows "cfi_flash_command nc FLASH_SERASE (int i) 0 0 s =
    Some (s\<lparr>chip := bus_writes nc (erase_cycles (blk_base geom i div 2)) (chip s)\<rparr>)"
  using cfi_geom_word_ptr [OF assms(1,3)] cfi_geom_word_ptr_0 [OF assms(1)] assms(2)
  by (simp add: cfi_flash_command_def erase_cycles_def)

lemma program_command:
  assumes "cfi_geom s geom" "flashFamily s = FLASH_AMD" "i < length geom"
    and "a = blk_base geom i div 2 + k"
  shows "cfi_flash_command nc FLASH_PROG (int i) (int (2 * k)) d s =
    Some (s\<lparr>chip := bus_writes nc (program_cycles (blk_base geom i div 2) a d) (chip s)\<rparr>)"
  using cfi_geom_word_ptr [OF assms(1,3)] cfi_geom_word_ptr_0 [OF assms(1)] assms(2,4) half_even [of k]
  by (simp add: cfi_flash_command_def program_cycles_def)

lemma wait_settles:
  assumes "cfi_geom s geom" "flashFamily s = FLASH_AMD" "i < length geom"
    and "a = blk_base geom i div 2 + k" "poll_settles nc (int a) d (chip s) c'"
  shows "cfi_flash_wait nc (int i) (int (2 * k)) d s = Some (STATUS_READY, s\<lparr>chip := c'\<rparr>)"
  using cfi_wait_settles [OF assms(2) cfi_geom_word_ptr [OF assms(1,3)], of nc "int (2 * k)" d c']
    assms(4,5) half_even [of k] by simp

lemma wait_fails:
  assumes "cfi_geom s geom" "flashFamily s = FLASH_AMD" "i < length geom"
    and "a = blk_base geom i div 2 + k" "poll_fails nc (int a) d (chip s) c'"
  shows "cfi_flash_wait nc (int i) (int (2 * k)) d s =
    Some (STATUS_TIMEOUT, s\<lparr>chip := nor_write nc 0 0xF0 c'\<rparr>)"
  using cfi_wait_fails [OF assms(2) cfi_geom_word_ptr [OF assms(1,3)] cfi_geom_word_ptr_0 [OF assms(1)],
      of nc "int (2 * k)" d c']
    assms(4,5) half_even [of k] by simp

lemma word_in_sector:
  assumes "i < length geom" "2 * k < geom ! i"
  shows "blk_base geom i div 2 + k < blk_base geom (Suc i) div 2"
proof -
  have "even (blk_base geom i)"
    unfolding blk_base_def using sectors(3) by (intro even_sum_list) (auto dest: in_set_takeD)
  then show ?thesis
    using assms blk_base_Suc [OF assms(1)] sectors(3) [of "geom ! i"] by (auto elim!: evenE)
qed

text \<open>One attempt to erase, and one to program.\<close>

lemma erase_attempt:
  assumes ok: "cfi_geom s geom" "flashFamily s = FLASH_AMD" "ready (chip s)" and i: "i < length geom"
  shows "\<exists>s1 st c'. cfi_flash_command nc FLASH_SERASE (int i) 0 0 s = Some s1 \<and>
    cfi_flash_wait nc (int i) 0 0xffff s1 = Some (st, s\<lparr>chip := c'\<rparr>) \<and> ready c' \<and>
    same_outside (blk_base geom i div 2) (blk_base geom (Suc i) div 2) (cells (chip s)) (cells c')"
proof -
  let ?s1 = "s\<lparr>chip := bus_writes nc (erase_cycles (blk_base geom i div 2)) (chip s)\<rparr>"
  note cmd = erase_command [OF ok(1,2) i]
  note wait = wait_settles [of ?s1 i _ 0 "0xffff"] wait_fails [of ?s1 i _ 0 "0xffff"]
  have "\<exists>c'. poll_settles nc (int (blk_base geom i div 2)) 0xffff (chip ?s1) c' \<and> ready c'
        \<and> same_outside (blk_base geom i div 2) (blk_base geom (Suc i) div 2) (cells (chip s)) (cells c')
      \<or> poll_fails nc (int (blk_base geom i div 2)) 0xffff (chip ?s1) c' \<and> ready (nor_write nc 0 0xF0 c')
        \<and> same_outside (blk_base geom i div 2) (blk_base geom (Suc i) div 2) (cells (chip s))
            (cells (nor_write nc 0 0xF0 c'))"
    using sector_erase [OF ok(3) i refl refl] by simp
  then show ?thesis using cmd wait ok i by fastforce
qed

lemma program_attempt:
  assumes ok: "cfi_geom s geom" "flashFamily s = FLASH_AMD" "bypass (chip s)" and i: "i < length geom"
    and k: "2 * k < geom ! i" and a: "a = blk_base geom i div 2 + k"
  shows "\<exists>s1 st c' x. cfi_flash_command nc FLASH_PROG (int i) (int (2 * k)) d s = Some s1 \<and>
    cfi_flash_wait nc (int i) (int (2 * k)) d s1 = Some (st, s\<lparr>chip := c'\<rparr>) \<and>
    (if st = STATUS_READY then bypass c' else ready c') \<and> cells c' = (cells (chip s))[a := x]"
proof -
  let ?s1 = "s\<lparr>chip := bus_writes nc (program_cycles (blk_base geom i div 2) a d) (chip s)\<rparr>"
  note cmd = program_command [OF ok(1,2) i a]
  note wait = wait_settles [of ?s1 i a k d] wait_fails [of ?s1 i a k d]
  have "\<exists>c' x. poll_settles nc (int a) d (chip ?s1) c' \<and> bypass c' \<and> cells c' = (cells (chip s))[a := x]
      \<or> poll_fails nc (int a) d (chip ?s1) c' \<and> ready (nor_write nc 0 0xF0 c')
        \<and> cells (nor_write nc 0 0xF0 c') = (cells (chip s))[a := x]"
    using program [OF ok(3) i _ _ refl, of a d] word_in_sector [OF i k] a by simp
  then show ?thesis using cmd wait ok i a by fastforce
qed

lemma cfi_erase_tries_ok:
  assumes "cfi_geom s geom" "flashFamily s = FLASH_AMD" "ready (chip s)" and i: "i < length geom"
  shows "\<exists>c'. cfi_erase_tries nc n (int i) s = Some (s\<lparr>chip := c'\<rparr>) \<and> ready c' \<and>
    same_outside (blk_base geom i div 2) (blk_base geom (Suc i) div 2) (cells (chip s)) (cells c')"
  using assms(1-3)
proof (induction n arbitrary: s)
  case 0
  then show ?case by (auto intro: exI [of _ "chip s"])
next
  case (Suc n)
  obtain s1 st c' where one: "cfi_flash_command nc FLASH_SERASE (int i) 0 0 s = Some s1"
      "cfi_flash_wait nc (int i) 0 0xffff s1 = Some (st, s\<lparr>chip := c'\<rparr>)" "ready c'"
      "same_outside (blk_base geom i div 2) (blk_base geom (Suc i) div 2) (cells (chip s)) (cells c')"
    using erase_attempt [OF Suc.prems i] by blast
  show ?case
  proof (cases st)
    case STATUS_READY
    then show ?thesis using one by auto
  next
    case STATUS_TIMEOUT
    obtain c3 where "cfi_erase_tries nc n (int i) (s\<lparr>chip := c'\<rparr>) = Some (s\<lparr>chip := c3\<rparr>)"
        "ready c3" "same_outside (blk_base geom i div 2) (blk_base geom (Suc i) div 2) (cells c') (cells c3)"
      using Suc.IH [of "s\<lparr>chip := c'\<rparr>"] Suc.prems one(3) by auto
    then show ?thesis
      using one STATUS_TIMEOUT by (intro exI [of _ c3]) (auto intro: same_outside_trans)
  qed
qed

lemma cfi_write_loop_0 [simp]: "cfi_write_loop nc sector off src 0 s = Some (0, s)"
  by (cases "(nc, sector, off, src, 0 :: int, s)" rule: cfi_write_loop.cases) auto

lemma cfi_write_loop_ok:
  assumes "cfi_geom s geom" "flashFamily s = FLASH_AMD" "bypass (chip s)" and i: "i < length geom"
    and "2 * (k + m) \<le> geom ! i" "2 * m \<le> length src"
  shows "\<exists>n c'. cfi_write_loop nc (int i) (int (2 * k)) src (int (2 * m)) s = Some (n, s\<lparr>chip := c'\<rparr>) \<and>
    (ready c' \<or> bypass c') \<and>
    same_outside (blk_base geom i div 2) (blk_base geom (Suc i) div 2) (cells (chip s)) (cells c')"
  using assms(1-3,5,6)
proof (induction m arbitrary: s k src)
  case 0
  then show ?case by (auto intro: exI [of _ "chip s"])
next
  case (Suc m)
  then obtain hi lo src' where src: "src = hi # lo # src'" by (cases src; cases "tl src") auto
  let ?w = "push_bit 8 (ucast hi) OR ucast lo :: 16 word"
  let ?a = "blk_base geom i div 2 + k"
  obtain s1 st c' x where one: "cfi_flash_command nc FLASH_PROG (int i) (int (2 * k)) ?w s = Some s1"
      "cfi_flash_wait nc (int i) (int (2 * k)) ?w s1 = Some (st, s\<lparr>chip := c'\<rparr>)"
      "if st = STATUS_READY then bypass c' else ready c'" "cells c' = (cells (chip s))[?a := x]"
    using program_attempt [OF Suc.prems(1-3) i, of k ?a ?w] Suc.prems(4) by auto
  have same: "same_outside (blk_base geom i div 2) (blk_base geom (Suc i) div 2)
      (cells (chip s)) (cells c')"
    unfolding one(4) using blk_base_Suc [OF i] Suc.prems(4)
    by (intro same_outside_update) (auto simp: div_add)
  show ?case
  proof (cases st)
    case STATUS_TIMEOUT
    then show ?thesis using one src same by auto
  next
    case STATUS_READY
    obtain n c3 where "cfi_write_loop nc (int i) (int (2 * Suc k)) src' (int (2 * m)) (s\<lparr>chip := c'\<rparr>) =
          Some (n, s\<lparr>chip := c3\<rparr>)" "ready c3 \<or> bypass c3"
        "same_outside (blk_base geom i div 2) (blk_base geom (Suc i) div 2) (cells c') (cells c3)"
      using Suc.IH [of "s\<lparr>chip := c'\<rparr>" "Suc k" src'] Suc.prems one(3) STATUS_READY src by auto
    then show ?thesis
      using one same STATUS_READY src by (intro exI [of _ "n + 2"] exI [of _ c3])
        (auto intro: same_outside_trans simp: algebra_simps)
  qed
qed

lemma cfi_erase_ok:
  assumes "cfi_ok geom ready s" "i < length geom"
  shows "\<exists>c'. cfi_flash_sector_erase_int nc (int i) s = Some (FLASH_API_OK, s\<lparr>chip := c'\<rparr>) \<and> ready c' \<and>
    same_outside (blk_base geom i div 2) (blk_base geom (Suc i) div 2) (cells (chip s)) (cells c')"
proof -
  obtain s1 where s1: "down_interruptible s = Some s1" "cfi_geom s1 geom" "flashFamily s1 = FLASH_AMD"
      "chip s1 = chip s" "\<And>c. up (s1\<lparr>chip := c\<rparr>) = s\<lparr>chip := c\<rparr>"
    using cfi_ok_down [OF assms(1)] by blast
  have "ready (chip s1)" using assms(1) s1(4) by (simp add: cfi_ok_def)
  then obtain c' where "cfi_erase_tries nc 3 (int i) s1 = Some (s1\<lparr>chip := c'\<rparr>)" "ready c'"
      "same_outside (blk_base geom i div 2) (blk_base geom (Suc i) div 2) (cells (chip s)) (cells c')"
    using cfi_erase_tries_ok [OF s1(2,3) _ assms(2), of 3] s1(4) by auto
  then show ?thesis using s1 by (auto simp: cfi_flash_sector_erase_int_def)
qed

lemma cfi_flash_write_ok:
  assumes "cfi_ok geom ready s" "i < length geom" "2 * (k + m) \<le> geom ! i" "2 * m \<le> length buf"
  shows "\<exists>n c'. cfi_flash_write nc (int i) (int (2 * k)) buf (int (2 * m)) s =
      Some (n, s\<lparr>chip := c'\<rparr>) \<and> ready c' \<and>
    same_outside (blk_base geom i div 2) (blk_base geom (Suc i) div 2) (cells (chip s)) (cells c')"
proof -
  obtain s1 where s1: "down_interruptible s = Some s1" "cfi_geom s1 geom" "flashFamily s1 = FLASH_AMD"
      "chip s1 = chip s" "\<And>c. up (s1\<lparr>chip := c\<rparr>) = s\<lparr>chip := c\<rparr>"
    using cfi_ok_down [OF assms(1)] by blast
  let ?c1 = "bus_writes nc [(0x555, 0xAA), (0x2AA, 0x55), (0x555, 0x20)] (chip s)"
  let ?s2 = "s1\<lparr>chip := ?c1\<rparr>"
  have ub: "cfi_flash_command nc FLASH_UB 0 0 0 s1 = Some ?s2"
    using cfi_geom_word_ptr_0 [OF s1(2)] s1(3,4) by (simp add: cfi_flash_command_def)
  have bp: "bypass ?c1" "cells ?c1 = cells (chip s)"
    using enter_bypass [of "chip s"] assms(1) by (simp_all add: cfi_ok_def)
  obtain n c2 where loop: "cfi_write_loop nc (int i) (int (2 * k)) buf (int (2 * m)) ?s2 =
        Some (n, s1\<lparr>chip := c2\<rparr>)" and c2: "ready c2 \<or> bypass c2"
      "same_outside (blk_base geom i div 2) (blk_base geom (Suc i) div 2) (cells (chip s)) (cells c2)"
    using cfi_write_loop_ok [of ?s2 i k m buf] s1 bp assms(2-4) by auto
  let ?c3 = "bus_writes nc [(0, 0x90), (0, 0x00)] c2"
  have reset: "cfi_flash_command nc FLASH_UBRESET 0 0 0 (s1\<lparr>chip := c2\<rparr>) = Some (s1\<lparr>chip := ?c3\<rparr>)"
    using cfi_geom_word_ptr_0 [of "s1\<lparr>chip := c2\<rparr>" geom] s1(2,3) by (simp add: cfi_flash_command_def)
  have "ready ?c3" "cells ?c3 = cells c2" using leave_bypass [OF c2(1)] by simp_all
  then show ?thesis using s1(1,5) ub loop reset c2(2) by (auto simp: cfi_flash_write_def)
qed

lemma cfi_write_tries_ok:
  assumes "cfi_ok geom ready s" and i: "i < length geom"
    and km: "2 * (k + m) \<le> geom ! i" "2 * m \<le> length buf"
  shows "\<exists>r c'. cfi_write_tries nc n (int i) (int (2 * k)) buf (int (2 * m))
      (int (blk_base geom i + 2 * k)) s = Some (r, s\<lparr>chip := c'\<rparr>) \<and> ready c' \<and>
    same_outside (blk_base geom i div 2) (blk_base geom (Suc i) div 2) (cells (chip s)) (cells c') \<and>
    (r = int (2 * m) \<longrightarrow> take (2 * m) (drop (2 * k) (sector_bytes geom (cells c') i)) = take (2 * m) buf)"
  using assms(1)
proof (induction n arbitrary: s)
  case 0
  then show ?case by (auto simp: FLASH_API_ERROR_def cfi_ok_def intro: exI [of _ "chip s"])
next
  case (Suc n)
  obtain w c1 where one: "cfi_flash_write nc (int i) (int (2 * k)) buf (int (2 * m)) s =
        Some (w, s\<lparr>chip := c1\<rparr>)" "ready c1"
      "same_outside (blk_base geom i div 2) (blk_base geom (Suc i) div 2) (cells (chip s)) (cells c1)"
    using cfi_flash_write_ok [OF Suc.prems i km] by auto
  have src: "mem_read 0 (int (2 * m)) buf = Some (take (2 * m) buf)"
    using mem_read_int [of 0 "2 * m" buf] km(2) by simp
  have "blk_base geom i + 2 * k + 2 * m \<le> sum_list geom"
    using km(1) blk_base_Suc [OF i] blk_base_le_total [of geom "Suc i"] by simp
  then have cmp: "nor_memcmp nc (int (blk_base geom i + 2 * k)) (take (2 * m) buf) c1 =
      (take (2 * m) (drop (2 * k) (sector_bytes geom (cells c1) i)) = take (2 * m) buf, c1)"
    using memcmp [OF one(2), of "blk_base geom i + 2 * k" "take (2 * m) buf"] km
    by (simp add: take_drop_sector_bytes)
  let ?s1 = "s\<lparr>chip := c1\<rparr>"
  have ok1: "cfi_ok geom ready ?s1" using cfi_ok_chip [OF Suc.prems one(2)] .
  show ?case
  proof (cases "take (2 * m) (drop (2 * k) (sector_bytes geom (cells c1) i)) = take (2 * m) buf")
    case True
    then show ?thesis using one src cmp by (intro exI [of _ w] exI [of _ c1]) simp
  next
    case False
    obtain c2 where er: "cfi_flash_sector_erase_int nc (int i) ?s1 = Some (FLASH_API_OK, s\<lparr>chip := c2\<rparr>)"
        "ready c2" "same_outside (blk_base geom i div 2) (blk_base geom (Suc i) div 2) (cells c1) (cells c2)"
      using cfi_erase_ok [OF ok1 i] by auto
    have "cfi_ok geom ready (s\<lparr>chip := c2\<rparr>)" using cfi_ok_chip [OF Suc.prems er(2)] .
    from Suc.IH [OF this] obtain r c3 where
      "cfi_write_tries nc n (int i) (int (2 * k)) buf (int (2 * m)) (int (blk_base geom i + 2 * k))
         (s\<lparr>chip := c2\<rparr>) = Some (r, s\<lparr>chip := c3\<rparr>)" "ready c3"
      "same_outside (blk_base geom i div 2) (blk_base geom (Suc i) div 2) (cells c2) (cells c3)"
      "r = int (2 * m) \<longrightarrow> take (2 * m) (drop (2 * k) (sector_bytes geom (cells c3) i)) = take (2 * m) buf"
      by auto
    then show ?thesis
      using one src cmp False er by (intro exI [of _ r] exI [of _ c3]) (auto intro: same_outside_trans)
  qed
qed

lemma contents_after:
  assumes "cfi_ok geom ready s" "i < length geom" "ready c'"
    and "same_outside (blk_base geom i div 2) (blk_base geom (Suc i) div 2) (cells (chip s)) (cells c')"
  shows "cfi_ok geom ready (s\<lparr>chip := c'\<rparr>) \<and>
    cfi_contents geom cells (s\<lparr>chip := c'\<rparr>) =
      (cfi_contents geom cells s)[i := sector_bytes geom (cells c') i]"
  using assms cfi_ok_chip [OF assms(1,3)] cells_length [of "chip s"]
    same_outside_contents [of s geom i cells c']
  by (auto simp: cfi_ok_def)

lemma contract_read:
  assumes ok: "cfi_ok geom ready s" and i: "i < length geom" "off + n \<le> geom ! i" "n \<le> length buf"
  shows "cfi_flash_read_buf nc (int i) (int off) buf (int n) s =
      Some (FLASH_API_OK, take n (drop off (sector_bytes geom (cells (chip s)) i)) @ drop n buf, s)"
proof -
  obtain s1 where s1: "down_interruptible s = Some s1" "cfi_geom s1 geom"
      "chip s1 = chip s" "\<And>c. up (s1\<lparr>chip := c\<rparr>) = s\<lparr>chip := c\<rparr>"
    using cfi_ok_down [OF ok] by metis
  have "blk_base geom i + off + n \<le> sum_list geom"
    using i blk_base_Suc [OF i(1)] blk_base_le_total [of geom "Suc i"] by simp
  then have "cfi_read_loop nc n (int (blk_base geom i + off)) (chip s) =
      (take n (drop off (sector_bytes geom (cells (chip s)) i)), chip s)"
    using read_loop [of "chip s" "blk_base geom i + off" n] ok i(2)
    by (simp add: cfi_ok_def take_drop_sector_bytes)
  then show ?thesis
    using s1 cfi_geom_memptr [OF s1(2) i(1)] i(2,3) mem_write_int [of 0 _ buf] s1(4) [of "chip s"]
    by (simp add: cfi_flash_read_buf_def)
qed

lemma contract_erase:
  assumes "cfi_ok geom ready s" "i < length geom"
  shows "\<exists>r x s'. cfi_flash_sector_erase_int nc (int i) s = Some (r, s') \<and> cfi_ok geom ready s' \<and>
    cfi_contents geom cells s' = (cfi_contents geom cells s)[i := x] \<and> length x = geom ! i"
  using cfi_erase_ok [OF assms] contents_after [OF assms] length_sector_bytes by blast

lemma contract_write:
  assumes ok: "cfi_ok geom ready s" and i: "i < length geom" "off + n \<le> geom ! i" "n \<le> length buf"
    and ev: "even off" "even n"
  shows "\<exists>r x s'. cfi_flash_write_buf nc (int i) (int off) buf (int n) s = Some (r, s') \<and>
    cfi_ok geom ready s' \<and> cfi_contents geom cells s' = (cfi_contents geom cells s)[i := x] \<and>
    length x = geom ! i \<and> (r = int n \<longrightarrow> take n (drop off x) = take n buf)"
proof -
  obtain k m where km: "off = 2 * k" "n = 2 * m" using ev by (auto elim!: evenE)
  have ptr: "cfi_flash_get_memptr (int i) s = Some (FLASH_BASE + int (blk_base geom i))"
    using ok i(1) by (simp add: cfi_ok_def cfi_geom_memptr)
  obtain r c' where "cfi_write_tries nc 3 (int i) (int off) buf (int n) (int (blk_base geom i + off)) s =
      Some (r, s\<lparr>chip := c'\<rparr>)" "ready c'"
    "same_outside (blk_base geom i div 2) (blk_base geom (Suc i) div 2) (cells (chip s)) (cells c')"
    "r = int n \<longrightarrow> take n (drop off (sector_bytes geom (cells c') i)) = take n buf"
    using cfi_write_tries_ok [OF ok i(1), of k m buf 3] i(2,3) unfolding km by auto
  then show ?thesis
    using ptr contents_after [OF ok i(1)] length_sector_bytes
    by (intro exI [of _ r] exI [of _ "sector_bytes geom (cells c') i"] exI [of _ "s\<lparr>chip := c'\<rparr>"])
      (auto simp: cfi_flash_write_buf_def)
qed

end

section \<open>The contract\<close>

lemma contents_nth: "i < length geom \<Longrightarrow> cfi_contents geom cells s ! i = sector_bytes geom (cells (chip s)) i"
  by (simp add: cfi_contents_def)

sublocale amd_chip \<subseteq> cfi: flash_device "flash_cfi_dev nc did name" "cfi_ok geom ready" geom
  "cfi_contents geom cells" for did name
proof
  fix d i off n buf
  show "0 < length geom" "length geom \<le> 1024" "sum_list geom \<le> 0x4000000"
    using sectors by simp_all
  show "n \<in> set geom \<Longrightarrow> 0 < n \<and> even n" by (rule sectors(3))
  show "cfi_ok geom ready d \<Longrightarrow> map length (cfi_contents geom cells d) = geom"
    by (simp add: cfi_contents_def o_def map_nth)
  show "cfi_ok geom ready d \<Longrightarrow> fn_flash_get_numsectors (flash_cfi_dev nc did name) d = int (length geom)"
    by (simp add: flash_cfi_dev_def cfi_flash_get_numsectors_def cfi_ok_def cfi_geom_def)
  show "cfi_ok geom ready d \<Longrightarrow> fn_flash_get_total_size (flash_cfi_dev nc did name) d = int (sum_list geom)"
    by (simp add: flash_cfi_dev_def cfi_flash_get_total_size_def cfi_ok_def cfi_geom_def)
  show "cfi_ok geom ready d \<Longrightarrow> i < length geom \<Longrightarrow>
      fn_flash_get_sector_size (flash_cfi_dev nc did name) (int i) d = Some (int (geom ! i))"
    by (simp add: flash_cfi_dev_def cfi_ok_def cfi_geom_sector_size)
  show "cfi_ok geom ready d \<Longrightarrow> i < length geom \<Longrightarrow>
      fn_flash_get_memptr (flash_cfi_dev nc did name) (int i) d = Some (FLASH_BASE + int (blk_base geom i))"
    by (simp add: flash_cfi_dev_def cfi_ok_def cfi_geom_memptr)
  fix a
  show "cfi_ok geom ready d \<Longrightarrow> a < sum_list geom \<Longrightarrow>
      fn_flash_get_blk (flash_cfi_dev nc did name) (s32 (FLASH_BASE + int a)) d = Some (int (blk_of geom a))"
    using sectors(4) cfi_flash_get_blk_eq [of d geom "int a"] by (simp add: flash_cfi_dev_def cfi_ok_def)
next
  fix d i off n and buf :: bytes
  assume a: "cfi_ok geom ready d" "i < length geom" "off + n \<le> geom ! i" "n \<le> length buf"
  show "\<exists>r d'. fn_flash_read_buf (flash_cfi_dev nc did name) (int i) (int off) buf (int n) d =
      Some (r, take n (drop off (cfi_contents geom cells d ! i)) @ drop n buf, d') \<and>
      cfi_ok geom ready d' \<and> cfi_contents geom cells d' = cfi_contents geom cells d"
    using contract_read [OF a] a(1) by (simp add: flash_cfi_dev_def contents_nth [OF a(2)])
next
  fix d i
  assume a: "cfi_ok geom ready d" "i < length geom"
  show "\<exists>r x d'. fn_flash_sector_erase_int (flash_cfi_dev nc did name) (int i) d = Some (r, d') \<and>
      cfi_ok geom ready d' \<and> cfi_contents geom cells d' = (cfi_contents geom cells d)[i := x] \<and>
      length x = geom ! i"
    using contract_erase [OF a] by (simp add: flash_cfi_dev_def)
next
  fix d i off n e d1 and buf :: bytes
  assume a: "cfi_ok geom ready d" "i < length geom" "off + n \<le> geom ! i" "n \<le> length buf"
    "even off" "even n" "fn_flash_sector_erase_int (flash_cfi_dev nc did name) (int i) d = Some (e, d1)"
  obtain x1 where "cfi_ok geom ready d1" "cfi_contents geom cells d1 = (cfi_contents geom cells d)[i := x1]"
    using contract_erase [OF a(1,2)] a(7) by (auto simp: flash_cfi_dev_def)
  then show "\<exists>r x d'. fn_flash_write_buf (flash_cfi_dev nc did name) (int i) (int off) buf (int n) d1 = Some (r, d') \<and>
      cfi_ok geom ready d' \<and> cfi_contents geom cells d' = (cfi_contents geom cells d)[i := x] \<and>
      length x = geom ! i \<and> (r = int n \<longrightarrow> take n (drop off x) = take n buf)"
    using contract_write [OF _ a(2-6)] by (fastforce simp: flash_cfi_dev_def)
qed

context amd_chip
begin

lemma cfi_device:
  "flash_device (flash_cfi_dev nc did name) (cfi_ok geom ready) geom (cfi_contents geom cells)"
  by (rule cfi.flash_device_axioms)

end

end
