(* ===== verification/Cfi_Reliable.thy ===== *)
theory Cfi_Reliable
  imports Cfi_Driver
begin

text \<open>
  On a chip whose program and erase commands take effect, the parallel driver keeps the
  stronger contract of a flash device that does not fail: an erase sets the sector to
  \<open>0xff\<close>, and a write to erased bytes stores exactly its data on the first attempt.
\<close>

section \<open>The contract of a chip that does not fail\<close>

lemma be16_hi [simp]: "ucast (drop_bit 8 (be16 h l)) = h"
  by (rule bit_word_eqI) (auto simp: be16_def bit_simps bit8_beyond)

lemma be16_lo [simp]: "ucast (be16 h l) = l"
  by (rule bit_word_eqI) (auto simp: be16_def bit_simps)

lemma length_words_of: "length (words_of bs) = length bs div 2"
  by (induction bs rule: words_of.induct) auto

lemma byte_at_words_of: "j < 2 * (length bs div 2) \<Longrightarrow> byte_at (words_of bs) j = bs ! j"
proof (induction bs arbitrary: j rule: words_of.induct)
  case (1 hi lo bs)
  show ?case
  proof (cases "j < 2")
    case True
    then show ?thesis by (auto simp: byte_at_def less_2_cases_iff)
  next
    case False
    then obtain j' where j': "j = j' + 2" by (metis add.commute le_Suc_ex not_less)
    then have "byte_at (words_of (hi # lo # bs)) j = byte_at (words_of bs) j'"
      by (simp add: byte_at_def)
    then show ?thesis using 1 j' by simp
  qed
qed auto

lemma byte_at_erased: "ws ! (k div 2) = 0xffff \<Longrightarrow> byte_at ws k = 0xff"
  by (simp add: byte_at_def)

lemma byte_at_0xff_pair:
  assumes "byte_at ws (2 * k) = 0xff" "byte_at ws (2 * k + 1) = 0xff"
  shows "ws ! k = 0xffff"
proof -
  have "be16 (byte_at ws (2 * k)) (byte_at ws (2 * k + 1)) = ws ! k"
    by (rule bit_word_eqI) (auto simp: be16_def byte_at_def bit_simps)
  then show ?thesis using assms by (simp add: be16_def)
qed

lemma byte_at_splice:
  assumes "a + length ws1 \<le> length ws"
  shows "byte_at (take a ws @ ws1 @ drop (a + length ws1) ws) j =
    (if 2 * a \<le> j \<and> j < 2 * (a + length ws1) then byte_at ws1 (j - 2 * a) else byte_at ws j)"
proof -
  consider "j div 2 < a" | "a \<le> j div 2" "j div 2 < a + length ws1" | "a + length ws1 \<le> j div 2"
    by linarith
  then show ?thesis
  proof cases
    case 1
    then have "j < 2 * a" by linarith
    then show ?thesis using 1 assms by (simp add: byte_at_def nth_append)
  next
    case 2
    then have "2 * a \<le> j" "j < 2 * (a + length ws1)"
      by (simp_all add: div_less_iff_less_mult less_eq_div_iff_mult_less_eq mult.commute)
    moreover from this have "(j - 2 * a) div 2 = j div 2 - a" by (auto simp: le_iff_add)
    ultimately show ?thesis using 2 assms by (auto simp: byte_at_def nth_append)
  next
    case 3
    then have "\<not> j < 2 * (a + length ws1)"
      by (simp add: less_eq_div_iff_mult_less_eq mult.commute)
    then show ?thesis using 3 assms by (auto simp: byte_at_def nth_append)
  qed
qed

lemma sector_bytes_splice:
  assumes ev: "even (blk_base geom i)" and a: "a = blk_base geom i div 2 + k"
    and km: "2 * (k + m) \<le> geom ! i" "length src = 2 * m" "a + m \<le> length ws"
  shows "sector_bytes geom (take a ws @ words_of src @ drop (a + m) ws) i =
    take (2 * k) (sector_bytes geom ws i) @ src @ drop (2 * k + 2 * m) (sector_bytes geom ws i)"
proof (rule nth_equalityI)
  fix j assume "j < length (sector_bytes geom (take a ws @ words_of src @ drop (a + m) ws) i)"
  then have j: "j < geom ! i" by simp
  have base: "blk_base geom i = 2 * a - 2 * k" "2 * k \<le> 2 * a" using ev a by (auto elim!: evenE)
  have len: "length (words_of src) = m" using km(2) by (simp add: length_words_of)
  have "sector_bytes geom (take a ws @ words_of src @ drop (a + m) ws) i ! j =
      (if 2 * k \<le> j \<and> j < 2 * k + 2 * m then src ! (j - 2 * k) else byte_at ws (blk_base geom i + j))"
    using byte_at_splice [of a "words_of src" ws "blk_base geom i + j"] len km j base
      byte_at_words_of [of "j - 2 * k" src]
    by (auto simp: sector_bytes_def)
  also have "\<dots> = (take (2 * k) (sector_bytes geom ws i) @ src @
      drop (2 * k + 2 * m) (sector_bytes geom ws i)) ! j"
    using km j by (auto simp: nth_append sector_bytes_def)
  finally show "sector_bytes geom (take a ws @ words_of src @ drop (a + m) ws) i ! j =
      (take (2 * k) (sector_bytes geom ws i) @ src @ drop (2 * k + 2 * m) (sector_bytes geom ws i)) ! j" .
qed (use km in simp)

lemma erased_words:
  assumes ev: "even (blk_base geom i)" and a: "a = blk_base geom i div 2 + k"
    and "2 * (k + m) \<le> geom ! i"
    and "take (2 * m) (drop (2 * k) (sector_bytes geom ws i)) = replicate (2 * m) 0xff"
    and j: "a \<le> j" "j < a + m"
  shows "ws ! j = 0xffff"
proof (rule byte_at_0xff_pair)
  have base: "blk_base geom i + 2 * k = 2 * a" using ev a by (auto elim!: evenE)
  have "map (byte_at ws) [2 * a..<2 * a + 2 * m] = replicate (2 * m) 0xff"
    using assms(4) take_drop_sector_bytes [of "2 * k" "2 * m" geom i ws] assms(3) base by simp
  then have b: "byte_at ws (2 * a + x) = 0xff" if "x < 2 * m" for x
    using that by (metis add_diff_cancel_left' length_replicate length_upt nth_map nth_replicate nth_upt
        length_map add_less_cancel_left)
  show "byte_at ws (2 * j) = 0xff" using b [of "2 * (j - a)"] j by (simp add: right_diff_distrib')
  show "byte_at ws (2 * j + 1) = 0xff" using b [of "2 * (j - a) + 1"] j by (simp add: right_diff_distrib')
qed

lemma same_outside_splice:
  "lo \<le> a \<Longrightarrow> a + length vs \<le> hi \<Longrightarrow> a + length vs \<le> length ws \<Longrightarrow>
   same_outside lo hi ws (take a ws @ vs @ drop (a + length vs) ws)"
  by (auto simp: same_outside_def nth_append)

context reliable_amd_chip
begin

lemma erase_reliably:
  assumes ok: "cfi_ok geom ready s" and i: "i < length geom"
  shows "\<exists>c'. cfi_flash_sector_erase_int nc (int i) s = Some (FLASH_API_OK, s\<lparr>chip := c'\<rparr>) \<and> ready c' \<and>
    same_outside (blk_base geom i div 2) (blk_base geom (Suc i) div 2) (cells (chip s)) (cells c') \<and>
    sector_bytes geom (cells c') i = replicate (geom ! i) 0xff"
proof -
  obtain s1 where s1: "down_interruptible s = Some s1" "cfi_geom s1 geom" "flashFamily s1 = FLASH_AMD"
      "chip s1 = chip s" "\<And>c. up (s1\<lparr>chip := c\<rparr>) = s\<lparr>chip := c\<rparr>"
    using cfi_ok_down [OF ok] by blast
  have "ready (chip s)" using ok by (simp add: cfi_ok_def)
  from erase_reliable [OF this i refl refl] obtain c' where c':
    "poll_settles nc (int (blk_base geom i div 2)) 0xffff
       (bus_writes nc (erase_cycles (blk_base geom i div 2)) (chip s)) c'" "ready c'"
    "same_outside (blk_base geom i div 2) (blk_base geom (Suc i) div 2) (cells (chip s)) (cells c')"
    "\<forall>k. blk_base geom i div 2 \<le> k \<and> k < blk_base geom (Suc i) div 2 \<longrightarrow> cells c' ! k = 0xffff"
    by blast
  let ?s2 = "s1\<lparr>chip := bus_writes nc (erase_cycles (blk_base geom i div 2)) (chip s)\<rparr>"
  have "cfi_flash_wait nc (int i) (int (2 * 0)) 0xffff ?s2 = Some (STATUS_READY, ?s2\<lparr>chip := c'\<rparr>)"
    using s1 c'(1) i by (intro wait_settles [of _ _ "blk_base geom i div 2"]) simp_all
  then have tries: "cfi_erase_tries nc (Suc n) (int i) s1 = Some (s1\<lparr>chip := c'\<rparr>)" for n
    using erase_command [OF s1(2,3) i] s1(4) by simp
  have "cfi_erase_tries nc 3 (int i) s1 = Some (s1\<lparr>chip := c'\<rparr>)"
    using tries [of 2] by (simp del: cfi_erase_tries.simps)
  moreover have "sector_bytes geom (cells c') i = replicate (geom ! i) 0xff"
  proof (rule nth_equalityI)
    fix k assume "k < length (sector_bytes geom (cells c') i)"
    then have k: "k < geom ! i" by simp
    have "(blk_base geom i + k) div 2 < blk_base geom (Suc i) div 2"
      using word_in_sector [OF i, of "k div 2"] k cfi_geom_even_base [OF s1(2), of i]
      by (simp add: div_plus_div_distrib_dvd_left)
    then have "cells c' ! ((blk_base geom i + k) div 2) = 0xffff" using c'(4) by (simp add: div_le_mono)
    then show "sector_bytes geom (cells c') i ! k = replicate (geom ! i) 0xff ! k"
      using k by (simp add: sector_bytes_def byte_at_erased)
  qed simp
  ultimately show ?thesis using s1 c' by (auto simp: cfi_flash_sector_erase_int_def)
qed

lemma write_loop_reliably:
  assumes "cfi_geom s geom" "flashFamily s = FLASH_AMD" "bypass (chip s)" and i: "i < length geom"
    and "2 * (k + m) \<le> geom ! i" "2 * m = length src" "a = blk_base geom i div 2 + k"
    and "\<forall>j. a \<le> j \<and> j < a + m \<longrightarrow> cells (chip s) ! j = 0xffff" "a + m \<le> length (cells (chip s))"
  shows "\<exists>c'. cfi_write_loop nc (int i) (int (2 * k)) (src @ rest) (int (2 * m)) s =
      Some (int (2 * m), s\<lparr>chip := c'\<rparr>) \<and> bypass c' \<and>
    cells c' = take a (cells (chip s)) @ words_of src @ drop (a + m) (cells (chip s))"
  using assms(1-3,5-9)
proof (induction m arbitrary: s k a src)
  case 0
  then show ?case by (auto intro: exI [of _ "chip s"])
next
  case (Suc m)
  from Suc.prems(5) obtain hi lo src' where src: "src = hi # lo # src'" by (cases src; cases "tl src") auto
  let ?w = "be16 hi lo"
  have k: "2 * k < geom ! i" using Suc.prems(4) by simp
  have "cells (chip s) ! a AND ?w = ?w" using Suc.prems(7) by simp
  from program_reliable [OF Suc.prems(3) i _ _ this refl] obtain c' where c':
    "poll_settles nc (int a) ?w (bus_writes nc (program_cycles (blk_base geom i div 2) a ?w) (chip s)) c'"
    "bypass c'" "cells c' = (cells (chip s))[a := ?w]"
    using word_in_sector [OF i k] Suc.prems(6) by auto
  have one: "cfi_flash_wait nc (int i) (int (2 * k)) ?w
      (s\<lparr>chip := bus_writes nc (program_cycles (blk_base geom i div 2) a ?w) (chip s)\<rparr>) =
      Some (STATUS_READY, s\<lparr>chip := c'\<rparr>)"
    using wait_settles [of "s\<lparr>chip := bus_writes nc (program_cycles (blk_base geom i div 2) a ?w) (chip s)\<rparr>" i a k ?w c']
      Suc.prems i c'(1) by simp
  have "\<exists>c3. cfi_write_loop nc (int i) (int (2 * Suc k)) (src' @ rest) (int (2 * m)) (s\<lparr>chip := c'\<rparr>) =
        Some (int (2 * m), s\<lparr>chip := c'\<rparr>\<lparr>chip := c3\<rparr>) \<and> bypass c3 \<and>
      cells c3 = take (Suc a) (cells (chip (s\<lparr>chip := c'\<rparr>))) @ words_of src' @
        drop (Suc a + m) (cells (chip (s\<lparr>chip := c'\<rparr>)))"
    by (rule Suc.IH) (use Suc.prems c' src in auto)
  then obtain c3 where c3: "cfi_write_loop nc (int i) (int (2 * Suc k)) (src' @ rest) (int (2 * m))
        (s\<lparr>chip := c'\<rparr>) = Some (int (2 * m), s\<lparr>chip := c3\<rparr>)" "bypass c3"
      "cells c3 = take (Suc a) (cells c') @ words_of src' @ drop (Suc a + m) (cells c')"
    by auto
  have "cells c3 = take a (cells (chip s)) @ words_of src @ drop (a + Suc m) (cells (chip s))"
    using c3(3) c'(3) src Suc.prems(8) by (simp add: take_Suc_conv_app_nth)
  then show ?case
    using c3(1,2) one program_command [OF Suc.prems(1,2) i Suc.prems(6), of ?w] src
    by (intro exI [of _ c3]) (simp add: be16_def algebra_simps)
qed

lemma write_reliably:
  assumes ok: "cfi_ok geom ready s" and i: "i < length geom"
    and km: "2 * (k + m) \<le> geom ! i" "2 * m \<le> length buf" and a: "a = blk_base geom i div 2 + k"
    and erased: "\<forall>j. a \<le> j \<and> j < a + m \<longrightarrow> cells (chip s) ! j = 0xffff" "a + m \<le> length (cells (chip s))"
  shows "\<exists>c'. cfi_flash_write nc (int i) (int (2 * k)) buf (int (2 * m)) s =
      Some (int (2 * m), s\<lparr>chip := c'\<rparr>) \<and> ready c' \<and>
    cells c' = take a (cells (chip s)) @ words_of (take (2 * m) buf) @ drop (a + m) (cells (chip s))"
proof -
  obtain s1 where s1: "down_interruptible s = Some s1" "cfi_geom s1 geom" "flashFamily s1 = FLASH_AMD"
      "chip s1 = chip s" "\<And>c. up (s1\<lparr>chip := c\<rparr>) = s\<lparr>chip := c\<rparr>"
    using cfi_ok_down [OF ok] by blast
  let ?c1 = "bus_writes nc [(0x555, 0xAA), (0x2AA, 0x55), (0x555, 0x20)] (chip s)"
  let ?s2 = "s1\<lparr>chip := ?c1\<rparr>"
  have ub: "cfi_flash_command nc FLASH_UB 0 0 0 s1 = Some ?s2"
    using cfi_geom_word_ptr_0 [OF s1(2)] s1(3,4) by (simp add: cfi_flash_command_def)
  have bp: "bypass ?c1" "cells ?c1 = cells (chip s)"
    using enter_bypass [of "chip s"] ok by (simp_all add: cfi_ok_def)
  have "\<exists>c2. cfi_write_loop nc (int i) (int (2 * k)) (take (2 * m) buf @ drop (2 * m) buf) (int (2 * m)) ?s2 =
        Some (int (2 * m), ?s2\<lparr>chip := c2\<rparr>) \<and> bypass c2 \<and>
      cells c2 = take a (cells (chip ?s2)) @ words_of (take (2 * m) buf) @ drop (a + m) (cells (chip ?s2))"
    by (rule write_loop_reliably) (use s1 bp km a i erased in auto)
  then obtain c2 where c2: "cfi_write_loop nc (int i) (int (2 * k)) buf (int (2 * m)) ?s2 =
        Some (int (2 * m), s1\<lparr>chip := c2\<rparr>)" "bypass c2"
      "cells c2 = take a (cells (chip s)) @ words_of (take (2 * m) buf) @ drop (a + m) (cells (chip s))"
    using bp(2) by auto
  let ?c3 = "bus_writes nc [(0, 0x90), (0, 0x00)] c2"
  have "cfi_flash_command nc FLASH_UBRESET 0 0 0 (s1\<lparr>chip := c2\<rparr>) = Some (s1\<lparr>chip := ?c3\<rparr>)"
    using cfi_geom_word_ptr_0 [of "s1\<lparr>chip := c2\<rparr>" geom] s1(2,3) by (simp add: cfi_flash_command_def)
  moreover have "ready ?c3" "cells ?c3 = cells c2" using leave_bypass [of c2] c2(2) by simp_all
  ultimately show ?thesis using s1(1,5) ub c2 by (auto simp: cfi_flash_write_def)
qed

lemma contract_write_reliable:
  assumes ok: "cfi_ok geom ready s" and i: "i < length geom" "off + n \<le> geom ! i" "n \<le> length buf"
    and ev: "even off" "even n"
    and erased: "take n (drop off (sector_bytes geom (cells (chip s)) i)) = replicate n 0xff"
  shows "\<exists>c'. cfi_flash_write_buf nc (int i) (int off) buf (int n) s = Some (int n, s\<lparr>chip := c'\<rparr>) \<and>
    ready c' \<and>
    same_outside (blk_base geom i div 2) (blk_base geom (Suc i) div 2) (cells (chip s)) (cells c') \<and>
    sector_bytes geom (cells c') i = take off (sector_bytes geom (cells (chip s)) i) @ take n buf @
      drop (off + n) (sector_bytes geom (cells (chip s)) i)"
proof -
  obtain k m where km: "off = 2 * k" "n = 2 * m" using ev by (auto elim!: evenE)
  let ?ws = "cells (chip s)" and ?a = "blk_base geom i div 2 + k"
  let ?old = "sector_bytes geom ?ws i"
  have g: "cfi_geom s geom" and rdy: "ready (chip s)" using ok by (simp_all add: cfi_ok_def)
  have evb: "even (blk_base geom j)" for j by (rule cfi_geom_even_base [OF g])
  have top: "?a + m \<le> blk_base geom (Suc i) div 2"
    using i(2) km blk_base_Suc [OF i(1)] evb [of i] evb [of "Suc i"] by (auto elim!: evenE)
  also have "blk_base geom (Suc i) div 2 \<le> length ?ws"
    using cells_length [of "chip s"] rdy blk_base_le_total [of geom "Suc i"] by simp
  finally have len: "?a + m \<le> length ?ws" .
  have "\<forall>j. ?a \<le> j \<and> j < ?a + m \<longrightarrow> ?ws ! j = 0xffff"
    using erased_words [OF evb refl, of k m i ?ws] erased i(2) km by simp
  then obtain c' where c': "cfi_flash_write nc (int i) (int off) buf (int n) s = Some (int n, s\<lparr>chip := c'\<rparr>)"
      "ready c'" "cells c' = take ?a ?ws @ words_of (take n buf) @ drop (?a + m) ?ws"
    using write_reliably [OF ok i(1) _ _ refl, of k m buf] i km len by auto
  have new: "sector_bytes geom (cells c') i = take off ?old @ take n buf @ drop (off + n) ?old"
    using sector_bytes_splice [OF evb refl, of k m i "take n buf" ?ws] c'(3) km i len by simp
  have "blk_base geom i + off + n \<le> sum_list geom"
    using i(2) blk_base_Suc [OF i(1)] blk_base_le_total [of geom "Suc i"] by simp
  then have cmp: "nor_memcmp nc (int (blk_base geom i + off)) (take n buf) c' = (True, c')"
    using memcmp [OF c'(2), of "blk_base geom i + off" "take n buf"] i new
      take_drop_sector_bytes [of off n geom i "cells c'"] by simp
  have "cfi_write_tries nc (Suc 2) (int i) (int off) buf (int n) (int (blk_base geom i + off)) s =
      Some (int n, s\<lparr>chip := c'\<rparr>)"
    using c'(1) cmp i(3) mem_read_int [of 0 n buf] by (subst cfi_write_tries.simps) (simp del: cfi_write_tries.simps)
  then have "cfi_flash_write_buf nc (int i) (int off) buf (int n) s = Some (int n, s\<lparr>chip := c'\<rparr>)"
    using cfi_geom_memptr [OF g i(1)] by (simp add: cfi_flash_write_buf_def del: cfi_write_tries.simps)
  moreover have "same_outside (blk_base geom i div 2) (blk_base geom (Suc i) div 2) ?ws (cells c')"
    unfolding c'(3) using same_outside_splice [of "blk_base geom i div 2" ?a "words_of (take n buf)" "blk_base geom (Suc i) div 2" ?ws]
      top len i(3) km by (simp add: length_words_of)
  ultimately show ?thesis using c'(2) new by blast
qed

end

sublocale reliable_amd_chip \<subseteq> cfi: reliable_flash_device "flash_cfi_dev nc did name" "cfi_ok geom ready" geom
  "cfi_contents geom cells" for did name
proof
  fix d i
  assume a: "cfi_ok geom ready d" "i < length geom"
  show "\<exists>r d'. fn_flash_sector_erase_int (flash_cfi_dev nc did name) (int i) d = Some (r, d') \<and>
      cfi_ok geom ready d' \<and>
      cfi_contents geom cells d' = (cfi_contents geom cells d)[i := replicate (geom ! i) 0xff]"
    using erase_reliably [OF a] contents_after [OF a] by (fastforce simp: flash_cfi_dev_def)
next
  fix d i off n and buf :: bytes
  assume a: "cfi_ok geom ready d" "i < length geom" "off + n \<le> geom ! i" "n \<le> length buf"
    "even off" "even n" "take n (drop off (cfi_contents geom cells d ! i)) = replicate n 0xff"
  then show "\<exists>d'. fn_flash_write_buf (flash_cfi_dev nc did name) (int i) (int off) buf (int n) d = Some (int n, d') \<and>
      cfi_ok geom ready d' \<and> cfi_contents geom cells d' = (cfi_contents geom cells d)
        [i := take off (cfi_contents geom cells d ! i) @ take n buf @ drop (off + n) (cfi_contents geom cells d ! i)]"
    using contract_write_reliable [OF a(1-6)] contents_after [OF a(1,2)]
    by (fastforce simp: flash_cfi_dev_def contents_nth [OF a(2)])
qed

context reliable_amd_chip
begin

lemma cfi_reliable_device:
  "reliable_flash_device (flash_cfi_dev nc did name) (cfi_ok geom ready) geom (cfi_contents geom cells)"
  by (rule cfi.reliable_flash_device_axioms)

end

end
