(* ===== verification/Nor_Sim.thy ===== *)
theory Nor_Sim
  imports Cfi_Reliable
begin

text \<open>
  A chip that keeps the laws of \<open>reliable_amd_chip\<close>: the AMD command automaton with one busy
  poll per operation.  It shows that the laws can hold together, for every sector layout of
  4 KB multiples, and is the instance on which the driver's contract is applied to concrete
  states.
\<close>

section \<open>Definitions\<close>

datatype sim_mode =
    Read_Array | Unlocked_1 | Unlocked_2 | Setup_Erase | Erase_1 | Erase_2
  | Bypass | Bypass_Program | Bypass_Reset
  | Busy sim_mode "16 word" | Failed "16 word"

record sim =
  mode :: sim_mode
  cells :: "16 word list"

definition at_555 :: "int \<Rightarrow> bool" where "at_555 a \<longleftrightarrow> a mod 0x800 = 0x555"
definition at_2AA :: "int \<Rightarrow> bool" where "at_2AA a \<longleftrightarrow> a mod 0x800 = 0x2AA"

text \<open>The status word: DQ7 is the complement of the data's, DQ5 tells a failure.\<close>

definition sim_status :: "bool \<Rightarrow> 16 word \<Rightarrow> 16 word" where
  "sim_status dq5 d = (if bit d 7 then 0 else 0x80) OR (if dq5 then 0x20 else 0)"

definition sim_read :: "int \<Rightarrow> sim \<Rightarrow> 16 word \<times> sim" where
  "sim_read a st =
     (case mode st of
        Busy m d \<Rightarrow> (sim_status False d, st\<lparr>mode := m\<rparr>)
      | Failed d \<Rightarrow> (sim_status True d, st)
      | _ \<Rightarrow> (if 0 \<le> a \<and> nat a < length (cells st) then cells st ! nat a else 0xffff, st))"

definition sim_erase :: "nat list \<Rightarrow> nat \<Rightarrow> 16 word list \<Rightarrow> 16 word list" where
  "sim_erase geom a ws =
     (let i = blk_of geom (2 * a); p = blk_base geom i div 2; n = geom ! i div 2 in
      take p ws @ replicate n 0xffff @ drop (p + n) ws)"

definition sim_program :: "nat \<Rightarrow> 16 word \<Rightarrow> sim \<Rightarrow> sim" where
  "sim_program a d st =
     (if cells st ! a AND d = d
      then st\<lparr>mode := Busy Bypass d, cells := (cells st)[a := d]\<rparr>
      else st\<lparr>mode := Failed d\<rparr>)"

definition sim_write :: "nat list \<Rightarrow> int \<Rightarrow> 16 word \<Rightarrow> sim \<Rightarrow> sim" where
  "sim_write geom a d st =
     (case mode st of
        Read_Array \<Rightarrow> if at_555 a \<and> d = 0xAA then st\<lparr>mode := Unlocked_1\<rparr> else st
      | Unlocked_1 \<Rightarrow> st\<lparr>mode := if at_2AA a \<and> d = 0x55 then Unlocked_2 else Read_Array\<rparr>
      | Unlocked_2 \<Rightarrow> st\<lparr>mode := if at_555 a \<and> d = 0x20 then Bypass
                             else if at_555 a \<and> d = 0x80 then Setup_Erase else Read_Array\<rparr>
      | Setup_Erase \<Rightarrow> st\<lparr>mode := if at_555 a \<and> d = 0xAA then Erase_1 else Read_Array\<rparr>
      | Erase_1 \<Rightarrow> st\<lparr>mode := if at_2AA a \<and> d = 0x55 then Erase_2 else Read_Array\<rparr>
      | Erase_2 \<Rightarrow> if d = 0x30 \<and> 0 \<le> a \<and> nat a < length (cells st)
          then st\<lparr>mode := Busy Read_Array 0xffff, cells := sim_erase geom (nat a) (cells st)\<rparr>
          else st\<lparr>mode := Read_Array\<rparr>
      | Bypass \<Rightarrow> st\<lparr>mode := if d = 0xA0 then Bypass_Program else if d = 0x90 then Bypass_Reset else Bypass\<rparr>
      | Bypass_Program \<Rightarrow> if 0 \<le> a \<and> nat a < length (cells st)
          then sim_program (nat a) d st else st\<lparr>mode := Bypass\<rparr>
      | Bypass_Reset \<Rightarrow> st\<lparr>mode := if d = 0 then Read_Array else Bypass\<rparr>
      | Busy m d' \<Rightarrow> st
      | Failed d' \<Rightarrow> if d = 0xF0 then st\<lparr>mode := Read_Array\<rparr> else st)"

definition sim_chip :: "nat list \<Rightarrow> sim nor_chip" where
  "sim_chip geom = \<lparr>nor_read = sim_read, nor_write = sim_write geom\<rparr>"

definition sim_ready :: "nat list \<Rightarrow> sim \<Rightarrow> bool" where
  "sim_ready geom st \<longleftrightarrow> mode st = Read_Array \<and> 2 * length (cells st) = sum_list geom"

definition sim_bypass :: "nat list \<Rightarrow> sim \<Rightarrow> bool" where
  "sim_bypass geom st \<longleftrightarrow> mode st = Bypass \<and> 2 * length (cells st) = sum_list geom"

definition sim_geom :: "nat list \<Rightarrow> bool" where
  "sim_geom geom \<longleftrightarrow>
     geom \<noteq> [] \<and> length geom \<le> 1024 \<and> (\<forall>n\<in>set geom. 0 < n \<and> 0x1000 dvd n) \<and> sum_list geom \<le> 0x4000000"

section \<open>The laws\<close>

lemma sim_status_neq: "sim_status b d \<noteq> d"
proof -
  have "bit (sim_status b d) 7 \<noteq> bit d 7" by (auto simp: sim_status_def bit_simps)
  then show ?thesis by metis
qed

lemma sim_status_dq5: "bit (sim_status b d) 5 = b"
  by (auto simp: sim_status_def bit_simps)

lemma dvd_sum_list: "\<forall>n\<in>set ns. k dvd n \<Longrightarrow> k dvd sum_list (ns :: nat list)"
  by (induction ns) auto

lemma sim_geom_base: "sim_geom geom \<Longrightarrow> 0x1000 dvd blk_base geom i"
  unfolding blk_base_def by (rule dvd_sum_list) (auto simp: sim_geom_def dest: in_set_takeD)

lemma sim_unlock_address:
  assumes "sim_geom geom"
  shows "at_555 (int (blk_base geom i div 2) + 0x555)" "at_2AA (int (blk_base geom i div 2) + 0x2AA)"
proof -
  obtain k where "blk_base geom i = 0x1000 * k" using sim_geom_base [OF assms] by (blast elim: dvdE)
  then have "int (blk_base geom i div 2) = 0x800 * int k" by simp
  then show "at_555 (int (blk_base geom i div 2) + 0x555)" "at_2AA (int (blk_base geom i div 2) + 0x2AA)"
    by (simp_all add: at_555_def at_2AA_def)
qed

lemma sim_settles:
  assumes "mode st = Busy m d" "m = Read_Array \<or> m = Bypass" "a < length (cells st)" "cells st ! a = d"
  shows "poll_settles (sim_chip geom) (int a) d st (st\<lparr>mode := m\<rparr>)"
proof (rule busy)
  show "nor_read (sim_chip geom) (int a) st = (sim_status False d, st\<lparr>mode := m\<rparr>)"
    using assms(1) by (simp add: sim_chip_def sim_read_def)
  show "poll_settles (sim_chip geom) (int a) d (st\<lparr>mode := m\<rparr>) (st\<lparr>mode := m\<rparr>)"
    using assms by (intro hit) (auto simp: sim_chip_def sim_read_def)
qed (simp_all add: sim_status_neq sim_status_dq5)

lemma sim_fails:
  assumes "mode st = Failed d"
  shows "poll_fails (sim_chip geom) a d st st"
proof (rule dq5)
  have r: "nor_read (sim_chip geom) a st = (sim_status True d, st)"
    using assms by (simp add: sim_chip_def sim_read_def)
  show "nor_read (sim_chip geom) a st = (sim_status True d, st)" by (rule r)
  have "nor_reads (sim_chip geom) a n st = (replicate n (sim_status True d), st)" for n
    by (induction n) (simp_all add: r)
  then show "nor_reads (sim_chip geom) a 1002 st = (replicate 1002 (sim_status True d), st)" .
qed (use sim_status_neq [of True d] in \<open>auto simp: sim_status_dq5\<close>)

lemma sim_sector:
  assumes g: "sim_geom geom" and i: "i < length geom" and "2 * length ws = sum_list geom"
    and p: "p = blk_base geom i div 2"
  shows "sim_erase geom p ws = take p ws @ replicate (geom ! i div 2) 0xffff @ drop (p + geom ! i div 2) ws"
    and "p + geom ! i div 2 = blk_base geom (Suc i) div 2" and "p + geom ! i div 2 \<le> length ws"
    and "0 < geom ! i div 2"
proof -
  have "0x1000 dvd blk_base geom i" "0x1000 dvd geom ! i" "0 < geom ! i"
    using sim_geom_base [OF g] g i by (auto simp: sim_geom_def)
  then obtain b n where bn: "blk_base geom i = 0x1000 * b" "geom ! i = 0x1000 * n" "0 < n"
    by (auto elim!: dvdE)
  have "blk_of geom (2 * p) = i"
    using bn p i blk_base_Suc [OF i] by (intro blk_of_unique) simp_all
  then show "sim_erase geom p ws = take p ws @ replicate (geom ! i div 2) 0xffff @ drop (p + geom ! i div 2) ws"
    using p by (simp add: sim_erase_def Let_def)
  show "p + geom ! i div 2 = blk_base geom (Suc i) div 2" "0 < geom ! i div 2"
    using bn p blk_base_Suc [OF i] by simp_all
  then show "p + geom ! i div 2 \<le> length ws"
    using blk_base_le_total [of geom "Suc i"] assms(3) by simp
qed

lemma sim_erase_law:
  assumes g: "sim_geom geom" and st: "sim_ready geom st" and i: "i < length geom"
    and p: "p = blk_base geom i div 2" and c1: "c1 = bus_writes (sim_chip geom) (erase_cycles p) st"
  shows "poll_settles (sim_chip geom) (int p) 0xffff c1 (c1\<lparr>mode := Read_Array\<rparr>)"
    and "sim_ready geom (c1\<lparr>mode := Read_Array\<rparr>)"
    and "same_outside p (blk_base geom (Suc i) div 2) (cells st) (cells c1)"
    and "\<forall>k. p \<le> k \<and> k < blk_base geom (Suc i) div 2 \<longrightarrow> cells c1 ! k = 0xffff"
proof -
  have len: "2 * length (cells st) = sum_list geom" and m: "mode st = Read_Array"
    using st by (simp_all add: sim_ready_def)
  note sec = sim_sector [OF g i len p]
  have "c1 = st\<lparr>mode := Busy Read_Array 0xffff, cells := sim_erase geom p (cells st)\<rparr>"
    using sim_unlock_address [OF g, of i] m sec(3,4) unfolding c1 p
    by (simp add: bus_writes_def erase_cycles_def sim_chip_def sim_write_def)
  then have c: "mode c1 = Busy Read_Array 0xffff"
    "cells c1 = take p (cells st) @ replicate (geom ! i div 2) 0xffff @ drop (p + geom ! i div 2) (cells st)"
    using sec(1) by simp_all
  have n: "cells c1 ! k = 0xffff" if "p \<le> k" "k < blk_base geom (Suc i) div 2" for k
    using that sec(2,3) c(2) by (auto simp: nth_append)
  show "poll_settles (sim_chip geom) (int p) 0xffff c1 (c1\<lparr>mode := Read_Array\<rparr>)"
    using c sec(2-4) n [of p] by (intro sim_settles) auto
  show "sim_ready geom (c1\<lparr>mode := Read_Array\<rparr>)" using c(2) len sec(3) by (simp add: sim_ready_def)
  show "same_outside p (blk_base geom (Suc i) div 2) (cells st) (cells c1)"
    using same_outside_splice [of p p "replicate (geom ! i div 2) 0xffff" _ "cells st"] sec(2,3) c(2) by simp
  show "\<forall>k. p \<le> k \<and> k < blk_base geom (Suc i) div 2 \<longrightarrow> cells c1 ! k = 0xffff" using n by blast
qed

lemma sim_program_law:
  assumes st: "sim_bypass geom st" and a: "a < length (cells st)"
    and c1: "c1 = bus_writes (sim_chip geom) (program_cycles p a d) st"
  shows "cells st ! a AND d = d \<Longrightarrow> poll_settles (sim_chip geom) (int a) d c1 (c1\<lparr>mode := Bypass\<rparr>) \<and>
      sim_bypass geom (c1\<lparr>mode := Bypass\<rparr>) \<and> cells c1 = (cells st)[a := d]"
    and "cells st ! a AND d \<noteq> d \<Longrightarrow> poll_fails (sim_chip geom) (int a) d c1 c1 \<and>
      sim_ready geom (nor_write (sim_chip geom) 0 0xF0 c1) \<and>
      cells (nor_write (sim_chip geom) 0 0xF0 c1) = cells st"
proof -
  have c: "c1 = sim_program a d (st\<lparr>mode := Bypass_Program\<rparr>)"
    using st a unfolding c1
    by (simp add: bus_writes_def program_cycles_def sim_chip_def sim_write_def sim_bypass_def)
  show "poll_settles (sim_chip geom) (int a) d c1 (c1\<lparr>mode := Bypass\<rparr>) \<and>
      sim_bypass geom (c1\<lparr>mode := Bypass\<rparr>) \<and> cells c1 = (cells st)[a := d]" if "cells st ! a AND d = d"
    using that a st c sim_settles [of c1 Bypass d a geom] by (auto simp: sim_program_def sim_bypass_def)
  show "poll_fails (sim_chip geom) (int a) d c1 c1 \<and>
      sim_ready geom (nor_write (sim_chip geom) 0 0xF0 c1) \<and>
      cells (nor_write (sim_chip geom) 0 0xF0 c1) = cells st" if "cells st ! a AND d \<noteq> d"
    using that a st c sim_fails [of c1 d geom "int a"]
    by (auto simp: sim_program_def sim_bypass_def sim_chip_def sim_write_def sim_ready_def)
qed

lemma sim_chip_laws:
  assumes g: "sim_geom geom"
  shows "reliable_amd_chip (sim_chip geom) (sim_ready geom) (sim_bypass geom) cells geom"
proof
  fix n c
  show "0 < length geom" "length geom \<le> 1024" "sum_list geom \<le> 0x4000000"
    using g by (auto simp: sim_geom_def)
  show "n \<in> set geom \<Longrightarrow> 0 < n \<and> even n"
    using g by (auto simp: sim_geom_def intro: dvd_trans [of _ "0x1000"])
  show "sim_ready geom c \<or> sim_bypass geom c \<Longrightarrow> 2 * length (cells c) = sum_list geom"
    by (auto simp: sim_ready_def sim_bypass_def)
  show "sim_ready geom c \<Longrightarrow> a < length (cells c) \<Longrightarrow>
      nor_read (sim_chip geom) (int a) c = (cells c ! a, c)" for a
    by (simp add: sim_ready_def sim_chip_def sim_read_def)
  show "sim_ready geom c \<Longrightarrow>
      sim_bypass geom (bus_writes (sim_chip geom) [(0x555, 0xAA), (0x2AA, 0x55), (0x555, 0x20)] c) \<and>
      cells (bus_writes (sim_chip geom) [(0x555, 0xAA), (0x2AA, 0x55), (0x555, 0x20)] c) = cells c"
    by (simp add: sim_ready_def sim_bypass_def bus_writes_def sim_chip_def sim_write_def at_555_def at_2AA_def)
  show "sim_ready geom c \<or> sim_bypass geom c \<Longrightarrow>
      sim_ready geom (bus_writes (sim_chip geom) [(0, 0x90), (0, 0)] c) \<and>
      cells (bus_writes (sim_chip geom) [(0, 0x90), (0, 0)] c) = cells c"
    by (auto simp: sim_ready_def sim_bypass_def bus_writes_def sim_chip_def sim_write_def at_555_def)
next
  fix c :: sim and i a c1 d
  assume st: "sim_bypass geom c" and "i < length geom" "a < blk_base geom (Suc i) div 2"
    and c1: "c1 = bus_writes (sim_chip geom) (program_cycles (blk_base geom i div 2) a d) c"
  then have a: "a < length (cells c)"
    using blk_base_le_total [of geom "Suc i"] by (auto simp: sim_bypass_def)
  note law = sim_program_law [OF st a c1]
  show "\<exists>c' x. poll_settles (sim_chip geom) (int a) d c1 c' \<and> sim_bypass geom c' \<and> cells c' = (cells c)[a := x] \<or>
      poll_fails (sim_chip geom) (int a) d c1 c' \<and> sim_ready geom (nor_write (sim_chip geom) 0 0xF0 c') \<and>
      cells (nor_write (sim_chip geom) 0 0xF0 c') = (cells c)[a := x]"
  proof (cases "cells c ! a AND d = d")
    case True
    then show ?thesis using law(1) by (intro exI [of _ "c1\<lparr>mode := Bypass\<rparr>"] exI [of _ d]) simp
  next
    case False
    then show ?thesis using law(2) by (intro exI [of _ c1] exI [of _ "cells c ! a"]) simp
  qed
  show "cells c ! a AND d = d \<Longrightarrow>
      \<exists>c'. poll_settles (sim_chip geom) (int a) d c1 c' \<and> sim_bypass geom c' \<and> cells c' = (cells c)[a := d]"
    using law(1) by (intro exI [of _ "c1\<lparr>mode := Bypass\<rparr>"]) simp
next
  fix c :: sim and i p c1
  assume "sim_ready geom c" "i < length geom" "p = blk_base geom i div 2"
    "c1 = bus_writes (sim_chip geom) (erase_cycles p) c"
  note law = sim_erase_law [OF g this]
  show "\<exists>c'. poll_settles (sim_chip geom) (int p) 0xffff c1 c' \<and> sim_ready geom c' \<and>
      same_outside p (blk_base geom (Suc i) div 2) (cells c) (cells c') \<or>
      poll_fails (sim_chip geom) (int p) 0xffff c1 c' \<and> sim_ready geom (nor_write (sim_chip geom) 0 0xF0 c') \<and>
      same_outside p (blk_base geom (Suc i) div 2) (cells c) (cells (nor_write (sim_chip geom) 0 0xF0 c'))"
    using law by (intro exI [of _ "c1\<lparr>mode := Read_Array\<rparr>"]) simp
  show "\<exists>c'. poll_settles (sim_chip geom) (int p) 0xffff c1 c' \<and> sim_ready geom c' \<and>
      same_outside p (blk_base geom (Suc i) div 2) (cells c) (cells c') \<and>
      (\<forall>k. p \<le> k \<and> k < blk_base geom (Suc i) div 2 \<longrightarrow> cells c' ! k = 0xffff)"
    using law by (intro exI [of _ "c1\<lparr>mode := Read_Array\<rparr>"]) simp
qed

section \<open>A part with eight sectors of 64 KB\<close>

definition sim_sectors :: "nat list" where
  "sim_sectors = replicate 8 0x10000"

lemma sim_sectors_geom: "sim_geom sim_sectors"
  by (simp add: sim_sectors_def sim_geom_def sum_list_replicate)

interpretation nor8: reliable_amd_chip "sim_chip sim_sectors" "sim_ready sim_sectors" "sim_bypass sim_sectors"
  cells sim_sectors
  by (rule sim_chip_laws [OF sim_sectors_geom])

text \<open>The driver after initialisation with this part, idle, with the given words in it.\<close>

definition sim_cfi :: "16 word list \<Rightarrow> sim cfi_state" where
  "sim_cfi ws =
     \<lparr>meminfo = \<lparr>addr = 0, areg = 0, nsect = 8, bank1start = 0, bank2start = 0,
        sec = \<lambda>i. \<lparr>sec_size = 0x10000, sec_base = int i * 0x10000, sec_bank = 0\<rparr>\<rparr>,
      flashFamily = FLASH_AMD, totalSize = 0x80000,
      query = \<lparr>num_erase_blocks = 1, device_size = 0x80000, erase_sector_size = \<lambda>i. 0x10000, erase_num_sectors = \<lambda>i. 8\<rparr>,
      cfi_device_id = ID_AM29LV400B, cfi_device_name = ''AM29LV400B'', cfi_flash_lock = 1, in_interrupt = False,
      chip = \<lparr>mode = Read_Array, cells = ws\<rparr>\<rparr>"

lemma sim_cfi_ok:
  assumes "length ws = 0x40000"
  shows "cfi_ok sim_sectors (sim_ready sim_sectors) (sim_cfi ws)"
  using assms
  by (simp add: cfi_ok_def cfi_geom_def sim_cfi_def sim_ready_def sim_sectors_def sum_list_replicate
      blk_base_replicate)

lemma sim_erased_contents:
  "cfi_contents sim_sectors cells (sim_cfi (replicate 0x40000 0xffff)) = replicate 8 (replicate 0x10000 0xff)"
proof -
  have b: "byte_at (replicate 0x40000 0xffff) k = 0xff" if "k < 0x80000" for k
  proof -
    have "replicate 0x40000 0xffff ! (k div 2) = (0xffff :: 16 word)" using that by (intro nth_replicate) simp
    then show ?thesis by (simp add: byte_at_def)
  qed
  have "sector_bytes sim_sectors (replicate 0x40000 0xffff) i = replicate 0x10000 0xff" if "i < 8" for i
    unfolding sector_bytes_def sim_sectors_def using that b
    by (intro nth_equalityI) (simp_all add: blk_base_replicate)
  then have "cfi_contents sim_sectors cells (sim_cfi (replicate 0x40000 0xffff)) =
      map (\<lambda>i. replicate 0x10000 0xff) [0..<8]"
    unfolding cfi_contents_def by (intro map_cong) (simp_all add: sim_cfi_def sim_sectors_def)
  then show ?thesis by (simp add: map_replicate_const)
qed

lemma concat_chunks:
  "k \<le> length geom \<Longrightarrow>
   concat (map (\<lambda>i. take (geom ! i) (drop (blk_base geom i) F)) [0..<k]) = take (blk_base geom k) F"
  by (induction k) (simp_all add: blk_base_Suc take_add)

text \<open>A device with the given bytes.\<close>

lemma sim_contents_map:
  assumes F: "length F = 0x80000"
  shows "cfi_contents sim_sectors cells (sim_cfi (words_of F)) =
    map (\<lambda>i. take (sim_sectors ! i) (drop (blk_base sim_sectors i) F)) [0..<length sim_sectors]"
proof -
  have total: "sum_list sim_sectors = 0x80000" by (simp add: sim_sectors_def sum_list_replicate)
  have "sector_bytes sim_sectors (words_of F) i = take (sim_sectors ! i) (drop (blk_base sim_sectors i) F)"
    if i: "i < length sim_sectors" for i
  proof (rule nth_equalityI)
    have top: "blk_base sim_sectors i + sim_sectors ! i \<le> length F"
      using blk_base_Suc [OF i] blk_base_le_total [of sim_sectors "Suc i"] total F by simp
    then show "length (sector_bytes sim_sectors (words_of F) i) =
        length (take (sim_sectors ! i) (drop (blk_base sim_sectors i) F))" by simp
    fix j assume "j < length (sector_bytes sim_sectors (words_of F) i)"
    then show "sector_bytes sim_sectors (words_of F) i ! j =
        take (sim_sectors ! i) (drop (blk_base sim_sectors i) F) ! j"
      using top F byte_at_words_of [of "blk_base sim_sectors i + j" F] by (simp add: sector_bytes_def)
  qed
  then show ?thesis unfolding cfi_contents_def by (intro map_cong) (simp_all add: sim_cfi_def)
qed

lemma sim_contents:
  assumes F: "length F = 0x80000"
  shows "concat (cfi_contents sim_sectors cells (sim_cfi (words_of F))) = F"
    and "cfi_ok sim_sectors (sim_ready sim_sectors) (sim_cfi (words_of F))"
proof -
  have total: "sum_list sim_sectors = 0x80000" by (simp add: sim_sectors_def sum_list_replicate)
  show "concat (cfi_contents sim_sectors cells (sim_cfi (words_of F))) = F"
    using sim_contents_map [OF F] concat_chunks [of "length sim_sectors" sim_sectors F] total F by simp
  show "cfi_ok sim_sectors (sim_ready sim_sectors) (sim_cfi (words_of F))"
    using F by (intro sim_cfi_ok) (simp add: length_words_of)
qed

lemma sim_contents_nth:
  assumes F: "length F = 0x80000" and i: "i < 8"
  shows "cfi_contents sim_sectors cells (sim_cfi (words_of F)) ! i = take 0x10000 (drop (i * 0x10000) F)"
  using i by (simp add: sim_contents_map [OF F]) (simp add: sim_sectors_def blk_base_replicate)

end
