(* ===== verification/Board_Flash.thy ===== *)
theory Board_Flash
  imports Flash_Api
begin

text \<open>
  The storage layer of \<open>bcm63xx_flash.c\<close>: reading and rewriting the flash blocks that hold
  a section, the NVRAM, configuration (PSI) and second configuration sections on top of it, and flashing
  an image.  \<open>fInfo\<close> is an argument \<open>fi\<close>, the flash is the device table
  \<open>g\<close> of \<^verbatim>\<open>Flash_Api\<close> with its state, and \<open>km n\<close> says
  whether an allocation of \<open>n\<close> bytes succeeds.
\<close>

section \<open>Definitions\<close>

abbreviation (input) ONEK :: int where "ONEK \<equiv> 1024"
abbreviation (input) NVRAM_LENGTH :: int where "NVRAM_LENGTH \<equiv> ONEK"
abbreviation (input) NVRAM_DATA_OFFSET :: int where "NVRAM_DATA_OFFSET \<equiv> 0x580"
abbreviation (input) FLASH_LENGTH_BOOT_ROM :: int where "FLASH_LENGTH_BOOT_ROM \<equiv> 64 * ONEK"
abbreviation (input) FLASH_RESERVED_AT_END :: int where "FLASH_RESERVED_AT_END \<equiv> 128 * ONEK"
abbreviation (input) DEFAULT_PSI_SIZE :: int where "DEFAULT_PSI_SIZE \<equiv> 24"
abbreviation (input) SP_MAX_LEN :: int where "SP_MAX_LEN \<equiv> 8 * 1024"

record flash_addr_info =
  flash_persistent_start_blk :: int
  flash_persistent_number_blk :: int
  flash_persistent_length :: int
  flash_persistent_blk_offset :: int
  flash_scratch_pad_start_blk :: int
  flash_scratch_pad_number_blk :: int
  flash_scratch_pad_length :: int
  flash_scratch_pad_blk_offset :: int
  flash_nvram_start_blk :: int
  flash_nvram_number_blk :: int
  flash_nvram_length :: int
  flash_nvram_blk_offset :: int
  flash_rootfs_start_offset :: int
  flash_dare_persistent_start_blk :: int
  flash_dare_persistent_number_blk :: int
  flash_dare_persistent_length :: int
  flash_dare_persistent_blk_offset :: int

definition kerSysFlashAddrInfoGet :: "flash_addr_info \<Rightarrow> flash_addr_info \<Rightarrow> flash_addr_info" where
  "kerSysFlashAddrInfoGet fi p =
     p\<lparr>flash_nvram_blk_offset := flash_nvram_blk_offset fi,
       flash_nvram_length := flash_nvram_length fi,
       flash_nvram_number_blk := flash_nvram_number_blk fi,
       flash_nvram_start_blk := flash_nvram_start_blk fi,
       flash_persistent_blk_offset := flash_persistent_blk_offset fi,
       flash_persistent_length := flash_persistent_length fi,
       flash_persistent_number_blk := flash_persistent_number_blk fi,
       flash_persistent_start_blk := flash_persistent_start_blk fi,
       flash_rootfs_start_offset := flash_rootfs_start_offset fi\<rparr>"

subsection \<open>Shared blocks\<close>

text \<open>The loop that adds up the sizes of the sectors from \<open>i\<close> to before \<open>e\<close>.\<close>

function blks_size :: "'d flash_device_info option \<Rightarrow> int \<Rightarrow> int \<Rightarrow> int \<Rightarrow> 'd \<Rightarrow> int option" where
  "blks_size g i e usedBlkSize d =
     (if i < e then
        do {
          sz \<leftarrow> flash_get_sector_size g i d;
          blks_size g (i + 1) e (s32 (usedBlkSize + sz)) d
        }
      else Some usedBlkSize)"
  by pat_completeness auto
termination
  by (relation "measure (\<lambda>(g, i, e, u, d). nat (e - i))") auto

declare blks_size.simps [simp del]

text \<open>\<open>pBuf\<close> is the part of the buffer not yet filled; the result is the filled part.\<close>

function read_blks ::
  "'d flash_device_info option \<Rightarrow> int \<Rightarrow> int \<Rightarrow> bytes \<Rightarrow> 'd \<Rightarrow> (bytes \<times> 'd) option" where
  "read_blks g i e pBuf d =
     (if i < e then
        do {
          sect_size \<leftarrow> flash_get_sector_size g i d;
          (_, pBuf, d) \<leftarrow> flash_read_buf g i 0 pBuf sect_size d;
          (rest, d) \<leftarrow> read_blks g (i + 1) e (drop (nat sect_size) pBuf) d;
          Some (take (nat sect_size) pBuf @ rest, d)
        }
      else Some (pBuf, d))"
  by pat_completeness auto
termination
  by (relation "measure (\<lambda>(g, i, e, p, d). nat (e - i))") auto

declare read_blks.simps [simp del]

definition getSharedBlks ::
  "(int \<Rightarrow> bool) \<Rightarrow> 'd flash_device_info option \<Rightarrow> int \<Rightarrow> int \<Rightarrow> 'd \<Rightarrow> (bytes option \<times> 'd) option" where
  "getSharedBlks km g start_blk end_blk d =
     do {
       usedBlkSize \<leftarrow> blks_size g start_blk end_blk 0 d;
       if km usedBlkSize then
         do {
           (pTempBuf, d) \<leftarrow> read_blks g start_blk end_blk (replicate (nat usedBlkSize) 0) d;
           Some (Some pTempBuf, d)
         }
       else Some (None, d)
     }"

function setSharedBlks ::
  "'d flash_device_info option \<Rightarrow> int \<Rightarrow> int \<Rightarrow> bytes \<Rightarrow> 'd \<Rightarrow> (int \<times> 'd) option" where
  "setSharedBlks g i end_blk pBuf d =
     (if i < end_blk then
        do {
          sect_size \<leftarrow> flash_get_sector_size g i d;
          (_, d) \<leftarrow> flash_sector_erase_int g i d;
          (n, d) \<leftarrow> flash_write_buf g i 0 pBuf sect_size d;
          if n \<noteq> sect_size then Some (-1, d)
          else setSharedBlks g (i + 1) end_blk (drop (nat sect_size) pBuf) d
        }
      else Some (0, d))"
  by pat_completeness auto
termination
  by (relation "measure (\<lambda>(g, i, e, p, d). nat (e - i))") auto

declare setSharedBlks.simps [simp del]

subsection \<open>Sections\<close>

text \<open>
  The NVRAM, configuration and second configuration sections are read and written by the same
  code on different fields of \<open>fInfo\<close>: a length limit, the blocks and the offset of the section
  in them.  \<open>string\<close> is the caller's buffer.
\<close>

definition section_get ::
  "int \<Rightarrow> int \<Rightarrow> int \<Rightarrow> int \<Rightarrow> (int \<Rightarrow> bool) \<Rightarrow> 'd flash_device_info option \<Rightarrow>
   bytes \<Rightarrow> int \<Rightarrow> int \<Rightarrow> 'd \<Rightarrow> (int \<times> bytes \<times> 'd) option" where
  "section_get len start_blk number_blk blk_offset km g string strLen offset d =
     (if strLen > len then Some (-1, string, d)
      else
        do {
          (pBuf, d) \<leftarrow> getSharedBlks km g start_blk (start_blk + number_blk) d;
          case pBuf of
            None \<Rightarrow> Some (-1, string, d)
          | Some pBuf \<Rightarrow>
              do {
                src \<leftarrow> mem_read (s32 (blk_offset + offset)) strLen pBuf;
                string \<leftarrow> mem_write 0 src string;
                Some (0, string, d)
              }
        })"

definition section_set ::
  "int \<Rightarrow> int \<Rightarrow> int \<Rightarrow> int \<Rightarrow> (int \<Rightarrow> bool) \<Rightarrow> 'd flash_device_info option \<Rightarrow>
   bytes \<Rightarrow> int \<Rightarrow> int \<Rightarrow> 'd \<Rightarrow> (int \<times> 'd) option" where
  "section_set len start_blk number_blk blk_offset km g string strLen offset d =
     (if strLen > len then Some (-1, d)
      else
        do {
          (pBuf, d) \<leftarrow> getSharedBlks km g start_blk (start_blk + number_blk) d;
          case pBuf of
            None \<Rightarrow> Some (-1, d)
          | Some pBuf \<Rightarrow>
              do {
                src \<leftarrow> mem_read 0 strLen string;
                pBuf \<leftarrow> mem_write (s32 (blk_offset + offset)) src pBuf;
                (sts, d) \<leftarrow> setSharedBlks g start_blk (number_blk + start_blk) pBuf d;
                Some (if sts \<noteq> 0 then -1 else 0, d)
              }
        })"

definition kerSysNvRamGet where
  "kerSysNvRamGet fi =
     section_get NVRAM_LENGTH (flash_nvram_start_blk fi) (flash_nvram_number_blk fi) (flash_nvram_blk_offset fi)"

definition kerSysNvRamSet where
  "kerSysNvRamSet fi =
     section_set NVRAM_LENGTH (flash_nvram_start_blk fi) (flash_nvram_number_blk fi) (flash_nvram_blk_offset fi)"

definition kerSysPersistentGet where
  "kerSysPersistentGet fi =
     section_get (flash_persistent_length fi) (flash_persistent_start_blk fi)
       (flash_persistent_number_blk fi) (flash_persistent_blk_offset fi)"

definition kerSysPersistentSet where
  "kerSysPersistentSet fi =
     section_set (flash_persistent_length fi) (flash_persistent_start_blk fi)
       (flash_persistent_number_blk fi) (flash_persistent_blk_offset fi)"

definition kerSysDarePersistentGet where
  "kerSysDarePersistentGet fi =
     section_get (flash_dare_persistent_length fi) (flash_dare_persistent_start_blk fi)
       (flash_dare_persistent_number_blk fi) (flash_dare_persistent_blk_offset fi)"

definition kerSysDarePersistentSet where
  "kerSysDarePersistentSet fi =
     section_set (flash_dare_persistent_length fi) (flash_dare_persistent_start_blk fi)
       (flash_dare_persistent_number_blk fi) (flash_dare_persistent_blk_offset fi)"

definition kerSysEraseNvRam ::
  "flash_addr_info \<Rightarrow> (int \<Rightarrow> bool) \<Rightarrow> 'd flash_device_info option \<Rightarrow> 'd \<Rightarrow> (int \<times> 'd) option" where
  "kerSysEraseNvRam fi km g d =
     (if km NVRAM_LENGTH then
        do {
          (r, d) \<leftarrow> kerSysNvRamSet fi km g (replicate (nat NVRAM_LENGTH) 0xff) NVRAM_LENGTH 0 d;
          Some (if r \<noteq> 0 then 0 else 1, d)
        }
      else Some (0, d))"

definition kerSysFlashSizeGet :: "'d flash_device_info option \<Rightarrow> 'd \<Rightarrow> int" where
  "kerSysFlashSizeGet g d = flash_get_total_size g d"

definition kerSysMemoryMappedFlashSizeGet :: "'d flash_device_info option \<Rightarrow> 'd \<Rightarrow> int" where
  "kerSysMemoryMappedFlashSizeGet g d = flash_get_total_memory_mapped_size g d"

definition kerSysReadFromFlash ::
  "'d flash_device_info option \<Rightarrow> bytes \<Rightarrow> int \<Rightarrow> int \<Rightarrow> 'd \<Rightarrow> (int \<times> bytes \<times> 'd) option" where
  "kerSysReadFromFlash g toaddr fromaddr len d =
     do {
       sect \<leftarrow> flash_get_blk g fromaddr d;
       start \<leftarrow> flash_get_memptr g sect d;
       (_, toaddr, d) \<leftarrow> flash_read_buf g sect (s32 (s32 fromaddr - s32 start)) toaddr (s32 len) d;
       Some (len, toaddr, d)
     }"

section \<open>Blocks of a device\<close>

text \<open>The bytes of the sectors from \<open>a\<close> to before \<open>b\<close>.\<close>

definition blk_bytes :: "bytes list \<Rightarrow> nat \<Rightarrow> nat \<Rightarrow> bytes" where
  "blk_bytes cs a b = concat (take (b - a) (drop a cs))"

lemma blk_bytes_same [simp]: "blk_bytes cs a a = []"
  by (simp add: blk_bytes_def)

lemma blk_bytes_step:
  "a < b \<Longrightarrow> a < length cs \<Longrightarrow> blk_bytes cs a b = cs ! a @ blk_bytes cs (Suc a) b"
  by (simp add: blk_bytes_def Cons_nth_drop_Suc [symmetric] Suc_diff_le take_Cons')

lemma length_blk_bytes:
  "map length cs = geom \<Longrightarrow> a \<le> b \<Longrightarrow> length (blk_bytes cs a b) = blk_base geom b - blk_base geom a"
proof -
  assume g: "map length cs = geom" and ab: "a \<le> b"
  have "take b geom = take a geom @ take (b - a) (drop a geom)"
    using ab by (metis le_add_diff_inverse take_add)
  then show ?thesis
    using g by (simp add: blk_bytes_def blk_base_def length_concat take_map [symmetric] drop_map [symmetric])
qed

text \<open>Replacing sector \<open>a\<close>, seen as part of a window of sectors that ends before \<open>b\<close>.\<close>

lemma update_window:
  assumes "a < b" "b \<le> length cs"
  shows "cs[a := x] = take a cs @ (x # take (b - Suc a) (drop (Suc a) cs)) @ drop b cs"
proof -
  have "drop (Suc a) cs = take (b - Suc a) (drop (Suc a) cs) @ drop b cs"
    using assms by (metis Suc_leI add.commute append_take_drop_id drop_drop le_add_diff_inverse2)
  then show ?thesis using assms by (simp add: upd_conv_take_nth_drop)
qed

lemma window_after_update:
  "a < b \<Longrightarrow> b \<le> length cs \<Longrightarrow>
   take (Suc a) (cs[a := x]) @ news @ drop b (cs[a := x]) = take a cs @ (x # news) @ drop b cs"
  by (simp add: take_Suc_conv_app_nth)

text \<open>
  A section of \<open>len\<close> bytes lies in its blocks, and where its byte \<open>offset\<close> is
  in the device.
\<close>

definition placed :: "nat list \<Rightarrow> int \<Rightarrow> int \<Rightarrow> int \<Rightarrow> int \<Rightarrow> bool" where
  "placed geom start_blk number_blk blk_offset len \<longleftrightarrow>
     0 \<le> start_blk \<and> 0 \<le> number_blk \<and> start_blk + number_blk \<le> int (length geom) \<and>
     0 \<le> blk_offset \<and> 0 \<le> len \<and>
     blk_offset + len \<le> int (blk_base geom (nat (start_blk + number_blk))) - int (blk_base geom (nat start_blk))"

definition section_pos :: "nat list \<Rightarrow> int \<Rightarrow> int \<Rightarrow> int \<Rightarrow> nat" where
  "section_pos geom start_blk blk_offset offset = blk_base geom (nat start_blk) + nat (blk_offset + offset)"

lemma flat_split:
  assumes "map length cs = geom" "a \<le> b" "b \<le> length geom"
  shows "concat cs = concat (take a cs) @ blk_bytes cs a b @ concat (drop b cs)"
    and "length (concat (take a cs)) = blk_base geom a"
proof -
  have "cs = take a cs @ take (b - a) (drop a cs) @ drop b cs"
    using assms(2) by (metis append_take_drop_id drop_drop le_add_diff_inverse2)
  then show "concat cs = concat (take a cs) @ blk_bytes cs a b @ concat (drop b cs)"
    by (metis blk_bytes_def concat_append)
  show "length (concat (take a cs)) = blk_base geom a"
    using assms(1) by (simp add: blk_base_def length_concat take_map [symmetric])
qed

context flash_device
begin

lemma sector_u16: "i < length geom \<Longrightarrow> u16 (int i) = int i"
  using geom_sectors by (simp add: u16_id)

lemma api_sector_size:
  "ok d \<Longrightarrow> i < length geom \<Longrightarrow> flash_get_sector_size (Some dev) (int i) d = Some (int (geom ! i))"
  by (simp add: flash_get_sector_size_def sector_u16 sector_size)

lemma length_contents: "ok d \<Longrightarrow> length (contents d) = length geom"
  using contents_shape [of d] by (metis length_map)

lemma length_sector: "ok d \<Longrightarrow> i < length geom \<Longrightarrow> length (contents d ! i) = geom ! i"
  using contents_shape [of d] by (metis length_map nth_map)

lemma api_read_sector:
  assumes "ok d" "i < length geom" "geom ! i \<le> length buf"
  shows "\<exists>r d'. flash_read_buf (Some dev) (int i) 0 buf (int (geom ! i)) d =
      Some (r, contents d ! i @ drop (geom ! i) buf, d') \<and> ok d' \<and> contents d' = contents d"
  using read_buf [of d i 0 "geom ! i" buf] assms length_sector [OF assms(1,2)]
  by (simp add: flash_read_buf_def sector_u16)

lemma api_erase:
  assumes "ok d" "i < length geom"
  shows "\<exists>r x d'. flash_sector_erase_int (Some dev) (int i) d = Some (r, d') \<and> ok d' \<and>
      contents d' = (contents d)[i := x] \<and> length x = geom ! i"
  using erase [OF assms] assms(2) by (simp add: flash_sector_erase_int_def sector_u16)

lemma rewrite_front:
  assumes "ok d" "i < length geom" "n \<le> geom ! i" "n \<le> length buf" "even n"
  shows "\<exists>r0 d0 r d' x. flash_sector_erase_int (Some dev) (int i) d = Some (r0, d0) \<and>
    flash_write_buf (Some dev) (int i) 0 buf (int n) d0 = Some (r, d') \<and> ok d' \<and>
    contents d' = (contents d)[i := x] \<and> length x = geom ! i \<and> (r = int n \<longrightarrow> take n x = take n buf)"
proof -
  obtain e d1 where e: "fn_flash_sector_erase_int dev (int i) d = Some (e, d1)"
    using erase [OF assms(1,2)] by blast
  show ?thesis
    using rewrite [OF assms(1,2) _ assms(4) _ assms(5) e, of 0] e assms(2,3)
    by (auto simp: flash_sector_erase_int_def flash_write_buf_def sector_u16)
qed

lemma total_range: "blk_base geom i \<le> 0x4000000"
  using blk_base_le_total [of geom i] geom_size(2) by simp

lemma blks_size_eq:
  assumes "ok d" "a \<le> b" "b \<le> length geom" "u + (blk_base geom b - blk_base geom a) < 0x80000000"
  shows "blks_size (Some dev) (int a) (int b) (int u) d =
    Some (int (u + (blk_base geom b - blk_base geom a)))"
  using assms(2-4)
proof (induction "b - a" arbitrary: a u)
  case 0
  then show ?case by (simp add: blks_size.simps)
next
  case (Suc k)
  then have a: "a < b" "a < length geom" by simp_all
  have le: "blk_base geom a \<le> blk_base geom (Suc a)" "blk_base geom (Suc a) \<le> blk_base geom b"
    using a by (auto intro: blk_base_mono)
  have "s32 (int u + int (geom ! a)) = int (u + geom ! a)"
    using Suc.prems(3) le blk_base_Suc [OF a(2)] by (subst s32_id) simp_all
  then have "blks_size (Some dev) (int a) (int b) (int u) d =
      blks_size (Some dev) (int (Suc a)) (int b) (int (u + geom ! a)) d"
    using a api_sector_size [OF assms(1) a(2)] by (subst blks_size.simps) (simp add: add.commute)
  also have "\<dots> = Some (int (u + geom ! a + (blk_base geom b - blk_base geom (Suc a))))"
    using Suc.hyps a Suc.prems le blk_base_Suc [OF a(2)] by (intro Suc.hyps(1)) simp_all
  finally show ?case using le blk_base_Suc [OF a(2)] by simp
qed

lemma read_blks_eq:
  assumes "ok d" "a \<le> b" "b \<le> length geom" "length buf = blk_base geom b - blk_base geom a"
  shows "\<exists>d'. read_blks (Some dev) (int a) (int b) buf d = Some (blk_bytes (contents d) a b, d') \<and>
    ok d' \<and> contents d' = contents d"
  using assms
proof (induction "b - a" arbitrary: a buf d)
  case 0
  then show ?case by (simp add: read_blks.simps)
next
  case (Suc k)
  then have a: "a < b" "a < length geom" and k: "k = b - Suc a" by simp_all
  have le: "blk_base geom a \<le> blk_base geom (Suc a)" "blk_base geom (Suc a) \<le> blk_base geom b"
    using a by (auto intro: blk_base_mono)
  have len: "geom ! a \<le> length buf" "length (contents d ! a) = geom ! a"
    using Suc.prems(4) le blk_base_Suc [OF a(2)] length_sector [OF Suc.prems(1) a(2)] by simp_all
  obtain r d1 where d1: "flash_read_buf (Some dev) (int a) 0 buf (int (geom ! a)) d =
      Some (r, contents d ! a @ drop (geom ! a) buf, d1)" "ok d1" "contents d1 = contents d"
    using api_read_sector [OF Suc.prems(1) a(2) len(1)] by blast
  obtain d2 where d2: "read_blks (Some dev) (int (Suc a)) (int b) (drop (geom ! a) buf) d1 =
      Some (blk_bytes (contents d) (Suc a) b, d2)" "ok d2" "contents d2 = contents d"
    using Suc.hyps(1) [of "Suc a" d1 "drop (geom ! a) buf", OF k] Suc.prems a d1 le
      blk_base_Suc [OF a(2)] by auto
  have "read_blks (Some dev) (int a) (int b) buf d = Some (blk_bytes (contents d) a b, d2)"
    using a d1(1) d2(1) api_sector_size [OF Suc.prems(1) a(2)] len(2)
      blk_bytes_step [of a b "contents d"] length_contents [OF Suc.prems(1)]
    by (subst read_blks.simps) (simp add: add.commute)
  then show ?case using d2 by blast
qed

lemma getSharedBlks_eq:
  assumes "ok d" "a \<le> b" "b \<le> length geom"
  shows "\<exists>d'. getSharedBlks km (Some dev) (int a) (int b) d =
      Some (if km (int (blk_base geom b - blk_base geom a)) then Some (blk_bytes (contents d) a b) else None, d') \<and>
    ok d' \<and> contents d' = contents d"
proof -
  have "blks_size (Some dev) (int a) (int b) (int 0) d = Some (int (0 + (blk_base geom b - blk_base geom a)))"
    using assms total_range [of b] by (intro blks_size_eq) simp_all
  moreover obtain d' where "read_blks (Some dev) (int a) (int b)
      (replicate (blk_base geom b - blk_base geom a) 0) d = Some (blk_bytes (contents d) a b, d')"
    "ok d'" "contents d' = contents d"
    using read_blks_eq [OF assms, of "replicate (blk_base geom b - blk_base geom a) 0"] by auto
  ultimately show ?thesis using assms(1) by (auto simp: getSharedBlks_def)
qed

lemma rewrite_sector:
  assumes "ok d" "i < length geom" "geom ! i \<le> length buf"
  shows "\<exists>r0 d0 n d' x. flash_sector_erase_int (Some dev) (int i) d = Some (r0, d0) \<and>
    flash_write_buf (Some dev) (int i) 0 buf (int (geom ! i)) d0 = Some (n, d') \<and> ok d' \<and>
    contents d' = (contents d)[i := x] \<and> length x = geom ! i \<and>
    (n = int (geom ! i) \<longrightarrow> x = take (geom ! i) buf)"
  using rewrite_front [OF assms(1,2) order_refl assms(3)] geom_size(1) [of "geom ! i"] assms(2) by fastforce

lemma setSharedBlks_eq:
  assumes "ok d" "a \<le> b" "b \<le> length geom" "length buf = blk_base geom b - blk_base geom a"
  shows "\<exists>r d' news. setSharedBlks (Some dev) (int a) (int b) buf d = Some (r, d') \<and> (r = 0 \<or> r = -1) \<and> ok d' \<and>
    contents d' = take a (contents d) @ news @ drop b (contents d) \<and> length news = b - a \<and>
    (r = 0 \<longrightarrow> concat news = buf)"
  using assms
proof (induction "b - a" arbitrary: a buf d)
  case 0
  then show ?case
    using length_contents [of d] by (auto simp: setSharedBlks.simps intro!: exI [of _ "[]"])
next
  case (Suc k)
  then have a: "a < b" "a < length geom" and k: "k = b - Suc a" by simp_all
  have le: "blk_base geom a \<le> blk_base geom (Suc a)" "blk_base geom (Suc a) \<le> blk_base geom b"
    using a by (auto intro: blk_base_mono)
  have len: "geom ! a \<le> length buf" "length (contents d) = length geom"
    using Suc.prems le blk_base_Suc [OF a(2)] length_contents by simp_all
  obtain r0 d0 n d1 x where
    d1: "flash_sector_erase_int (Some dev) (int a) d = Some (r0, d0)"
      "flash_write_buf (Some dev) (int a) 0 buf (int (geom ! a)) d0 = Some (n, d1)" "ok d1"
      "contents d1 = (contents d)[a := x]" "length x = geom ! a"
      "n = int (geom ! a) \<longrightarrow> x = take (geom ! a) buf"
    using rewrite_sector [OF Suc.prems(1) a(2) len(1)] by blast
  have set: "setSharedBlks (Some dev) (int a) (int b) buf d =
      (if n \<noteq> int (geom ! a) then Some (-1, d1)
       else setSharedBlks (Some dev) (int (Suc a)) (int b) (drop (geom ! a) buf) d1)"
    using a d1(1,2) api_sector_size [OF Suc.prems(1) a(2)]
    by (subst setSharedBlks.simps) (simp add: add.commute)
  note split = update_window [of a b "contents d" x]
  show ?case
  proof (cases "n = int (geom ! a)")
    case False
    then show ?thesis
      using set d1(3,4) split a Suc.prems len(2)
      by (intro exI [of _ "-1"] exI [of _ d1] exI [of _ "x # take (b - Suc a) (drop (Suc a) (contents d))"]) simp
  next
    case True
    obtain r d2 news where d2:
      "setSharedBlks (Some dev) (int (Suc a)) (int b) (drop (geom ! a) buf) d1 = Some (r, d2)"
      "r = 0 \<or> r = -1" "ok d2" "contents d2 = take (Suc a) (contents d1) @ news @ drop b (contents d1)"
      "length news = b - Suc a" "r = 0 \<longrightarrow> concat news = drop (geom ! a) buf"
      using Suc.hyps(1) [of "Suc a" d1 "drop (geom ! a) buf", OF k] Suc.prems a d1(3) le
        blk_base_Suc [OF a(2)] by auto
    have "contents d2 = take a (contents d) @ (x # news) @ drop b (contents d)"
      using d2(4) d1(4) a(1) Suc.prems(3) len(2) window_after_update [of a b "contents d"] by simp
    moreover have "r = 0 \<longrightarrow> concat (x # news) = buf" using d2(6) d1(6) True by simp
    ultimately show ?thesis using set True d2 a by (intro exI [of _ r] exI [of _ d2] exI [of _ "x # news"]) auto
  qed
qed

text \<open>Reading and writing a section in terms of the device's bytes.\<close>

lemma flat_window:
  assumes "ok d" "a \<le> b" "b \<le> length geom" "x + n \<le> blk_base geom b - blk_base geom a"
  shows "take n (drop x (blk_bytes (contents d) a b)) =
    take n (drop (blk_base geom a + x) (concat (contents d)))"
  using flat_split [OF contents_shape [OF assms(1)] assms(2,3)]
    length_blk_bytes [OF contents_shape [OF assms(1)] assms(2)] assms(4) by simp

lemma placed_window:
  assumes pl: "placed geom start_blk number_blk blk_offset len" and o: "0 \<le> offset" "offset + int n \<le> len"
  obtains a b x where "start_blk = int a" "start_blk + number_blk = int b" "a \<le> b" "b \<le> length geom"
    "x + n \<le> blk_base geom b - blk_base geom a" "s32 (blk_offset + offset) = int x"
    "section_pos geom start_blk blk_offset offset = blk_base geom a + x"
proof
  let ?a = "nat start_blk" and ?b = "nat (start_blk + number_blk)" and ?x = "nat (blk_offset + offset)"
  show "start_blk = int ?a" "start_blk + number_blk = int ?b" "?a \<le> ?b" "?b \<le> length geom"
    using pl by (auto simp: placed_def)
  have x: "int ?x = blk_offset + offset" using pl o by (simp add: placed_def)
  moreover have "blk_offset + len \<le> int (blk_base geom ?b) - int (blk_base geom ?a)"
    using pl by (simp add: placed_def)
  ultimately show le: "?x + n \<le> blk_base geom ?b - blk_base geom ?a" using o(2) by linarith
  have "int ?x < 2147483648" using le total_range [of ?b] by linarith
  then have "s32 (int ?x) = int ?x" by (intro s32_id) simp_all
  then show "s32 (blk_offset + offset) = int ?x" unfolding x .
  show "section_pos geom start_blk blk_offset offset = blk_base geom ?a + ?x"
    by (simp add: section_pos_def)
qed

lemma section_get_eq:
  assumes d: "ok d" and pl: "placed geom start_blk number_blk blk_offset len"
    and o: "0 \<le> offset" "offset + int n \<le> len" "n \<le> length string" and km: "\<And>z. km z"
  shows "\<exists>d'. section_get len start_blk number_blk blk_offset km (Some dev) string (int n) offset d =
      Some (0, take n (drop (section_pos geom start_blk blk_offset offset) (concat (contents d))) @ drop n string, d') \<and>
    ok d' \<and> contents d' = contents d"
proof -
  obtain a b x where ab: "start_blk = int a" "start_blk + number_blk = int b" "a \<le> b" "b \<le> length geom"
    and x: "x + n \<le> blk_base geom b - blk_base geom a" and sx: "s32 (blk_offset + offset) = int x"
    and pos: "section_pos geom start_blk blk_offset offset = blk_base geom a + x"
    using placed_window [OF pl o(1,2)] by metis
  obtain d' where d': "getSharedBlks km (Some dev) start_blk (start_blk + number_blk) d =
      Some (Some (blk_bytes (contents d) a b), d')" "ok d'" "contents d' = contents d"
    using getSharedBlks_eq [OF d ab(3,4), of km] km ab(1,2) by auto
  define src where "src = take n (drop x (blk_bytes (contents d) a b))"
  have src: "mem_read (int x) (int n) (blk_bytes (contents d) a b) = Some src" "length src = n"
    using x length_blk_bytes [OF contents_shape [OF d] ab(3)] 
      mem_read_int [of x n "blk_bytes (contents d) a b"]
    by (simp_all add: src_def)
  have "mem_write 0 src string = Some (src @ drop n string)"
    using mem_write_int [of 0 src string] o(3) src(2) by simp
  moreover have "src = take n (drop (section_pos geom start_blk blk_offset offset) (concat (contents d)))"
    using flat_window [OF d ab(3,4) x] pos by (simp add: src_def)
  ultimately show ?thesis
    using d' o sx src(1) by (intro exI [of _ d']) (auto simp: section_get_def)
qed

lemma section_set_eq:
  assumes d: "ok d" and pl: "placed geom start_blk number_blk blk_offset len"
    and o: "0 \<le> offset" "offset + int n \<le> len" "n \<le> length string" and km: "\<And>z. km z"
    and p: "p = section_pos geom start_blk blk_offset offset"
  shows "\<exists>r d'. section_set len start_blk number_blk blk_offset km (Some dev) string (int n) offset d = Some (r, d') \<and>
    ok d' \<and> (r = 0 \<or> r = -1) \<and>
    (\<forall>i<length geom. int i < start_blk \<or> start_blk + number_blk \<le> int i \<longrightarrow> contents d' ! i = contents d ! i) \<and>
    (r = 0 \<longrightarrow> concat (contents d') =
       take p (concat (contents d)) @ take n string @ drop (p + n) (concat (contents d)))"
proof -
  obtain a b x where ab: "start_blk = int a" "start_blk + number_blk = int b" "a \<le> b" "b \<le> length geom"
    and x: "x + n \<le> blk_base geom b - blk_base geom a" and sx: "s32 (blk_offset + offset) = int x"
    and pos: "section_pos geom start_blk blk_offset offset = blk_base geom a + x"
    using placed_window [OF pl o(1,2)] by metis
  let ?B = "blk_bytes (contents d) a b"
  have lenB: "length ?B = blk_base geom b - blk_base geom a"
    by (rule length_blk_bytes [OF contents_shape [OF d] ab(3)])
  obtain d1 where d1: "getSharedBlks km (Some dev) start_blk (start_blk + number_blk) d =
      Some (Some ?B, d1)" "ok d1" "contents d1 = contents d"
    using getSharedBlks_eq [OF d ab(3,4), of km] km ab(1,2) by auto
  let ?B' = "take x ?B @ take n string @ drop (x + n) ?B"
  have mem: "mem_read 0 (int n) string = Some (take n string)" "mem_write (int x) (take n string) ?B = Some ?B'"
    using o(3) x lenB mem_read_int [of 0 n string] mem_write_int [of x "take n string" ?B] by simp_all
  have lenB': "length ?B' = blk_base geom b - blk_base geom a" using lenB x o(3) by simp
  obtain r d2 news where d2: "setSharedBlks (Some dev) (int a) (int b) ?B' d1 = Some (r, d2)"
      "r = 0 \<or> r = -1" "ok d2" "contents d2 = take a (contents d) @ news @ drop b (contents d)"
      "length news = b - a" "r = 0 \<longrightarrow> concat news = ?B'"
    using setSharedBlks_eq [OF d1(2) ab(3,4), of ?B'] lenB' d1(3) by auto
  have set: "section_set len start_blk number_blk blk_offset km (Some dev) string (int n) offset d = Some (r, d2)"
    using d1(1) mem d2(1,2) sx ab(1,2) o pl by (auto simp: section_set_def add.commute placed_def)
  have outside: "contents d2 ! i = contents d ! i" if "i < length geom" "i < a \<or> b \<le> i" for i
    using that d2(4,5) ab length_contents [OF d] by (auto simp: nth_append)
  have "concat (contents d2) = take p (concat (contents d)) @ take n string @ drop (p + n) (concat (contents d))"
    if "r = 0"
  proof -
    note F = flat_split [OF contents_shape [OF d] ab(3,4)]
    have "concat (contents d2) = concat (take a (contents d)) @ ?B' @ concat (drop b (contents d))"
      using d2(4,6) that by simp
    then show ?thesis using F lenB x p pos by simp
  qed
  then show ?thesis using set d2(2,3) outside ab(1,2) by (intro exI [of _ r] exI [of _ d2]) auto
qed

text \<open>A successful update followed by a read at the same place.\<close>

lemma section_roundtrip:
  assumes d: "ok d" and pl: "placed geom start_blk number_blk blk_offset len"
    and n: "0 \<le> offset" "offset + int n \<le> len" "n \<le> length string" "n \<le> length buf" and km: "\<And>z. km z"
    and p: "p = section_pos geom start_blk blk_offset offset"
  shows "\<exists>r d'. section_set len start_blk number_blk blk_offset km (Some dev) string (int n) offset d = Some (r, d') \<and>
    ok d' \<and> (r = 0 \<or> r = -1) \<and>
    (\<forall>i<length geom. int i < start_blk \<or> start_blk + number_blk \<le> int i \<longrightarrow> contents d' ! i = contents d ! i) \<and>
    (r = 0 \<longrightarrow>
       concat (contents d') = take p (concat (contents d)) @ take n string @ drop (p + n) (concat (contents d)) \<and>
       (\<exists>d''. section_get len start_blk number_blk blk_offset km (Some dev) buf (int n) offset d' =
          Some (0, take n string @ drop n buf, d'')))"
proof -
  let ?F = "concat (contents d)"
  obtain r d' where set: "section_set len start_blk number_blk blk_offset km (Some dev) string (int n) offset d = Some (r, d')"
      "ok d'" "r = 0 \<or> r = -1"
      "\<forall>i<length geom. int i < start_blk \<or> start_blk + number_blk \<le> int i \<longrightarrow> contents d' ! i = contents d ! i"
      "r = 0 \<longrightarrow> concat (contents d') = take p ?F @ take n string @ drop (p + n) ?F"
    using section_set_eq [where km = km, OF d pl n(1-3) km p] by blast
  have "length ?F = sum_list geom" using contents_shape [OF d] by (simp add: length_concat)
  moreover have "p \<le> sum_list geom"
    using pl n(1,2) p blk_base_le_total [of geom "nat (start_blk + number_blk)"]
    unfolding placed_def section_pos_def by linarith
  ultimately have "take n (drop p (concat (contents d'))) = take n string" if "r = 0"
    using set(5) that n(3) by simp
  then show ?thesis
    using set section_get_eq [where km = km, OF set(2) pl n(1,2,4) km] p by (intro exI [of _ r] exI [of _ d']) auto
qed

end

context reliable_flash_device
begin

lemma rewrite_sector_reliable:
  assumes "ok d" "i < length geom" "geom ! i \<le> length buf"
  shows "\<exists>r0 d0 d'. flash_sector_erase_int (Some dev) (int i) d = Some (r0, d0) \<and>
    flash_write_buf (Some dev) (int i) 0 buf (int (geom ! i)) d0 = Some (int (geom ! i), d') \<and> ok d'"
proof -
  obtain r0 d0 where d0: "fn_flash_sector_erase_int dev (int i) d = Some (r0, d0)" "ok d0"
      "contents d0 = (contents d)[i := replicate (geom ! i) 0xff]"
    using erase_reliable [OF assms(1,2)] by blast
  have "contents d0 ! i = replicate (geom ! i) 0xff"
    using d0(3) assms(2) length_contents [OF assms(1)] by simp
  then show ?thesis
    using write_reliable [of d0 i 0 "geom ! i" buf] d0 assms geom_size(1) [of "geom ! i"]
    by (auto simp: flash_sector_erase_int_def flash_write_buf_def sector_u16)
qed

lemma setSharedBlks_reliable:
  assumes "ok d" "a \<le> b" "b \<le> length geom" "length buf = blk_base geom b - blk_base geom a"
  shows "\<exists>d'. setSharedBlks (Some dev) (int a) (int b) buf d = Some (0, d')"
  using assms
proof (induction "b - a" arbitrary: a buf d)
  case 0
  then show ?case by (simp add: setSharedBlks.simps)
next
  case (Suc k)
  then have a: "a < b" "a < length geom" and k: "k = b - Suc a" by simp_all
  have le: "blk_base geom (Suc a) \<le> blk_base geom b" "blk_base geom (Suc a) = blk_base geom a + geom ! a"
    using a blk_base_mono [of "Suc a" b geom] blk_base_Suc [OF a(2)] by simp_all
  have len: "geom ! a \<le> length buf" using Suc.prems(4) le by simp
  obtain r0 d0 d1 where d1: "flash_sector_erase_int (Some dev) (int a) d = Some (r0, d0)"
      "flash_write_buf (Some dev) (int a) 0 buf (int (geom ! a)) d0 = Some (int (geom ! a), d1)" "ok d1"
    using rewrite_sector_reliable [OF Suc.prems(1) a(2) len] by blast
  then have "setSharedBlks (Some dev) (int a) (int b) buf d =
      setSharedBlks (Some dev) (int (Suc a)) (int b) (drop (geom ! a) buf) d1"
    using a api_sector_size [OF Suc.prems(1) a(2)]
    by (subst setSharedBlks.simps) (simp add: add.commute)
  then show ?case
    using Suc.hyps(1) [of "Suc a" d1 "drop (geom ! a) buf", OF k] Suc.prems a d1(3) le by auto
qed

lemma section_set_reliable:
  assumes d: "ok d" and pl: "placed geom start_blk number_blk blk_offset len"
    and o: "0 \<le> offset" "offset + int n \<le> len" "n \<le> length string" and km: "\<And>z. km z"
  shows "\<exists>d'. section_set len start_blk number_blk blk_offset km (Some dev) string (int n) offset d = Some (0, d')"
proof -
  obtain a b x where ab: "start_blk = int a" "start_blk + number_blk = int b" "a \<le> b" "b \<le> length geom"
    and x: "x + n \<le> blk_base geom b - blk_base geom a" and sx: "s32 (blk_offset + offset) = int x"
    using placed_window [OF pl o(1,2)] by metis
  let ?B = "blk_bytes (contents d) a b"
  let ?B' = "take x ?B @ take n string @ drop (x + n) ?B"
  have lenB: "length ?B = blk_base geom b - blk_base geom a"
    by (rule length_blk_bytes [OF contents_shape [OF d] ab(3)])
  obtain d1 where d1: "getSharedBlks km (Some dev) start_blk (start_blk + number_blk) d = Some (Some ?B, d1)" "ok d1"
    using getSharedBlks_eq [OF d ab(3,4), of km] km ab(1,2) by auto
  have mem: "mem_read 0 (int n) string = Some (take n string)" "mem_write (int x) (take n string) ?B = Some ?B'"
    using o(3) x lenB mem_read_int [of 0 n string] mem_write_int [of x "take n string" ?B] by simp_all
  have "length ?B' = blk_base geom b - blk_base geom a" using lenB x o(3) by simp
  then obtain d2 where "setSharedBlks (Some dev) (int a) (int b) ?B' d1 = Some (0, d2)"
    using setSharedBlks_reliable [OF d1(2) ab(3,4), of ?B'] by auto
  then show ?thesis using d1(1) mem sx ab(1,2) o pl by (auto simp: section_set_def add.commute placed_def)
qed

lemma section_roundtrip_reliable:
  assumes d: "ok d" and pl: "placed geom start_blk number_blk blk_offset len"
    and n: "0 \<le> offset" "offset + int n \<le> len" "n \<le> length string" "n \<le> length buf" and km: "\<And>z. km z"
    and p: "p = section_pos geom start_blk blk_offset offset"
  shows "\<exists>d'. section_set len start_blk number_blk blk_offset km (Some dev) string (int n) offset d = Some (0, d') \<and> ok d' \<and>
    concat (contents d') = take p (concat (contents d)) @ take n string @ drop (p + n) (concat (contents d)) \<and>
    (\<exists>d''. section_get len start_blk number_blk blk_offset km (Some dev) buf (int n) offset d' =
       Some (0, take n string @ drop n buf, d''))"
proof -
  obtain d' where "section_set len start_blk number_blk blk_offset km (Some dev) string (int n) offset d = Some (0, d')"
    using section_set_reliable [where km = km, OF d pl n(1-3) km] by blast
  then show ?thesis using section_roundtrip [where km = km, OF d pl n km p] by auto
qed

end

end
