(* ===== verification/Image_Flash.thy ===== *)
theory Image_Flash
  imports Board_Flash
begin

text \<open>
  Flashing an image: \<open>kerSysBcmImageSet\<close> of \<open>bcm63xx_flash.c\<close>.  The temporary
  buffer of the path that shares a block with the configuration section is followed through its
  allocation and release; releasing it twice has no value.  \<open>user_ok\<close> says whether the copy
  from user memory succeeds.  An allocation failure resets the board, so the call does not return.
\<close>

section \<open>Definitions\<close>

datatype tmp_buf = Null | Live | Freed

definition retriedKfree :: "tmp_buf \<Rightarrow> tmp_buf option" where
  "retriedKfree p = (case p of Live \<Rightarrow> Some Freed | _ \<Rightarrow> None)"

partial_function (option) image_loop ::
  "(int \<Rightarrow> bool) \<Rightarrow> bool \<Rightarrow> flash_addr_info \<Rightarrow> 'd flash_device_info option \<Rightarrow> bool \<Rightarrow> int \<Rightarrow> bytes \<Rightarrow>
   int \<Rightarrow> 'd \<Rightarrow> (int \<times> int \<times> tmp_buf \<times> 'd) option" where
  "image_loop km user_ok fi g whole_image blk_start string sz d =
     do {
       sect_size \<leftarrow> flash_get_sector_size g blk_start d;
       if \<not> whole_image \<and> blk_start = flash_persistent_start_blk fi then
         if sz > s32 (sect_size - flash_persistent_length fi) then Some (sz, blk_start, Null, d)
         else
           do {
             c_assert (km sect_size);
             (_, pTempBuf, d) \<leftarrow> flash_read_buf g blk_start 0 (replicate (nat sect_size) 0) sect_size d;
             if \<not> user_ok then Some (sz, blk_start, Live, d)
             else
               do {
                 src \<leftarrow> mem_read 0 sz string;
                 pTempBuf \<leftarrow> mem_write 0 src pTempBuf;
                 (_, d) \<leftarrow> flash_sector_erase_int g blk_start d;
                 (n, d) \<leftarrow> flash_write_buf g blk_start 0 pTempBuf sect_size d;
                 p \<leftarrow> retriedKfree Live;
                 Some (if n = sect_size then 0 else sz, blk_start, p, d)
               }
           }
       else
         do {
           (_, d) \<leftarrow> flash_sector_erase_int g blk_start d;
           let sz' = (if sect_size > sz \<and> odd sz then s32 (sz + 1) else sz);
           let sect_size' = (if sect_size > sz then sz' else sect_size);
           (i, d) \<leftarrow> flash_write_buf g blk_start 0 string sect_size' d;
           if i \<noteq> sect_size' then Some (sz', blk_start, Null, d)
           else if sz' - sect_size' > 0 then
             image_loop km user_ok fi g whole_image (blk_start + 1) (drop (nat sect_size') string)
               (sz' - sect_size') d
           else Some (sz' - sect_size', blk_start + 1, Null, d)
         }
     }"

function erase_to_end :: "'d flash_device_info option \<Rightarrow> int \<Rightarrow> int \<Rightarrow> 'd \<Rightarrow> (int \<times> 'd) option" where
  "erase_to_end g blk_start total_blks d =
     (if blk_start < total_blks then
        do {
          (_, d) \<leftarrow> flash_sector_erase_int g blk_start d;
          erase_to_end g (blk_start + 1) total_blks d
        }
      else Some (blk_start, d))"
  by pat_completeness auto
termination
  by (relation "measure (\<lambda>(g, b, t, d). nat (t - b))") auto

declare erase_to_end.simps [simp del]

definition kerSysBcmImageSet ::
  "(int \<Rightarrow> bool) \<Rightarrow> bool \<Rightarrow> flash_addr_info \<Rightarrow> 'd flash_device_info option \<Rightarrow> int \<Rightarrow> bytes \<Rightarrow> int \<Rightarrow> 'd \<Rightarrow>
   (int \<times> 'd) option" where
  "kerSysBcmImageSet km user_ok fi g flash_start_addr string sz d =
     do {
       blk_start \<leftarrow> flash_get_blk g flash_start_addr d;
       if blk_start < 0 then Some (-1, d)
       else
         do {
           let whole_image = (u32 flash_start_addr = FLASH_BASE \<and> u32 sz > flash_rootfs_start_offset fi);
           (sz, blk_start, pTempBuf, d) \<leftarrow> image_loop km user_ok fi g whole_image blk_start string sz d;
           (blk_start, d) \<leftarrow>
             (if whole_image then erase_to_end g blk_start (flash_get_numsectors g d) d
              else Some (blk_start, d));
           _ \<leftarrow> (if pTempBuf \<noteq> Null then retriedKfree pTempBuf else Some Null);
           Some (if sz = 0 then 0 else blk_start, d)
         }
     }"

section \<open>One sector of an image\<close>

lemma take_concat_Cons:
  assumes "m \<le> n" "length x = m" "take m x = take m string"
    and "take (n - m) (concat news) = take (n - m) (drop m string)"
  shows "take n (concat (x # news)) = take n string"
proof -
  have x: "x = take m string" using assms(2,3) by simp
  have "take n (concat (x # news)) = x @ take (n - m) (concat news)" using assms(1,2) by simp
  also have "\<dots> = take (m + (n - m)) string" unfolding assms(4) by (subst x) (simp only: take_add)
  finally show ?thesis using assms(1) by simp
qed

lemma last_sector:
  assumes "a < b" "a < length geom" "blk_base geom (b - 1) < blk_base geom a + n" "n \<le> geom ! a"
  shows "b = Suc a"
proof (rule ccontr)
  assume "b \<noteq> Suc a"
  then have "blk_base geom (Suc a) \<le> blk_base geom (b - 1)"
    using assms(1) by (intro blk_base_mono) simp
  then show False using assms(3,4) blk_base_Suc [OF assms(2)] by simp
qed

context flash_device
begin

lemma image_step:
  assumes "ok d" "i < length geom" "0 < n" "n + n mod 2 \<le> length string" "n < 0x40000000"
    and psi: "whole \<or> flash_persistent_start_blk fi \<noteq> int i"
    and m: "m = (if n < geom ! i then n + n mod 2 else geom ! i)"
  shows "\<exists>r d' x. image_loop km user_ok fi (Some dev) whole (int i) string (int n) d =
      (if r \<noteq> int m then Some (int (max n m), int i, Null, d')
       else if geom ! i < n then
         image_loop km user_ok fi (Some dev) whole (int (Suc i)) (drop m string) (int (n - m)) d'
       else Some (0, int (Suc i), Null, d')) \<and>
    ok d' \<and> contents d' = (contents d)[i := x] \<and> length x = geom ! i \<and> (r = int m \<longrightarrow> take m x = take m string)"
proof -
  have ev: "even (geom ! i)" using geom_size(1) [of "geom ! i"] assms(2) by simp
  then have m_ok: "m \<le> geom ! i" "m \<le> length string" "even m"
    using assms(4) m by (auto elim!: evenE oddE simp: mod2_eq_if split: if_splits)
  obtain r0 d0 r d' x where
    w: "flash_sector_erase_int (Some dev) (int i) d = Some (r0, d0)"
      "flash_write_buf (Some dev) (int i) 0 string (int m) d0 = Some (r, d')" "ok d'"
      "contents d' = (contents d)[i := x]" "length x = geom ! i" "r = int m \<longrightarrow> take m x = take m string"
    using rewrite_front [OF assms(1,2) m_ok(1,2,3)] by blast
  have "s32 (int n + 1) = int n + 1" using assms(5) by (simp add: s32_id)
  then have "image_loop km user_ok fi (Some dev) whole (int i) string (int n) d =
      (if r \<noteq> int m then Some (int (max n m), int i, Null, d')
       else if geom ! i < n then
         image_loop km user_ok fi (Some dev) whole (int (Suc i)) (drop m string) (int (n - m)) d'
       else Some (0, int (Suc i), Null, d'))"
    using w(1,2) psi m api_sector_size [OF assms(1,2)]
    by (subst image_loop.simps) (auto simp: mod2_eq_if add.commute of_nat_diff max_def)
  then show ?thesis using w(3-6) by blast
qed

text \<open>The whole loop, for an image that ends in sector \<open>b - 1\<close>.\<close>

lemma image_loop_eq:
  assumes "ok d" "a < b" "b \<le> length geom"
    and "blk_base geom (b - 1) < blk_base geom a + n" "blk_base geom a + n \<le> blk_base geom b"
    and "n + n mod 2 \<le> length string"
    and "whole \<or> flash_persistent_start_blk fi < int a \<or> int b \<le> flash_persistent_start_blk fi"
  shows "\<exists>sz blk d' news. image_loop km user_ok fi (Some dev) whole (int a) string (int n) d =
      Some (sz, blk, Null, d') \<and> ok d' \<and> int a \<le> blk \<and> (sz = 0 \<longrightarrow> blk = int b) \<and>
    contents d' = take a (contents d) @ news @ drop b (contents d) \<and> length news = b - a \<and>
    (sz = 0 \<longrightarrow> take n (concat news) = take n string)"
  using assms
proof (induction "b - a" arbitrary: a n string d)
  case 0
  then show ?case by simp
next
  case (Suc k)
  have a: "a < length geom" and bs: "blk_base geom (Suc a) = blk_base geom a + geom ! a"
    using Suc.prems(2,3) blk_base_Suc [of a geom] by simp_all
  have n: "0 < n" "n < 0x40000000"
    using Suc.prems(2,4,5) blk_base_mono [of a "b - 1" geom] total_range [of b] by linarith+
  define m where "m = (if n < geom ! a then n + n mod 2 else geom ! a)"
  have psi: "whole \<or> flash_persistent_start_blk fi \<noteq> int a" using Suc.prems(2,7) by auto
  obtain r d1 x where one: "image_loop km user_ok fi (Some dev) whole (int a) string (int n) d =
      (if r \<noteq> int m then Some (int (max n m), int a, Null, d1)
       else if geom ! a < n then
         image_loop km user_ok fi (Some dev) whole (int (Suc a)) (drop m string) (int (n - m)) d1
       else Some (0, int (Suc a), Null, d1))"
    "ok d1" "contents d1 = (contents d)[a := x]" "length x = geom ! a" "r = int m \<longrightarrow> take m x = take m string"
    using image_step [OF Suc.prems(1) a n(1) Suc.prems(6) n(2) psi m_def, of km user_ok] by blast
  have lc: "length (contents d) = length geom" using length_contents [OF Suc.prems(1)] .
  have split: "contents d1 = take a (contents d) @ (x # take (b - Suc a) (drop (Suc a) (contents d))) @
      drop b (contents d)"
    using one(3) update_window [of a b "contents d" x] Suc.prems(2,3) lc by simp
  consider "r \<noteq> int m" | "r = int m" "\<not> geom ! a < n" | "r = int m" "geom ! a < n" by blast
  then show ?case
  proof cases
    case 1
    then show ?thesis using one split lc Suc.prems(2,3) n(1)
      by (intro exI [of _ "int (max n m)"] exI [of _ "int a"] exI [of _ d1]
          exI [of _ "x # take (b - Suc a) (drop (Suc a) (contents d))"]) (auto simp: max_def)
  next
    case 2
    have "b = Suc a" using last_sector [OF Suc.prems(2) a Suc.prems(4)] 2(2) by simp
    moreover have "n \<le> m" using 2(2) by (auto simp: m_def)
    then have "take n x = take n string" using one(5) 2(1) by (metis min.absorb1 take_take)
    ultimately show ?thesis using one split lc 2 Suc.prems(2,3)
      by (intro exI [of _ 0] exI [of _ "int (Suc a)"] exI [of _ d1] exI [of _ "[x]"]) auto
  next
    case 3
    then have m: "m = geom ! a" by (simp add: m_def)
    have b: "Suc a < b" using Suc.prems(2,5) 3(2) bs by (cases "b = Suc a") auto
    have ev: "even (geom ! a)" using geom_size(1) [of "geom ! a"] a by simp
    then have md: "(n - m) mod 2 = n mod 2" using 3(2) m by (auto simp: mod2_eq_if)
    have "\<exists>sz blk d' news. image_loop km user_ok fi (Some dev) whole (int (Suc a)) (drop m string) (int (n - m)) d1 =
        Some (sz, blk, Null, d') \<and> ok d' \<and> int (Suc a) \<le> blk \<and> (sz = 0 \<longrightarrow> blk = int b) \<and>
      contents d' = take (Suc a) (contents d1) @ news @ drop b (contents d1) \<and> length news = b - Suc a \<and>
      (sz = 0 \<longrightarrow> take (n - m) (concat news) = take (n - m) (drop m string))"
      using Suc.hyps(2) Suc.prems b bs m md 3(2) one(2) by (intro Suc.hyps(1)) auto
    then obtain sz blk d2 news where two:
      "image_loop km user_ok fi (Some dev) whole (int (Suc a)) (drop m string) (int (n - m)) d1 = Some (sz, blk, Null, d2)"
      "ok d2" "int (Suc a) \<le> blk" "sz = 0 \<longrightarrow> blk = int b"
      "contents d2 = take (Suc a) (contents d1) @ news @ drop b (contents d1)" "length news = b - Suc a"
      "sz = 0 \<longrightarrow> take (n - m) (concat news) = take (n - m) (drop m string)" by blast
    have c2: "contents d2 = take a (contents d) @ (x # news) @ drop b (contents d)"
      using two(5) one(3) Suc.prems(2,3) lc window_after_update [of a b "contents d"] by simp
    have "take n (concat (x # news)) = take n string" if "sz = 0"
      using take_concat_Cons [of m n x string news] one(4,5) two(7) m 3 that by simp
    then show ?thesis using one(1) two(1-4,6) 3 c2 b
      by (intro exI [of _ sz] exI [of _ blk] exI [of _ d2] exI [of _ "x # news"]) simp
  qed
qed

text \<open>The call, once the loop is known; \<open>x\<close> is in sector \<open>a\<close> and the image is not one for the whole flash.\<close>

lemma image_set_loop:
  assumes d: "ok d" and a: "a < length geom" and x: "blk_base geom a \<le> x" "x < blk_base geom (Suc a)"
    and part: "0 < x \<or> int n \<le> flash_rootfs_start_offset fi" and n: "n < 0x40000000"
    and l: "image_loop km user_ok fi (Some dev) False (int a) string (int n) d = Some (sz, blk, p, d')"
  shows "flash_get_blk (Some dev) (FLASH_BASE + int x) d = Some (int a)"
    and "kerSysBcmImageSet km user_ok fi (Some dev) (FLASH_BASE + int x) string (int n) d =
      (if p = Freed then None else Some (if sz = 0 then 0 else blk, d'))"
proof -
  have xt: "x < sum_list geom" using x(2) blk_base_le_total [of geom "Suc a"] by simp
  show blk: "flash_get_blk (Some dev) (FLASH_BASE + int x) d = Some (int a)"
    using get_blk [OF d xt] blk_of_unique [OF a x] by (simp add: flash_get_blk_def)
  have "x \<le> 0x4000000" using xt geom_size(2) by simp
  then have "\<not> (u32 (FLASH_BASE + int x) = FLASH_BASE \<and> u32 (int n) > flash_rootfs_start_offset fi)"
    using part n by (auto simp: u32_id FLASH_BASE_def)
  then show "kerSysBcmImageSet km user_ok fi (Some dev) (FLASH_BASE + int x) string (int n) d =
      (if p = Freed then None else Some (if sz = 0 then 0 else blk, d'))"
    using blk l by (cases p) (auto simp: kerSysBcmImageSet_def retriedKfree_def)
qed

lemma image_set_eq:
  assumes d: "ok d" and ab: "a < b" "b \<le> length geom"
    and n: "blk_base geom (b - 1) < blk_base geom a + n" "blk_base geom a + n \<le> blk_base geom b"
      "n + n mod 2 \<le> length string"
    and psi: "flash_persistent_start_blk fi < int a \<or> int b \<le> flash_persistent_start_blk fi"
    and part: "0 < x \<or> int n \<le> flash_rootfs_start_offset fi"
    and x: "blk_base geom a \<le> x" "x < blk_base geom (Suc a)"
  shows "\<exists>r d'. kerSysBcmImageSet km user_ok fi (Some dev) (FLASH_BASE + int x) string (int n) d = Some (r, d') \<and>
    ok d' \<and> (r = 0 \<or> int a \<le> r) \<and>
    (\<forall>i<length geom. i < a \<or> b \<le> i \<longrightarrow> contents d' ! i = contents d ! i) \<and>
    (r = 0 \<and> 0 < a \<longrightarrow> take n (drop (blk_base geom a) (concat (contents d'))) = take n string)"
proof -
  have la: "a < length geom" using ab by simp
  have nb: "n < 0x40000000" using n(2) total_range [of b] by linarith
  obtain sz blk d' news where l: "image_loop km user_ok fi (Some dev) False (int a) string (int n) d =
        Some (sz, blk, Null, d')" "ok d'" "int a \<le> blk" "sz = 0 \<longrightarrow> blk = int b"
      "contents d' = take a (contents d) @ news @ drop b (contents d)" "length news = b - a"
      "sz = 0 \<longrightarrow> take n (concat news) = take n string"
    using image_loop_eq [OF d ab n, of False fi km user_ok] psi by blast
  have set: "kerSysBcmImageSet km user_ok fi (Some dev) (FLASH_BASE + int x) string (int n) d =
      Some (if sz = 0 then 0 else blk, d')"
    using image_set_loop(2) [OF d la x part nb l(1)] by simp
  have lc: "length (contents d) = length geom" using length_contents [OF d] .
  have out: "contents d' ! i = contents d ! i" if "i < length geom" "i < a \<or> b \<le> i" for i
    using that l(5,6) ab lc by (auto simp: nth_append)
  have "take n (drop (blk_base geom a) (concat (contents d'))) = take n string" if "sz = 0"
  proof -
    have len: "length (concat (take a (contents d))) = blk_base geom a"
      using flat_split(2) [OF contents_shape [OF d], of a a] la by simp
    have "map length (contents d') = geom" by (rule contents_shape [OF l(2)])
    then have "length (concat news) = blk_base geom b - blk_base geom a"
      using length_blk_bytes [of "contents d'" geom a b] l(5,6) ab lc by (simp add: blk_bytes_def)
    then show ?thesis using l(5,7) that len n(2) by simp
  qed
  then show ?thesis using set l(2,3) out by auto
qed

text \<open>A failure in the first sector of the flash is reported as its number, 0.\<close>

lemma image_set_first_fails:
  assumes d: "ok d" and n: "0 < n" "n < 0x40000000" and psi: "flash_persistent_start_blk fi \<noteq> 0"
    and part: "0 < x \<or> int n \<le> flash_rootfs_start_offset fi" and x: "x < blk_base geom 1"
    and m: "m = (if n < geom ! 0 then n + n mod 2 else geom ! 0)"
    and w: "flash_sector_erase_int (Some dev) 0 d = Some (r0, d0)" "flash_write_buf (Some dev) 0 0 string (int m) d0 = Some (k, d1)"
      "k \<noteq> int m"
  shows "kerSysBcmImageSet km user_ok fi (Some dev) (FLASH_BASE + int x) string (int n) d = Some (0, d1)"
proof -
  have g: "0 < length geom" using geom_sectors by simp
  have "s32 (int n + 1) = int n + 1" using n(2) by (simp add: s32_id)
  then have "image_loop km user_ok fi (Some dev) False (int 0) string (int n) d = Some (int (max n m), int 0, Null, d1)"
    using w psi m api_sector_size [OF d g]
    by (subst image_loop.simps) (auto simp: mod2_eq_if add.commute max_def)
  then show ?thesis using image_set_loop(2) [OF d g _ _ part n(2), of km user_ok string] x by fastforce
qed

end

text \<open>
  An image whose last part shares a sector with the configuration, on a device that does not fail: the
  loop stores all of it and ends with the released buffer still set.
\<close>

context reliable_flash_device
begin

lemma image_shared_last:
  assumes d: "ok d" and i: "flash_persistent_start_blk fi = int i" "i < length geom"
    and n: "0 \<le> flash_persistent_length fi" "int n \<le> int (geom ! i) - flash_persistent_length fi" "n \<le> length string"
    and km: "\<And>z. km z"
  shows "\<exists>d'. image_loop km True fi (Some dev) False (int i) string (int n) d = Some (0, int i, Freed, d')"
proof -
  have gi: "geom ! i \<le> 0x4000000" using blk_base_Suc [OF i(2)] total_range [of "Suc i"] by simp
  then have room: "\<not> int n > s32 (int (geom ! i) - flash_persistent_length fi)" "n \<le> geom ! i"
    using n(1,2) by (simp_all add: s32_id)
  obtain r d1 where d1: "flash_read_buf (Some dev) (int i) 0 (replicate (geom ! i) 0) (int (geom ! i)) d =
      Some (r, contents d ! i, d1)" "ok d1" "contents d1 = contents d"
    using api_read_sector [OF d i(2), of "replicate (geom ! i) 0"] by auto
  have ls: "length (contents d ! i) = geom ! i" by (rule length_sector [OF d i(2)])
  define buf where "buf = take n string @ drop n (contents d ! i)"
  have mem: "mem_read 0 (int n) string = Some (take n string)"
      "mem_write 0 (take n string) (contents d ! i) = Some buf"
    using mem_read_int [of 0 n string] mem_write_int [of 0 "take n string" "contents d ! i"] n(3) room(2) ls
    by (simp_all add: buf_def)
  have "geom ! i \<le> length buf" using ls n(3) room(2) by (simp add: buf_def)
  then obtain r0 d2 d3 where "flash_sector_erase_int (Some dev) (int i) d1 = Some (r0, d2)"
      "flash_write_buf (Some dev) (int i) 0 buf (int (geom ! i)) d2 = Some (int (geom ! i), d3)"
    using rewrite_sector_reliable [OF d1(2) i(2)] by blast
  then show ?thesis
    using api_sector_size [OF d i(2)] i(1) room(1) km d1(1) mem
    by (subst image_loop.simps) (simp add: retriedKfree_def)
qed

lemma image_shared_loop:
  assumes "ok d" "a \<le> i" "flash_persistent_start_blk fi = int i" "i < length geom" "blk_base geom i - blk_base geom a < n"
    and "0 \<le> flash_persistent_length fi" "int (n - (blk_base geom i - blk_base geom a)) \<le> int (geom ! i) - flash_persistent_length fi"
    and "n \<le> length string" "\<And>z. km z"
  shows "\<exists>d'. image_loop km True fi (Some dev) False (int a) string (int n) d = Some (0, int i, Freed, d')"
  using assms
proof (induction "i - a" arbitrary: a n string d)
  case 0
  then have "a = i" by simp
  then show ?case
    using image_shared_last [where km = km, OF 0(2,4,5,7) _ 0(9,10)] 0(8) by simp
next
  case (Suc k)
  have a: "a < i" "a < length geom" "k = i - Suc a" using Suc.hyps(2) Suc.prems(4) by simp_all
  have b: "blk_base geom (Suc a) = blk_base geom a + geom ! a" "blk_base geom (Suc a) \<le> blk_base geom i"
    using blk_base_Suc [OF a(2)] blk_base_mono [of "Suc a" i geom] a(1) by simp_all
  have g: "geom ! a < n" "geom ! a \<le> length string" using b Suc.prems(5,8) by simp_all
  obtain r0 d0 d1 where w: "flash_sector_erase_int (Some dev) (int a) d = Some (r0, d0)"
      "flash_write_buf (Some dev) (int a) 0 string (int (geom ! a)) d0 = Some (int (geom ! a), d1)" "ok d1"
    using rewrite_sector_reliable [OF Suc.prems(1) a(2) g(2)] by blast
  then have "image_loop km True fi (Some dev) False (int a) string (int n) d =
      image_loop km True fi (Some dev) False (int (Suc a)) (drop (geom ! a) string) (int (n - geom ! a)) d1"
    using a(1) g(1) Suc.prems(3) api_sector_size [OF Suc.prems(1) a(2)]
    by (subst image_loop.simps) (simp add: of_nat_diff add.commute)
  then show ?case
    using Suc.hyps(1) [OF a(3) w(3), of "n - geom ! a" "drop (geom ! a) string"] a(1) b g Suc.prems by simp
qed

lemma image_set_shared:
  assumes d: "ok d" and i: "flash_persistent_start_blk fi = int i" "a \<le> i" "i < length geom"
    and n: "blk_base geom i - blk_base geom a < n" "0 \<le> flash_persistent_length fi"
      "int (n - (blk_base geom i - blk_base geom a)) \<le> int (geom ! i) - flash_persistent_length fi" "n \<le> length string"
    and part: "0 < x \<or> int n \<le> flash_rootfs_start_offset fi"
    and x: "blk_base geom a \<le> x" "x < blk_base geom (Suc a)" and km: "\<And>z. km z"
  shows "\<exists>d'. flash_get_blk (Some dev) (FLASH_BASE + int x) d = Some (int a) \<and>
    image_loop km True fi (Some dev) False (int a) string (int n) d = Some (0, int i, Freed, d') \<and>
    kerSysBcmImageSet km True fi (Some dev) (FLASH_BASE + int x) string (int n) d = None"
proof -
  have "n < 0x40000000" using n blk_base_Suc [OF i(3)] total_range [of "Suc i"] by linarith
  moreover have "a < length geom" using i by simp
  moreover obtain d' where l: "image_loop km True fi (Some dev) False (int a) string (int n) d = Some (0, int i, Freed, d')"
    using image_shared_loop [where km = km, OF d i(2,1,3) n km] by blast
  ultimately show ?thesis using image_set_loop [OF d _ x part _ l] by auto
qed

end

end
