(* ===== verification/Scratch_Pad.thy ===== *)
theory Scratch_Pad
  imports Board_Flash
begin

text \<open>
  The scratch pad of \<open>bcm63xx_flash.c\<close>: named tokens in a flash section.  Positions are
  indices into the buffer of shared blocks; a read or write outside of that buffer has no
  value, also where the C code looks at a token header before it tests whether the list goes on.
\<close>

section \<open>Definitions\<close>

definition MAGIC_NUMBER :: bytes where
  "MAGIC_NUMBER = ascii ''gOGoBrCm''"

abbreviation (input) TOKEN_NAME_LEN :: nat where "TOKEN_NAME_LEN \<equiv> 16"
abbreviation (input) SP_VERSION :: "32 word" where "SP_VERSION \<equiv> 1"
abbreviation (input) sizeof_SP_HEADER :: int where "sizeof_SP_HEADER \<equiv> 32"
abbreviation (input) sizeof_SP_TOKEN :: int where "sizeof_SP_TOKEN \<equiv> 20"

definition rd8 :: "bytes \<Rightarrow> int \<Rightarrow> 8 word option" where
  "rd8 buf p = map_option hd (mem_read p 1 buf)"

definition rd32 :: "bytes \<Rightarrow> int \<Rightarrow> int option" where
  "rd32 buf p = map_option (\<lambda>b. sint (of_be32 b)) (mem_read p 4 buf)"

text \<open>\<open>(len + 0x03) & ~0x03\<close>\<close>

definition align4 :: "int \<Rightarrow> int" where
  "align4 len = s32 (len + 3) div 4 * 4"

fun strncmp_eq :: "nat \<Rightarrow> bytes \<Rightarrow> bytes \<Rightarrow> bool option" where
  "strncmp_eq 0 a b = Some True"
| "strncmp_eq (Suc n) (x # a) (y # b) =
     (if x \<noteq> y then Some False else if x = 0 then Some True else strncmp_eq n a b)"
| "strncmp_eq (Suc n) _ _ = None"

definition strlen_at :: "bytes \<Rightarrow> int \<Rightarrow> int option" where
  "strlen_at buf p =
     (if 0 \<le> p \<and> 0 \<in> set (drop (nat p) buf) then Some (int (length (cstring (drop (nat p) buf)))) else None)"

definition sp_magic :: "bytes \<Rightarrow> int \<Rightarrow> bool option" where
  "sp_magic buf p = map_option (\<lambda>m. m = MAGIC_NUMBER) (mem_read p 8 buf)"

subsection \<open>Looking up a token\<close>

text \<open>
  The condition of the search loop, evaluated from left to right.  A token that passes it has
  a positive length below that of the section, so its rounded length is positive.
\<close>

definition sp_get_cond :: "int \<Rightarrow> bytes \<Rightarrow> int \<Rightarrow> int \<Rightarrow> bool option" where
  "sp_get_cond splen buf p usedLen =
     do {
       c \<leftarrow> rd8 buf p;
       if c = 0 then Some False
       else
         do {
           len \<leftarrow> rd32 buf (p + 16);
           Some (len > 0 \<and> len < splen \<and> usedLen < splen)
         }
     }"

function sp_get_loop ::
  "int \<Rightarrow> bytes \<Rightarrow> bytes \<Rightarrow> bytes \<Rightarrow> int \<Rightarrow> int \<Rightarrow> int \<Rightarrow> (int \<times> bytes) option" where
  "sp_get_loop splen buf tokenId tokBuf bufLen p usedLen =
     (case sp_get_cond splen buf p usedLen of
        None \<Rightarrow> None
      | Some False \<Rightarrow> Some (-1, tokBuf)
      | Some True \<Rightarrow>
          (case rd32 buf (p + 16) of
             None \<Rightarrow> None
           | Some len \<Rightarrow>
               (case strncmp_eq TOKEN_NAME_LEN (drop (nat p) buf) tokenId of
                  None \<Rightarrow> None
                | Some True \<Rightarrow>
                    if len > bufLen then Some (-1, tokBuf)
                    else
                      do {
                        src \<leftarrow> mem_read (p + sizeof_SP_TOKEN) len buf;
                        tokBuf \<leftarrow> mem_write 0 src tokBuf;
                        Some (len, tokBuf)
                      }
                | Some False \<Rightarrow>
                    if 0 < align4 len then
                      sp_get_loop splen buf tokenId tokBuf bufLen
                        (p + sizeof_SP_TOKEN + align4 len) (usedLen + align4 len)
                    else None)))"
  by pat_completeness auto
termination
  by (relation "measure (\<lambda>(splen, buf, t, tb, bl, p, used). nat (splen - used))")
    (auto simp: sp_get_cond_def split: if_splits option.splits bind_splits)

declare sp_get_loop.simps [simp del]

text \<open>The body of \<open>kerSysScratchPadGet\<close> on the buffer of shared blocks, section at \<open>base\<close>.\<close>

definition sp_get_buf ::
  "int \<Rightarrow> int \<Rightarrow> bytes \<Rightarrow> bytes \<Rightarrow> bytes \<Rightarrow> int \<Rightarrow> (int \<times> bytes) option" where
  "sp_get_buf splen base buf tokenId tokBuf bufLen =
     do {
       magic \<leftarrow> sp_magic buf base;
       if \<not> magic then Some (-1, tokBuf)
       else sp_get_loop splen buf tokenId tokBuf bufLen (base + sizeof_SP_HEADER) sizeof_SP_HEADER
     }"

definition kerSysScratchPadGet ::
  "flash_addr_info \<Rightarrow> (int \<Rightarrow> bool) \<Rightarrow> 'd flash_device_info option \<Rightarrow> bytes \<Rightarrow> bytes \<Rightarrow> int \<Rightarrow> 'd \<Rightarrow>
   (int \<times> bytes \<times> 'd) option" where
  "kerSysScratchPadGet fi km g tokenId tokBuf bufLen d =
     (let splen = flash_scratch_pad_length fi in
      if splen = 0 then Some (-1, tokBuf, d)
      else if u32 bufLen \<ge> u32 (splen - sizeof_SP_HEADER - sizeof_SP_TOKEN) then Some (-1, tokBuf, d)
      else
        do {
          (pShareBuf, d) \<leftarrow> getSharedBlks km g (flash_scratch_pad_start_blk fi)
            (flash_scratch_pad_start_blk fi + flash_scratch_pad_number_blk fi) d;
          case pShareBuf of
            None \<Rightarrow> Some (-1, tokBuf, d)
          | Some buf \<Rightarrow>
              do {
                (sts, tokBuf) \<leftarrow>
                  sp_get_buf splen (s32 (flash_scratch_pad_blk_offset fi)) buf tokenId tokBuf bufLen;
                Some (sts, tokBuf, d)
              }
        })"

subsection \<open>Storing a token\<close>

definition sp_header :: bytes where
  "sp_header = MAGIC_NUMBER @ be32 SP_VERSION @ replicate 20 0"

definition sp_token :: "bytes \<Rightarrow> int \<Rightarrow> bytes" where
  "sp_token tokenId bufLen = strncpy0 15 tokenId @ [0] @ be32 (word_of_int bufLen)"

definition sp_set_cond :: "int \<Rightarrow> bytes \<Rightarrow> int \<Rightarrow> int \<Rightarrow> bool option" where
  "sp_set_cond splen buf p usedLen =
     do {
       c \<leftarrow> rd8 buf p;
       if \<not> (0x41 \<le> c \<and> c \<le> 0x7A) then Some False
       else
         do {
           n \<leftarrow> strlen_at buf p;
           if \<not> n < int TOKEN_NAME_LEN then Some False
           else
             do {
               len \<leftarrow> rd32 buf (p + 16);
               Some (len > 0 \<and> len < splen \<and> usedLen < splen)
             }
         }
     }"

text \<open>The used length: \<open>curPtr\<close> is \<open>usedLen\<close> bytes after \<open>pBuf\<close> throughout.\<close>

function sp_used_loop :: "int \<Rightarrow> int \<Rightarrow> bytes \<Rightarrow> int \<Rightarrow> int option" where
  "sp_used_loop splen base buf usedLen =
     (case rd32 buf (base + usedLen + 16) of
        None \<Rightarrow> None
      | Some len \<Rightarrow>
          (case sp_set_cond splen buf (base + usedLen) usedLen of
             None \<Rightarrow> None
           | Some False \<Rightarrow> Some usedLen
           | Some True \<Rightarrow>
               if 0 < align4 len then sp_used_loop splen base buf (usedLen + sizeof_SP_TOKEN + align4 len)
               else None))"
  by pat_completeness auto
termination
  by (relation "measure (\<lambda>(splen, base, buf, used). nat (splen - used))")
    (auto simp: sp_set_cond_def split: if_splits option.splits bind_splits)

declare sp_used_loop.simps [simp del]

text \<open>The search for the token to replace: its position and its stored length.\<close>

function sp_find_loop :: "int \<Rightarrow> bytes \<Rightarrow> bytes \<Rightarrow> int \<Rightarrow> int \<Rightarrow> (int \<times> int) option option" where
  "sp_find_loop base buf tokenId usedLen curLen =
     (if curLen < usedLen then
        (case rd32 buf (base + curLen + 16) of
           None \<Rightarrow> None
         | Some len \<Rightarrow>
             (case strncmp_eq TOKEN_NAME_LEN (drop (nat (base + curLen)) buf) tokenId of
                None \<Rightarrow> None
              | Some True \<Rightarrow> Some (Some (curLen, len))
              | Some False \<Rightarrow>
                  if 0 < align4 len then
                    sp_find_loop base buf tokenId usedLen (curLen + sizeof_SP_TOKEN + align4 len)
                  else None))
      else Some None)"
  by pat_completeness auto
termination
  by (relation "measure (\<lambda>(base, buf, t, used, cur). nat (used - cur))") auto

declare sp_find_loop.simps [simp del]

text \<open>
  Removing the token at \<open>curLen\<close>: the tokens after it move down and the rest of the section
  is cleared.  Source and target of this copy may overlap.  The code calls \<open>memcpy\<close>, which promises
  nothing then; the definition has what a copy that keeps the source's bytes gives, i.e. it holds for a
  \<open>memcpy\<close> that copies upwards, or for \<open>memmove\<close>.
\<close>

definition sp_remove :: "int \<Rightarrow> int \<Rightarrow> bytes \<Rightarrow> int \<Rightarrow> int \<Rightarrow> int \<Rightarrow> (int \<times> bytes) option" where
  "sp_remove splen base buf usedLen curLen len =
     do {
       let nextLen = curLen + sizeof_SP_TOKEN + align4 len;
       let copyLen = usedLen - nextLen;
       src \<leftarrow> mem_read (base + nextLen) copyLen buf;
       buf \<leftarrow> mem_write (base + curLen) src buf;
       c_assert (curLen + copyLen \<le> splen);
       buf \<leftarrow> mem_write (base + curLen + copyLen) (replicate (nat (splen - (curLen + copyLen))) 0) buf;
       Some (usedLen - (sizeof_SP_TOKEN + align4 len), buf)
     }"

definition sp_append :: "int \<Rightarrow> bytes \<Rightarrow> int \<Rightarrow> bytes \<Rightarrow> bytes option \<Rightarrow> int \<Rightarrow> bytes option" where
  "sp_append base buf usedLen tokenId tokBuf bufLen =
     do {
       buf \<leftarrow>
         (case tokBuf of
            None \<Rightarrow> Some buf
          | Some t \<Rightarrow>
              do {
                buf \<leftarrow> mem_write (base + usedLen) (sp_token tokenId bufLen) buf;
                src \<leftarrow> mem_read 0 bufLen t;
                mem_write (base + usedLen + sizeof_SP_TOKEN) src buf
              });
       mem_write base sp_header buf
     }"

text \<open>
  The body of \<open>kerSysScratchPadSet\<close> on the buffer: \<open>Some None\<close> is the return
  for lack of space, \<open>Some (Some buf)\<close> the buffer to write back.
\<close>

definition sp_set_buf ::
  "int \<Rightarrow> int \<Rightarrow> bytes \<Rightarrow> bytes \<Rightarrow> bytes option \<Rightarrow> int \<Rightarrow> bytes option option" where
  "sp_set_buf splen base buf tokenId tokBuf bufLen =
     do {
       magic \<leftarrow> sp_magic buf base;
       if \<not> magic then
         do {
           buf \<leftarrow> mem_write base sp_header buf;
           buf \<leftarrow> mem_write (base + sizeof_SP_HEADER) (sp_token tokenId bufLen) buf;
           buf \<leftarrow>
             (case tokBuf of
                None \<Rightarrow> Some buf
              | Some t \<Rightarrow>
                  do {
                    src \<leftarrow> mem_read 0 bufLen t;
                    mem_write (base + sizeof_SP_HEADER + sizeof_SP_TOKEN) src buf
                  });
           Some (Some buf)
         }
       else
         do {
           usedLen \<leftarrow> sp_used_loop splen base buf sizeof_SP_HEADER;
           if u32 (usedLen + bufLen + sizeof_SP_TOKEN) > u32 splen then Some None
           else
             do {
               found \<leftarrow> sp_find_loop base buf tokenId usedLen sizeof_SP_HEADER;
               case found of
                 None \<Rightarrow> map_option Some (sp_append base buf usedLen tokenId tokBuf bufLen)
               | Some (curLen, len) \<Rightarrow>
                   (case tokBuf of
                      Some t \<Rightarrow>
                        if len = bufLen then
                          do {
                            src \<leftarrow> mem_read 0 bufLen t;
                            map_option Some (mem_write (base + curLen + sizeof_SP_TOKEN) src buf)
                          }
                        else
                          do {
                            (usedLen, buf) \<leftarrow> sp_remove splen base buf usedLen curLen len;
                            map_option Some (sp_append base buf usedLen tokenId tokBuf bufLen)
                          }
                    | None \<Rightarrow>
                        do {
                          (usedLen, buf) \<leftarrow> sp_remove splen base buf usedLen curLen len;
                          map_option Some (sp_append base buf usedLen tokenId tokBuf bufLen)
                        })
             }
         }
     }"

definition kerSysScratchPadSet ::
  "flash_addr_info \<Rightarrow> (int \<Rightarrow> bool) \<Rightarrow> 'd flash_device_info option \<Rightarrow> bytes \<Rightarrow> bytes option \<Rightarrow> int \<Rightarrow> 'd \<Rightarrow>
   (int \<times> 'd) option" where
  "kerSysScratchPadSet fi km g tokenId tokBuf bufLen d =
     (let splen = flash_scratch_pad_length fi;
          start = flash_scratch_pad_start_blk fi; num = flash_scratch_pad_number_blk fi in
      if splen = 0 then Some (-1, d)
      else if u32 bufLen \<ge> u32 (splen - sizeof_SP_HEADER - sizeof_SP_TOKEN) then Some (-1, d)
      else
        do {
          (pShareBuf, d) \<leftarrow> getSharedBlks km g start (start + num) d;
          case pShareBuf of
            None \<Rightarrow> Some (-1, d)
          | Some buf \<Rightarrow>
              do {
                new \<leftarrow> sp_set_buf splen (s32 (flash_scratch_pad_blk_offset fi)) buf tokenId tokBuf bufLen;
                case new of
                  None \<Rightarrow> Some (-1, d)
                | Some buf \<Rightarrow> setSharedBlks g start (num + start) buf d
              }
        })"

definition kerSysScratchPadClearAll ::
  "flash_addr_info \<Rightarrow> (int \<Rightarrow> bool) \<Rightarrow> 'd flash_device_info option \<Rightarrow> 'd \<Rightarrow> (int \<times> 'd) option" where
  "kerSysScratchPadClearAll fi km g d =
     (let start = flash_scratch_pad_start_blk fi; num = flash_scratch_pad_number_blk fi in
      if flash_scratch_pad_length fi = 0 then Some (-1, d)
      else
        do {
          (pShareBuf, d) \<leftarrow> getSharedBlks km g start (start + num) d;
          case pShareBuf of
            None \<Rightarrow> Some (-1, d)
          | Some buf \<Rightarrow>
              do {
                usedBlkSize \<leftarrow> blks_size g start (start + num) 0 d;
                buf \<leftarrow> mem_write 0 (replicate (nat usedBlkSize) 0) buf;
                setSharedBlks g start (num + start) buf d
              }
        })"

end
