(* ===== verification/Scratch_Pad_Map.thy ===== *)
theory Scratch_Pad_Map
  imports Scratch_Pad
begin

text \<open>
  The scratch pad as a finite map from token names to data.  \<open>sp_section\<close> relates the bytes of the
  section to a list of tokens; under it a lookup is a lookup in the map, and storing, replacing
  and deleting a token are updates of the map that keep the representation and every byte
  outside of the section.
\<close>

section \<open>Definitions\<close>

text \<open>A token: its name, its data, and the bytes that fill the data up to a multiple of four.\<close>

type_synonym token = "bytes \<times> bytes \<times> bytes"

definition up4 :: "nat \<Rightarrow> nat" where
  "up4 n = (n + 3) div 4 * 4"

definition name_ok :: "bytes \<Rightarrow> bool" where
  "name_ok nm \<longleftrightarrow> nm \<noteq> [] \<and> length nm \<le> 15 \<and> 0 \<notin> set nm \<and> 0x41 \<le> hd nm \<and> hd nm \<le> 0x7A"

fun tok_ok :: "nat \<Rightarrow> token \<Rightarrow> bool" where
  "tok_ok splen (nm, dt, fill) \<longleftrightarrow>
     name_ok nm \<and> 0 < length dt \<and> length dt < splen \<and> length dt + length fill = up4 (length dt)"

fun tok_bytes :: "token \<Rightarrow> bytes" where
  "tok_bytes (nm, dt, fill) =
     nm @ replicate (16 - length nm) 0 @ be32 (of_nat (length dt)) @ dt @ fill"

definition toks_bytes :: "token list \<Rightarrow> bytes" where
  "toks_bytes toks = concat (map tok_bytes toks)"

definition sp_map :: "token list \<Rightarrow> bytes \<rightharpoonup> bytes" where
  "sp_map toks = map_of (map (\<lambda>(nm, dt, fill). (nm, dt)) toks)"

text \<open>
  The section of \<open>splen\<close> bytes: a header with the magic number, the tokens, and a tail of
  bytes all 0 or all \<open>0xff\<close> that has room for a token header.
\<close>

definition sp_section :: "nat \<Rightarrow> bytes \<Rightarrow> token list \<Rightarrow> bool" where
  "sp_section splen sec toks \<longleftrightarrow>
     (\<exists>hdr z k. sec = hdr @ toks_bytes toks @ replicate k z \<and> length hdr = 32 \<and> take 8 hdr = MAGIC_NUMBER \<and>
        (z = 0 \<or> z = 0xff) \<and> 20 \<le> k \<and> length sec = splen) \<and>
     (\<forall>t\<in>set toks. tok_ok splen t) \<and> distinct (map fst toks) \<and> splen \<le> 0x40000000"

section \<open>Reading parts of a buffer\<close>

lemma mem_read_app: "mem_read (int (length a)) (int (length x)) (a @ x @ b) = Some x"
  by (simp add: mem_read_int)

lemma rd8_app: "x \<noteq> [] \<Longrightarrow> rd8 (a @ x @ b) (int (length a)) = Some (hd x)"
  using mem_read_int [of "length a" 1 "a @ x @ b"] by (cases x) (simp_all add: rd8_def)

lemma rd32_app: "length x = 4 \<Longrightarrow> rd32 (a @ x @ b) (int (length a)) = Some (sint (of_be32 x))"
  using mem_read_app [of a x b] by (simp add: rd32_def)

lemma up4_bounds: "n \<le> up4 n" "up4 n < n + 4"
  unfolding up4_def by linarith+

lemma up4_pos: "0 < n \<Longrightarrow> 4 \<le> up4 n"
  by (cases n) (simp_all add: up4_def)

lemma cstring_terminated: "0 \<notin> set nm \<Longrightarrow> cstring (nm @ 0 # r) = nm"
  by (induction nm) (auto simp: cstring_def)

lemma align4_up4: "n < 0x40000000 \<Longrightarrow> align4 (int n) = int (up4 n)"
  by (simp add: align4_def up4_def s32_id zdiv_int)

lemma sint_length: "n < 0x40000000 \<Longrightarrow> sint (word_of_nat n :: 32 word) = int n"
  by (simp add: signed_of_nat signed_take_bit_int_eq_self)

lemma length_tok_bytes: "tok_ok splen (nm, dt, fill) \<Longrightarrow> length (tok_bytes (nm, dt, fill)) = 20 + up4 (length dt)"
  by (simp add: name_ok_def)

lemma strncmp_names:
  "length a < n \<Longrightarrow> 0 \<notin> set a \<Longrightarrow> 0 \<notin> set b \<Longrightarrow>
   strncmp_eq n (a @ replicate (n - length a) 0 @ r) (b @ 0 # s) = Some (a = b)"
proof (induction n arbitrary: a b)
  case (Suc n)
  show ?case
  proof (cases a)
    case Nil
    then show ?thesis using Suc.prems by (cases b) auto
  next
    case (Cons x a')
    then show ?thesis using Suc by (cases b) auto
  qed
qed simp

text \<open>What the two loops see at the start of a token, and at the tail.\<close>

lemma token_header:
  assumes "tok_ok splen (nm, dt, fill)" "splen \<le> 0x40000000"
  shows "rd8 (pre @ tok_bytes (nm, dt, fill) @ post) (int (length pre)) = Some (hd nm)"
    and "rd32 (pre @ tok_bytes (nm, dt, fill) @ post) (int (length pre) + 16) = Some (int (length dt))"
    and "mem_read (int (length pre) + 20) (int (length dt)) (pre @ tok_bytes (nm, dt, fill) @ post) = Some dt"
    and "name_ok key \<Longrightarrow> strncmp_eq 16 (tok_bytes (nm, dt, fill) @ post) (key @ 0 # s) = Some (nm = key)"
    and "strlen_at (pre @ tok_bytes (nm, dt, fill) @ post) (int (length pre)) = Some (int (length nm))"
proof -
  have nm: "nm \<noteq> []" "length nm \<le> 15" "0 \<notin> set nm" using assms(1) by (simp_all add: name_ok_def)
  show "rd8 (pre @ tok_bytes (nm, dt, fill) @ post) (int (length pre)) = Some (hd nm)"
    using rd8_app [of "tok_bytes (nm, dt, fill)" pre post] nm by simp
  show "rd32 (pre @ tok_bytes (nm, dt, fill) @ post) (int (length pre) + 16) = Some (int (length dt))"
    using rd32_app [of "be32 (of_nat (length dt))" "pre @ nm @ replicate (16 - length nm) 0" "dt @ fill @ post"]
      nm assms sint_length [of "length dt"] by simp
  show "mem_read (int (length pre) + 20) (int (length dt)) (pre @ tok_bytes (nm, dt, fill) @ post) = Some dt"
    using mem_read_app [of "pre @ nm @ replicate (16 - length nm) 0 @ be32 (of_nat (length dt))" dt "fill @ post"] nm
    by simp
  show "strncmp_eq 16 (tok_bytes (nm, dt, fill) @ post) (key @ 0 # s) = Some (nm = key)" if "name_ok key"
    using strncmp_names [of nm 16 key] nm that by (simp add: name_ok_def)
  show "strlen_at (pre @ tok_bytes (nm, dt, fill) @ post) (int (length pre)) = Some (int (length nm))"
  proof -
    have "16 - length nm = Suc (15 - length nm)" using nm(2) by simp
    then show ?thesis using cstring_terminated [OF nm(3)] by (simp add: strlen_at_def)
  qed
qed

declare tok_bytes.simps [simp del]

lemma tail_rd:
  assumes "z = 0 \<or> z = 0xff" "20 \<le> k"
  shows "rd8 (pre @ replicate k z @ post) (int (length pre)) = Some z"
    and "rd32 (pre @ replicate k z @ post) (int (length pre) + 16) = Some (if z = 0 then 0 else -1)"
proof -
  obtain j where k: "k = 20 + j" using assms(2) le_Suc_ex by blast
  have "replicate k z = replicate 16 z @ replicate 4 z @ replicate j z"
    unfolding k by (simp add: replicate_add [symmetric])
  then have r: "pre @ replicate k z @ post = (pre @ replicate 16 z) @ replicate 4 z @ (replicate j z @ post)"
    by simp
  have "replicate 4 z = [z, z, z, z]" by (simp add: numeral_eq_Suc)
  then have "of_be32 (replicate 4 z) = (if z = 0 then 0 else -1)" using assms(1) by auto
  then show "rd32 (pre @ replicate k z @ post) (int (length pre) + 16) = Some (if z = 0 then 0 else -1)"
    unfolding r using rd32_app [of "replicate 4 z" "pre @ replicate 16 z" "replicate j z @ post"] by auto
  show "rd8 (pre @ replicate k z @ post) (int (length pre)) = Some z"
    using rd8_app [of "replicate k z" pre post] assms(2) by (cases k) auto
qed

section \<open>Looking up\<close>

lemma sp_map_Cons: "sp_map ((nm, dt, fill) # toks) = (sp_map toks)(nm \<mapsto> dt)"
  by (simp add: sp_map_def)

lemma toks_bytes_Cons [simp]: "toks_bytes (t # toks) = tok_bytes t @ toks_bytes toks"
  by (simp add: toks_bytes_def)

lemma toks_bytes_Nil [simp]: "toks_bytes [] = []"
  by (simp add: toks_bytes_def)

lemma sp_get_loop_tokens:
  assumes key: "name_ok key" and tail: "z = 0 \<or> z = 0xff" "20 \<le> k"
    and len: "splen \<le> 0x40000000" "used + length (toks_bytes toks) < splen" "n \<le> length tokBuf"
    and toks: "\<forall>t\<in>set toks. tok_ok splen t"
  shows "sp_get_loop (int splen) (pre @ toks_bytes toks @ replicate k z @ post) (key @ 0 # s) tokBuf (int n)
      (int (length pre)) (int used) =
    Some (case sp_map toks key of
        None \<Rightarrow> (-1, tokBuf)
      | Some dt \<Rightarrow> if n < length dt then (-1, tokBuf) else (int (length dt), dt @ drop (length dt) tokBuf))"
  using len(2) toks
proof (induction toks arbitrary: pre used)
  case Nil
  then show ?case
    using tail_rd [OF tail, of pre post] tail(1)
    by (subst sp_get_loop.simps) (auto simp: sp_get_cond_def sp_map_def)
next
  case (Cons t toks)
  obtain nm dt fill where t: "t = (nm, dt, fill)" by (cases t) auto
  let ?rest = "toks_bytes toks @ replicate k z @ post"
  let ?buf = "pre @ tok_bytes (nm, dt, fill) @ ?rest"
  have ok: "tok_ok splen (nm, dt, fill)" using Cons.prems(2) t by simp
  note h = token_header(1-3) [OF ok len(1), where pre = pre and post = ?rest]
  have dt: "0 < length dt" "length dt < splen" "hd nm \<noteq> 0" using ok by (auto simp: name_ok_def)
  have lt: "length (tok_bytes (nm, dt, fill)) = 20 + up4 (length dt)" by (rule length_tok_bytes [OF ok])
  have al: "align4 (int (length dt)) = int (up4 (length dt))" "0 < up4 (length dt)"
    using align4_up4 [of "length dt"] up4_pos [of "length dt"] dt len(1) by simp_all
  have cond: "sp_get_cond (int splen) ?buf (int (length pre)) (int used) = Some True"
    using h(1,2) dt Cons.prems(1) by (simp add: sp_get_cond_def)
  have cmp: "strncmp_eq 16 (drop (nat (int (length pre))) ?buf) (key @ 0 # s) = Some (nm = key)"
    using token_header(4) [OF ok len(1) key, where post = ?rest and s = s] by simp
  show ?case
  proof (cases "nm = key")
    case True
    then show ?thesis
      using cond h(2,3) cmp len(3) t mem_write_int [of 0 dt tokBuf]
      by (subst sp_get_loop.simps) (auto simp: sp_map_Cons)
  next
    case False
    have "sp_get_loop (int splen) ((pre @ tok_bytes (nm, dt, fill)) @ ?rest) (key @ 0 # s) tokBuf (int n)
        (int (length (pre @ tok_bytes (nm, dt, fill)))) (int (used + up4 (length dt))) =
      Some (case sp_map toks key of
          None \<Rightarrow> (-1, tokBuf)
        | Some dt \<Rightarrow> if n < length dt then (-1, tokBuf) else (int (length dt), dt @ drop (length dt) tokBuf))"
      using Cons.prems t lt by (intro Cons.IH) simp_all
    then show ?thesis
      using cond h(2) cmp False t al lt
      by (subst sp_get_loop.simps) (simp add: sp_map_Cons algebra_simps)
  qed
qed

section \<open>Walking the tokens to store one\<close>

lemma sp_used_loop_tokens:
  assumes tail: "z = 0 \<or> z = 0xff" "20 \<le> k"
    and len: "splen \<le> 0x40000000" "used + length (toks_bytes toks) < splen" "length pre = base + used"
    and toks: "\<forall>t\<in>set toks. tok_ok splen t"
  shows "sp_used_loop (int splen) (int base) (pre @ toks_bytes toks @ replicate k z @ post) (int used) =
    Some (int (used + length (toks_bytes toks)))"
  using len(2,3) toks
proof (induction toks arbitrary: pre used)
  case Nil
  have "int base + int used = int (length pre)" using Nil.prems(2) by simp
  then show ?case
    using tail_rd [OF tail, of pre post] tail(1) by (subst sp_used_loop.simps) (auto simp: sp_set_cond_def)
next
  case (Cons t toks)
  obtain nm dt fill where t: "t = (nm, dt, fill)" by (cases t) auto
  let ?rest = "toks_bytes toks @ replicate k z @ post"
  let ?buf = "pre @ tok_bytes (nm, dt, fill) @ ?rest"
  have ok: "tok_ok splen (nm, dt, fill)" using Cons.prems(3) t by simp
  note h = token_header(1,2,5) [OF ok len(1), where pre = pre and post = ?rest]
  have dt: "0 < length dt" "length dt < splen" "0x41 \<le> hd nm" "hd nm \<le> 0x7A" "length nm \<le> 15"
    using ok by (auto simp: name_ok_def)
  have lt: "length (tok_bytes (nm, dt, fill)) = 20 + up4 (length dt)" by (rule length_tok_bytes [OF ok])
  have al: "align4 (int (length dt)) = int (up4 (length dt))" "0 < up4 (length dt)"
    using align4_up4 [of "length dt"] up4_pos [of "length dt"] dt len(1) by simp_all
  have p: "int base + int used = int (length pre)" using Cons.prems(2) by simp
  have cond: "sp_set_cond (int splen) ?buf (int (length pre)) (int used) = Some True"
    using h dt Cons.prems(1) by (simp add: sp_set_cond_def)
  have "sp_used_loop (int splen) (int base) ((pre @ tok_bytes (nm, dt, fill)) @ ?rest) (int (used + 20 + up4 (length dt))) =
      Some (int (used + 20 + up4 (length dt) + length (toks_bytes toks)))"
    using Cons.prems t lt by (intro Cons.IH) simp_all
  then show ?case
    using cond h(2) p t al lt by (subst sp_used_loop.simps) (simp add: algebra_simps)
qed

lemma sp_find_loop_absent:
  assumes key: "name_ok key" and len: "splen \<le> 0x40000000" "length pre = base + cur"
    and toks: "\<forall>t\<in>set toks. tok_ok splen t" "key \<notin> fst ` set toks"
  shows "sp_find_loop (int base) (pre @ toks_bytes toks @ post) (key @ 0 # s)
      (int (cur + length (toks_bytes toks) + extra)) (int cur) =
    sp_find_loop (int base) (pre @ toks_bytes toks @ post) (key @ 0 # s)
      (int (cur + length (toks_bytes toks) + extra)) (int (cur + length (toks_bytes toks)))"
  using len(2) toks
proof (induction toks arbitrary: pre cur)
  case (Cons t toks)
  obtain nm dt fill where t: "t = (nm, dt, fill)" by (cases t) auto
  let ?rest = "toks_bytes toks @ post"
  have ok: "tok_ok splen (nm, dt, fill)" and ne: "nm \<noteq> key" using Cons.prems(2,3) t by auto
  have lt: "length (tok_bytes (nm, dt, fill)) = 20 + up4 (length dt)" by (rule length_tok_bytes [OF ok])
  have al: "align4 (int (length dt)) = int (up4 (length dt))" "0 < up4 (length dt)"
    using align4_up4 [of "length dt"] up4_pos [of "length dt"] ok len(1) by simp_all
  have p: "int base + int cur = int (length pre)" using Cons.prems(1) by simp
  have one: "sp_find_loop (int base) (pre @ tok_bytes (nm, dt, fill) @ ?rest) (key @ 0 # s) (int u) (int cur) =
      sp_find_loop (int base) (pre @ tok_bytes (nm, dt, fill) @ ?rest) (key @ 0 # s) (int u)
        (int (cur + 20 + up4 (length dt)))" if "cur < u" for u
    using that token_header(2) [OF ok len(1), where pre = pre and post = ?rest] p al ne
      token_header(4) [OF ok len(1) key, where post = ?rest and s = s]
    by (subst sp_find_loop.simps) (simp add: algebra_simps)
  have "sp_find_loop (int base) ((pre @ tok_bytes (nm, dt, fill)) @ ?rest) (key @ 0 # s)
      (int (cur + 20 + up4 (length dt) + length (toks_bytes toks) + extra)) (int (cur + 20 + up4 (length dt))) =
    sp_find_loop (int base) ((pre @ tok_bytes (nm, dt, fill)) @ ?rest) (key @ 0 # s)
      (int (cur + 20 + up4 (length dt) + length (toks_bytes toks) + extra))
      (int (cur + 20 + up4 (length dt) + length (toks_bytes toks)))"
    using Cons.prems t lt by (intro Cons.IH) auto
  then show ?case using one [of "cur + length (toks_bytes (t # toks)) + extra"] t lt by (simp add: algebra_simps)
qed simp

lemma sp_find_absent:
  assumes "name_ok key" "splen \<le> 0x40000000" "length pre = base + cur"
    and "\<forall>t\<in>set toks. tok_ok splen t" "key \<notin> fst ` set toks"
  shows "sp_find_loop (int base) (pre @ toks_bytes toks @ post) (key @ 0 # s)
      (int (cur + length (toks_bytes toks))) (int cur) = Some None"
  using sp_find_loop_absent [OF assms, of post s 0] by (simp add: sp_find_loop.simps)

lemma sp_find_present:
  assumes key: "name_ok key" "splen \<le> 0x40000000" "length pre = base + cur"
    and toks: "\<forall>t\<in>set (ts1 @ (key, dt, fill) # ts2). tok_ok splen t" "key \<notin> fst ` set ts1"
  shows "sp_find_loop (int base) (pre @ toks_bytes (ts1 @ (key, dt, fill) # ts2) @ post) (key @ 0 # s)
      (int (cur + length (toks_bytes (ts1 @ (key, dt, fill) # ts2)))) (int cur) =
    Some (Some (int (cur + length (toks_bytes ts1)), int (length dt)))"
proof -
  have ok: "tok_ok splen (key, dt, fill)" "\<forall>t\<in>set ts1. tok_ok splen t" using toks(1) by auto
  have app: "toks_bytes (ts1 @ (key, dt, fill) # ts2) = toks_bytes ts1 @ tok_bytes (key, dt, fill) @ toks_bytes ts2"
    by (simp add: toks_bytes_def)
  let ?pre = "pre @ toks_bytes ts1" and ?rest = "toks_bytes ts2 @ post"
  have p: "int base + int (cur + length (toks_bytes ts1)) = int (length ?pre)" using key(3) by simp
  have "sp_find_loop (int base) (?pre @ tok_bytes (key, dt, fill) @ ?rest) (key @ 0 # s)
      (int (cur + length (toks_bytes ts1) + length (tok_bytes (key, dt, fill)) + length (toks_bytes ts2)))
      (int (cur + length (toks_bytes ts1))) =
    Some (Some (int (cur + length (toks_bytes ts1)), int (length dt)))"
    using token_header(2) [OF ok(1) key(2), where pre = ?pre and post = ?rest] length_tok_bytes [OF ok(1)]
      token_header(4) [OF ok(1) key(2) key(1), where post = ?rest and s = s]
    by (subst sp_find_loop.simps, unfold p) simp
  then show ?thesis
    using sp_find_loop_absent [OF key ok(2) toks(2), of "tok_bytes (key, dt, fill) @ ?rest" s
        "length (tok_bytes (key, dt, fill)) + length (toks_bytes ts2)"]
    unfolding app by (simp add: algebra_simps)
qed

section \<open>Changing the section\<close>

lemma mem_write_app:
  "length x = length y \<Longrightarrow> mem_write (int (length a)) x (a @ y @ b) = Some (a @ x @ b)"
  using mem_write_int [of "length a" x "a @ y @ b"] by simp

lemma sp_token_bytes:
  assumes "name_ok nm"
  shows "sp_token (nm @ 0 # s) (int n) = nm @ replicate (16 - length nm) 0 @ be32 (of_nat n)"
proof -
  have nm: "length nm \<le> 15" "0 \<notin> set nm" using assms by (simp_all add: name_ok_def)
  have "16 - length nm = Suc (15 - length nm)" using nm(1) by simp
  then have "replicate (16 - length nm) 0 = replicate (15 - length nm) (0 :: 8 word) @ [0]"
    by (simp add: replicate_append_same)
  then show ?thesis
    using nm cstring_terminated [OF nm(2), of s]
    by (simp add: sp_token_def strncpy0_def)
qed

lemma length_sp_header [simp]: "length sp_header = 32"
  by (simp add: sp_header_def MAGIC_NUMBER_def ascii_def)

lemma take_sp_header [simp]: "take 8 sp_header = MAGIC_NUMBER"
  by (simp add: sp_header_def MAGIC_NUMBER_def ascii_def)

text \<open>A new token in front of the tail.\<close>

lemma sp_append_tokens:
  assumes nm: "name_ok nm" and n: "n \<le> length t" "20 + up4 n \<le> k"
    and len: "length pre = base" "length hdr = 32"
  shows "sp_append (int base) (pre @ hdr @ ts @ replicate k z @ post) (int (32 + length ts)) (nm @ 0 # s) (Some t) (int n) =
    Some (pre @ sp_header @ ts @ tok_bytes (nm, take n t, replicate (up4 n - n) z) @
      replicate (k - (20 + up4 n)) z @ post)"
proof -
  have k: "replicate k z = replicate 20 z @ replicate n z @ replicate (up4 n - n) z @ replicate (k - (20 + up4 n)) z"
    using n(2) up4_bounds(1) [of n] by (simp add: replicate_add [symmetric])
  let ?tok = "nm @ replicate (16 - length nm) 0 @ be32 (of_nat n)"
  let ?tail = "replicate (up4 n - n) z @ replicate (k - (20 + up4 n)) z @ post"
  have lt: "length ?tok = 20" using nm by (simp add: name_ok_def)
  have w1: "mem_write (int (length (pre @ hdr @ ts))) ?tok ((pre @ hdr @ ts) @ replicate 20 z @ replicate n z @ ?tail) =
      Some ((pre @ hdr @ ts) @ ?tok @ replicate n z @ ?tail)"
    using lt by (intro mem_write_app) simp
  have w2: "mem_write (int (length (pre @ hdr @ ts @ ?tok))) (take n t)
      ((pre @ hdr @ ts @ ?tok) @ replicate n z @ ?tail) =
      Some ((pre @ hdr @ ts @ ?tok) @ take n t @ ?tail)"
    using n(1) by (intro mem_write_app) simp
  have w3: "mem_write (int (length pre)) sp_header (pre @ hdr @ ts @ ?tok @ take n t @ ?tail) =
      Some (pre @ sp_header @ ts @ ?tok @ take n t @ ?tail)"
    using len(2) by (intro mem_write_app) simp
  have src: "mem_read 0 (int n) t = Some (take n t)" using mem_read_int [of 0 n t] n(1) by simp
  have tok: "tok_bytes (nm, take n t, replicate (up4 n - n) z) = ?tok @ take n t @ replicate (up4 n - n) z"
    using n(1) by (simp add: tok_bytes.simps)
  show ?thesis
    unfolding sp_append_def sp_token_bytes [OF nm] k tok
    using w1 w2 w3 src len lt by (simp add: algebra_simps)
qed

text \<open>Taking a token out, and overwriting its data in place.\<close>

lemma sp_remove_tokens:
  assumes ok: "tok_ok splen (nm, dt, fill)" "splen \<le> 0x40000000"
    and len: "length pre = base" "length hdr = 32"
      "32 + length ts1 + length (tok_bytes (nm, dt, fill)) + length ts2 + k = splen"
  shows "sp_remove (int splen) (int base) (pre @ hdr @ ts1 @ tok_bytes (nm, dt, fill) @ ts2 @ replicate k z @ post)
      (int (32 + length ts1 + length (tok_bytes (nm, dt, fill)) + length ts2)) (int (32 + length ts1)) (int (length dt)) =
    Some (int (32 + length ts1 + length ts2),
      pre @ hdr @ ts1 @ ts2 @ replicate (k + length (tok_bytes (nm, dt, fill))) 0 @ post)"
proof -
  define tok where "tok = tok_bytes (nm, dt, fill)"
  have lt: "length tok = 20 + up4 (length dt)" unfolding tok_def by (rule length_tok_bytes [OF ok(1)])
  have al: "align4 (int (length dt)) = int (up4 (length dt))"
    using align4_up4 [of "length dt"] ok by simp
  let ?A = "pre @ hdr @ ts1" and ?T = "replicate k z @ post"
  have r: "mem_read (int (length (?A @ tok))) (int (length ts2)) ((?A @ tok) @ ts2 @ ?T) = Some ts2"
    by (rule mem_read_app)
  obtain u v where uv: "tok @ ts2 = u @ v" "length u = length ts2"
    using that [of "take (length ts2) (tok @ ts2)" "drop (length ts2) (tok @ ts2)"]
    by (simp del: take_append drop_append)
  then have lv: "length v = length tok" by (metis add_diff_cancel_left' add.commute length_append)
  have eq: "tok @ ts2 @ ?T = u @ v @ ?T" using uv(1) by (metis append.assoc)
  have w1: "mem_write (int (length ?A)) ts2 (?A @ tok @ ts2 @ ?T) = Some (?A @ ts2 @ v @ ?T)"
    unfolding eq using uv(2) by (intro mem_write_app) simp
  have w2: "mem_write (int (length (?A @ ts2))) (replicate (k + length tok) 0)
      ((?A @ ts2) @ (v @ replicate k z) @ post) = Some ((?A @ ts2) @ replicate (k + length tok) 0 @ post)"
    using lv by (intro mem_write_app) simp
  have left: "nat (int splen - (int (32 + length ts1) + int (length ts2))) = k + length tok"
    using len(3) by (simp add: tok_def)
  show ?thesis
    unfolding sp_remove_def tok_def [symmetric]
    using r w1 w2 left al lt len by (simp add: algebra_simps tok_def [symmetric])
qed

lemma sp_overwrite_tokens:
  assumes "length pre = base" "length hdr = 32" "name_ok nm" "length dt' = length dt"
  shows "mem_write (int base + int (32 + length ts1) + 20) dt' (pre @ hdr @ ts1 @ tok_bytes (nm, dt, fill) @ rest) =
    Some (pre @ hdr @ ts1 @ tok_bytes (nm, dt', fill) @ rest)"
proof -
  have "length nm + (16 - length nm) = 16" using assms(3) by (simp add: name_ok_def)
  then show ?thesis
    using mem_write_app [of dt' dt "pre @ hdr @ ts1 @ nm @ replicate (16 - length nm) 0 @ be32 (of_nat (length dt))"
        "fill @ rest"] assms
    by (simp add: tok_bytes.simps algebra_simps)
qed

section \<open>The section as a map\<close>

lemma sp_map_Nil [simp]: "sp_map [] = Map.empty"
  by (simp add: sp_map_def)

lemma sp_map_append: "sp_map (ts1 @ ts2) = sp_map ts2 ++ sp_map ts1"
  by (simp add: sp_map_def)

lemma sp_map_absent: "nm \<notin> fst ` set toks \<Longrightarrow> sp_map toks nm = None"
  by (force simp: sp_map_def map_of_eq_None_iff)

lemma sp_map_split:
  assumes "nm \<notin> fst ` set ts1" "nm \<notin> fst ` set ts2"
  shows "sp_map (ts1 @ (nm, dt', fill') # ts2) = (sp_map (ts1 @ (nm, dt, fill) # ts2))(nm \<mapsto> dt')"
    and "sp_map (ts1 @ ts2) = (sp_map (ts1 @ (nm, dt, fill) # ts2))(nm := None)"
    and "sp_map (ts1 @ ts2 @ [(nm, dt', fill')]) = (sp_map (ts1 @ (nm, dt, fill) # ts2))(nm \<mapsto> dt')"
  using sp_map_absent [OF assms(1)] sp_map_absent [OF assms(2)]
  by (auto simp: sp_map_append sp_map_Cons fun_eq_iff map_add_def split: option.splits)

lemma sp_section_split:
  assumes "sp_section splen sec toks"
  obtains hdr z k where "sec = hdr @ toks_bytes toks @ replicate k z" "length hdr = 32"
    "take 8 hdr = MAGIC_NUMBER" "z = 0 \<or> z = 0xff" "20 \<le> k" "32 + length (toks_bytes toks) + k = splen"
    "\<forall>t\<in>set toks. tok_ok splen t" "distinct (map fst toks)" "splen \<le> 0x40000000"
  using assms by (auto simp: sp_section_def)

lemma sp_magic_section:
  assumes "length hdr = 32" "take 8 hdr = MAGIC_NUMBER" "length pre = base"
  shows "sp_magic (pre @ hdr @ rest) (int base) = Some True"
  using mem_read_int [of "length pre" 8 "pre @ hdr @ rest"] assms by (simp add: sp_magic_def)

lemma sp_get_buf_map:
  assumes sec: "sp_section splen sec toks" and key: "name_ok nm" and n: "n \<le> length tokBuf"
  shows "sp_get_buf (int splen) (int (length pre)) (pre @ sec @ post) (nm @ 0 # s) tokBuf (int n) =
    Some (case sp_map toks nm of
        None \<Rightarrow> (-1, tokBuf)
      | Some dt \<Rightarrow> if n < length dt then (-1, tokBuf) else (int (length dt), dt @ drop (length dt) tokBuf))"
proof -
  obtain hdr z k where h: "sec = hdr @ toks_bytes toks @ replicate k z" "length hdr = 32"
    "take 8 hdr = MAGIC_NUMBER" "z = 0 \<or> z = 0xff" "20 \<le> k" "32 + length (toks_bytes toks) + k = splen"
    "\<forall>t\<in>set toks. tok_ok splen t" "distinct (map fst toks)" "splen \<le> 0x40000000"
    by (rule sp_section_split [OF sec])
  have "sp_get_loop (int splen) ((pre @ hdr) @ toks_bytes toks @ replicate k z @ post) (nm @ 0 # s) tokBuf (int n)
      (int (length (pre @ hdr))) (int 32) =
    Some (case sp_map toks nm of
        None \<Rightarrow> (-1, tokBuf)
      | Some dt \<Rightarrow> if n < length dt then (-1, tokBuf) else (int (length dt), dt @ drop (length dt) tokBuf))"
    using h key n by (intro sp_get_loop_tokens) auto
  then show ?thesis
    using sp_magic_section [OF h(2,3) refl, of pre "toks_bytes toks @ replicate k z @ post"] h(1,2)
    by (simp add: sp_get_buf_def)
qed

text \<open>Storing a token that fits: the section then holds the map with the token set.\<close>

definition sp_fits :: "nat \<Rightarrow> token list \<Rightarrow> nat \<Rightarrow> bool" where
  "sp_fits splen toks n \<longleftrightarrow> 32 + length (toks_bytes toks) + 20 + up4 n + 20 \<le> splen"

lemma sp_sectionI:
  assumes "length hdr = 32" "take 8 hdr = MAGIC_NUMBER" "z = 0 \<or> z = 0xff" "20 \<le> k"
    "32 + length (toks_bytes toks) + k = splen"
    "\<forall>t\<in>set toks. tok_ok splen t" "distinct (map fst toks)" "splen \<le> 0x40000000"
  shows "sp_section splen (hdr @ toks_bytes toks @ replicate k z) toks"
  unfolding sp_section_def using assms by auto

lemma new_token_ok:
  assumes "name_ok nm" "0 < n" "n \<le> length t" "n < splen"
  shows "tok_ok splen (nm, take n t, replicate (up4 n - n) z)"
    and "length (tok_bytes (nm, take n t, replicate (up4 n - n) z)) = 20 + up4 n"
proof -
  show ok: "tok_ok splen (nm, take n t, replicate (up4 n - n) z)" using assms up4_bounds(1) [of n] by simp
  then show "length (tok_bytes (nm, take n t, replicate (up4 n - n) z)) = 20 + up4 n"
    using length_tok_bytes [OF ok] assms(3) by simp
qed

lemma toks_bytes_append [simp]: "toks_bytes (ts1 @ ts2) = toks_bytes ts1 @ toks_bytes ts2"
  by (simp add: toks_bytes_def)

lemma sp_append_section:
  assumes nm: "name_ok nm" "nm \<notin> fst ` set toks" and n: "0 < n" "n \<le> length t"
    and h: "length hdr = 32" "z = 0 \<or> z = 0xff" "32 + length (toks_bytes toks) + k = splen"
      "40 + up4 n \<le> k" "\<forall>t\<in>set toks. tok_ok splen t" "distinct (map fst toks)" "splen \<le> 0x40000000"
  shows "\<exists>sec' fill. sp_append (int (length pre)) (pre @ hdr @ toks_bytes toks @ replicate k z @ post)
      (int (32 + length (toks_bytes toks))) (nm @ 0 # s) (Some t) (int n) = Some (pre @ sec' @ post) \<and>
    sp_section splen sec' (toks @ [(nm, take n t, fill)])"
proof -
  let ?new = "(nm, take n t, replicate (up4 n - n) z)"
  have ns: "n < splen" using h(3,4) up4_bounds(1) [of n] by simp
  note new = new_token_ok [OF nm(1) n ns, of z]
  have "sp_section splen (sp_header @ toks_bytes (toks @ [?new]) @ replicate (k - (20 + up4 n)) z) (toks @ [?new])"
    using h new nm(2) by (intro sp_sectionI) auto
  moreover have "20 + up4 n \<le> k" using h(4) by simp
  ultimately show ?thesis
    using sp_append_tokens [OF nm(1) n(2) _ refl h(1), of k pre "toks_bytes toks" z post s]
    by (intro exI [of _ "sp_header @ toks_bytes (toks @ [?new]) @ replicate (k - (20 + up4 n)) z"]
        exI [of _ "replicate (up4 n - n) z"]) simp
qed

lemma token_list_split:
  assumes "nm \<in> fst ` set toks" "distinct (map fst toks)"
  obtains ts1 dt fill ts2 where "toks = ts1 @ (nm, dt, fill) # ts2" "nm \<notin> fst ` set ts1" "nm \<notin> fst ` set ts2"
proof -
  obtain dt fill where "(nm, dt, fill) \<in> set toks" using assms(1) by auto
  then obtain ts1 ts2 where "toks = ts1 @ (nm, dt, fill) # ts2" by (meson split_list)
  then show ?thesis using that [of ts1 dt fill ts2] assms(2) by auto
qed

text \<open>Up to the search, whatever the search then finds.\<close>

lemma sp_set_buf_found:
  assumes h: "length hdr = 32" "take 8 hdr = MAGIC_NUMBER" "z = 0 \<or> z = 0xff" "32 + length (toks_bytes toks) + k = splen"
      "\<forall>t\<in>set toks. tok_ok splen t" "splen \<le> 0x40000000"
    and k: "40 + up4 n \<le> k"
    and found: "sp_find_loop (int (length pre)) (pre @ hdr @ toks_bytes toks @ replicate k z @ post) (nm @ 0 # s)
      (int (32 + length (toks_bytes toks))) 32 = Some found"
  shows "sp_set_buf (int splen) (int (length pre)) (pre @ hdr @ toks_bytes toks @ replicate k z @ post) (nm @ 0 # s) tb (int n) =
    (let buf = pre @ hdr @ toks_bytes toks @ replicate k z @ post; used = int (32 + length (toks_bytes toks)) in
     case found of
       None \<Rightarrow> map_option Some (sp_append (int (length pre)) buf used (nm @ 0 # s) tb (int n))
     | Some (curLen, len) \<Rightarrow>
         if tb \<noteq> None \<and> len = int n then
           do {
             src \<leftarrow> mem_read 0 (int n) (the tb);
             map_option Some (mem_write (int (length pre) + curLen + 20) src buf)
           }
         else
           do {
             (used, buf) \<leftarrow> sp_remove (int splen) (int (length pre)) buf used curLen len;
             map_option Some (sp_append (int (length pre)) buf used (nm @ 0 # s) tb (int n))
           })"
proof -
  let ?buf = "pre @ hdr @ toks_bytes toks @ replicate k z @ post"
  have magic: "sp_magic ?buf (int (length pre)) = Some True"
    by (rule sp_magic_section [OF h(1,2) refl])
  have "sp_used_loop (int splen) (int (length pre)) ((pre @ hdr) @ toks_bytes toks @ replicate k z @ post) (int 32) =
      Some (int (32 + length (toks_bytes toks)))"
    using h k by (intro sp_used_loop_tokens) auto
  then have used: "sp_used_loop (int splen) (int (length pre)) ?buf 32 = Some (int (32 + length (toks_bytes toks)))"
    by simp
  have "n \<le> up4 n" by (rule up4_bounds(1))
  then have room: "\<not> u32 (int (32 + length (toks_bytes toks)) + int n + 20) > u32 (int splen)"
    using k h(4,6) by (simp add: u32_id)
  show ?thesis
    unfolding sp_set_buf_def
    using magic used room found by (auto simp: Let_def split: option.splits)
qed

lemma sp_set_buf_absent:
  assumes h: "length hdr = 32" "take 8 hdr = MAGIC_NUMBER" "z = 0 \<or> z = 0xff" "32 + length (toks_bytes toks) + k = splen"
      "\<forall>t\<in>set toks. tok_ok splen t" "distinct (map fst toks)" "splen \<le> 0x40000000"
    and k: "40 + up4 n \<le> k" and nm: "name_ok nm" "nm \<notin> fst ` set toks" and n: "0 < n" "n \<le> length t"
  shows "\<exists>sec' toks'. sp_set_buf (int splen) (int (length pre)) (pre @ hdr @ toks_bytes toks @ replicate k z @ post)
      (nm @ 0 # s) (Some t) (int n) = Some (Some (pre @ sec' @ post)) \<and>
    sp_section splen sec' toks' \<and> sp_map toks' = (sp_map toks)(nm \<mapsto> take n t)"
proof -
  have "sp_find_loop (int (length pre)) ((pre @ hdr) @ toks_bytes toks @ replicate k z @ post) (nm @ 0 # s)
      (int (32 + length (toks_bytes toks))) (int 32) = Some None"
    using h nm by (intro sp_find_absent) auto
  moreover obtain sec' fill where "sp_append (int (length pre)) (pre @ hdr @ toks_bytes toks @ replicate k z @ post)
      (int (32 + length (toks_bytes toks))) (nm @ 0 # s) (Some t) (int n) = Some (pre @ sec' @ post)"
      "sp_section splen sec' (toks @ [(nm, take n t, fill)])"
    using sp_append_section [OF nm n h(1,3,4) k h(5-7), of pre post s] by blast
  ultimately show ?thesis
    using sp_set_buf_found [OF h(1-5,7) k, of pre post nm s None "Some t"] sp_map_absent [OF nm(2)]
    by (intro exI [of _ sec'] exI [of _ "toks @ [(nm, take n t, fill)]"])
      (auto simp: sp_map_append sp_map_Cons fun_eq_iff map_add_def split: option.splits)
qed

lemma sp_set_buf_present:
  assumes h: "length hdr = 32" "take 8 hdr = MAGIC_NUMBER" "z = 0 \<or> z = 0xff" "32 + length (toks_bytes toks) + k = splen"
      "\<forall>t\<in>set toks. tok_ok splen t" "distinct (map fst toks)" "splen \<le> 0x40000000"
    and k: "40 + up4 n \<le> k" and nm: "name_ok nm" and n: "0 < n" "n \<le> length t"
    and ts: "toks = ts1 @ (nm, dt, fill) # ts2" "nm \<notin> fst ` set ts1" "nm \<notin> fst ` set ts2"
  shows "\<exists>sec' toks'. sp_set_buf (int splen) (int (length pre)) (pre @ hdr @ toks_bytes toks @ replicate k z @ post)
      (nm @ 0 # s) (Some t) (int n) = Some (Some (pre @ sec' @ post)) \<and>
    sp_section splen sec' toks' \<and> sp_map toks' = (sp_map toks)(nm \<mapsto> take n t)"
proof -
  let ?tok = "tok_bytes (nm, dt, fill)"
  have ok: "tok_ok splen (nm, dt, fill)" using h(5) ts(1) by simp
  have "sp_find_loop (int (length pre)) ((pre @ hdr) @ toks_bytes (ts1 @ (nm, dt, fill) # ts2) @ replicate k z @ post)
      (nm @ 0 # s) (int (32 + length (toks_bytes (ts1 @ (nm, dt, fill) # ts2)))) (int 32) =
      Some (Some (int (32 + length (toks_bytes ts1)), int (length dt)))"
    using h nm ts by (intro sp_find_present) auto
  then have found: "sp_find_loop (int (length pre)) (pre @ hdr @ toks_bytes toks @ replicate k z @ post) (nm @ 0 # s)
      (int (32 + length (toks_bytes toks))) 32 = Some (Some (int (32 + length (toks_bytes ts1)), int (length dt)))"
    using ts(1) by simp
  note steps = sp_set_buf_found [OF h(1-5,7) k found, of "Some t"]
  show ?thesis
  proof (cases "length dt = n")
    case True
    let ?toks = "ts1 @ (nm, take n t, fill) # ts2"
    have lt: "length (tok_bytes (nm, take n t, fill)) = length ?tok" using True n by (simp add: tok_bytes.simps)
    have "sp_section splen (hdr @ toks_bytes ?toks @ replicate k z) ?toks"
      using h k ts(1) True n lt ok by (intro sp_sectionI) auto
    moreover have "mem_write (int (length pre) + int (32 + length (toks_bytes ts1)) + 20) (take n t)
        (pre @ hdr @ toks_bytes ts1 @ ?tok @ toks_bytes ts2 @ replicate k z @ post) =
      Some (pre @ hdr @ toks_bytes ts1 @ tok_bytes (nm, take n t, fill) @ toks_bytes ts2 @ replicate k z @ post)"
      using h(1) nm True n by (intro sp_overwrite_tokens) simp_all
    moreover have "mem_read 0 (int n) t = Some (take n t)" using mem_read_int [of 0 n t] n by simp
    ultimately show ?thesis
      using steps True ts sp_map_split(1) [OF ts(2,3), of "take n t" fill dt fill]
      by (intro exI [of _ "hdr @ toks_bytes ?toks @ replicate k z"] exI [of _ ?toks]) simp
  next
    case False
    have rm: "sp_remove (int splen) (int (length pre))
        (pre @ hdr @ toks_bytes ts1 @ ?tok @ toks_bytes ts2 @ replicate k z @ post)
        (int (32 + length (toks_bytes ts1) + length ?tok + length (toks_bytes ts2)))
        (int (32 + length (toks_bytes ts1))) (int (length dt)) =
      Some (int (32 + length (toks_bytes ts1) + length (toks_bytes ts2)),
        pre @ hdr @ toks_bytes ts1 @ toks_bytes ts2 @ replicate (k + length ?tok) 0 @ post)"
      using ok h ts(1) by (intro sp_remove_tokens) simp_all
    obtain sec' f where "sp_append (int (length pre))
        (pre @ hdr @ toks_bytes (ts1 @ ts2) @ replicate (k + length ?tok) 0 @ post)
        (int (32 + length (toks_bytes (ts1 @ ts2)))) (nm @ 0 # s) (Some t) (int n) = Some (pre @ sec' @ post)"
        "sp_section splen sec' ((ts1 @ ts2) @ [(nm, take n t, f)])"
      using sp_append_section [OF nm _ n h(1), of "ts1 @ ts2" 0 "k + length ?tok" splen pre post s] ts h k by auto
    then show ?thesis
      using steps False ts rm sp_map_split(3) [OF ts(2,3), of "take n t" f dt fill]
      by (intro exI [of _ sec'] exI [of _ "(ts1 @ ts2) @ [(nm, take n t, f)]"]) (simp add: add.assoc)
  qed
qed

lemma sp_set_buf_map:
  assumes sec: "sp_section splen sec toks" and nm: "name_ok nm" and n: "0 < n" "n \<le> length t"
    and fits: "sp_fits splen toks n"
  shows "\<exists>sec' toks'. sp_set_buf (int splen) (int (length pre)) (pre @ sec @ post) (nm @ 0 # s) (Some t) (int n) =
      Some (Some (pre @ sec' @ post)) \<and>
    sp_section splen sec' toks' \<and> sp_map toks' = (sp_map toks)(nm \<mapsto> take n t)"
proof -
  obtain hdr z k where h: "sec = hdr @ toks_bytes toks @ replicate k z" "length hdr = 32"
    "take 8 hdr = MAGIC_NUMBER" "z = 0 \<or> z = 0xff" "20 \<le> k" "32 + length (toks_bytes toks) + k = splen"
    "\<forall>t\<in>set toks. tok_ok splen t" "distinct (map fst toks)" "splen \<le> 0x40000000"
    by (rule sp_section_split [OF sec])
  have k: "40 + up4 n \<le> k" using fits h(6) by (simp add: sp_fits_def)
  show ?thesis
  proof (cases "nm \<in> fst ` set toks")
    case False
    then show ?thesis using sp_set_buf_absent [OF h(2-4,6-9) k nm False n, of pre post s] h(1) by simp
  next
    case True
    obtain ts1 dt fill ts2 where ts: "toks = ts1 @ (nm, dt, fill) # ts2" "nm \<notin> fst ` set ts1" "nm \<notin> fst ` set ts2"
      by (rule token_list_split [OF True h(8)])
    show ?thesis using sp_set_buf_present [OF h(2-4,6-9) k nm n ts, of pre post s] h(1) by simp
  qed
qed

text \<open>Deleting a token.\<close>

lemma sp_append_none:
  assumes "length hdr = 32" "length pre = base"
  shows "sp_append (int base) (pre @ hdr @ rest) used tok None n = Some (pre @ sp_header @ rest)"
  using mem_write_app [of sp_header hdr pre rest] assms by (simp add: sp_append_def)

lemma sp_set_buf_delete:
  assumes sec: "sp_section splen sec toks" and nm: "name_ok nm" and fits: "sp_fits splen toks 0"
  shows "\<exists>sec' toks'. sp_set_buf (int splen) (int (length pre)) (pre @ sec @ post) (nm @ 0 # s) None 0 =
      Some (Some (pre @ sec' @ post)) \<and>
    sp_section splen sec' toks' \<and> sp_map toks' = (sp_map toks)(nm := None)"
proof -
  obtain hdr z k where h: "sec = hdr @ toks_bytes toks @ replicate k z" "length hdr = 32"
    "take 8 hdr = MAGIC_NUMBER" "z = 0 \<or> z = 0xff" "20 \<le> k" "32 + length (toks_bytes toks) + k = splen"
    "\<forall>t\<in>set toks. tok_ok splen t" "distinct (map fst toks)" "splen \<le> 0x40000000"
    by (rule sp_section_split [OF sec])
  have k: "40 + up4 0 \<le> k" using fits h(6) by (simp add: sp_fits_def)
  show ?thesis
  proof (cases "nm \<in> fst ` set toks")
    case False
    then have "sp_find_loop (int (length pre)) ((pre @ hdr) @ toks_bytes toks @ replicate k z @ post) (nm @ 0 # s)
        (int (32 + length (toks_bytes toks))) (int 32) = Some None"
      using h nm by (intro sp_find_absent) auto
    moreover have "sp_section splen (sp_header @ toks_bytes toks @ replicate k z) toks"
      using h by (intro sp_sectionI) simp_all
    ultimately show ?thesis
      using sp_set_buf_found [OF h(2-4,6,7,9) k, of pre post nm s None None] h(1) sp_map_absent [OF False]
        sp_append_none [OF h(2) refl, of pre "toks_bytes toks @ replicate k z @ post"]
      by (intro exI [of _ "sp_header @ toks_bytes toks @ replicate k z"] exI [of _ toks]) (simp add: fun_upd_idem)
  next
    case True
    obtain ts1 dt fill ts2 where ts: "toks = ts1 @ (nm, dt, fill) # ts2" "nm \<notin> fst ` set ts1" "nm \<notin> fst ` set ts2"
      by (rule token_list_split [OF True h(8)])
    let ?tok = "tok_bytes (nm, dt, fill)" and ?toks = "ts1 @ ts2"
    have "sp_find_loop (int (length pre)) ((pre @ hdr) @ toks_bytes toks @ replicate k z @ post) (nm @ 0 # s)
        (int (32 + length (toks_bytes toks))) (int 32) =
        Some (Some (int (32 + length (toks_bytes ts1)), int (length dt)))"
      unfolding ts(1) using h nm ts by (intro sp_find_present) auto
    moreover have "sp_remove (int splen) (int (length pre))
        (pre @ hdr @ toks_bytes ts1 @ ?tok @ toks_bytes ts2 @ replicate k z @ post)
        (int (32 + length (toks_bytes ts1) + length ?tok + length (toks_bytes ts2)))
        (int (32 + length (toks_bytes ts1))) (int (length dt)) =
      Some (int (32 + length (toks_bytes ts1) + length (toks_bytes ts2)),
        pre @ hdr @ toks_bytes ts1 @ toks_bytes ts2 @ replicate (k + length ?tok) 0 @ post)"
      using h ts(1) by (intro sp_remove_tokens) simp_all
    moreover have "sp_section splen (sp_header @ toks_bytes ?toks @ replicate (k + length ?tok) 0) ?toks"
      using h ts(1) by (intro sp_sectionI) auto
    ultimately show ?thesis
      using sp_set_buf_found [OF h(2-4,6,7,9) k, of pre post nm s _ None] h(1) ts
        sp_append_none [OF h(2) refl, of pre] sp_map_split(2) [OF ts(2,3), of dt fill]
      by (intro exI [of _ "sp_header @ toks_bytes ?toks @ replicate (k + length ?tok) 0"] exI [of _ ?toks])
        (simp add: add.assoc)
  qed
qed

text \<open>
  A section that holds no token yet: erased, or cleared by \<open>kerSysScratchPadClearAll\<close>.  The
  first token initialises it.
\<close>

definition sp_blank :: "nat \<Rightarrow> bytes \<Rightarrow> bool" where
  "sp_blank splen sec \<longleftrightarrow> (sec = replicate splen 0 \<or> sec = replicate splen 0xff) \<and> 52 \<le> splen \<and> splen \<le> 0x40000000"

lemma sp_blank_split:
  assumes "sp_blank splen sec"
  obtains z where "z = 0 \<or> z = 0xff" "sec = replicate 32 z @ replicate (splen - 32) z" "52 \<le> splen" "splen \<le> 0x40000000"
proof -
  obtain z :: "8 word" where "z = 0 \<or> z = 0xff" "sec = replicate splen z" "52 \<le> splen" "splen \<le> 0x40000000"
    using assms by (auto simp: sp_blank_def)
  then show ?thesis using that [of z] by (simp add: replicate_add [symmetric])
qed

lemma sp_magic_blank:
  assumes "z = 0 \<or> z = 0xff" "length pre = base"
  shows "sp_magic (pre @ replicate 32 z @ rest) (int base) = Some False"
proof -
  have "replicate 8 z \<noteq> MAGIC_NUMBER"
    using assms(1) by (auto simp: MAGIC_NUMBER_def ascii_def numeral_eq_Suc)
  then show ?thesis
    using mem_read_int [of "length pre" 8 "pre @ replicate 32 z @ rest"] assms(2) by (simp add: sp_magic_def)
qed

lemma sp_get_buf_blank:
  assumes "sp_blank splen sec"
  shows "sp_get_buf (int splen) (int (length pre)) (pre @ sec @ post) tok tokBuf n = Some (-1, tokBuf)"
proof -
  obtain z where "z = 0 \<or> z = 0xff" "sec = replicate 32 z @ replicate (splen - 32) z"
    using sp_blank_split [OF assms] .
  then show ?thesis using sp_magic_blank [of z pre] by (simp add: sp_get_buf_def)
qed

lemma sp_set_buf_init:
  assumes "sp_blank splen sec" and nm: "name_ok nm" and n: "0 < n" "n \<le> length t" and fits: "sp_fits splen [] n"
  shows "\<exists>sec' toks'. sp_set_buf (int splen) (int (length pre)) (pre @ sec @ post) (nm @ 0 # s) (Some t) (int n) =
      Some (Some (pre @ sec' @ post)) \<and> sp_section splen sec' toks' \<and> sp_map toks' = [nm \<mapsto> take n t]"
proof -
  obtain z where z: "z = 0 \<or> z = 0xff" "sec = replicate 32 z @ replicate (splen - 32) z" "52 \<le> splen" "splen \<le> 0x40000000"
    using sp_blank_split [OF assms(1)] .
  let ?new = "(nm, take n t, replicate (up4 n - n) z)" and ?k = "splen - 32"
  let ?tok = "nm @ replicate (16 - length nm) 0 @ be32 (of_nat n)"
  let ?tail = "replicate (up4 n - n) z @ replicate (?k - (20 + up4 n)) z @ post"
  have k: "20 + up4 n + 20 \<le> ?k" using fits by (simp add: sp_fits_def toks_bytes_def)
  have rep: "replicate ?k z = replicate 20 z @ replicate n z @ replicate (up4 n - n) z @ replicate (?k - (20 + up4 n)) z"
    using k up4_bounds(1) [of n] by (simp add: replicate_add [symmetric])
  have lt: "length ?tok = 20" using nm by (simp add: name_ok_def)
  have "mem_write (int (length pre)) sp_header (pre @ replicate 32 z @ replicate 20 z @ replicate n z @ ?tail) =
      Some (pre @ sp_header @ replicate 20 z @ replicate n z @ ?tail)"
    by (intro mem_write_app) simp
  moreover have "mem_write (int (length (pre @ sp_header))) ?tok ((pre @ sp_header) @ replicate 20 z @ replicate n z @ ?tail) =
      Some ((pre @ sp_header) @ ?tok @ replicate n z @ ?tail)"
    using lt by (intro mem_write_app) simp
  moreover have "mem_write (int (length (pre @ sp_header @ ?tok))) (take n t)
      ((pre @ sp_header @ ?tok) @ replicate n z @ ?tail) = Some ((pre @ sp_header @ ?tok) @ take n t @ ?tail)"
    using n(2) by (intro mem_write_app) simp
  moreover have "mem_read 0 (int n) t = Some (take n t)" using mem_read_int [of 0 n t] n(2) by simp
  moreover have tok: "tok_bytes ?new = ?tok @ take n t @ replicate (up4 n - n) z"
    using n(2) by (simp add: tok_bytes.simps)
  moreover have "n < splen" using k up4_bounds(1) [of n] by simp
  then have "sp_section splen (sp_header @ toks_bytes [?new] @ replicate (?k - (20 + up4 n)) z) [?new]"
    using k z new_token_ok [OF nm n, of splen z] by (intro sp_sectionI) (auto simp: toks_bytes_def)
  ultimately show ?thesis
    using sp_magic_blank [OF z(1) refl, of pre "replicate ?k z @ post"] z(2) lt
    by (intro exI [of _ "sp_header @ toks_bytes [?new] @ replicate (?k - (20 + up4 n)) z"] exI [of _ "[?new]"])
      (simp add: sp_set_buf_def rep sp_token_bytes [OF nm] toks_bytes_def sp_map_Cons algebra_simps)
qed

end
