(* ===== verification/Scratch_Pad_Flash.thy ===== *)
theory Scratch_Pad_Flash
  imports Scratch_Pad_Map
begin

text \<open>
  The scratch pad in flash: what \<open>kerSysScratchPadGet\<close>, \<open>kerSysScratchPadSet\<close> and
  \<open>kerSysScratchPadClearAll\<close> do to the bytes of a device that keeps the contract of
  \<^verbatim>\<open>Flash_Api\<close>.
\<close>

section \<open>Definitions\<close>

text \<open>The section holds the map \<open>m\<close>, and \<open>used\<close> of its bytes are taken.\<close>

definition sp_store :: "nat \<Rightarrow> bytes \<Rightarrow> (bytes \<rightharpoonup> bytes) \<Rightarrow> nat \<Rightarrow> bool" where
  "sp_store splen sec m used \<longleftrightarrow>
     (\<exists>toks. sp_section splen sec toks \<and> m = sp_map toks \<and> used = 32 + length (toks_bytes toks)) \<or>
     (sp_blank splen sec \<and> m = Map.empty \<and> used = 32)"

text \<open>The bytes of the scratch pad in the device.\<close>

definition sp_pos :: "flash_addr_info \<Rightarrow> nat list \<Rightarrow> nat" where
  "sp_pos fi geom = section_pos geom (flash_scratch_pad_start_blk fi) (flash_scratch_pad_blk_offset fi) 0"

definition sp_bytes :: "flash_addr_info \<Rightarrow> nat list \<Rightarrow> bytes list \<Rightarrow> bytes" where
  "sp_bytes fi geom cs = take (nat (flash_scratch_pad_length fi)) (drop (sp_pos fi geom) (concat cs))"

definition sp_placed :: "flash_addr_info \<Rightarrow> nat list \<Rightarrow> bool" where
  "sp_placed fi geom \<longleftrightarrow>
     0 < flash_scratch_pad_length fi \<and>
     placed geom (flash_scratch_pad_start_blk fi) (flash_scratch_pad_number_blk fi)
       (flash_scratch_pad_blk_offset fi) (flash_scratch_pad_length fi)"

text \<open>What a lookup returns for a stored map: the status and the caller's buffer.\<close>

definition sp_answer :: "(bytes \<rightharpoonup> bytes) \<Rightarrow> bytes \<Rightarrow> bytes \<Rightarrow> nat \<Rightarrow> int \<times> bytes" where
  "sp_answer m nm tokBuf n =
     (case m nm of
        None \<Rightarrow> (-1, tokBuf)
      | Some dt \<Rightarrow> if n < length dt then (-1, tokBuf) else (int (length dt), dt @ drop (length dt) tokBuf))"

section \<open>On the buffer\<close>

lemma sp_store_get:
  assumes "sp_store splen sec m used" "name_ok nm" "n \<le> length tokBuf"
  shows "sp_get_buf (int splen) (int (length pre)) (pre @ sec @ post) (nm @ 0 # s) tokBuf (int n) =
    Some (sp_answer m nm tokBuf n)"
  using assms(1) sp_get_buf_map [OF _ assms(2,3)] sp_get_buf_blank [of splen sec pre post "nm @ 0 # s" tokBuf "int n"]
  by (auto simp: sp_store_def sp_answer_def)

lemma length_sp_section: "sp_section splen sec toks \<Longrightarrow> length sec = splen"
  by (auto simp: sp_section_def)

lemma sp_store_section:
  "sp_section splen sec toks \<Longrightarrow> sp_store splen sec (sp_map toks) (32 + length (toks_bytes toks))"
  by (auto simp: sp_store_def)

lemma sp_store_set:
  assumes "sp_store splen sec m used" "name_ok nm" "0 < n" "n \<le> length t" "used + 20 + up4 n + 20 \<le> splen"
  shows "\<exists>sec' used'. sp_set_buf (int splen) (int (length pre)) (pre @ sec @ post) (nm @ 0 # s) (Some t) (int n) =
      Some (Some (pre @ sec' @ post)) \<and> length sec' = splen \<and> sp_store splen sec' (m(nm \<mapsto> take n t)) used'"
proof -
  obtain sec' toks' where "sp_set_buf (int splen) (int (length pre)) (pre @ sec @ post) (nm @ 0 # s) (Some t) (int n) =
      Some (Some (pre @ sec' @ post))" "sp_section splen sec' toks'" "sp_map toks' = m(nm \<mapsto> take n t)"
  proof -
    consider toks where "sp_section splen sec toks" "m = sp_map toks" "used = 32 + length (toks_bytes toks)"
      | "sp_blank splen sec" "m = Map.empty" "used = 32" using assms(1) by (auto simp: sp_store_def)
    then show thesis
    proof cases
      case 1
      then have "sp_fits splen toks n" using assms(5) by (simp add: sp_fits_def)
      then show thesis using sp_set_buf_map [OF 1(1) assms(2-4), of pre post s] 1(2) that by blast
    next
      case 2
      then have "sp_fits splen [] n" using assms(5) by (simp add: sp_fits_def toks_bytes_def)
      then show thesis using sp_set_buf_init [OF 2(1) assms(2-4), of pre post s] 2(2) that by blast
    qed
  qed
  then show ?thesis using length_sp_section [of splen sec' toks'] sp_store_section [of splen sec' toks'] by auto
qed

lemma sp_store_delete:
  assumes "sp_section splen sec toks" "name_ok nm" "sp_fits splen toks 0"
  shows "\<exists>sec' used'. sp_set_buf (int splen) (int (length pre)) (pre @ sec @ post) (nm @ 0 # s) None 0 =
      Some (Some (pre @ sec' @ post)) \<and> length sec' = splen \<and> sp_store splen sec' ((sp_map toks)(nm := None)) used'"
proof -
  obtain sec' toks' where "sp_set_buf (int splen) (int (length pre)) (pre @ sec @ post) (nm @ 0 # s) None 0 =
      Some (Some (pre @ sec' @ post))" "sp_section splen sec' toks'" "sp_map toks' = (sp_map toks)(nm := None)"
    using sp_set_buf_delete [OF assms, of pre post s] by blast
  then show ?thesis using length_sp_section [of splen sec' toks'] sp_store_section [of splen sec' toks'] by auto
qed

text \<open>A token that does not fit is refused.\<close>

lemma sp_set_buf_full:
  assumes sec: "sp_section splen sec toks" and n: "n < splen" "splen < 32 + length (toks_bytes toks) + 20 + n"
  shows "sp_set_buf (int splen) (int (length pre)) (pre @ sec @ post) tok tb (int n) = Some None"
proof -
  obtain hdr z k where h: "sec = hdr @ toks_bytes toks @ replicate k z" "length hdr = 32"
    "take 8 hdr = MAGIC_NUMBER" "z = 0 \<or> z = 0xff" "20 \<le> k" "32 + length (toks_bytes toks) + k = splen"
    "\<forall>t\<in>set toks. tok_ok splen t" "distinct (map fst toks)" "splen \<le> 0x40000000"
    by (rule sp_section_split [OF sec])
  have "sp_used_loop (int splen) (int (length pre)) ((pre @ hdr) @ toks_bytes toks @ replicate k z @ post) (int 32) =
      Some (int (32 + length (toks_bytes toks)))"
    using h by (intro sp_used_loop_tokens) auto
  moreover have "u32 (int (32 + length (toks_bytes toks)) + int n + 20) > u32 (int splen)"
    using h n by (simp add: u32_id)
  ultimately show ?thesis
    using sp_magic_section [OF h(2,3) refl, of pre "toks_bytes toks @ replicate k z @ post"] h(1)
    by (simp add: sp_set_buf_def)
qed

section \<open>On the device\<close>

context flash_device
begin

lemma section_window:
  assumes d: "ok d" and pl: "placed geom start num off (int len)" and km: "\<And>z. km z"
    and p: "p = section_pos geom start off 0"
  obtains pre sec post d1 where
    "getSharedBlks km (Some dev) start (start + num) d = Some (Some (pre @ sec @ post), d1)" "ok d1"
    "contents d1 = contents d" "s32 off = int (length pre)"
    "sec = take len (drop p (concat (contents d)))" "length sec = len"
    "length (pre @ sec @ post) = blk_base geom (nat (start + num)) - blk_base geom (nat start)"
    "\<forall>sec'. length sec' = len \<longrightarrow> (\<exists>r d'. setSharedBlks (Some dev) start (num + start) (pre @ sec' @ post) d1 = Some (r, d')
      \<and> (r = 0 \<or> r = -1) \<and> ok d' \<and>
      (r = 0 \<longrightarrow> concat (contents d') = take p (concat (contents d)) @ sec' @
         drop (p + len) (concat (contents d))))"
proof -
  obtain a b x where ab: "start = int a" "start + num = int b" "a \<le> b" "b \<le> length geom"
    and x: "x + len \<le> blk_base geom b - blk_base geom a" and sx: "s32 (off + 0) = int x"
    and pos: "p = blk_base geom a + x"
    using placed_window [OF pl, of 0 len] p by auto
  let ?B = "blk_bytes (contents d) a b" and ?F = "concat (contents d)"
  have lenB: "length ?B = blk_base geom b - blk_base geom a"
    by (rule length_blk_bytes [OF contents_shape [OF d] ab(3)])
  obtain d1 where d1: "getSharedBlks km (Some dev) start (start + num) d = Some (Some ?B, d1)" "ok d1"
      "contents d1 = contents d"
    using getSharedBlks_eq [OF d ab(3,4), of km] km ab(1,2) by auto
  have B: "?B = take x ?B @ take len (drop x ?B) @ drop (x + len) ?B"
    by (metis append_take_drop_id drop_drop add.commute)
  have "\<exists>r d'. setSharedBlks (Some dev) start (num + start) (take x ?B @ sec' @ drop (x + len) ?B) d1 = Some (r, d')
      \<and> (r = 0 \<or> r = -1) \<and> ok d' \<and> (r = 0 \<longrightarrow> concat (contents d') =
        take p ?F @ sec' @ drop (p + len) ?F)"
    if "length sec' = len" for sec'
  proof -
    let ?B' = "take x ?B @ sec' @ drop (x + len) ?B"
    have "length ?B' = blk_base geom b - blk_base geom a" using that lenB x by simp
    then obtain r d2 news where "setSharedBlks (Some dev) (int a) (int b) ?B' d1 = Some (r, d2)"
      "r = 0 \<or> r = -1" "ok d2" "contents d2 = take a (contents d) @ news @ drop b (contents d)"
      "r = 0 \<longrightarrow> concat news = ?B'"
      using setSharedBlks_eq [OF d1(2) ab(3,4), of ?B'] d1(3) by auto
    then show ?thesis
      using flat_split [OF contents_shape [OF d] ab(3,4)] lenB x pos ab(1,2) by (simp add: add.commute)
  qed
  moreover have "getSharedBlks km (Some dev) start (start + num) d =
      Some (Some (take x ?B @ take len (drop x ?B) @ drop (x + len) ?B), d1)" using d1(1) B by metis
  moreover have "s32 off = int (length (take x ?B))" "length (take len (drop x ?B)) = len"
    using sx x lenB by simp_all
  moreover have "take len (drop x ?B) = take len (drop p ?F)"
    using flat_window [OF d ab(3,4) x] pos by simp
  moreover have "length (take x ?B @ take len (drop x ?B) @ drop (x + len) ?B) =
      blk_base geom (nat (start + num)) - blk_base geom (nat start)"
    using lenB x ab(1,2) by simp
  ultimately show ?thesis using d1(2,3) by (intro that [of "take x ?B" "take len (drop x ?B)" "drop (x + len) ?B" d1]) blast+
qed

lemma sp_placed_range:
  assumes "sp_placed fi geom"
  obtains splen where "flash_scratch_pad_length fi = int splen" "0 < splen" "splen \<le> 0x4000000"
    "placed geom (flash_scratch_pad_start_blk fi) (flash_scratch_pad_number_blk fi)
       (flash_scratch_pad_blk_offset fi) (int splen)"
proof
  let ?n = "nat (flash_scratch_pad_length fi)"
  show n: "flash_scratch_pad_length fi = int ?n" "0 < ?n" using assms by (simp_all add: sp_placed_def)
  then show "placed geom (flash_scratch_pad_start_blk fi) (flash_scratch_pad_number_blk fi)
      (flash_scratch_pad_blk_offset fi) (int ?n)" using assms by (simp add: sp_placed_def)
  then show "?n \<le> 0x4000000"
    using total_range [of "nat (flash_scratch_pad_start_blk fi + flash_scratch_pad_number_blk fi)"]
    unfolding placed_def by linarith
qed

lemma scratchPadGet_eq:
  assumes d: "ok d" and pl: "sp_placed fi geom" and km: "\<And>z. km z"
    and st: "sp_store (nat (flash_scratch_pad_length fi)) (sp_bytes fi geom (contents d)) m used"
    and nm: "name_ok nm" and n: "n \<le> length tokBuf" "int n + 52 < flash_scratch_pad_length fi"
  shows "\<exists>d'. kerSysScratchPadGet fi km (Some dev) (nm @ 0 # s) tokBuf (int n) d =
      Some (fst (sp_answer m nm tokBuf n), snd (sp_answer m nm tokBuf n), d') \<and> ok d' \<and> contents d' = contents d"
proof -
  obtain splen where sp: "flash_scratch_pad_length fi = int splen" "splen \<le> 0x4000000"
    "placed geom (flash_scratch_pad_start_blk fi) (flash_scratch_pad_number_blk fi)
       (flash_scratch_pad_blk_offset fi) (int splen)"
    using sp_placed_range [OF pl] .
  obtain pre sec post d1 where w: "getSharedBlks km (Some dev) (flash_scratch_pad_start_blk fi)
      (flash_scratch_pad_start_blk fi + flash_scratch_pad_number_blk fi) d = Some (Some (pre @ sec @ post), d1)"
    "ok d1" "contents d1 = contents d" "s32 (flash_scratch_pad_blk_offset fi) = int (length pre)"
    "sec = take splen (drop (sp_pos fi geom) (concat (contents d)))" "length sec = splen"
    "length (pre @ sec @ post) = blk_base geom (nat (flash_scratch_pad_start_blk fi + flash_scratch_pad_number_blk fi)) -
      blk_base geom (nat (flash_scratch_pad_start_blk fi))"
    and rewrite: "\<forall>sec'. length sec' = splen \<longrightarrow> (\<exists>r d'. setSharedBlks (Some dev) (flash_scratch_pad_start_blk fi)
      (flash_scratch_pad_number_blk fi + flash_scratch_pad_start_blk fi) (pre @ sec' @ post) d1 = Some (r, d') \<and>
      (r = 0 \<or> r = -1) \<and> ok d' \<and> (r = 0 \<longrightarrow> concat (contents d') =
        take (sp_pos fi geom) (concat (contents d)) @ sec' @ drop (sp_pos fi geom + splen) (concat (contents d))))"
    by (rule section_window [where km = km, OF d sp(3) km sp_pos_def])
  have "sp_get_buf (int splen) (int (length pre)) (pre @ sec @ post) (nm @ 0 # s) tokBuf (int n) =
      Some (sp_answer m nm tokBuf n)"
    using st w(5) sp(1) nm n(1) by (intro sp_store_get) (simp_all add: sp_bytes_def)
  moreover have "u32 (int n) = int n" "u32 (int splen - 32 - 20) = int splen - 52"
    using n(2) sp by (simp_all add: u32_id)
  ultimately show ?thesis
    using w(1-4) sp(1) n(2) by (intro exI [of _ d1]) (simp add: kerSysScratchPadGet_def split_beta)
qed

lemma scratchPadSet_eq:
  assumes d: "ok d" and pl: "sp_placed fi geom" and km: "\<And>z. km z"
    and st: "sp_store (nat (flash_scratch_pad_length fi)) (sp_bytes fi geom (contents d)) m used"
    and nm: "name_ok nm" and n: "0 < n" "n \<le> length t" "int (used + 20 + up4 n + 20) \<le> flash_scratch_pad_length fi"
  shows "\<exists>r d' sec' used'. kerSysScratchPadSet fi km (Some dev) (nm @ 0 # s) (Some t) (int n) d = Some (r, d') \<and>
    (r = 0 \<or> r = -1) \<and> ok d' \<and> length sec' = nat (flash_scratch_pad_length fi) \<and>
    sp_store (nat (flash_scratch_pad_length fi)) sec' (m(nm \<mapsto> take n t)) used' \<and>
    (r = 0 \<longrightarrow> concat (contents d') = take (sp_pos fi geom) (concat (contents d)) @ sec' @
       drop (sp_pos fi geom + nat (flash_scratch_pad_length fi)) (concat (contents d)))"
proof -
  obtain splen where sp: "flash_scratch_pad_length fi = int splen" "0 < splen" "splen \<le> 0x4000000"
    "placed geom (flash_scratch_pad_start_blk fi) (flash_scratch_pad_number_blk fi)
       (flash_scratch_pad_blk_offset fi) (int splen)"
    using sp_placed_range [OF pl] .
  obtain pre sec post d1 where w: "getSharedBlks km (Some dev) (flash_scratch_pad_start_blk fi)
      (flash_scratch_pad_start_blk fi + flash_scratch_pad_number_blk fi) d = Some (Some (pre @ sec @ post), d1)"
    "ok d1" "contents d1 = contents d" "s32 (flash_scratch_pad_blk_offset fi) = int (length pre)"
    "sec = take splen (drop (sp_pos fi geom) (concat (contents d)))" "length sec = splen"
    "length (pre @ sec @ post) = blk_base geom (nat (flash_scratch_pad_start_blk fi + flash_scratch_pad_number_blk fi)) -
      blk_base geom (nat (flash_scratch_pad_start_blk fi))"
    and rewrite: "\<forall>sec'. length sec' = splen \<longrightarrow> (\<exists>r d'. setSharedBlks (Some dev) (flash_scratch_pad_start_blk fi)
      (flash_scratch_pad_number_blk fi + flash_scratch_pad_start_blk fi) (pre @ sec' @ post) d1 = Some (r, d') \<and>
      (r = 0 \<or> r = -1) \<and> ok d' \<and> (r = 0 \<longrightarrow> concat (contents d') =
        take (sp_pos fi geom) (concat (contents d)) @ sec' @ drop (sp_pos fi geom + splen) (concat (contents d))))"
    by (rule section_window [where km = km, OF d sp(4) km sp_pos_def])
  have st': "sp_store splen sec m used" and fit: "used + 20 + up4 n + 20 \<le> splen"
    using st w(5) sp(1) n(3) by (simp_all add: sp_bytes_def)
  obtain sec' used' where set: "sp_set_buf (int splen) (int (length pre)) (pre @ sec @ post) (nm @ 0 # s) (Some t) (int n) =
      Some (Some (pre @ sec' @ post))" "length sec' = splen" "sp_store splen sec' (m(nm \<mapsto> take n t)) used'"
    using sp_store_set [OF st' nm n(1,2) fit, of pre post s] by blast
  have "32 \<le> used" using st by (auto simp: sp_store_def)
  then have "u32 (int n) = int n" "u32 (int splen - 32 - 20) = int splen - 52" "int n < int splen - 52"
    using fit sp up4_bounds(1) [of n] by (simp_all add: u32_id)
  then show ?thesis
    using w(1,4) set sp(1,2) rewrite [rule_format, OF set(2)] by (fastforce simp: kerSysScratchPadSet_def)
qed

lemma scratchPadSet_full:
  assumes d: "ok d" and pl: "sp_placed fi geom" and km: "\<And>z. km z"
    and st: "sp_section (nat (flash_scratch_pad_length fi)) (sp_bytes fi geom (contents d)) toks"
    and n: "int n < flash_scratch_pad_length fi"
      "flash_scratch_pad_length fi < int (32 + length (toks_bytes toks) + 20 + n)"
  shows "\<exists>d'. kerSysScratchPadSet fi km (Some dev) tok tb (int n) d = Some (-1, d') \<and> ok d' \<and> contents d' = contents d"
proof -
  obtain splen where sp: "flash_scratch_pad_length fi = int splen" "0 < splen" "splen \<le> 0x4000000"
    "placed geom (flash_scratch_pad_start_blk fi) (flash_scratch_pad_number_blk fi)
       (flash_scratch_pad_blk_offset fi) (int splen)"
    using sp_placed_range [OF pl] .
  obtain pre sec post d1 where w: "getSharedBlks km (Some dev) (flash_scratch_pad_start_blk fi)
      (flash_scratch_pad_start_blk fi + flash_scratch_pad_number_blk fi) d = Some (Some (pre @ sec @ post), d1)"
    "ok d1" "contents d1 = contents d" "s32 (flash_scratch_pad_blk_offset fi) = int (length pre)"
    "sec = take splen (drop (sp_pos fi geom) (concat (contents d)))" "length sec = splen"
    "length (pre @ sec @ post) = blk_base geom (nat (flash_scratch_pad_start_blk fi + flash_scratch_pad_number_blk fi)) -
      blk_base geom (nat (flash_scratch_pad_start_blk fi))"
    and rewrite: "\<forall>sec'. length sec' = splen \<longrightarrow> (\<exists>r d'. setSharedBlks (Some dev) (flash_scratch_pad_start_blk fi)
      (flash_scratch_pad_number_blk fi + flash_scratch_pad_start_blk fi) (pre @ sec' @ post) d1 = Some (r, d') \<and>
      (r = 0 \<or> r = -1) \<and> ok d' \<and> (r = 0 \<longrightarrow> concat (contents d') =
        take (sp_pos fi geom) (concat (contents d)) @ sec' @ drop (sp_pos fi geom + splen) (concat (contents d))))"
    by (rule section_window [where km = km, OF d sp(4) km sp_pos_def])
  have "sp_set_buf (int splen) (int (length pre)) (pre @ sec @ post) tok tb (int n) = Some None"
  proof (rule sp_set_buf_full)
    show "sp_section splen sec toks" using st w(5) sp(1) by (simp add: sp_bytes_def)
    show "n < splen" "splen < 32 + length (toks_bytes toks) + 20 + n" using sp(1) n by linarith+
  qed
  then show ?thesis using w(1-4) sp(1,2) d by (auto simp: kerSysScratchPadSet_def Let_def)
qed

lemma scratchPadSet_delete:
  assumes d: "ok d" and pl: "sp_placed fi geom" and km: "\<And>z. km z"
    and st: "sp_section (nat (flash_scratch_pad_length fi)) (sp_bytes fi geom (contents d)) toks"
      "sp_fits (nat (flash_scratch_pad_length fi)) toks 0"
    and nm: "name_ok nm"
  shows "\<exists>r d' sec' used'. kerSysScratchPadSet fi km (Some dev) (nm @ 0 # s) None 0 d = Some (r, d') \<and>
    (r = 0 \<or> r = -1) \<and> ok d' \<and> length sec' = nat (flash_scratch_pad_length fi) \<and>
    sp_store (nat (flash_scratch_pad_length fi)) sec' ((sp_map toks)(nm := None)) used' \<and>
    (r = 0 \<longrightarrow> concat (contents d') = take (sp_pos fi geom) (concat (contents d)) @ sec' @
       drop (sp_pos fi geom + nat (flash_scratch_pad_length fi)) (concat (contents d)))"
proof -
  obtain splen where sp: "flash_scratch_pad_length fi = int splen" "0 < splen" "splen \<le> 0x4000000"
    "placed geom (flash_scratch_pad_start_blk fi) (flash_scratch_pad_number_blk fi)
       (flash_scratch_pad_blk_offset fi) (int splen)"
    using sp_placed_range [OF pl] .
  obtain pre sec post d1 where w: "getSharedBlks km (Some dev) (flash_scratch_pad_start_blk fi)
      (flash_scratch_pad_start_blk fi + flash_scratch_pad_number_blk fi) d = Some (Some (pre @ sec @ post), d1)"
    "ok d1" "contents d1 = contents d" "s32 (flash_scratch_pad_blk_offset fi) = int (length pre)"
    "sec = take splen (drop (sp_pos fi geom) (concat (contents d)))" "length sec = splen"
    "length (pre @ sec @ post) = blk_base geom (nat (flash_scratch_pad_start_blk fi + flash_scratch_pad_number_blk fi)) -
      blk_base geom (nat (flash_scratch_pad_start_blk fi))"
    and rewrite: "\<forall>sec'. length sec' = splen \<longrightarrow> (\<exists>r d'. setSharedBlks (Some dev) (flash_scratch_pad_start_blk fi)
      (flash_scratch_pad_number_blk fi + flash_scratch_pad_start_blk fi) (pre @ sec' @ post) d1 = Some (r, d') \<and>
      (r = 0 \<or> r = -1) \<and> ok d' \<and> (r = 0 \<longrightarrow> concat (contents d') =
        take (sp_pos fi geom) (concat (contents d)) @ sec' @ drop (sp_pos fi geom + splen) (concat (contents d))))"
    by (rule section_window [where km = km, OF d sp(4) km sp_pos_def])
  have st': "sp_section splen sec toks" "sp_fits splen toks 0" using st w(5) sp(1) by (simp_all add: sp_bytes_def)
  obtain sec' used' where set: "sp_set_buf (int splen) (int (length pre)) (pre @ sec @ post) (nm @ 0 # s) None 0 =
      Some (Some (pre @ sec' @ post))" "length sec' = splen" "sp_store splen sec' ((sp_map toks)(nm := None)) used'"
    using sp_store_delete [OF st'(1) nm st'(2), of pre post s] by blast
  have "72 \<le> splen" using st'(2) by (simp add: sp_fits_def)
  then have "u32 0 = 0" "u32 (int splen - 32 - 20) = int splen - 52" "0 < int splen - 52"
    using sp by (simp_all add: u32_id)
  then show ?thesis
    using w(1,4) set sp(1,2) rewrite [rule_format, OF set(2)] by (fastforce simp: kerSysScratchPadSet_def)
qed

text \<open>Clearing the pad clears its blocks from end to end, whatever else they hold.\<close>

lemma scratchPadClearAll_eq:
  assumes d: "ok d" and pl: "sp_placed fi geom" and km: "\<And>z. km z"
    and ab: "a = blk_base geom (nat (flash_scratch_pad_start_blk fi))"
      "b = blk_base geom (nat (flash_scratch_pad_start_blk fi + flash_scratch_pad_number_blk fi))"
  shows "\<exists>r d'. kerSysScratchPadClearAll fi km (Some dev) d = Some (r, d') \<and> (r = 0 \<or> r = -1) \<and> ok d' \<and>
    (r = 0 \<longrightarrow> concat (contents d') = take a (concat (contents d)) @ replicate (b - a) 0 @ drop b (concat (contents d)))"
proof -
  obtain x y where xy: "flash_scratch_pad_start_blk fi = int x"
      "flash_scratch_pad_start_blk fi + flash_scratch_pad_number_blk fi = int y" "x \<le> y" "y \<le> length geom"
    using pl by (intro that [of "nat (flash_scratch_pad_start_blk fi)"
        "nat (flash_scratch_pad_start_blk fi + flash_scratch_pad_number_blk fi)"]) (auto simp: sp_placed_def placed_def)
  let ?B = "blk_bytes (contents d) x y"
  have B: "length ?B = b - a" using length_blk_bytes [OF contents_shape [OF d] xy(3)] xy ab by simp
  obtain d1 where d1: "getSharedBlks km (Some dev) (int x) (int y) d = Some (Some ?B, d1)" "ok d1"
      "contents d1 = contents d"
    using getSharedBlks_eq [OF d xy(3,4), of km] km by auto
  have sz: "blks_size (Some dev) (int x) (int y) (int 0) d1 = Some (int (0 + (blk_base geom y - blk_base geom x)))"
    using d1(2) xy total_range [of y] by (intro blks_size_eq) simp_all
  have wr: "mem_write 0 (replicate (b - a) 0) ?B = Some (replicate (b - a) 0)"
    using mem_write_int [of 0 "replicate (b - a) 0" ?B] B by simp
  obtain r d2 news where d2: "setSharedBlks (Some dev) (int x) (int y) (replicate (b - a) 0) d1 = Some (r, d2)"
      "r = 0 \<or> r = -1" "ok d2" "contents d2 = take x (contents d) @ news @ drop y (contents d)"
      "r = 0 \<longrightarrow> concat news = replicate (b - a) 0"
    using setSharedBlks_eq [OF d1(2) xy(3,4), of "replicate (b - a) 0"] d1(3) ab xy by auto
  have "kerSysScratchPadClearAll fi km (Some dev) d = Some (r, d2)"
    using pl d1(1) sz wr d2(1) xy ab by (simp add: kerSysScratchPadClearAll_def sp_placed_def add.commute)
  moreover have "a + (b - a) = b" using ab blk_base_mono [OF xy(3), of geom] xy by simp
  ultimately show ?thesis
    using d2 flat_split [OF contents_shape [OF d] xy(3,4)] B ab xy by (intro exI [of _ r] exI [of _ d2]) auto
qed

end

context reliable_flash_device
begin

lemma scratchPadSet_reliable:
  assumes d: "ok d" and pl: "sp_placed fi geom" and km: "\<And>z. km z"
    and st: "sp_store (nat (flash_scratch_pad_length fi)) (sp_bytes fi geom (contents d)) m used"
    and nm: "name_ok nm" and n: "0 < n" "n \<le> length t" "int (used + 20 + up4 n + 20) \<le> flash_scratch_pad_length fi"
  shows "\<exists>d'. kerSysScratchPadSet fi km (Some dev) (nm @ 0 # s) (Some t) (int n) d = Some (0, d')"
proof -
  obtain splen where sp: "flash_scratch_pad_length fi = int splen" "0 < splen" "splen \<le> 0x4000000"
    "placed geom (flash_scratch_pad_start_blk fi) (flash_scratch_pad_number_blk fi)
       (flash_scratch_pad_blk_offset fi) (int splen)"
    using sp_placed_range [OF pl] .
  obtain pre sec post d1 where w: "getSharedBlks km (Some dev) (flash_scratch_pad_start_blk fi)
      (flash_scratch_pad_start_blk fi + flash_scratch_pad_number_blk fi) d = Some (Some (pre @ sec @ post), d1)"
    "ok d1" "contents d1 = contents d" "s32 (flash_scratch_pad_blk_offset fi) = int (length pre)"
    "sec = take splen (drop (sp_pos fi geom) (concat (contents d)))" "length sec = splen"
    "length (pre @ sec @ post) = blk_base geom (nat (flash_scratch_pad_start_blk fi + flash_scratch_pad_number_blk fi)) -
      blk_base geom (nat (flash_scratch_pad_start_blk fi))"
    and rewrite: "\<forall>sec'. length sec' = splen \<longrightarrow> (\<exists>r d'. setSharedBlks (Some dev) (flash_scratch_pad_start_blk fi)
      (flash_scratch_pad_number_blk fi + flash_scratch_pad_start_blk fi) (pre @ sec' @ post) d1 = Some (r, d') \<and>
      (r = 0 \<or> r = -1) \<and> ok d' \<and> (r = 0 \<longrightarrow> concat (contents d') =
        take (sp_pos fi geom) (concat (contents d)) @ sec' @ drop (sp_pos fi geom + splen) (concat (contents d))))"
    by (rule section_window [where km = km, OF d sp(4) km sp_pos_def])
  have st': "sp_store splen sec m used" and fit: "used + 20 + up4 n + 20 \<le> splen"
    using st w(5) sp(1) n(3) by (simp_all add: sp_bytes_def)
  obtain sec' used' where set: "sp_set_buf (int splen) (int (length pre)) (pre @ sec @ post) (nm @ 0 # s) (Some t) (int n) =
      Some (Some (pre @ sec' @ post))" "length sec' = splen"
    using sp_store_set [OF st' nm n(1,2) fit, of pre post s] by blast
  have "32 \<le> used" using st by (auto simp: sp_store_def)
  then have u: "u32 (int n) = int n" "u32 (int splen - 32 - 20) = int splen - 52" "int n < int splen - 52"
    using fit sp up4_bounds(1) [of n] by (simp_all add: u32_id)
  have range: "0 \<le> flash_scratch_pad_start_blk fi" "0 \<le> flash_scratch_pad_number_blk fi"
      "flash_scratch_pad_start_blk fi + flash_scratch_pad_number_blk fi \<le> int (length geom)"
    using sp(4) by (simp_all add: placed_def)
  have "\<exists>d'. setSharedBlks (Some dev) (int (nat (flash_scratch_pad_start_blk fi)))
      (int (nat (flash_scratch_pad_start_blk fi + flash_scratch_pad_number_blk fi))) (pre @ sec' @ post) d1 = Some (0, d')"
    using w(2,6,7) set(2) range by (intro setSharedBlks_reliable) auto
  then obtain d' where "setSharedBlks (Some dev) (flash_scratch_pad_start_blk fi)
      (flash_scratch_pad_number_blk fi + flash_scratch_pad_start_blk fi) (pre @ sec' @ post) d1 = Some (0, d')"
    using range by (auto simp: add.commute)
  then show ?thesis
    using w(1,4) set sp(1,2) u by (simp add: kerSysScratchPadSet_def)
qed

end

end
