(* ===== verification/Flash_Properties.thy ===== *)
theory Flash_Properties
  imports Nor_Sim Image_Flash Scratch_Pad_Flash
begin

text \<open>
  What the flash storage of the board guarantees, end to end: the entry points of
  \<open>bcm63xx_flash.c\<close> through the dispatchers of \<open>flash_api.c\<close> and the driver of
  \<open>cfiflash.c\<close>, on any chip that obeys the AMD command set.  The hypotheses are the laws of
  the chip (\<open>amd_chip\<close>, or \<open>reliable_amd_chip\<close> where the chip does not fail),
  the driver's invariant \<open>cfi_ok\<close>, and that memory allocations succeed.
\<close>

section \<open>Sections on the driver\<close>

text \<open>A successful update followed by a read at the same place.\<close>

lemma section_set_get:
  assumes chip: "amd_chip nc ready bypass cells geom" and s: "cfi_ok geom ready s"
    and pl: "placed geom start_blk number_blk blk_offset len"
    and n: "0 \<le> offset" "offset + int n \<le> len" "n \<le> length string" "n \<le> length buf" and km: "\<And>z. km z"
    and p: "p = section_pos geom start_blk blk_offset offset"
  shows "\<exists>r s'. section_set len start_blk number_blk blk_offset km (Some (flash_cfi_dev nc did name)) string (int n) offset s =
      Some (r, s') \<and> cfi_ok geom ready s' \<and> (r = 0 \<or> r = -1) \<and>
    (\<forall>i<length geom. int i < start_blk \<or> start_blk + number_blk \<le> int i \<longrightarrow>
       cfi_contents geom cells s' ! i = cfi_contents geom cells s ! i) \<and>
    (r = 0 \<longrightarrow>
       concat (cfi_contents geom cells s') =
         take p (concat (cfi_contents geom cells s)) @ take n string @ drop (p + n) (concat (cfi_contents geom cells s)) \<and>
       (\<exists>s''. section_get len start_blk number_blk blk_offset km (Some (flash_cfi_dev nc did name)) buf (int n) offset s' =
          Some (0, take n string @ drop n buf, s'')))"
  by (rule flash_device.section_roundtrip [where km = km, OF amd_chip.cfi_device [OF chip] s pl n km p])

lemma section_set_get_reliable:
  assumes chip: "reliable_amd_chip nc ready bypass cells geom" and s: "cfi_ok geom ready s"
    and pl: "placed geom start_blk number_blk blk_offset len"
    and n: "0 \<le> offset" "offset + int n \<le> len" "n \<le> length string" "n \<le> length buf" and km: "\<And>z. km z"
    and p: "p = section_pos geom start_blk blk_offset offset"
  shows "\<exists>s'. section_set len start_blk number_blk blk_offset km (Some (flash_cfi_dev nc did name)) string (int n) offset s =
      Some (0, s') \<and> cfi_ok geom ready s' \<and>
    concat (cfi_contents geom cells s') =
      take p (concat (cfi_contents geom cells s)) @ take n string @ drop (p + n) (concat (cfi_contents geom cells s)) \<and>
    (\<exists>s''. section_get len start_blk number_blk blk_offset km (Some (flash_cfi_dev nc did name)) buf (int n) offset s' =
       Some (0, take n string @ drop n buf, s''))"
  by (rule reliable_flash_device.section_roundtrip_reliable
      [where km = km, OF reliable_amd_chip.cfi_reliable_device [OF chip] s pl n km p])

text \<open>
  A layout on the simulated part: the NVRAM in the first sector, and at the end of the last
  sector 24 KB of configuration, with 8 KB of scratch pad before it.
\<close>

definition sim_layout :: flash_addr_info where
  "sim_layout =
     \<lparr>flash_persistent_start_blk = 7, flash_persistent_number_blk = 1, flash_persistent_length = 0x6000,
      flash_persistent_blk_offset = 0xA000, flash_scratch_pad_start_blk = 7, flash_scratch_pad_number_blk = 1,
      flash_scratch_pad_length = 0x2000, flash_scratch_pad_blk_offset = 0x8000, flash_nvram_start_blk = 0,
      flash_nvram_number_blk = 1, flash_nvram_length = 1024, flash_nvram_blk_offset = 0x580,
      flash_rootfs_start_offset = 0x10000, flash_dare_persistent_start_blk = 0,
      flash_dare_persistent_number_blk = 0, flash_dare_persistent_length = 0,
      flash_dare_persistent_blk_offset = 0\<rparr>"

abbreviation sim_dev :: "sim cfi_state flash_device_info option" where
  "sim_dev \<equiv> Some (flash_cfi_dev (sim_chip sim_sectors) ID_AM29LV400B ''AM29LV400B'')"

abbreviation sim_erased :: "sim cfi_state" where
  "sim_erased \<equiv> sim_cfi (replicate 0x40000 0xffff)"

lemma sim_layout_placed:
  "placed sim_sectors (flash_persistent_start_blk sim_layout) (flash_persistent_number_blk sim_layout)
     (flash_persistent_blk_offset sim_layout) (flash_persistent_length sim_layout)"
  "placed sim_sectors (flash_nvram_start_blk sim_layout) (flash_nvram_number_blk sim_layout)
     (flash_nvram_blk_offset sim_layout) 1024"
  "sp_placed sim_layout sim_sectors"
  by (simp_all add: placed_def sp_placed_def sim_layout_def sim_sectors_def blk_base_replicate)

lemma sim_erased_ok: "cfi_ok sim_sectors (sim_ready sim_sectors) sim_erased"
  by (rule sim_cfi_ok) simp

section \<open>Configuration and NVRAM\<close>

text \<open>
  C1. Storing the configuration.  \<open>kerSysPersistentSet\<close> returns 0 or -1, leaves the driver
  usable, and changes no sector outside of the configuration's.  When it returns 0 the device
  holds the new bytes at their place and every other byte of the device is as before, and
  \<open>kerSysPersistentGet\<close> returns what was stored.
\<close>

theorem kerSysPersistentSet_get:
  assumes "amd_chip nc ready bypass cells geom" "cfi_ok geom ready s"
    and "placed geom (flash_persistent_start_blk fi) (flash_persistent_number_blk fi)
      (flash_persistent_blk_offset fi) (flash_persistent_length fi)"
    and "0 \<le> offset" "offset + int n \<le> flash_persistent_length fi" "n \<le> length string" "n \<le> length buf"
    and "\<And>z. km z"
    and "p = section_pos geom (flash_persistent_start_blk fi) (flash_persistent_blk_offset fi) offset"
  shows "\<exists>r s'. kerSysPersistentSet fi km (Some (flash_cfi_dev nc did name)) string (int n) offset s = Some (r, s') \<and>
    cfi_ok geom ready s' \<and> (r = 0 \<or> r = -1) \<and>
    (\<forall>i<length geom. int i < flash_persistent_start_blk fi \<or>
         flash_persistent_start_blk fi + flash_persistent_number_blk fi \<le> int i \<longrightarrow>
       cfi_contents geom cells s' ! i = cfi_contents geom cells s ! i) \<and>
    (r = 0 \<longrightarrow>
       concat (cfi_contents geom cells s') =
         take p (concat (cfi_contents geom cells s)) @ take n string @ drop (p + n) (concat (cfi_contents geom cells s)) \<and>
       (\<exists>s''. kerSysPersistentGet fi km (Some (flash_cfi_dev nc did name)) buf (int n) offset s' =
          Some (0, take n string @ drop n buf, s'')))"
  unfolding kerSysPersistentSet_def kerSysPersistentGet_def by (rule section_set_get [OF assms])

theorem kerSysPersistentSet_get_witness:
  "\<exists>r s'. kerSysPersistentSet sim_layout (\<lambda>z. True) sim_dev [1, 2, 3] 3 100 sim_erased = Some (r, s') \<and>
    (r = 0 \<or> r = -1) \<and>
    (r = 0 \<longrightarrow> (\<exists>s''. kerSysPersistentGet sim_layout (\<lambda>z. True) sim_dev [0, 0, 0, 0] 3 100 s' =
       Some (0, [1, 2, 3, 0], s'')))"
  using kerSysPersistentSet_get [OF nor8.amd_chip_axioms sim_erased_ok sim_layout_placed(1),
      of 100 3 "[1, 2, 3]" "[0, 0, 0, 0]" "\<lambda>z. True", OF _ _ _ _ _ refl]
  by (fastforce simp: sim_layout_def)

text \<open>
  C17. On a chip that does not fail, \<open>kerSysNvRamSet\<close> returns 0, stores the bytes at their
  place in the NVRAM section and nothing else, and \<open>kerSysNvRamGet\<close> reads them back.
\<close>

theorem kerSysNvRamSet_reliable:
  assumes "reliable_amd_chip nc ready bypass cells geom" "cfi_ok geom ready s"
    and "placed geom (flash_nvram_start_blk fi) (flash_nvram_number_blk fi) (flash_nvram_blk_offset fi) 1024"
    and "0 \<le> offset" "offset + int n \<le> 1024" "n \<le> length string" "n \<le> length buf"
    and "\<And>z. km z"
    and "p = section_pos geom (flash_nvram_start_blk fi) (flash_nvram_blk_offset fi) offset"
  shows "\<exists>s'. kerSysNvRamSet fi km (Some (flash_cfi_dev nc did name)) string (int n) offset s = Some (0, s') \<and>
    cfi_ok geom ready s' \<and>
    concat (cfi_contents geom cells s') =
      take p (concat (cfi_contents geom cells s)) @ take n string @ drop (p + n) (concat (cfi_contents geom cells s)) \<and>
    (\<exists>s''. kerSysNvRamGet fi km (Some (flash_cfi_dev nc did name)) buf (int n) offset s' =
       Some (0, take n string @ drop n buf, s''))"
  unfolding kerSysNvRamSet_def kerSysNvRamGet_def by (rule section_set_get_reliable [OF assms])

theorem kerSysNvRamSet_reliable_witness:
  "\<exists>s'. kerSysNvRamSet sim_layout (\<lambda>z. True) sim_dev [1, 2, 3] 3 100 sim_erased = Some (0, s') \<and>
    (\<exists>s''. kerSysNvRamGet sim_layout (\<lambda>z. True) sim_dev [0, 0, 0, 0] 3 100 s' = Some (0, [1, 2, 3, 0], s''))"
  using kerSysNvRamSet_reliable [OF nor8.reliable_amd_chip_axioms sim_erased_ok sim_layout_placed(2),
      of 100 3 "[1, 2, 3]" "[0, 0, 0, 0]" "\<lambda>z. True", OF _ _ _ _ _ refl]
  by fastforce

text \<open>
  On a chip that does not fail, \<open>kerSysEraseNvRam\<close> reports success (1) and leaves the
  1024 bytes of the NVRAM section at \<open>0xff\<close> and every other byte of the device as it was.
\<close>

lemma kerSysEraseNvRam_reliable:
  assumes chip: "reliable_amd_chip nc ready bypass cells geom" and s: "cfi_ok geom ready s"
    and pl: "placed geom (flash_nvram_start_blk fi) (flash_nvram_number_blk fi) (flash_nvram_blk_offset fi) 1024"
    and km: "\<And>z. km z"
    and p: "p = section_pos geom (flash_nvram_start_blk fi) (flash_nvram_blk_offset fi) 0"
  shows "\<exists>s'. kerSysEraseNvRam fi km (Some (flash_cfi_dev nc did name)) s = Some (1, s') \<and> cfi_ok geom ready s' \<and>
    concat (cfi_contents geom cells s') =
      take p (concat (cfi_contents geom cells s)) @ replicate 1024 0xff @ drop (p + 1024) (concat (cfi_contents geom cells s))"
  using section_set_get_reliable [where km = km and did = did and name = name and n = 1024
      and string = "replicate 1024 0xff" and buf = "replicate 1024 0" and offset = 0, OF chip s pl _ _ _ _ km p] km
  by (auto simp: kerSysEraseNvRam_def kerSysNvRamSet_def)

lemma kerSysEraseNvRam_reliable_witness:
  "\<exists>s'. kerSysEraseNvRam sim_layout (\<lambda>z. True) sim_dev sim_erased = Some (1, s') \<and>
    cfi_ok sim_sectors (sim_ready sim_sectors) s'"
  using kerSysEraseNvRam_reliable [OF nor8.reliable_amd_chip_axioms sim_erased_ok sim_layout_placed(2) _ refl,
      of "\<lambda>z. True"] by blast

section \<open>Scratch pad\<close>

lemma sp_bytes_replace:
  assumes "concat cs' = take (sp_pos fi geom) F @ bs @ drop q F" "sp_pos fi geom \<le> length F"
    and "length bs = nat (flash_scratch_pad_length fi)"
  shows "sp_bytes fi geom cs' = bs"
  using assms by (simp add: sp_bytes_def)

lemma sp_pos_le:
  assumes "sp_placed fi geom" "map length cs = geom"
  shows "sp_pos fi geom \<le> length (concat cs)"
proof -
  have "length (concat cs) = sum_list geom" using assms(2) by (simp add: length_concat)
  then show ?thesis
    using assms(1) blk_base_le_total [of geom "nat (flash_scratch_pad_start_blk fi + flash_scratch_pad_number_blk fi)"]
    unfolding sp_placed_def placed_def sp_pos_def section_pos_def by linarith
qed

lemmas cfi_scratchPadSet = flash_device.scratchPadSet_eq [OF amd_chip.cfi_device]
lemmas cfi_scratchPadGet = flash_device.scratchPadGet_eq [OF amd_chip.cfi_device]
lemmas cfi_shape = flash_device.contents_shape [OF amd_chip.cfi_device]

text \<open>
  C2. The scratch pad is a map from token names to data.  When the pad holds the map \<open>m\<close>
  and has room, \<open>kerSysScratchPadSet\<close> returns 0 or -1; when it returns 0 the pad holds
  \<open>m\<close> with the name set to the new data, whether the name was new, had data of the same
  length or of another length, and every byte of the device outside of the pad is as before.  A lookup
  of any name then returns the length and the data of the updated map, or -1.
\<close>

theorem kerSysScratchPadSet_get:
  assumes chip: "amd_chip nc ready bypass cells geom" and s: "cfi_ok geom ready s"
    and pl: "sp_placed fi geom" and km: "\<And>z. km z"
    and st: "sp_store (nat (flash_scratch_pad_length fi)) (sp_bytes fi geom (cfi_contents geom cells s)) m used"
    and nm: "name_ok nm" and n: "0 < n" "n \<le> length t" "int (used + 20 + up4 n + 20) \<le> flash_scratch_pad_length fi"
    and key: "name_ok key" and b: "k \<le> length tokBuf" "int k + 52 < flash_scratch_pad_length fi"
  shows "\<exists>r s'. kerSysScratchPadSet fi km (Some (flash_cfi_dev nc did name)) (nm @ [0]) (Some t) (int n) s = Some (r, s') \<and>
    (r = 0 \<or> r = -1) \<and> cfi_ok geom ready s' \<and>
    (r = 0 \<longrightarrow>
      (\<exists>used'. sp_store (nat (flash_scratch_pad_length fi)) (sp_bytes fi geom (cfi_contents geom cells s'))
         (m(nm \<mapsto> take n t)) used') \<and>
      take (sp_pos fi geom) (concat (cfi_contents geom cells s')) = take (sp_pos fi geom) (concat (cfi_contents geom cells s)) \<and>
      drop (sp_pos fi geom + nat (flash_scratch_pad_length fi)) (concat (cfi_contents geom cells s')) =
        drop (sp_pos fi geom + nat (flash_scratch_pad_length fi)) (concat (cfi_contents geom cells s)) \<and>
      (\<exists>s''. kerSysScratchPadGet fi km (Some (flash_cfi_dev nc did name)) (key @ [0]) tokBuf (int k) s' =
         Some (fst (sp_answer (m(nm \<mapsto> take n t)) key tokBuf k), snd (sp_answer (m(nm \<mapsto> take n t)) key tokBuf k), s'')))"
proof -
  let ?F = "concat (cfi_contents geom cells s)" and ?dev = "Some (flash_cfi_dev nc did name)"
  obtain r s' sec' used' where set:
    "kerSysScratchPadSet fi km ?dev (nm @ 0 # []) (Some t) (int n) s = Some (r, s')" "r = 0 \<or> r = -1"
    "cfi_ok geom ready s'" "length sec' = nat (flash_scratch_pad_length fi)"
    "sp_store (nat (flash_scratch_pad_length fi)) sec' (m(nm \<mapsto> take n t)) used'"
    "r = 0 \<longrightarrow> concat (cfi_contents geom cells s') =
       take (sp_pos fi geom) ?F @ sec' @ drop (sp_pos fi geom + nat (flash_scratch_pad_length fi)) ?F"
    using cfi_scratchPadSet [where km = km and did = did and name = name and s = "[]", OF chip s pl km st nm n] by blast
  have pos: "sp_pos fi geom \<le> length ?F" by (rule sp_pos_le [OF pl cfi_shape [OF chip s]])
  have store: "sp_store (nat (flash_scratch_pad_length fi)) (sp_bytes fi geom (cfi_contents geom cells s'))
      (m(nm \<mapsto> take n t)) used'" if "r = 0"
    using set(5) sp_bytes_replace [OF _ pos set(4)] set(6) that by metis
  have get: "\<exists>s''. kerSysScratchPadGet fi km ?dev (key @ 0 # []) tokBuf (int k) s' =
      Some (fst (sp_answer (m(nm \<mapsto> take n t)) key tokBuf k), snd (sp_answer (m(nm \<mapsto> take n t)) key tokBuf k), s'')"
    if "r = 0"
    using cfi_scratchPadGet [where km = km and did = did and name = name and s = "[]",
        OF chip set(3) pl km store [OF that] key b] by blast
  show ?thesis
    using set(1-4,6) store get pos by (intro exI [of _ r] exI [of _ s']) auto
qed

lemma concat_replicates: "concat (replicate m (replicate n x)) = replicate (m * n) x"
  by (induction m) (simp_all add: replicate_add)

lemma sim_erased_pad:
  "sp_store (nat (flash_scratch_pad_length sim_layout))
     (sp_bytes sim_layout sim_sectors (cfi_contents sim_sectors cells sim_erased)) Map.empty 32"
proof -
  have "concat (replicate 8 (replicate 0x10000 0xff)) = replicate (8 * 0x10000) (0xff :: 8 word)"
    by (rule concat_replicates)
  then show ?thesis
    unfolding sim_erased_contents
    by (simp add: sp_store_def sp_blank_def sp_bytes_def sp_pos_def section_pos_def sim_layout_def
        sim_sectors_def blk_base_replicate)
qed

theorem kerSysScratchPadSet_get_witness:
  "\<exists>r s'. kerSysScratchPadSet sim_layout (\<lambda>z. True) sim_dev ([0x41, 0x42] @ [0]) (Some [7, 8, 9]) 3 sim_erased = Some (r, s') \<and>
    (r = 0 \<or> r = -1) \<and>
    (r = 0 \<longrightarrow> (\<exists>s''. kerSysScratchPadGet sim_layout (\<lambda>z. True) sim_dev ([0x41, 0x42] @ [0]) [0, 0, 0, 0] 4 s' =
       Some (3, [7, 8, 9, 0], s'')))"
  using kerSysScratchPadSet_get [OF nor8.amd_chip_axioms sim_erased_ok sim_layout_placed(3) _ sim_erased_pad,
      of "\<lambda>z. True" "[0x41, 0x42]" 3 "[7, 8, 9]" "[0x41, 0x42]" 4 "[0, 0, 0, 0]"]
  by (fastforce simp: sim_layout_def name_ok_def up4_def sp_answer_def)

text \<open>
  On a chip that does not fail, storing a token that fits succeeds.
\<close>

lemma kerSysScratchPadSet_reliable:
  assumes "reliable_amd_chip nc ready bypass cells geom" "cfi_ok geom ready s"
    and "sp_placed fi geom" "\<And>z. km z"
    and "sp_store (nat (flash_scratch_pad_length fi)) (sp_bytes fi geom (cfi_contents geom cells s)) m used"
    and "name_ok nm" "0 < n" "n \<le> length t" "int (used + 20 + up4 n + 20) \<le> flash_scratch_pad_length fi"
  shows "\<exists>s'. kerSysScratchPadSet fi km (Some (flash_cfi_dev nc did name)) (nm @ 0 # rest) (Some t) (int n) s = Some (0, s')"
  by (rule reliable_flash_device.scratchPadSet_reliable
      [OF reliable_amd_chip.cfi_reliable_device [OF assms(1)] assms(2,3) _ assms(5-9)]) (rule assms(4))

lemma kerSysScratchPadSet_reliable_witness:
  "\<exists>s'. kerSysScratchPadSet sim_layout (\<lambda>z. True) sim_dev ([0x41, 0x42] @ [0]) (Some [7, 8, 9]) 3 sim_erased = Some (0, s')"
  using kerSysScratchPadSet_reliable [OF nor8.reliable_amd_chip_axioms sim_erased_ok sim_layout_placed(3) _ sim_erased_pad,
      of "\<lambda>z. True" "[0x41, 0x42]" 3 "[7, 8, 9]"]
  by (fastforce simp: sim_layout_def name_ok_def up4_def)

text \<open>A pad with one token of four bytes, and the device that holds it.\<close>

definition sim_pad :: bytes where
  "sim_pad = sp_header @ toks_bytes [([0x41, 0x42], [7, 8, 9, 10], [])] @ replicate (0x2000 - 56) 0xff"

definition sim_flash :: bytes where
  "sim_flash = replicate 0x78000 0xff @ sim_pad @ replicate 0x6000 0xff"

abbreviation sim_stored :: "sim cfi_state" where
  "sim_stored \<equiv> sim_cfi (words_of sim_flash)"

lemma sim_pad_section:
  "sp_section 0x2000 sim_pad [([0x41, 0x42], [7, 8, 9, 10], [])]" "length sim_pad = 0x2000"
proof -
  have tok: "tok_ok 0x2000 ([0x41, 0x42], [7, 8, 9, 10], [])" by (simp add: name_ok_def up4_def)
  then have "length (toks_bytes [([0x41, 0x42], [7, 8, 9, 10], [])]) = 24"
    using length_tok_bytes [OF tok] by (simp add: toks_bytes_def up4_def)
  then show "sp_section 0x2000 sim_pad [([0x41, 0x42], [7, 8, 9, 10], [])]"
    unfolding sim_pad_def using tok by (intro sp_sectionI) simp_all
  then show "length sim_pad = 0x2000" by (rule length_sp_section)
qed

lemma sim_stored_pad:
  "cfi_ok sim_sectors (sim_ready sim_sectors) sim_stored"
  "sp_section (nat (flash_scratch_pad_length sim_layout))
     (sp_bytes sim_layout sim_sectors (cfi_contents sim_sectors cells sim_stored)) [([0x41, 0x42], [7, 8, 9, 10], [])]"
proof -
  have F: "length sim_flash = 0x80000" using sim_pad_section(2) by (simp add: sim_flash_def)
  show "cfi_ok sim_sectors (sim_ready sim_sectors) sim_stored" by (rule sim_contents(2) [OF F])
  have "sp_pos sim_layout sim_sectors = 0x78000"
    by (simp add: sp_pos_def section_pos_def sim_layout_def sim_sectors_def blk_base_replicate)
  then have "sp_bytes sim_layout sim_sectors (cfi_contents sim_sectors cells sim_stored) = sim_pad"
    using sim_contents(1) [OF F] sim_pad_section(2) by (simp add: sp_bytes_def sim_flash_def sim_layout_def)
  then show "sp_section (nat (flash_scratch_pad_length sim_layout))
     (sp_bytes sim_layout sim_sectors (cfi_contents sim_sectors cells sim_stored)) [([0x41, 0x42], [7, 8, 9, 10], [])]"
    using sim_pad_section(1) by (simp add: sim_layout_def)
qed

text \<open>
  A token that does not fit in the pad is refused: the call returns -1 and the device is
  unchanged.
\<close>

lemma kerSysScratchPadSet_full:
  assumes "amd_chip nc ready bypass cells geom" "cfi_ok geom ready s"
    and "sp_placed fi geom" "\<And>z. km z"
    and "sp_section (nat (flash_scratch_pad_length fi)) (sp_bytes fi geom (cfi_contents geom cells s)) toks"
    and "int n < flash_scratch_pad_length fi" "flash_scratch_pad_length fi < int (32 + length (toks_bytes toks) + 20 + n)"
  shows "\<exists>s'. kerSysScratchPadSet fi km (Some (flash_cfi_dev nc did name)) tok tb (int n) s = Some (-1, s') \<and>
    cfi_ok geom ready s' \<and> cfi_contents geom cells s' = cfi_contents geom cells s"
  by (rule flash_device.scratchPadSet_full [OF amd_chip.cfi_device [OF assms(1)] assms(2,3) _ assms(5-7)]) (rule assms(4))

lemma kerSysScratchPadSet_full_witness:
  "\<exists>s'. kerSysScratchPadSet sim_layout (\<lambda>z. True) sim_dev ([0x43] @ [0]) (Some (replicate 8191 1)) 8191 sim_stored = Some (-1, s') \<and>
    cfi_contents sim_sectors cells s' = cfi_contents sim_sectors cells sim_stored"
  using kerSysScratchPadSet_full [OF nor8.amd_chip_axioms sim_stored_pad(1) sim_layout_placed(3) _ sim_stored_pad(2),
      of "\<lambda>z. True" 8191]
  by (fastforce simp: sim_layout_def)

text \<open>
  C20. Deleting a token (a null buffer).  When the call returns 0 the pad holds the map without
  the name, and every byte of the device outside of the pad is as before.
\<close>

theorem kerSysScratchPadSet_delete:
  assumes chip: "amd_chip nc ready bypass cells geom" and s: "cfi_ok geom ready s"
    and pl: "sp_placed fi geom" and km: "\<And>z. km z"
    and st: "sp_section (nat (flash_scratch_pad_length fi)) (sp_bytes fi geom (cfi_contents geom cells s)) toks"
      "sp_fits (nat (flash_scratch_pad_length fi)) toks 0"
    and nm: "name_ok nm"
  shows "\<exists>r s'. kerSysScratchPadSet fi km (Some (flash_cfi_dev nc did name)) (nm @ 0 # rest) None 0 s = Some (r, s') \<and>
    (r = 0 \<or> r = -1) \<and> cfi_ok geom ready s' \<and>
    (r = 0 \<longrightarrow>
      (\<exists>used'. sp_store (nat (flash_scratch_pad_length fi)) (sp_bytes fi geom (cfi_contents geom cells s'))
         ((sp_map toks)(nm := None)) used') \<and>
      take (sp_pos fi geom) (concat (cfi_contents geom cells s')) = take (sp_pos fi geom) (concat (cfi_contents geom cells s)) \<and>
      drop (sp_pos fi geom + nat (flash_scratch_pad_length fi)) (concat (cfi_contents geom cells s')) =
        drop (sp_pos fi geom + nat (flash_scratch_pad_length fi)) (concat (cfi_contents geom cells s)))"
proof -
  let ?F = "concat (cfi_contents geom cells s)" and ?dev = "Some (flash_cfi_dev nc did name)"
  obtain r s' sec' used' where set:
    "kerSysScratchPadSet fi km ?dev (nm @ 0 # rest) None 0 s = Some (r, s')" "r = 0 \<or> r = -1"
    "cfi_ok geom ready s'" "length sec' = nat (flash_scratch_pad_length fi)"
    "sp_store (nat (flash_scratch_pad_length fi)) sec' ((sp_map toks)(nm := None)) used'"
    "r = 0 \<longrightarrow> concat (cfi_contents geom cells s') =
       take (sp_pos fi geom) ?F @ sec' @ drop (sp_pos fi geom + nat (flash_scratch_pad_length fi)) ?F"
    using flash_device.scratchPadSet_delete [where km = km and s = rest,
        OF amd_chip.cfi_device [OF chip] s pl km st nm] by blast
  have pos: "sp_pos fi geom \<le> length ?F" by (rule sp_pos_le [OF pl cfi_shape [OF chip s]])
  have "sp_store (nat (flash_scratch_pad_length fi)) (sp_bytes fi geom (cfi_contents geom cells s'))
      ((sp_map toks)(nm := None)) used'" if "r = 0"
    using set(5) sp_bytes_replace [OF _ pos set(4)] set(6) that by metis
  then show ?thesis using set(1-4,6) pos by (intro exI [of _ r] exI [of _ s']) auto
qed

theorem kerSysScratchPadSet_delete_witness:
  "\<exists>r s'. kerSysScratchPadSet sim_layout (\<lambda>z. True) sim_dev ([0x41, 0x42] @ [0]) None 0 sim_stored = Some (r, s') \<and>
    (r = 0 \<longrightarrow> (\<exists>used'. sp_store 0x2000 (sp_bytes sim_layout sim_sectors (cfi_contents sim_sectors cells s')) Map.empty used'))"
proof -
  have "length (toks_bytes [([0x41, 0x42], [7, 8, 9, 10], [])]) = 24"
    by (simp add: toks_bytes_def tok_bytes.simps)
  then have "sp_fits (nat (flash_scratch_pad_length sim_layout)) [([0x41, 0x42], [7, 8, 9, 10], [])] 0"
    by (simp add: sp_fits_def sim_layout_def up4_def)
  from kerSysScratchPadSet_delete [OF nor8.amd_chip_axioms sim_stored_pad(1) sim_layout_placed(3) _ sim_stored_pad(2) this,
      of "\<lambda>z. True" "[0x41, 0x42]" ID_AM29LV400B "''AM29LV400B''" "[]"]
  show ?thesis by (fastforce simp: name_ok_def sp_map_def sim_layout_def)
qed

text \<open>
  \<open>kerSysScratchPadClearAll\<close> returns 0 or -1; when it returns 0, every byte of the blocks
  that hold the pad is 0, and every byte of the other blocks is as before.  Bytes of another
  section that shares the blocks are cleared too.
\<close>

lemma kerSysScratchPadClearAll_clears:
  assumes chip: "amd_chip nc ready bypass cells geom" and s: "cfi_ok geom ready s"
    and pl: "sp_placed fi geom" and km: "\<And>z. km z"
    and ab: "a = blk_base geom (nat (flash_scratch_pad_start_blk fi))"
      "b = blk_base geom (nat (flash_scratch_pad_start_blk fi + flash_scratch_pad_number_blk fi))"
  shows "\<exists>r s'. kerSysScratchPadClearAll fi km (Some (flash_cfi_dev nc did name)) s = Some (r, s') \<and>
    (r = 0 \<or> r = -1) \<and> cfi_ok geom ready s' \<and>
    (r = 0 \<longrightarrow> concat (cfi_contents geom cells s') =
       take a (concat (cfi_contents geom cells s)) @ replicate (b - a) 0 @ drop b (concat (cfi_contents geom cells s)))"
  by (rule flash_device.scratchPadClearAll_eq [OF amd_chip.cfi_device [OF chip] s pl _ ab]) (rule km)

lemma kerSysScratchPadClearAll_clears_witness:
  "\<exists>r s'. kerSysScratchPadClearAll sim_layout (\<lambda>z. True) sim_dev sim_stored = Some (r, s') \<and> (r = 0 \<or> r = -1) \<and>
    (r = 0 \<longrightarrow> concat (cfi_contents sim_sectors cells s') =
       take 0x70000 (concat (cfi_contents sim_sectors cells sim_stored)) @ replicate 0x10000 0 @
       drop 0x80000 (concat (cfi_contents sim_sectors cells sim_stored)))"
proof -
  have ab: "0x70000 = blk_base sim_sectors (nat (flash_scratch_pad_start_blk sim_layout))"
    "0x80000 = blk_base sim_sectors (nat (flash_scratch_pad_start_blk sim_layout + flash_scratch_pad_number_blk sim_layout))"
    by (simp_all add: sim_layout_def sim_sectors_def blk_base_replicate)
  from kerSysScratchPadClearAll_clears [OF nor8.amd_chip_axioms sim_stored_pad(1) sim_layout_placed(3) _ ab,
      of "\<lambda>z. True" ID_AM29LV400B "''AM29LV400B''"]
  show ?thesis by force
qed

section \<open>Flashing an image\<close>

text \<open>
  C3. Flashing an image into sectors that hold no configuration, other than an image of the whole flash
  (one at the start of the flash that is longer than the offset of the root file system).  The call
  returns; no sector other than those of the image changes; the result is 0 or the number of one of the
  sectors from the first of the image on.  For an image that starts behind sector 0 the result 0 means
  that the device holds it from the start of the first sector on; it may end in the middle of a sector
  and have an odd length.  For an image that starts in sector 0 the result 0 means nothing: the failure
  to store the part in the first sector is reported as that sector's number, which is 0 too.
\<close>

theorem kerSysBcmImageSet_stores:
  assumes chip: "amd_chip nc ready bypass cells geom" and s: "cfi_ok geom ready s"
    and ab: "a < b" "b \<le> length geom"
    and n: "blk_base geom (b - 1) < blk_base geom a + n" "blk_base geom a + n \<le> blk_base geom b" "n + n mod 2 \<le> length string"
    and psi: "flash_persistent_start_blk fi < int a \<or> int b \<le> flash_persistent_start_blk fi"
    and part: "0 < x \<or> int n \<le> flash_rootfs_start_offset fi"
    and x: "blk_base geom a \<le> x" "x < blk_base geom (Suc a)"
    and dev: "dev = Some (flash_cfi_dev nc did name)"
  shows "\<exists>r s'. kerSysBcmImageSet km user_ok fi dev (FLASH_BASE + int x) string (int n) s = Some (r, s') \<and>
    cfi_ok geom ready s' \<and> (r = 0 \<or> int a \<le> r) \<and>
    (\<forall>i<length geom. i < a \<or> b \<le> i \<longrightarrow> cfi_contents geom cells s' ! i = cfi_contents geom cells s ! i) \<and>
    (r = 0 \<and> 0 < a \<longrightarrow> take n (drop (blk_base geom a) (concat (cfi_contents geom cells s'))) = take n string) \<and>
    (\<forall>r0 s0 k s1. a = 0 \<and> flash_sector_erase_int dev 0 s = Some (r0, s0) \<and>
      flash_write_buf dev 0 0 string (int (if n < geom ! 0 then n + n mod 2 else geom ! 0)) s0 = Some (k, s1) \<and>
      k \<noteq> int (if n < geom ! 0 then n + n mod 2 else geom ! 0) \<longrightarrow> r = 0 \<and> s' = s1)"
proof -
  note fd = amd_chip.cfi_device [OF chip, of did name]
  obtain r s' where r: "kerSysBcmImageSet km user_ok fi dev (FLASH_BASE + int x) string (int n) s = Some (r, s')"
      "cfi_ok geom ready s'" "r = 0 \<or> int a \<le> r"
      "\<forall>i<length geom. i < a \<or> b \<le> i \<longrightarrow> cfi_contents geom cells s' ! i = cfi_contents geom cells s ! i"
      "r = 0 \<and> 0 < a \<longrightarrow> take n (drop (blk_base geom a) (concat (cfi_contents geom cells s'))) = take n string"
    using flash_device.image_set_eq [OF fd s ab n psi part x, of km user_ok] dev by auto
  have nb: "n < 0x40000000" using n(2) flash_device.total_range [OF fd, of b] by linarith
  have "r = 0 \<and> s' = s1"
    if "a = 0" "flash_sector_erase_int dev 0 s = Some (r0, s0)"
      "flash_write_buf dev 0 0 string (int (if n < geom ! 0 then n + n mod 2 else geom ! 0)) s0 = Some (k, s1)"
      "k \<noteq> int (if n < geom ! 0 then n + n mod 2 else geom ! 0)" for r0 s0 k s1
  proof -
    have p: "flash_persistent_start_blk fi \<noteq> 0" "x < blk_base geom 1" "0 < n"
      using that(1) psi x(2) ab n(1) by (auto simp: blk_base_def)
    show ?thesis
      using flash_device.image_set_first_fails [OF fd s p(3) nb p(1) part p(2) refl, of r0 s0 string k s1 km user_ok]
        that(2-4) r(1) dev by simp
  qed
  then show ?thesis using r by blast
qed

theorem kerSysBcmImageSet_stores_witness:
  "\<exists>r s'. kerSysBcmImageSet (\<lambda>z. True) True sim_layout sim_dev (FLASH_BASE + 0x10000) [1, 2, 3, 4] 3 sim_erased =
      Some (r, s') \<and> (r = 0 \<or> 1 \<le> r) \<and>
    (r = 0 \<longrightarrow> take 3 (drop 0x10000 (concat (cfi_contents sim_sectors cells s'))) = [1, 2, 3])"
proof -
  have g: "blk_base sim_sectors 1 = 0x10000" "blk_base sim_sectors 2 = 0x20000" "length sim_sectors = 8"
    by (simp_all add: sim_sectors_def blk_base_replicate)
  then show ?thesis
    using kerSysBcmImageSet_stores [where a = 1 and b = 2 and n = 3 and string = "[1, 2, 3, 4]" and fi = sim_layout and x = "0x10000"
          and km = "\<lambda>z. True" and user_ok = True and did = ID_AM29LV400B and name = "''AM29LV400B''",
        OF nor8.amd_chip_axioms sim_erased_ok _ _ _ _ _ _ _ _ _ refl]
    by (fastforce simp: sim_layout_def numeral_2_eq_2)
qed



end
