(* ===== verification/Cfi_Properties.thy ===== *)
theory Cfi_Properties
  imports Nor_Sim
begin

text \<open>
  What the parallel flash driver guarantees by itself: the sector table made from a CFI query,
  the sector of an address, reading back what was programmed, and the state it is left in by a
  write of odd length.
\<close>

section \<open>The sector table\<close>

lemma cfi_set_table_holds:
  assumes r: "\<And>i. i < nat (num_erase_blocks (query s)) \<Longrightarrow>
        i < 8 \<and> 0 < erase_num_sectors (query s) i \<and> 0 < erase_sector_size (query s) i \<and> even (erase_sector_size (query s) i)"
    and g: "geom = region_sectors (query s) (cfi_regions flip (query s))" "geom \<noteq> []" "length geom \<le> MAXSECTORS"
      "int (sum_list geom) \<le> device_size (query s)" "sum_list geom \<le> 0x4000000"
  shows "\<exists>t. cfi_set_table flip s = Some (s\<lparr>meminfo := (meminfo s)\<lparr>nsect := int (length geom), sec := t\<rparr>,
      totalSize := int (sum_list geom)\<rparr>) \<and> table_holds t geom"
proof -
  have reg: "i \<in> set (cfi_regions flip (query s)) \<Longrightarrow> i < nat (num_erase_blocks (query s))" for i
    by (auto simp: cfi_regions_def split: if_splits)
  obtain t where t: "cfi_fill_table (query s) (cfi_regions flip (query s)) (0, 0, sec (meminfo s)) =
      Some (int (length geom), int (sum_list geom), t)" "table_holds t geom"
    using cfi_fill_table_holds [of "sec (meminfo s)" "[]" "cfi_regions flip (query s)" "query s"] r reg g
    by (auto simp: table_holds_def)
  let ?l = "length geom - 1"
  have l: "?l < length geom" "nat (int (length geom) - 1) = ?l" using g(2) by (cases geom; simp)+
  have "sec_base (t ?l) + sec_size (t ?l) = int (sum_list geom)"
    using t(2) l(1) blk_base_Suc [OF l(1)] g(2) by (simp add: table_holds_def)
  moreover have "s32 (int (sum_list geom)) = int (sum_list geom)" using g(5) by (intro s32_id) simp_all
  ultimately show ?thesis using t g(2) l(2) by (auto simp: cfi_set_table_def)
qed

text \<open>
  C18. The sector table.  For a CFI query whose erase regions have positive, even sector sizes
  and fit in the device, filling the table succeeds and the table is the contiguous layout of
  the sectors the regions describe, in region order or, for top boot parts, in reverse order:
  the number of sectors, the total size, and the size and base address of every sector.
\<close>

theorem cfi_set_table_geom:
  assumes r: "\<And>i. i < nat (num_erase_blocks (query s)) \<Longrightarrow>
        i < 8 \<and> 0 < erase_num_sectors (query s) i \<and> 0 < erase_sector_size (query s) i \<and> even (erase_sector_size (query s) i)"
    and g: "geom = region_sectors (query s) (cfi_regions flip (query s))" "geom \<noteq> []" "length geom \<le> MAXSECTORS"
      "int (sum_list geom) \<le> device_size (query s)" "sum_list geom \<le> 0x4000000"
  shows "\<exists>s'. cfi_set_table flip s = Some s' \<and> cfi_geom s' geom \<and> chip s' = chip s \<and> query s' = query s"
proof -
  have "0 < n \<and> even n" if n: "n \<in> set geom" for n
  proof -
    obtain i where "i \<in> set (cfi_regions flip (query s))" "n = nat (erase_sector_size (query s) i)"
      using n unfolding g(1) region_sectors_def by auto
    then show ?thesis using r [of i] by (auto simp: cfi_regions_def even_nat_iff split: if_splits)
  qed
  then show ?thesis
    using cfi_set_table_holds [OF r g] g by (auto simp: cfi_geom_def table_holds_def)
qed

text \<open>The query of the 29W160 table.\<close>

definition query_29W160 :: cfi_query where
  "query_29W160 =
     \<lparr>num_erase_blocks = 4, device_size = 0x200000,
      erase_sector_size = \<lambda>i. [0x4000, 0x2000, 0x8000, 0x10000, 0, 0, 0, 0] ! i,
      erase_num_sectors = \<lambda>i. [1, 2, 1, 31, 0, 0, 0, 0] ! i\<rparr>"

lemma regions_29W160:
  "cfi_regions False query_29W160 = [0, 1, 2, 3]"
  "region_sectors query_29W160 [0, 1, 2, 3] = [0x4000, 0x2000, 0x2000, 0x8000] @ replicate 31 0x10000"
  by (simp_all add: cfi_regions_def query_29W160_def region_sectors_def upt_rec numeral_2_eq_2)

theorem cfi_set_table_geom_witness:
  "\<exists>s'. cfi_set_table False ((sim_cfi [])\<lparr>query := query_29W160\<rparr>) = Some s' \<and>
    cfi_geom s' ([0x4000, 0x2000, 0x2000, 0x8000] @ replicate 31 0x10000)"
proof -
  have "i < 8 \<and> 0 < erase_num_sectors query_29W160 i \<and> 0 < erase_sector_size query_29W160 i \<and> even (erase_sector_size query_29W160 i)"
    if "i < nat (num_erase_blocks query_29W160)" for i
  proof -
    have "i = 0 \<or> i = 1 \<or> i = 2 \<or> i = 3" using that by (auto simp: query_29W160_def)
    then show ?thesis by (auto simp: query_29W160_def)
  qed
  then show ?thesis
    using cfi_set_table_geom [of "(sim_cfi [])\<lparr>query := query_29W160\<rparr>"
        "[0x4000, 0x2000, 0x2000, 0x8000] @ replicate 31 0x10000" False] regions_29W160
    by (auto simp: sum_list_replicate query_29W160_def)
qed

text \<open>
  C19. \<open>cfi_flash_get_blk\<close> finds the sector of an address: the one sector whose bytes contain
  it, and -1 for an address below or above the device.
\<close>

theorem cfi_flash_get_blk_exact:
  assumes "cfi_geom s geom" "- 0x40000000 \<le> rel" "rel < 0x40000000"
  shows "cfi_flash_get_blk (s32 (FLASH_BASE + rel)) s =
     Some (if 0 \<le> rel \<and> rel < int (sum_list geom) then int (blk_of geom (nat rel)) else -1)"
  by (rule cfi_flash_get_blk_eq [OF assms])

theorem cfi_flash_get_blk_exact_witness:
  "cfi_flash_get_blk (s32 (FLASH_BASE + 0x2FFFF)) (sim_cfi (replicate 0x40000 0)) = Some 2"
proof -
  have "cfi_geom (sim_cfi (replicate 0x40000 0)) sim_sectors"
    using sim_cfi_ok [of "replicate 0x40000 0"] by (simp add: cfi_ok_def)
  moreover have "blk_of sim_sectors 0x2FFFF = 2"
    by (rule blk_of_unique) (simp_all add: sim_sectors_def blk_base_replicate)
  ultimately show ?thesis
    using cfi_flash_get_blk_exact [where s = "sim_cfi (replicate 0x40000 0)" and geom = sim_sectors and rel = "0x2FFFF"]
    by (simp add: sim_sectors_def sum_list_replicate)
qed

section \<open>Programming\<close>

text \<open>
  C5. Programming and reading back.  A write of an even number of bytes at an even offset in a
  sector returns, keeps the driver usable and changes no other sector; when it reports all of
  its bytes, a read of the same place returns them.
\<close>

theorem cfi_flash_write_buf_read:
  assumes chip: "amd_chip nc ready bypass cells geom" and s: "cfi_ok geom ready s"
    and i: "i < length geom" "off + n \<le> geom ! i" "n \<le> length buf" "n \<le> length out" and ev: "even off" "even n"
  shows "\<exists>r s'. cfi_flash_write_buf nc (int i) (int off) buf (int n) s = Some (r, s') \<and> cfi_ok geom ready s' \<and>
    (\<forall>j<length geom. j \<noteq> i \<longrightarrow> cfi_contents geom cells s' ! j = cfi_contents geom cells s ! j) \<and>
    (r = int n \<longrightarrow> cfi_flash_read_buf nc (int i) (int off) out (int n) s' =
       Some (FLASH_API_OK, take n buf @ drop n out, s'))"
proof -
  obtain r x s' where w: "cfi_flash_write_buf nc (int i) (int off) buf (int n) s = Some (r, s')" "cfi_ok geom ready s'"
      "cfi_contents geom cells s' = (cfi_contents geom cells s)[i := x]" "length x = geom ! i"
      "r = int n \<longrightarrow> take n (drop off x) = take n buf"
    using amd_chip.contract_write [OF chip s i(1-3) ev] by blast
  have "cfi_contents geom cells s' ! i = x" using w(3) i(1) by (simp add: cfi_contents_def)
  then have "sector_bytes geom (cells (Cfi_Flash.chip s')) i = x" using contents_nth [OF i(1)] by metis
  then show ?thesis
    using w amd_chip.contract_read [OF chip w(2) i(1,2,4)] by (intro exI [of _ r] exI [of _ s']) auto
qed

theorem cfi_flash_write_buf_read_witness:
  "\<exists>r s'. cfi_flash_write_buf (sim_chip sim_sectors) 2 4 [1, 2, 3, 4] 4 (sim_cfi (replicate 0x40000 0xffff)) = Some (r, s') \<and>
    (r = 4 \<longrightarrow> cfi_flash_read_buf (sim_chip sim_sectors) 2 4 [0, 0, 0, 0] 4 s' = Some (FLASH_API_OK, [1, 2, 3, 4], s'))"
proof -
  have ok: "cfi_ok sim_sectors (sim_ready sim_sectors) (sim_cfi (replicate 0x40000 0xffff))"
    by (rule sim_cfi_ok) simp
  have "length sim_sectors = 8" "sim_sectors ! 2 = 0x10000" by (simp_all add: sim_sectors_def)
  then show ?thesis
    using cfi_flash_write_buf_read [OF nor8.amd_chip_axioms ok, of 2 4 4 "[1, 2, 3, 4]" "[0, 0, 0, 0]"] by fastforce
qed

section \<open>Odd writes\<close>

lemma down_idle: "\<not> in_interrupt s \<Longrightarrow> cfi_flash_lock s = 0 \<Longrightarrow> down_interruptible s = None"
  by (simp add: down_interruptible_def)

lemma cfi_flash_write_odd:
  assumes "\<not> in_interrupt s" "cfi_flash_lock s = Suc 0" "odd nbytes \<or> odd offset"
  shows "cfi_flash_write nc sector offset buf nbytes s = Some (FLASH_API_ERROR, s\<lparr>cfi_flash_lock := 0\<rparr>)"
  using assms by (auto simp: cfi_flash_write_def down_interruptible_def)

text \<open>
  A write of odd length or at an odd offset returns with the driver's semaphore taken.
  Outside of interrupt context the retry of \<open>cfi_flash_write_buf\<close> then waits forever, or, when
  the flash already holds the data, the call fails and every later read waits forever.
\<close>

lemma cfi_flash_write_buf_odd_blocks:
  assumes "\<not> in_interrupt s" "cfi_flash_lock s = Suc 0" "odd numbytes \<or> odd offset"
  shows "case cfi_flash_write_buf nc sector offset buffer numbytes s of
      None \<Rightarrow> True
    | Some (r, s') \<Rightarrow> r = FLASH_API_ERROR \<and> (\<forall>sect off out k. cfi_flash_read_buf nc sect off out k s' = None)"
proof -
  let ?stuck = "\<lambda>x. case x of None \<Rightarrow> True
    | Some (r, s') \<Rightarrow> r = FLASH_API_ERROR \<and> (\<forall>sect off out k. cfi_flash_read_buf nc sect off out k s' = None)"
  have blocked: "cfi_flash_read_buf nc sect off out k (s\<lparr>cfi_flash_lock := 0, chip := c\<rparr>) = None" for sect off out k c
    using assms(1) by (simp add: cfi_flash_read_buf_def down_idle)
  have erase: "cfi_flash_sector_erase_int nc sector (s\<lparr>cfi_flash_lock := 0, chip := c\<rparr>) = None" for c
    using assms(1) by (simp add: cfi_flash_sector_erase_int_def down_idle)
  have tries: "?stuck (cfi_write_tries nc (Suc k) sector offset buffer numbytes p s)" for k p
  proof (cases "mem_read 0 numbytes buffer")
    case None
    then show ?thesis by (simp add: cfi_flash_write_odd [OF assms])
  next
    case (Some src)
    obtain same c where "nor_memcmp nc p src (chip s) = (same, c)" by fastforce
    then show ?thesis using Some blocked erase by (simp add: cfi_flash_write_odd [OF assms] Let_def)
  qed
  show ?thesis
    using tries [of 2] by (cases "cfi_flash_get_memptr sector s") (simp_all add: cfi_flash_write_buf_def numeral_3_eq_3 numeral_2_eq_2)
qed

lemma cfi_flash_write_buf_odd_blocks_witness:
  "case cfi_flash_write_buf (sim_chip sim_sectors) 0 0 [1, 2, 3] 3 (sim_cfi (replicate 0x40000 0xffff)) of
      None \<Rightarrow> True
    | Some (r, s') \<Rightarrow> r = FLASH_API_ERROR \<and> (\<forall>sect off out k. cfi_flash_read_buf (sim_chip sim_sectors) sect off out k s' = None)"
  by (rule cfi_flash_write_buf_odd_blocks) (simp_all add: sim_cfi_def)

end
