(* ===== verification/Nvram.thy ===== *)
theory Nvram
  imports Board_Flash Crc32
begin

text \<open>
  The NVRAM record of the board (\<open>NVRAM_DATA\<close>, \<open>bcm_hwdefs.h\<close>), its layout in
  memory, and \<open>readNvramData\<close> and \<open>writeNvramData\<close> of \<open>board.c\<close>,
  which protect it with a checksum.  The struct is 300 bytes, most significant byte first, without
  padding.
\<close>

section \<open>Definitions\<close>

abbreviation (input) sizeof_NVRAM_DATA :: nat where "sizeof_NVRAM_DATA \<equiv> 300"

record nvram_data =
  ulVersion :: u32
  szBootline :: bytes
  szBoardId :: bytes
  ulMainTpNum :: u32
  ulPsiSize :: u32
  ulNumMacAddrs :: u32
  ucaBaseMacAddr :: bytes
  chReserved :: bytes
  ulCheckSum :: u32

definition nvram_wf :: "nvram_data \<Rightarrow> bool" where
  "nvram_wf nd \<longleftrightarrow>
     length (szBootline nd) = 256 \<and> length (szBoardId nd) = 16 \<and>
     length (ucaBaseMacAddr nd) = 6 \<and> length (chReserved nd) = 2"

definition nvram_body :: "nvram_data \<Rightarrow> bytes" where
  "nvram_body nd =
     be32 (ulVersion nd) @ szBootline nd @ szBoardId nd @ be32 (ulMainTpNum nd) @
     be32 (ulPsiSize nd) @ be32 (ulNumMacAddrs nd) @ ucaBaseMacAddr nd @ chReserved nd"

definition nvram_bytes :: "nvram_data \<Rightarrow> bytes" where
  "nvram_bytes nd = nvram_body nd @ be32 (ulCheckSum nd)"

definition nvram_of :: "bytes \<Rightarrow> nvram_data" where
  "nvram_of b =
     \<lparr>ulVersion = of_be32 (take 4 b),
      szBootline = take 256 (drop 4 b),
      szBoardId = take 16 (drop 260 b),
      ulMainTpNum = of_be32 (take 4 (drop 276 b)),
      ulPsiSize = of_be32 (take 4 (drop 280 b)),
      ulNumMacAddrs = of_be32 (take 4 (drop 284 b)),
      ucaBaseMacAddr = take 6 (drop 288 b),
      chReserved = take 2 (drop 294 b),
      ulCheckSum = of_be32 (take 4 (drop 296 b))\<rparr>"

definition writeNvramData ::
  "flash_addr_info \<Rightarrow> (int \<Rightarrow> bool) \<Rightarrow> 'd flash_device_info option \<Rightarrow> nvram_data \<Rightarrow> 'd \<Rightarrow> (nvram_data \<times> 'd) option" where
  "writeNvramData fi km g nd d =
     do {
       let nd = nd\<lparr>ulCheckSum := 0\<rparr>;
       crc \<leftarrow> getCrc32 (nvram_bytes nd) sizeof_NVRAM_DATA CRC32_INIT_VALUE;
       let nd = nd\<lparr>ulCheckSum := crc\<rparr>;
       (_, d) \<leftarrow> kerSysNvRamSet fi km g (nvram_bytes nd) (int sizeof_NVRAM_DATA) 0 d;
       Some (nd, d)
     }"

text \<open>\<open>mem\<close> is what the caller's struct holds before the call.\<close>

definition readNvramData ::
  "flash_addr_info \<Rightarrow> (int \<Rightarrow> bool) \<Rightarrow> 'd flash_device_info option \<Rightarrow> bytes \<Rightarrow> 'd \<Rightarrow> (int \<times> nvram_data \<times> 'd) option" where
  "readNvramData fi km g mem d =
     do {
       (_, mem, d) \<leftarrow> kerSysNvRamGet fi km g mem (int sizeof_NVRAM_DATA) 0 d;
       let nd = nvram_of mem;
       let savedCrc = ulCheckSum nd;
       let nd = nd\<lparr>ulCheckSum := 0\<rparr>;
       crc \<leftarrow> getCrc32 (nvram_bytes nd) sizeof_NVRAM_DATA CRC32_INIT_VALUE;
       Some (if savedCrc \<noteq> crc then -1 else 0, nd, d)
     }"

text \<open>The checksum a record has when it is written.\<close>

definition nvram_crc :: "nvram_data \<Rightarrow> u32" where
  "nvram_crc nd = foldl crc_bitwise CRC32_INIT_VALUE (nvram_bytes (nd\<lparr>ulCheckSum := 0\<rparr>))"

section \<open>Layout\<close>

lemma length_nvram_body: "nvram_wf nd \<Longrightarrow> length (nvram_body nd) = 296"
  by (simp add: nvram_wf_def nvram_body_def)

lemma length_nvram_bytes: "nvram_wf nd \<Longrightarrow> length (nvram_bytes nd) = 300"
  by (simp add: nvram_bytes_def length_nvram_body)

lemma nvram_of_bytes: "nvram_wf nd \<Longrightarrow> nvram_of (nvram_bytes nd) = nd"
  by (simp add: nvram_wf_def nvram_of_def nvram_bytes_def nvram_body_def)

lemma nvram_wf_of: "length b = 300 \<Longrightarrow> nvram_wf (nvram_of b)"
  by (simp add: nvram_wf_def nvram_of_def)

lemma take_parts: "take n b @ take m (drop n b) = take (n + m) b"
  by (simp add: take_add)

lemma take_parts_more: "take n b @ take m (drop n b) @ r = take (n + m) b @ r"
  by (simp add: take_add)

lemma nvram_body_of: "length b = 300 \<Longrightarrow> nvram_body (nvram_of b) = take 296 b"
  by (simp add: nvram_body_def nvram_of_def be32_of_be32 take_parts take_parts_more)

lemma nvram_wf_checksum [simp]: "nvram_wf (nd\<lparr>ulCheckSum := c\<rparr>) = nvram_wf nd"
  by (simp add: nvram_wf_def)

lemma nvram_body_checksum [simp]: "nvram_body (nd\<lparr>ulCheckSum := c\<rparr>) = nvram_body nd"
  by (simp add: nvram_body_def)

lemma nvram_crc_checksum [simp]: "nvram_crc (nd\<lparr>ulCheckSum := c\<rparr>) = nvram_crc nd"
  by (simp add: nvram_crc_def)

lemma nvram_crc_get:
  "nvram_wf nd \<Longrightarrow> getCrc32 (nvram_bytes (nd\<lparr>ulCheckSum := 0\<rparr>)) 300 CRC32_INIT_VALUE = Some (nvram_crc nd)"
  using length_nvram_bytes [of "nd\<lparr>ulCheckSum := 0\<rparr>"] by (simp add: getCrc32_fold nvram_crc_def)

text \<open>Two records that differ in one byte of their bodies have different checksums.\<close>

lemma nvram_crc_one_byte:
  assumes "nvram_body nd = xs @ b # ys" "nvram_body nd' = xs @ b' # ys" "b \<noteq> b'"
  shows "nvram_crc nd \<noteq> nvram_crc nd'"
proof
  assume "nvram_crc nd = nvram_crc nd'"
  then have "foldl crc_bitwise CRC32_INIT_VALUE (xs @ b # ys @ be32 0) = foldl crc_bitwise CRC32_INIT_VALUE (xs @ b' # ys @ be32 0)"
    using assms(1,2) by (simp add: nvram_crc_def nvram_bytes_def)
  then show False using foldl_crc_one_byte [of CRC32_INIT_VALUE xs b "ys @ be32 0" b'] assms(3) by simp
qed

text \<open>A record with a right checksum, damaged in one byte.\<close>

lemma nvram_damage:
  assumes nd: "nvram_wf nd" "ulCheckSum nd = nvram_crc nd" "nvram_bytes nd = xs @ x # ys" "x \<noteq> y"
    and len: "length (xs @ y # ys) = 300"
  shows "ulCheckSum (nvram_of (xs @ y # ys)) \<noteq> nvram_crc (nvram_of (xs @ y # ys))"
proof (cases "length xs < 296")
  case True
  let ?d = "nvram_of (xs @ y # ys)"
  have body: "nvram_body nd = xs @ x # take (295 - length xs) ys" "be32 (ulCheckSum nd) = drop (295 - length xs) ys"
    using arg_cong [OF nd(3), of "take 296"] arg_cong [OF nd(3), of "drop 296"] length_nvram_body [OF nd(1)] True
    by (simp_all add: nvram_bytes_def take_Cons' drop_Cons')
  have "nvram_body ?d = xs @ y # take (295 - length xs) ys"
    using nvram_body_of [OF len] True by (simp add: take_Cons')
  then have "nvram_crc nd \<noteq> nvram_crc ?d" using nvram_crc_one_byte [OF body(1) _ nd(4)] by simp
  moreover have "ulCheckSum ?d = ulCheckSum nd"
  proof -
    have "drop 296 (xs @ y # ys) = drop (295 - length xs) ys" using True by (simp add: drop_Cons')
    then have "ulCheckSum ?d = of_be32 (take 4 (be32 (ulCheckSum nd)))" using body(2) by (simp add: nvram_of_def)
    then show ?thesis by simp
  qed
  ultimately show ?thesis using nd(2) by simp
next
  case False
  let ?d = "nvram_of (xs @ y # ys)"
  have "take 296 (xs @ y # ys) = take 296 (xs @ x # ys)" using False by simp
  then have "nvram_body ?d = nvram_body nd"
    using nvram_body_of [OF len] arg_cong [OF nd(3), of "take 296"] length_nvram_body [OF nd(1)] by (simp add: nvram_bytes_def)
  then have crc: "nvram_crc ?d = nvram_crc nd" by (simp add: nvram_crc_def nvram_bytes_def)
  have "be32 (ulCheckSum ?d) = drop 296 (xs @ y # ys)" using len by (simp add: nvram_of_def be32_of_be32)
  then have "nvram_bytes ?d = xs @ y # ys"
    using nvram_body_of [OF len] append_take_drop_id [of 296 "xs @ y # ys"] by (simp only: nvram_bytes_def)
  then have "nvram_bytes ?d \<noteq> nvram_bytes nd" using nd(3,4) by simp
  then have "ulCheckSum ?d \<noteq> ulCheckSum nd" using \<open>nvram_body ?d = nvram_body nd\<close> by (auto simp: nvram_bytes_def)
  then show ?thesis using crc nd(2) by simp
qed

section \<open>Reading a stored record\<close>

context flash_device
begin

lemma readNvramData_eq:
  assumes d: "ok d" and km: "\<And>z. km z"
    and pl: "placed geom (flash_nvram_start_blk fi) (flash_nvram_number_blk fi) (flash_nvram_blk_offset fi) 1024"
    and p: "p = section_pos geom (flash_nvram_start_blk fi) (flash_nvram_blk_offset fi) 0"
    and mem: "length mem = 300" and b: "b = take 300 (drop p (concat (contents d)))" "length b = 300"
  shows "\<exists>d'. readNvramData fi km (Some dev) mem d =
      Some (if ulCheckSum (nvram_of b) \<noteq> nvram_crc (nvram_of b) then -1 else 0, (nvram_of b)\<lparr>ulCheckSum := 0\<rparr>, d') \<and>
    ok d' \<and> contents d' = contents d"
proof -
  obtain d' where "kerSysNvRamGet fi km (Some dev) mem 300 0 d = Some (0, b, d')" "ok d'" "contents d' = contents d"
    using section_get_eq [where km = km and n = 300 and string = mem, OF d pl _ _ _ km, of 0] mem b p
    by (auto simp: kerSysNvRamGet_def)
  then show ?thesis
    using nvram_crc_get [OF nvram_wf_of [OF b(2)]] by (auto simp: readNvramData_def)
qed

lemma length_nvram_section:
  assumes d: "ok d"
    and pl: "placed geom (flash_nvram_start_blk fi) (flash_nvram_number_blk fi) (flash_nvram_blk_offset fi) 1024"
    and p: "p = section_pos geom (flash_nvram_start_blk fi) (flash_nvram_blk_offset fi) 0"
  shows "length (take 300 (drop p (concat (contents d)))) = 300"
proof -
  have "length (concat (contents d)) = sum_list geom" using contents_shape [OF d] by (simp add: length_concat)
  moreover have "p + 300 \<le> sum_list geom"
    using pl p blk_base_le_total [of geom "nat (flash_nvram_start_blk fi + flash_nvram_number_blk fi)"]
    unfolding placed_def section_pos_def by linarith
  ultimately show ?thesis by simp
qed

text \<open>Reading always returns, and gives the same record again.\<close>

lemma readNvramData_total:
  assumes d: "ok d" and km: "\<And>z. km z"
    and pl: "placed geom (flash_nvram_start_blk fi) (flash_nvram_number_blk fi) (flash_nvram_blk_offset fi) 1024"
    and mem: "length mem = 300"
  shows "\<exists>r nd d'. readNvramData fi km (Some dev) mem d = Some (r, nd, d') \<and> ok d' \<and> contents d' = contents d \<and>
    nvram_wf nd \<and> (\<forall>mem'. length mem' = 300 \<longrightarrow> (\<exists>d''. readNvramData fi km (Some dev) mem' d' = Some (r, nd, d'')))"
proof -
  let ?b = "take 300 (drop (section_pos geom (flash_nvram_start_blk fi) (flash_nvram_blk_offset fi) 0) (concat (contents d)))"
  note len = length_nvram_section [OF d pl refl]
  obtain d' where r: "readNvramData fi km (Some dev) mem d =
      Some (if ulCheckSum (nvram_of ?b) \<noteq> nvram_crc (nvram_of ?b) then -1 else 0, (nvram_of ?b)\<lparr>ulCheckSum := 0\<rparr>, d')"
      "ok d'" "contents d' = contents d"
    using readNvramData_eq [where km = km, OF d km pl refl mem refl len] by blast
  have "\<exists>d''. readNvramData fi km (Some dev) mem' d' =
      Some (if ulCheckSum (nvram_of ?b) \<noteq> nvram_crc (nvram_of ?b) then -1 else 0, (nvram_of ?b)\<lparr>ulCheckSum := 0\<rparr>, d'')"
    if "length mem' = 300" for mem'
    using readNvramData_eq [where km = km, OF r(2) km pl refl that, of ?b] r(3) len by auto
  then show ?thesis using r nvram_wf_of [OF len] by (metis nvram_wf_checksum)
qed

end

section \<open>Writing and reading a record\<close>

context reliable_flash_device
begin

lemma writeNvramData_roundtrip:
  assumes d: "ok d" and km: "\<And>z. km z"
    and pl: "placed geom (flash_nvram_start_blk fi) (flash_nvram_number_blk fi) (flash_nvram_blk_offset fi) 1024"
    and nd: "nvram_wf nd" and mem: "length mem = 300"
  shows "\<exists>nd' d'. writeNvramData fi km (Some dev) nd d = Some (nd', d') \<and> ok d' \<and>
    (\<exists>d''. readNvramData fi km (Some dev) mem d' = Some (0, nd\<lparr>ulCheckSum := 0\<rparr>, d''))"
proof -
  let ?nd = "nd\<lparr>ulCheckSum := nvram_crc nd\<rparr>"
  have len: "length (nvram_bytes ?nd) = 300" using nd by (simp add: length_nvram_bytes)
  have n: "(0 :: int) \<le> 0" "0 + int 300 \<le> 1024" "300 \<le> length (nvram_bytes ?nd)" "300 \<le> length mem" using len mem by simp_all
  obtain d' d'' where w: "kerSysNvRamSet fi km (Some dev) (nvram_bytes ?nd) 300 0 d = Some (0, d')" "ok d'"
      "kerSysNvRamGet fi km (Some dev) mem 300 0 d' = Some (0, nvram_bytes ?nd, d'')"
    using section_roundtrip_reliable [where km = km, OF d pl n km refl] len mem
    by (auto simp: kerSysNvRamSet_def kerSysNvRamGet_def)
  have stored: "nvram_of (nvram_bytes ?nd) = ?nd" using nd by (intro nvram_of_bytes) simp
  show ?thesis using w nvram_crc_get [OF nd] stored by (auto simp: writeNvramData_def readNvramData_def)
qed

end

end
