(* ===== verification/Decimal.thy ===== *)
theory Decimal
  imports Board_Prelude
begin

text \<open>
  Numbers in text: \<open>simple_strtoul\<close> of the kernel library, which reads them out of an image
  tag, and the decimal output of \<open>sprintf\<close>, which writes them.  A string is the list of bytes
  from its first character to the end of the object it lies in; reading past that end has no
  value.
\<close>

section \<open>Definitions\<close>

definition is_digit :: "u8 \<Rightarrow> bool" where
  "is_digit c \<longleftrightarrow> 0x30 \<le> c \<and> c \<le> 0x39"

definition is_xdigit :: "u8 \<Rightarrow> bool" where
  "is_xdigit c \<longleftrightarrow> is_digit c \<or> (0x41 \<le> c \<and> c \<le> 0x46) \<or> (0x61 \<le> c \<and> c \<le> 0x66)"

definition toupper :: "u8 \<Rightarrow> u8" where
  "toupper c = (if 0x61 \<le> c \<and> c \<le> 0x7A then c - 0x20 else c)"

definition digit_value :: "u8 \<Rightarrow> int" where
  "digit_value c = (if is_digit c then uint c - 0x30 else uint (toupper c) - 0x41 + 10)"

fun strtoul_loop :: "int \<Rightarrow> int \<Rightarrow> bytes \<Rightarrow> int option" where
  "strtoul_loop base result [] = None"
| "strtoul_loop base result (c # cp) =
     (if is_xdigit c \<and> digit_value c < base
      then strtoul_loop base (u32 (result * base + digit_value c)) cp
      else Some result)"

text \<open>The base and the first digit, after an optional prefix \<open>0\<close> or \<open>0x\<close>.\<close>

definition strtoul_prefix :: "int \<Rightarrow> bytes \<Rightarrow> (int \<times> bytes) option" where
  "strtoul_prefix base cp =
     (if base = 0 then
        (case cp of
           [] \<Rightarrow> None
         | c # cp' \<Rightarrow>
             if c = 0x30 then
               (case cp' of
                  [] \<Rightarrow> None
                | x # cp'' \<Rightarrow>
                    if toupper x = 0x58 then
                      (case cp'' of [] \<Rightarrow> None | y # _ \<Rightarrow> Some (if is_xdigit y then (16, cp'') else (8, cp')))
                    else Some (8, cp'))
             else Some (10, cp))
      else if base = 16 then
        (case cp of
           [] \<Rightarrow> None
         | c # cp' \<Rightarrow>
             if c = 0x30 then
               (case cp' of [] \<Rightarrow> None | x # cp'' \<Rightarrow> Some (16, if toupper x = 0x58 then cp'' else cp))
             else Some (16, cp))
      else Some (base, cp))"

definition simple_strtoul :: "bytes \<Rightarrow> int \<Rightarrow> int option" where
  "simple_strtoul cp base =
     do {
       (base, cp) \<leftarrow> strtoul_prefix base cp;
       strtoul_loop base 0 cp
     }"

text \<open>\<open>sprintf\<close> with \<open>%lu\<close> and with \<open>%d\<close>: the characters, without the terminating NUL.\<close>

fun dec_nat :: "nat \<Rightarrow> bytes" where
  "dec_nat n = (if n < 10 then [] else dec_nat (n div 10)) @ [0x30 + of_nat (n mod 10)]"

declare dec_nat.simps [simp del]

definition sprintf_lu :: "int \<Rightarrow> bytes" where
  "sprintf_lu x = dec_nat (nat (u32 x))"

definition sprintf_d :: "int \<Rightarrow> bytes" where
  "sprintf_d x = (if x < 0 then 0x2D # dec_nat (nat (- x)) else dec_nat (nat x))"

section \<open>Printing and reading back\<close>

lemma digit_char:
  assumes "k < 10"
  shows "is_digit (0x30 + of_nat k)" "digit_value (0x30 + of_nat k) = int k"
proof -
  have "uint (0x30 + of_nat k :: 8 word) = 0x30 + int k"
    using assms by (subst uint_add_lem [THEN iffD1]) (simp_all add: unsigned_of_nat take_bit_nat_eq_self take_bit_int_eq_self)
  then show "is_digit (0x30 + of_nat k)" "digit_value (0x30 + of_nat k) = int k"
    using assms by (simp_all add: is_digit_def digit_value_def word_le_def)
qed

lemma dec_nat_digits: "c \<in> set (dec_nat n) \<Longrightarrow> is_digit c \<and> digit_value c < 10"
proof (induction n rule: dec_nat.induct)
  case (1 n)
  then show ?case
    using digit_char [of "n mod 10"] by (subst (asm) (2) dec_nat.simps) (auto split: if_splits)
qed

lemma letter_value:
  assumes "is_xdigit c" "\<not> is_digit c" shows "10 \<le> digit_value c"
proof -
  have "uint (c - 0x20) = uint c - 0x20" if "0x61 \<le> c"
    using that uint_sub_lem [of "0x20" c] by (simp add: word_le_def)
  then show ?thesis using assms by (auto simp: digit_value_def is_xdigit_def toupper_def word_le_def)
qed

lemma strtoul_loop_digits:
  "\<forall>c\<in>set ds. is_digit c \<and> digit_value c < 10 \<Longrightarrow> \<not> is_digit x \<Longrightarrow>
   strtoul_loop 10 r (ds @ x # cp) = Some (foldl (\<lambda>a c. u32 (a * 10 + digit_value c)) r ds)"
proof (induction ds arbitrary: r)
  case Nil
  then show ?case using letter_value [of x] by auto
next
  case (Cons d ds)
  then show ?case by (simp add: is_xdigit_def)
qed

lemma foldl_dec_nat: "foldl (\<lambda>a c. u32 (a * 10 + digit_value c)) 0 (dec_nat n) = u32 (int n)"
proof (induction n rule: dec_nat.induct)
  case (1 n)
  show ?case
  proof (cases "n < 10")
    case True
    then show ?thesis using digit_char [of n] by (subst dec_nat.simps) simp
  next
    case False
    then have "foldl (\<lambda>a c. u32 (a * 10 + digit_value c)) 0 (dec_nat n) =
        u32 (u32 (int (n div 10)) * 10 + int (n mod 10))"
      using 1 digit_char [of "n mod 10"] by (subst dec_nat.simps) simp
    also have "\<dots> = u32 (int (n div 10) * 10 + int (n mod 10))"
      unfolding u32_def by (metis mod_add_left_eq mod_mult_left_eq)
    also have "int (n div 10) * 10 + int (n mod 10) = int n"
      by (simp add: zdiv_int zmod_int)
    finally show ?thesis .
  qed
qed

text \<open>A number that fits in an \<open>unsigned long\<close> is read back as it was printed.\<close>

lemma strtoul_dec_nat:
  assumes "n < 4294967296" "\<not> is_digit x"
  shows "simple_strtoul (dec_nat n @ x # cp) 10 = Some (int n)"
  using strtoul_loop_digits [of "dec_nat n" x 0 cp] dec_nat_digits assms
  by (simp add: simple_strtoul_def strtoul_prefix_def foldl_dec_nat u32_id)

lemma length_dec_nat: "n < 10 ^ k \<Longrightarrow> 0 < k \<Longrightarrow> length (dec_nat n) \<le> k"
proof (induction k arbitrary: n)
  case (Suc k)
  show ?case
  proof (cases "n < 10")
    case True
    then show ?thesis by (subst dec_nat.simps) simp
  next
    case False
    have "n div 10 < 10 ^ k" using Suc.prems(1) by (simp add: less_mult_imp_div_less mult.commute)
    moreover have "0 < k" using False Suc.prems(1) by (cases k) auto
    ultimately show ?thesis using Suc.IH [of "n div 10"] False by (subst dec_nat.simps) simp
  qed
qed simp

lemma zero_not_digit [simp]: "\<not> is_digit 0"
  by (simp add: is_digit_def)

end
