(* ===== verification/Image_Tag.thy ===== *)
theory Image_Tag
  imports Image_Flash Nvram Decimal
begin

text \<open>
  Firmware images of \<open>board.c\<close>: the tag at the start of an image (\<open>FILE_TAG\<close>,
  \<open>bcmTag.h\<close>), the choice of the image to boot between the two halves of the flash, the
  sequence number of a new image, and \<open>flashFsKernelImage\<close>, which installs one.  A tag is
  its 256 bytes; a text field is read from its first byte on.
\<close>

section \<open>Definitions\<close>

abbreviation (input) TAG_LEN :: nat where "TAG_LEN \<equiv> 256"
abbreviation (input) TOKEN_LEN :: nat where "TOKEN_LEN \<equiv> 20"
abbreviation (input) IMAGE_BASE :: int where "IMAGE_BASE \<equiv> 0xBFC00000"
abbreviation (input) BOOT_OFFSET :: int where "BOOT_OFFSET \<equiv> 0"
abbreviation (input) BOOT_LATEST_IMAGE :: u8 where "BOOT_LATEST_IMAGE \<equiv> 0x30"

text \<open>The positions of the fields in the tag.\<close>

definition tag_rootfsAddress :: nat where "tag_rootfsAddress = 94"
definition tag_rootfsLen :: nat where "tag_rootfsLen = 106"
definition tag_kernelAddress :: nat where "tag_kernelAddress = 116"
definition tag_kernelLen :: nat where "tag_kernelLen = 128"
definition tag_imageSequence :: nat where "tag_imageSequence = 138"
definition tag_tagValidationToken :: nat where "tag_tagValidationToken = 236"

lemmas tag_offsets = tag_rootfsAddress_def tag_rootfsLen_def tag_kernelAddress_def tag_kernelLen_def
  tag_imageSequence_def tag_tagValidationToken_def

definition tag_field :: "bytes \<Rightarrow> nat \<Rightarrow> int option" where
  "tag_field pTag field = simple_strtoul (drop field pTag) 10"

subsection \<open>Tags in flash\<close>

definition getTagFromPartition ::
  "flash_addr_info \<Rightarrow> 'd flash_device_info option \<Rightarrow> int \<Rightarrow> 'd \<Rightarrow> (bytes option \<times> 'd) option" where
  "getTagFromPartition fi g imageNumber d =
     do {
       pBase \<leftarrow> flash_get_memptr g 0 d;
       blk \<leftarrow>
         (if imageNumber = 1 then flash_get_blk g (pBase + flash_rootfs_start_offset fi) d
          else if imageNumber = 2 then flash_get_blk g (pBase + half (flash_get_total_size g d)) d
          else Some 0);
       if blk \<noteq> 0 then
         do {
           (_, pSectAddr, d) \<leftarrow> flash_read_buf g blk 0 (replicate TAG_LEN 0) (int TAG_LEN) d;
           crc \<leftarrow> getCrc32 pSectAddr (TAG_LEN - TOKEN_LEN) CRC32_INIT_VALUE;
           token \<leftarrow> mem_read (int tag_tagValidationToken) 4 pSectAddr;
           Some (if crc \<noteq> of_be32 token then None else Some pSectAddr, d)
         }
       else Some (None, d)
     }"

definition tag_sequence :: "bytes option \<Rightarrow> int option" where
  "tag_sequence pTag = (case pTag of None \<Rightarrow> Some (-1) | Some t \<Rightarrow> map_option s32 (tag_field t tag_imageSequence))"

definition getPartitionFromTag ::
  "flash_addr_info \<Rightarrow> 'd flash_device_info option \<Rightarrow> bytes option \<Rightarrow> 'd \<Rightarrow> (int \<times> 'd) option" where
  "getPartitionFromTag fi g pTag d =
     (case pTag of
        None \<Rightarrow> Some (0, d)
      | Some _ \<Rightarrow>
          do {
            (pTag1, d) \<leftarrow> getTagFromPartition fi g 1 d;
            (pTag2, d) \<leftarrow> getTagFromPartition fi g 2 d;
            seq \<leftarrow> tag_sequence pTag;
            seq1 \<leftarrow> tag_sequence pTag1;
            seq2 \<leftarrow> tag_sequence pTag2;
            Some (if pTag1 \<noteq> None \<and> seq = seq1 then 1
                  else if pTag2 \<noteq> None \<and> seq = seq2 then 2 else 0, d)
          })"

text \<open>
  The loops over the boot line: the position of the first \<open>p=x\<close> whose \<open>x\<close>
  satisfies \<open>want\<close>, before the first NUL from the third character on.  \<open>p\<close>
  runs on in the struct when the array has no NUL.
\<close>

fun boot_find :: "(u8 \<Rightarrow> bool) \<Rightarrow> nat \<Rightarrow> bytes \<Rightarrow> nat option option" where
  "boot_find want i (p0 # p1 # p2 # r) =
     (if p2 = 0 then Some None
      else if p0 = 0x70 \<and> p1 = 0x3D \<and> want p2 then Some (Some i)
      else boot_find want (Suc i) (p1 # p2 # r))"
| "boot_find want i _ = None"

definition bootline :: "nvram_data \<Rightarrow> bytes" where
  "bootline nd = drop 4 (nvram_bytes nd)"

definition boot_partition :: "nvram_data \<Rightarrow> u8 option" where
  "boot_partition nd =
     do {
       found \<leftarrow> boot_find (\<lambda>c. True) 0 (bootline nd);
       Some (case found of None \<Rightarrow> BOOT_LATEST_IMAGE | Some i \<Rightarrow> bootline nd ! (i + 2))
     }"

definition getBootImageTag ::
  "flash_addr_info \<Rightarrow> (int \<Rightarrow> bool) \<Rightarrow> 'd flash_device_info option \<Rightarrow> bytes \<Rightarrow> 'd \<Rightarrow> (bytes option \<times> 'd) option" where
  "getBootImageTag fi km g mem d =
     do {
       (pTag1, d) \<leftarrow> getTagFromPartition fi g 1 d;
       (pTag2, d) \<leftarrow> getTagFromPartition fi g 2 d;
       if pTag1 \<noteq> None \<and> pTag2 \<noteq> None then
         do {
           sequence1 \<leftarrow> tag_sequence pTag1;
           sequence2 \<leftarrow> tag_sequence pTag2;
           (_, nvramData, d) \<leftarrow> readNvramData fi km g mem d;
           bootPartition \<leftarrow> boot_partition nvramData;
           Some (if bootPartition = BOOT_LATEST_IMAGE
                 then (if sequence2 > sequence1 then pTag2 else pTag1)
                 else (if sequence2 < sequence1 then pTag2 else pTag1), d)
         }
       else Some (if pTag2 \<noteq> None then pTag2 else pTag1, d)
     }"

text \<open>The text \<open>UpdateImageSequenceNumber\<close> prints.\<close>

definition UpdateImageSequenceNumber ::
  "flash_addr_info \<Rightarrow> 'd flash_device_info option \<Rightarrow> 'd \<Rightarrow> (bytes \<times> 'd) option" where
  "UpdateImageSequenceNumber fi g d =
     do {
       (pTag, d) \<leftarrow> getTagFromPartition fi g 1 d;
       newImageSequence \<leftarrow>
         (case pTag of None \<Rightarrow> Some 0 | Some t \<Rightarrow> map_option s32 (tag_field t tag_imageSequence));
       (pTag, d) \<leftarrow> getTagFromPartition fi g 2 d;
       newImageSequence \<leftarrow>
         (case pTag of
            None \<Rightarrow> Some newImageSequence
          | Some t \<Rightarrow>
              do {
                n \<leftarrow> tag_field t tag_imageSequence;
                Some (if n > u32 newImageSequence then s32 n else newImageSequence)
              });
       Some (sprintf_d (s32 (newImageSequence + 1)), d)
     }"

subsection \<open>Installing an image\<close>

definition put_text :: "nat \<Rightarrow> bytes \<Rightarrow> bytes \<Rightarrow> bytes option" where
  "put_text field txt img = mem_write (int field) (txt @ [0]) img"

definition put_crc :: "bytes \<Rightarrow> bytes option" where
  "put_crc img =
     do {
       crc \<leftarrow> getCrc32 img (TAG_LEN - TOKEN_LEN) CRC32_INIT_VALUE;
       mem_write (int tag_tagValidationToken) (be32 crc) img
     }"

text \<open>Moving an image that was built for a smaller boot sector.\<close>

definition relocate_tag :: "flash_addr_info \<Rightarrow> int \<Rightarrow> int \<Rightarrow> bytes \<Rightarrow> (int \<times> int \<times> bytes) option" where
  "relocate_tag fi rootfsAddr kernelAddr img =
     (let rootfsOffset = u32 (rootfsAddr - IMAGE_BASE - int TAG_LEN) in
      if rootfsOffset < flash_rootfs_start_offset fi then
        do {
          let rootfsAddr = s32 (rootfsAddr + (flash_rootfs_start_offset fi - rootfsOffset));
          let kernelAddr = s32 (kernelAddr + (flash_rootfs_start_offset fi - rootfsOffset));
          img \<leftarrow> put_text tag_rootfsAddress (sprintf_lu rootfsAddr) img;
          img \<leftarrow> put_text tag_kernelAddress (sprintf_lu kernelAddr) img;
          img \<leftarrow> put_crc img;
          Some (rootfsAddr, kernelAddr, img)
        }
      else Some (rootfsAddr, kernelAddr, img))"

definition image_size :: "bytes \<Rightarrow> int option" where
  "image_size pTag =
     do {
       r \<leftarrow> tag_field pTag tag_rootfsLen;
       k \<leftarrow> tag_field pTag tag_kernelLen;
       Some (u32 (r + k))
     }"

definition availableSizeOneImg :: "int \<Rightarrow> int \<Rightarrow> int \<Rightarrow> int" where
  "availableSizeOneImg totalSize rootfsAddr baseAddr =
     u32 (totalSize - u32 (rootfsAddr - baseAddr) - FLASH_RESERVED_AT_END)"

definition availableSizeTwoImgs :: "flash_addr_info \<Rightarrow> int \<Rightarrow> int" where
  "availableSizeTwoImgs fi totalSize =
     u32 (totalSize div 2 -
       (if flash_rootfs_start_offset fi > FLASH_RESERVED_AT_END
        then flash_rootfs_start_offset fi else FLASH_RESERVED_AT_END))"

text \<open>The second half of the flash: the new addresses and the tag that says so.\<close>

definition second_partition :: "int \<Rightarrow> int \<Rightarrow> int \<Rightarrow> int \<Rightarrow> bytes \<Rightarrow> (int \<times> bytes) option" where
  "second_partition totalSize baseAddr rootfsAddr kernelAddr img =
     do {
       let offset = s32 (totalSize div 2 + int TAG_LEN);
       img \<leftarrow> put_text tag_kernelAddress (sprintf_lu (IMAGE_BASE + offset + s32 (kernelAddr - rootfsAddr))) img;
       img \<leftarrow> put_text tag_rootfsAddress (sprintf_lu (IMAGE_BASE + offset)) img;
       Some (s32 (baseAddr + offset), img)
     }"

text \<open>
  \<open>mem1\<close> and \<open>mem2\<close> are the contents of the two NVRAM structs on the stack
  before they are read.  The result is the status, the image as it was changed in place, and the state.
\<close>

definition flashFsKernelImage ::
  "flash_addr_info \<Rightarrow> (int \<Rightarrow> bool) \<Rightarrow> bool \<Rightarrow> 'd flash_device_info option \<Rightarrow> bytes \<Rightarrow> bytes \<Rightarrow> bytes \<Rightarrow> 'd \<Rightarrow>
   (int \<times> bytes \<times> 'd) option" where
  "flashFsKernelImage fi km user_ok g mem1 mem2 img d =
     do {
       rootfsAddr \<leftarrow> map_option s32 (tag_field img tag_rootfsAddress);
       kernelAddr \<leftarrow> map_option s32 (tag_field img tag_kernelAddress);
       baseAddr \<leftarrow> flash_get_memptr g 0 d;
       let totalSize = u32 (flash_get_total_size g d);
       newImgSize \<leftarrow> image_size img;
       (pCurTag, d) \<leftarrow> getBootImageTag fi km g mem1 d;
       (_, nvramData, d) \<leftarrow> readNvramData fi km g mem2 d;
       (rootfsAddr, kernelAddr, img) \<leftarrow> relocate_tag fi rootfsAddr kernelAddr img;
       let rootfsAddr = rootfsAddr + BOOT_OFFSET;
       let kernelAddr = kernelAddr + BOOT_OFFSET;
       curImgSize \<leftarrow> (case pCurTag of None \<Rightarrow> Some 0 | Some t \<Rightarrow> image_size t);
       if newImgSize > availableSizeOneImg totalSize rootfsAddr baseAddr then Some (-1, img, d)
       else
         do {
           let half_fits = (curImgSize \<le> availableSizeTwoImgs fi totalSize \<and> newImgSize \<le> availableSizeTwoImgs fi totalSize);
           (part, d) \<leftarrow> (if half_fits then getPartitionFromTag fi g pCurTag d else Some (0, d));
           (rootfsAddr, img) \<leftarrow>
             (if half_fits \<and> part = 1 then second_partition totalSize baseAddr rootfsAddr kernelAddr img
              else Some (rootfsAddr, img));
           (seq, d) \<leftarrow> UpdateImageSequenceNumber fi g d;
           img \<leftarrow> put_text tag_imageSequence seq img;
           img \<leftarrow> put_crc img;
           (status, d) \<leftarrow> kerSysBcmImageSet km user_ok fi g (s32 (rootfsAddr - int TAG_LEN)) img (s32 (int TAG_LEN + newImgSize)) d;
           if status \<noteq> 0 then Some (status, img, d)
           else
             do {
               found \<leftarrow> boot_find (\<lambda>c. c \<noteq> BOOT_LATEST_IMAGE) 0 (bootline nvramData);
               case found of
                 None \<Rightarrow> Some (status, img, d)
               | Some i \<Rightarrow>
                   do {
                     (_, d) \<leftarrow> writeNvramData fi km g
                       (nvram_of (take 4 (nvram_bytes nvramData) @ (bootline nvramData)[i + 2 := BOOT_LATEST_IMAGE])) d;
                     Some (status, img, d)
                   }
             }
         }
     }"

definition kerSysImageTagGet ::
  "flash_addr_info \<Rightarrow> (int \<Rightarrow> bool) \<Rightarrow> 'd flash_device_info option \<Rightarrow> bytes \<Rightarrow> 'd \<Rightarrow> (bytes option \<times> 'd) option" where
  "kerSysImageTagGet = getBootImageTag"

end
