(* ===== verification/Image_Upgrade.thy ===== *)
theory Image_Upgrade
  imports Image_Tag
begin

text \<open>
  Facts about image tags and upgrades on a device that keeps the contract of
  \<^verbatim>\<open>Flash_Api\<close>: which tags are in flash, which image boots, the sequence number of a new
  image, and where \<open>flashFsKernelImage\<close> puts it.
\<close>

section \<open>Definitions\<close>

definition valid_tag :: "bytes \<Rightarrow> bool" where
  "valid_tag t \<longleftrightarrow> length t = 256 \<and> foldl crc_bitwise CRC32_INIT_VALUE (take 236 t) = of_be32 (take 4 (drop 236 t))"

text \<open>The tag of a partition: the first bytes of the sector it starts in, which is not the first.\<close>

definition part_blk :: "flash_addr_info \<Rightarrow> nat list \<Rightarrow> int \<Rightarrow> nat" where
  "part_blk fi geom k = blk_of geom (if k = 1 then nat (flash_rootfs_start_offset fi) else sum_list geom div 2)"

definition tag_in :: "bytes list \<Rightarrow> nat \<Rightarrow> bytes option" where
  "tag_in cs blk = (if blk \<noteq> 0 \<and> valid_tag (take 256 (cs ! blk)) then Some (take 256 (cs ! blk)) else None)"

definition parts_ok :: "flash_addr_info \<Rightarrow> nat list \<Rightarrow> bool" where
  "parts_ok fi geom \<longleftrightarrow>
     0 \<le> flash_rootfs_start_offset fi \<and> flash_rootfs_start_offset fi < int (sum_list geom) \<and>
     256 \<le> geom ! part_blk fi geom 1 \<and> 256 \<le> geom ! part_blk fi geom 2"

text \<open>The tags in flash have sequence numbers that can be increased.\<close>

definition sequences_ok :: "flash_addr_info \<Rightarrow> nat list \<Rightarrow> bytes list \<Rightarrow> bool" where
  "sequences_ok fi geom cs \<longleftrightarrow>
     (\<forall>k\<in>{1, 2}. \<forall>t. tag_in cs (part_blk fi geom k) = Some t \<longrightarrow>
        (\<exists>n. tag_field t tag_imageSequence = Some n \<and> 0 \<le> n \<and> n < 0x7fffffff))"

text \<open>
  What an installation may change in an image: eleven bytes, ten digits and the zero, of each of two
  addresses and the sequence number, and the four of the checksum.  \<open>same_except\<close> says that
  nothing else is changed.
\<close>

definition tag_rewritten :: "nat set" where
  "tag_rewritten = {tag_rootfsAddress..<tag_rootfsAddress + 11} \<union> {tag_kernelAddress..<tag_kernelAddress + 11} \<union>
     {tag_imageSequence..<tag_imageSequence + 11} \<union> {tag_tagValidationToken..<tag_tagValidationToken + 4}"

definition same_except :: "nat set \<Rightarrow> bytes \<Rightarrow> bytes \<Rightarrow> bool" where
  "same_except S xs ys \<longleftrightarrow> length ys = length xs \<and> (\<forall>j<length xs. j \<notin> S \<longrightarrow> ys ! j = xs ! j)"

definition holds_text :: "nat \<Rightarrow> bytes \<Rightarrow> bytes \<Rightarrow> bool" where
  "holds_text field t img \<longleftrightarrow> take (length t + 1) (drop field img) = t @ [0]"

section \<open>Writing text into a tag\<close>

lemma same_except_refl: "same_except S xs xs"
  by (simp add: same_except_def)

lemma same_except_trans: "same_except S xs ys \<Longrightarrow> same_except S ys zs \<Longrightarrow> same_except S xs zs"
  by (simp add: same_except_def)

lemma same_except_mono: "same_except S xs ys \<Longrightarrow> S \<subseteq> T \<Longrightarrow> same_except T xs ys"
  by (auto simp: same_except_def)

lemma same_except_length: "same_except S xs ys \<Longrightarrow> length ys = length xs"
  by (simp add: same_except_def)

lemma holds_text_same:
  assumes h: "holds_text field t xs" and s: "same_except S xs ys" and S: "\<forall>j\<in>S. j < field \<or> field + length t < j"
  shows "holds_text field t ys"
proof -
  have len: "field + length t < length xs" using arg_cong [OF h [unfolded holds_text_def], of length] by simp
  have "take (length t + 1) (drop field ys) = take (length t + 1) (drop field xs)"
  proof (rule nth_equalityI)
    fix k
    assume "k < length (take (length t + 1) (drop field ys))"
    moreover have "field + k \<notin> S" if "k \<le> length t" using S that by fastforce
    ultimately show "take (length t + 1) (drop field ys) ! k = take (length t + 1) (drop field xs) ! k"
      using s len by (auto simp: same_except_def)
  qed (use s len in \<open>simp add: same_except_def\<close>)
  then show ?thesis using h by (simp add: holds_text_def)
qed

lemma holds_text_number:
  assumes h: "holds_text field (dec_nat n) img" and n: "n < 4294967296" "field + length (dec_nat n) < 256"
  shows "tag_field (take 256 img) field = Some (int n)"
proof -
  let ?l = "length (dec_nat n)"
  have "take (?l + 1) (drop field (take 256 img)) = dec_nat n @ [0]"
    using h n(2) by (simp add: holds_text_def drop_take min_def)
  then have "drop field (take 256 img) = (dec_nat n @ [0]) @ drop (?l + 1) (drop field (take 256 img))"
    by (metis append_take_drop_id)
  then show ?thesis using strtoul_dec_nat [of n 0] n(1) by (simp add: tag_field_def)
qed

lemma length_sprintf_lu: "length (sprintf_lu x) \<le> 10"
proof -
  have "nat (u32 x) < 10 ^ 10" using u32_range [of x] by (simp add: nat_less_iff)
  then show ?thesis unfolding sprintf_lu_def by (rule length_dec_nat) simp
qed

lemma put_text_eq:
  assumes "field + length txt + 1 \<le> length img"
  shows "put_text field txt img = Some (take field img @ txt @ 0 # drop (field + length txt + 1) img)"
  using mem_write_int [of field "txt @ [0]" img] assms by (simp add: put_text_def)

lemma put_text_total:
  assumes "field + length txt + 1 \<le> length img"
  obtains img' where "put_text field txt img = Some img'" "holds_text field txt img'"
    "same_except {field..<field + length txt + 1} img img'"
proof
  let ?i = "take field img @ txt @ 0 # drop (field + length txt + 1) img"
  show "put_text field txt img = Some ?i" by (rule put_text_eq [OF assms])
  show "holds_text field txt ?i" "same_except {field..<field + length txt + 1} img ?i"
    using assms by (auto simp: holds_text_def same_except_def nth_append nth_Cons')
qed

lemma put_number:
  assumes "field + 11 \<le> length img"
  obtains img' where "put_text field (sprintf_lu v) img = Some img'" "holds_text field (sprintf_lu v) img'"
    "same_except {field..<field + 11} img img'"
proof (rule put_text_total [of field "sprintf_lu v" img])
  show "field + length (sprintf_lu v) + 1 \<le> length img" using assms length_sprintf_lu [of v] by simp
  fix img'
  assume i: "put_text field (sprintf_lu v) img = Some img'" "holds_text field (sprintf_lu v) img'"
    "same_except {field..<field + length (sprintf_lu v) + 1} img img'"
  then show thesis using that same_except_mono [OF i(3), of "{field..<field + 11}"] length_sprintf_lu [of v] by auto
qed

lemma put_crc_eq:
  assumes "256 \<le> length img"
  shows "put_crc img = Some (take 236 img @ be32 (foldl crc_bitwise CRC32_INIT_VALUE (take 236 img)) @ drop 240 img)"
  using assms mem_write_int [of 236 "be32 (foldl crc_bitwise CRC32_INIT_VALUE (take 236 img))" img]
  by (simp add: put_crc_def tag_offsets getCrc32_fold)

lemma put_crc_total:
  assumes "256 \<le> length img"
  obtains img' where "put_crc img = Some img'" "same_except {236..<240} img img'" "valid_tag (take 256 img')"
proof
  let ?c = "be32 (foldl crc_bitwise CRC32_INIT_VALUE (take 236 img))"
  let ?i = "take 236 img @ ?c @ drop 240 img"
  show "put_crc img = Some ?i" by (rule put_crc_eq [OF assms])
  have len: "length ?c = 4" by simp
  show "same_except {236..<240} img ?i"
    unfolding same_except_def using assms len by (auto simp: nth_append)
  show "valid_tag (take 256 ?i)" using assms by (simp add: valid_tag_def)
qed

lemma relocate_total:
  assumes "256 \<le> length img"
  obtains r k img' where "relocate_tag fi (s32 ra) (s32 ka) img = Some (r, k, img')" "s32 (k - r) = s32 (ka - ra)"
    "same_except tag_rewritten img img'"
proof (cases "u32 (s32 ra - 0xBFC00000 - int 256) < flash_rootfs_start_offset fi")
  case False
  then show ?thesis using that by (simp add: relocate_tag_def s32_diff same_except_refl)
next
  case True
  define x where "x = flash_rootfs_start_offset fi - u32 (s32 ra - 0xBFC00000 - int 256)"
  obtain i1 where i1: "put_text tag_rootfsAddress (sprintf_lu (s32 (s32 ra + x))) img = Some i1"
      "same_except {tag_rootfsAddress..<tag_rootfsAddress + 11} img i1"
    using put_number [of tag_rootfsAddress img "s32 (s32 ra + x)"] assms by (auto simp: tag_offsets)
  obtain i2 where i2: "put_text tag_kernelAddress (sprintf_lu (s32 (s32 ka + x))) i1 = Some i2"
      "same_except {tag_kernelAddress..<tag_kernelAddress + 11} i1 i2"
    using put_number [of tag_kernelAddress i1 "s32 (s32 ka + x)"] assms same_except_length [OF i1(2)]
    by (auto simp: tag_offsets)
  obtain i3 where i3: "put_crc i2 = Some i3" "same_except {236..<240} i2 i3"
    using put_crc_total [of i2] assms same_except_length [OF i1(2)] same_except_length [OF i2(2)] by metis
  have "same_except tag_rewritten img i3"
    by (rule same_except_trans [OF same_except_trans], (rule same_except_mono [OF i1(2)]),
        (auto simp: tag_rewritten_def)[1], (rule same_except_mono [OF i2(2)]), (auto simp: tag_rewritten_def)[1],
        rule same_except_mono [OF i3(2)]) (auto simp: tag_rewritten_def tag_offsets)
  moreover have "s32 (s32 (s32 ka + x) - s32 (s32 ra + x)) = s32 (ka - ra)" by (simp add: s32_diff)
  ultimately show ?thesis using that True i1(1) i2(1) i3(1) by (simp add: relocate_tag_def Let_def x_def)
qed

lemma second_partition_total:
  assumes "256 \<le> length img"
  obtains img' where "second_partition tot base ra ka img = Some (s32 (base + s32 (tot div 2 + 256)), img')"
    "same_except tag_rewritten img img'"
    "holds_text tag_rootfsAddress (sprintf_lu (0xBFC00000 + s32 (tot div 2 + 256))) img'"
    "holds_text tag_kernelAddress (sprintf_lu (0xBFC00000 + s32 (tot div 2 + 256) + s32 (ka - ra))) img'"
proof -
  let ?r = "0xBFC00000 + s32 (tot div 2 + 256)"
  let ?k = "?r + s32 (ka - ra)"
  obtain i1 where i1: "put_text tag_kernelAddress (sprintf_lu ?k) img = Some i1" "holds_text tag_kernelAddress (sprintf_lu ?k) i1"
      "same_except {tag_kernelAddress..<tag_kernelAddress + 11} img i1"
    using put_number [of tag_kernelAddress img ?k] assms by (auto simp: tag_offsets)
  obtain i2 where i2: "put_text tag_rootfsAddress (sprintf_lu ?r) i1 = Some i2" "holds_text tag_rootfsAddress (sprintf_lu ?r) i2"
      "same_except {tag_rootfsAddress..<tag_rootfsAddress + 11} i1 i2"
    using put_number [of tag_rootfsAddress i1 ?r] assms same_except_length [OF i1(3)] by (auto simp: tag_offsets)
  have "same_except tag_rewritten img i2"
    by (rule same_except_trans, (rule same_except_mono [OF i1(3)]),
        (auto simp: tag_rewritten_def)[1], rule same_except_mono [OF i2(3)]) (auto simp: tag_rewritten_def)
  moreover have "holds_text tag_kernelAddress (sprintf_lu ?k) i2"
    by (rule holds_text_same [OF i1(2) i2(3)]) (auto simp: tag_offsets)
  ultimately show ?thesis using that i1(1) i2(1,2) by (simp add: second_partition_def Let_def)
qed

text \<open>The last two changes: a new sequence number, and the checksum.\<close>

lemma finish_tag:
  assumes img: "256 \<le> length img" and n: "n \<le> 0x7fffffff"
  obtains i1 i2 where "put_text tag_imageSequence (dec_nat n) img = Some i1" "put_crc i1 = Some i2"
    "same_except ({138..<149} \<union> {236..<240}) img i2" "valid_tag (take 256 i2)"
    "tag_field (take 256 i2) tag_imageSequence = Some (int n)"
proof -
  have len: "length (dec_nat n) \<le> 10" using n by (intro length_dec_nat) simp_all
  obtain i1 where i1: "put_text tag_imageSequence (dec_nat n) img = Some i1" "holds_text tag_imageSequence (dec_nat n) i1"
      "same_except {138..<138 + length (dec_nat n) + 1} img i1"
    using put_text_total [of tag_imageSequence "dec_nat n" img] img len by (auto simp: tag_offsets)
  obtain i2 where i2: "put_crc i1 = Some i2" "same_except {236..<240} i1 i2" "valid_tag (take 256 i2)"
    using put_crc_total [of i1] img same_except_length [OF i1(3)] by metis
  have "same_except ({138..<149} \<union> {236..<240}) img i2"
    by (rule same_except_trans, (rule same_except_mono [OF i1(3)]), (use len in auto)[1], rule same_except_mono [OF i2(2)]) auto
  moreover have "holds_text tag_imageSequence (dec_nat n) i2"
    by (rule holds_text_same [OF i1(2) i2(2)]) (use len in \<open>auto simp: tag_offsets\<close>)
  ultimately show ?thesis
    using that i1(1) i2(1,3) holds_text_number [of tag_imageSequence n i2] n len by (simp add: tag_offsets)
qed

text \<open>An address that the finishing leaves alone.\<close>

lemma address_kept:
  assumes "holds_text field (sprintf_lu v) img" "same_except ({138..<149} \<union> {236..<240}) img img'" "field + 11 \<le> 138"
  shows "tag_field (take 256 img') field = Some (u32 v)"
proof -
  have "holds_text field (sprintf_lu v) img'"
    by (rule holds_text_same [OF assms(1,2)]) (use assms(3) length_sprintf_lu [of v] in auto)
  then show ?thesis
    using holds_text_number [of field "nat (u32 v)" img'] assms(3) length_sprintf_lu [of v] u32_range [of v]
    by (simp add: sprintf_lu_def nat_less_iff)
qed

lemma boot_find_total:
  "0 \<in> set (drop 2 xs) \<Longrightarrow> \<exists>r. boot_find want i xs = Some r \<and> (\<forall>j. r = Some j \<longrightarrow> i \<le> j \<and> j - i + 2 < length xs)"
proof (induction want i xs rule: boot_find.induct)
  case (1 want i p0 p1 p2 r)
  show ?case
  proof (cases "p2 = 0 \<or> p0 = 0x70 \<and> p1 = 0x3D \<and> want p2")
    case False
    then obtain x where "boot_find want (Suc i) (p1 # p2 # r) = Some x"
        "\<forall>j. x = Some j \<longrightarrow> Suc i \<le> j \<and> j - Suc i + 2 < length (p1 # p2 # r)"
      using 1 by auto
    then show ?thesis using False by fastforce
  qed auto
qed auto

text \<open>A valid tag, damaged in one byte of its fields or of the checksum.\<close>

lemma tag_damage:
  assumes v: "valid_tag (xs @ x # ys)" and "x \<noteq> y" and n: "length xs < 240"
  shows "\<not> valid_tag (xs @ y # ys)"
proof
  assume w: "valid_tag (xs @ y # ys)"
  have len: "length xs + length ys = 255" using v by (simp add: valid_tag_def)
  show False
  proof (cases "length xs < 236")
    case True
    then have "foldl crc_bitwise CRC32_INIT_VALUE (xs @ x # take (235 - length xs) ys) =
        foldl crc_bitwise CRC32_INIT_VALUE (xs @ y # take (235 - length xs) ys)"
      using v w by (simp add: valid_tag_def take_Cons' drop_Cons')
    then show False using foldl_crc_one_byte \<open>x \<noteq> y\<close> by blast
  next
    case False
    let ?t = "\<lambda>z. take 4 (drop 236 (xs @ z # ys))"
    have "of_be32 (?t x) = of_be32 (?t y)" using v w False by (simp add: valid_tag_def)
    moreover have "length (?t z) = 4" for z using len by simp
    ultimately have "?t x = ?t y" by (metis be32_of_be32)
    then have "?t x ! (length xs - 236) = ?t y ! (length xs - 236)" by simp
    then show False using \<open>x \<noteq> y\<close> n False by (simp add: nth_append)
  qed
qed

text \<open>The loop ends at the cleared checksum at the latest.\<close>

lemma bootline_ends: "nvram_wf nd \<Longrightarrow> 0 \<in> set (drop 2 (bootline (nd\<lparr>ulCheckSum := 0\<rparr>)))"
  using length_nvram_body [of nd] by (simp add: bootline_def nvram_bytes_def be32_def)

section \<open>Tags in flash\<close>

context flash_device
begin

lemma api_memptr_0: "ok d \<Longrightarrow> flash_get_memptr (Some dev) 0 d = Some FLASH_BASE"
  using memptr [of d 0] geom_sectors by (simp add: flash_get_memptr_def u16_def)

lemma api_get_blk:
  "ok d \<Longrightarrow> a < sum_list geom \<Longrightarrow> flash_get_blk (Some dev) (FLASH_BASE + int a) d = Some (int (blk_of geom a))"
  using get_blk [of d a] by (simp add: flash_get_blk_def)

lemma api_total_size: "ok d \<Longrightarrow> flash_get_total_size (Some dev) d = int (sum_list geom)"
  by (simp add: flash_get_total_size_def total_size)

lemma half_total: "half (int (sum_list geom)) = int (sum_list geom div 2)"
  by (simp add: half_def zdiv_int)

lemma sum_pos: "0 < sum_list geom"
  using geom_sectors geom_size(1) [of "geom ! 0"] blk_base_Suc [of 0 geom] blk_base_le_total [of geom "Suc 0"]
  by fastforce

lemma getTag_eq:
  assumes d: "ok d" and p: "parts_ok fi geom" and k: "k = 1 \<or> k = 2"
  shows "\<exists>d'. getTagFromPartition fi (Some dev) k d = Some (tag_in (contents d) (part_blk fi geom k), d') \<and>
    ok d' \<and> contents d' = contents d"
proof -
  let ?b = "part_blk fi geom k"
  have pos: "(if k = 1 then nat (flash_rootfs_start_offset fi) else sum_list geom div 2) < sum_list geom"
    using p sum_pos by (auto simp: parts_ok_def)
  have blk: "?b < length geom" unfolding part_blk_def by (rule blk_of_less [OF pos])
  have sz: "256 \<le> geom ! ?b" using p k by (auto simp: parts_ok_def)
  have get: "(if k = 1 then flash_get_blk (Some dev) (FLASH_BASE + flash_rootfs_start_offset fi) d
      else if k = 2 then flash_get_blk (Some dev) (FLASH_BASE + half (flash_get_total_size (Some dev) d)) d
      else Some 0) = Some (int ?b)"
    using api_get_blk [OF d pos] k p by (auto simp: part_blk_def parts_ok_def api_total_size [OF d] half_total)
  have len: "length (contents d ! ?b) = geom ! ?b" by (rule length_sector [OF d blk])
  obtain r d' where rd: "flash_read_buf (Some dev) (int ?b) 0 (replicate 256 0) 256 d =
      Some (r, take 256 (contents d ! ?b), d')" "ok d'" "contents d' = contents d"
    using read_buf [OF d blk, of 0 256 "replicate 256 0"] sz by (auto simp: flash_read_buf_def sector_u16 [OF blk])
  have t: "length (take 256 (contents d ! ?b)) = 256" using len sz by simp
  have crc: "getCrc32 (take 256 (contents d ! ?b)) 236 CRC32_INIT_VALUE =
      Some (foldl crc_bitwise CRC32_INIT_VALUE (take 236 (take 256 (contents d ! ?b))))"
    by (rule getCrc32_fold) (use t in linarith)
  have tok: "mem_read 236 4 (take 256 (contents d ! ?b)) = Some (take 4 (drop 236 (take 256 (contents d ! ?b))))"
    using mem_read_int [of 236 4 "take 256 (contents d ! ?b)"] t by (simp del: take_take drop_take)
  show ?thesis
    using get rd crc tok t d
    by (auto simp: getTagFromPartition_def api_memptr_0 [OF d] tag_in_def valid_tag_def tag_offsets
        simp del: take_take drop_take intro!: exI [of _ d'])
qed

lemma getBoot_both:
  assumes d: "ok d" and p: "parts_ok fi geom"
    and t: "tag_in (contents d) (part_blk fi geom 1) = Some t1" "tag_in (contents d) (part_blk fi geom 2) = Some t2"
    and n: "tag_sequence (Some t1) = Some n1" "tag_sequence (Some t2) = Some n2"
    and km: "\<And>z. km z"
    and pl: "placed geom (flash_nvram_start_blk fi) (flash_nvram_number_blk fi) (flash_nvram_blk_offset fi) 1024"
    and q: "q = section_pos geom (flash_nvram_start_blk fi) (flash_nvram_blk_offset fi) 0"
    and mem: "length mem = 300" and nd: "nd = nvram_of (take 300 (drop q (concat (contents d))))"
      "length (take 300 (drop q (concat (contents d)))) = 300"
    and bp: "boot_partition (nd\<lparr>ulCheckSum := 0\<rparr>) = Some c"
  shows "\<exists>d'. getBootImageTag fi km (Some dev) mem d =
      Some (Some (if c = 0x30 then (if n2 > n1 then t2 else t1) else (if n2 < n1 then t2 else t1)), d') \<and>
    ok d' \<and> contents d' = contents d"
proof -
  obtain d1 where d1: "getTagFromPartition fi (Some dev) 1 d = Some (Some t1, d1)" "ok d1" "contents d1 = contents d"
    using getTag_eq [OF d p, of 1] t by auto
  obtain d2 where d2: "getTagFromPartition fi (Some dev) 2 d1 = Some (Some t2, d2)" "ok d2" "contents d2 = contents d"
    using getTag_eq [OF d1(2) p, of 2] t d1(3) by auto
  obtain r d3 where "readNvramData fi km (Some dev) mem d2 = Some (r, nd\<lparr>ulCheckSum := 0\<rparr>, d3)" "ok d3" "contents d3 = contents d"
    using readNvramData_eq [where km = km, OF d2(2) km pl q mem refl] nd d2(3) by auto
  then show ?thesis using d1(1) d2(1) n bp by (auto simp: getBootImageTag_def)
qed

lemma getBoot_one:
  assumes d: "ok d" and p: "parts_ok fi geom"
    and t: "tag_in (contents d) (part_blk fi geom 1) = None \<or> tag_in (contents d) (part_blk fi geom 2) = None"
  shows "\<exists>d'. getBootImageTag fi km (Some dev) mem d =
      Some (case tag_in (contents d) (part_blk fi geom 2) of None \<Rightarrow> tag_in (contents d) (part_blk fi geom 1) | Some t \<Rightarrow> Some t, d') \<and>
    ok d' \<and> contents d' = contents d"
proof -
  obtain d1 where d1: "getTagFromPartition fi (Some dev) 1 d = Some (tag_in (contents d) (part_blk fi geom 1), d1)"
      "ok d1" "contents d1 = contents d"
    using getTag_eq [OF d p, of 1] by auto
  obtain d2 where d2: "getTagFromPartition fi (Some dev) 2 d1 = Some (tag_in (contents d) (part_blk fi geom 2), d2)"
      "ok d2" "contents d2 = contents d"
    using getTag_eq [OF d1(2) p, of 2] d1(3) by auto
  then show ?thesis using d1(1) t by (auto simp: getBootImageTag_def split: option.splits)
qed

text \<open>The new sequence number is above those in flash.\<close>

lemma updateSequence_eq:
  assumes d: "ok d" and p: "parts_ok fi geom"
    and seqs: "sequences_ok fi geom (contents d)"
  shows "\<exists>n d'. UpdateImageSequenceNumber fi (Some dev) d = Some (dec_nat n, d') \<and> 0 < n \<and> n \<le> 0x7fffffff \<and>
    (\<forall>k\<in>{1, 2}. \<forall>t. tag_in (contents d) (part_blk fi geom k) = Some t \<longrightarrow>
       (\<exists>m. tag_field t tag_imageSequence = Some m \<and> m < int n)) \<and> ok d' \<and> contents d' = contents d"
proof -
  note n1 = seqs [unfolded sequences_ok_def, rule_format, of 1, simplified]
    and n2 = seqs [unfolded sequences_ok_def, rule_format, of 2, simplified]
  let ?t1 = "tag_in (contents d) (part_blk fi geom 1)" and ?t2 = "tag_in (contents d) (part_blk fi geom 2)"
  obtain d1 where d1: "getTagFromPartition fi (Some dev) 1 d = Some (?t1, d1)" "ok d1" "contents d1 = contents d"
    using getTag_eq [OF d p, of 1] by auto
  obtain d2 where d2: "getTagFromPartition fi (Some dev) 2 d1 = Some (?t2, d2)" "ok d2" "contents d2 = contents d"
    using getTag_eq [OF d1(2) p, of 2] d1(3) by auto
  define m1 where "m1 = (case ?t1 of None \<Rightarrow> 0 | Some t \<Rightarrow> the (tag_field t tag_imageSequence))"
  define m2 where "m2 = (case ?t2 of None \<Rightarrow> 0 | Some t \<Rightarrow> the (tag_field t tag_imageSequence))"
  have m: "0 \<le> m1" "m1 < 0x7fffffff" "0 \<le> m2" "m2 < 0x7fffffff"
    using n1 n2 by (fastforce simp: m1_def m2_def split: option.splits)+
  have f1: "(case ?t1 of None \<Rightarrow> Some 0 | Some t \<Rightarrow> map_option s32 (tag_field t tag_imageSequence)) = Some m1"
    using n1 by (fastforce simp: m1_def s32_id split: option.splits)
  have f2: "(case ?t2 of None \<Rightarrow> Some m1
      | Some t \<Rightarrow> tag_field t tag_imageSequence \<bind> (\<lambda>n. Some (if n > u32 m1 then s32 n else m1))) = Some (max m1 m2)"
    using n2 m by (fastforce simp: m2_def s32_id u32_id max_def split: option.splits)
  have "UpdateImageSequenceNumber fi (Some dev) d = Some (dec_nat (nat (max m1 m2 + 1)), d2)"
    using d1(1) d2(1) f1 f2 m by (simp add: UpdateImageSequenceNumber_def sprintf_d_def s32_id)
  moreover have "\<forall>k\<in>{1, 2}. \<forall>t. tag_in (contents d) (part_blk fi geom k) = Some t \<longrightarrow>
      (\<exists>j. tag_field t tag_imageSequence = Some j \<and> j < int (nat (max m1 m2 + 1)))"
    using n1 n2 m by (fastforce simp: m1_def m2_def)
  ultimately show ?thesis using d2(2,3) m by (intro exI [of _ "nat (max m1 m2 + 1)"] exI [of _ d2]) auto
qed

lemma getPartition_one:
  assumes d: "ok d" and p: "parts_ok fi geom" and t1: "tag_in (contents d) (part_blk fi geom 1) = Some t1"
    and seqs: "sequences_ok fi geom (contents d)"
  obtains d' where "getPartitionFromTag fi (Some dev) (Some t1) d = Some (1, d')" "ok d'" "contents d' = contents d"
proof -
  let ?t2 = "tag_in (contents d) (part_blk fi geom 2)"
  obtain d1 where d1: "getTagFromPartition fi (Some dev) 1 d = Some (Some t1, d1)" "ok d1" "contents d1 = contents d"
    using getTag_eq [OF d p, of 1] t1 by auto
  obtain d2 where d2: "getTagFromPartition fi (Some dev) 2 d1 = Some (?t2, d2)" "ok d2" "contents d2 = contents d"
    using getTag_eq [OF d1(2) p, of 2] d1(3) by auto
  obtain n1 where n1: "tag_field t1 tag_imageSequence = Some n1" using seqs t1 by (auto simp: sequences_ok_def)
  obtain n2 where n2: "tag_sequence ?t2 = Some n2"
    using seqs by (cases ?t2) (auto simp: sequences_ok_def tag_sequence_def)
  have "getPartitionFromTag fi (Some dev) (Some t1) d = Some (1, d2)"
    using d1(1) d2(1) n1 n2 by (simp add: getPartitionFromTag_def tag_sequence_def [of "Some t1"])
  then show ?thesis using that d2 by blast
qed

text \<open>Reading and writing the NVRAM record, whatever it holds.\<close>

lemma section_length:
  assumes d: "ok d" and pl: "placed geom start num off len" and n: "int n \<le> len"
  shows "length (take n (drop (section_pos geom start off 0) (concat (contents d)))) = n"
proof -
  obtain a b x where ab: "a \<le> b" "b \<le> length geom" "x + n \<le> blk_base geom b - blk_base geom a"
      "section_pos geom start off 0 = blk_base geom a + x"
    by (rule placed_window [OF pl, of 0 n]) (use n in auto)
  have "length (concat (contents d)) = sum_list geom"
    using contents_shape [OF d] by (simp add: length_concat)
  then show ?thesis using ab blk_base_le_total [of geom b] by simp
qed

lemma readNvram_total:
  assumes d: "ok d" and km: "\<And>z. km z"
    and pl: "placed geom (flash_nvram_start_blk fi) (flash_nvram_number_blk fi) (flash_nvram_blk_offset fi) 1024"
    and mem: "length mem = 300"
    and b: "b = take 300 (drop (section_pos geom (flash_nvram_start_blk fi) (flash_nvram_blk_offset fi) 0) (concat (contents d)))"
  obtains r d' where "readNvramData fi km (Some dev) mem d = Some (r, (nvram_of b)\<lparr>ulCheckSum := 0\<rparr>, d')"
    "nvram_wf (nvram_of b)" "ok d'" "contents d' = contents d"
proof -
  have len: "length b = 300" unfolding b by (rule section_length [OF d pl]) simp
  then show ?thesis
    using readNvramData_eq [where km = km, OF d km pl refl mem b] that nvram_wf_of [OF len] by blast
qed

lemma writeNvram_total:
  assumes d: "ok d" and km: "\<And>z. km z"
    and pl: "placed geom (flash_nvram_start_blk fi) (flash_nvram_number_blk fi) (flash_nvram_blk_offset fi) 1024"
    and nd: "nvram_wf nd"
  shows "\<exists>nd' d'. writeNvramData fi km (Some dev) nd d = Some (nd', d') \<and> ok d' \<and>
    (\<forall>i<length geom. int i < flash_nvram_start_blk fi \<or> flash_nvram_start_blk fi + flash_nvram_number_blk fi \<le> int i \<longrightarrow>
       contents d' ! i = contents d ! i)"
proof -
  let ?nd = "nd\<lparr>ulCheckSum := nvram_crc nd\<rparr>"
  have len: "length (nvram_bytes ?nd) = 300" using nd by (simp add: length_nvram_bytes)
  obtain r d' where "kerSysNvRamSet fi km (Some dev) (nvram_bytes ?nd) 300 0 d = Some (r, d')" "ok d'"
      "\<forall>i<length geom. int i < flash_nvram_start_blk fi \<or> flash_nvram_start_blk fi + flash_nvram_number_blk fi \<le> int i \<longrightarrow>
         contents d' ! i = contents d ! i"
    using section_set_eq [where km = km and n = 300 and string = "nvram_bytes ?nd" and offset = 0, OF d pl _ _ _ km refl] len
    by (auto simp: kerSysNvRamSet_def)
  then show ?thesis using nvram_crc_get [OF nd] by (auto simp: writeNvramData_def)
qed

lemma getBoot_keeps:
  assumes d: "ok d" and p: "parts_ok fi geom" and km: "\<And>z. km z"
    and pl: "placed geom (flash_nvram_start_blk fi) (flash_nvram_number_blk fi) (flash_nvram_blk_offset fi) 1024"
    and mem: "length mem = 300" and r: "getBootImageTag fi km (Some dev) mem d = Some (t, d')"
  shows "ok d' \<and> contents d' = contents d"
proof -
  obtain d1 where d1: "getTagFromPartition fi (Some dev) 1 d = Some (tag_in (contents d) (part_blk fi geom 1), d1)"
      "ok d1" "contents d1 = contents d"
    using getTag_eq [OF d p, of 1] by auto
  obtain d2 where d2: "getTagFromPartition fi (Some dev) 2 d1 = Some (tag_in (contents d) (part_blk fi geom 2), d2)"
      "ok d2" "contents d2 = contents d"
    using getTag_eq [OF d1(2) p, of 2] d1(3) by auto
  obtain r' nd d3 where "readNvramData fi km (Some dev) mem d2 = Some (r', nd, d3)" "ok d3" "contents d3 = contents d"
    using readNvram_total [where km = km, OF d2(2) km pl mem refl] d2(3) by metis
  then show ?thesis
    using r d1(1) d2 by (auto simp: getBootImageTag_def split: if_splits bind_splits)
qed

text \<open>An image that starts at a sector and ends below the configuration.\<close>

lemma image_set_s32: "kerSysBcmImageSet km uo fi (Some dev) (s32 x) string n d = kerSysBcmImageSet km uo fi (Some dev) x string n d"
  unfolding kerSysBcmImageSet_def flash_get_blk_def u32_s32 using s32_range [of x] by (simp add: s32_id)

lemma image_below_config:
  assumes d: "ok d" and a: "0 < a" "a < length geom" and n: "0 < n" "n + n mod 2 \<le> length img"
    and psi: "flash_persistent_start_blk fi = int p" "p \<le> length geom" "blk_base geom a + n \<le> blk_base geom p"
  shows "\<exists>r d'. kerSysBcmImageSet km uo fi (Some dev) (s32 (FLASH_BASE + int (blk_base geom a))) img (int n) d = Some (r, d') \<and>
    ok d' \<and> (\<forall>i<a. contents d' ! i = contents d ! i) \<and>
    (r = 0 \<longrightarrow> take n (drop (blk_base geom a) (concat (contents d'))) = take n img)"
proof -
  define e where "e = blk_base geom a + n - 1"
  define b where "b = Suc (blk_of geom e)"
  have e: "e < blk_base geom p" "e < sum_list geom" "blk_base geom a \<le> e"
    using psi(3) n(1) blk_base_le_total [of geom p] by (simp_all add: e_def)
  have se: "Suc e = blk_base geom a + n" using n(1) by (simp add: e_def)
  note bounds = blk_of_bounds [OF e(2)] and less = blk_of_less [OF e(2)]
  have "blk_of geom e < p"
  proof (rule ccontr)
    assume "\<not> blk_of geom e < p"
    then show False using blk_base_mono [of p "blk_of geom e" geom] bounds e(1) by simp
  qed
  moreover have "a \<le> blk_of geom e"
  proof (rule ccontr)
    assume "\<not> a \<le> blk_of geom e"
    then show False using blk_base_mono [of "Suc (blk_of geom e)" a geom] bounds e(3) by simp
  qed
  ultimately have b: "a < b" "b \<le> length geom" "b \<le> p" "blk_base geom (b - 1) < blk_base geom a + n"
      "blk_base geom a + n \<le> blk_base geom b"
    using bounds less se unfolding b_def diff_Suc_1 by linarith+
  have "blk_base geom a < blk_base geom (Suc a)" using blk_base_Suc [OF a(2)] geom_size(1) [of "geom ! a"] a(2) by simp
  moreover have "0 < blk_base geom a"
    using blk_base_mono [of 1 a geom] blk_base_Suc [of 0 geom] geom_size(1) [of "geom ! 0"] a by (cases geom) auto
  ultimately obtain r d' where "kerSysBcmImageSet km uo fi (Some dev) (FLASH_BASE + int (blk_base geom a)) img (int n) d = Some (r, d')"
      "ok d'" "\<forall>i<length geom. i < a \<or> b \<le> i \<longrightarrow> contents d' ! i = contents d ! i"
      "r = 0 \<longrightarrow> take n (drop (blk_base geom a) (concat (contents d'))) = take n img"
    using image_set_eq [OF d b(1,2,4,5) n(2), of fi "blk_base geom a" km uo] b(3) psi(1) a(1) by auto
  then show ?thesis using a(2) by (auto simp: image_set_s32)
qed

lemma sector_start:
  assumes d: "ok d" and a: "a < length geom" "m \<le> geom ! a" "m \<le> n"
    and t: "take n (drop (blk_base geom a) (concat (contents d))) = take n img"
  shows "take m (contents d ! a) = take m img"
proof -
  have "drop (blk_base geom a) (concat (contents d)) = contents d ! a @ concat (drop (Suc a) (contents d))"
    using flat_split [OF contents_shape [OF d], of a "Suc a"] blk_bytes_step [of a "Suc a" "contents d"]
      length_contents [OF d] a(1) by simp
  then have "take m (take n (contents d ! a @ concat (drop (Suc a) (contents d)))) = take m (take n img)" using t by simp
  then show ?thesis using a length_sector [OF d a(1)] by (simp add: min_def)
qed

lemma from_sector:
  assumes "ok d" "a \<le> length geom"
  shows "drop (blk_base geom a) (concat (contents d)) = concat (drop a (contents d))"
proof -
  have "concat (contents d) = concat (take a (contents d)) @ concat (drop a (contents d))"
    by (metis append_take_drop_id concat_append)
  moreover have "length (concat (take a (contents d))) = blk_base geom a"
    using flat_split(2) [OF contents_shape [OF assms(1)], of a a] assms(2) by simp
  ultimately show ?thesis by simp
qed

lemma same_from_sector:
  assumes "ok d" "ok d'" "a \<le> length geom" "\<forall>i<length geom. a \<le> i \<longrightarrow> contents d' ! i = contents d ! i"
  shows "drop (blk_base geom a) (concat (contents d')) = drop (blk_base geom a) (concat (contents d))"
proof -
  have "drop a (contents d') = drop a (contents d)"
    using assms(3,4) length_contents [OF assms(1)] length_contents [OF assms(2)] by (intro nth_equalityI) simp_all
  then show ?thesis using assms(1-3) by (simp add: from_sector)
qed

text \<open>The end of an installation: the NVRAM record after a good image.\<close>

lemma boot_latest_total:
  assumes d: "ok d" and km: "\<And>z. km z"
    and pl: "placed geom (flash_nvram_start_blk fi) (flash_nvram_number_blk fi) (flash_nvram_blk_offset fi) 1024"
    and nd: "nvram_wf nd" "0 \<in> set (drop 2 (bootline nd))"
  shows "\<exists>d'. (do {
      found \<leftarrow> boot_find (\<lambda>c. c \<noteq> 0x30) 0 (bootline nd);
      case found of
        None \<Rightarrow> Some (0, img, d)
      | Some i \<Rightarrow>
          do {
            (_, d) \<leftarrow> writeNvramData fi km (Some dev) (nvram_of (take 4 (nvram_bytes nd) @ (bootline nd)[i + 2 := 0x30])) d;
            Some (0, img, d)
          }
      }) = Some (0 :: int, img, d') \<and> ok d' \<and>
    (\<forall>i<length geom. int i < flash_nvram_start_blk fi \<or> flash_nvram_start_blk fi + flash_nvram_number_blk fi \<le> int i \<longrightarrow>
       contents d' ! i = contents d ! i)"
proof -
  obtain r where r: "boot_find (\<lambda>c. c \<noteq> 0x30) 0 (bootline nd) = Some r"
    using boot_find_total [OF nd(2)] by blast
  show ?thesis
  proof (cases r)
    case None
    then show ?thesis using r d by simp
  next
    case (Some i)
    let ?nd = "nvram_of (take 4 (nvram_bytes nd) @ (bootline nd)[i + 2 := 0x30])"
    have "nvram_wf ?nd" using length_nvram_bytes [OF nd(1)] by (intro nvram_wf_of) (simp add: bootline_def)
    then show ?thesis using writeNvram_total [where km = km, OF d km pl, of ?nd] r Some by fastforce
  qed
qed

text \<open>Flashing the finished image, and the NVRAM record after it.\<close>

lemma flash_finished:
  assumes d: "ok d" and km: "\<And>z. km z"
    and nv: "flash_nvram_start_blk fi = 0" "flash_nvram_number_blk fi = 1"
      "placed geom (flash_nvram_start_blk fi) (flash_nvram_number_blk fi) (flash_nvram_blk_offset fi) 1024"
    and nd: "nvram_wf nd" "0 \<in> set (drop 2 (bootline nd))"
    and a: "0 < a" "a < length geom" "256 \<le> geom ! a"
    and img: "256 + sz + 1 \<le> length img" "valid_tag (take 256 img)"
    and psi: "flash_persistent_start_blk fi = int q" "q \<le> length geom" "blk_base geom a + (256 + sz) \<le> blk_base geom q"
  shows "\<exists>st d'. (do {
      (status, d) \<leftarrow> kerSysBcmImageSet km uo fi (Some dev) (s32 (FLASH_BASE + int (blk_base geom a))) img (int (256 + sz)) d;
      if status \<noteq> 0 then Some (status, img, d)
      else
        do {
          found \<leftarrow> boot_find (\<lambda>c. c \<noteq> 0x30) 0 (bootline nd);
          case found of
            None \<Rightarrow> Some (status, img, d)
          | Some i \<Rightarrow>
              do {
                (_, d) \<leftarrow> writeNvramData fi km (Some dev) (nvram_of (take 4 (nvram_bytes nd) @ (bootline nd)[i + 2 := 0x30])) d;
                Some (status, img, d)
              }
        }
      }) = Some (st, img, d') \<and> ok d' \<and> (\<forall>i. 0 < i \<and> i < a \<longrightarrow> contents d' ! i = contents d ! i) \<and>
    (st = 0 \<longrightarrow> tag_in (contents d') a = Some (take 256 img) \<and>
       take (256 + sz) (drop (blk_base geom a) (concat (contents d'))) = take (256 + sz) img)"
proof -
  have par: "0 < 256 + sz" "256 + sz + (256 + sz) mod 2 \<le> length img"
    using img(1) mod_less_divisor [of 2 "256 + sz"] by linarith+
  obtain st d1 where d1: "kerSysBcmImageSet km uo fi (Some dev) (s32 (FLASH_BASE + int (blk_base geom a))) img (int (256 + sz)) d = Some (st, d1)"
      "ok d1" "\<forall>i<a. contents d1 ! i = contents d ! i"
      "st = 0 \<longrightarrow> take (256 + sz) (drop (blk_base geom a) (concat (contents d1))) = take (256 + sz) img"
    using image_below_config [OF d a(1,2) par psi, of km uo] by blast
  show ?thesis
  proof (cases "st = 0")
    case False
    then show ?thesis using d1(1,2,3) by simp
  next
    case True
    have t: "take 256 (contents d1 ! a) = take 256 img"
      using sector_start [OF d1(2) a(2,3), of "256 + sz" img] d1(4) True by simp
    obtain d2 where d2: "(do {
          found \<leftarrow> boot_find (\<lambda>c. c \<noteq> 0x30) 0 (bootline nd);
          case found of
            None \<Rightarrow> Some (0, img, d1)
          | Some i \<Rightarrow>
              do {
                (_, d) \<leftarrow> writeNvramData fi km (Some dev) (nvram_of (take 4 (nvram_bytes nd) @ (bootline nd)[i + 2 := 0x30])) d1;
                Some (0, img, d)
              }
        }) = Some (0 :: int, img, d2)" "ok d2" "\<forall>i<length geom. 0 < i \<longrightarrow> contents d2 ! i = contents d1 ! i"
      using boot_latest_total [where km = km and img = img, OF d1(2) km nv(3) nd] nv(1,2) by auto
    have "drop (blk_base geom a) (concat (contents d2)) = drop (blk_base geom a) (concat (contents d1))"
      using same_from_sector [OF d1(2) d2(2), of a] a(1,2) d2(3) by auto
    then show ?thesis
      using d2 d1(1,3,4) t True a img(2) by (intro exI [of _ 0] exI [of _ d2])
        (simp add: tag_in_def del: add_2_eq_Suc add_2_eq_Suc')
  qed
qed

lemma install_second:
  assumes d: "ok d" and p: "parts_ok fi geom" and km: "\<And>z. km z"
    and nv: "flash_nvram_start_blk fi = 0" "flash_nvram_number_blk fi = 1"
      "placed geom (flash_nvram_start_blk fi) (flash_nvram_number_blk fi) (flash_nvram_blk_offset fi) 1024"
    and mem: "length mem1 = 300" "length mem2 = 300"
    and img: "256 + sz + 1 \<le> length img" "tag_field img tag_rootfsAddress = Some ra"
      "tag_field img tag_kernelAddress = Some ka" "image_size img = Some (int sz)"
      "relocate_tag fi (s32 ra) (s32 ka) img = Some (ra', ka', img1)"
    and cur: "getBootImageTag fi km (Some dev) mem1 d = Some (Some t1, d0)"
      "tag_in (contents d) (part_blk fi geom 1) = Some t1" "image_size t1 = Some csz"
    and seqs: "sequences_ok fi geom (contents d)"
    and fits: "int sz \<le> availableSizeOneImg (int (sum_list geom)) ra' FLASH_BASE"
      "int sz \<le> availableSizeTwoImgs fi (int (sum_list geom))" "csz \<le> availableSizeTwoImgs fi (int (sum_list geom))"
    and a: "a = part_blk fi geom 2" "blk_base geom a = sum_list geom div 2" "part_blk fi geom 1 < a"
    and psi: "flash_persistent_start_blk fi = int q" "q \<le> length geom" "blk_base geom a + (256 + sz) \<le> blk_base geom q"
  shows "\<exists>st img' d'. flashFsKernelImage fi km uo (Some dev) mem1 mem2 img d = Some (st, img', d') \<and> ok d' \<and>
    (\<forall>i. 0 < i \<and> i < a \<longrightarrow> contents d' ! i = contents d ! i) \<and> same_except tag_rewritten img img' \<and>
    tag_field (take 256 img') tag_rootfsAddress = Some (u32 (0xBFC00000 + int (sum_list geom div 2) + 256)) \<and>
    tag_field (take 256 img') tag_kernelAddress = Some (u32 (0xBFC00000 + int (sum_list geom div 2) + 256 + (ka - ra))) \<and>
    (\<exists>n n1. tag_field (take 256 img') tag_imageSequence = Some n \<and> tag_field t1 tag_imageSequence = Some n1 \<and> n1 < n) \<and>
    (st = 0 \<longrightarrow> tag_in (contents d') a = Some (take 256 img') \<and>
       take (256 + sz) (drop (blk_base geom a) (concat (contents d'))) = take (256 + sz) img')"
proof -
  let ?F = "int (sum_list geom)"
  have total: "sum_list geom \<le> 0x4000000" by (rule geom_size(2))
  have ok0: "ok d0" "contents d0 = contents d" using getBoot_keeps [where km = km, OF d p km nv(3) mem(1) cur(1)] by simp_all
  define b where "b = take 300 (drop (section_pos geom (flash_nvram_start_blk fi) (flash_nvram_blk_offset fi) 0) (concat (contents d)))"
  obtain r1 d1 where d1: "readNvramData fi km (Some dev) mem2 d0 = Some (r1, (nvram_of b)\<lparr>ulCheckSum := 0\<rparr>, d1)"
      "nvram_wf (nvram_of b)" "ok d1" "contents d1 = contents d"
    using readNvram_total [where km = km, OF ok0(1) km nv(3) mem(2) refl] ok0(2) unfolding b_def by metis
  have img1: "s32 (ka' - ra') = s32 (ka - ra)" "same_except tag_rewritten img img1" "256 \<le> length img"
    using relocate_total [of img fi ra ka] img(1,5) by auto
  note len1 = same_except_length [OF img1(2)]
  obtain d2 where d2: "getPartitionFromTag fi (Some dev) (Some t1) d1 = Some (1, d2)" "ok d2" "contents d2 = contents d"
    using getPartition_one [OF d1(3) p] cur(2) d1(4) seqs by metis
  obtain img2 where img2: "second_partition ?F FLASH_BASE ra' ka' img1 = Some (s32 (FLASH_BASE + s32 (?F div 2 + 256)), img2)"
      "same_except tag_rewritten img1 img2" "holds_text tag_rootfsAddress (sprintf_lu (0xBFC00000 + s32 (?F div 2 + 256))) img2"
      "holds_text tag_kernelAddress (sprintf_lu (0xBFC00000 + s32 (?F div 2 + 256) + s32 (ka' - ra'))) img2"
    using second_partition_total [of img1 ?F FLASH_BASE ra' ka'] len1 img1(3) by metis
  note len2 = same_except_length [OF img2(2)]
  obtain n d3 where d3: "UpdateImageSequenceNumber fi (Some dev) d2 = Some (dec_nat n, d3)" "0 < n" "n \<le> 0x7fffffff"
      "\<exists>m. tag_field t1 tag_imageSequence = Some m \<and> m < int n" "ok d3" "contents d3 = contents d"
    using updateSequence_eq [OF d2(2) p] seqs d2(3) cur(2) by auto
  obtain i1 i2 where i2: "put_text tag_imageSequence (dec_nat n) img2 = Some i1" "put_crc i1 = Some i2"
      "same_except ({138..<149} \<union> {236..<240}) img2 i2" "valid_tag (take 256 i2)"
      "tag_field (take 256 i2) tag_imageSequence = Some (int n)"
    using finish_tag [of img2 n] d3(3) len2 len1 img1(3) by metis
  have same: "same_except tag_rewritten img i2"
    by (rule same_except_trans [OF same_except_trans [OF img1(2) img2(2)] same_except_mono [OF i2(3)]])
      (auto simp: tag_rewritten_def tag_offsets)
  have adr: "tag_field (take 256 i2) tag_rootfsAddress = Some (u32 (0xBFC00000 + int (sum_list geom div 2) + 256))"
      "tag_field (take 256 i2) tag_kernelAddress = Some (u32 (0xBFC00000 + int (sum_list geom div 2) + 256 + (ka - ra)))"
    using address_kept [OF img2(3) i2(3)] address_kept [OF img2(4) i2(3)] total
      u32_add_s32 [of "0xBFC00000 + int (sum_list geom div 2) + 256" "ka - ra"]
    by (simp_all add: tag_offsets img1(1) zdiv_int s32_id algebra_simps)
  have a0: "0 < a" "a < length geom"
    using a(3) blk_of_less [of "sum_list geom div 2" geom] sum_pos by (simp_all add: a(1) part_blk_def)
  have dest: "s32 (s32 (FLASH_BASE + s32 (?F div 2 + 256)) - 256) = s32 (FLASH_BASE + int (blk_base geom a))"
    by (simp add: s32_diff_left s32_add_right a(2) zdiv_int algebra_simps)
  have sz: "s32 (256 + int sz) = int (256 + sz)"
    using psi(3) blk_base_le_total [of geom q] total by (simp add: s32_id)
  have boot': "nvram_wf ((nvram_of b)\<lparr>ulCheckSum := 0\<rparr>)" "0 \<in> set (drop 2 (bootline ((nvram_of b)\<lparr>ulCheckSum := 0\<rparr>)))"
    using d1(2) bootline_ends [OF d1(2)] by simp_all
  have ga: "256 \<le> geom ! a" using p a(1) by (simp add: parts_ok_def)
  have i2len: "256 + sz + 1 \<le> length i2" using img(1) same_except_length [OF same] by simp
  note fin = flash_finished [where km = km and uo = uo, OF d3(5) km nv boot' a0 ga i2len i2(4) psi]
  then obtain st d5 where "flashFsKernelImage fi km uo (Some dev) mem1 mem2 img d = Some (st, i2, d5)" "ok d5"
      "\<forall>i. 0 < i \<and> i < a \<longrightarrow> contents d5 ! i = contents d ! i"
      "st = 0 \<longrightarrow> tag_in (contents d5) a = Some (take 256 i2) \<and>
         take (256 + sz) (drop (blk_base geom a) (concat (contents d5))) = take (256 + sz) i2"
    using img(2-5) cur d1(1) d2(1) img2(1) d3(1,6) i2(1,2) fits dest sz total
    by (auto simp: flashFsKernelImage_def api_memptr_0 [OF d] api_total_size [OF d] u32_id)
  then show ?thesis using d3(4) i2(5) same adr by blast
qed

end

end
