(* ===== verification/Upgrade_Properties.thy ===== *)
theory Upgrade_Properties
  imports Flash_Properties Image_Upgrade
begin

text \<open>
  What the NVRAM record and the firmware upgrade of \<open>board.c\<close> guarantee, through the flash
  storage and the driver, on any chip that obeys the AMD command set.
\<close>

section \<open>Images and records on the simulated part\<close>

definition sim_nvram :: nvram_data where
  "sim_nvram =
     \<lparr>ulVersion = 4, szBootline = ascii ''p=1'' @ replicate 253 0, szBoardId = ascii ''96338W'' @ replicate 10 0,
      ulMainTpNum = 0, ulPsiSize = 24, ulNumMacAddrs = 10, ucaBaseMacAddr = [0, 0x10, 0x18, 0, 0, 0],
      chReserved = [0, 0], ulCheckSum = 0\<rparr>"

lemma sim_nvram_wf: "nvram_wf (sim_nvram\<lparr>ulCheckSum := c\<rparr>)" "sim_nvram\<lparr>ulCheckSum := 0\<rparr> = sim_nvram"
  by (simp_all add: sim_nvram_def nvram_wf_def ascii_def)

definition tag_with :: "bytes \<Rightarrow> u32 \<Rightarrow> bytes" where
  "tag_with body token = body @ be32 token @ replicate 16 0"

lemma valid_tag_with:
  "length body = 236 \<Longrightarrow> valid_tag (tag_with body c) \<longleftrightarrow> c = foldl crc_bitwise CRC32_INIT_VALUE body"
  by (auto simp: valid_tag_def tag_with_def)

text \<open>The fields of an image of 1500 bytes with a sequence number of one digit.\<close>

definition sim_fields :: "u8 \<Rightarrow> bytes" where
  "sim_fields sq = replicate 94 0 @ ascii ''3217096960'' @ [0, 0] @ ascii ''1000'' @ [0] @ replicate 5 0 @
     ascii ''3217097960'' @ [0, 0] @ ascii ''500'' @ [0] @ replicate 6 0 @ [sq, 0] @ replicate 96 0"

lemma length_sim_fields [simp]: "length (sim_fields sq) = 236"
  by (simp add: sim_fields_def ascii_def)

definition sim_tag :: "u8 \<Rightarrow> bytes" where
  "sim_tag sq = tag_with (sim_fields sq) (foldl crc_bitwise CRC32_INIT_VALUE (sim_fields sq))"

definition sim_bad_tag :: bytes where
  "sim_bad_tag = tag_with (sim_fields 0x31) (foldl crc_bitwise CRC32_INIT_VALUE (sim_fields 0x31) + 1)"

lemma sim_tag_simps [simp]:
  "length (sim_tag sq) = 256" "length sim_bad_tag = 256" "valid_tag (sim_tag sq)" "\<not> valid_tag sim_bad_tag"
  unfolding sim_tag_def sim_bad_tag_def by (simp_all only: valid_tag_with length_sim_fields) (simp_all add: tag_with_def)

lemma sim_tag_fields:
  assumes "t = sim_tag 0x31 @ r"
  shows "tag_field t tag_rootfsAddress = Some 3217096960" "tag_field t tag_kernelAddress = Some 3217097960"
    "image_size t = Some 1500" "tag_field t tag_imageSequence = Some 1"
  by (simp_all add: assms sim_tag_def tag_with_def sim_fields_def ascii_def tag_field_def tag_offsets image_size_def
      simple_strtoul_def strtoul_prefix_def is_xdigit_def is_digit_def digit_value_def u32_def)

text \<open>A flash with a record in the NVRAM section and a tag at the start of each partition.\<close>

definition sim_halves :: "bytes \<Rightarrow> bytes \<Rightarrow> bytes \<Rightarrow> bytes" where
  "sim_halves nv t1 t2 =
     replicate 0x580 0xff @ nv @ replicate 0xF954 0xff @ t1 @ replicate 0x2FF00 0xff @ t2 @ replicate 0x3FF00 0xff"

lemma sim_halves_parts:
  assumes "length nv = 300" "length t1 = 256" "length t2 = 256"
  shows "length (sim_halves nv t1 t2) = 0x80000"
    "take 300 (drop 0x580 (sim_halves nv t1 t2)) = nv"
    "take 256 (drop 0x10000 (sim_halves nv t1 t2)) = t1"
    "take 256 (drop 0x40000 (sim_halves nv t1 t2)) = t2"
  using assms by (simp_all add: sim_halves_def)

abbreviation sim_board :: "bytes \<Rightarrow> bytes \<Rightarrow> bytes \<Rightarrow> sim cfi_state" where
  "sim_board nv t1 t2 \<equiv> sim_cfi (words_of (sim_halves nv t1 t2))"

lemma sim_part_blk:
  "part_blk sim_layout sim_sectors 1 = 1" "part_blk sim_layout sim_sectors 2 = 4" "parts_ok sim_layout sim_sectors"
proof -
  have "blk_of sim_sectors 0x10000 = 1" by (rule blk_of_unique) (simp_all add: sim_sectors_def blk_base_replicate)
  moreover have "blk_of sim_sectors 0x40000 = 4" by (rule blk_of_unique) (simp_all add: sim_sectors_def blk_base_replicate)
  ultimately show "part_blk sim_layout sim_sectors 1 = 1" "part_blk sim_layout sim_sectors 2 = 4" "parts_ok sim_layout sim_sectors"
    by (simp_all add: part_blk_def parts_ok_def sim_layout_def) (simp_all add: sim_sectors_def sum_list_replicate)
qed

lemma sim_board_tags:
  assumes "length nv = 300" "length t1 = 256" "length t2 = 256"
  shows "cfi_ok sim_sectors (sim_ready sim_sectors) (sim_board nv t1 t2)"
    "tag_in (cfi_contents sim_sectors cells (sim_board nv t1 t2)) 1 = (if valid_tag t1 then Some t1 else None)"
    "tag_in (cfi_contents sim_sectors cells (sim_board nv t1 t2)) 4 = (if valid_tag t2 then Some t2 else None)"
    "take 300 (drop (section_pos sim_sectors (flash_nvram_start_blk sim_layout) (flash_nvram_blk_offset sim_layout) 0)
      (concat (cfi_contents sim_sectors cells (sim_board nv t1 t2)))) = nv"
proof -
  note h = sim_halves_parts [OF assms]
  have "section_pos sim_sectors (flash_nvram_start_blk sim_layout) (flash_nvram_blk_offset sim_layout) 0 = 0x580"
    by (simp add: section_pos_def sim_layout_def)
  then show "cfi_ok sim_sectors (sim_ready sim_sectors) (sim_board nv t1 t2)"
    "take 300 (drop (section_pos sim_sectors (flash_nvram_start_blk sim_layout) (flash_nvram_blk_offset sim_layout) 0)
      (concat (cfi_contents sim_sectors cells (sim_board nv t1 t2)))) = nv"
    using sim_contents [OF h(1)] h(2) by simp_all
  show "tag_in (cfi_contents sim_sectors cells (sim_board nv t1 t2)) 1 = (if valid_tag t1 then Some t1 else None)"
    "tag_in (cfi_contents sim_sectors cells (sim_board nv t1 t2)) 4 = (if valid_tag t2 then Some t2 else None)"
    using h(3,4) by (simp_all add: tag_in_def sim_contents_nth [OF h(1)])
qed

section \<open>The NVRAM record\<close>

text \<open>
  C23. On a chip that does not fail, a record stored by \<open>writeNvramData\<close> is read back by
  \<open>readNvramData\<close>, which finds the checksum right and returns every field.
\<close>

theorem writeNvramData_read:
  assumes chip: "reliable_amd_chip nc ready bypass cells geom" and s: "cfi_ok geom ready s"
    and pl: "placed geom (flash_nvram_start_blk fi) (flash_nvram_number_blk fi) (flash_nvram_blk_offset fi) 1024"
    and km: "\<And>z. km z" and nd: "nvram_wf nd" and mem: "length mem = 300"
  shows "\<exists>nd' s'. writeNvramData fi km (Some (flash_cfi_dev nc did name)) nd s = Some (nd', s') \<and> cfi_ok geom ready s' \<and>
    (\<exists>s''. readNvramData fi km (Some (flash_cfi_dev nc did name)) mem s' = Some (0, nd\<lparr>ulCheckSum := 0\<rparr>, s''))"
  by (rule reliable_flash_device.writeNvramData_roundtrip [where km = km, OF reliable_amd_chip.cfi_reliable_device [OF chip] s km pl nd mem])

theorem writeNvramData_read_witness:
  "\<exists>nd' s'. writeNvramData sim_layout (\<lambda>z. True) sim_dev sim_nvram sim_erased = Some (nd', s') \<and>
    (\<exists>s''. readNvramData sim_layout (\<lambda>z. True) sim_dev (replicate 300 0) s' = Some (0, sim_nvram, s''))"
proof -
  have "nvram_wf sim_nvram" using sim_nvram_wf(1) [of 0] sim_nvram_wf(2) by simp
  then show ?thesis
    using writeNvramData_read [where km = "\<lambda>z. True" and mem = "replicate 300 0" and nd = sim_nvram,
        OF nor8.reliable_amd_chip_axioms sim_erased_ok sim_layout_placed(2)] sim_nvram_wf(2) by fastforce
qed

text \<open>
  C24. Damage of one byte is found.  When the NVRAM section holds a record with a right checksum
  except that one of its 300 bytes has another value, in a field or in the checksum itself,
  \<open>readNvramData\<close> returns -1.
\<close>

theorem readNvramData_one_byte:
  assumes chip: "amd_chip nc ready bypass cells geom" and s: "cfi_ok geom ready s"
    and pl: "placed geom (flash_nvram_start_blk fi) (flash_nvram_number_blk fi) (flash_nvram_blk_offset fi) 1024"
    and km: "\<And>z. km z" and mem: "length mem = 300"
    and nd: "nvram_wf nd" "ulCheckSum nd = nvram_crc nd" "nvram_bytes nd = xs @ x # ys" "x \<noteq> y"
    and st: "take 300 (drop (section_pos geom (flash_nvram_start_blk fi) (flash_nvram_blk_offset fi) 0)
      (concat (cfi_contents geom cells s))) = xs @ y # ys"
  shows "\<exists>nd' s'. readNvramData fi km (Some (flash_cfi_dev nc did name)) mem s = Some (-1, nd', s')"
proof -
  let ?b = "xs @ y # ys"
  have len: "length ?b = 300" using length_nvram_bytes [OF nd(1)] nd(3) by simp
  have "ulCheckSum (nvram_of ?b) \<noteq> nvram_crc (nvram_of ?b)"
    by (rule nvram_damage [OF nd len])
  then show ?thesis
    using flash_device.readNvramData_eq [where km = km, OF amd_chip.cfi_device [where did = did and name = name, OF chip]
        s km pl refl mem st [symmetric] len] by auto
qed


theorem readNvramData_one_byte_witness:
  "\<exists>nd' s'. readNvramData sim_layout (\<lambda>z. True) sim_dev (replicate 300 0)
      (sim_board (1 # tl (nvram_bytes (sim_nvram\<lparr>ulCheckSum := nvram_crc sim_nvram\<rparr>))) sim_bad_tag sim_bad_tag) =
    Some (-1, nd', s')"
proof -
  let ?nd = "sim_nvram\<lparr>ulCheckSum := nvram_crc sim_nvram\<rparr>"
  have len: "length (nvram_bytes ?nd) = 300" using sim_nvram_wf(1) by (rule length_nvram_bytes)
  have "length (1 # tl (nvram_bytes ?nd)) = 300" using len by simp
  note board = sim_board_tags [OF this sim_tag_simps(2) sim_tag_simps(2)]
  have hd: "nvram_bytes ?nd = [] @ 0 # tl (nvram_bytes ?nd)" by (simp add: nvram_bytes_def nvram_body_def sim_nvram_def be32_def)
  have crc: "ulCheckSum ?nd = nvram_crc ?nd" by (simp add: nvram_crc_def nvram_bytes_def nvram_body_def)
  show ?thesis
    using readNvramData_one_byte [where km = "\<lambda>z. True" and mem = "replicate 300 0" and y = 1 and fi = sim_layout,
        OF nor8.amd_chip_axioms board(1) sim_layout_placed(2) _ _ sim_nvram_wf(1) crc hd] board(4) by simp
qed

section \<open>Image tags\<close>

text \<open>
  A tag damaged in one byte, in a field or in its checksum, is not accepted:
  \<open>getTagFromPartition\<close> returns no tag for the partition, so it is neither booted nor counted
  in the choice of a sequence number.
\<close>

lemma getTagFromPartition_one_byte:
  assumes chip: "amd_chip nc ready bypass cells geom" and s: "cfi_ok geom ready s" and p: "parts_ok fi geom"
    and k: "k = 1 \<or> k = 2" and v: "valid_tag (xs @ x # ys)" "x \<noteq> y" "length xs < 240"
    and t: "take 256 (cfi_contents geom cells s ! part_blk fi geom k) = xs @ y # ys"
  shows "\<exists>s'. getTagFromPartition fi (Some (flash_cfi_dev nc did name)) k s = Some (None, s')"
  using flash_device.getTag_eq [OF amd_chip.cfi_device [where did = did and name = name, OF chip] s p k]
    tag_damage [OF v] t by (auto simp: tag_in_def)

lemma getTagFromPartition_one_byte_witness:
  "\<exists>s'. getTagFromPartition sim_layout sim_dev 2
    (sim_board (replicate 300 0) (sim_tag 0x31) (1 # tl (sim_tag 0x31))) = Some (None, s')"
proof -
  have hd: "sim_tag 0x31 = [] @ 0 # tl (sim_tag 0x31)" by (simp add: sim_tag_def tag_with_def sim_fields_def numeral_eq_Suc)
  have v: "valid_tag ([] @ 0 # tl (sim_tag 0x31))" unfolding hd [symmetric] by simp
  have lens: "length (replicate 300 0 :: bytes) = 300" "length (sim_tag 0x31) = 256" "length (1 # tl (sim_tag 0x31)) = 256" by simp_all
  note h = sim_halves_parts [OF lens]
  have "take 256 (cfi_contents sim_sectors cells (sim_board (replicate 300 0) (sim_tag 0x31) (1 # tl (sim_tag 0x31))) !
      part_blk sim_layout sim_sectors 2) = [] @ 1 # tl (sim_tag 0x31)"
    using h(4) by (simp add: sim_part_blk sim_contents_nth [OF h(1)])
  then show ?thesis
    using getTagFromPartition_one_byte [OF nor8.amd_chip_axioms sim_board_tags(1) [OF lens] sim_part_blk(3) _ v, of 2 1] by simp
qed

text \<open>
  C25. Which image boots when both partitions hold a valid tag.  The boot line in the NVRAM
  decides: with partition \<open>0\<close>, or none named, it is the image with the larger sequence number,
  otherwise the one with the smaller; the first partition wins a tie.
\<close>

theorem getBootImageTag_two:
  assumes chip: "amd_chip nc ready bypass cells geom" and s: "cfi_ok geom ready s" and p: "parts_ok fi geom"
    and pl: "placed geom (flash_nvram_start_blk fi) (flash_nvram_number_blk fi) (flash_nvram_blk_offset fi) 1024"
    and km: "\<And>z. km z" and mem: "length mem = 300"
    and t: "tag_in (cfi_contents geom cells s) (part_blk fi geom 1) = Some t1" "tag_in (cfi_contents geom cells s) (part_blk fi geom 2) = Some t2"
    and n: "tag_field t1 tag_imageSequence = Some n1" "tag_field t2 tag_imageSequence = Some n2"
  shows "\<exists>c s'. boot_partition ((nvram_of (take 300 (drop (section_pos geom (flash_nvram_start_blk fi) (flash_nvram_blk_offset fi) 0)
        (concat (cfi_contents geom cells s)))))\<lparr>ulCheckSum := 0\<rparr>) = Some c \<and>
    getBootImageTag fi km (Some (flash_cfi_dev nc did name)) mem s =
      Some (Some (if c = 0x30 then (if s32 n2 > s32 n1 then t2 else t1) else (if s32 n2 < s32 n1 then t2 else t1)), s')"
proof -
  note dev = amd_chip.cfi_device [where did = did and name = name, OF chip]
  let ?b = "take 300 (drop (section_pos geom (flash_nvram_start_blk fi) (flash_nvram_blk_offset fi) 0) (concat (cfi_contents geom cells s)))"
  have len: "length ?b = 300" using flash_device.section_length [OF dev s pl, of 300] by simp
  obtain c where c: "boot_partition ((nvram_of ?b)\<lparr>ulCheckSum := 0\<rparr>) = Some c"
    using boot_find_total [OF bootline_ends [OF nvram_wf_of [OF len]], of "\<lambda>c. True" 0] by (auto simp: boot_partition_def)
  show ?thesis
    using flash_device.getBoot_both [where km = km, OF dev s p t _ _ km pl refl mem refl len c, of "s32 n1" "s32 n2"] c n
    by (auto simp: tag_sequence_def)
qed

lemma sim_nvram_back: "nvram_of (nvram_bytes sim_nvram) = sim_nvram" "length (nvram_bytes sim_nvram) = 300"
  using sim_nvram_wf(1) [of 0] sim_nvram_wf(2) by (simp_all add: nvram_of_bytes length_nvram_bytes)

lemma sim_tag_sequence: "tag_field (sim_tag 0x31) tag_imageSequence = Some 1" "tag_field (sim_tag 0x32) tag_imageSequence = Some 2"
  by (simp_all add: sim_tag_def tag_with_def sim_fields_def ascii_def tag_field_def tag_offsets
      simple_strtoul_def strtoul_prefix_def is_xdigit_def is_digit_def digit_value_def u32_def)

theorem getBootImageTag_two_witness:
  "\<exists>s'. getBootImageTag sim_layout (\<lambda>z. True) sim_dev (replicate 300 0)
      (sim_board (nvram_bytes sim_nvram) (sim_tag 0x31) (sim_tag 0x32)) = Some (Some (sim_tag 0x31), s')"
proof -
  note board = sim_board_tags [OF sim_nvram_back(2) sim_tag_simps(1) sim_tag_simps(1), of "0x31" "0x32"]
  have "boot_partition sim_nvram = Some 0x31"
    by (simp add: boot_partition_def bootline_def nvram_bytes_def nvram_body_def sim_nvram_def ascii_def be32_def)
  then show ?thesis
    using getBootImageTag_two [where km = "\<lambda>z. True" and mem = "replicate 300 0" and fi = sim_layout,
        OF nor8.amd_chip_axioms board(1) sim_part_blk(3) sim_layout_placed(2) _ _ _ _ sim_tag_sequence]
      board(2-4) sim_nvram_back sim_nvram_wf(2) by (fastforce simp: sim_part_blk s32_def)
qed

text \<open>
  The number of a new image.  While the sequence numbers in flash can still grow,
  \<open>UpdateImageSequenceNumber\<close> prints a positive number above that of every valid tag in flash,
  and reading the printed text back gives that number.
\<close>

lemma UpdateImageSequenceNumber_above:
  assumes chip: "amd_chip nc ready bypass cells geom" and s: "cfi_ok geom ready s" and p: "parts_ok fi geom"
    and seqs: "sequences_ok fi geom (cfi_contents geom cells s)"
  shows "\<exists>n txt s'. UpdateImageSequenceNumber fi (Some (flash_cfi_dev nc did name)) s = Some (txt, s') \<and>
    0 < n \<and> n \<le> 0x7fffffff \<and> (\<forall>cp. simple_strtoul (txt @ 0 # cp) 10 = Some n) \<and>
    (\<forall>k\<in>{1, 2}. \<forall>t. tag_in (cfi_contents geom cells s) (part_blk fi geom k) = Some t \<longrightarrow>
       (\<exists>m. tag_field t tag_imageSequence = Some m \<and> m < n))"
proof -
  obtain n s' where "UpdateImageSequenceNumber fi (Some (flash_cfi_dev nc did name)) s = Some (dec_nat n, s')" "0 < n" "n \<le> 0x7fffffff"
    "\<forall>k\<in>{1, 2}. \<forall>t. tag_in (cfi_contents geom cells s) (part_blk fi geom k) = Some t \<longrightarrow>
       (\<exists>m. tag_field t tag_imageSequence = Some m \<and> m < int n)"
    using flash_device.updateSequence_eq [OF amd_chip.cfi_device [where did = did and name = name, OF chip] s p seqs] by auto
  then show ?thesis using strtoul_dec_nat [of n 0] zero_not_digit by (intro exI [of _ "int n"] exI [of _ "dec_nat n"] exI [of _ s']) auto
qed

lemma sim_board_sequences:
  assumes "length nv = 300" "length t2 = 256"
    "\<And>t. valid_tag t2 \<Longrightarrow> t = t2 \<Longrightarrow> tag_field t tag_imageSequence = Some 2"
  shows "sequences_ok sim_layout sim_sectors (cfi_contents sim_sectors cells (sim_board nv (sim_tag 0x31) t2))"
  using assms(3) sim_tag_sequence sim_part_blk sim_board_tags [OF assms(1) sim_tag_simps(1) [of "0x31"] assms(2)]
  by (auto simp: sequences_ok_def split: if_splits)

lemma UpdateImageSequenceNumber_above_witness:
  "\<exists>n txt s'. UpdateImageSequenceNumber sim_layout sim_dev (sim_board (replicate 300 0) (sim_tag 0x31) (sim_tag 0x32)) = Some (txt, s') \<and>
    2 < n \<and> simple_strtoul (txt @ [0]) 10 = Some n"
proof -
  have len: "length (replicate 300 0 :: bytes) = 300" by simp
  note board = sim_board_tags [OF len sim_tag_simps(1) sim_tag_simps(1), of "0x31" "0x32"]
  have "sequences_ok sim_layout sim_sectors (cfi_contents sim_sectors cells (sim_board (replicate 300 0) (sim_tag 0x31) (sim_tag 0x32)))"
    using sim_board_sequences [of "replicate 300 0" "sim_tag 0x32"] sim_tag_sequence by simp
  from UpdateImageSequenceNumber_above [where did = ID_AM29LV400B and name = "''AM29LV400B''",
      OF nor8.amd_chip_axioms board(1) sim_part_blk(3) this]
  show ?thesis using board(3) sim_tag_sequence by (fastforce simp: sim_part_blk)
qed

section \<open>Installing an image\<close>

text \<open>
  C22. An upgrade keeps the running image and installs the whole of the new one.  When the image of the
  first partition boots and it and the new image both fit in half of the flash,
  \<open>flashFsKernelImage\<close> always returns and, whatever its status, leaves the sectors between
  the first and the second partition's as they were, those of the running image among them.  The image
  it flashes is the given one except for the root file system's and the kernel's address, the sequence
  number and the checksum in its tag: the root file system's address is behind the tag at the second
  half of the flash, the kernel's is as far from it as before, and the sequence number is above that of
  the running image.  When it returns 0, the second partition holds this image, tag, root file system
  and kernel, and its tag is a valid one.
\<close>

theorem flashFsKernelImage_second:
  assumes chip: "amd_chip nc ready bypass cells geom" and s: "cfi_ok geom ready s" and p: "parts_ok fi geom"
    and km: "\<And>z. km z"
    and nv: "flash_nvram_start_blk fi = 0" "flash_nvram_number_blk fi = 1"
      "placed geom (flash_nvram_start_blk fi) (flash_nvram_number_blk fi) (flash_nvram_blk_offset fi) 1024"
    and mem: "length mem1 = 300" "length mem2 = 300"
    and img: "256 + sz + 1 \<le> length img" "tag_field img tag_rootfsAddress = Some ra"
      "tag_field img tag_kernelAddress = Some ka" "image_size img = Some (int sz)"
      "relocate_tag fi (s32 ra) (s32 ka) img = Some (ra', ka', img1)"
    and cur: "getBootImageTag fi km (Some (flash_cfi_dev nc did name)) mem1 s = Some (Some t1, s0)"
      "tag_in (cfi_contents geom cells s) (part_blk fi geom 1) = Some t1" "image_size t1 = Some csz"
    and seqs: "sequences_ok fi geom (cfi_contents geom cells s)"
    and fits: "int sz \<le> availableSizeOneImg (int (sum_list geom)) ra' FLASH_BASE"
      "int sz \<le> availableSizeTwoImgs fi (int (sum_list geom))" "csz \<le> availableSizeTwoImgs fi (int (sum_list geom))"
    and a: "a = part_blk fi geom 2" "blk_base geom a = sum_list geom div 2" "part_blk fi geom 1 < a"
    and psi: "flash_persistent_start_blk fi = int q" "q \<le> length geom" "blk_base geom a + (256 + sz) \<le> blk_base geom q"
  shows "\<exists>st img' s'. flashFsKernelImage fi km uo (Some (flash_cfi_dev nc did name)) mem1 mem2 img s = Some (st, img', s') \<and>
    cfi_ok geom ready s' \<and>
    (\<forall>i. 0 < i \<and> i < a \<longrightarrow> cfi_contents geom cells s' ! i = cfi_contents geom cells s ! i) \<and> same_except tag_rewritten img img' \<and>
    tag_field (take 256 img') tag_rootfsAddress = Some (u32 (IMAGE_BASE + int (sum_list geom div 2) + 256)) \<and>
    tag_field (take 256 img') tag_kernelAddress = Some (u32 (IMAGE_BASE + int (sum_list geom div 2) + 256 + (ka - ra))) \<and>
    (\<exists>n n1. tag_field (take 256 img') tag_imageSequence = Some n \<and> tag_field t1 tag_imageSequence = Some n1 \<and> n1 < n) \<and>
    (st = 0 \<longrightarrow> tag_in (cfi_contents geom cells s') a = Some (take 256 img') \<and>
       take (256 + sz) (drop (blk_base geom a) (concat (cfi_contents geom cells s'))) = take (256 + sz) img')"
  by (rule flash_device.install_second [where km = km, OF amd_chip.cfi_device [where did = did and name = name, OF chip]
        s p km nv mem img cur seqs fits a psi])

theorem flashFsKernelImage_second_witness:
  "\<exists>st img' s'. flashFsKernelImage sim_layout (\<lambda>z. True) True sim_dev (replicate 300 0) (replicate 300 0)
      (sim_tag 0x31 @ replicate 1501 7) (sim_board (replicate 300 0) (sim_tag 0x31) sim_bad_tag) = Some (st, img', s') \<and>
    cfi_contents sim_sectors cells s' ! 1 = cfi_contents sim_sectors cells (sim_board (replicate 300 0) (sim_tag 0x31) sim_bad_tag) ! 1 \<and>
    (st = 0 \<longrightarrow> tag_in (cfi_contents sim_sectors cells s') 4 = Some (take 256 img') \<and>
       take 1756 (drop 0x40000 (concat (cfi_contents sim_sectors cells s'))) = take 1756 img')"
proof -
  let ?s = "sim_board (replicate 300 0) (sim_tag 0x31) sim_bad_tag" and ?img = "sim_tag 0x31 @ replicate 1501 7"
  have len: "length (replicate 300 0 :: bytes) = 300" by simp
  note board = sim_board_tags [OF len sim_tag_simps(1,2), of "0x31"]
  obtain s0 where boot: "getBootImageTag sim_layout (\<lambda>z. True) sim_dev (replicate 300 0) ?s = Some (Some (sim_tag 0x31), s0)"
    using flash_device.getBoot_one [OF amd_chip.cfi_device [OF nor8.amd_chip_axioms] board(1) sim_part_blk(3)] board(2,3)
    by (fastforce simp: sim_part_blk)
  have seqs: "sequences_ok sim_layout sim_sectors (cfi_contents sim_sectors cells ?s)"
    using sim_board_sequences [of "replicate 300 0" sim_bad_tag] by simp
  have tot: "sum_list sim_sectors = 0x80000" "length sim_sectors = 8" "blk_base sim_sectors 4 = 0x40000" "blk_base sim_sectors 7 = 0x70000"
    by (simp_all add: sim_sectors_def sum_list_replicate blk_base_replicate)
  have rel: "relocate_tag sim_layout (s32 3217096960) (s32 3217097960) ?img = Some (s32 3217096960, s32 3217097960, ?img)"
    by (simp add: relocate_tag_def sim_layout_def s32_def u32_def)
  have fits: "int 1500 \<le> availableSizeOneImg (int (sum_list sim_sectors)) (s32 3217096960) FLASH_BASE"
    "int 1500 \<le> availableSizeTwoImgs sim_layout (int (sum_list sim_sectors))"
    by (simp_all add: tot availableSizeOneImg_def availableSizeTwoImgs_def sim_layout_def FLASH_BASE_def s32_def u32_def)
  have img: "256 + 1500 + 1 \<le> length ?img" "image_size ?img = Some (int 1500)" "image_size (sim_tag 0x31) = Some (int 1500)"
    using sim_tag_fields(3) [of ?img] sim_tag_fields(3) [of "sim_tag 0x31" "[]"] by simp_all
  have cur: "tag_in (cfi_contents sim_sectors cells ?s) (part_blk sim_layout sim_sectors 1) = Some (sim_tag 0x31)"
    using board(2) by (simp add: sim_part_blk)
  show ?thesis
    using flashFsKernelImage_second [OF nor8.amd_chip_axioms board(1) sim_part_blk(3) TrueI _ _ sim_layout_placed(2) len len img(1)
        sim_tag_fields(1,2) [OF refl] img(2) rel boot cur img(3) seqs fits fits(2), of 4 7 True]
    by (simp add: sim_part_blk tot) (fastforce simp: sim_layout_def)
qed

text \<open>
  Numbers in a tag survive printing and reading: \<open>simple_strtoul\<close> reads the decimal text
  that \<open>sprintf\<close> writes for an unsigned long back to that number, whatever follows the text.
\<close>

lemma sprintf_lu_strtoul:
  "\<not> is_digit x \<Longrightarrow> simple_strtoul (sprintf_lu v @ x # cp) 10 = Some (u32 v)"
  using strtoul_dec_nat [of "nat (u32 v)" x cp] u32_range [of v] by (simp add: sprintf_lu_def nat_less_iff)

lemma sprintf_lu_strtoul_witness: "simple_strtoul (sprintf_lu (-1) @ [0]) 10 = Some 4294967295"
  using sprintf_lu_strtoul [of 0 "-1" "[]"] by (simp add: is_digit_def u32_def)

end
