(* ===== verification/Board_Tables.thy ===== *)
theory Board_Tables
  imports Board_Prelude
begin

text \<open>
  The board parameter tables of \<open>boardparms.c\<close>: one record per supported board, for each of
  the four processors the file can be compiled for.  An initialiser that stops early leaves
  the rest of its fields 0, as C does; those zeros are written out.
\<close>

section \<open>Types\<close>

unbundle bit_operations_syntax

record ethernet_sw_info =
  port_map :: int
  phy_id :: "int list"

record ethernet_mac_info =
  ucPhyType :: u8
  ucPhyAddress :: u8
  usGpioPhyReset :: "16 word"
  usGpioPhyLinkSpeed :: "16 word"
  usConfigType :: "16 word"
  usReverseMii :: "16 word"
  sw :: ethernet_sw_info

record voip_dsp_info =
  ucDspType :: u8
  ucDspAddress :: u8
  usExtIntrVoip :: "16 word"
  usGpioVoipReset :: "16 word"
  usGpioVoipIntr :: "16 word"
  usGpioLedVoip :: "16 word"
  usCsVoip :: "16 word"
  usGpioVoip1Led :: "16 word"
  usGpioVoip1LedFail :: "16 word"
  usGpioSlic0Relay :: "16 word"
  usGpioSlic0Reset :: "16 word"
  usGpioVoip2Led :: "16 word"
  usGpioVoip2LedFail :: "16 word"
  usGpioSlic1Relay :: "16 word"
  usGpioSlic1Reset :: "16 word"
  usGpioPotsLed :: "16 word"
  usGpioPotsReset :: "16 word"
  usGpioDectLed :: "16 word"

datatype SLIC_TYPE = Silicon_Labs_3216 | Silicon_Labs_3215 | Legerity_88221 | Legerity_88311_slic | Slic_Not_Defined

datatype DAA_TYPE = Silicon_Labs_3050 | Legerity_88010 | Legerity_88311_daa | DAA_Not_Defined

record board_parameters =
  bp_szBoardId :: bytes
  usGPIOOverlay :: "16 word"
  usGpioRj11InnerPair :: "16 word"
  usGpioRj11OuterPair :: "16 word"
  usGpioUartRts :: "16 word"
  usGpioUartCts :: "16 word"
  usVcopeResetGpio :: "16 word"
  usVcopeRelayGpio :: "16 word"
  usGpioLedAdsl :: "16 word"
  usGpioLedAdslFail :: "16 word"
  usGpioSecLedAdsl :: "16 word"
  usGpioSecLedAdslFail :: "16 word"
  usGpioLedSesWireless :: "16 word"
  usGpioLedHpna :: "16 word"
  usGpioLedWanData :: "16 word"
  usGpioLedPpp :: "16 word"
  usGpioLedPppFail :: "16 word"
  usGpioLedBlPowerOn :: "16 word"
  usGpioLedBlStop :: "16 word"
  usGpioBondingSecondaryReset :: "16 word"
  usExtIntrAdslDyingGasp :: "16 word"
  usExtIntrResetToDefault :: "16 word"
  usExtIntrSesBtnWireless :: "16 word"
  usExtIntrHpna :: "16 word"
  usCsHpna :: "16 word"
  usCsHpi :: "16 word"
  usAntInUseWireless :: "16 word"
  usWirelessFlags :: "16 word"
  usVcopeBoardRev :: "16 word"
  EnetMacInfos :: "ethernet_mac_info list"
  VoIPDspInfo :: "voip_dsp_info list"
  slicType :: SLIC_TYPE
  daaType :: DAA_TYPE
  usGpioWirelessPowerDown :: "16 word"
  usGpioLedUsbHost1 :: "16 word"
  usGpioLedUsbHost2 :: "16 word"
  usGpioWirelessProtect :: "16 word"

text \<open>A board name in its array of 16 characters.\<close>

definition board_id :: "string \<Rightarrow> bytes" where
  "board_id s = ascii s @ replicate (16 - length s) 0"

definition SW_INFO_DEFAULT :: "nat \<Rightarrow> ethernet_sw_info" where
  "SW_INFO_DEFAULT n = \<lparr>port_map = 2 ^ n - 1, phy_id = replicate 8 0\<rparr>"

text \<open>The initialisers \<open>{BP_ENET_NO_PHY}\<close> and \<open>{BP_VOIP_NO_DSP}\<close>: all zero.\<close>

definition no_phy :: ethernet_mac_info where
  "no_phy = ethernet_mac_info.make 0 0 0 0 0 0 \<lparr>port_map = 0, phy_id = replicate 8 0\<rparr>"

definition no_dsp :: voip_dsp_info where
  "no_dsp = voip_dsp_info.make 0 0 0 0 0 0 0 0 0 0 0 0 0 0 0 0 0 0"

section \<open>Constants\<close>

abbreviation (input) BP_CB :: "16 word" where "BP_CB \<equiv> 2"
abbreviation (input) BP_CS_1 :: "16 word" where "BP_CS_1 \<equiv> 1"
abbreviation (input) BP_CS_2 :: "16 word" where "BP_CS_2 \<equiv> 2"
abbreviation (input) BP_ENET_CONFIG_MDIO :: "16 word" where "BP_ENET_CONFIG_MDIO \<equiv> 0"
abbreviation (input) BP_ENET_CONFIG_MDIO_PSEUDO_PHY :: "16 word" where "BP_ENET_CONFIG_MDIO_PSEUDO_PHY \<equiv> 1"
abbreviation (input) BP_ENET_CONFIG_MMAP :: "16 word" where "BP_ENET_CONFIG_MMAP \<equiv> 6"
abbreviation (input) BP_ENET_CONFIG_SPI_SSB_0 :: "16 word" where "BP_ENET_CONFIG_SPI_SSB_0 \<equiv> 2"
abbreviation (input) BP_ENET_CONFIG_SPI_SSB_1 :: "16 word" where "BP_ENET_CONFIG_SPI_SSB_1 \<equiv> 3"
abbreviation (input) BP_ENET_EXTERNAL_PHY :: u8 where "BP_ENET_EXTERNAL_PHY \<equiv> 2"
abbreviation (input) BP_ENET_EXTERNAL_SWITCH :: u8 where "BP_ENET_EXTERNAL_SWITCH \<equiv> 3"
abbreviation (input) BP_ENET_INTERNAL_PHY :: u8 where "BP_ENET_INTERNAL_PHY \<equiv> 1"
abbreviation (input) BP_ENET_NO_PHY :: u8 where "BP_ENET_NO_PHY \<equiv> 0"
abbreviation (input) BP_ENET_REVERSE_MII :: "16 word" where "BP_ENET_REVERSE_MII \<equiv> 1"
abbreviation (input) BP_EXT_INTR_0 :: "16 word" where "BP_EXT_INTR_0 \<equiv> 0"
abbreviation (input) BP_EXT_INTR_1 :: "16 word" where "BP_EXT_INTR_1 \<equiv> 1"
abbreviation (input) BP_EXT_INTR_2 :: "16 word" where "BP_EXT_INTR_2 \<equiv> 2"
abbreviation (input) BP_EXT_INTR_3 :: "16 word" where "BP_EXT_INTR_3 \<equiv> 3"
abbreviation (input) BP_EXT_INTR_4 :: "16 word" where "BP_EXT_INTR_4 \<equiv> 4"
abbreviation (input) BP_EXT_INTR_5 :: "16 word" where "BP_EXT_INTR_5 \<equiv> 5"
abbreviation (input) BP_GPIO_0_AH :: "16 word" where "BP_GPIO_0_AH \<equiv> 0"
abbreviation (input) BP_GPIO_0_AL :: "16 word" where "BP_GPIO_0_AL \<equiv> 0x8000"
abbreviation (input) BP_GPIO_1_AH :: "16 word" where "BP_GPIO_1_AH \<equiv> 1"
abbreviation (input) BP_GPIO_1_AL :: "16 word" where "BP_GPIO_1_AL \<equiv> 0x8001"
abbreviation (input) BP_GPIO_2_AH :: "16 word" where "BP_GPIO_2_AH \<equiv> 2"
abbreviation (input) BP_GPIO_2_AL :: "16 word" where "BP_GPIO_2_AL \<equiv> 0x8002"
abbreviation (input) BP_GPIO_3_AH :: "16 word" where "BP_GPIO_3_AH \<equiv> 3"
abbreviation (input) BP_GPIO_3_AL :: "16 word" where "BP_GPIO_3_AL \<equiv> 0x8003"
abbreviation (input) BP_GPIO_4_AH :: "16 word" where "BP_GPIO_4_AH \<equiv> 4"
abbreviation (input) BP_GPIO_4_AL :: "16 word" where "BP_GPIO_4_AL \<equiv> 0x8004"
abbreviation (input) BP_GPIO_5_AH :: "16 word" where "BP_GPIO_5_AH \<equiv> 5"
abbreviation (input) BP_GPIO_5_AL :: "16 word" where "BP_GPIO_5_AL \<equiv> 0x8005"
abbreviation (input) BP_GPIO_6_AH :: "16 word" where "BP_GPIO_6_AH \<equiv> 6"
abbreviation (input) BP_GPIO_6_AL :: "16 word" where "BP_GPIO_6_AL \<equiv> 0x8006"
abbreviation (input) BP_GPIO_7_AL :: "16 word" where "BP_GPIO_7_AL \<equiv> 0x8007"
abbreviation (input) BP_GPIO_8_AH :: "16 word" where "BP_GPIO_8_AH \<equiv> 8"
abbreviation (input) BP_GPIO_8_AL :: "16 word" where "BP_GPIO_8_AL \<equiv> 0x8008"
abbreviation (input) BP_GPIO_9_AL :: "16 word" where "BP_GPIO_9_AL \<equiv> 0x8009"
abbreviation (input) BP_GPIO_10_AH :: "16 word" where "BP_GPIO_10_AH \<equiv> 0xa"
abbreviation (input) BP_GPIO_11_AH :: "16 word" where "BP_GPIO_11_AH \<equiv> 0xb"
abbreviation (input) BP_GPIO_11_AL :: "16 word" where "BP_GPIO_11_AL \<equiv> 0x800b"
abbreviation (input) BP_GPIO_12_AH :: "16 word" where "BP_GPIO_12_AH \<equiv> 0xc"
abbreviation (input) BP_GPIO_12_AL :: "16 word" where "BP_GPIO_12_AL \<equiv> 0x800c"
abbreviation (input) BP_GPIO_13_AH :: "16 word" where "BP_GPIO_13_AH \<equiv> 0xd"
abbreviation (input) BP_GPIO_15_AH :: "16 word" where "BP_GPIO_15_AH \<equiv> 0xf"
abbreviation (input) BP_GPIO_15_AL :: "16 word" where "BP_GPIO_15_AL \<equiv> 0x800f"
abbreviation (input) BP_GPIO_16_AL :: "16 word" where "BP_GPIO_16_AL \<equiv> 0x8010"
abbreviation (input) BP_GPIO_17_AL :: "16 word" where "BP_GPIO_17_AL \<equiv> 0x8011"
abbreviation (input) BP_GPIO_19_AL :: "16 word" where "BP_GPIO_19_AL \<equiv> 0x8013"
abbreviation (input) BP_GPIO_20_AL :: "16 word" where "BP_GPIO_20_AL \<equiv> 0x8014"
abbreviation (input) BP_GPIO_21_AH :: "16 word" where "BP_GPIO_21_AH \<equiv> 0x15"
abbreviation (input) BP_GPIO_22_AH :: "16 word" where "BP_GPIO_22_AH \<equiv> 0x16"
abbreviation (input) BP_GPIO_22_AL :: "16 word" where "BP_GPIO_22_AL \<equiv> 0x8016"
abbreviation (input) BP_GPIO_23_AH :: "16 word" where "BP_GPIO_23_AH \<equiv> 0x17"
abbreviation (input) BP_GPIO_23_AL :: "16 word" where "BP_GPIO_23_AL \<equiv> 0x8017"
abbreviation (input) BP_GPIO_24_AH :: "16 word" where "BP_GPIO_24_AH \<equiv> 0x18"
abbreviation (input) BP_GPIO_24_AL :: "16 word" where "BP_GPIO_24_AL \<equiv> 0x8018"
abbreviation (input) BP_GPIO_25_AL :: "16 word" where "BP_GPIO_25_AL \<equiv> 0x8019"
abbreviation (input) BP_GPIO_26_AH :: "16 word" where "BP_GPIO_26_AH \<equiv> 0x1a"
abbreviation (input) BP_GPIO_26_AL :: "16 word" where "BP_GPIO_26_AL \<equiv> 0x801a"
abbreviation (input) BP_GPIO_27_AL :: "16 word" where "BP_GPIO_27_AL \<equiv> 0x801b"
abbreviation (input) BP_GPIO_28_AL :: "16 word" where "BP_GPIO_28_AL \<equiv> 0x801c"
abbreviation (input) BP_GPIO_29_AH :: "16 word" where "BP_GPIO_29_AH \<equiv> 0x1d"
abbreviation (input) BP_GPIO_30_AL :: "16 word" where "BP_GPIO_30_AL \<equiv> 0x801e"
abbreviation (input) BP_GPIO_31_AL :: "16 word" where "BP_GPIO_31_AL \<equiv> 0x801f"
abbreviation (input) BP_GPIO_33_AH :: "16 word" where "BP_GPIO_33_AH \<equiv> 0x21"
abbreviation (input) BP_GPIO_33_AL :: "16 word" where "BP_GPIO_33_AL \<equiv> 0x8021"
abbreviation (input) BP_GPIO_34_AH :: "16 word" where "BP_GPIO_34_AH \<equiv> 0x22"
abbreviation (input) BP_GPIO_34_AL :: "16 word" where "BP_GPIO_34_AL \<equiv> 0x8022"
abbreviation (input) BP_GPIO_35_AL :: "16 word" where "BP_GPIO_35_AL \<equiv> 0x8023"
abbreviation (input) BP_GPIO_36_AH :: "16 word" where "BP_GPIO_36_AH \<equiv> 0x24"
abbreviation (input) BP_GPIO_37_AL :: "16 word" where "BP_GPIO_37_AL \<equiv> 0x8025"
abbreviation (input) BP_HW_DEFINED :: "16 word" where "BP_HW_DEFINED \<equiv> 0xfff0"
abbreviation (input) BP_HW_DEFINED_AH :: "16 word" where "BP_HW_DEFINED_AH \<equiv> 0xfff2"
abbreviation (input) BP_LED :: "16 word" where "BP_LED \<equiv> 0x40"
abbreviation (input) BP_MII2 :: "16 word" where "BP_MII2 \<equiv> 8"
abbreviation (input) BP_NOT_DEFINED :: "16 word" where "BP_NOT_DEFINED \<equiv> 0xffff"
abbreviation (input) BP_PCI :: "16 word" where "BP_PCI \<equiv> 1"
abbreviation (input) BP_SERIAL_GPIO_0_AH :: "16 word" where "BP_SERIAL_GPIO_0_AH \<equiv> 0x4000"
abbreviation (input) BP_SERIAL_GPIO_0_AL :: "16 word" where "BP_SERIAL_GPIO_0_AL \<equiv> 0xc000"
abbreviation (input) BP_SERIAL_GPIO_1_AH :: "16 word" where "BP_SERIAL_GPIO_1_AH \<equiv> 0x4001"
abbreviation (input) BP_SERIAL_GPIO_1_AL :: "16 word" where "BP_SERIAL_GPIO_1_AL \<equiv> 0xc001"
abbreviation (input) BP_SERIAL_GPIO_2_AH :: "16 word" where "BP_SERIAL_GPIO_2_AH \<equiv> 0x4002"
abbreviation (input) BP_SERIAL_GPIO_2_AL :: "16 word" where "BP_SERIAL_GPIO_2_AL \<equiv> 0xc002"
abbreviation (input) BP_SERIAL_GPIO_3_AH :: "16 word" where "BP_SERIAL_GPIO_3_AH \<equiv> 0x4003"
abbreviation (input) BP_SERIAL_GPIO_3_AL :: "16 word" where "BP_SERIAL_GPIO_3_AL \<equiv> 0xc003"
abbreviation (input) BP_SERIAL_GPIO_4_AH :: "16 word" where "BP_SERIAL_GPIO_4_AH \<equiv> 0x4004"
abbreviation (input) BP_SERIAL_GPIO_4_AL :: "16 word" where "BP_SERIAL_GPIO_4_AL \<equiv> 0xc004"
abbreviation (input) BP_SERIAL_GPIO_5_AH :: "16 word" where "BP_SERIAL_GPIO_5_AH \<equiv> 0x4005"
abbreviation (input) BP_SERIAL_GPIO_5_AL :: "16 word" where "BP_SERIAL_GPIO_5_AL \<equiv> 0xc005"
abbreviation (input) BP_SERIAL_GPIO_6_AH :: "16 word" where "BP_SERIAL_GPIO_6_AH \<equiv> 0x4006"
abbreviation (input) BP_SERIAL_GPIO_6_AL :: "16 word" where "BP_SERIAL_GPIO_6_AL \<equiv> 0xc006"
abbreviation (input) BP_SERIAL_GPIO_7_AL :: "16 word" where "BP_SERIAL_GPIO_7_AL \<equiv> 0xc007"
abbreviation (input) BP_SPI_EXT_CS :: "16 word" where "BP_SPI_EXT_CS \<equiv> 4"
abbreviation (input) BP_UART1 :: "16 word" where "BP_UART1 \<equiv> 0x20"
abbreviation (input) BP_UNEQUIPPED :: "16 word" where "BP_UNEQUIPPED \<equiv> 0xfff1"
abbreviation (input) BP_UTOPIA :: "16 word" where "BP_UTOPIA \<equiv> 0x10"
abbreviation (input) BP_VOIP_DSP :: u8 where "BP_VOIP_DSP \<equiv> 1"
abbreviation (input) BP_VOIP_MIPS :: u8 where "BP_VOIP_MIPS \<equiv> 2"
abbreviation (input) BP_VOIP_NO_DSP :: u8 where "BP_VOIP_NO_DSP \<equiv> 0"
abbreviation (input) BP_WLAN_ANT_AUX :: "16 word" where "BP_WLAN_ANT_AUX \<equiv> 1"
abbreviation (input) BP_WLAN_ANT_MAIN :: "16 word" where "BP_WLAN_ANT_MAIN \<equiv> 0"
abbreviation (input) BP_WLAN_MAC_ADDR_OVERRIDE :: "16 word" where "BP_WLAN_MAC_ADDR_OVERRIDE \<equiv> 1"

section \<open>Boards with the BCM96338\<close>

definition g_bcm96338sv :: board_parameters where
  "g_bcm96338sv =
     board_parameters.make (board_id ''96338SV'') BP_NOT_DEFINED
       BP_NOT_DEFINED BP_NOT_DEFINED BP_NOT_DEFINED BP_NOT_DEFINED BP_NOT_DEFINED BP_NOT_DEFINED
       BP_NOT_DEFINED BP_NOT_DEFINED BP_NOT_DEFINED BP_NOT_DEFINED BP_NOT_DEFINED BP_NOT_DEFINED
       BP_NOT_DEFINED BP_NOT_DEFINED BP_NOT_DEFINED BP_NOT_DEFINED BP_NOT_DEFINED BP_NOT_DEFINED
       BP_HW_DEFINED BP_NOT_DEFINED BP_NOT_DEFINED BP_NOT_DEFINED
       BP_NOT_DEFINED BP_NOT_DEFINED BP_NOT_DEFINED 0 BP_NOT_DEFINED
       [ethernet_mac_info.make BP_ENET_INTERNAL_PHY 0x01 BP_NOT_DEFINED BP_NOT_DEFINED
       BP_ENET_CONFIG_MDIO BP_NOT_DEFINED (SW_INFO_DEFAULT 1),
        no_phy]
       [no_dsp, no_dsp]
       Slic_Not_Defined DAA_Not_Defined BP_NOT_DEFINED 0 0 0"

definition g_bcm96338l2m8m :: board_parameters where
  "g_bcm96338l2m8m =
     board_parameters.make (board_id ''96338L-2M-8M'') BP_NOT_DEFINED
       BP_NOT_DEFINED BP_NOT_DEFINED BP_NOT_DEFINED BP_NOT_DEFINED BP_NOT_DEFINED BP_NOT_DEFINED
       BP_NOT_DEFINED BP_GPIO_2_AL BP_NOT_DEFINED BP_NOT_DEFINED BP_NOT_DEFINED BP_NOT_DEFINED
       BP_GPIO_3_AL BP_GPIO_3_AL BP_GPIO_4_AL BP_GPIO_0_AL BP_GPIO_1_AL BP_NOT_DEFINED
       BP_HW_DEFINED BP_EXT_INTR_1 BP_NOT_DEFINED BP_NOT_DEFINED
       BP_NOT_DEFINED BP_NOT_DEFINED BP_NOT_DEFINED 0 BP_NOT_DEFINED
       [ethernet_mac_info.make BP_ENET_INTERNAL_PHY 0x01 BP_NOT_DEFINED BP_NOT_DEFINED
       BP_ENET_CONFIG_MDIO BP_NOT_DEFINED (SW_INFO_DEFAULT 1),
        no_phy]
       [no_dsp, no_dsp]
       Slic_Not_Defined DAA_Not_Defined BP_NOT_DEFINED 0 0 0"

definition g_bcm96338l652m8m :: board_parameters where
  "g_bcm96338l652m8m =
     board_parameters.make (board_id ''96338L-65-2M-8M'') BP_NOT_DEFINED
       BP_NOT_DEFINED BP_NOT_DEFINED BP_NOT_DEFINED BP_NOT_DEFINED BP_NOT_DEFINED BP_NOT_DEFINED
       BP_GPIO_3_AL BP_NOT_DEFINED BP_NOT_DEFINED BP_NOT_DEFINED BP_NOT_DEFINED BP_NOT_DEFINED
       BP_NOT_DEFINED BP_NOT_DEFINED BP_GPIO_4_AL BP_GPIO_0_AL BP_GPIO_1_AL BP_NOT_DEFINED
       BP_HW_DEFINED BP_EXT_INTR_1 BP_NOT_DEFINED BP_NOT_DEFINED
       BP_NOT_DEFINED BP_NOT_DEFINED BP_NOT_DEFINED 0 BP_NOT_DEFINED
       [ethernet_mac_info.make BP_ENET_INTERNAL_PHY 0x01 BP_NOT_DEFINED BP_NOT_DEFINED
       BP_ENET_CONFIG_MDIO BP_NOT_DEFINED (SW_INFO_DEFAULT 1),
        no_phy]
       [no_dsp, no_dsp]
       Slic_Not_Defined DAA_Not_Defined BP_NOT_DEFINED 0 0 0"

definition g_bcm96338gw :: board_parameters where
  "g_bcm96338gw =
     board_parameters.make (board_id ''96338W'') BP_NOT_DEFINED
       BP_NOT_DEFINED BP_NOT_DEFINED BP_NOT_DEFINED BP_NOT_DEFINED BP_NOT_DEFINED BP_NOT_DEFINED
       BP_NOT_DEFINED BP_GPIO_2_AL BP_NOT_DEFINED BP_NOT_DEFINED BP_GPIO_5_AL BP_NOT_DEFINED
       BP_GPIO_3_AL BP_GPIO_3_AL BP_GPIO_4_AH BP_GPIO_0_AH BP_GPIO_6_AL BP_NOT_DEFINED
       BP_HW_DEFINED BP_EXT_INTR_1 BP_EXT_INTR_0 BP_NOT_DEFINED
       BP_NOT_DEFINED BP_NOT_DEFINED BP_NOT_DEFINED BP_WLAN_MAC_ADDR_OVERRIDE BP_NOT_DEFINED
       [ethernet_mac_info.make BP_ENET_EXTERNAL_SWITCH 0x0 BP_NOT_DEFINED BP_NOT_DEFINED
       BP_ENET_CONFIG_MDIO_PSEUDO_PHY BP_NOT_DEFINED (SW_INFO_DEFAULT 4),
        no_phy]
       [no_dsp, no_dsp]
       Slic_Not_Defined DAA_Not_Defined BP_NOT_DEFINED 0 0 0"

definition g_bcm96338gws2 :: board_parameters where
  "g_bcm96338gws2 =
     board_parameters.make (board_id ''96338WS2'') BP_NOT_DEFINED
       BP_NOT_DEFINED BP_NOT_DEFINED BP_NOT_DEFINED BP_NOT_DEFINED BP_NOT_DEFINED BP_NOT_DEFINED
       BP_NOT_DEFINED BP_GPIO_2_AL BP_NOT_DEFINED BP_NOT_DEFINED BP_GPIO_5_AL BP_NOT_DEFINED
       BP_GPIO_3_AL BP_GPIO_3_AL BP_GPIO_4_AH BP_GPIO_0_AH BP_GPIO_6_AL BP_NOT_DEFINED
       BP_HW_DEFINED BP_EXT_INTR_1 BP_EXT_INTR_0 BP_NOT_DEFINED
       BP_NOT_DEFINED BP_NOT_DEFINED BP_NOT_DEFINED BP_WLAN_MAC_ADDR_OVERRIDE BP_NOT_DEFINED
       [ethernet_mac_info.make BP_ENET_INTERNAL_PHY 0x01 BP_NOT_DEFINED BP_NOT_DEFINED
       BP_ENET_CONFIG_MDIO BP_NOT_DEFINED (SW_INFO_DEFAULT 1),
        no_phy]
       [no_dsp, no_dsp]
       Slic_Not_Defined DAA_Not_Defined BP_GPIO_6_AH 0 0 0"

definition g_bcm96338gw20p2 :: board_parameters where
  "g_bcm96338gw20p2 =
     board_parameters.make (board_id ''96338W-20P2'') BP_NOT_DEFINED
       BP_NOT_DEFINED BP_NOT_DEFINED BP_NOT_DEFINED BP_NOT_DEFINED BP_NOT_DEFINED BP_NOT_DEFINED
       BP_GPIO_3_AL BP_NOT_DEFINED BP_NOT_DEFINED BP_NOT_DEFINED BP_GPIO_5_AL BP_NOT_DEFINED
       BP_NOT_DEFINED BP_NOT_DEFINED BP_GPIO_4_AL BP_GPIO_0_AL BP_GPIO_1_AL BP_NOT_DEFINED
       BP_HW_DEFINED BP_EXT_INTR_1 BP_EXT_INTR_0 BP_NOT_DEFINED
       BP_NOT_DEFINED BP_NOT_DEFINED BP_NOT_DEFINED BP_WLAN_MAC_ADDR_OVERRIDE BP_NOT_DEFINED
       [ethernet_mac_info.make BP_ENET_EXTERNAL_SWITCH 0x0 BP_NOT_DEFINED BP_NOT_DEFINED
       BP_ENET_CONFIG_MDIO_PSEUDO_PHY BP_NOT_DEFINED (SW_INFO_DEFAULT 4),
        no_phy]
       [no_dsp, no_dsp]
       Slic_Not_Defined DAA_Not_Defined BP_NOT_DEFINED 0 0 0"

definition g_bcm96338gw2 :: board_parameters where
  "g_bcm96338gw2 =
     board_parameters.make (board_id ''96338W2'') BP_NOT_DEFINED
       BP_NOT_DEFINED BP_NOT_DEFINED BP_NOT_DEFINED BP_NOT_DEFINED BP_NOT_DEFINED BP_NOT_DEFINED
       BP_NOT_DEFINED BP_NOT_DEFINED BP_NOT_DEFINED BP_NOT_DEFINED BP_GPIO_5_AL BP_NOT_DEFINED
       BP_GPIO_2_AL BP_GPIO_1_AL BP_GPIO_4_AH BP_GPIO_0_AH BP_GPIO_6_AL BP_NOT_DEFINED
       BP_HW_DEFINED BP_EXT_INTR_1 BP_EXT_INTR_0 BP_NOT_DEFINED
       BP_NOT_DEFINED BP_NOT_DEFINED BP_NOT_DEFINED BP_WLAN_MAC_ADDR_OVERRIDE BP_NOT_DEFINED
       [ethernet_mac_info.make BP_ENET_EXTERNAL_SWITCH 0x0 BP_NOT_DEFINED BP_NOT_DEFINED
       BP_ENET_CONFIG_MDIO_PSEUDO_PHY BP_NOT_DEFINED (SW_INFO_DEFAULT 4),
        no_phy]
       [no_dsp, no_dsp]
       Slic_Not_Defined DAA_Not_Defined BP_GPIO_6_AH 0 0 0"

definition g_bcm96338e :: board_parameters where
  "g_bcm96338e =
     board_parameters.make (board_id ''96338E'') BP_NOT_DEFINED
       BP_NOT_DEFINED BP_NOT_DEFINED BP_NOT_DEFINED BP_NOT_DEFINED BP_NOT_DEFINED BP_NOT_DEFINED
       BP_NOT_DEFINED BP_NOT_DEFINED BP_NOT_DEFINED BP_NOT_DEFINED BP_NOT_DEFINED BP_NOT_DEFINED
       BP_GPIO_2_AL BP_GPIO_1_AL BP_GPIO_4_AH BP_GPIO_0_AH BP_GPIO_6_AL BP_NOT_DEFINED
       BP_HW_DEFINED BP_EXT_INTR_1 BP_NOT_DEFINED BP_NOT_DEFINED
       BP_NOT_DEFINED BP_NOT_DEFINED BP_NOT_DEFINED 0 BP_NOT_DEFINED
       [ethernet_mac_info.make BP_ENET_EXTERNAL_SWITCH 0x0 BP_NOT_DEFINED BP_NOT_DEFINED
       BP_ENET_CONFIG_MDIO_PSEUDO_PHY BP_NOT_DEFINED (SW_INFO_DEFAULT 4),
        no_phy]
       [no_dsp, no_dsp]
       Slic_Not_Defined DAA_Not_Defined BP_NOT_DEFINED 0 0 0"

definition g_bcm96338e4 :: board_parameters where
  "g_bcm96338e4 =
     board_parameters.make (board_id ''96338E4'') BP_NOT_DEFINED
       BP_NOT_DEFINED BP_NOT_DEFINED BP_NOT_DEFINED BP_NOT_DEFINED BP_NOT_DEFINED BP_NOT_DEFINED
       BP_GPIO_4_AH BP_NOT_DEFINED BP_NOT_DEFINED BP_NOT_DEFINED BP_NOT_DEFINED BP_NOT_DEFINED
       BP_HW_DEFINED_AH BP_HW_DEFINED_AH BP_GPIO_2_AH BP_GPIO_1_AH BP_GPIO_0_AH BP_NOT_DEFINED
       BP_HW_DEFINED BP_EXT_INTR_1 BP_NOT_DEFINED BP_NOT_DEFINED
       BP_NOT_DEFINED BP_NOT_DEFINED BP_NOT_DEFINED 0 BP_NOT_DEFINED
       [ethernet_mac_info.make BP_ENET_EXTERNAL_SWITCH 0x0 BP_NOT_DEFINED BP_NOT_DEFINED
       BP_ENET_CONFIG_MDIO_PSEUDO_PHY BP_NOT_DEFINED (SW_INFO_DEFAULT 4),
        no_phy]
       [no_dsp, no_dsp]
       Slic_Not_Defined DAA_Not_Defined BP_NOT_DEFINED 0 0 0"

definition g_bcm96338e420p2 :: board_parameters where
  "g_bcm96338e420p2 =
     board_parameters.make (board_id ''96338E4-20P2'') BP_NOT_DEFINED
       BP_NOT_DEFINED BP_NOT_DEFINED BP_NOT_DEFINED BP_NOT_DEFINED BP_NOT_DEFINED BP_NOT_DEFINED
       BP_GPIO_3_AL BP_NOT_DEFINED BP_NOT_DEFINED BP_NOT_DEFINED BP_NOT_DEFINED BP_NOT_DEFINED
       BP_NOT_DEFINED BP_NOT_DEFINED BP_GPIO_4_AL BP_GPIO_0_AL BP_GPIO_1_AL BP_NOT_DEFINED
       BP_HW_DEFINED BP_EXT_INTR_1 BP_NOT_DEFINED BP_NOT_DEFINED
       BP_NOT_DEFINED BP_NOT_DEFINED BP_NOT_DEFINED 0 BP_NOT_DEFINED
       [ethernet_mac_info.make BP_ENET_EXTERNAL_SWITCH 0x0 BP_NOT_DEFINED BP_NOT_DEFINED
       BP_ENET_CONFIG_MDIO_PSEUDO_PHY BP_NOT_DEFINED (SW_INFO_DEFAULT 4),
        no_phy]
       [no_dsp, no_dsp]
       Slic_Not_Defined DAA_Not_Defined BP_NOT_DEFINED 0 0 0"

definition g_bcm96332cg :: board_parameters where
  "g_bcm96332cg =
     board_parameters.make (board_id ''96332CG'') BP_NOT_DEFINED
       BP_NOT_DEFINED BP_NOT_DEFINED BP_NOT_DEFINED BP_NOT_DEFINED BP_NOT_DEFINED BP_NOT_DEFINED
       BP_NOT_DEFINED BP_GPIO_2_AL BP_NOT_DEFINED BP_NOT_DEFINED BP_NOT_DEFINED BP_NOT_DEFINED
       BP_GPIO_4_AL BP_GPIO_3_AL BP_NOT_DEFINED BP_GPIO_0_AL BP_GPIO_6_AL BP_NOT_DEFINED
       BP_HW_DEFINED BP_EXT_INTR_1 BP_NOT_DEFINED BP_NOT_DEFINED
       BP_NOT_DEFINED BP_NOT_DEFINED BP_NOT_DEFINED 0 BP_NOT_DEFINED
       [ethernet_mac_info.make BP_ENET_INTERNAL_PHY 0x01 BP_NOT_DEFINED BP_NOT_DEFINED
       BP_ENET_CONFIG_MDIO BP_NOT_DEFINED (SW_INFO_DEFAULT 1),
        no_phy]
       [no_dsp, no_dsp]
       Slic_Not_Defined DAA_Not_Defined BP_NOT_DEFINED 0 0 0"

definition g_bcm96338gws :: board_parameters where
  "g_bcm96338gws =
     board_parameters.make (board_id ''96338WS'') BP_NOT_DEFINED
       BP_NOT_DEFINED BP_NOT_DEFINED BP_NOT_DEFINED BP_NOT_DEFINED BP_NOT_DEFINED BP_NOT_DEFINED
       BP_NOT_DEFINED BP_GPIO_2_AL BP_NOT_DEFINED BP_NOT_DEFINED BP_GPIO_5_AL BP_NOT_DEFINED
       BP_GPIO_3_AL BP_GPIO_3_AL BP_GPIO_4_AH BP_GPIO_0_AH BP_GPIO_6_AL BP_NOT_DEFINED
       BP_HW_DEFINED BP_EXT_INTR_1 BP_EXT_INTR_0 BP_NOT_DEFINED
       BP_NOT_DEFINED BP_NOT_DEFINED BP_NOT_DEFINED BP_WLAN_MAC_ADDR_OVERRIDE BP_NOT_DEFINED
       [ethernet_mac_info.make BP_ENET_INTERNAL_PHY 0x01 BP_NOT_DEFINED BP_NOT_DEFINED
       BP_ENET_CONFIG_MDIO BP_NOT_DEFINED (SW_INFO_DEFAULT 1),
        no_phy]
       [no_dsp, no_dsp]
       Slic_Not_Defined DAA_Not_Defined BP_NOT_DEFINED 0 0 0"

definition g_bcm96338e_e7r :: board_parameters where
  "g_bcm96338e_e7r =
     board_parameters.make (board_id ''96338E_E7R'') BP_NOT_DEFINED
       BP_NOT_DEFINED BP_NOT_DEFINED BP_NOT_DEFINED BP_NOT_DEFINED BP_NOT_DEFINED BP_NOT_DEFINED
       BP_NOT_DEFINED BP_NOT_DEFINED BP_NOT_DEFINED BP_NOT_DEFINED BP_NOT_DEFINED BP_NOT_DEFINED
       BP_GPIO_2_AL BP_GPIO_1_AL BP_NOT_DEFINED BP_GPIO_0_AH BP_GPIO_6_AL BP_NOT_DEFINED
       BP_HW_DEFINED BP_EXT_INTR_1 BP_NOT_DEFINED BP_NOT_DEFINED
       BP_NOT_DEFINED BP_NOT_DEFINED BP_NOT_DEFINED 0 BP_NOT_DEFINED
       [ethernet_mac_info.make BP_ENET_EXTERNAL_SWITCH 0x0 BP_NOT_DEFINED BP_NOT_DEFINED
       BP_ENET_CONFIG_MDIO_PSEUDO_PHY BP_NOT_DEFINED (SW_INFO_DEFAULT 4),
        no_phy]
       [no_dsp, no_dsp]
       Slic_Not_Defined DAA_Not_Defined BP_NOT_DEFINED 0 0 0"

definition g_bcm96338gw2_e7t :: board_parameters where
  "g_bcm96338gw2_e7t =
     board_parameters.make (board_id ''96338W2_E7T'') BP_NOT_DEFINED
       BP_NOT_DEFINED BP_NOT_DEFINED BP_NOT_DEFINED BP_NOT_DEFINED BP_NOT_DEFINED BP_NOT_DEFINED
       BP_NOT_DEFINED BP_NOT_DEFINED BP_NOT_DEFINED BP_NOT_DEFINED BP_GPIO_5_AL BP_NOT_DEFINED
       BP_GPIO_2_AL BP_GPIO_1_AL BP_GPIO_4_AH BP_GPIO_0_AH BP_GPIO_6_AL BP_NOT_DEFINED
       BP_HW_DEFINED BP_EXT_INTR_1 BP_EXT_INTR_0 BP_NOT_DEFINED
       BP_NOT_DEFINED BP_NOT_DEFINED BP_NOT_DEFINED BP_WLAN_MAC_ADDR_OVERRIDE BP_NOT_DEFINED
       [ethernet_mac_info.make BP_ENET_EXTERNAL_SWITCH 0x0 BP_NOT_DEFINED BP_NOT_DEFINED
       BP_ENET_CONFIG_MDIO_PSEUDO_PHY BP_NOT_DEFINED (SW_INFO_DEFAULT 4),
        no_phy]
       [no_dsp, no_dsp]
       Slic_Not_Defined DAA_Not_Defined BP_GPIO_6_AH 0 0 0"

definition g_bcm96332cg_f4w :: board_parameters where
  "g_bcm96332cg_f4w =
     board_parameters.make (board_id ''96332CG_F4W'') BP_NOT_DEFINED
       BP_NOT_DEFINED BP_NOT_DEFINED BP_NOT_DEFINED BP_NOT_DEFINED BP_NOT_DEFINED BP_NOT_DEFINED
       BP_NOT_DEFINED BP_NOT_DEFINED BP_NOT_DEFINED BP_NOT_DEFINED BP_NOT_DEFINED BP_NOT_DEFINED
       BP_GPIO_4_AL BP_GPIO_3_AL BP_NOT_DEFINED BP_GPIO_0_AL BP_GPIO_6_AL BP_NOT_DEFINED
       BP_HW_DEFINED BP_EXT_INTR_1 BP_NOT_DEFINED BP_NOT_DEFINED
       BP_NOT_DEFINED BP_NOT_DEFINED BP_NOT_DEFINED 0 BP_NOT_DEFINED
       [ethernet_mac_info.make BP_ENET_INTERNAL_PHY 0x01 BP_NOT_DEFINED BP_NOT_DEFINED
       BP_ENET_CONFIG_MDIO BP_NOT_DEFINED (SW_INFO_DEFAULT 1),
        no_phy]
       [no_dsp, no_dsp]
       Slic_Not_Defined DAA_Not_Defined BP_NOT_DEFINED 0 0 0"

section \<open>Boards with the BCM96348\<close>

definition g_bcm96348r :: board_parameters where
  "g_bcm96348r =
     board_parameters.make (board_id ''96348R'') BP_NOT_DEFINED
       BP_NOT_DEFINED BP_NOT_DEFINED BP_NOT_DEFINED BP_NOT_DEFINED BP_NOT_DEFINED BP_NOT_DEFINED
       BP_NOT_DEFINED BP_GPIO_2_AL BP_NOT_DEFINED BP_NOT_DEFINED BP_NOT_DEFINED BP_NOT_DEFINED
       BP_GPIO_3_AL BP_GPIO_3_AL BP_GPIO_4_AL BP_GPIO_0_AL BP_GPIO_1_AL BP_NOT_DEFINED
       BP_HW_DEFINED BP_NOT_DEFINED BP_NOT_DEFINED BP_NOT_DEFINED
       BP_NOT_DEFINED BP_NOT_DEFINED BP_NOT_DEFINED 0 BP_NOT_DEFINED
       [ethernet_mac_info.make BP_ENET_INTERNAL_PHY 0x01 BP_NOT_DEFINED BP_NOT_DEFINED
       BP_ENET_CONFIG_MDIO BP_NOT_DEFINED (SW_INFO_DEFAULT 1),
        no_phy]
       [no_dsp, no_dsp]
       Slic_Not_Defined DAA_Not_Defined BP_NOT_DEFINED 0 0 0"

definition g_bcm96348gw :: board_parameters where
  "g_bcm96348gw =
     board_parameters.make (board_id ''96348GW'') (BP_PCI OR BP_MII2)
       BP_NOT_DEFINED BP_NOT_DEFINED BP_NOT_DEFINED BP_NOT_DEFINED BP_NOT_DEFINED BP_NOT_DEFINED
       BP_NOT_DEFINED BP_GPIO_2_AL BP_NOT_DEFINED BP_NOT_DEFINED BP_NOT_DEFINED BP_NOT_DEFINED
       BP_GPIO_3_AL BP_GPIO_3_AL BP_GPIO_4_AL BP_GPIO_0_AL BP_GPIO_1_AL BP_NOT_DEFINED
       BP_HW_DEFINED BP_NOT_DEFINED BP_EXT_INTR_3 BP_NOT_DEFINED
       BP_NOT_DEFINED BP_NOT_DEFINED BP_WLAN_ANT_MAIN 0 BP_NOT_DEFINED
       [ethernet_mac_info.make BP_ENET_INTERNAL_PHY 0x01 BP_NOT_DEFINED BP_NOT_DEFINED
       BP_ENET_CONFIG_MDIO BP_NOT_DEFINED (SW_INFO_DEFAULT 1),
        ethernet_mac_info.make BP_ENET_EXTERNAL_SWITCH 0x00 BP_NOT_DEFINED BP_NOT_DEFINED
        BP_ENET_CONFIG_SPI_SSB_0 BP_ENET_REVERSE_MII (SW_INFO_DEFAULT 3)]
       [voip_dsp_info.make BP_VOIP_DSP 0x00 BP_EXT_INTR_2 BP_GPIO_6_AH BP_GPIO_34_AH BP_NOT_DEFINED
       BP_CS_2 0 0 0 0 0 0 0 0 0 0 0,
        no_dsp]
       Slic_Not_Defined DAA_Not_Defined BP_NOT_DEFINED 0 0 0"

definition g_bcm96348w2 :: board_parameters where
  "g_bcm96348w2 =
     board_parameters.make (board_id ''96348W2'') (BP_PCI OR BP_MII2)
       BP_NOT_DEFINED BP_NOT_DEFINED BP_NOT_DEFINED BP_NOT_DEFINED BP_NOT_DEFINED BP_NOT_DEFINED
       BP_NOT_DEFINED BP_GPIO_2_AL BP_NOT_DEFINED BP_NOT_DEFINED BP_GPIO_6_AL BP_NOT_DEFINED
       BP_GPIO_3_AL BP_GPIO_3_AL BP_GPIO_4_AL BP_GPIO_0_AL BP_GPIO_1_AL BP_NOT_DEFINED
       BP_HW_DEFINED BP_EXT_INTR_1 BP_EXT_INTR_3 BP_NOT_DEFINED
       BP_NOT_DEFINED BP_NOT_DEFINED BP_WLAN_ANT_AUX 0 BP_NOT_DEFINED
       [ethernet_mac_info.make BP_ENET_INTERNAL_PHY 0x01 BP_NOT_DEFINED BP_NOT_DEFINED
       BP_ENET_CONFIG_MDIO BP_NOT_DEFINED (SW_INFO_DEFAULT 1),
        ethernet_mac_info.make BP_ENET_EXTERNAL_SWITCH 0x00 BP_NOT_DEFINED BP_NOT_DEFINED
        BP_ENET_CONFIG_MDIO_PSEUDO_PHY BP_NOT_DEFINED (SW_INFO_DEFAULT 3)]
       [no_dsp, no_dsp]
       Slic_Not_Defined DAA_Not_Defined BP_NOT_DEFINED 0 0 0"

definition g_bcm96348w3_10 :: board_parameters where
  "g_bcm96348w3_10 =
     board_parameters.make (board_id ''96348W3-10'') (BP_PCI OR BP_MII2)
       BP_NOT_DEFINED BP_NOT_DEFINED BP_NOT_DEFINED BP_NOT_DEFINED BP_NOT_DEFINED BP_NOT_DEFINED
       BP_GPIO_2_AL BP_NOT_DEFINED BP_NOT_DEFINED BP_NOT_DEFINED BP_GPIO_6_AL BP_NOT_DEFINED
       BP_NOT_DEFINED BP_NOT_DEFINED BP_GPIO_4_AH BP_GPIO_0_AH BP_GPIO_1_AH BP_NOT_DEFINED
       BP_HW_DEFINED BP_EXT_INTR_1 BP_EXT_INTR_3 BP_NOT_DEFINED
       BP_NOT_DEFINED BP_NOT_DEFINED BP_WLAN_ANT_AUX 0 BP_NOT_DEFINED
       [ethernet_mac_info.make BP_ENET_INTERNAL_PHY 0x01 BP_NOT_DEFINED BP_NOT_DEFINED
       BP_ENET_CONFIG_MDIO BP_NOT_DEFINED (SW_INFO_DEFAULT 1),
        ethernet_mac_info.make BP_ENET_EXTERNAL_SWITCH 0x00 BP_NOT_DEFINED BP_NOT_DEFINED
        BP_ENET_CONFIG_MDIO_PSEUDO_PHY BP_NOT_DEFINED (SW_INFO_DEFAULT 3)]
       [no_dsp, no_dsp]
       Slic_Not_Defined DAA_Not_Defined BP_NOT_DEFINED 0 0 0"

definition g_bcm96348gw_10 :: board_parameters where
  "g_bcm96348gw_10 =
     board_parameters.make (board_id ''96348GW-10'') (BP_PCI OR BP_SPI_EXT_CS OR BP_MII2)
       BP_NOT_DEFINED BP_NOT_DEFINED BP_NOT_DEFINED BP_NOT_DEFINED BP_NOT_DEFINED BP_NOT_DEFINED
       BP_NOT_DEFINED BP_GPIO_2_AL BP_NOT_DEFINED BP_NOT_DEFINED BP_NOT_DEFINED BP_NOT_DEFINED
       BP_GPIO_3_AL BP_GPIO_3_AL BP_GPIO_4_AL BP_GPIO_0_AL BP_GPIO_1_AL BP_NOT_DEFINED
       BP_HW_DEFINED BP_NOT_DEFINED BP_NOT_DEFINED BP_NOT_DEFINED
       BP_NOT_DEFINED BP_NOT_DEFINED BP_WLAN_ANT_MAIN 0 BP_NOT_DEFINED
       [ethernet_mac_info.make BP_ENET_INTERNAL_PHY 0x01 BP_NOT_DEFINED BP_NOT_DEFINED
       BP_ENET_CONFIG_MDIO BP_NOT_DEFINED (SW_INFO_DEFAULT 1),
        ethernet_mac_info.make BP_ENET_EXTERNAL_SWITCH 0x00 BP_NOT_DEFINED BP_NOT_DEFINED
        BP_ENET_CONFIG_SPI_SSB_1 BP_ENET_REVERSE_MII (SW_INFO_DEFAULT 3)]
       [voip_dsp_info.make BP_VOIP_DSP 0x00 BP_EXT_INTR_2 BP_GPIO_6_AH BP_GPIO_34_AH BP_NOT_DEFINED
       BP_CS_2 0 0 0 0 0 0 0 0 0 0 0,
        no_dsp]
       Slic_Not_Defined DAA_Not_Defined BP_NOT_DEFINED 0 0 0"

definition g_bcm96348gw_11 :: board_parameters where
  "g_bcm96348gw_11 =
     board_parameters.make (board_id ''96348GW-11'') (BP_PCI OR BP_SPI_EXT_CS OR BP_MII2)
       BP_NOT_DEFINED BP_NOT_DEFINED BP_NOT_DEFINED BP_NOT_DEFINED BP_NOT_DEFINED BP_NOT_DEFINED
       BP_NOT_DEFINED BP_GPIO_2_AL BP_NOT_DEFINED BP_NOT_DEFINED BP_NOT_DEFINED BP_NOT_DEFINED
       BP_GPIO_3_AL BP_GPIO_3_AL BP_GPIO_4_AL BP_GPIO_0_AL BP_GPIO_1_AL BP_NOT_DEFINED
       BP_HW_DEFINED BP_NOT_DEFINED BP_NOT_DEFINED BP_NOT_DEFINED
       BP_NOT_DEFINED BP_NOT_DEFINED BP_WLAN_ANT_MAIN 0 BP_NOT_DEFINED
       [no_phy,
        ethernet_mac_info.make BP_ENET_EXTERNAL_SWITCH 0x00 BP_NOT_DEFINED BP_NOT_DEFINED
        BP_ENET_CONFIG_SPI_SSB_1 BP_ENET_REVERSE_MII (SW_INFO_DEFAULT 4)]
       [no_dsp, no_dsp]
       Slic_Not_Defined DAA_Not_Defined BP_NOT_DEFINED 0 0 0"

definition g_bcm96348sv :: board_parameters where
  "g_bcm96348sv =
     board_parameters.make (board_id ''96348SV'') (BP_PCI OR BP_CB OR BP_MII2)
       BP_NOT_DEFINED BP_NOT_DEFINED BP_NOT_DEFINED BP_NOT_DEFINED BP_NOT_DEFINED BP_NOT_DEFINED
       BP_NOT_DEFINED BP_NOT_DEFINED BP_NOT_DEFINED BP_NOT_DEFINED BP_NOT_DEFINED BP_NOT_DEFINED
       BP_NOT_DEFINED BP_NOT_DEFINED BP_NOT_DEFINED BP_NOT_DEFINED BP_NOT_DEFINED BP_NOT_DEFINED
       BP_HW_DEFINED BP_NOT_DEFINED BP_NOT_DEFINED BP_NOT_DEFINED
       BP_NOT_DEFINED BP_NOT_DEFINED BP_NOT_DEFINED 0 BP_NOT_DEFINED
       [ethernet_mac_info.make BP_ENET_INTERNAL_PHY 0x01 BP_NOT_DEFINED BP_NOT_DEFINED
       BP_ENET_CONFIG_MDIO BP_NOT_DEFINED (SW_INFO_DEFAULT 1),
        ethernet_mac_info.make BP_ENET_EXTERNAL_PHY 0x1f BP_NOT_DEFINED BP_NOT_DEFINED
        BP_ENET_CONFIG_MDIO BP_NOT_DEFINED (SW_INFO_DEFAULT 1)]
       [no_dsp, no_dsp]
       Slic_Not_Defined DAA_Not_Defined BP_NOT_DEFINED 0 0 0"

definition g_bcmCustom_01 :: board_parameters where
  "g_bcmCustom_01 =
     board_parameters.make (board_id ''BCMCUST_01'') (BP_PCI OR BP_SPI_EXT_CS OR BP_MII2)
       BP_NOT_DEFINED BP_NOT_DEFINED BP_NOT_DEFINED BP_NOT_DEFINED BP_NOT_DEFINED BP_NOT_DEFINED
       BP_NOT_DEFINED BP_GPIO_2_AL BP_NOT_DEFINED BP_NOT_DEFINED BP_NOT_DEFINED BP_NOT_DEFINED
       BP_GPIO_3_AL BP_GPIO_3_AL BP_GPIO_4_AL BP_GPIO_0_AL BP_GPIO_1_AL BP_NOT_DEFINED
       BP_NOT_DEFINED BP_NOT_DEFINED BP_NOT_DEFINED BP_NOT_DEFINED
       BP_NOT_DEFINED BP_NOT_DEFINED BP_NOT_DEFINED 0 BP_NOT_DEFINED
       [ethernet_mac_info.make BP_ENET_INTERNAL_PHY 0x01 BP_NOT_DEFINED BP_NOT_DEFINED
       BP_ENET_CONFIG_MDIO BP_NOT_DEFINED (SW_INFO_DEFAULT 1),
        ethernet_mac_info.make BP_ENET_NO_PHY 0x00 BP_NOT_DEFINED BP_NOT_DEFINED
        BP_ENET_CONFIG_SPI_SSB_1 BP_ENET_REVERSE_MII (SW_INFO_DEFAULT 1)]
       [voip_dsp_info.make BP_VOIP_DSP 0x00 BP_EXT_INTR_2 BP_GPIO_36_AH BP_GPIO_34_AL BP_NOT_DEFINED
       BP_CS_2 0 0 0 0 0 0 0 0 0 0 0,
        no_dsp]
       Slic_Not_Defined DAA_Not_Defined BP_NOT_DEFINED 0 0 0"

definition g_bcm96348m :: board_parameters where
  "g_bcm96348m =
     board_parameters.make (board_id ''96348M'') (BP_UTOPIA)
       BP_NOT_DEFINED BP_NOT_DEFINED BP_NOT_DEFINED BP_NOT_DEFINED BP_GPIO_22_AL BP_GPIO_21_AH
       BP_NOT_DEFINED BP_NOT_DEFINED BP_NOT_DEFINED BP_NOT_DEFINED BP_NOT_DEFINED BP_NOT_DEFINED
       BP_GPIO_19_AL BP_GPIO_19_AL BP_GPIO_20_AL BP_GPIO_16_AL BP_GPIO_17_AL BP_NOT_DEFINED
       BP_HW_DEFINED BP_EXT_INTR_1 BP_NOT_DEFINED BP_NOT_DEFINED
       BP_NOT_DEFINED BP_CS_1 BP_NOT_DEFINED 0 3
       [ethernet_mac_info.make BP_ENET_INTERNAL_PHY 0x01 BP_NOT_DEFINED BP_NOT_DEFINED
       BP_ENET_CONFIG_MDIO BP_NOT_DEFINED (SW_INFO_DEFAULT 1),
        no_phy]
       [no_dsp, no_dsp]
       Slic_Not_Defined DAA_Not_Defined BP_NOT_DEFINED 0 0 0"

section \<open>Boards with the BCM96358\<close>

definition g_bcm96358vw2 :: board_parameters where
  "g_bcm96358vw2 =
     board_parameters.make (board_id ''96358VW2'') (BP_PCI OR BP_SPI_EXT_CS OR BP_LED)
       BP_NOT_DEFINED BP_NOT_DEFINED BP_NOT_DEFINED BP_NOT_DEFINED BP_NOT_DEFINED BP_NOT_DEFINED
       BP_GPIO_22_AL BP_NOT_DEFINED BP_NOT_DEFINED BP_NOT_DEFINED BP_GPIO_27_AL BP_NOT_DEFINED
       BP_NOT_DEFINED BP_NOT_DEFINED BP_GPIO_23_AH BP_GPIO_5_AL BP_GPIO_4_AL BP_NOT_DEFINED
       BP_HW_DEFINED BP_EXT_INTR_2 BP_GPIO_37_AL BP_NOT_DEFINED
       BP_NOT_DEFINED BP_NOT_DEFINED BP_WLAN_ANT_MAIN 0 BP_NOT_DEFINED
       [ethernet_mac_info.make BP_ENET_INTERNAL_PHY 0x01 BP_NOT_DEFINED BP_GPIO_0_AL
       BP_ENET_CONFIG_MDIO BP_NOT_DEFINED (SW_INFO_DEFAULT 1),
        ethernet_mac_info.make BP_ENET_EXTERNAL_SWITCH 0x0 BP_NOT_DEFINED BP_NOT_DEFINED
        BP_ENET_CONFIG_MDIO_PSEUDO_PHY BP_NOT_DEFINED (SW_INFO_DEFAULT 3)]
       [voip_dsp_info.make BP_VOIP_MIPS (-1) BP_NOT_DEFINED BP_NOT_DEFINED BP_NOT_DEFINED
       BP_NOT_DEFINED BP_NOT_DEFINED BP_GPIO_7_AL BP_NOT_DEFINED BP_GPIO_10_AH BP_GPIO_12_AH
       BP_GPIO_24_AL BP_NOT_DEFINED BP_GPIO_11_AH BP_GPIO_12_AH BP_GPIO_6_AL BP_GPIO_13_AH
       BP_NOT_DEFINED,
        no_dsp]
       Legerity_88221 Legerity_88010 BP_NOT_DEFINED BP_GPIO_30_AL BP_GPIO_31_AL BP_GPIO_29_AH"

definition g_bcm96358vw :: board_parameters where
  "g_bcm96358vw =
     board_parameters.make (board_id ''96358VW'') (BP_PCI OR BP_SPI_EXT_CS OR BP_LED)
       BP_NOT_DEFINED BP_NOT_DEFINED BP_NOT_DEFINED BP_NOT_DEFINED BP_NOT_DEFINED BP_NOT_DEFINED
       BP_NOT_DEFINED BP_GPIO_15_AL BP_NOT_DEFINED BP_NOT_DEFINED BP_SERIAL_GPIO_7_AL BP_NOT_DEFINED
       BP_GPIO_22_AL BP_GPIO_22_AL BP_GPIO_23_AL BP_GPIO_4_AL BP_GPIO_5_AL BP_NOT_DEFINED
       BP_HW_DEFINED BP_EXT_INTR_0 BP_EXT_INTR_3 BP_NOT_DEFINED
       BP_NOT_DEFINED BP_NOT_DEFINED BP_WLAN_ANT_MAIN 0 BP_NOT_DEFINED
       [ethernet_mac_info.make BP_ENET_INTERNAL_PHY 0x01 BP_NOT_DEFINED BP_NOT_DEFINED
       BP_ENET_CONFIG_MDIO BP_NOT_DEFINED (SW_INFO_DEFAULT 1),
        ethernet_mac_info.make BP_ENET_EXTERNAL_SWITCH 0x0 BP_NOT_DEFINED BP_NOT_DEFINED
        BP_ENET_CONFIG_MDIO_PSEUDO_PHY BP_NOT_DEFINED (SW_INFO_DEFAULT 3)]
       [voip_dsp_info.make BP_VOIP_MIPS (-1) BP_NOT_DEFINED BP_NOT_DEFINED BP_NOT_DEFINED
       BP_NOT_DEFINED BP_NOT_DEFINED BP_SERIAL_GPIO_0_AL BP_NOT_DEFINED BP_GPIO_10_AH BP_GPIO_12_AH
       BP_SERIAL_GPIO_2_AL BP_NOT_DEFINED BP_GPIO_11_AH BP_GPIO_24_AH BP_SERIAL_GPIO_4_AL BP_GPIO_13_AH
       BP_NOT_DEFINED,
        no_dsp]
       Silicon_Labs_3215 Silicon_Labs_3050 BP_NOT_DEFINED 0 0 0"

definition g_bcm96358sv :: board_parameters where
  "g_bcm96358sv =
     board_parameters.make (board_id ''96358SV'') (BP_PCI OR BP_CB OR BP_SPI_EXT_CS OR BP_UART1 OR BP_LED)
       BP_NOT_DEFINED BP_NOT_DEFINED BP_NOT_DEFINED BP_NOT_DEFINED BP_NOT_DEFINED BP_NOT_DEFINED
       BP_NOT_DEFINED BP_GPIO_15_AL BP_NOT_DEFINED BP_NOT_DEFINED BP_SERIAL_GPIO_7_AL BP_NOT_DEFINED
       BP_NOT_DEFINED BP_NOT_DEFINED BP_NOT_DEFINED BP_NOT_DEFINED BP_NOT_DEFINED BP_NOT_DEFINED
       BP_HW_DEFINED BP_NOT_DEFINED BP_EXT_INTR_3 BP_NOT_DEFINED
       BP_NOT_DEFINED BP_NOT_DEFINED BP_WLAN_ANT_MAIN 0 BP_NOT_DEFINED
       [ethernet_mac_info.make BP_ENET_INTERNAL_PHY 0x01 BP_NOT_DEFINED BP_NOT_DEFINED
       BP_ENET_CONFIG_MDIO BP_NOT_DEFINED (SW_INFO_DEFAULT 1),
        ethernet_mac_info.make BP_ENET_EXTERNAL_SWITCH 0x0 BP_NOT_DEFINED BP_NOT_DEFINED
        BP_ENET_CONFIG_MDIO_PSEUDO_PHY BP_NOT_DEFINED (SW_INFO_DEFAULT 3)]
       [no_dsp, no_dsp]
       Slic_Not_Defined DAA_Not_Defined BP_NOT_DEFINED 0 0 0"

definition g_bcm96358gwvg :: board_parameters where
  "g_bcm96358gwvg =
     board_parameters.make (board_id ''96358GWVG'') (BP_PCI OR BP_CB OR BP_SPI_EXT_CS OR BP_LED)
       BP_NOT_DEFINED BP_NOT_DEFINED BP_NOT_DEFINED BP_NOT_DEFINED BP_NOT_DEFINED BP_NOT_DEFINED
       BP_GPIO_11_AL BP_NOT_DEFINED BP_NOT_DEFINED BP_NOT_DEFINED BP_GPIO_6_AL BP_NOT_DEFINED
       BP_NOT_DEFINED BP_NOT_DEFINED BP_GPIO_8_AH BP_GPIO_4_AH BP_GPIO_5_AH BP_NOT_DEFINED
       BP_HW_DEFINED BP_NOT_DEFINED BP_EXT_INTR_3 BP_NOT_DEFINED
       BP_NOT_DEFINED BP_NOT_DEFINED BP_WLAN_ANT_MAIN BP_NOT_DEFINED BP_NOT_DEFINED
       [ethernet_mac_info.make BP_ENET_INTERNAL_PHY 0x01 BP_NOT_DEFINED BP_NOT_DEFINED
       BP_ENET_CONFIG_MDIO BP_NOT_DEFINED (SW_INFO_DEFAULT 1),
        ethernet_mac_info.make BP_ENET_EXTERNAL_SWITCH 0x0 BP_NOT_DEFINED BP_NOT_DEFINED
        BP_ENET_CONFIG_MDIO_PSEUDO_PHY BP_NOT_DEFINED (SW_INFO_DEFAULT 3)]
       [voip_dsp_info.make BP_VOIP_MIPS (-1) BP_NOT_DEFINED BP_NOT_DEFINED BP_NOT_DEFINED
       BP_NOT_DEFINED BP_NOT_DEFINED BP_GPIO_7_AL BP_NOT_DEFINED BP_NOT_DEFINED BP_GPIO_12_AL
       BP_NOT_DEFINED BP_NOT_DEFINED BP_NOT_DEFINED BP_NOT_DEFINED BP_NOT_DEFINED BP_NOT_DEFINED
       BP_NOT_DEFINED,
        no_dsp]
       Legerity_88221 Legerity_88010 BP_NOT_DEFINED 0 0 0"

definition g_bcm96358mv2g :: board_parameters where
  "g_bcm96358mv2g =
     board_parameters.make (board_id ''96358MV2G'') (BP_PCI OR BP_UTOPIA OR BP_SPI_EXT_CS OR BP_LED)
       BP_NOT_DEFINED BP_NOT_DEFINED BP_NOT_DEFINED BP_NOT_DEFINED BP_GPIO_9_AL BP_GPIO_10_AH
       BP_SERIAL_GPIO_3_AL BP_NOT_DEFINED BP_NOT_DEFINED BP_NOT_DEFINED BP_NOT_DEFINED BP_NOT_DEFINED
       BP_NOT_DEFINED BP_NOT_DEFINED BP_SERIAL_GPIO_2_AH BP_SERIAL_GPIO_0_AH BP_SERIAL_GPIO_1_AH
       BP_NOT_DEFINED
       BP_HW_DEFINED BP_EXT_INTR_2 BP_EXT_INTR_3 BP_NOT_DEFINED
       BP_NOT_DEFINED BP_CS_1 BP_WLAN_ANT_MAIN BP_NOT_DEFINED 3
       [ethernet_mac_info.make BP_ENET_INTERNAL_PHY 0x01 BP_NOT_DEFINED BP_GPIO_8_AL
       BP_ENET_CONFIG_MDIO BP_NOT_DEFINED (SW_INFO_DEFAULT 1),
        ethernet_mac_info.make BP_ENET_EXTERNAL_SWITCH 0x0 BP_NOT_DEFINED BP_NOT_DEFINED
        BP_ENET_CONFIG_MDIO_PSEUDO_PHY BP_NOT_DEFINED (SW_INFO_DEFAULT 3)]
       [voip_dsp_info.make BP_VOIP_MIPS (-1) BP_NOT_DEFINED BP_NOT_DEFINED BP_NOT_DEFINED
       BP_NOT_DEFINED BP_NOT_DEFINED BP_SERIAL_GPIO_5_AL BP_NOT_DEFINED BP_GPIO_4_AL BP_GPIO_35_AL
       BP_SERIAL_GPIO_6_AL BP_NOT_DEFINED BP_GPIO_5_AL BP_GPIO_35_AL BP_NOT_DEFINED BP_NOT_DEFINED
       BP_NOT_DEFINED,
        no_dsp]
       Legerity_88221 Legerity_88010 BP_NOT_DEFINED 0 0 0"

definition g_bcm96358m :: board_parameters where
  "g_bcm96358m =
     board_parameters.make (board_id ''96358M'') (BP_PCI OR BP_UTOPIA OR BP_LED)
       BP_NOT_DEFINED BP_NOT_DEFINED BP_NOT_DEFINED BP_NOT_DEFINED BP_GPIO_9_AL BP_GPIO_10_AH
       BP_SERIAL_GPIO_3_AL BP_NOT_DEFINED BP_NOT_DEFINED BP_NOT_DEFINED BP_GPIO_11_AL BP_NOT_DEFINED
       BP_NOT_DEFINED BP_NOT_DEFINED BP_SERIAL_GPIO_2_AH BP_SERIAL_GPIO_0_AH BP_SERIAL_GPIO_1_AH
       BP_NOT_DEFINED
       BP_HW_DEFINED BP_NOT_DEFINED BP_EXT_INTR_3 BP_NOT_DEFINED
       BP_NOT_DEFINED BP_CS_1 BP_WLAN_ANT_MAIN BP_NOT_DEFINED 3
       [ethernet_mac_info.make BP_ENET_INTERNAL_PHY 0x01 BP_NOT_DEFINED BP_NOT_DEFINED
       BP_ENET_CONFIG_MDIO BP_NOT_DEFINED (SW_INFO_DEFAULT 1),
        ethernet_mac_info.make BP_ENET_EXTERNAL_SWITCH 0x0 BP_NOT_DEFINED BP_NOT_DEFINED
        BP_ENET_CONFIG_MDIO_PSEUDO_PHY BP_NOT_DEFINED (SW_INFO_DEFAULT 3)]
       [no_dsp, no_dsp]
       Slic_Not_Defined DAA_Not_Defined BP_NOT_DEFINED BP_SERIAL_GPIO_5_AH BP_SERIAL_GPIO_6_AH 0"

definition g_bcm96358b :: board_parameters where
  "g_bcm96358b =
     board_parameters.make (board_id ''96358B'') (BP_PCI OR BP_LED)
       BP_NOT_DEFINED BP_NOT_DEFINED BP_NOT_DEFINED BP_NOT_DEFINED BP_NOT_DEFINED BP_NOT_DEFINED
       BP_SERIAL_GPIO_2_AL BP_NOT_DEFINED BP_SERIAL_GPIO_3_AL BP_NOT_DEFINED BP_SERIAL_GPIO_4_AL
       BP_NOT_DEFINED BP_NOT_DEFINED BP_NOT_DEFINED BP_SERIAL_GPIO_6_AH BP_SERIAL_GPIO_0_AH
       BP_SERIAL_GPIO_1_AH BP_GPIO_5_AH
       BP_HW_DEFINED BP_EXT_INTR_5 BP_EXT_INTR_4 BP_NOT_DEFINED
       BP_NOT_DEFINED BP_NOT_DEFINED BP_WLAN_ANT_MAIN 0 BP_NOT_DEFINED
       [ethernet_mac_info.make BP_ENET_INTERNAL_PHY 0x01 BP_NOT_DEFINED BP_SERIAL_GPIO_5_AL
       BP_ENET_CONFIG_MDIO BP_NOT_DEFINED (SW_INFO_DEFAULT 1),
        ethernet_mac_info.make BP_ENET_EXTERNAL_SWITCH 0x0 BP_NOT_DEFINED BP_NOT_DEFINED
        BP_ENET_CONFIG_MDIO_PSEUDO_PHY BP_NOT_DEFINED (SW_INFO_DEFAULT 3)]
       [no_dsp, no_dsp]
       Slic_Not_Defined DAA_Not_Defined BP_NOT_DEFINED 0 0 0"

definition g_bcm96358bgweOem1 :: board_parameters where
  "g_bcm96358bgweOem1 =
     board_parameters.make (board_id ''96358BGWE_OEM1'') (BP_PCI OR BP_LED)
       BP_NOT_DEFINED BP_NOT_DEFINED BP_NOT_DEFINED BP_NOT_DEFINED BP_NOT_DEFINED BP_NOT_DEFINED
       BP_SERIAL_GPIO_2_AL BP_SERIAL_GPIO_1_AL BP_NOT_DEFINED BP_NOT_DEFINED BP_SERIAL_GPIO_7_AL
       BP_NOT_DEFINED BP_NOT_DEFINED BP_NOT_DEFINED BP_NOT_DEFINED BP_NOT_DEFINED BP_NOT_DEFINED
       BP_GPIO_5_AH
       BP_HW_DEFINED BP_GPIO_33_AL BP_EXT_INTR_3 BP_NOT_DEFINED
       BP_NOT_DEFINED BP_NOT_DEFINED BP_WLAN_ANT_MAIN 0 BP_NOT_DEFINED
       [ethernet_mac_info.make BP_ENET_INTERNAL_PHY 0x01 BP_NOT_DEFINED BP_NOT_DEFINED
       BP_ENET_CONFIG_MDIO BP_NOT_DEFINED (SW_INFO_DEFAULT 1),
        ethernet_mac_info.make BP_ENET_EXTERNAL_SWITCH 0x0 BP_NOT_DEFINED BP_NOT_DEFINED
        BP_ENET_CONFIG_MDIO_PSEUDO_PHY BP_NOT_DEFINED (SW_INFO_DEFAULT 4)]
       [no_dsp, no_dsp]
       Slic_Not_Defined DAA_Not_Defined BP_NOT_DEFINED 0 0 0"

definition g_bcm96359pong :: board_parameters where
  "g_bcm96359pong =
     board_parameters.make (board_id ''96359PONG'') (BP_PCI OR BP_SPI_EXT_CS)
       BP_NOT_DEFINED BP_NOT_DEFINED BP_NOT_DEFINED BP_NOT_DEFINED BP_NOT_DEFINED BP_NOT_DEFINED
       BP_NOT_DEFINED BP_NOT_DEFINED BP_NOT_DEFINED BP_NOT_DEFINED BP_NOT_DEFINED BP_NOT_DEFINED
       BP_GPIO_2_AH BP_GPIO_2_AH BP_GPIO_8_AH BP_GPIO_4_AH BP_GPIO_26_AH BP_NOT_DEFINED
       BP_NOT_DEFINED BP_EXT_INTR_2 BP_EXT_INTR_3 BP_NOT_DEFINED
       BP_NOT_DEFINED BP_NOT_DEFINED BP_WLAN_ANT_MAIN BP_NOT_DEFINED BP_NOT_DEFINED
       [ethernet_mac_info.make BP_ENET_INTERNAL_PHY 0x01 BP_NOT_DEFINED BP_NOT_DEFINED
       BP_ENET_CONFIG_MDIO BP_NOT_DEFINED (SW_INFO_DEFAULT 1),
        ethernet_mac_info.make BP_ENET_EXTERNAL_SWITCH 0x0 BP_NOT_DEFINED BP_NOT_DEFINED
        BP_ENET_CONFIG_MDIO_PSEUDO_PHY BP_NOT_DEFINED (SW_INFO_DEFAULT 5)]
       [voip_dsp_info.make BP_VOIP_MIPS (-1) BP_NOT_DEFINED BP_NOT_DEFINED BP_NOT_DEFINED
       BP_NOT_DEFINED BP_NOT_DEFINED BP_SERIAL_GPIO_1_AH BP_SERIAL_GPIO_2_AH BP_NOT_DEFINED
       BP_GPIO_12_AL BP_SERIAL_GPIO_3_AH BP_SERIAL_GPIO_4_AH BP_NOT_DEFINED BP_NOT_DEFINED
       BP_NOT_DEFINED BP_NOT_DEFINED BP_SERIAL_GPIO_5_AH,
        no_dsp]
       Legerity_88221 DAA_Not_Defined BP_NOT_DEFINED 0 0 0"

definition g_bcm96358ivwg :: board_parameters where
  "g_bcm96358ivwg =
     board_parameters.make (board_id ''96358IVWG'') (BP_PCI OR BP_SPI_EXT_CS OR BP_LED)
       BP_NOT_DEFINED BP_NOT_DEFINED BP_NOT_DEFINED BP_NOT_DEFINED BP_NOT_DEFINED BP_NOT_DEFINED
       BP_GPIO_22_AL BP_NOT_DEFINED BP_NOT_DEFINED BP_NOT_DEFINED BP_SERIAL_GPIO_7_AL BP_NOT_DEFINED
       BP_NOT_DEFINED BP_NOT_DEFINED BP_GPIO_23_AH BP_GPIO_4_AH BP_GPIO_5_AH BP_NOT_DEFINED
       BP_HW_DEFINED BP_EXT_INTR_2 BP_EXT_INTR_3 BP_NOT_DEFINED
       BP_NOT_DEFINED BP_NOT_DEFINED BP_WLAN_ANT_MAIN 0 BP_NOT_DEFINED
       [ethernet_mac_info.make BP_ENET_INTERNAL_PHY 0x01 BP_NOT_DEFINED BP_GPIO_28_AL
       BP_ENET_CONFIG_MDIO BP_NOT_DEFINED (SW_INFO_DEFAULT 1),
        ethernet_mac_info.make BP_ENET_EXTERNAL_SWITCH 0x0 BP_NOT_DEFINED BP_NOT_DEFINED
        BP_ENET_CONFIG_MDIO_PSEUDO_PHY BP_NOT_DEFINED (SW_INFO_DEFAULT 3)]
       [voip_dsp_info.make BP_VOIP_MIPS (-1) BP_NOT_DEFINED BP_NOT_DEFINED BP_NOT_DEFINED
       BP_NOT_DEFINED BP_NOT_DEFINED BP_SERIAL_GPIO_0_AL BP_NOT_DEFINED BP_GPIO_10_AH BP_GPIO_12_AH
       BP_SERIAL_GPIO_2_AL BP_NOT_DEFINED BP_GPIO_11_AH BP_GPIO_12_AH BP_SERIAL_GPIO_4_AL BP_GPIO_13_AH
       BP_NOT_DEFINED,
        no_dsp]
       Legerity_88221 Legerity_88010 BP_NOT_DEFINED 0 0 0"

section \<open>Boards with the BCM96368\<close>

definition g_bcm96368vvw :: board_parameters where
  "g_bcm96368vvw =
     board_parameters.make (board_id ''96368VVW'') (BP_PCI OR BP_SPI_EXT_CS OR BP_LED)
       BP_NOT_DEFINED BP_NOT_DEFINED BP_NOT_DEFINED BP_NOT_DEFINED BP_NOT_DEFINED BP_NOT_DEFINED
       BP_GPIO_2_AL BP_NOT_DEFINED BP_NOT_DEFINED BP_NOT_DEFINED BP_NOT_DEFINED BP_NOT_DEFINED
       BP_NOT_DEFINED BP_NOT_DEFINED BP_GPIO_33_AH BP_GPIO_0_AH BP_GPIO_1_AH BP_NOT_DEFINED
       BP_HW_DEFINED BP_NOT_DEFINED BP_NOT_DEFINED BP_NOT_DEFINED
       BP_NOT_DEFINED BP_NOT_DEFINED BP_WLAN_ANT_MAIN BP_NOT_DEFINED BP_NOT_DEFINED
       [ethernet_mac_info.make BP_ENET_EXTERNAL_SWITCH 0x0 BP_NOT_DEFINED BP_NOT_DEFINED
       BP_ENET_CONFIG_MMAP BP_NOT_DEFINED (ethernet_sw_info.make 0x0f [0x01, 0x02, 0x03, 0x04, 0x00,
       0x00, 0x00, 0x00]),
        no_phy]
       [voip_dsp_info.make BP_VOIP_MIPS (-1) BP_NOT_DEFINED BP_NOT_DEFINED BP_NOT_DEFINED
       BP_NOT_DEFINED BP_NOT_DEFINED BP_GPIO_25_AL BP_NOT_DEFINED BP_GPIO_3_AH BP_GPIO_15_AH
       BP_GPIO_26_AL BP_NOT_DEFINED BP_GPIO_4_AH BP_GPIO_15_AH BP_GPIO_27_AL BP_GPIO_22_AH
       BP_NOT_DEFINED,
        no_dsp]
       Legerity_88221 Legerity_88010 BP_NOT_DEFINED 0 0 0"

definition g_bcm96368sv2 :: board_parameters where
  "g_bcm96368sv2 =
     board_parameters.make (board_id ''96368SV2'') (BP_PCI OR BP_SPI_EXT_CS OR BP_LED)
       BP_NOT_DEFINED BP_NOT_DEFINED BP_NOT_DEFINED BP_NOT_DEFINED BP_NOT_DEFINED BP_NOT_DEFINED
       BP_GPIO_2_AL BP_NOT_DEFINED BP_NOT_DEFINED BP_NOT_DEFINED BP_NOT_DEFINED BP_NOT_DEFINED
       BP_NOT_DEFINED BP_NOT_DEFINED BP_GPIO_33_AH BP_GPIO_0_AH BP_GPIO_1_AH BP_NOT_DEFINED
       BP_HW_DEFINED BP_NOT_DEFINED BP_NOT_DEFINED BP_NOT_DEFINED
       BP_NOT_DEFINED BP_NOT_DEFINED BP_WLAN_ANT_MAIN BP_NOT_DEFINED BP_NOT_DEFINED
       [ethernet_mac_info.make BP_ENET_EXTERNAL_SWITCH 0x0 BP_NOT_DEFINED BP_NOT_DEFINED
       BP_ENET_CONFIG_MMAP BP_NOT_DEFINED (ethernet_sw_info.make 0x3f [0x01, 0x02, 0x03, 0x04, 0x12,
       0x11, 0x00, 0x00]),
        no_phy]
       [voip_dsp_info.make BP_VOIP_MIPS (-1) BP_NOT_DEFINED BP_NOT_DEFINED BP_NOT_DEFINED
       BP_NOT_DEFINED BP_NOT_DEFINED BP_GPIO_25_AL BP_NOT_DEFINED BP_GPIO_3_AH BP_GPIO_15_AH
       BP_GPIO_26_AL BP_NOT_DEFINED BP_GPIO_4_AH BP_GPIO_15_AH BP_GPIO_27_AL BP_GPIO_22_AH
       BP_NOT_DEFINED,
        no_dsp]
       Legerity_88221 Legerity_88010 0 0 0 0"

definition g_bcm96369pvg :: board_parameters where
  "g_bcm96369pvg =
     board_parameters.make (board_id ''96369PVG'') (BP_PCI OR BP_SPI_EXT_CS OR BP_LED)
       BP_NOT_DEFINED BP_NOT_DEFINED BP_NOT_DEFINED BP_NOT_DEFINED BP_NOT_DEFINED BP_NOT_DEFINED
       BP_GPIO_2_AL BP_NOT_DEFINED BP_NOT_DEFINED BP_NOT_DEFINED BP_NOT_DEFINED BP_NOT_DEFINED
       BP_NOT_DEFINED BP_NOT_DEFINED BP_GPIO_33_AH BP_GPIO_0_AH BP_GPIO_1_AH BP_NOT_DEFINED
       BP_HW_DEFINED BP_NOT_DEFINED BP_NOT_DEFINED BP_NOT_DEFINED
       BP_NOT_DEFINED BP_NOT_DEFINED BP_WLAN_ANT_MAIN BP_NOT_DEFINED BP_NOT_DEFINED
       [ethernet_mac_info.make BP_ENET_EXTERNAL_SWITCH 0x0 BP_NOT_DEFINED BP_NOT_DEFINED
       BP_ENET_CONFIG_MMAP BP_NOT_DEFINED (ethernet_sw_info.make 0x17 [0x01, 0x02, 0x03, 0x00, 0x10,
       0x00, 0x00, 0x00]),
        no_phy]
       [voip_dsp_info.make BP_VOIP_MIPS (-1) BP_NOT_DEFINED BP_NOT_DEFINED BP_NOT_DEFINED
       BP_NOT_DEFINED BP_NOT_DEFINED BP_GPIO_25_AL BP_NOT_DEFINED BP_GPIO_3_AH BP_GPIO_15_AH
       BP_GPIO_26_AL BP_NOT_DEFINED BP_GPIO_4_AH BP_GPIO_15_AH BP_GPIO_27_AL BP_GPIO_22_AH
       BP_NOT_DEFINED,
        no_dsp]
       Legerity_88221 Legerity_88010 0 0 0 0"

section \<open>The table of a processor\<close>

datatype board_chip = BCM96338 | BCM96348 | BCM96358 | BCM96368

primrec g_BoardParms :: "board_chip \<Rightarrow> board_parameters list" where
  "g_BoardParms BCM96338 =
     [g_bcm96338sv, g_bcm96338l2m8m, g_bcm96338l652m8m, g_bcm96338gw, g_bcm96338gws2, g_bcm96338gw20p2,
     g_bcm96338gw2, g_bcm96338e, g_bcm96338e4, g_bcm96338e420p2, g_bcm96332cg, g_bcm96338gws,
     g_bcm96338e_e7r, g_bcm96338gw2_e7t, g_bcm96332cg_f4w]"
| "g_BoardParms BCM96348 =
     [g_bcm96348sv, g_bcm96348r, g_bcm96348gw, g_bcm96348gw_10, g_bcm96348gw_11, g_bcm96348w2,
     g_bcm96348w3_10, g_bcmCustom_01, g_bcm96348m]"
| "g_BoardParms BCM96358 =
     [g_bcm96358vw2, g_bcm96358vw, g_bcm96358gwvg, g_bcm96358mv2g, g_bcm96358m, g_bcm96358b,
     g_bcm96358bgweOem1, g_bcm96359pong, g_bcm96358ivwg, g_bcm96358sv]"
| "g_BoardParms BCM96368 =
     [g_bcm96368vvw, g_bcm96368sv2, g_bcm96369pvg]"

end
