(* ===== verification/Board_Parms.thy ===== *)
theory Board_Parms
  imports Board_Tables
begin

text \<open>
  The functions of \<open>boardparms.c\<close>: choosing the board by the name stored in NVRAM and
  reading its parameters.  \<open>g\<close> is the static pointer \<open>g_pCurrentBp\<close>, which
  points to one of the constant tables or is null; a function that writes through a pointer returns the
  value written beside its result.  Reading a string past the end of its array has no value.
\<close>

section \<open>Definitions\<close>

abbreviation (input) BP_SUCCESS :: int where "BP_SUCCESS \<equiv> 0"
abbreviation (input) BP_BOARD_ID_NOT_FOUND :: int where "BP_BOARD_ID_NOT_FOUND \<equiv> 1"
abbreviation (input) BP_VALUE_NOT_DEFINED :: int where "BP_VALUE_NOT_DEFINED \<equiv> 2"
abbreviation (input) BP_BOARD_ID_NOT_SET :: int where "BP_BOARD_ID_NOT_SET \<equiv> 3"
abbreviation (input) BP_BOARD_ID_LEN :: nat where "BP_BOARD_ID_LEN \<equiv> 16"
abbreviation (input) BP_MAX_ENET_MACS :: int where "BP_MAX_ENET_MACS \<equiv> 2"

subsection \<open>Choosing the board\<close>

fun bpstrcmp :: "bytes \<Rightarrow> bytes \<Rightarrow> int option" where
  "bpstrcmp (d # dest) (s # src) =
     (if s \<noteq> 0 \<and> d \<noteq> 0 then
        (if sint d < sint s then Some (-1)
         else if sint d > sint s then Some 1
         else bpstrcmp dest src)
      else if d \<noteq> 0 \<and> s = 0 then Some 1
      else if d = 0 \<and> s \<noteq> 0 then Some (-1)
      else Some 0)"
| "bpstrcmp _ _ = None"

fun set_board_loop ::
  "board_parameters list \<Rightarrow> bytes \<Rightarrow> board_parameters option \<Rightarrow> (int \<times> board_parameters option) option" where
  "set_board_loop [] pszBoardId g = Some (BP_BOARD_ID_NOT_FOUND, g)"
| "set_board_loop (b # bs) pszBoardId g =
     do {
       r \<leftarrow> bpstrcmp (bp_szBoardId b) pszBoardId;
       if r = 0 then Some (BP_SUCCESS, Some b) else set_board_loop bs pszBoardId g
     }"

definition BpSetBoardId ::
  "board_chip \<Rightarrow> bytes \<Rightarrow> board_parameters option \<Rightarrow> (int \<times> board_parameters option) option" where
  "BpSetBoardId chip pszBoardId g = set_board_loop (g_BoardParms chip) pszBoardId g"

definition BpGetBoardId :: "board_parameters option \<Rightarrow> bytes \<Rightarrow> (int \<times> bytes) option" where
  "BpGetBoardId g pszBoardId =
     (case g of
        None \<Rightarrow> Some (-1, pszBoardId)
      | Some b \<Rightarrow>
          do {
            pszBoardId \<leftarrow> mem_write 0 (take BP_BOARD_ID_LEN (bp_szBoardId b)) pszBoardId;
            Some (0, pszBoardId)
          })"

text \<open>Copying a string with its NUL to \<open>pos\<close> in the buffer.\<close>

definition copy_id :: "nat \<Rightarrow> bytes \<Rightarrow> bytes \<Rightarrow> bytes option" where
  "copy_id pos src buf =
     do {
       c_assert (0 \<in> set src);
       mem_write (int pos) (cstring src @ [0]) buf
     }"

fun board_ids_loop :: "board_parameters list \<Rightarrow> int \<Rightarrow> nat \<Rightarrow> bytes \<Rightarrow> (int \<times> bytes) option" where
  "board_ids_loop [] nBoardIdsSize i pszBoardIds = Some (int i, pszBoardIds)"
| "board_ids_loop (b # bs) nBoardIdsSize i pszBoardIds =
     (if nBoardIdsSize = 0 then Some (int i, pszBoardIds)
      else
        do {
          pszBoardIds \<leftarrow> copy_id (i * BP_BOARD_ID_LEN) (bp_szBoardId b) pszBoardIds;
          board_ids_loop bs (nBoardIdsSize - 1) (Suc i) pszBoardIds
        })"

definition BpGetBoardIds :: "board_chip \<Rightarrow> bytes \<Rightarrow> int \<Rightarrow> (int \<times> bytes) option" where
  "BpGetBoardIds chip pszBoardIds nBoardIdsSize = board_ids_loop (g_BoardParms chip) nBoardIdsSize 0 pszBoardIds"

subsection \<open>Fields\<close>

text \<open>The body that the functions for one field share.\<close>

definition bp_value :: "(board_parameters \<Rightarrow> u16) \<Rightarrow> board_parameters option \<Rightarrow> int \<times> u16" where
  "bp_value field g =
     (case g of
        Some b \<Rightarrow> (if field b \<noteq> BP_NOT_DEFINED then BP_SUCCESS else BP_VALUE_NOT_DEFINED, field b)
      | None \<Rightarrow> (BP_BOARD_ID_NOT_SET, BP_NOT_DEFINED))"

text \<open>The same, for a result of type \<open>unsigned long\<close>.\<close>

definition bp_value_long :: "(board_parameters \<Rightarrow> u16) \<Rightarrow> board_parameters option \<Rightarrow> int \<times> u32" where
  "bp_value_long field g = map_prod id ucast (bp_value field g)"

definition BpGetGPIOverlays :: "board_parameters option \<Rightarrow> int \<times> u16" where
  "BpGetGPIOverlays = bp_value usGPIOOverlay"

definition BpGetAdslLedGpio :: "board_parameters option \<Rightarrow> int \<times> u16" where
  "BpGetAdslLedGpio = bp_value usGpioLedAdsl"

definition BpGetAdslFailLedGpio :: "board_parameters option \<Rightarrow> int \<times> u16" where
  "BpGetAdslFailLedGpio = bp_value usGpioLedAdslFail"

definition BpGetSecAdslLedGpio :: "board_parameters option \<Rightarrow> int \<times> u16" where
  "BpGetSecAdslLedGpio = bp_value usGpioSecLedAdsl"

definition BpGetSecAdslFailLedGpio :: "board_parameters option \<Rightarrow> int \<times> u16" where
  "BpGetSecAdslFailLedGpio = bp_value usGpioSecLedAdslFail"

definition BpGetWirelessAntInUse :: "board_parameters option \<Rightarrow> int \<times> u16" where
  "BpGetWirelessAntInUse = bp_value usAntInUseWireless"

definition BpGetWirelessFlags :: "board_parameters option \<Rightarrow> int \<times> u16" where
  "BpGetWirelessFlags = bp_value usWirelessFlags"

definition BpGetWirelessSesExtIntr :: "board_parameters option \<Rightarrow> int \<times> u16" where
  "BpGetWirelessSesExtIntr = bp_value usExtIntrSesBtnWireless"

definition BpGetWirelessSesLedGpio :: "board_parameters option \<Rightarrow> int \<times> u16" where
  "BpGetWirelessSesLedGpio = bp_value usGpioLedSesWireless"

definition BpGetHpnaLedGpio :: "board_parameters option \<Rightarrow> int \<times> u16" where
  "BpGetHpnaLedGpio = bp_value usGpioLedHpna"

definition BpGetWanDataLedGpio :: "board_parameters option \<Rightarrow> int \<times> u16" where
  "BpGetWanDataLedGpio = bp_value usGpioLedWanData"

definition BpGetPppLedGpio :: "board_parameters option \<Rightarrow> int \<times> u16" where
  "BpGetPppLedGpio = bp_value usGpioLedPpp"

definition BpGetPppFailLedGpio :: "board_parameters option \<Rightarrow> int \<times> u16" where
  "BpGetPppFailLedGpio = bp_value usGpioLedPppFail"

definition BpGetBootloaderPowerOnLedGpio :: "board_parameters option \<Rightarrow> int \<times> u16" where
  "BpGetBootloaderPowerOnLedGpio = bp_value usGpioLedBlPowerOn"

definition BpGetBootloaderStopLedGpio :: "board_parameters option \<Rightarrow> int \<times> u16" where
  "BpGetBootloaderStopLedGpio = bp_value usGpioLedBlStop"

definition BpGetBondingSecondaryResetGpio :: "board_parameters option \<Rightarrow> int \<times> u16" where
  "BpGetBondingSecondaryResetGpio = bp_value usGpioBondingSecondaryReset"

definition BpGetAdslDyingGaspExtIntr :: "board_parameters option \<Rightarrow> int \<times> u32" where
  "BpGetAdslDyingGaspExtIntr = bp_value_long usExtIntrAdslDyingGasp"

definition BpGetHpnaExtIntr :: "board_parameters option \<Rightarrow> int \<times> u32" where
  "BpGetHpnaExtIntr = bp_value_long usExtIntrHpna"

definition BpGetHpnaChipSelect :: "board_parameters option \<Rightarrow> int \<times> u32" where
  "BpGetHpnaChipSelect = bp_value_long usCsHpna"

definition BpGetResetToDefaultExtIntr :: "board_parameters option \<Rightarrow> int \<times> u16" where
  "BpGetResetToDefaultExtIntr = bp_value usExtIntrResetToDefault"

definition BpGetWirelessPowerDownGpio :: "board_parameters option \<Rightarrow> int \<times> u16" where
  "BpGetWirelessPowerDownGpio = bp_value usGpioWirelessPowerDown"

definition BpGetUsbHost1LedGpio :: "board_parameters option \<Rightarrow> int \<times> u16" where
  "BpGetUsbHost1LedGpio = bp_value usGpioLedUsbHost1"

definition BpGetUsbHost2LedGpio :: "board_parameters option \<Rightarrow> int \<times> u16" where
  "BpGetUsbHost2LedGpio = bp_value usGpioLedUsbHost2"

definition BpGetWirelessProtectLedGpio :: "board_parameters option \<Rightarrow> int \<times> u16" where
  "BpGetWirelessProtectLedGpio = bp_value usGpioWirelessProtect"

text \<open>The functions that return two pins.\<close>

definition bp_pair ::
  "(board_parameters \<Rightarrow> u16) \<Rightarrow> (board_parameters \<Rightarrow> u16) \<Rightarrow> board_parameters option \<Rightarrow> int \<times> u16 \<times> u16" where
  "bp_pair f1 f2 g =
     (case g of
        Some b \<Rightarrow>
          (if f1 b \<noteq> BP_NOT_DEFINED \<and> f2 b \<noteq> BP_NOT_DEFINED then BP_SUCCESS else BP_VALUE_NOT_DEFINED, f1 b, f2 b)
      | None \<Rightarrow> (BP_BOARD_ID_NOT_SET, BP_NOT_DEFINED, BP_NOT_DEFINED))"

definition BpGetRj11InnerOuterPairGpios :: "board_parameters option \<Rightarrow> int \<times> u16 \<times> u16" where
  "BpGetRj11InnerOuterPairGpios = bp_pair usGpioRj11InnerPair usGpioRj11OuterPair"

definition BpGetRtsCtsUartGpios :: "board_parameters option \<Rightarrow> int \<times> u16 \<times> u16" where
  "BpGetRtsCtsUartGpios = bp_pair usGpioUartRts usGpioUartCts"

definition BpGetVcopeGpio :: "board_parameters option \<Rightarrow> int \<Rightarrow> int" where
  "BpGetVcopeGpio g pio_idx =
     (case g of
        Some b \<Rightarrow>
          uint (if pio_idx = 1 then usVcopeResetGpio b
            else if pio_idx = 2 then usVcopeRelayGpio b
            else if pio_idx = 3 then usCsHpi b
            else if pio_idx = 4 then usVcopeBoardRev b
            else BP_NOT_DEFINED)
      | None \<Rightarrow> 0xffff)"

primrec SLIC_TYPE_enum :: "SLIC_TYPE \<Rightarrow> u16" where
  "SLIC_TYPE_enum Silicon_Labs_3216 = 0"
| "SLIC_TYPE_enum Silicon_Labs_3215 = 1"
| "SLIC_TYPE_enum Legerity_88221 = 2"
| "SLIC_TYPE_enum Legerity_88311_slic = 3"
| "SLIC_TYPE_enum Slic_Not_Defined = 4"

primrec DAA_TYPE_enum :: "DAA_TYPE \<Rightarrow> u16" where
  "DAA_TYPE_enum Silicon_Labs_3050 = 0"
| "DAA_TYPE_enum Legerity_88010 = 1"
| "DAA_TYPE_enum Legerity_88311_daa = 2"
| "DAA_TYPE_enum DAA_Not_Defined = 3"

definition BpGetSlicType :: "board_parameters option \<Rightarrow> int \<times> u16" where
  "BpGetSlicType g =
     (case g of
        None \<Rightarrow> (BP_BOARD_ID_NOT_SET, SLIC_TYPE_enum Slic_Not_Defined)
      | Some b \<Rightarrow> (if slicType b \<noteq> Slic_Not_Defined then BP_SUCCESS else BP_VALUE_NOT_DEFINED, SLIC_TYPE_enum (slicType b)))"

definition BpGetDAAType :: "board_parameters option \<Rightarrow> int \<times> u16" where
  "BpGetDAAType g =
     (case g of
        None \<Rightarrow> (BP_BOARD_ID_NOT_SET, DAA_TYPE_enum DAA_Not_Defined)
      | Some b \<Rightarrow> (if daaType b \<noteq> DAA_Not_Defined then BP_SUCCESS else BP_VALUE_NOT_DEFINED, DAA_TYPE_enum (daaType b)))"

subsection \<open>Ethernet\<close>

definition BpGetEthernetMacInfo ::
  "board_parameters option \<Rightarrow> ethernet_mac_info list \<Rightarrow> int \<Rightarrow> (int \<times> ethernet_mac_info list) option" where
  "BpGetEthernetMacInfo g pEnetInfos nNumEnetInfos =
     do {
       c_assert (nNumEnetInfos \<le> int (length pEnetInfos));
       Some (case g of
           Some b \<Rightarrow>
             (BP_SUCCESS,
              map (\<lambda>i. if nNumEnetInfos \<le> int i then pEnetInfos ! i
                       else if int i < BP_MAX_ENET_MACS then EnetMacInfos b ! i
                       else (pEnetInfos ! i)\<lparr>ucPhyType := BP_ENET_NO_PHY\<rparr>) [0..<length pEnetInfos])
         | None \<Rightarrow>
             (BP_BOARD_ID_NOT_SET,
              map (\<lambda>i. if nNumEnetInfos \<le> int i then pEnetInfos ! i
                       else (pEnetInfos ! i)\<lparr>ucPhyType := BP_ENET_NO_PHY\<rparr>) [0..<length pEnetInfos]))
     }"

subsection \<open>Voice\<close>

definition BpGetVoipDspConfig :: "board_parameters option \<Rightarrow> u8 \<Rightarrow> voip_dsp_info option" where
  "BpGetVoipDspConfig g dspNum =
     (case g of
        None \<Rightarrow> None
      | Some b \<Rightarrow> find (\<lambda>v. ucDspType v \<noteq> BP_VOIP_NO_DSP \<and> ucDspAddress v = dspNum) (VoIPDspInfo b))"

text \<open>The body of the functions that look the DSP up by its address.\<close>

definition bp_dsp :: "(voip_dsp_info \<Rightarrow> u16) \<Rightarrow> board_parameters option \<Rightarrow> u8 \<Rightarrow> int \<times> u16" where
  "bp_dsp field g dspNum =
     (case g of
        Some b \<Rightarrow>
          (case BpGetVoipDspConfig g dspNum of
             Some v \<Rightarrow> (if field v \<noteq> BP_NOT_DEFINED then BP_SUCCESS else BP_VALUE_NOT_DEFINED, field v)
           | None \<Rightarrow> (BP_BOARD_ID_NOT_FOUND, BP_NOT_DEFINED))
      | None \<Rightarrow> (BP_BOARD_ID_NOT_SET, BP_NOT_DEFINED))"

definition BpGetVoipResetGpio :: "board_parameters option \<Rightarrow> u8 \<Rightarrow> int \<times> u16" where
  "BpGetVoipResetGpio g dspNum =
     (case g of
        Some b \<Rightarrow>
          (case BpGetVoipDspConfig g dspNum of
             Some v \<Rightarrow>
               (if usGpioVoipReset v \<noteq> BP_NOT_DEFINED \<or> usGpioVoipReset v = BP_UNEQUIPPED
                then BP_SUCCESS else BP_VALUE_NOT_DEFINED, usGpioVoipReset v)
           | None \<Rightarrow> (BP_BOARD_ID_NOT_FOUND, BP_NOT_DEFINED))
      | None \<Rightarrow> (BP_BOARD_ID_NOT_SET, BP_NOT_DEFINED))"

definition BpGetVoipIntrGpio :: "board_parameters option \<Rightarrow> u8 \<Rightarrow> int \<times> u16" where
  "BpGetVoipIntrGpio = bp_dsp usGpioVoipIntr"

definition BpGetVoipExtIntr :: "board_parameters option \<Rightarrow> u8 \<Rightarrow> int \<times> u32" where
  "BpGetVoipExtIntr g dspNum = map_prod id ucast (bp_dsp usExtIntrVoip g dspNum)"

definition BpGetVoipChipSelect :: "board_parameters option \<Rightarrow> u8 \<Rightarrow> int \<times> u32" where
  "BpGetVoipChipSelect g dspNum = map_prod id ucast (bp_dsp usCsVoip g dspNum)"

definition BpGetVoipLedGpio :: "board_parameters option \<Rightarrow> int \<times> u16" where
  "BpGetVoipLedGpio g = bp_dsp usGpioLedVoip g 0"

text \<open>The body of the functions for a field of the first DSP.\<close>

definition bp_dsp0 :: "(voip_dsp_info \<Rightarrow> u16) \<Rightarrow> board_parameters option \<Rightarrow> int \<times> u16" where
  "bp_dsp0 field g =
     (case g of
        Some b \<Rightarrow>
          (let pDspInfo = VoIPDspInfo b ! 0 in
           if ucDspType pDspInfo \<noteq> BP_VOIP_NO_DSP
           then (if field pDspInfo \<noteq> BP_NOT_DEFINED then BP_SUCCESS else BP_VALUE_NOT_DEFINED, field pDspInfo)
           else (BP_VALUE_NOT_DEFINED, BP_NOT_DEFINED))
      | None \<Rightarrow> (BP_BOARD_ID_NOT_SET, BP_NOT_DEFINED))"

definition BpGetVoip1LedGpio :: "board_parameters option \<Rightarrow> int \<times> u16" where
  "BpGetVoip1LedGpio = bp_dsp0 usGpioVoip1Led"

definition BpGetVoip1FailLedGpio :: "board_parameters option \<Rightarrow> int \<times> u16" where
  "BpGetVoip1FailLedGpio = bp_dsp0 usGpioVoip1LedFail"

definition BpGetVoip2LedGpio :: "board_parameters option \<Rightarrow> int \<times> u16" where
  "BpGetVoip2LedGpio = bp_dsp0 usGpioVoip2Led"

definition BpGetVoip2FailLedGpio :: "board_parameters option \<Rightarrow> int \<times> u16" where
  "BpGetVoip2FailLedGpio = bp_dsp0 usGpioVoip2LedFail"

definition BpGetPotsLedGpio :: "board_parameters option \<Rightarrow> int \<times> u16" where
  "BpGetPotsLedGpio = bp_dsp0 usGpioPotsLed"

definition BpGetDectLedGpio :: "board_parameters option \<Rightarrow> int \<times> u16" where
  "BpGetDectLedGpio = bp_dsp0 usGpioDectLed"

definition BpGetPotsResetGpio :: "board_parameters option \<Rightarrow> int \<times> u16" where
  "BpGetPotsResetGpio = bp_value (\<lambda>b. usGpioPotsReset (VoIPDspInfo b ! 0))"

datatype SLIC_GPIO_TYPE = SLIC_GPIO_RESET | SLIC_GPIO_RELAY | SLIC_GPIO_GENERIC

text \<open>\<open>usValue\<close> is what the pointer points to before the call.\<close>

definition BpGetSlicGpio :: "board_parameters option \<Rightarrow> u16 \<Rightarrow> SLIC_GPIO_TYPE \<Rightarrow> u16 \<Rightarrow> int \<times> u16" where
  "BpGetSlicGpio g num gpioType usValue =
     (case g of
        Some b \<Rightarrow>
          (let v = VoIPDspInfo b ! 0;
               usValue =
                 (if num = 0 then
                    (case gpioType of
                       SLIC_GPIO_RESET \<Rightarrow> usGpioSlic0Reset v
                     | SLIC_GPIO_RELAY \<Rightarrow> usGpioSlic0Relay v
                     | SLIC_GPIO_GENERIC \<Rightarrow> usValue)
                  else if num = 1 then
                    (case gpioType of
                       SLIC_GPIO_RESET \<Rightarrow> usGpioSlic1Reset v
                     | SLIC_GPIO_RELAY \<Rightarrow> usGpioSlic1Relay v
                     | SLIC_GPIO_GENERIC \<Rightarrow> usValue)
                  else BP_NOT_DEFINED)
           in (if usValue \<noteq> BP_NOT_DEFINED then BP_SUCCESS else BP_VALUE_NOT_DEFINED, usValue))
      | None \<Rightarrow> (BP_BOARD_ID_NOT_SET, BP_NOT_DEFINED))"

subsection \<open>Wireless calibration\<close>

text \<open>An entry is the offset and the value of a word; the list ends before the empty name.\<close>

record wlan_srom_patch_info =
  wl_szboardId :: bytes
  usWirelessChipId :: u16
  usNeededSize :: int
  entries :: "(nat \<times> u16) list"

definition wlanPaInfo :: "wlan_srom_patch_info list" where
  "wlanPaInfo =
     [\<lparr>wl_szboardId = board_id ''96348W3-10'', usWirelessChipId = 0x4318, usNeededSize = 49,
       entries = [(47, 0x14ae), (48, 0xfad4), (49, 0xfe82)]\<rparr>,
      \<lparr>wl_szboardId = board_id ''96348W3'', usWirelessChipId = 0x4318, usNeededSize = 49,
       entries = [(47, 0x14ae), (48, 0xfad4), (49, 0xfe82)]\<rparr>]"

fun patch_words :: "(nat \<times> u16) list \<Rightarrow> u16 list \<Rightarrow> u16 list option" where
  "patch_words [] pBase = Some pBase"
| "patch_words ((off, val) # es) pBase =
     do {
       pBase \<leftarrow> mem_write (int off) [val] pBase;
       patch_words es pBase
     }"

fun srom_loop ::
  "wlan_srom_patch_info list \<Rightarrow> board_parameters option \<Rightarrow> u16 \<Rightarrow> u16 list \<Rightarrow> int \<Rightarrow> (int \<times> u16 list) option" where
  "srom_loop [] g chipID pBase sizeInWords = Some (BP_BOARD_ID_NOT_FOUND, pBase)"
| "srom_loop (w # ws) g chipID pBase sizeInWords =
     do {
       b \<leftarrow> g;
       r \<leftarrow> bpstrcmp (bp_szBoardId b) (wl_szboardId w);
       if r = 0 \<and> usWirelessChipId w = chipID \<and> usNeededSize w \<le> sizeInWords then
         do {
           pBase \<leftarrow> patch_words (entries w) pBase;
           Some (BP_SUCCESS, pBase)
         }
       else srom_loop ws g chipID pBase sizeInWords
     }"

text \<open>\<open>pBase\<close> is \<open>None\<close> for a null pointer and otherwise the words it points to.\<close>

definition BpUpdateWirelessSromMap ::
  "board_parameters option \<Rightarrow> u16 \<Rightarrow> u16 list option \<Rightarrow> int \<Rightarrow> (int \<times> u16 list option) option" where
  "BpUpdateWirelessSromMap g chipID pBase sizeInWords =
     (case pBase of
        None \<Rightarrow> Some (BP_BOARD_ID_NOT_FOUND, None)
      | Some ws \<Rightarrow>
          if chipID = 0 \<or> sizeInWords \<le> 0 then Some (BP_BOARD_ID_NOT_FOUND, pBase)
          else map_option (map_prod id Some) (srom_loop wlanPaInfo g chipID ws sizeInWords))"

end
