(* ===== verification/Flash_Layout.thy ===== *)
theory Flash_Layout
  imports Image_Upgrade Board_Parms Scratch_Pad_Flash
begin

text \<open>
  Where the sections lie: \<open>kerSysEarlyFlashInit\<close>, which finds the flash, reads the NVRAM and
  chooses the board, and \<open>kerSysFlashInit\<close>, which places the configuration (PSI) at the end of
  the flash, the scratch pad before it and the second configuration before that.
\<close>

section \<open>Definitions\<close>

definition kerSysEarlyFlashInit ::
  "('d \<Rightarrow> (int \<times> 'd flash_device_info \<times> 'd) option) \<Rightarrow> ('d \<Rightarrow> (int \<times> 'd flash_device_info \<times> 'd) option) \<Rightarrow>
   board_chip \<Rightarrow> 'd flash_device_info option \<Rightarrow> flash_addr_info \<Rightarrow> bytes \<Rightarrow> board_parameters option \<Rightarrow> 'd \<Rightarrow>
   ('d flash_device_info option \<times> flash_addr_info \<times> nvram_data \<times> board_parameters option \<times> 'd) option" where
  "kerSysEarlyFlashInit cfi_init spi_init board g fi mem bp d =
     do {
       (_, g, d) \<leftarrow> flash_init cfi_init spi_init True True g d;
       let fi = fi\<lparr>flash_nvram_length := NVRAM_LENGTH, flash_nvram_start_blk := 0, flash_nvram_number_blk := 1,
                  flash_nvram_blk_offset := NVRAM_DATA_OFFSET\<rparr>;
       sect_size \<leftarrow> flash_get_sector_size g 0 d;
       let fi = fi\<lparr>flash_rootfs_start_offset :=
         (if u32 sect_size < FLASH_LENGTH_BOOT_ROM then FLASH_LENGTH_BOOT_ROM else u32 sect_size)\<rparr>;
       (_, buf, d) \<leftarrow> flash_read_buf g (flash_nvram_start_blk fi) (flash_nvram_blk_offset fi) mem 300 d;
       (_, bp) \<leftarrow> BpSetBoardId board (drop 260 buf) bp;
       Some (g, fi, nvram_of buf, bp, d)
     }"

definition psi_length :: "nvram_data \<Rightarrow> int" where
  "psi_length nv =
     (if ulPsiSize nv \<noteq> -1 \<and> ulPsiSize nv \<noteq> 0 then s32 (uint (ulPsiSize nv) * ONEK) else DEFAULT_PSI_SIZE * ONEK)"

text \<open>The configuration: the layout with it, its first address and the bytes its blocks use.\<close>

definition psi_layout ::
  "nvram_data \<Rightarrow> 'd flash_device_info option \<Rightarrow> flash_addr_info \<Rightarrow> 'd \<Rightarrow> (flash_addr_info \<times> int \<times> int) option" where
  "psi_layout nv g fi d =
     do {
       let startAddr = s32 (flash_get_total_size g d - psi_length nv);
       blk \<leftarrow> flash_get_blk g (startAddr + FLASH_BASE) d;
       let number = s32 (flash_get_numsectors g d - blk);
       usedBlkSize \<leftarrow> blks_size g blk (s32 (blk + number)) 0 d;
       Some (fi\<lparr>flash_persistent_length := psi_length nv, flash_persistent_start_blk := blk,
                flash_persistent_number_blk := number,
                flash_persistent_blk_offset := u32 (usedBlkSize - psi_length nv)\<rparr>, startAddr, usedBlkSize)
     }"

text \<open>The scratch pad, unless it starts in the block where the kernel ends; \<open>tailSize\<close> grows by its blocks.\<close>

definition sp_layout ::
  "int \<Rightarrow> int \<Rightarrow> 'd flash_device_info option \<Rightarrow> flash_addr_info \<Rightarrow> int \<Rightarrow> 'd \<Rightarrow> (flash_addr_info \<times> int) option" where
  "sp_layout spAddr kernelEndAddr g fi tailSize d =
     do {
       blk \<leftarrow> flash_get_blk g (spAddr + FLASH_BASE) d;
       kblk \<leftarrow> flash_get_blk g kernelEndAddr d;
       let fi = fi\<lparr>flash_scratch_pad_start_blk := blk\<rparr>;
       if blk \<noteq> kblk then
         (if flash_persistent_start_blk fi = blk then
            Some (fi\<lparr>flash_scratch_pad_length := SP_MAX_LEN, flash_scratch_pad_number_blk := 1,
                     flash_scratch_pad_blk_offset := u32 (flash_persistent_blk_offset fi - SP_MAX_LEN)\<rparr>, tailSize)
          else
            do {
              let number = s32 (flash_persistent_start_blk fi - blk);
              usedBlkSize \<leftarrow> blks_size g blk (s32 (blk + number)) 0 d;
              Some (fi\<lparr>flash_scratch_pad_length := SP_MAX_LEN, flash_scratch_pad_number_blk := number,
                       flash_scratch_pad_blk_offset := u32 (usedBlkSize - SP_MAX_LEN)\<rparr>, s32 (tailSize + usedBlkSize))
            })
       else Some (fi\<lparr>flash_scratch_pad_length := 0\<rparr>, tailSize)
     }"

definition dare_layout ::
  "int \<Rightarrow> 'd flash_device_info option \<Rightarrow> flash_addr_info \<Rightarrow> int \<Rightarrow> 'd \<Rightarrow> flash_addr_info option" where
  "dare_layout kernelEndAddr g fi tailSize d =
     do {
       let len = flash_persistent_length fi;
       let darePersistentAddr = u32 (flash_get_total_size g d - tailSize - len);
       blk \<leftarrow> flash_get_blk g (darePersistentAddr + FLASH_BASE) d;
       kblk \<leftarrow> flash_get_blk g kernelEndAddr d;
       let fi = fi\<lparr>flash_dare_persistent_length := len, flash_dare_persistent_start_blk := blk\<rparr>;
       if blk \<noteq> kblk then
         do {
           let number = s32 (flash_scratch_pad_start_blk fi - blk);
           usedBlkSize \<leftarrow> blks_size g blk (s32 (blk + number)) 0 d;
           Some (fi\<lparr>flash_dare_persistent_number_blk := number, flash_dare_persistent_blk_offset := u32 (usedBlkSize - len)\<rparr>)
         }
       else Some (fi\<lparr>flash_dare_persistent_length := 0\<rparr>)
     }"

text \<open>\<open>mem\<close> is the NVRAM struct on the stack of \<open>getBootImageTag\<close> before it is read.\<close>

definition kerSysFlashInit ::
  "nvram_data \<Rightarrow> (int \<Rightarrow> bool) \<Rightarrow> 'd flash_device_info option \<Rightarrow> bytes \<Rightarrow> flash_addr_info \<Rightarrow> 'd \<Rightarrow> (flash_addr_info \<times> 'd) option" where
  "kerSysFlashInit nv km g mem fi d =
     do {
       (fi, startAddr, tailSize) \<leftarrow> psi_layout nv g fi d;
       let spAddr = u32 (startAddr - SP_MAX_LEN);
       (pTag, d) \<leftarrow> kerSysImageTagGet fi km g mem d;
       case pTag of
         None \<Rightarrow> Some (fi, d)
       | Some t \<Rightarrow>
           do {
             addr \<leftarrow> tag_field t tag_kernelAddress;
             len \<leftarrow> tag_field t tag_kernelLen;
             let kernelEndAddr = u32 (addr + len + BOOT_OFFSET);
             (fi, tailSize) \<leftarrow> sp_layout spAddr kernelEndAddr g fi tailSize d;
             fi \<leftarrow> dare_layout kernelEndAddr g fi tailSize d;
             Some (fi, d)
           }
     }"

section \<open>The boot tag does not depend on the sections\<close>

lemma getTag_cong:
  "flash_rootfs_start_offset fi' = flash_rootfs_start_offset fi \<Longrightarrow> getTagFromPartition fi' = getTagFromPartition fi"
  by (intro ext) (simp only: getTagFromPartition_def)

lemma readNvram_cong:
  "flash_nvram_start_blk fi' = flash_nvram_start_blk fi \<Longrightarrow> flash_nvram_number_blk fi' = flash_nvram_number_blk fi \<Longrightarrow>
   flash_nvram_blk_offset fi' = flash_nvram_blk_offset fi \<Longrightarrow> readNvramData fi' = readNvramData fi"
  by (intro ext) (simp only: readNvramData_def kerSysNvRamGet_def)

lemma getBootImageTag_cong:
  assumes "flash_rootfs_start_offset fi' = flash_rootfs_start_offset fi" "flash_nvram_start_blk fi' = flash_nvram_start_blk fi"
    "flash_nvram_number_blk fi' = flash_nvram_number_blk fi" "flash_nvram_blk_offset fi' = flash_nvram_blk_offset fi"
  shows "getBootImageTag fi' = getBootImageTag fi"
  by (intro ext) (simp only: getBootImageTag_def getTag_cong [OF assms(1)] readNvram_cong [OF assms(2-4)])

section \<open>The sections on a device\<close>

context flash_device
begin

lemma base_mono: "i \<le> j \<Longrightarrow> blk_base geom i \<le> blk_base geom j"
  by (rule blk_base_mono)

lemma blks_int: "ok d \<Longrightarrow> a \<le> b \<Longrightarrow> b \<le> length geom \<Longrightarrow>
  blks_size (Some dev) (int a) (int b) 0 d = Some (int (blk_base geom b) - int (blk_base geom a))"
  using blks_size_eq [of d a b 0] total_range [of b] base_mono [of a b] by (simp add: of_nat_diff)

lemma api_blk:
  "ok d \<Longrightarrow> a < sum_list geom \<Longrightarrow> flash_get_blk (Some dev) (int a + FLASH_BASE) d = Some (int (blk_of geom a))"
  using api_get_blk [of d a] by (simp add: add.commute)

lemma s32_blk: "i \<le> length geom \<Longrightarrow> s32 (int i) = int i"
  using geom_sectors(2) by (simp add: s32_id)

lemma s32_pos: "a \<le> sum_list geom \<Longrightarrow> s32 (int a) = int a" "a \<le> sum_list geom \<Longrightarrow> u32 (int a) = int a"
  using geom_size(2) by (simp_all add: s32_id u32_id)

lemma psi_layout_eq:
  assumes d: "ok d" and n: "psi_length nv = int n" "0 < n" "n \<le> sum_list geom"
    and p: "p = blk_of geom (sum_list geom - n)"
  shows "psi_layout nv (Some dev) fi d =
      Some (fi\<lparr>flash_persistent_length := int n, flash_persistent_start_blk := int p,
               flash_persistent_number_blk := int (length geom - p),
               flash_persistent_blk_offset := int (sum_list geom - n - blk_base geom p)\<rparr>,
            int (sum_list geom - n), int (sum_list geom - blk_base geom p))"
    and "p < length geom" "blk_base geom p \<le> sum_list geom - n" "sum_list geom - n < blk_base geom (Suc p)"
proof -
  have a: "sum_list geom - n < sum_list geom" using n sum_pos by simp
  show pl: "p < length geom" and pb: "blk_base geom p \<le> sum_list geom - n" "sum_list geom - n < blk_base geom (Suc p)"
    using blk_of_less [OF a] blk_of_bounds [OF a] p by simp_all
  have start: "s32 (flash_get_total_size (Some dev) d - int n) = int (sum_list geom - n)"
    using s32_pos(1) [of "sum_list geom - n"] n by (simp add: api_total_size [OF d] of_nat_diff)
  have num: "s32 (flash_get_numsectors (Some dev) d - int p) = int (length geom - p)"
    using s32_blk [of "length geom - p"] pl by (simp add: flash_get_numsectors_def numsectors [OF d] of_nat_diff)
  have sum: "s32 (int p + int (length geom - p)) = int (length geom)" using s32_blk [of "length geom"] pl by simp
  have used: "blks_size (Some dev) (int p) (int (length geom)) 0 d = Some (int (sum_list geom - blk_base geom p))"
    using blks_int [OF d, of p "length geom"] pl pb n by (simp add: of_nat_diff)
  have off: "u32 (int (sum_list geom - blk_base geom p) - int n) = int (sum_list geom - n - blk_base geom p)"
    using s32_pos(2) [of "sum_list geom - n - blk_base geom p"] pb n by (simp add: of_nat_diff algebra_simps)
  show "psi_layout nv (Some dev) fi d =
      Some (fi\<lparr>flash_persistent_length := int n, flash_persistent_start_blk := int p,
               flash_persistent_number_blk := int (length geom - p),
               flash_persistent_blk_offset := int (sum_list geom - n - blk_base geom p)\<rparr>,
            int (sum_list geom - n), int (sum_list geom - blk_base geom p))"
    using api_blk [OF d a] by (simp add: psi_layout_def Let_def start p [symmetric] num sum used off n(1))
qed

lemma sp_layout_eq:
  assumes d: "ok d" and fi: "flash_persistent_start_blk fi = int p" "flash_persistent_blk_offset fi = int (b - blk_base geom p)"
    and p: "p < length geom" "blk_base geom p \<le> b" "b < blk_base geom (Suc p)" "8192 \<le> b"
    and e: "e < sum_list geom" and q: "q = blk_of geom (b - 8192)" and sz: "8192 \<le> geom ! q"
  shows "sp_layout (int (b - 8192)) (int e + FLASH_BASE) (Some dev) fi (int (sum_list geom - blk_base geom p)) d =
      (if q \<noteq> blk_of geom e then
         Some (fi\<lparr>flash_scratch_pad_start_blk := int q, flash_scratch_pad_length := 8192,
                  flash_scratch_pad_number_blk := (if q = p then 1 else int (p - q)),
                  flash_scratch_pad_blk_offset :=
                    (if q = p then int (b - 8192 - blk_base geom p) else int (blk_base geom p - blk_base geom q - 8192))\<rparr>,
               int (sum_list geom - blk_base geom q))
       else Some (fi\<lparr>flash_scratch_pad_start_blk := int q, flash_scratch_pad_length := 0\<rparr>,
                  int (sum_list geom - blk_base geom p)))"
    and "q \<le> p" "blk_base geom q \<le> b - 8192" "q \<noteq> p \<Longrightarrow> blk_base geom q + 8192 \<le> blk_base geom p"
proof -
  have b: "b < sum_list geom" using p(1,3) blk_base_le_total [of geom "Suc p"] by simp
  then have a: "b - 8192 < sum_list geom" by simp
  have pb: "p = blk_of geom b" using blk_of_unique [OF p(1-3)] by simp
  show qp: "q \<le> p" unfolding q pb using b by (intro blk_of_mono) simp_all
  show qb: "blk_base geom q \<le> b - 8192" using blk_of_bounds [OF a] q by simp
  show gap: "blk_base geom q + 8192 \<le> blk_base geom p" if "q \<noteq> p"
    using that qp p(1) sz blk_base_Suc [of q geom] base_mono [of "Suc q" p] by simp
  have ends: "blk_base geom p \<le> sum_list geom" using p b by simp
  have blk: "flash_get_blk (Some dev) (int (b - 8192) + FLASH_BASE) d = Some (int q)" using api_blk [OF d a] q by simp
  have off: "u32 (int (b - blk_base geom p) - 8192) = int (b - 8192 - blk_base geom p)" if "q = p"
    using that s32_pos(2) [of "b - 8192 - blk_base geom p"] qb b p by (simp add: of_nat_diff algebra_simps)
  have num: "s32 (int p - int q) = int (p - q)" "s32 (int q + int (p - q)) = int p"
    using s32_blk [of "p - q"] s32_blk [of p] qp p(1) by (simp_all add: of_nat_diff)
  have used: "blks_size (Some dev) (int q) (int p) 0 d = Some (int (blk_base geom p - blk_base geom q))"
    using blks_int [OF d qp] p(1) base_mono [OF qp] by (simp add: of_nat_diff)
  have off2: "u32 (int (blk_base geom p - blk_base geom q) - 8192) = int (blk_base geom p - blk_base geom q - 8192)" if "q \<noteq> p"
    using gap [OF that] s32_pos(2) [of "blk_base geom p - blk_base geom q - 8192"] ends by (simp add: of_nat_diff algebra_simps)
  have tail: "s32 (int (sum_list geom - blk_base geom p) + int (blk_base geom p - blk_base geom q)) = int (sum_list geom - blk_base geom q)"
    using s32_pos(1) [of "sum_list geom - blk_base geom q"] base_mono [OF qp] ends by (simp add: of_nat_diff)
  show "sp_layout (int (b - 8192)) (int e + FLASH_BASE) (Some dev) fi (int (sum_list geom - blk_base geom p)) d =
      (if q \<noteq> blk_of geom e then
         Some (fi\<lparr>flash_scratch_pad_start_blk := int q, flash_scratch_pad_length := 8192,
                  flash_scratch_pad_number_blk := (if q = p then 1 else int (p - q)),
                  flash_scratch_pad_blk_offset :=
                    (if q = p then int (b - 8192 - blk_base geom p) else int (blk_base geom p - blk_base geom q - 8192))\<rparr>,
               int (sum_list geom - blk_base geom q))
       else Some (fi\<lparr>flash_scratch_pad_start_blk := int q, flash_scratch_pad_length := 0\<rparr>,
                  int (sum_list geom - blk_base geom p)))"
  proof (cases "q = p")
    case True
    then show ?thesis using blk api_blk [OF d e] off [OF True] by (simp add: sp_layout_def Let_def fi)
  next
    case False
    then show ?thesis using blk api_blk [OF d e] off2 [OF False] by (simp add: sp_layout_def Let_def fi num used tail)
  qed
qed

lemma dare_layout_eq:
  assumes d: "ok d" and fi: "flash_persistent_length fi = int n" "flash_scratch_pad_start_blk fi = int q"
    and q: "q < length geom" and n: "0 < n" "n \<le> blk_base geom q"
    and e: "e < sum_list geom" and r: "r = blk_of geom (blk_base geom q - n)"
  shows "dare_layout (int e + FLASH_BASE) (Some dev) fi (int (sum_list geom - blk_base geom q)) d =
      (if r \<noteq> blk_of geom e then
         Some (fi\<lparr>flash_dare_persistent_length := int n, flash_dare_persistent_start_blk := int r,
                  flash_dare_persistent_number_blk := int (q - r),
                  flash_dare_persistent_blk_offset := int (blk_base geom q - blk_base geom r - n)\<rparr>)
       else Some (fi\<lparr>flash_dare_persistent_length := 0, flash_dare_persistent_start_blk := int r\<rparr>))"
    and "r < q" "blk_base geom r \<le> blk_base geom q - n"
proof -
  have top: "blk_base geom q \<le> sum_list geom" by (rule blk_base_le_total)
  then have a: "blk_base geom q - n < sum_list geom" using n by simp
  show rb: "blk_base geom r \<le> blk_base geom q - n" using blk_of_bounds [OF a] r by simp
  show rq: "r < q" using rb n base_mono [of q r] by (meson diff_less leD leI le_trans order_less_le_trans)
  have addr: "u32 (flash_get_total_size (Some dev) d - int (sum_list geom - blk_base geom q) - int n) = int (blk_base geom q - n)"
    using s32_pos(2) [of "blk_base geom q - n"] n top by (simp add: api_total_size [OF d] of_nat_diff)
  have num: "s32 (int q - int r) = int (q - r)" "s32 (int r + int (q - r)) = int q"
    using s32_blk [of "q - r"] s32_blk [of q] rq q by (simp_all add: of_nat_diff)
  have used: "blks_size (Some dev) (int r) (int q) 0 d = Some (int (blk_base geom q - blk_base geom r))"
    using blks_int [OF d, of r q] rq q base_mono [of r q] by (simp add: of_nat_diff)
  have off: "u32 (int (blk_base geom q - blk_base geom r) - int n) = int (blk_base geom q - blk_base geom r - n)"
    using rb n s32_pos(2) [of "blk_base geom q - blk_base geom r - n"] top by (simp add: of_nat_diff diff_diff_eq)
  show "dare_layout (int e + FLASH_BASE) (Some dev) fi (int (sum_list geom - blk_base geom q)) d =
      (if r \<noteq> blk_of geom e then
         Some (fi\<lparr>flash_dare_persistent_length := int n, flash_dare_persistent_start_blk := int r,
                  flash_dare_persistent_number_blk := int (q - r),
                  flash_dare_persistent_blk_offset := int (blk_base geom q - blk_base geom r - n)\<rparr>)
       else Some (fi\<lparr>flash_dare_persistent_length := 0, flash_dare_persistent_start_blk := int r\<rparr>))"
    using api_blk [OF d a] api_blk [OF d e] by (simp add: dare_layout_def Let_def fi addr r [symmetric] num used off)
qed

text \<open>The three steps together, for a kernel that ends at byte \<open>e\<close> of the flash.\<close>

lemma flash_init_steps:
  assumes d: "ok d" and parts: "parts_ok fi geom" and km: "\<And>z. km z" and mem: "length mem = 300"
    and pl: "placed geom (flash_nvram_start_blk fi) (flash_nvram_number_blk fi) (flash_nvram_blk_offset fi) 1024"
    and tag: "getBootImageTag fi km (Some dev) mem d = Some (Some t, d1)"
      "tag_field t tag_kernelAddress = Some ka" "tag_field t tag_kernelLen = Some kl" "u32 (ka + kl) = int e + FLASH_BASE"
    and n: "psi_length nv = int n" "0 < n" "n \<le> sum_list geom"
    and psi: "psi_layout nv (Some dev) fi d = Some (fi1, int b, tail1)" "tail1 = int (sum_list geom - blk_base geom p)" "8192 \<le> b"
      "b \<le> sum_list geom"
    and sp: "sp_layout (int (b - 8192)) (int e + FLASH_BASE) (Some dev) fi1 tail1 d1 = Some (fi2, tail2)"
    and dare: "dare_layout (int e + FLASH_BASE) (Some dev) fi2 tail2 d1 = Some fi3"
  shows "kerSysFlashInit nv km (Some dev) mem fi d = Some (fi3, d1)" and "ok d1"
proof -
  show "ok d1" using getBoot_keeps [where km = km, OF d parts km pl mem tag(1)] by simp
  have "flash_rootfs_start_offset fi1 = flash_rootfs_start_offset fi \<and> flash_nvram_start_blk fi1 = flash_nvram_start_blk fi \<and>
      flash_nvram_number_blk fi1 = flash_nvram_number_blk fi \<and> flash_nvram_blk_offset fi1 = flash_nvram_blk_offset fi"
    using psi(1) psi_layout_eq(1) [OF d n refl, of fi] by (auto simp del: of_nat_diff)
  then have "getBootImageTag fi1 km (Some dev) mem d = Some (Some t, d1)" using getBootImageTag_cong tag(1) by metis
  moreover have "u32 (int b - 8192) = int (b - 8192)" using psi(3,4) s32_pos(2) [of "b - 8192"] by (simp add: of_nat_diff)
  ultimately show "kerSysFlashInit nv km (Some dev) mem fi d = Some (fi3, d1)"
    using psi(1) sp dare tag by (simp add: kerSysFlashInit_def kerSysImageTagGet_def Let_def)
qed

lemma sections_apart:
  assumes p: "p < length geom" "blk_base geom p \<le> b" "b < blk_base geom (Suc p)" "b + n = sum_list geom"
    and q: "q \<le> p" "blk_base geom q \<le> b - 8192" "8192 \<le> b" "q \<noteq> p \<Longrightarrow> blk_base geom q + 8192 \<le> blk_base geom p"
    and r: "r < q" "blk_base geom r \<le> blk_base geom q - n" "n \<le> blk_base geom q"
    and so: "so = (if q = p then b - 8192 - blk_base geom p else blk_base geom p - blk_base geom q - 8192)"
      "sn = (if q = p then 1 else p - q)"
  shows "placed geom (int p) (int (length geom - p)) (int (b - blk_base geom p)) (int n)"
    "placed geom (int q) (int sn) (int so) 8192"
    "placed geom (int r) (int (q - r)) (int (blk_base geom q - blk_base geom r - n)) (int n)"
    "section_pos geom (int r) (int (blk_base geom q - blk_base geom r - n)) 0 + n = blk_base geom q"
    "blk_base geom q \<le> section_pos geom (int q) (int so) 0" "section_pos geom (int q) (int so) 0 + 8192 \<le> b"
    "section_pos geom (int p) (int (b - blk_base geom p)) 0 = b"
proof -
  have top: "blk_base geom (length geom) = sum_list geom" by simp
  have e1: "nat (int p + int (length geom - p)) = length geom" "nat (int r + int (q - r)) = q" using p(1) r(1) by simp_all
  have e2: "nat (int q + int sn) = (if q = p then Suc p else p)" using so(2) q(1) by auto
  show "placed geom (int p) (int (length geom - p)) (int (b - blk_base geom p)) (int n)"
    unfolding placed_def e1 using p top by simp
  show "placed geom (int q) (int sn) (int so) 8192" unfolding placed_def e2 using p q so by auto
  show "placed geom (int r) (int (q - r)) (int (blk_base geom q - blk_base geom r - n)) (int n)"
    unfolding placed_def e1 using p(1) q(1) r by simp
  show "section_pos geom (int r) (int (blk_base geom q - blk_base geom r - n)) 0 + n = blk_base geom q"
    using r unfolding section_pos_def by simp
  show "blk_base geom q \<le> section_pos geom (int q) (int so) 0" unfolding section_pos_def by simp
  show "section_pos geom (int q) (int so) 0 + 8192 \<le> b" using p q so unfolding section_pos_def by auto
  show "section_pos geom (int p) (int (b - blk_base geom p)) 0 = b" using p unfolding section_pos_def by simp
qed

text \<open>
  The layout when neither the scratch pad nor the second configuration starts in the block
  where the kernel ends.
\<close>

lemma flash_init_sections:
  assumes d: "ok d" and parts: "parts_ok fi geom" and km: "\<And>z. km z" and mem: "length mem = 300"
    and pl: "placed geom (flash_nvram_start_blk fi) (flash_nvram_number_blk fi) (flash_nvram_blk_offset fi) 1024"
    and tag: "getBootImageTag fi km (Some dev) mem d = Some (Some t, d1)"
      "tag_field t tag_kernelAddress = Some ka" "tag_field t tag_kernelLen = Some kl" "u32 (ka + kl) = int e + FLASH_BASE" "e < sum_list geom"
    and n: "psi_length nv = int n" "0 < n" "n + 8192 \<le> sum_list geom"
    and q: "q = blk_of geom (sum_list geom - n - 8192)" "8192 \<le> geom ! q" "n \<le> blk_base geom q" "q \<noteq> blk_of geom e"
    and r: "r = blk_of geom (blk_base geom q - n)" "r \<noteq> blk_of geom e"
  shows "\<exists>fi'. kerSysFlashInit nv km (Some dev) mem fi d = Some (fi', d1) \<and>
    flash_persistent_length fi' = int n \<and> flash_scratch_pad_length fi' = 8192 \<and> flash_dare_persistent_length fi' = int n \<and>
    placed geom (flash_persistent_start_blk fi') (flash_persistent_number_blk fi') (flash_persistent_blk_offset fi') (int n) \<and>
    sp_placed fi' geom \<and>
    placed geom (flash_dare_persistent_start_blk fi') (flash_dare_persistent_number_blk fi') (flash_dare_persistent_blk_offset fi') (int n) \<and>
    section_pos geom (flash_dare_persistent_start_blk fi') (flash_dare_persistent_blk_offset fi') 0 + n
      \<le> section_pos geom (flash_scratch_pad_start_blk fi') (flash_scratch_pad_blk_offset fi') 0 \<and>
    section_pos geom (flash_scratch_pad_start_blk fi') (flash_scratch_pad_blk_offset fi') 0 + 8192
      \<le> section_pos geom (flash_persistent_start_blk fi') (flash_persistent_blk_offset fi') 0 \<and>
    section_pos geom (flash_persistent_start_blk fi') (flash_persistent_blk_offset fi') 0 + n = sum_list geom"
proof -
  define b where "b = sum_list geom - n"
  define p where "p = blk_of geom b"
  have nb: "n \<le> sum_list geom" "8192 \<le> b" "b \<le> sum_list geom" "b - 8192 = sum_list geom - n - 8192" using n(3) by (simp_all add: b_def)
  note psi = psi_layout_eq [OF d n(1,2) nb(1) refl, folded b_def, folded p_def]
  define fi1 where "fi1 = fi\<lparr>flash_persistent_length := int n, flash_persistent_start_blk := int p,
    flash_persistent_number_blk := int (length geom - p), flash_persistent_blk_offset := int (b - blk_base geom p)\<rparr>"
  have ok1: "ok d1" using getBoot_keeps [where km = km, OF d parts km pl mem tag(1)] by simp
  have f1: "flash_persistent_start_blk fi1 = int p" "flash_persistent_blk_offset fi1 = int (b - blk_base geom p)" by (simp_all add: fi1_def)
  have q': "q = blk_of geom (b - 8192)" using q(1) nb(4) by simp
  note sp = sp_layout_eq [OF ok1 f1 psi(2-4) nb(2) tag(5) q' q(2)]
  obtain fi2 where fi2: "fi2 = fi1\<lparr>flash_scratch_pad_start_blk := int q, flash_scratch_pad_length := 8192,
      flash_scratch_pad_number_blk := (if q = p then 1 else int (p - q)),
      flash_scratch_pad_blk_offset := (if q = p then int (b - 8192 - blk_base geom p) else int (blk_base geom p - blk_base geom q - 8192))\<rparr>"
    by simp
  have f2: "flash_persistent_length fi2 = int n" "flash_scratch_pad_start_blk fi2 = int q" by (simp_all add: fi2 fi1_def)
  have ql: "q < length geom" using sp(2) psi(2) by simp
  note dare = dare_layout_eq [OF ok1 f2 ql n(2) q(3) tag(5) r(1)]
  define fi3 where "fi3 = fi2\<lparr>flash_dare_persistent_length := int n, flash_dare_persistent_start_blk := int r,
    flash_dare_persistent_number_blk := int (q - r), flash_dare_persistent_blk_offset := int (blk_base geom q - blk_base geom r - n)\<rparr>"
  have "kerSysFlashInit nv km (Some dev) mem fi d = Some (fi3, d1)"
    using flash_init_steps(1) [where km = km, OF d parts km mem pl tag(1-4) n(1,2) nb(1) psi(1) refl nb(2,3)] sp(1) dare(1) q(4) r(2)
    by (simp add: fi3_def fi2 fi1_def)
  moreover have "b + n = sum_list geom" using nb(1) by (simp add: b_def)
  note apart = sections_apart [OF psi(2-4) this sp(2,3) nb(2) sp(4) dare(2,3) q(3) refl refl]
  ultimately show ?thesis
    using apart \<open>b + n = sum_list geom\<close>
    by (intro exI [of _ fi3]) (auto simp: fi3_def fi2 fi1_def sp_placed_def simp del: of_nat_diff)
qed

text \<open>The layout when the kernel ends in the block of the configuration and of the scratch pad.\<close>

lemma flash_init_kernel:
  assumes d: "ok d" and parts: "parts_ok fi geom" and km: "\<And>z. km z" and mem: "length mem = 300"
    and pl: "placed geom (flash_nvram_start_blk fi) (flash_nvram_number_blk fi) (flash_nvram_blk_offset fi) 1024"
    and tag: "getBootImageTag fi km (Some dev) mem d = Some (Some t, d1)"
      "tag_field t tag_kernelAddress = Some ka" "tag_field t tag_kernelLen = Some kl" "u32 (ka + kl) = int e + FLASH_BASE" "e < sum_list geom"
    and n: "psi_length nv = int n" "0 < n" "n + 8192 \<le> sum_list geom"
    and p: "p = blk_of geom (sum_list geom - n)" "p = blk_of geom (sum_list geom - n - 8192)" "p = blk_of geom e"
      "8192 \<le> geom ! p" "n \<le> blk_base geom p"
  shows "\<exists>fi'. kerSysFlashInit nv km (Some dev) mem fi d = Some (fi', d1) \<and>
    flash_scratch_pad_length fi' = 0 \<and> flash_dare_persistent_length fi' = int n \<and>
    placed geom (flash_dare_persistent_start_blk fi') (flash_dare_persistent_number_blk fi') (flash_dare_persistent_blk_offset fi') (int n) \<and>
    section_pos geom (flash_dare_persistent_start_blk fi') (flash_dare_persistent_blk_offset fi') 0 + n \<le> e"
proof -
  define b where "b = sum_list geom - n"
  have nb: "n \<le> sum_list geom" "8192 \<le> b" "b \<le> sum_list geom" "b - 8192 = sum_list geom - n - 8192" using n(3) by (simp_all add: b_def)
  note psi = psi_layout_eq [OF d n(1,2) nb(1) refl, folded b_def, folded p(1) [folded b_def]]
  define fi1 where "fi1 = fi\<lparr>flash_persistent_length := int n, flash_persistent_start_blk := int p,
    flash_persistent_number_blk := int (length geom - p), flash_persistent_blk_offset := int (b - blk_base geom p)\<rparr>"
  have ok1: "ok d1" using getBoot_keeps [where km = km, OF d parts km pl mem tag(1)] by simp
  have f1: "flash_persistent_start_blk fi1 = int p" "flash_persistent_blk_offset fi1 = int (b - blk_base geom p)" by (simp_all add: fi1_def)
  have q': "p = blk_of geom (b - 8192)" using p(2) nb(4) by simp
  note sp = sp_layout_eq [OF ok1 f1 psi(2-4) nb(2) tag(5) q' p(4)]
  define fi2 where "fi2 = fi1\<lparr>flash_scratch_pad_start_blk := int p, flash_scratch_pad_length := 0\<rparr>"
  have f2: "flash_persistent_length fi2 = int n" "flash_scratch_pad_start_blk fi2 = int p" by (simp_all add: fi2_def fi1_def)
  define r where "r = blk_of geom (blk_base geom p - n)"
  note dare = dare_layout_eq [OF ok1 f2 psi(2) n(2) p(5) tag(5) r_def]
  define fi3 where "fi3 = fi2\<lparr>flash_dare_persistent_length := int n, flash_dare_persistent_start_blk := int r,
    flash_dare_persistent_number_blk := int (p - r), flash_dare_persistent_blk_offset := int (blk_base geom p - blk_base geom r - n)\<rparr>"
  have init: "kerSysFlashInit nv km (Some dev) mem fi d = Some (fi3, d1)"
    using flash_init_steps(1) [where km = km, OF d parts km mem pl tag(1-4) n(1,2) nb(1) psi(1) refl nb(2,3)] sp(1) dare(1,2) p(3)
    by (simp add: fi3_def fi2_def fi1_def)
  have bn: "b + n = sum_list geom" using nb(1) by (simp add: b_def)
  note apart = sections_apart [OF psi(2-4) bn order_refl sp(3) nb(2) _ dare(2,3) p(5) refl refl]
  have e: "blk_base geom p \<le> e" using blk_of_bounds [OF tag(5)] p(3) by simp
  show ?thesis
    using init apart(3,4) e by (intro exI [of _ fi3]) (simp add: fi3_def fi2_def fi1_def del: of_nat_diff)
qed

lemma early_init_eq:
  assumes d: "ok d" and sz: "0x580 + 1024 \<le> geom ! 0" and mem: "length mem = 300"
    and init: "cfi_init di = Some (FLASH_API_OK, dev, d)"
    and b: "b = take 300 (drop 0x580 (contents d ! 0))"
    and set: "BpSetBoardId board (drop 260 b) bp = Some (r, bp')"
  shows "\<exists>fi' d'. kerSysEarlyFlashInit cfi_init spi_init board g fi mem bp di = Some (Some dev, fi', nvram_of b, bp', d') \<and>
    ok d' \<and> contents d' = contents d \<and>
    placed geom (flash_nvram_start_blk fi') (flash_nvram_number_blk fi') (flash_nvram_blk_offset fi') 1024 \<and>
    flash_nvram_start_blk fi' = 0 \<and> flash_nvram_number_blk fi' = 1 \<and>
    flash_rootfs_start_offset fi' = int (max (geom ! 0) 0x10000)"
proof -
  have l: "0 < length geom" by (rule geom_sectors(1))
  have s0: "flash_get_sector_size (Some dev) 0 d = Some (int (geom ! 0))"
    using sector_size [OF d l] by (simp add: flash_get_sector_size_def u16_def)
  have g0: "geom ! 0 \<le> sum_list geom" using blk_base_Suc [OF l] blk_base_le_total [of geom 1] by simp
  obtain q d' where rd: "flash_read_buf (Some dev) 0 0x580 mem 300 d = Some (q, b, d')" "ok d'" "contents d' = contents d"
    using read_buf [OF d l, of "0x580" 300 mem] sz mem b by (auto simp: flash_read_buf_def u16_def)
  have "flash_init cfi_init spi_init True True g di = Some (FLASH_API_OK, Some dev, d)" using init by (simp add: flash_init_def)
  moreover have "placed geom 0 1 0x580 1024" using sz l blk_base_Suc [OF l] by (simp add: placed_def Suc_le_eq)
  ultimately show ?thesis
    using s0 rd set s32_pos(2) [OF g0] by (simp add: kerSysEarlyFlashInit_def Let_def max_def split: if_splits)
qed

end

end
