(* ===== verification/Board_Properties.thy ===== *)
theory Board_Properties
  imports Board_Parms
begin

text \<open>
  What the board parameters guarantee: the tables are well formed, a board is found by its
  name and by no other, the functions for its fields tell apart the values that are not
  defined, and where the wireless calibration writes.
\<close>

section \<open>Strings\<close>

lemma bpstrcmp_total:
  "0 \<in> set a \<Longrightarrow> length (cstring a) < length b \<Longrightarrow>
   \<exists>r. bpstrcmp a b = Some r \<and> (r = 0 \<longleftrightarrow> cstring a = cstring b)"
proof (induction a b rule: bpstrcmp.induct)
  case (1 d dest s src)
  have eq: "d = s" if "\<not> sint d < sint s" "\<not> sint d > sint s" using that by (auto intro: signed_word_eqI)
  show ?case
  proof (cases "s \<noteq> 0 \<and> d \<noteq> 0")
    case True
    then show ?thesis using 1 eq by (auto simp: cstring_def)
  next
    case False
    then show ?thesis by (auto simp: cstring_def)
  qed
qed (auto simp: cstring_def)

lemma cstring_prefix: "take (Suc (length s)) b = s @ [0] \<Longrightarrow> 0 \<notin> set s \<Longrightarrow> cstring b = s"
proof -
  assume t: "take (Suc (length s)) b = s @ [0]" "0 \<notin> set s"
  then have "b = s @ 0 # drop (Suc (length s)) b" by (metis append_Cons append_Nil append_assoc append_take_drop_id)
  then have "takeWhile (\<lambda>c. c \<noteq> 0) b = takeWhile (\<lambda>c. c \<noteq> 0) (s @ 0 # drop (Suc (length s)) b)" by simp
  then show ?thesis using t(2) by (auto simp: cstring_def takeWhile_tail takeWhile_eq_all_conv)
qed

lemma zero_not_in_cstring: "0 \<notin> set (cstring b)"
  by (auto simp: cstring_def dest: set_takeWhileD)

lemma cstring_short: "0 \<in> set b \<Longrightarrow> length b = n \<Longrightarrow> length (cstring b) < n"
  using zero_not_in_cstring [of b] by (metis cstring_def length_takeWhile_le nat_less_le takeWhile_eq_take take_all_iff)

lemma mem_write_one: "mem_write (int i) [v] xs = (if i < length xs then Some (xs[i := v]) else None)"
  by (auto simp: mem_write_def upd_conv_take_nth_drop)

section \<open>The tables\<close>

definition board_wf :: "board_parameters \<Rightarrow> bool" where
  "board_wf b \<longleftrightarrow>
     length (bp_szBoardId b) = 16 \<and> 0 \<in> set (bp_szBoardId b) \<and> length (EnetMacInfos b) = 2 \<and> length (VoIPDspInfo b) = 2"

lemmas g_tables_6338 = g_bcm96338sv_def g_bcm96338l2m8m_def g_bcm96338l652m8m_def g_bcm96338gw_def g_bcm96338gws2_def
  g_bcm96338gw20p2_def g_bcm96338gw2_def g_bcm96338e_def g_bcm96338e4_def g_bcm96338e420p2_def g_bcm96332cg_def
  g_bcm96338gws_def g_bcm96338e_e7r_def g_bcm96338gw2_e7t_def g_bcm96332cg_f4w_def

lemmas g_tables_6348 = g_bcm96348sv_def g_bcm96348r_def g_bcm96348gw_def g_bcm96348gw_10_def g_bcm96348gw_11_def
  g_bcm96348w2_def g_bcm96348w3_10_def g_bcmCustom_01_def g_bcm96348m_def

lemmas g_tables_6358 = g_bcm96358vw2_def g_bcm96358vw_def g_bcm96358gwvg_def g_bcm96358mv2g_def g_bcm96358m_def
  g_bcm96358b_def g_bcm96358bgweOem1_def g_bcm96359pong_def g_bcm96358ivwg_def g_bcm96358sv_def

lemmas g_tables_6368 = g_bcm96368vvw_def g_bcm96368sv2_def g_bcm96369pvg_def

lemma board_make_fields [simp]:
  "bp_szBoardId (board_parameters.make i1 a1 a2 a3 a4 a5 a6 a7 a8 a9 a10 a11 a12 a13 a14 a15 a16 a17 a18 a19 a20 a21 a22 a23 a24
     a25 a26 a27 a28 en vo sl da p1 p2 p3 p4) = i1"
  "EnetMacInfos (board_parameters.make i1 a1 a2 a3 a4 a5 a6 a7 a8 a9 a10 a11 a12 a13 a14 a15 a16 a17 a18 a19 a20 a21 a22 a23 a24
     a25 a26 a27 a28 en vo sl da p1 p2 p3 p4) = en"
  "VoIPDspInfo (board_parameters.make i1 a1 a2 a3 a4 a5 a6 a7 a8 a9 a10 a11 a12 a13 a14 a15 a16 a17 a18 a19 a20 a21 a22 a23 a24
     a25 a26 a27 a28 en vo sl da p1 p2 p3 p4) = vo"
  "usGpioLedUsbHost1 (board_parameters.make i1 a1 a2 a3 a4 a5 a6 a7 a8 a9 a10 a11 a12 a13 a14 a15 a16 a17 a18 a19 a20 a21 a22 a23 a24
     a25 a26 a27 a28 en vo sl da p1 p2 p3 p4) = p2"
  "usGpioLedUsbHost2 (board_parameters.make i1 a1 a2 a3 a4 a5 a6 a7 a8 a9 a10 a11 a12 a13 a14 a15 a16 a17 a18 a19 a20 a21 a22 a23 a24
     a25 a26 a27 a28 en vo sl da p1 p2 p3 p4) = p3"
  "usGpioWirelessProtect (board_parameters.make i1 a1 a2 a3 a4 a5 a6 a7 a8 a9 a10 a11 a12 a13 a14 a15 a16 a17 a18 a19 a20 a21 a22 a23 a24
     a25 a26 a27 a28 en vo sl da p1 p2 p3 p4) = p4"
  by (simp_all add: board_parameters.make_def)

lemma cstring_ascii:
  assumes "\<forall>c\<in>set s. of_char c \<noteq> (0 :: u8)"
  shows "cstring (ascii s @ replicate n 0) = ascii s"
  using assms by (induction s) (simp_all add: cstring_def ascii_def takeWhile_replicate)

primrec board_names :: "board_chip \<Rightarrow> string list" where
  "board_names BCM96338 =
     [''96338SV'', ''96338L-2M-8M'', ''96338L-65-2M-8M'', ''96338W'', ''96338WS2'', ''96338W-20P2'',
      ''96338W2'', ''96338E'', ''96338E4'', ''96338E4-20P2'', ''96332CG'', ''96338WS'',
      ''96338E_E7R'', ''96338W2_E7T'', ''96332CG_F4W'']"
| "board_names BCM96348 =
     [''96348SV'', ''96348R'', ''96348GW'', ''96348GW-10'', ''96348GW-11'', ''96348W2'',
      ''96348W3-10'', ''BCMCUST_01'', ''96348M'']"
| "board_names BCM96358 =
     [''96358VW2'', ''96358VW'', ''96358GWVG'', ''96358MV2G'', ''96358M'', ''96358B'',
      ''96358BGWE_OEM1'', ''96359PONG'', ''96358IVWG'', ''96358SV'']"
| "board_names BCM96368 =
     [''96368VVW'', ''96368SV2'', ''96369PVG'']"

lemma board_names_ids: "map bp_szBoardId (g_BoardParms chip) = map board_id (board_names chip)"
  by (cases chip) (simp_all add: g_tables_6338 g_tables_6348 g_tables_6358 g_tables_6368)

lemma board_names_chars: "s \<in> set (board_names chip) \<Longrightarrow> length s < 16 \<and> (\<forall>c\<in>set s. of_char c \<noteq> (0 :: u8))"
  by (cases chip) auto

lemma board_names_distinct: "distinct (map ascii (board_names chip))"
  by (cases chip) (simp_all add: ascii_def)

lemma board_macs: "list_all (\<lambda>b. length (EnetMacInfos b) = 2 \<and> length (VoIPDspInfo b) = 2) (g_BoardParms chip)"
  by (cases chip) (simp_all add: g_tables_6338 g_tables_6348 g_tables_6358 g_tables_6368)

lemma board_id_of:
  assumes "b \<in> set (g_BoardParms chip)"
  obtains s where "s \<in> set (board_names chip)" "bp_szBoardId b = board_id s"
proof -
  have "bp_szBoardId b \<in> set (map board_id (board_names chip))"
    using assms board_names_ids [of chip] by (metis image_eqI list.set_map)
  then show ?thesis using that by auto
qed

lemma cstring_board_id: "s \<in> set (board_names chip) \<Longrightarrow> cstring (board_id s) = ascii s"
  using board_names_chars by (simp add: board_id_def cstring_ascii)

lemma board_tables_wf:
  assumes b: "b \<in> set (g_BoardParms chip)"
  shows "board_wf b"
proof -
  obtain s where s: "s \<in> set (board_names chip)" "bp_szBoardId b = board_id s" using board_id_of [OF b] .
  have "length (EnetMacInfos b) = 2 \<and> length (VoIPDspInfo b) = 2" using board_macs [of chip] b by (auto simp: list_all_iff)
  then show ?thesis using s board_names_chars [OF s(1)] by (auto simp: board_wf_def board_id_def ascii_def)
qed

lemma board_tables_distinct: "distinct (map (\<lambda>b. cstring (bp_szBoardId b)) (g_BoardParms chip))"
proof -
  have "map (\<lambda>b. cstring (bp_szBoardId b)) (g_BoardParms chip) = map cstring (map bp_szBoardId (g_BoardParms chip))" by simp
  also have "\<dots> = map ascii (board_names chip)" unfolding board_names_ids by (simp add: cstring_board_id)
  finally show ?thesis using board_names_distinct by simp
qed

section \<open>Choosing the board\<close>

lemma set_board_loop_find:
  assumes "\<forall>b\<in>set bs. board_wf b" "16 \<le> length n"
  shows "set_board_loop bs n g =
    Some (case find (\<lambda>b. cstring (bp_szBoardId b) = cstring n) bs of Some b \<Rightarrow> (0, Some b) | None \<Rightarrow> (1, g))"
  using assms(1)
proof (induction bs)
  case (Cons b bs)
  have w: "0 \<in> set (bp_szBoardId b)" "length (bp_szBoardId b) = 16" using Cons.prems by (simp_all add: board_wf_def)
  have "length (cstring (bp_szBoardId b)) < 16" using w by (rule cstring_short)
  then obtain r where "bpstrcmp (bp_szBoardId b) n = Some r" "r = 0 \<longleftrightarrow> cstring (bp_szBoardId b) = cstring n"
    using bpstrcmp_total [OF w(1), of n] assms(2) by auto
  then show ?case using Cons by (auto split: option.splits)
qed simp

lemma set_board_find:
  "16 \<le> length n \<Longrightarrow> BpSetBoardId chip n g =
    Some (case find (\<lambda>b. cstring (bp_szBoardId b) = cstring n) (g_BoardParms chip) of Some b \<Rightarrow> (0, Some b) | None \<Rightarrow> (1, g))"
  using board_tables_wf unfolding BpSetBoardId_def by (intro set_board_loop_find) blast+

lemma find_name:
  assumes "distinct (map f bs)" "b \<in> set bs"
  shows "find (\<lambda>x. f x = f b) bs = Some b"
  using assms by (induction bs) (auto simp: rev_image_eqI)

lemma find_board:
  "b \<in> set (g_BoardParms chip) \<Longrightarrow> cstring n = cstring (bp_szBoardId b) \<Longrightarrow>
   find (\<lambda>x. cstring (bp_szBoardId x) = cstring n) (g_BoardParms chip) = Some b"
  using find_name [OF board_tables_distinct] by simp



section \<open>The list of boards\<close>

lemma board_ids_loop_eq:
  assumes "\<forall>b\<in>set bs. board_wf b" "16 * (i + length bs) \<le> length buf" "int (length bs) \<le> n"
  shows "\<exists>buf'. board_ids_loop bs n i buf = Some (int (i + length bs), buf') \<and> length buf' = length buf \<and>
    take (16 * i) buf' = take (16 * i) buf \<and>
    (\<forall>j<length bs. cstring (drop (16 * (i + j)) buf') = cstring (bp_szBoardId (bs ! j)))"
  using assms
proof (induction bs arbitrary: n i buf)
  case (Cons b bs)
  let ?s = "cstring (bp_szBoardId b)" and ?p = "16 * i"
  have w: "0 \<in> set (bp_szBoardId b)" "length (bp_szBoardId b) = 16" using Cons.prems(1) by (simp_all add: board_wf_def)
  have l: "length ?s < 16" using w by (rule cstring_short)
  define buf1 where "buf1 = take ?p buf @ (?s @ [0]) @ drop (?p + Suc (length ?s)) buf"
  have fit: "?p + 16 \<le> length buf" using Cons.prems(2) by simp
  have c: "copy_id (i * 16) (bp_szBoardId b) buf = Some buf1"
    using w fit l mem_write_int [of ?p "?s @ [0]" buf] by (simp add: copy_id_def c_assert_def buf1_def mult.commute)
  have len1: "length buf1 = length buf" "length (take ?p buf) = ?p" using fit l by (simp_all add: buf1_def)
  obtain buf' where b': "board_ids_loop bs (n - 1) (Suc i) buf1 = Some (int (Suc i + length bs), buf')"
      "length buf' = length buf1" "take (16 * Suc i) buf' = take (16 * Suc i) buf1"
      "\<forall>j<length bs. cstring (drop (16 * (Suc i + j)) buf') = cstring (bp_szBoardId (bs ! j))"
    using Cons.IH [of "Suc i" buf1 "n - 1"] Cons.prems len1 by auto
  have low: "take (min k (16 * Suc i)) buf' = take (min k (16 * Suc i)) buf1" for k using b'(3) by (metis take_take)
  have "take ?p buf' = take ?p buf" using low [of ?p] len1(2) by (simp add: buf1_def)
  moreover have "cstring (drop ?p buf') = ?s"
  proof (rule cstring_prefix [OF _ zero_not_in_cstring])
    have "take (?p + Suc (length ?s)) buf' = take (?p + Suc (length ?s)) buf1" using low [of "?p + Suc (length ?s)"] l by simp
    then have "take (Suc (length ?s)) (drop ?p buf') = take (Suc (length ?s)) (drop ?p buf1)" by (simp add: take_drop add.commute)
    then show "take (Suc (length ?s)) (drop ?p buf') = ?s @ [0]" using len1(2) by (simp add: buf1_def)
  qed
  ultimately have "\<forall>j<length (b # bs). cstring (drop (16 * (i + j)) buf') = cstring (bp_szBoardId ((b # bs) ! j))"
    using b'(4) by (auto simp: less_Suc_eq_0_disj algebra_simps)
  then show ?case using c b' len1 \<open>take ?p buf' = take ?p buf\<close> Cons.prems(3) by (intro exI [of _ buf']) auto
qed simp

text \<open>
  The list of names.  Given room for every board, \<open>BpGetBoardIds\<close> returns the number of
  boards and writes their names, one per 16 characters; each entry of the list selects its
  board when it is given to \<open>BpSetBoardId\<close>, and \<open>BpGetBoardId\<close> then returns that name.
\<close>

lemma BpGetBoardIds_select:
  assumes n: "n = length (g_BoardParms chip)" "16 * n \<le> length buf" "i < n" and out: "16 \<le> length out"
  shows "\<exists>buf'. BpGetBoardIds chip buf (int n) = Some (int n, buf') \<and>
    BpSetBoardId chip (drop (16 * i) buf') g = Some (BP_SUCCESS, Some (g_BoardParms chip ! i)) \<and>
    BpGetBoardId (Some (g_BoardParms chip ! i)) out = Some (0, bp_szBoardId (g_BoardParms chip ! i) @ drop 16 out)"
proof -
  let ?b = "g_BoardParms chip ! i"
  have b: "?b \<in> set (g_BoardParms chip)" using n by simp
  have w: "length (bp_szBoardId ?b) = 16" using board_tables_wf [OF b] by (simp add: board_wf_def)
  obtain buf' where ids: "BpGetBoardIds chip buf (int n) = Some (int n, buf')" "length buf' = length buf"
      "cstring (drop (16 * i) buf') = cstring (bp_szBoardId ?b)"
    using board_ids_loop_eq [of "g_BoardParms chip" 0 buf "int n"] board_tables_wf n by (auto simp: BpGetBoardIds_def)
  have "BpSetBoardId chip (drop (16 * i) buf') g = Some (0, Some ?b)"
    using find_board [OF b ids(3)] n ids(2) by (subst set_board_find) auto
  moreover have "BpGetBoardId (Some ?b) out = Some (0, bp_szBoardId ?b @ drop 16 out)"
    using mem_write_int [of 0 "bp_szBoardId ?b" out] w out by (simp add: BpGetBoardId_def)
  ultimately show ?thesis using ids by blast
qed

lemma BpGetBoardIds_select_witness:
  "\<exists>buf'. BpGetBoardIds BCM96368 (replicate 48 0) 3 = Some (3, buf') \<and>
    BpSetBoardId BCM96368 (drop 16 buf') None = Some (BP_SUCCESS, Some g_bcm96368sv2)"
  using BpGetBoardIds_select [of 3 BCM96368 "replicate 48 0" 1 "replicate 16 0" None] by auto

section \<open>Fields that the tables leave out\<close>

lemma set_board_success:
  assumes "16 \<le> length n" "BpSetBoardId chip n g = Some (0, g')"
  obtains b where "g' = Some b" "b \<in> set (g_BoardParms chip)"
  using assms set_board_find [OF assms(1), of chip g] by (fastforce simp: find_Some_iff split: option.splits)

lemma tables_6338_tail:
  assumes "b \<in> set (g_BoardParms BCM96338)"
  shows "usGpioLedUsbHost1 b = 0 \<and> usGpioLedUsbHost2 b = 0 \<and> usGpioWirelessProtect b = 0"
proof -
  have "list_all (\<lambda>b. usGpioLedUsbHost1 b = 0 \<and> usGpioLedUsbHost2 b = 0 \<and> usGpioWirelessProtect b = 0) (g_BoardParms BCM96338)"
    by (simp add: g_tables_6338)
  then show ?thesis using assms unfolding list_all_iff by blast
qed

text \<open>
  No table of the BCM96338 gives the pins of the USB host LEDs and of the wireless
  protect LED.  After any successful choice of a board, the functions for them report
  \<open>BP_SUCCESS\<close> with GPIO 0, active high, and not \<open>BP_VALUE_NOT_DEFINED\<close>.
\<close>

lemma BpGetUsbHost_default:
  assumes n: "16 \<le> length n" and set: "BpSetBoardId BCM96338 n g = Some (BP_SUCCESS, g')"
  shows "BpGetUsbHost1LedGpio g' = (BP_SUCCESS, BP_GPIO_0_AH) \<and> BpGetUsbHost2LedGpio g' = (BP_SUCCESS, BP_GPIO_0_AH) \<and>
    BpGetWirelessProtectLedGpio g' = (BP_SUCCESS, BP_GPIO_0_AH)"
proof -
  obtain b where b: "g' = Some b" "b \<in> set (g_BoardParms BCM96338)" using set_board_success [OF n set] .
  have "usGpioLedUsbHost1 b = 0 \<and> usGpioLedUsbHost2 b = 0 \<and> usGpioWirelessProtect b = 0" by (rule tables_6338_tail [OF b(2)])
  then show ?thesis
    by (simp add: b(1) BpGetUsbHost1LedGpio_def BpGetUsbHost2LedGpio_def BpGetWirelessProtectLedGpio_def bp_value_def)
qed

lemma BpGetUsbHost_default_witness:
  "\<exists>g'. BpSetBoardId BCM96338 (board_id ''96338W2'') None = Some (BP_SUCCESS, g') \<and>
    BpGetUsbHost1LedGpio g' = (BP_SUCCESS, BP_GPIO_0_AH)"
proof -
  have "g_bcm96338gw2 \<in> set (g_BoardParms BCM96338)" "bp_szBoardId g_bcm96338gw2 = board_id ''96338W2''"
    by (simp_all add: g_bcm96338gw2_def)
  moreover have n: "16 \<le> length (board_id ''96338W2'')" by (simp add: board_id_def ascii_def)
  ultimately have "BpSetBoardId BCM96338 (board_id ''96338W2'') None = Some (BP_SUCCESS, Some g_bcm96338gw2)"
    using find_board [of g_bcm96338gw2 BCM96338 "board_id ''96338W2''"] by (subst set_board_find) simp_all
  then show ?thesis using BpGetUsbHost_default [OF n] by blast
qed

section \<open>Wireless calibration\<close>

lemma srom_compare:
  assumes "board_wf b" "length s < 16" "\<forall>c\<in>set s. of_char c \<noteq> (0 :: u8)"
  shows "\<exists>r. bpstrcmp (bp_szBoardId b) (board_id s) = Some r \<and> (r = 0 \<longleftrightarrow> cstring (bp_szBoardId b) = ascii s)"
proof -
  have w: "0 \<in> set (bp_szBoardId b)" "length (bp_szBoardId b) = 16" using assms(1) by (simp_all add: board_wf_def)
  have "length (cstring (bp_szBoardId b)) < 16" using w by (rule cstring_short)
  moreover have "length (board_id s) = 16" using assms(2) by (simp add: board_id_def ascii_def)
  ultimately show ?thesis
    using bpstrcmp_total [OF w(1), of "board_id s"] cstring_ascii [OF assms(3)] by (simp add: board_id_def)
qed

text \<open>
  The calibration words.  With a board set and a buffer of the stated size,
  \<open>BpUpdateWirelessSromMap\<close> patches words 47 to 49 exactly on the two boards that need it and
  for their wireless chip, and otherwise changes nothing.  The size it asks for is one word
  short of what it writes: given 49 words it writes behind the buffer.
\<close>

lemma BpUpdateWirelessSromMap_exact:
  assumes b: "board_wf b" and ws: "0 < length ws" and c: "chipID \<noteq> 0"
  shows "BpUpdateWirelessSromMap (Some b) chipID (Some ws) (int (length ws)) =
    (if chipID = 0x4318 \<and> 49 \<le> length ws \<and>
        (cstring (bp_szBoardId b) = ascii ''96348W3-10'' \<or> cstring (bp_szBoardId b) = ascii ''96348W3'')
     then (if length ws = 49 then None
           else Some (BP_SUCCESS, Some (ws[47 := 0x14ae, 48 := 0xfad4, 49 := 0xfe82])))
     else Some (BP_BOARD_ID_NOT_FOUND, Some ws))"
proof -
  obtain r1 where r1: "bpstrcmp (bp_szBoardId b) (board_id ''96348W3-10'') = Some r1"
      "r1 = 0 \<longleftrightarrow> cstring (bp_szBoardId b) = ascii ''96348W3-10''" using srom_compare [OF b, of "''96348W3-10''"] by auto
  obtain r2 where r2: "bpstrcmp (bp_szBoardId b) (board_id ''96348W3'') = Some r2"
      "r2 = 0 \<longleftrightarrow> cstring (bp_szBoardId b) = ascii ''96348W3''" using srom_compare [OF b, of "''96348W3''"] by auto
  have p: "patch_words [(47, 0x14ae), (48, 0xfad4), (49, 0xfe82)] ws =
      (if length ws = 49 then None else Some (ws[47 := 0x14ae, 48 := 0xfad4, 49 := 0xfe82]))" if "49 \<le> length ws"
    using that by (auto simp: mem_write_one [of 47, simplified] mem_write_one [of 48, simplified] mem_write_one [of 49, simplified])
  show ?thesis using r1 r2 p ws c by (auto simp: BpUpdateWirelessSromMap_def wlanPaInfo_def)
qed

lemma BpUpdateWirelessSromMap_exact_witness:
  "BpUpdateWirelessSromMap (Some g_bcm96348w3_10) 0x4318 (Some (replicate 49 0)) 49 = None"
proof -
  have b: "g_bcm96348w3_10 \<in> set (g_BoardParms BCM96348)" by simp
  have "cstring (bp_szBoardId g_bcm96348w3_10) = ascii ''96348W3-10''"
    using cstring_ascii [of "''96348W3-10''" 6] by (simp add: g_bcm96348w3_10_def board_id_def)
  then show ?thesis
    using BpUpdateWirelessSromMap_exact [OF board_tables_wf [OF b], of "replicate 49 0" "0x4318"] by simp
qed

end
