(* ===== verification/Layout_Properties.thy ===== *)
theory Layout_Properties
  imports Flash_Layout Upgrade_Properties Board_Properties
begin

text \<open>
  What the start of the board driver guarantees about the flash: which board is chosen, and
  where \<open>kerSysFlashInit\<close> puts the sections, on any chip that obeys the AMD command set.
\<close>

section \<open>The early start\<close>

text \<open>
  C27. The start of the board.  Once the flash driver has found the chip,
  \<open>kerSysEarlyFlashInit\<close> always returns: it reads the NVRAM record from the first sector, places
  the NVRAM section there and the root file system in the next sector or after 64 KB, and when
  the record names a board of the processor, that board is the current one.
\<close>

theorem kerSysEarlyFlashInit_board:
  assumes chip: "amd_chip nc ready bypass cells geom" and s: "cfi_ok geom ready s"
    and sz: "0x580 + 1024 \<le> geom ! 0" and mem: "length mem = 300"
    and init: "cfi_init si = Some (FLASH_API_OK, flash_cfi_dev nc did name, s)"
    and rec: "take 300 (drop 0x580 (cfi_contents geom cells s ! 0)) = nvram_bytes nd" "nvram_wf nd"
    and b: "b \<in> set (g_BoardParms board)" "cstring (szBoardId nd) = cstring (bp_szBoardId b)" "0 \<in> set (szBoardId nd)"
  shows "\<exists>fi' s'. kerSysEarlyFlashInit cfi_init spi_init board g fi mem bp si =
      Some (Some (flash_cfi_dev nc did name), fi', nd, Some b, s') \<and> cfi_ok geom ready s' \<and>
    placed geom (flash_nvram_start_blk fi') (flash_nvram_number_blk fi') (flash_nvram_blk_offset fi') 1024 \<and>
    flash_rootfs_start_offset fi' = int (max (geom ! 0) 0x10000)"
proof -
  have len: "length (nvram_bytes nd) = 300" using rec(2) by (rule length_nvram_bytes)
  have at: "take 16 (drop 260 (nvram_bytes nd)) = szBoardId nd"
    using arg_cong [OF nvram_of_bytes [OF rec(2)], of szBoardId] by (simp add: nvram_of_def)
  have "cstring (drop 260 (nvram_bytes nd)) = cstring (szBoardId nd)"
    using cstring_append [OF b(3), of "drop 16 (drop 260 (nvram_bytes nd))"] at by (metis append_take_drop_id)
  then have set: "BpSetBoardId board (drop 260 (nvram_bytes nd)) bp = Some (0, Some b)"
    using find_board [OF b(1)] b(2) len by (subst set_board_find) auto
  have "nvram_of (nvram_bytes nd) = nd" by (rule nvram_of_bytes [OF rec(2)])
  then show ?thesis
    using flash_device.early_init_eq [where cfi_init = cfi_init and di = si and spi_init = spi_init and g = g and fi = fi,
        OF amd_chip.cfi_device [where did = did and name = name, OF chip] s sz mem init rec(1) [symmetric] set]
    by auto
qed

theorem kerSysEarlyFlashInit_board_witness:
  "\<exists>fi' s'. kerSysEarlyFlashInit
      (\<lambda>s. Some (FLASH_API_OK, flash_cfi_dev (sim_chip sim_sectors) ID_AM29LV400B ''AM29LV400B'', s)) (\<lambda>s. None)
      BCM96338 None sim_layout (replicate 300 0) None (sim_board (nvram_bytes sim_nvram) sim_bad_tag sim_bad_tag) =
    Some (sim_dev, fi', sim_nvram, Some g_bcm96338gw, s')"
proof -
  let ?s = "sim_board (nvram_bytes sim_nvram) sim_bad_tag sim_bad_tag"
  note board = sim_board_tags [OF sim_nvram_back(2) sim_tag_simps(2) sim_tag_simps(2)]
  note h = sim_halves_parts [OF sim_nvram_back(2) sim_tag_simps(2) sim_tag_simps(2)]
  have at: "take 300 (drop 0x580 (cfi_contents sim_sectors cells ?s ! 0)) = nvram_bytes sim_nvram"
    using h(2) by (simp add: sim_contents_nth [OF h(1)] drop_take)
  have wf: "nvram_wf sim_nvram" using sim_nvram_wf(1) [of 0] sim_nvram_wf(2) by simp
  have id: "bp_szBoardId g_bcm96338gw = szBoardId sim_nvram" "0 \<in> set (szBoardId sim_nvram)" "g_bcm96338gw \<in> set (g_BoardParms BCM96338)"
    by (simp_all add: g_bcm96338gw_def sim_nvram_def board_id_def ascii_def)
  show ?thesis
    using kerSysEarlyFlashInit_board [where cfi_init = "\<lambda>s. Some (FLASH_API_OK, flash_cfi_dev (sim_chip sim_sectors) ID_AM29LV400B ''AM29LV400B'', s)"
          and si = ?s and mem = "replicate 300 0",
        OF nor8.amd_chip_axioms board(1) _ _ refl at wf id(3) _ id(2)] id(1)
    by (fastforce simp: sim_sectors_def)
qed

section \<open>The sections\<close>

text \<open>
  C26. The layout.  For a configuration of \<open>n\<close> bytes, when the boot image is found and its
  kernel ends neither in the block where the scratch pad starts nor in that of the second
  configuration, \<open>kerSysFlashInit\<close> places all three sections inside their blocks: the second
  configuration ends before the scratch pad, the scratch pad before the configuration, and
  the configuration at the end of the flash.
\<close>

theorem kerSysFlashInit_sections:
  assumes chip: "amd_chip nc ready bypass cells geom" and s: "cfi_ok geom ready s" and parts: "parts_ok fi geom"
    and km: "\<And>z. km z" and mem: "length mem = 300"
    and pl: "placed geom (flash_nvram_start_blk fi) (flash_nvram_number_blk fi) (flash_nvram_blk_offset fi) 1024"
    and tag: "getBootImageTag fi km (Some (flash_cfi_dev nc did name)) mem s = Some (Some t, s1)"
      "tag_field t tag_kernelAddress = Some ka" "tag_field t tag_kernelLen = Some kl" "u32 (ka + kl) = int e + FLASH_BASE" "e < sum_list geom"
    and n: "psi_length nv = int n" "0 < n" "n + 8192 \<le> sum_list geom"
    and q: "q = blk_of geom (sum_list geom - n - 8192)" "8192 \<le> geom ! q" "n \<le> blk_base geom q" "q \<noteq> blk_of geom e"
    and r: "r = blk_of geom (blk_base geom q - n)" "r \<noteq> blk_of geom e"
  shows "\<exists>fi'. kerSysFlashInit nv km (Some (flash_cfi_dev nc did name)) mem fi s = Some (fi', s1) \<and>
    flash_persistent_length fi' = int n \<and> flash_scratch_pad_length fi' = 8192 \<and> flash_dare_persistent_length fi' = int n \<and>
    placed geom (flash_persistent_start_blk fi') (flash_persistent_number_blk fi') (flash_persistent_blk_offset fi') (int n) \<and>
    sp_placed fi' geom \<and>
    placed geom (flash_dare_persistent_start_blk fi') (flash_dare_persistent_number_blk fi') (flash_dare_persistent_blk_offset fi') (int n) \<and>
    section_pos geom (flash_dare_persistent_start_blk fi') (flash_dare_persistent_blk_offset fi') 0 + n
      \<le> section_pos geom (flash_scratch_pad_start_blk fi') (flash_scratch_pad_blk_offset fi') 0 \<and>
    section_pos geom (flash_scratch_pad_start_blk fi') (flash_scratch_pad_blk_offset fi') 0 + 8192
      \<le> section_pos geom (flash_persistent_start_blk fi') (flash_persistent_blk_offset fi') 0 \<and>
    section_pos geom (flash_persistent_start_blk fi') (flash_persistent_blk_offset fi') 0 + n = sum_list geom"
  by (rule flash_device.flash_init_sections [where km = km, OF amd_chip.cfi_device [where did = did and name = name, OF chip]
        s parts km mem pl tag n q r])

lemma sim_blks:
  "blk_of sim_sectors 0x7A000 = 7" "blk_of sim_sectors 0x78000 = 7" "blk_of sim_sectors 0x6A000 = 6"
  "blk_of sim_sectors 67292 = 1" "blk_of sim_sectors 466792 = 7" "blk_base sim_sectors 7 = 0x70000"
  "sum_list sim_sectors = 0x80000" "sim_sectors ! 7 = 0x10000"
proof -
  have r: "blk_of sim_sectors a = i" if "i < 8" "i * 0x10000 \<le> a" "a < Suc i * 0x10000" for a i
    using that by (intro blk_of_unique) (simp_all add: sim_sectors_def blk_base_replicate)
  show "blk_of sim_sectors 0x7A000 = 7" "blk_of sim_sectors 0x78000 = 7" "blk_of sim_sectors 0x6A000 = 6"
    "blk_of sim_sectors 67292 = 1" "blk_of sim_sectors 466792 = 7" by (rule r; simp)+
  show "blk_base sim_sectors 7 = 0x70000" "sum_list sim_sectors = 0x80000" "sim_sectors ! 7 = 0x10000"
    by (simp_all add: sim_sectors_def blk_base_replicate sum_list_replicate)
qed

lemma sim_boot_first:
  assumes "length t = 256" "valid_tag t"
  obtains s1 where "getBootImageTag sim_layout (\<lambda>z. True) sim_dev (replicate 300 0) (sim_board (replicate 300 0) t sim_bad_tag) =
    Some (Some t, s1)"
proof -
  have len: "length (replicate 300 0 :: bytes) = 300" by simp
  note board = sim_board_tags [OF len assms(1) sim_tag_simps(2)]
  show ?thesis
    using flash_device.getBoot_one [OF amd_chip.cfi_device [OF nor8.amd_chip_axioms] board(1) sim_part_blk(3)] board(2,3) assms(2) that
    by (fastforce simp: sim_part_blk)
qed

theorem kerSysFlashInit_sections_witness:
  "\<exists>fi' s1. kerSysFlashInit sim_nvram (\<lambda>z. True) sim_dev (replicate 300 0) sim_layout
      (sim_board (replicate 300 0) (sim_tag 0x31) sim_bad_tag) = Some (fi', s1) \<and>
    flash_scratch_pad_length fi' = 8192 \<and> flash_dare_persistent_length fi' = 0x6000"
proof -
  obtain s1 where boot: "getBootImageTag sim_layout (\<lambda>z. True) sim_dev (replicate 300 0)
      (sim_board (replicate 300 0) (sim_tag 0x31) sim_bad_tag) = Some (Some (sim_tag 0x31), s1)"
    using sim_boot_first [of "sim_tag 0x31"] by auto
  have len: "length (replicate 300 0 :: bytes) = 300" by simp
  note board = sim_board_tags [OF len sim_tag_simps(1,2), of "0x31"]
  have kl: "tag_field (sim_tag 0x31) tag_kernelLen = Some 500"
    by (simp add: sim_tag_def tag_with_def sim_fields_def ascii_def tag_field_def tag_offsets
        simple_strtoul_def strtoul_prefix_def is_xdigit_def is_digit_def digit_value_def u32_def)
  have psi: "psi_length sim_nvram = int 0x6000" by (simp add: psi_length_def sim_nvram_def s32_def)
  show ?thesis
    using kerSysFlashInit_sections [where km = "\<lambda>z. True" and e = 67292 and q = 7 and r = 6,
        OF nor8.amd_chip_axioms board(1) sim_part_blk(3) _ len sim_layout_placed(2) boot sim_tag_fields(2) [of _ "[]"] kl _ _ psi]
    by (fastforce simp: sim_blks FLASH_BASE_def u32_def)
qed

text \<open>
  A kernel that ends in the block shared by the scratch pad and the configuration turns
  the scratch pad off, but not the second configuration: it is placed right before that
  block, inside of the kernel when the kernel starts below it.
\<close>

lemma kerSysFlashInit_config2_in_kernel:
  assumes chip: "amd_chip nc ready bypass cells geom" and s: "cfi_ok geom ready s" and parts: "parts_ok fi geom"
    and km: "\<And>z. km z" and mem: "length mem = 300"
    and pl: "placed geom (flash_nvram_start_blk fi) (flash_nvram_number_blk fi) (flash_nvram_blk_offset fi) 1024"
    and tag: "getBootImageTag fi km (Some (flash_cfi_dev nc did name)) mem s = Some (Some t, s1)"
      "tag_field t tag_kernelAddress = Some ka" "tag_field t tag_kernelLen = Some kl" "u32 (ka + kl) = int e + FLASH_BASE" "e < sum_list geom"
    and n: "psi_length nv = int n" "0 < n" "n + 8192 \<le> sum_list geom"
    and p: "p = blk_of geom (sum_list geom - n)" "p = blk_of geom (sum_list geom - n - 8192)" "p = blk_of geom e"
      "8192 \<le> geom ! p" "n \<le> blk_base geom p"
  shows "\<exists>fi'. kerSysFlashInit nv km (Some (flash_cfi_dev nc did name)) mem fi s = Some (fi', s1) \<and>
    flash_scratch_pad_length fi' = 0 \<and> flash_dare_persistent_length fi' = int n \<and>
    placed geom (flash_dare_persistent_start_blk fi') (flash_dare_persistent_number_blk fi') (flash_dare_persistent_blk_offset fi') (int n) \<and>
    section_pos geom (flash_dare_persistent_start_blk fi') (flash_dare_persistent_blk_offset fi') 0 + n \<le> e"
  by (rule flash_device.flash_init_kernel [where km = km, OF amd_chip.cfi_device [where did = did and name = name, OF chip]
        s parts km mem pl tag n p])

text \<open>An image whose kernel reaches into the last sector.\<close>

definition sim_big_fields :: bytes where
  "sim_big_fields = replicate 94 0 @ ascii ''3217096960'' @ [0, 0] @ ascii ''1000'' @ [0] @ replicate 5 0 @
     ascii ''3217097960'' @ [0, 0] @ ascii ''400000'' @ [0] @ replicate 3 0 @ [0x31, 0] @ replicate 96 0"

definition sim_big_tag :: bytes where
  "sim_big_tag = tag_with sim_big_fields (foldl crc_bitwise CRC32_INIT_VALUE sim_big_fields)"

lemma sim_big_tag_props: "length sim_big_tag = 256" "valid_tag sim_big_tag"
  "tag_field sim_big_tag tag_kernelAddress = Some 3217097960" "tag_field sim_big_tag tag_kernelLen = Some 400000"
proof -
  have "length sim_big_fields = 236" by (simp add: sim_big_fields_def ascii_def)
  then show "length sim_big_tag = 256" "valid_tag sim_big_tag"
    unfolding sim_big_tag_def by (simp_all only: valid_tag_with) (simp add: tag_with_def)
  show "tag_field sim_big_tag tag_kernelAddress = Some 3217097960" "tag_field sim_big_tag tag_kernelLen = Some 400000"
    by (simp_all add: sim_big_tag_def tag_with_def sim_big_fields_def ascii_def tag_field_def tag_offsets
        simple_strtoul_def strtoul_prefix_def is_xdigit_def is_digit_def digit_value_def u32_def)
qed

lemma kerSysFlashInit_config2_in_kernel_witness:
  "\<exists>fi' s1. kerSysFlashInit sim_nvram (\<lambda>z. True) sim_dev (replicate 300 0) sim_layout
      (sim_board (replicate 300 0) sim_big_tag sim_bad_tag) = Some (fi', s1) \<and>
    flash_scratch_pad_length fi' = 0 \<and> flash_dare_persistent_length fi' = 0x6000 \<and>
    section_pos sim_sectors (flash_dare_persistent_start_blk fi') (flash_dare_persistent_blk_offset fi') 0 + 0x6000 \<le> 466792"
proof -
  obtain s1 where boot: "getBootImageTag sim_layout (\<lambda>z. True) sim_dev (replicate 300 0)
      (sim_board (replicate 300 0) sim_big_tag sim_bad_tag) = Some (Some sim_big_tag, s1)"
    using sim_boot_first [OF sim_big_tag_props(1,2)] by auto
  have len: "length (replicate 300 0 :: bytes) = 300" by simp
  note board = sim_board_tags [OF len sim_big_tag_props(1) sim_tag_simps(2)]
  have psi: "psi_length sim_nvram = int 0x6000" by (simp add: psi_length_def sim_nvram_def s32_def)
  show ?thesis
    using kerSysFlashInit_config2_in_kernel [where km = "\<lambda>z. True" and e = 466792 and p = 7,
        OF nor8.amd_chip_axioms board(1) sim_part_blk(3) _ len sim_layout_placed(2) boot sim_big_tag_props(3,4) _ _ psi]
    by (fastforce simp: sim_blks FLASH_BASE_def u32_def)
qed

end
