(* ===== verification/Led_Ctrl.thy ===== *)
theory Led_Ctrl
  imports Board_Parms
begin

text \<open>
  The LED driver \<open>bcm63xx_led.c\<close>: LED names of the board map to physical LEDs, each with a
  normal and a failure pin, and a timer makes them blink.  The state holds the static
  variables of the file and the two GPIO registers; a pointer to an LED is its index in
  \<open>gLed\<close>.  LEDs that a hardware driver handles are driven through its registered functions:
  \<open>hw_calls\<close> lists the calls made to them, the last one first.  On the BCM96338 an LED on the
  serial output has no pin to drive.
\<close>

section \<open>Definitions\<close>

abbreviation (input) MAX_VIRT_LEDS :: nat where "MAX_VIRT_LEDS \<equiv> 15"
abbreviation (input) kFastBlinkCount :: int where "kFastBlinkCount \<equiv> 0"
abbreviation (input) kSlowBlinkCount :: int where "kSlowBlinkCount \<equiv> 1"

text \<open>\<open>kLedStateOther\<close> stands for a number that is none of the states.\<close>

datatype BOARD_LED_STATE = kLedStateOff | kLedStateOn | kLedStateFail | kLedStateBlinkOnce
  | kLedStateSlowBlinkContinues | kLedStateFastBlinkContinues | kLedStateOther

record led_map_pair =
  ledName :: nat
  ledInitState :: BOARD_LED_STATE
  map_ledMask :: u32
  map_ledActiveLow :: bool
  map_ledSerial :: bool
  map_ledMaskFail :: u32
  map_ledActiveLowFail :: bool
  map_ledSerialFail :: bool

record led_info =
  ledMask :: u32
  ledActiveLow :: bool
  ledSerial :: bool
  ledMaskFail :: u32
  ledActiveLowFail :: bool
  ledSerialFail :: bool
  ledState :: BOARD_LED_STATE
  savedLedState :: BOARD_LED_STATE
  blinkCountDown :: int

record led_ctrl =
  gLed :: "led_info list"
  gpVirtLeds :: "nat option list"
  gLedHwFunc :: "bool list"
  gLedHwFailFunc :: "bool list"
  gTimerOn :: bool
  gBlinkOnceTimerOn :: bool
  GPIODir :: u32
  GPIOio :: u32
  hw_calls :: "(bool \<times> nat \<times> BOARD_LED_STATE) list"

subsection \<open>Pins\<close>

text \<open>Making the pins of a mask outputs and setting or clearing them.\<close>

definition drive_pin :: "u32 \<Rightarrow> bool \<Rightarrow> led_ctrl \<Rightarrow> led_ctrl" where
  "drive_pin m hi s =
     s\<lparr>GPIODir := GPIODir s OR m, GPIOio := (if hi then GPIOio s OR m else GPIOio s AND NOT m)\<rparr>"

definition set_led :: "nat \<Rightarrow> led_info \<Rightarrow> led_ctrl \<Rightarrow> led_ctrl" where
  "set_led i l s = s\<lparr>gLed := (gLed s)[i := l]\<rparr>"

definition ledOn :: "nat \<Rightarrow> led_ctrl \<Rightarrow> led_ctrl" where
  "ledOn i s =
     (let l = gLed s ! i in
      if ledMask l \<noteq> 0 then
        set_led i (l\<lparr>ledState := kLedStateOn, savedLedState := kLedStateOn\<rparr>)
          (if ledSerial l then s else drive_pin (ledMask l) (\<not> ledActiveLow l) s)
      else s)"

definition ledOff :: "nat \<Rightarrow> led_ctrl \<Rightarrow> led_ctrl" where
  "ledOff i s =
     (let l = gLed s ! i in
      if ledMask l \<noteq> 0 then
        set_led i (l\<lparr>ledState := kLedStateOff, savedLedState := kLedStateOff\<rparr>)
          (if ledSerial l then s else drive_pin (ledMask l) (ledActiveLow l) s)
      else s)"

definition ledOnFail :: "nat \<Rightarrow> led_ctrl \<Rightarrow> led_ctrl" where
  "ledOnFail i s =
     (let l = gLed s ! i in
      if ledMaskFail l \<noteq> 0 then
        set_led i (l\<lparr>ledState := kLedStateFail, savedLedState := kLedStateFail\<rparr>)
          (if ledSerialFail l then s else drive_pin (ledMaskFail l) (\<not> ledActiveLowFail l) s)
      else s)"

definition ledOffFail :: "nat \<Rightarrow> led_ctrl \<Rightarrow> led_ctrl" where
  "ledOffFail i s =
     (let l = gLed s ! i in
      if ledMaskFail l \<noteq> 0 then
        set_led i (l\<lparr>ledState := kLedStateOff, savedLedState := kLedStateOff\<rparr>)
          (if ledSerialFail l then s else drive_pin (ledMaskFail l) (ledActiveLowFail l) s)
      else s)"

text \<open>The callers ignore the state that \<open>ledToggle\<close> returns.\<close>

definition ledToggle :: "nat \<Rightarrow> led_ctrl \<Rightarrow> BOARD_LED_STATE \<times> led_ctrl" where
  "ledToggle i s =
     (let l = gLed s ! i in
      if ledSerial l then (kLedStateOff, s)
      else if GPIOio s AND ledMask l \<noteq> 0
      then (if ledActiveLow l then kLedStateOn else kLedStateOff, drive_pin (ledMask l) False s)
      else (if ledActiveLow l then kLedStateOff else kLedStateOn, drive_pin (ledMask l) True s))"

subsection \<open>Timers\<close>

definition blinkOnceTimerStart :: "led_ctrl \<Rightarrow> led_ctrl" where
  "blinkOnceTimerStart s = (if gBlinkOnceTimerOn s then s else s\<lparr>gBlinkOnceTimerOn := True\<rparr>)"

definition blinkOnceTimerExpire :: "led_ctrl \<Rightarrow> led_ctrl" where
  "blinkOnceTimerExpire s = s\<lparr>gBlinkOnceTimerOn := False\<rparr>"

definition ledTimerStart :: "led_ctrl \<Rightarrow> led_ctrl" where
  "ledTimerStart s = (if gTimerOn s then s else s\<lparr>gTimerOn := True\<rparr>)"

text \<open>The two blinking states: count down, and toggle at zero.\<close>

definition blink_tick :: "int \<Rightarrow> nat \<Rightarrow> led_ctrl \<Rightarrow> led_ctrl" where
  "blink_tick count i s =
     (let l = gLed s ! i in
      ledTimerStart
        (if blinkCountDown l = 0 then snd (ledToggle i (set_led i (l\<lparr>blinkCountDown := count\<rparr>) s))
         else set_led i (l\<lparr>blinkCountDown := blinkCountDown l - 1\<rparr>) s))"

text \<open>One LED in the loop of \<open>ledTimerExpire\<close>.\<close>

definition led_tick :: "nat \<Rightarrow> led_ctrl \<Rightarrow> led_ctrl" where
  "led_tick i s =
     (let l = gLed s ! i in
      case ledState l of
        kLedStateOn \<Rightarrow> set_led i (l\<lparr>blinkCountDown := 0\<rparr>) s
      | kLedStateOff \<Rightarrow> set_led i (l\<lparr>blinkCountDown := 0\<rparr>) s
      | kLedStateFail \<Rightarrow> set_led i (l\<lparr>blinkCountDown := 0\<rparr>) s
      | kLedStateBlinkOnce \<Rightarrow>
          (let s = snd (ledToggle i (blinkOnceTimerStart s));
               l = (gLed s ! i)\<lparr>blinkCountDown := 0, ledState := savedLedState (gLed s ! i)\<rparr>;
               s = set_led i l s
           in if ledState l = kLedStateSlowBlinkContinues \<or> ledState l = kLedStateFastBlinkContinues
              then ledTimerStart s else s)
      | kLedStateSlowBlinkContinues \<Rightarrow> blink_tick kSlowBlinkCount i s
      | kLedStateFastBlinkContinues \<Rightarrow> blink_tick kFastBlinkCount i s
      | kLedStateOther \<Rightarrow> s)"

definition ledTimerExpire :: "led_ctrl \<Rightarrow> led_ctrl" where
  "ledTimerExpire s = fold led_tick [0..<length (gLed s)] (s\<lparr>gTimerOn := False\<rparr>)"

subsection \<open>Control\<close>

definition call_hw :: "bool \<Rightarrow> nat \<Rightarrow> BOARD_LED_STATE \<Rightarrow> led_ctrl \<Rightarrow> led_ctrl" where
  "call_hw failing name st s = s\<lparr>hw_calls := (failing, name, st) # hw_calls s\<rparr>"

text \<open>Turning off the failure LED, or the normal one, before the other is used.\<close>

definition off_fail :: "nat \<Rightarrow> nat \<Rightarrow> led_ctrl \<Rightarrow> led_ctrl" where
  "off_fail name i s =
     (if ledMaskFail (gLed s ! i) \<noteq> 0 then ledOffFail i s
      else if gLedHwFailFunc s ! name then call_hw True name kLedStateOff s else s)"

definition off_normal :: "nat \<Rightarrow> nat \<Rightarrow> led_ctrl \<Rightarrow> led_ctrl" where
  "off_normal name i s =
     (if ledMask (gLed s ! i) \<noteq> 0 then ledOff i s
      else if gLedHwFunc s ! name then call_hw False name kLedStateOff s else s)"

definition led_switch :: "nat \<Rightarrow> BOARD_LED_STATE \<Rightarrow> nat \<Rightarrow> led_ctrl \<Rightarrow> led_ctrl" where
  "led_switch name st i s =
     (let l = gLed s ! i in
      case st of
        kLedStateOn \<Rightarrow> ledOn i (off_fail name i s)
      | kLedStateOff \<Rightarrow> ledOff i (off_fail name i s)
      | kLedStateFail \<Rightarrow> ledOnFail i (off_normal name i s)
      | kLedStateBlinkOnce \<Rightarrow>
          if savedLedState l = kLedStateSlowBlinkContinues \<or> savedLedState l = kLedStateFastBlinkContinues then s
          else if blinkCountDown l \<noteq> 0 \<or> gBlinkOnceTimerOn s then s
          else ledTimerStart (set_led i (l\<lparr>blinkCountDown := 1, ledState := kLedStateBlinkOnce\<rparr>) (snd (ledToggle i s)))
      | kLedStateSlowBlinkContinues \<Rightarrow>
          ledTimerStart (set_led i (l\<lparr>blinkCountDown := kSlowBlinkCount, ledState := kLedStateSlowBlinkContinues,
            savedLedState := kLedStateSlowBlinkContinues\<rparr>) s)
      | kLedStateFastBlinkContinues \<Rightarrow>
          ledTimerStart (set_led i (l\<lparr>blinkCountDown := kFastBlinkCount, ledState := kLedStateFastBlinkContinues,
            savedLedState := kLedStateFastBlinkContinues\<rparr>) s)
      | kLedStateOther \<Rightarrow> s)"

text \<open>A name outside of the arrays is read past their end.\<close>

definition boardLedCtrl :: "int \<Rightarrow> BOARD_LED_STATE \<Rightarrow> led_ctrl \<Rightarrow> led_ctrl option" where
  "boardLedCtrl name st s =
     do {
       c_assert (0 \<le> name \<and> name < int MAX_VIRT_LEDS);
       let n = nat name;
       let ptr = gpVirtLeds s ! n;
       Some
         (if st \<noteq> kLedStateFail \<and> gLedHwFunc s ! n then
            call_hw False n st
              (if gLedHwFailFunc s ! n then call_hw True n kLedStateOff s
               else case ptr of Some i \<Rightarrow> ledOffFail i s | None \<Rightarrow> s)
          else if st = kLedStateFail \<and> gLedHwFailFunc s ! n then
            call_hw True n st
              (if gLedHwFunc s ! n then call_hw False n kLedStateOff s
               else case ptr of Some i \<Rightarrow> ledOff i s | None \<Rightarrow> s)
          else
            (case ptr of
               None \<Rightarrow> s
             | Some i \<Rightarrow>
                 led_switch n
                   (if st = kLedStateFail \<and> ledMaskFail (gLed s ! i) = 0 then kLedStateSlowBlinkContinues else st) i s))
     }"

definition kerSysLedCtrl :: "bool \<Rightarrow> int \<Rightarrow> BOARD_LED_STATE \<Rightarrow> led_ctrl \<Rightarrow> led_ctrl option" where
  "kerSysLedCtrl g_ledInitialized name st s = (if g_ledInitialized then boardLedCtrl name st s else Some s)"

definition kerSysLedRegisterHwHandler :: "nat \<Rightarrow> bool \<Rightarrow> int \<Rightarrow> led_ctrl \<Rightarrow> led_ctrl" where
  "kerSysLedRegisterHwHandler name ledHwFunc ledFailType s =
     (if name < MAX_VIRT_LEDS then
        (if ledFailType = 1 then s\<lparr>gLedHwFailFunc := (gLedHwFailFunc s)[name := ledHwFunc]\<rparr>
         else s\<lparr>gLedHwFunc := (gLedHwFunc s)[name := ledHwFunc]\<rparr>)
      else s)"

subsection \<open>Initialisation\<close>

text \<open>The same pin, or the same failure pin, as an earlier entry of the mapping.\<close>

definition same_led :: "led_map_pair \<Rightarrow> led_map_pair \<Rightarrow> bool" where
  "same_led p q \<longleftrightarrow>
     (map_ledMask p \<noteq> 0 \<and> map_ledMask p = map_ledMask q) \<or> (map_ledMaskFail p \<noteq> 0 \<and> map_ledMaskFail p = map_ledMaskFail q)"

fun count_leds :: "led_map_pair list \<Rightarrow> led_map_pair list \<Rightarrow> nat" where
  "count_leds before [] = 0"
| "count_leds before (p # ps) =
     (if list_ex (same_led p) before then 0 else 1) + count_leds (before @ [p]) ps"

definition initLedInfo :: "led_map_pair \<Rightarrow> nat \<Rightarrow> led_ctrl \<Rightarrow> bool \<times> led_ctrl" where
  "initLedInfo p i s =
     (let st = ledInitState p;
          l = \<lparr>ledMask = map_ledMask p, ledActiveLow = map_ledActiveLow p, ledSerial = map_ledSerial p,
               ledMaskFail = map_ledMaskFail p, ledActiveLowFail = map_ledActiveLowFail p, ledSerialFail = map_ledSerialFail p,
               ledState = st, savedLedState = st,
               blinkCountDown = (case st of kLedStateBlinkOnce \<Rightarrow> 1 | kLedStateSlowBlinkContinues \<Rightarrow> kSlowBlinkCount
                 | kLedStateFastBlinkContinues \<Rightarrow> kFastBlinkCount | _ \<Rightarrow> 0)\<rparr>;
          s = set_led i l s
      in (st \<in> {kLedStateBlinkOnce, kLedStateSlowBlinkContinues, kLedStateFastBlinkContinues},
          case st of kLedStateOn \<Rightarrow> ledOn i s | kLedStateOff \<Rightarrow> ledOff i s | kLedStateFail \<Rightarrow> ledOnFail i s | _ \<Rightarrow> s))"

text \<open>A further name of an LED that is already there: the first of the LEDs set up so far that shares a pin.\<close>

definition share_led :: "led_map_pair \<Rightarrow> nat \<Rightarrow> led_ctrl \<Rightarrow> led_ctrl" where
  "share_led p cur s =
     (case find (\<lambda>i. (ledMask (gLed s ! i) \<noteq> 0 \<and> ledMask (gLed s ! i) = map_ledMask p) \<or>
                     (ledMaskFail (gLed s ! i) \<noteq> 0 \<and> ledMaskFail (gLed s ! i) = map_ledMaskFail p)) [0..<cur] of
        None \<Rightarrow> s
      | Some i \<Rightarrow>
          (let l = gLed s ! i;
               l = (if map_ledMask p \<noteq> 0
                    then l\<lparr>ledMask := map_ledMask p, ledActiveLow := map_ledActiveLow p, ledSerial := map_ledSerial p\<rparr> else l);
               l = (if map_ledMaskFail p \<noteq> 0
                    then l\<lparr>ledMaskFail := map_ledMaskFail p, ledActiveLowFail := map_ledActiveLowFail p,
                           ledSerialFail := map_ledSerialFail p\<rparr> else l)
           in (set_led i l s)\<lparr>gpVirtLeds := (gpVirtLeds s)[ledName p := Some i]\<rparr>))"

text \<open>\<open>cur\<close> is the next free LED.  A store to \<open>gpVirtLeds[15]\<close> has no value.\<close>

fun init_leds :: "led_map_pair list \<Rightarrow> led_map_pair list \<Rightarrow> nat \<Rightarrow> bool \<Rightarrow> led_ctrl \<Rightarrow> (bool \<times> led_ctrl) option" where
  "init_leds before [] cur needTimer s = Some (needTimer, s)"
| "init_leds before (p # ps) cur needTimer s =
     (if ledName p > MAX_VIRT_LEDS then init_leds (before @ [p]) ps cur needTimer s
      else
        do {
          c_assert (ledName p < MAX_VIRT_LEDS);
          if list_ex (same_led p) before then init_leds (before @ [p]) ps cur needTimer (share_led p cur s)
          else
            do {
              let (needTimer, s) = initLedInfo p cur s;
              init_leds (before @ [p]) ps (Suc cur) needTimer (s\<lparr>gpVirtLeds := (gpVirtLeds s)[ledName p := Some cur]\<rparr>)
            }
        })"

definition blank_led :: led_info where
  "blank_led = \<lparr>ledMask = 0, ledActiveLow = False, ledSerial = False, ledMaskFail = 0, ledActiveLowFail = False,
     ledSerialFail = False, ledState = kLedStateOff, savedLedState = kLedStateOff, blinkCountDown = 0\<rparr>"

text \<open>
  \<open>km\<close> says whether the allocation succeeds.  When it fails \<open>gLed\<close> is null;
  \<open>gLedCount\<close> keeps its value, but only the blink timer reads it, which is never started
  because no name leads to an LED.  The rate of the LEDs the hardware blinks is left out.
\<close>

definition boardLedInit :: "bool \<Rightarrow> led_map_pair list \<Rightarrow> led_ctrl \<Rightarrow> led_ctrl option" where
  "boardLedInit km cLedMapping s =
     do {
       let s = s\<lparr>gpVirtLeds := replicate MAX_VIRT_LEDS None, gLedHwFunc := replicate MAX_VIRT_LEDS False,
                 gLedHwFailFunc := replicate MAX_VIRT_LEDS False\<rparr>;
       if \<not> km then Some (s\<lparr>gLed := []\<rparr>)
       else
         do {
           (needTimer, s) \<leftarrow> init_leds [] cLedMapping 0 False (s\<lparr>gLed := replicate (count_leds [] cLedMapping) blank_led\<rparr>);
           Some (if needTimer then ledTimerStart s else s)
         }
     }"

subsection \<open>The mapping of the board\<close>

definition GPIO_NUM_TO_MASK :: "u16 \<Rightarrow> u32" where
  "GPIO_NUM_TO_MASK x = push_bit (unat (x AND 0x0f)) 1"

text \<open>The LED names in the order of \<open>bpLedInfo\<close>, with the functions for their pins.\<close>

definition bpLedInfo ::
  "(nat \<times> (board_parameters option \<Rightarrow> int \<times> u16) \<times> (board_parameters option \<Rightarrow> int \<times> u16) option) list" where
  "bpLedInfo =
     [(0, BpGetAdslLedGpio, Some BpGetAdslFailLedGpio), (2, BpGetHpnaLedGpio, None), (3, BpGetWanDataLedGpio, None),
      (4, BpGetPppLedGpio, Some BpGetPppFailLedGpio), (5, BpGetWirelessSesLedGpio, None), (7, BpGetVoipLedGpio, None),
      (8, BpGetVoip1LedGpio, Some BpGetVoip1FailLedGpio), (9, BpGetVoip2LedGpio, Some BpGetVoip2FailLedGpio),
      (10, BpGetPotsLedGpio, None), (1, BpGetSecAdslLedGpio, Some BpGetSecAdslFailLedGpio), (11, BpGetDectLedGpio, None),
      (12, BpGetUsbHost1LedGpio, None), (13, BpGetUsbHost2LedGpio, None)]"

text \<open>A pin that the function reports and that the processor does not drive by itself.\<close>

definition led_pin :: "int \<times> u16 \<Rightarrow> u16 option" where
  "led_pin r = (if fst r = BP_SUCCESS \<and> snd r \<noteq> BP_HW_DEFINED_AH \<and> snd r \<noteq> BP_HW_DEFINED then Some (snd r) else None)"

definition led_entry :: "nat \<Rightarrow> u16 option \<Rightarrow> u16 option \<Rightarrow> led_map_pair" where
  "led_entry name pin pinFail =
     \<lparr>ledName = name, ledInitState = kLedStateOff,
      map_ledMask = (case pin of None \<Rightarrow> 0 | Some gpio \<Rightarrow> GPIO_NUM_TO_MASK gpio),
      map_ledActiveLow = (case pin of None \<Rightarrow> False | Some gpio \<Rightarrow> gpio AND 0x8000 \<noteq> 0),
      map_ledSerial = (case pin of None \<Rightarrow> False | Some gpio \<Rightarrow> gpio AND 0x4000 \<noteq> 0),
      map_ledMaskFail = (case pinFail of None \<Rightarrow> 0 | Some gpio \<Rightarrow> GPIO_NUM_TO_MASK gpio),
      map_ledActiveLowFail = (case pinFail of None \<Rightarrow> False | Some gpio \<Rightarrow> gpio AND 0x8000 \<noteq> 0),
      map_ledSerialFail = (case pinFail of None \<Rightarrow> False | Some gpio \<Rightarrow> gpio AND 0x4000 \<noteq> 0)\<rparr>"

text \<open>
  The part of \<open>brcm_board_init\<close> that fills \<open>LedMapping\<close>: an entry for each
  name with a pin, and one for the link speed of the internal Ethernet.  \<open>e\<close> is the
  Ethernet record on the stack before it is read.
\<close>

definition led_mapping :: "board_parameters option \<Rightarrow> ethernet_mac_info \<Rightarrow> led_map_pair list option" where
  "led_mapping g e =
     do {
       let m = concat (map (\<lambda>(name, bpFunc, bpFuncFail).
         let pin = led_pin (bpFunc g); pinFail = (case bpFuncFail of None \<Rightarrow> None | Some f \<Rightarrow> led_pin (f g)) in
         if pin = None \<and> pinFail = None then [] else [led_entry name pin pinFail]) bpLedInfo);
       (r, es) \<leftarrow> BpGetEthernetMacInfo g [e] 1;
       Some (m @ (if r = BP_SUCCESS \<and> usGpioPhyLinkSpeed (es ! 0) \<noteq> BP_NOT_DEFINED
                  then [led_entry 6 (Some (usGpioPhyLinkSpeed (es ! 0))) None] else []))
     }"

end
