(* ===== verification/Led_Properties.thy ===== *)
theory Led_Properties
  imports Led_Ctrl Board_Properties
begin

text \<open>
  What the LED driver guarantees: its tables stay consistent and its timer runs while an LED
  blinks, in every state the driver can reach; how each timer tick changes one LED and its
  pin; which pins \<open>boardLedCtrl\<close> drives.
\<close>

section \<open>Definitions\<close>

definition blinking :: "BOARD_LED_STATE \<Rightarrow> bool" where
  "blinking st \<longleftrightarrow> st \<in> {kLedStateBlinkOnce, kLedStateSlowBlinkContinues, kLedStateFastBlinkContinues}"

definition led_wf :: "led_ctrl \<Rightarrow> bool" where
  "led_wf s \<longleftrightarrow> length (gpVirtLeds s) = 15 \<and> length (gLedHwFunc s) = 15 \<and> length (gLedHwFailFunc s) = 15 \<and>
     (\<forall>i. Some i \<in> set (gpVirtLeds s) \<longrightarrow> i < length (gLed s))"

text \<open>While an LED blinks the timer runs, and no LED returns to blinking once.\<close>

definition timer_ok :: "led_ctrl \<Rightarrow> bool" where
  "timer_ok s \<longleftrightarrow> (\<forall>l\<in>set (gLed s). (blinking (ledState l) \<longrightarrow> gTimerOn s) \<and> savedLedState l \<noteq> kLedStateBlinkOnce)"

text \<open>What can happen to the driver once it is initialised.\<close>

inductive led_step :: "led_ctrl \<Rightarrow> led_ctrl \<Rightarrow> bool" where
  ctrl: "boardLedCtrl name st s = Some s' \<Longrightarrow> led_step s s'"
| timer: "gTimerOn s \<Longrightarrow> led_step s (ledTimerExpire s)"
| once_timer: "gBlinkOnceTimerOn s \<Longrightarrow> led_step s (blinkOnceTimerExpire s)"
| hw_handler: "led_step s (kerSysLedRegisterHwHandler name f t s)"

inductive_cases led_stepE: "led_step s s'"

text \<open>The next state of one LED at a timer tick, and whether its pin toggles.\<close>

definition led_next :: "led_info \<Rightarrow> led_info \<times> bool" where
  "led_next l =
     (case ledState l of
        kLedStateBlinkOnce \<Rightarrow> (l\<lparr>blinkCountDown := 0, ledState := savedLedState l\<rparr>, True)
      | kLedStateSlowBlinkContinues \<Rightarrow>
          if blinkCountDown l = 0 then (l\<lparr>blinkCountDown := 1\<rparr>, True) else (l\<lparr>blinkCountDown := blinkCountDown l - 1\<rparr>, False)
      | kLedStateFastBlinkContinues \<Rightarrow>
          if blinkCountDown l = 0 then (l\<lparr>blinkCountDown := 0\<rparr>, True) else (l\<lparr>blinkCountDown := blinkCountDown l - 1\<rparr>, False)
      | kLedStateOther \<Rightarrow> (l, False)
      | _ \<Rightarrow> (l\<lparr>blinkCountDown := 0\<rparr>, False))"

section \<open>Frames\<close>

lemmas led_ops = ledOn_def ledOff_def ledOnFail_def ledOffFail_def ledToggle_def set_led_def drive_pin_def Let_def
lemmas led_timers = blinkOnceTimerStart_def ledTimerStart_def blinkOnceTimerExpire_def

lemma drive_pin_simps [simp]:
  "gLed (drive_pin m h s) = gLed s" "gTimerOn (drive_pin m h s) = gTimerOn s" "gpVirtLeds (drive_pin m h s) = gpVirtLeds s"
  "gLedHwFunc (drive_pin m h s) = gLedHwFunc s" "gLedHwFailFunc (drive_pin m h s) = gLedHwFailFunc s"
  "gBlinkOnceTimerOn (drive_pin m h s) = gBlinkOnceTimerOn s"
  by (simp_all add: drive_pin_def)

lemma set_led_simps [simp]:
  "gLed (set_led i l s) = (gLed s)[i := l]" "gTimerOn (set_led i l s) = gTimerOn s" "gpVirtLeds (set_led i l s) = gpVirtLeds s"
  "gLedHwFunc (set_led i l s) = gLedHwFunc s" "gLedHwFailFunc (set_led i l s) = gLedHwFailFunc s"
  "GPIOio (set_led i l s) = GPIOio s" "gBlinkOnceTimerOn (set_led i l s) = gBlinkOnceTimerOn s"
  by (simp_all add: set_led_def)

lemma ledTimerStart_simps [simp]:
  "gLed (ledTimerStart s) = gLed s" "gTimerOn (ledTimerStart s)" "gpVirtLeds (ledTimerStart s) = gpVirtLeds s"
  "gLedHwFunc (ledTimerStart s) = gLedHwFunc s" "gLedHwFailFunc (ledTimerStart s) = gLedHwFailFunc s"
  "GPIOio (ledTimerStart s) = GPIOio s"
  by (simp_all add: ledTimerStart_def)

lemma blinkOnceTimerStart_simps [simp]:
  "gLed (blinkOnceTimerStart s) = gLed s" "gTimerOn (blinkOnceTimerStart s) = gTimerOn s"
  "gpVirtLeds (blinkOnceTimerStart s) = gpVirtLeds s" "gLedHwFunc (blinkOnceTimerStart s) = gLedHwFunc s"
  "gLedHwFailFunc (blinkOnceTimerStart s) = gLedHwFailFunc s" "GPIOio (blinkOnceTimerStart s) = GPIOio s"
  by (simp_all add: blinkOnceTimerStart_def)

lemma ledToggle_simps [simp]:
  "gLed (snd (ledToggle i s)) = gLed s" "gTimerOn (snd (ledToggle i s)) = gTimerOn s"
  "gpVirtLeds (snd (ledToggle i s)) = gpVirtLeds s" "gLedHwFunc (snd (ledToggle i s)) = gLedHwFunc s"
  "gLedHwFailFunc (snd (ledToggle i s)) = gLedHwFailFunc s"
  by (simp_all add: ledToggle_def Let_def)

text \<open>The tables and the number of LEDs never change after the start.\<close>

definition same_tables :: "led_ctrl \<Rightarrow> led_ctrl \<Rightarrow> bool" where
  "same_tables s t \<longleftrightarrow> length (gLed t) = length (gLed s) \<and> gpVirtLeds t = gpVirtLeds s \<and> gLedHwFunc t = gLedHwFunc s \<and>
     gLedHwFailFunc t = gLedHwFailFunc s"

lemma same_tables_refl [simp]: "same_tables s s"
  by (simp add: same_tables_def)

lemma same_tables_trans: "same_tables s t \<Longrightarrow> same_tables t u \<Longrightarrow> same_tables s u"
  by (simp add: same_tables_def)

lemma led_wf_tables: "same_tables s t \<Longrightarrow> led_wf s \<Longrightarrow> led_wf t"
  by (simp add: same_tables_def led_wf_def)

lemma led_pins_tables [simp]:
  "same_tables s (ledOn i s)" "same_tables s (ledOff i s)" "same_tables s (ledOnFail i s)" "same_tables s (ledOffFail i s)"
  by (simp_all add: ledOn_def ledOff_def ledOnFail_def ledOffFail_def Let_def same_tables_def)

lemma call_hw_tables [simp]: "same_tables s (call_hw f n st t) \<longleftrightarrow> same_tables s t"
  by (simp add: call_hw_def same_tables_def)

lemma led_tick_tables: "same_tables s (led_tick i s)"
  by (simp add: led_tick_def blink_tick_def Let_def same_tables_def split: BOARD_LED_STATE.splits)

lemma fold_tick_tables: "same_tables s (fold led_tick js s)"
  by (induction js arbitrary: s) (auto intro: same_tables_trans led_tick_tables)

lemma off_tables: "same_tables s (off_fail n i s)" "same_tables s (off_normal n i s)"
  by (simp_all add: off_fail_def off_normal_def call_hw_def same_tables_def ledOffFail_def ledOff_def Let_def)

lemma led_switch_tables: "same_tables s (led_switch n st i s)"
  using same_tables_trans [OF off_tables(1) [of s n i] led_pins_tables(1)] same_tables_trans [OF off_tables(1) [of s n i] led_pins_tables(2)]
    same_tables_trans [OF off_tables(2) [of s n i] led_pins_tables(3)]
  by (cases st) (simp_all add: led_switch_def Let_def same_tables_def)

section \<open>The timer invariant\<close>

lemma nth_update: "xs[i := x] ! j = (if j = i \<and> i < length xs then x else xs ! j)"
  by (cases "i < length xs") (auto simp: list_update_beyond)

lemma timer_ok_nth:
  "timer_ok s \<longleftrightarrow> (\<forall>i<length (gLed s). (blinking (ledState (gLed s ! i)) \<longrightarrow> gTimerOn s) \<and> savedLedState (gLed s ! i) \<noteq> kLedStateBlinkOnce)"
  unfolding timer_ok_def by (metis in_set_conv_nth)

lemma timer_ok_update:
  assumes "timer_ok s" "gLed t = (gLed s)[i := l]" "gTimerOn s \<Longrightarrow> gTimerOn t" "blinking (ledState l) \<Longrightarrow> gTimerOn t"
    "i < length (gLed s) \<Longrightarrow> savedLedState l \<noteq> kLedStateBlinkOnce"
  shows "timer_ok t"
  using assms unfolding timer_ok_nth by (auto simp: nth_update split: if_splits)

lemma timer_ok_frame: "timer_ok s \<Longrightarrow> gLed t = gLed s \<Longrightarrow> (gTimerOn s \<Longrightarrow> gTimerOn t) \<Longrightarrow> timer_ok t"
  by (auto simp: timer_ok_def)

lemma not_blinking [simp]: "\<not> blinking kLedStateOn" "\<not> blinking kLedStateOff" "\<not> blinking kLedStateFail" "\<not> blinking kLedStateOther"
  by (simp_all add: blinking_def)

lemma led_pins_timer:
  assumes "timer_ok s"
  shows "timer_ok (ledOn i s)" "timer_ok (ledOff i s)" "timer_ok (ledOnFail i s)" "timer_ok (ledOffFail i s)"
proof -
  have u: "timer_ok (set_led i l (if b then s else drive_pin m h s))" if "\<not> blinking (ledState l)" "savedLedState l \<noteq> kLedStateBlinkOnce" for l b m h
    using timer_ok_update [OF assms, of _ i l] that by simp
  show "timer_ok (ledOn i s)" "timer_ok (ledOff i s)" "timer_ok (ledOnFail i s)" "timer_ok (ledOffFail i s)"
    using assms by (simp_all add: ledOn_def ledOff_def ledOnFail_def ledOffFail_def Let_def u)
qed

lemma call_hw_timer [simp]: "timer_ok (call_hw f n st s) \<longleftrightarrow> timer_ok s"
  by (simp add: timer_ok_def call_hw_def)

lemma off_timer: "timer_ok s \<Longrightarrow> timer_ok (off_fail n i s)" "timer_ok s \<Longrightarrow> timer_ok (off_normal n i s)"
  by (simp_all add: off_fail_def off_normal_def led_pins_timer)

lemma led_switch_timer: "timer_ok s \<Longrightarrow> timer_ok (led_switch n st i s)"
proof -
  assume s: "timer_ok s"
  have u: "timer_ok (ledTimerStart (set_led i l t))"
    if "gLed t = gLed s" "savedLedState l = savedLedState (gLed s ! i) \<or> savedLedState l \<noteq> kLedStateBlinkOnce" for l t
    using that s by (intro timer_ok_update [OF s, of _ i l]) (auto simp: timer_ok_nth)
  show ?thesis using s by (cases st) (simp_all add: led_switch_def Let_def led_pins_timer off_timer u)
qed

lemma boardLedCtrl_inv:
  assumes "boardLedCtrl name st s = Some s'" "timer_ok s"
  shows "timer_ok s'" and "same_tables s s'"
proof -
  show "timer_ok s'"
    using assms by (auto simp: boardLedCtrl_def c_assert_def Let_def led_pins_timer led_switch_timer split: if_splits option.splits)
  show "same_tables s s'"
    using assms(1) led_switch_tables
    by (auto simp: boardLedCtrl_def c_assert_def Let_def split: if_splits option.splits)
qed

text \<open>The loop over the LEDs keeps the timer running for those it has already passed.\<close>

definition timer_ok_for :: "nat set \<Rightarrow> led_ctrl \<Rightarrow> bool" where
  "timer_ok_for A s \<longleftrightarrow>
     (\<forall>i<length (gLed s). (i \<in> A \<longrightarrow> blinking (ledState (gLed s ! i)) \<longrightarrow> gTimerOn s) \<and> savedLedState (gLed s ! i) \<noteq> kLedStateBlinkOnce)"

lemma timer_ok_for_update:
  assumes "timer_ok_for A s" "gLed t = (gLed s)[i := l]" "gTimerOn s \<Longrightarrow> gTimerOn t" "blinking (ledState l) \<Longrightarrow> gTimerOn t"
    "savedLedState l = savedLedState (gLed s ! i)"
  shows "timer_ok_for (insert i A) t"
  using assms unfolding timer_ok_for_def by (auto simp: nth_update split: if_splits)

lemma led_tick_led: "gLed (led_tick i s) = (gLed s)[i := fst (led_next (gLed s ! i))]"
  by (cases "i < length (gLed s)")
     (auto simp: led_tick_def led_next_def blink_tick_def Let_def list_update_id split: BOARD_LED_STATE.splits)

lemma led_next_saved: "savedLedState (fst (led_next l)) = savedLedState l"
  by (simp add: led_next_def split: BOARD_LED_STATE.splits)

lemma led_tick_timer_on:
  "gTimerOn s \<Longrightarrow> gTimerOn (led_tick i s)"
  "blinking (ledState (fst (led_next (gLed s ! i)))) \<Longrightarrow> savedLedState (gLed s ! i) \<noteq> kLedStateBlinkOnce \<Longrightarrow> gTimerOn (led_tick i s)"
  by (cases "ledState (gLed s ! i)"; auto simp: led_tick_def led_next_def blink_tick_def Let_def blinking_def)+

lemma led_tick_timer: "timer_ok_for A s \<Longrightarrow> i < length (gLed s) \<Longrightarrow> timer_ok_for (insert i A) (led_tick i s)"
  using timer_ok_for_update [OF _ led_tick_led led_tick_timer_on(1), of A s i] led_next_saved led_tick_timer_on(2)
  by (fastforce simp: timer_ok_for_def)

lemma fold_tick_timer:
  "timer_ok_for A s \<Longrightarrow> \<forall>j\<in>set js. j < length (gLed s) \<Longrightarrow> timer_ok_for (A \<union> set js) (fold led_tick js s)"
proof (induction js arbitrary: A s)
  case (Cons j js)
  then show ?case using Cons.IH [of "insert j A" "led_tick j s"] led_tick_timer by (simp add: led_tick_led insert_commute)
qed simp

lemma ledTimerExpire_inv:
  assumes "timer_ok s"
  shows "timer_ok (ledTimerExpire s)" "same_tables s (ledTimerExpire s)"
proof -
  have "timer_ok_for {} (s\<lparr>gTimerOn := False\<rparr>)" using assms by (simp add: timer_ok_for_def timer_ok_nth)
  then have "timer_ok_for ({} \<union> set [0..<length (gLed s)]) (ledTimerExpire s)"
    unfolding ledTimerExpire_def by (rule fold_tick_timer) simp
  moreover have t: "same_tables (s\<lparr>gTimerOn := False\<rparr>) (ledTimerExpire s)" unfolding ledTimerExpire_def by (rule fold_tick_tables)
  ultimately show "timer_ok (ledTimerExpire s)" by (auto simp: timer_ok_for_def timer_ok_nth same_tables_def)
  show "same_tables s (ledTimerExpire s)" using t by (simp add: same_tables_def)
qed

lemma led_step_inv:
  assumes "led_step s s'" "led_wf s" "timer_ok s"
  shows "led_wf s' \<and> timer_ok s'"
  using assms
proof (cases rule: led_step.cases)
  case (ctrl name st) then show ?thesis using boardLedCtrl_inv [OF ctrl assms(3)] led_wf_tables assms(2) by blast
next
  case timer then show ?thesis using ledTimerExpire_inv [OF assms(3)] led_wf_tables assms(2) by blast
next
  case once_timer then show ?thesis using assms(2,3) by (simp add: blinkOnceTimerExpire_def led_wf_def timer_ok_def)
next
  case (hw_handler name f t)
  then show ?thesis using assms(2,3) by (simp add: kerSysLedRegisterHwHandler_def led_wf_def timer_ok_def)
qed

section \<open>The start\<close>

definition quiet :: "led_ctrl \<Rightarrow> bool" where
  "quiet s \<longleftrightarrow> (\<forall>l\<in>set (gLed s). \<not> blinking (ledState l) \<and> savedLedState l \<noteq> kLedStateBlinkOnce)"

lemma quiet_update:
  "quiet s \<Longrightarrow> gLed t = (gLed s)[i := gLed t ! i] \<Longrightarrow> \<not> blinking (ledState (gLed t ! i)) \<Longrightarrow>
   savedLedState (gLed t ! i) \<noteq> kLedStateBlinkOnce \<Longrightarrow> quiet t"
  using set_update_subset_insert [of "gLed s" i "gLed t ! i"] by (auto simp: quiet_def)

lemma wf_virt:
  assumes "led_wf s" "gpVirtLeds t = (gpVirtLeds s)[n := Some i]" "gLedHwFunc t = gLedHwFunc s" "gLedHwFailFunc t = gLedHwFailFunc s"
    "length (gLed t) = length (gLed s)" "i < length (gLed s)"
  shows "led_wf t"
  using assms set_update_subset_insert [of "gpVirtLeds s" n "Some i"] by (auto simp: led_wf_def)

lemma share_led_inv:
  assumes "quiet s" "led_wf s" "cur \<le> length (gLed s)"
  shows "quiet (share_led p cur s) \<and> led_wf (share_led p cur s) \<and> length (gLed (share_led p cur s)) = length (gLed s)"
proof (cases "find (\<lambda>i. (ledMask (gLed s ! i) \<noteq> 0 \<and> ledMask (gLed s ! i) = map_ledMask p) \<or>
    (ledMaskFail (gLed s ! i) \<noteq> 0 \<and> ledMaskFail (gLed s ! i) = map_ledMaskFail p)) [0..<cur]")
  case None
  then show ?thesis using assms by (simp add: share_led_def)
next
  case (Some i)
  then have i: "i < length (gLed s)" using assms(3) by (auto simp: find_Some_iff)
  then have l: "\<not> blinking (ledState (gLed s ! i))" "savedLedState (gLed s ! i) \<noteq> kLedStateBlinkOnce"
    using assms(1) by (auto simp: quiet_def)
  have "quiet (share_led p cur s)"
    using l i by (intro quiet_update [OF assms(1), of _ i]) (simp_all add: share_led_def Some Let_def)
  moreover have "led_wf (share_led p cur s)"
    using i by (intro wf_virt [OF assms(2), of _ "ledName p" i]) (simp_all add: share_led_def Some Let_def)
  ultimately show ?thesis by (simp add: share_led_def Some Let_def)
qed

lemma initLedInfo_inv:
  assumes "quiet s" "led_wf s" "i < length (gLed s)" "ledInitState p = kLedStateOff"
  shows "\<not> fst (initLedInfo p i s) \<and> quiet (snd (initLedInfo p i s)) \<and> led_wf (snd (initLedInfo p i s)) \<and>
    length (gLed (snd (initLedInfo p i s))) = length (gLed s)"
proof -
  let ?t = "snd (initLedInfo p i s)"
  have "gLed ?t = (gLed s)[i := gLed ?t ! i]" "ledState (gLed ?t ! i) = kLedStateOff" "savedLedState (gLed ?t ! i) = kLedStateOff"
    using assms(3,4) by (simp_all add: initLedInfo_def ledOff_def Let_def)
  then have "quiet ?t" using quiet_update [OF assms(1), of ?t i] by simp
  moreover have "same_tables s ?t" using assms(4) by (simp add: initLedInfo_def ledOff_def Let_def same_tables_def)
  ultimately show ?thesis using assms led_wf_tables [of s ?t] by (simp add: initLedInfo_def Let_def same_tables_def)
qed

lemma init_leds_inv:
  assumes "\<forall>p\<in>set ps. ledInitState p = kLedStateOff \<and> ledName p < 15" "quiet s" "led_wf s"
    "cur + count_leds before ps \<le> length (gLed s)"
  shows "\<exists>s'. init_leds before ps cur False s = Some (False, s') \<and> quiet s' \<and> led_wf s'"
  using assms
proof (induction ps arbitrary: before cur s)
  case (Cons p ps)
  show ?case
  proof (cases "list_ex (same_led p) before")
    case True
    have "quiet (share_led p cur s) \<and> led_wf (share_led p cur s) \<and> length (gLed (share_led p cur s)) = length (gLed s)"
      using Cons.prems by (intro share_led_inv) simp_all
    then show ?thesis using Cons.IH [of "share_led p cur s" cur "before @ [p]"] Cons.prems True by (simp add: c_assert_def)
  next
    case False
    have i: "\<not> fst (initLedInfo p cur s)" "quiet (snd (initLedInfo p cur s))" "led_wf (snd (initLedInfo p cur s))"
        "length (gLed (snd (initLedInfo p cur s))) = length (gLed s)"
      using initLedInfo_inv [OF Cons.prems(2,3), of cur p] Cons.prems False by simp_all
    let ?t = "(snd (initLedInfo p cur s))\<lparr>gpVirtLeds := (gpVirtLeds (snd (initLedInfo p cur s)))[ledName p := Some cur]\<rparr>"
    have "led_wf ?t" using i Cons.prems(4) False by (intro wf_virt [OF i(3), of _ "ledName p" cur]) simp_all
    moreover have "quiet ?t" using i(2) by (simp add: quiet_def)
    ultimately show ?thesis
      using Cons.IH [of ?t "Suc cur" "before @ [p]"] Cons.prems i False by (simp add: c_assert_def case_prod_beta)
  qed
qed simp

lemma boardLedInit_inv:
  assumes "\<forall>p\<in>set m. ledInitState p = kLedStateOff \<and> ledName p < 15"
  shows "\<exists>s'. boardLedInit km m s = Some s' \<and> led_wf s' \<and> timer_ok s'"
proof (cases km)
  case True
  let ?s = "s\<lparr>gpVirtLeds := replicate 15 None, gLedHwFunc := replicate 15 False, gLedHwFailFunc := replicate 15 False,
    gLed := replicate (count_leds [] m) blank_led\<rparr>"
  have "quiet ?s" "led_wf ?s" by (auto simp: quiet_def led_wf_def blank_led_def)
  then obtain s' where "init_leds [] m 0 False ?s = Some (False, s')" "quiet s'" "led_wf s'"
    using init_leds_inv [OF assms, of ?s 0 "[]"] by auto
  then show ?thesis using True by (auto simp: boardLedInit_def timer_ok_def quiet_def)
qed (auto simp: boardLedInit_def led_wf_def timer_ok_def)

lemma led_mapping_total:
  obtains m where "led_mapping g e = Some m" "length m \<le> 14" "\<forall>p\<in>set m. ledInitState p = kLedStateOff \<and> ledName p < 15"
proof -
  define f where "f = (\<lambda>(name, bpFunc, bpFuncFail). let pin = led_pin (bpFunc g);
    pinFail = (case bpFuncFail of None \<Rightarrow> None | Some f \<Rightarrow> led_pin (f g)) in
    if pin = None \<and> pinFail = None then [] else [led_entry name pin pinFail])"
  obtain r es where "BpGetEthernetMacInfo g [e] 1 = Some (r, es)" by (cases g) (simp_all add: BpGetEthernetMacInfo_def c_assert_def)
  moreover define x where "x = (if r = BP_SUCCESS \<and> usGpioPhyLinkSpeed (es ! 0) \<noteq> BP_NOT_DEFINED
    then [led_entry 6 (Some (usGpioPhyLinkSpeed (es ! 0))) None] else [])"
  ultimately have m: "led_mapping g e = Some (concat (map f bpLedInfo) @ x)" "x = [] \<or> (\<exists>pin. x = [led_entry 6 (Some pin) None])"
    unfolding led_mapping_def f_def by auto
  have len: "length (concat (map f ys)) \<le> length ys" for ys by (induction ys) (auto simp: f_def Let_def)
  have "length (concat (map f bpLedInfo)) \<le> 13" using len [of bpLedInfo] by (simp add: bpLedInfo_def)
  then have "length (concat (map f bpLedInfo) @ x) \<le> 14" using m(2) by auto
  moreover have all: "ledInitState p = kLedStateOff \<and> ledName p < 15" if "p \<in> set (concat (map f ys))" "\<forall>y\<in>set ys. fst y < 15" for p ys
    using that by (induction ys) (auto simp: f_def Let_def led_entry_def split: if_splits)
  moreover have "\<forall>y\<in>set bpLedInfo. fst y < 15" by (simp add: bpLedInfo_def)
  then have "\<forall>p\<in>set (concat (map f bpLedInfo)). ledInitState p = kLedStateOff \<and> ledName p < 15" using all by blast
  ultimately show ?thesis using that [OF m(1)] m(2) by (auto simp: led_entry_def)
qed

lemma led_reach_inv: "led_step\<^sup>*\<^sup>* s s' \<Longrightarrow> led_wf s \<Longrightarrow> timer_ok s \<Longrightarrow> led_wf s' \<and> timer_ok s'"
  by (induction rule: rtranclp_induct) (auto dest: led_step_inv)

text \<open>
  C28. The LEDs of any board, in any order of control calls, timer expiries and registrations
  of hardware handlers.  The board's mapping fits in its array of 16 entries with the end
  mark, the initialisation returns, and in every state reached afterwards each mapped name
  points to one of the LEDs, and whenever an LED is in a blinking state the timer that makes
  it blink is running.
\<close>

theorem boardLed_invariant:
  "\<exists>m s1. led_mapping g e = Some m \<and> length m < 16 \<and> boardLedInit km m s0 = Some s1 \<and>
     (\<forall>s. led_step\<^sup>*\<^sup>* s1 s \<longrightarrow> led_wf s \<and> (\<forall>l\<in>set (gLed s). blinking (ledState l) \<longrightarrow> gTimerOn s))"
proof -
  obtain m where m: "led_mapping g e = Some m" "length m \<le> 14" "\<forall>p\<in>set m. ledInitState p = kLedStateOff \<and> ledName p < 15"
    using led_mapping_total .
  obtain s1 where "boardLedInit km m s0 = Some s1" "led_wf s1" "timer_ok s1" using boardLedInit_inv [OF m(3)] by blast
  then show ?thesis using m(1,2) led_reach_inv by (fastforce simp: timer_ok_def)
qed

section \<open>One LED at a timer tick\<close>

text \<open>The other LEDs do not touch the pin, and toggling it flips it.\<close>

lemma toggle_other: "ledMask (gLed s ! j) AND m = 0 \<Longrightarrow> GPIOio (snd (ledToggle j s)) AND m = GPIOio s AND m"
  by (rule bit_word_eqI) (auto simp: ledToggle_def drive_pin_def Let_def bit_simps dest!: arg_cong [of _ _ "\<lambda>w. bit w _"])

definition one_pin :: "u32 \<Rightarrow> bool" where
  "one_pin m \<longleftrightarrow> (\<exists>k<32. m = push_bit k 1)"

lemma one_pin_bit: "one_pin m \<Longrightarrow> \<exists>k<32. \<forall>n. bit m n \<longleftrightarrow> n = k"
  by (auto simp: one_pin_def bit_simps)

lemma toggle_self:
  assumes "one_pin (ledMask (gLed s ! i))" "\<not> ledSerial (gLed s ! i)"
  shows "GPIOio (snd (ledToggle i s)) AND ledMask (gLed s ! i) = (GPIOio s AND ledMask (gLed s ! i)) XOR ledMask (gLed s ! i)"
proof -
  obtain k where k: "k < 32" "\<And>n. bit (ledMask (gLed s ! i)) n \<longleftrightarrow> n = k" using one_pin_bit [OF assms(1)] by auto
  have b: "bit (GPIOio s AND ledMask (gLed s ! i)) n \<longleftrightarrow> n = k \<and> bit (GPIOio s) k" for n using k(2) by (auto simp: bit_simps)
  then have "GPIOio s AND ledMask (gLed s ! i) = 0 \<longleftrightarrow> \<not> bit (GPIOio s) k" by (metis bit_0_eq bit_word_eqI bot_apply bot_bool_def)
  then show ?thesis
    using assms(2) k by (intro bit_word_eqI) (auto simp: ledToggle_def drive_pin_def Let_def bit_simps)
qed

lemma led_next_pins: "ledMask (fst (led_next l)) = ledMask l" "ledSerial (fst (led_next l)) = ledSerial l"
  by (simp_all add: led_next_def split: BOARD_LED_STATE.splits)

lemma led_tick_mask: "ledMask (gLed (led_tick j s) ! k) = ledMask (gLed s ! k)"
  by (simp add: led_tick_led nth_update led_next_pins)

lemma led_tick_io_other:
  assumes "ledMask (gLed s ! j) AND m = 0"
  shows "GPIOio (led_tick j s) AND m = GPIOio s AND m"
proof -
  have t: "GPIOio (snd (ledToggle j t)) AND m = GPIOio t AND m" if "ledMask (gLed t ! j) = ledMask (gLed s ! j)" for t
    using toggle_other assms that by simp
  show ?thesis
    using assms t by (simp add: led_tick_def blink_tick_def Let_def nth_update split: BOARD_LED_STATE.splits)
qed

lemma led_tick_io_self:
  assumes "one_pin (ledMask (gLed s ! i))" "\<not> ledSerial (gLed s ! i)"
  shows "GPIOio (led_tick i s) AND ledMask (gLed s ! i) =
    (if snd (led_next (gLed s ! i)) then (GPIOio s AND ledMask (gLed s ! i)) XOR ledMask (gLed s ! i) else GPIOio s AND ledMask (gLed s ! i))"
proof -
  have t: "GPIOio (snd (ledToggle i t)) AND ledMask (gLed s ! i) = (GPIOio t AND ledMask (gLed s ! i)) XOR ledMask (gLed s ! i)"
    if "ledMask (gLed t ! i) = ledMask (gLed s ! i)" "ledSerial (gLed t ! i) = ledSerial (gLed s ! i)" for t
    using toggle_self [of t i] assms that by simp
  show ?thesis
    using assms t by (simp add: led_tick_def led_next_def blink_tick_def Let_def nth_update split: BOARD_LED_STATE.splits)
qed

lemma fold_tick_other:
  assumes "i \<notin> set js" "\<forall>j\<in>set js. ledMask (gLed s ! j) AND m = 0"
  shows "gLed (fold led_tick js s) ! i = gLed s ! i \<and> GPIOio (fold led_tick js s) AND m = GPIOio s AND m"
  using assms
proof (induction js arbitrary: s)
  case (Cons j js)
  have "gLed (led_tick j s) ! i = gLed s ! i" using Cons.prems(1) by (simp add: led_tick_led)
  moreover have "GPIOio (led_tick j s) AND m = GPIOio s AND m" using Cons.prems(2) by (intro led_tick_io_other) simp
  ultimately show ?case using Cons.IH [of "led_tick j s"] Cons.prems by (simp add: led_tick_mask)
qed simp

lemma fold_tick_mask: "ledMask (gLed (fold led_tick js s) ! k) = ledMask (gLed s ! k)"
  by (induction js arbitrary: s) (simp_all add: led_tick_mask)

lemma ledTimerExpire_spec:
  assumes i: "i < length (gLed s)" "one_pin (ledMask (gLed s ! i))" "\<not> ledSerial (gLed s ! i)"
    and others: "\<forall>j<length (gLed s). j \<noteq> i \<longrightarrow> ledMask (gLed s ! j) AND ledMask (gLed s ! i) = 0"
  shows "gLed (ledTimerExpire s) ! i = fst (led_next (gLed s ! i)) \<and>
    GPIOio (ledTimerExpire s) AND ledMask (gLed s ! i) =
      (if snd (led_next (gLed s ! i)) then (GPIOio s AND ledMask (gLed s ! i)) XOR ledMask (gLed s ! i)
       else GPIOio s AND ledMask (gLed s ! i))"
proof -
  let ?m = "ledMask (gLed s ! i)" and ?s0 = "s\<lparr>gTimerOn := False\<rparr>"
  define s1 where "s1 = fold led_tick [0..<i] ?s0"
  define s2 where "s2 = led_tick i s1"
  have s1: "gLed s1 ! i = gLed s ! i" "GPIOio s1 AND ?m = GPIOio s AND ?m"
    using fold_tick_other [of i "[0..<i]" ?s0 ?m] i(1) others by (simp_all add: s1_def)
  have len: "length (gLed s1) = length (gLed s)" using fold_tick_tables [of ?s0 "[0..<i]"] by (simp add: s1_def same_tables_def)
  have masks: "ledMask (gLed s2 ! k) = ledMask (gLed s ! k)" for k
    using fold_tick_mask [of "[0..<i]" ?s0 k] by (simp add: s2_def s1_def led_tick_mask)
  have s2: "gLed s2 ! i = fst (led_next (gLed s ! i))"
      "GPIOio s2 AND ?m = (if snd (led_next (gLed s ! i)) then (GPIOio s AND ?m) XOR ?m else GPIOio s AND ?m)"
    using led_tick_io_self [of s1 i] s1 i len by (simp_all add: s2_def led_tick_led)
  have split: "[0..<length (gLed s)] = [0..<i] @ i # [Suc i..<length (gLed s)]"
    using i(1) by (metis less_imp_add_positive upt_add_eq_append upt_conv_Cons zero_le less_imp_le_nat)
  have "ledTimerExpire s = fold led_tick [Suc i..<length (gLed s)] s2"
    unfolding ledTimerExpire_def split by (simp add: s1_def s2_def)
  then show ?thesis using fold_tick_other [of i "[Suc i..<length (gLed s)]" s2 ?m] masks others s2 by auto
qed

text \<open>
  C29. One timer tick, for each LED: the driver implements the automaton \<open>led_next\<close>.  An LED
  that blinks once toggles back and returns to its former state; one that blinks fast toggles
  at each tick and one that blinks slowly at every other tick; the pins of the others stay.
\<close>

theorem ledTimerExpire_led:
  assumes i: "i < length (gLed s)" "one_pin (ledMask (gLed s ! i))" "\<not> ledSerial (gLed s ! i)"
    and others: "\<forall>j<length (gLed s). j \<noteq> i \<longrightarrow> ledMask (gLed s ! j) AND ledMask (gLed s ! i) = 0"
  shows "gLed (ledTimerExpire s) ! i = fst (led_next (gLed s ! i)) \<and>
    GPIOio (ledTimerExpire s) AND ledMask (gLed s ! i) =
      (if snd (led_next (gLed s ! i)) then (GPIOio s AND ledMask (gLed s ! i)) XOR ledMask (gLed s ! i)
       else GPIOio s AND ledMask (gLed s ! i))"
  by (rule ledTimerExpire_spec [OF assms])

section \<open>Control\<close>

text \<open>An LED with a single normal pin and no hardware handler.\<close>

definition plain_led :: "led_ctrl \<Rightarrow> nat \<Rightarrow> nat \<Rightarrow> bool" where
  "plain_led s n i \<longleftrightarrow> n < 15 \<and> gpVirtLeds s ! n = Some i \<and> i < length (gLed s) \<and> \<not> gLedHwFunc s ! n \<and> \<not> gLedHwFailFunc s ! n \<and>
     one_pin (ledMask (gLed s ! i)) \<and> \<not> ledSerial (gLed s ! i)"

text \<open>
  Blinking once.  For an LED that is on or off, with no blink pending,
  \<open>boardLedCtrl\<close> toggles the pin and starts the timer, and the next timer expiry toggles it
  back and restores the state; the pin ends as it was.
\<close>

lemma boardLedCtrl_blink_once:
  assumes p: "plain_led s n i" and st: "ledState (gLed s ! i) = savedLedState (gLed s ! i)" "\<not> blinking (savedLedState (gLed s ! i))"
    and idle: "blinkCountDown (gLed s ! i) = 0" "\<not> gBlinkOnceTimerOn s"
    and others: "\<forall>j<length (gLed s). j \<noteq> i \<longrightarrow> ledMask (gLed s ! j) AND ledMask (gLed s ! i) = 0"
  shows "\<exists>s'. boardLedCtrl (int n) kLedStateBlinkOnce s = Some s' \<and> gTimerOn s' \<and>
    GPIOio s' AND ledMask (gLed s ! i) = (GPIOio s AND ledMask (gLed s ! i)) XOR ledMask (gLed s ! i) \<and>
    gLed (ledTimerExpire s') ! i = gLed s ! i \<and>
    GPIOio (ledTimerExpire s') AND ledMask (gLed s ! i) = GPIOio s AND ledMask (gLed s ! i)"
proof -
  let ?l = "gLed s ! i"
  have i: "i < length (gLed s)" "one_pin (ledMask ?l)" "\<not> ledSerial ?l" using p by (simp_all add: plain_led_def)
  define s' where "s' = ledTimerStart (set_led i (?l\<lparr>blinkCountDown := 1, ledState := kLedStateBlinkOnce\<rparr>) (snd (ledToggle i s)))"
  have c: "boardLedCtrl (int n) kLedStateBlinkOnce s = Some s'"
    using p st idle by (auto simp: boardLedCtrl_def c_assert_def Let_def plain_led_def led_switch_def blinking_def s'_def)
  have l': "gLed s' = (gLed s)[i := ?l\<lparr>blinkCountDown := 1, ledState := kLedStateBlinkOnce\<rparr>]" by (simp add: s'_def)
  have io: "GPIOio s' AND ledMask ?l = (GPIOio s AND ledMask ?l) XOR ledMask ?l" using toggle_self [OF i(2,3)] by (simp add: s'_def)
  have "led_next (gLed s' ! i) = (?l, True)"
    using i(1) st(1) idle(1) by (cases "gLed s ! i") (simp add: l' led_next_def)
  then have "gLed (ledTimerExpire s') ! i = ?l"
      "GPIOio (ledTimerExpire s') AND ledMask ?l = (GPIOio s' AND ledMask ?l) XOR ledMask ?l"
    using ledTimerExpire_spec [of i s'] i others by (simp_all add: l' nth_update)
  then show ?thesis using c io by (auto simp: s'_def xor.assoc)
qed

text \<open>An LED of the board: green on GPIO 2, active low, red on GPIO 4, active high.\<close>

definition sim_leds :: led_ctrl where
  "sim_leds =
     \<lparr>gLed = [\<lparr>ledMask = 4, ledActiveLow = True, ledSerial = False, ledMaskFail = 0x10, ledActiveLowFail = False,
        ledSerialFail = False, ledState = kLedStateOff, savedLedState = kLedStateOff, blinkCountDown = 0\<rparr>],
      gpVirtLeds = Some 0 # replicate 14 None, gLedHwFunc = replicate 15 False, gLedHwFailFunc = replicate 15 False,
      gTimerOn = False, gBlinkOnceTimerOn = False, GPIODir = 0, GPIOio = 4, hw_calls = []\<rparr>"

lemma one_pin_4: "one_pin 4"
  unfolding one_pin_def by (intro exI [of _ 2]) simp

lemma sim_leds_plain: "plain_led sim_leds 0 0"
  by (simp add: plain_led_def sim_leds_def one_pin_4)

theorem boardLed_invariant_witness:
  "\<exists>m s1. led_mapping (Some g_bcm96338gw) no_phy = Some m \<and> boardLedInit True m sim_leds = Some s1 \<and> led_wf s1"
  using boardLed_invariant [of "Some g_bcm96338gw" no_phy True sim_leds] by blast

theorem ledTimerExpire_led_witness:
  "GPIOio (ledTimerExpire (sim_leds\<lparr>gLed := [(gLed sim_leds ! 0)\<lparr>ledState := kLedStateFastBlinkContinues\<rparr>]\<rparr>)) AND 4 = 0"
  using ledTimerExpire_led [of 0 "sim_leds\<lparr>gLed := [(gLed sim_leds ! 0)\<lparr>ledState := kLedStateFastBlinkContinues\<rparr>]\<rparr>"]
  by (simp add: sim_leds_def one_pin_4 led_next_def)

lemma drive_pin_io:
  "GPIOio (drive_pin m h s) AND m = (if h then m else 0)"
  "m AND m' = 0 \<Longrightarrow> GPIOio (drive_pin m h s) AND m' = GPIOio s AND m'"
  "GPIODir (drive_pin m h s) = GPIODir s OR m"
proof -
  show "GPIOio (drive_pin m h s) AND m = (if h then m else 0)" by (rule bit_word_eqI) (auto simp: drive_pin_def bit_simps)
  show "GPIODir (drive_pin m h s) = GPIODir s OR m" by (simp add: drive_pin_def)
  assume a: "m AND m' = 0"
  show "GPIOio (drive_pin m h s) AND m' = GPIOio s AND m'"
  proof (rule bit_word_eqI)
    fix n assume "n < LENGTH(32)"
    have "\<not> (bit m n \<and> bit m' n)" using arg_cong [OF a, of "\<lambda>w. bit w n"] by (simp add: bit_simps)
    with \<open>n < LENGTH(32)\<close> show "bit (GPIOio (drive_pin m h s) AND m') n \<longleftrightarrow> bit (GPIOio s AND m') n" by (auto simp: drive_pin_def bit_simps)
  qed
qed

text \<open>
  C30. Switching an LED with a normal and a failure pin on, off, or to failure.  The wanted pin
  gets its active level and the other one its inactive level, both are made outputs, and the
  LED has the wanted state.
\<close>

theorem boardLedCtrl_pins:
  assumes p: "plain_led s n i" and l: "l = gLed s ! i"
    and f: "ledMaskFail l \<noteq> 0" "\<not> ledSerialFail l" "ledMask l AND ledMaskFail l = 0"
    and st: "st \<in> {kLedStateOn, kLedStateOff, kLedStateFail}"
  shows "\<exists>s'. boardLedCtrl (int n) st s = Some s' \<and> ledState (gLed s' ! i) = st \<and>
    GPIOio s' AND ledMask l = (if (st = kLedStateOn) \<noteq> ledActiveLow l then ledMask l else 0) \<and>
    GPIOio s' AND ledMaskFail l = (if (st = kLedStateFail) \<noteq> ledActiveLowFail l then ledMaskFail l else 0) \<and>
    GPIODir s' = GPIODir s OR ledMask l OR ledMaskFail l"
proof -
  have m: "ledMask l \<noteq> 0" "ledMaskFail l AND ledMask l = 0"
    using p f(3) unfolding l plain_led_def one_pin_def by (auto simp: and.commute push_bit_eq_0_iff)
  have io: "GPIOio (set_led j x t) = GPIOio t" "GPIODir (set_led j x t) = GPIODir t" for j x t by (simp_all add: set_led_def)
  have "boardLedCtrl (int n) st s = Some (led_switch n st i s)"
    using p f(1) by (simp add: boardLedCtrl_def c_assert_def plain_led_def Let_def l)
  moreover have "ledState (gLed (led_switch n st i s) ! i) = st"
    using st p f m by (auto simp: led_switch_def off_fail_def off_normal_def ledOn_def ledOff_def ledOnFail_def ledOffFail_def Let_def
        plain_led_def l)
  moreover have "led_switch n st i s =
      (if st = kLedStateFail
       then set_led i (l\<lparr>ledState := st, savedLedState := st\<rparr>)
         (drive_pin (ledMaskFail l) (\<not> ledActiveLowFail l)
           (set_led i (l\<lparr>ledState := kLedStateOff, savedLedState := kLedStateOff\<rparr>) (drive_pin (ledMask l) (ledActiveLow l) s)))
       else set_led i (l\<lparr>ledState := st, savedLedState := st\<rparr>)
         (drive_pin (ledMask l) ((st = kLedStateOn) \<noteq> ledActiveLow l)
           (set_led i (l\<lparr>ledState := kLedStateOff, savedLedState := kLedStateOff\<rparr>)
             (drive_pin (ledMaskFail l) (ledActiveLowFail l) s))))"
    using st p f m
    by (auto simp: led_switch_def off_fail_def off_normal_def ledOn_def ledOff_def ledOnFail_def ledOffFail_def Let_def
        plain_led_def l)
  then have "GPIOio (led_switch n st i s) AND ledMask l = (if (st = kLedStateOn) \<noteq> ledActiveLow l then ledMask l else 0)"
      "GPIOio (led_switch n st i s) AND ledMaskFail l = (if (st = kLedStateFail) \<noteq> ledActiveLowFail l then ledMaskFail l else 0)"
      "GPIODir (led_switch n st i s) = GPIODir s OR ledMask l OR ledMaskFail l"
    using f(3) m(2) by (simp_all add: io drive_pin_io or.assoc or.commute [of "ledMaskFail l"])
  ultimately show ?thesis by blast
qed

theorem boardLedCtrl_pins_witness:
  "\<exists>s'. boardLedCtrl 0 kLedStateFail sim_leds = Some s' \<and> GPIOio s' AND 4 = 4 \<and> GPIOio s' AND 0x10 = 0x10"
  using boardLedCtrl_pins [OF sim_leds_plain refl, of kLedStateFail] by (auto simp: sim_leds_def)

end
