(* ===== verification/Mac_Addr.thy ===== *)
theory Mac_Addr
  imports Nvram
begin

text \<open>
  The MAC addresses of the board (\<open>board.c\<close>): \<open>set_mac_info\<close> allocates the
  table with the count and the base address of the NVRAM record, \<open>kerSysGetMacAddress\<close>
  hands out the base address plus an index, and \<open>kerSysReleaseMacAddress\<close> takes it back.
  \<open>MacAddrs\<close> holds the entries whose fields lie inside of the allocated block; an access to
  another entry has no value.
\<close>

section \<open>Definitions\<close>

abbreviation (input) NVRAM_MAC_COUNT_MAX :: u32 where "NVRAM_MAC_COUNT_MAX \<equiv> 32"
abbreviation (input) MAC_ADDRESS_ANY :: u32 where "MAC_ADDRESS_ANY \<equiv> 0xffffffff"
abbreviation (input) EINVAL :: int where "EINVAL \<equiv> 22"
abbreviation (input) EADDRNOTAVAIL :: int where "EADDRNOTAVAIL \<equiv> 126"

record mac_addr_info =
  mac_ulId :: u32
  chInUse :: u8

record mac_info =
  mac_ulNumMacAddrs :: u32
  mac_ucaBaseMacAddr :: bytes
  MacAddrs :: "mac_addr_info list"

text \<open>
  The size of the allocated block, \<open>sizeof(MAC_INFO) + (sizeof(MAC_ADDR_INFO) - 1) * n\<close>, and the
  number of entries of which the first five bytes, the two fields, are inside of it.
\<close>

definition mac_info_size :: "nat \<Rightarrow> nat" where
  "mac_info_size n = 20 + 7 * n"

definition mac_entries :: "nat \<Rightarrow> nat" where
  "mac_entries n = length (filter (\<lambda>k. 12 + 8 * k + 5 \<le> mac_info_size n) [0..<n])"

text \<open>The block after \<open>memset\<close> and the two stores.\<close>

definition mac_table :: "u32 \<Rightarrow> bytes \<Rightarrow> mac_info" where
  "mac_table n base =
     \<lparr>mac_ulNumMacAddrs = n, mac_ucaBaseMacAddr = base,
      MacAddrs = replicate (mac_entries (unat n)) \<lparr>mac_ulId = 0, chInUse = 0\<rparr>\<rparr>"

text \<open>\<open>g\<close> is \<open>g_pMacInfo\<close> before the call.\<close>

definition set_mac_info ::
  "flash_addr_info \<Rightarrow> (int \<Rightarrow> bool) \<Rightarrow> 'd flash_device_info option \<Rightarrow> bytes \<Rightarrow> mac_info option \<Rightarrow> 'd \<Rightarrow> (mac_info option \<times> 'd) option" where
  "set_mac_info fi km dev mem g d =
     do {
       (_, nvramData, d) \<leftarrow> readNvramData fi km dev mem d;
       let n = ulNumMacAddrs nvramData;
       Some
         (if 0 < n \<and> n \<le> NVRAM_MAC_COUNT_MAX then
            (if km (int (mac_info_size (unat n)))
             then Some (mac_table n (ucaBaseMacAddr nvramData))
             else None)
          else g, d)
     }"

text \<open>The last three bytes of an address as a number, and the address with a given index.\<close>

definition mac_low :: "bytes \<Rightarrow> u32" where
  "mac_low a = of_be32 (0 # take 3 (drop 3 a))"

definition mac_addr :: "bytes \<Rightarrow> nat \<Rightarrow> bytes" where
  "mac_addr base i = take 3 base @ drop 1 (be32 (mac_low base + of_nat i))"

text \<open>
  The search: the entry that has the identifier, or else the first free entry that never had
  one and the first free entry that had one.
\<close>

fun mac_loop ::
  "mac_addr_info list \<Rightarrow> nat \<Rightarrow> nat \<Rightarrow> u32 \<Rightarrow> nat option \<Rightarrow> nat option \<Rightarrow> (nat + nat option \<times> nat option) option" where
  "mac_loop [] i n ulId freeNoId freeId = (if i < n then None else Some (Inr (freeNoId, freeId)))"
| "mac_loop (m # ms) i n ulId freeNoId freeId =
     (if i < n then
        (if ulId = mac_ulId m \<or> ulId = MAC_ADDRESS_ANY then Some (Inl i)
         else if chInUse m = 0 then
           (if mac_ulId m = 0 \<and> freeNoId = None then mac_loop ms (Suc i) n ulId (Some i) freeId
            else if mac_ulId m \<noteq> 0 \<and> freeId = None then mac_loop ms (Suc i) n ulId freeNoId (Some i)
            else mac_loop ms (Suc i) n ulId freeNoId freeId)
         else mac_loop ms (Suc i) n ulId freeNoId freeId)
      else Some (Inr (freeNoId, freeId)))"

definition use_mac :: "nat \<Rightarrow> u32 \<Rightarrow> mac_info \<Rightarrow> int \<times> bytes \<times> mac_info option" where
  "use_mac i ulId m =
     (0, mac_addr (mac_ucaBaseMacAddr m) i, Some (m\<lparr>MacAddrs := (MacAddrs m)[i := \<lparr>mac_ulId = ulId, chInUse = 1\<rparr>]\<rparr>))"

definition kerSysGetMacAddress :: "mac_info option \<Rightarrow> bytes \<Rightarrow> u32 \<Rightarrow> (int \<times> bytes \<times> mac_info option) option" where
  "kerSysGetMacAddress g pucaMacAddr ulId =
     do {
       m \<leftarrow> g;
       r \<leftarrow> mac_loop (MacAddrs m) 0 (unat (mac_ulNumMacAddrs m)) ulId None None;
       Some
         (case r of
            Inl i \<Rightarrow> use_mac i (mac_ulId (MacAddrs m ! i)) m
          | Inr (Some i, _) \<Rightarrow> use_mac i ulId m
          | Inr (None, Some i) \<Rightarrow> use_mac i ulId m
          | Inr (None, None) \<Rightarrow> (- EADDRNOTAVAIL, pucaMacAddr, g))
     }"

definition kerSysReleaseMacAddress :: "mac_info option \<Rightarrow> bytes \<Rightarrow> (int \<times> mac_info option) option" where
  "kerSysReleaseMacAddress g pucaMacAddr =
     do {
       m \<leftarrow> g;
       let ulIdx = mac_low pucaMacAddr - mac_low (mac_ucaBaseMacAddr m);
       if ulIdx < mac_ulNumMacAddrs m then
         do {
           c_assert (unat ulIdx < length (MacAddrs m));
           let pMai = MacAddrs m ! unat ulIdx;
           Some (if chInUse pMai = 1
                 then (0, Some (m\<lparr>MacAddrs := (MacAddrs m)[unat ulIdx := pMai\<lparr>chInUse := 0\<rparr>]\<rparr>))
                 else (- EINVAL, g))
         }
       else Some (- EINVAL, g)
     }"

section \<open>The search\<close>

definition first_index :: "('a \<Rightarrow> bool) \<Rightarrow> 'a list \<Rightarrow> nat option" where
  "first_index P xs = find (\<lambda>i. P (xs ! i)) [0..<length xs]"

lemma first_index_Nil [simp]: "first_index P [] = None"
  by (simp add: first_index_def)

lemma find_map: "find P (map f xs) = map_option f (find (\<lambda>x. P (f x)) xs)"
  by (induction xs) simp_all

lemma first_index_Cons [simp]:
  "first_index P (x # xs) = (if P x then Some 0 else map_option Suc (first_index P xs))"
proof -
  have "[0..<length (x # xs)] = 0 # map Suc [0..<length xs]" by (simp add: upt_conv_Cons map_Suc_upt del: upt_Suc)
  then show ?thesis by (simp add: first_index_def find_map del: upt_Suc)
qed

lemma first_index_Some: "first_index P xs = Some i \<Longrightarrow> i < length xs \<and> P (xs ! i)"
  by (auto simp: first_index_def find_Some_iff)

lemma first_index_None: "first_index P xs = None \<longleftrightarrow> (\<forall>i<length xs. \<not> P (xs ! i))"
  by (auto simp: first_index_def find_None_iff)

definition never_used :: "mac_addr_info \<Rightarrow> bool" where
  "never_used m \<longleftrightarrow> chInUse m = 0 \<and> mac_ulId m = 0"

definition used_before :: "mac_addr_info \<Rightarrow> bool" where
  "used_before m \<longleftrightarrow> chInUse m = 0 \<and> mac_ulId m \<noteq> 0"

definition or_first :: "nat option \<Rightarrow> nat option \<Rightarrow> nat option" where
  "or_first a b = (case a of None \<Rightarrow> b | Some i \<Rightarrow> Some i)"

lemma or_first_None: "or_first a b = None \<longleftrightarrow> a = None \<and> b = None"
  by (simp add: or_first_def split: option.split)

text \<open>The entry of a request, in the order of preference.\<close>

definition mac_choice :: "u32 \<Rightarrow> mac_addr_info list \<Rightarrow> nat option" where
  "mac_choice ulId ms =
     or_first (first_index (\<lambda>m. mac_ulId m = ulId) ms) (or_first (first_index never_used ms) (first_index used_before ms))"

lemma mac_loop_eq:
  assumes "ulId \<noteq> MAC_ADDRESS_ANY" "i + length ms = n"
  shows "mac_loop ms i n ulId a b =
    Some (case first_index (\<lambda>m. mac_ulId m = ulId) ms of
        Some k \<Rightarrow> Inl (i + k)
      | None \<Rightarrow> Inr (or_first a (map_option ((+) i) (first_index never_used ms)),
                   or_first b (map_option ((+) i) (first_index used_before ms))))"
  using assms(2)
proof (induction ms arbitrary: i a b)
  case Nil
  then show ?case by (simp add: or_first_def split: option.split)
next
  case (Cons m ms)
  have "(+) i \<circ> Suc = (+) (Suc i)" by auto
  then show ?case using Cons assms(1)
    by (auto simp: option.map_comp or_first_def never_used_def used_before_def split: option.splits)
qed

definition mac_wf :: "mac_info \<Rightarrow> bool" where
  "mac_wf m \<longleftrightarrow> length (MacAddrs m) = unat (mac_ulNumMacAddrs m) \<and> length (mac_ucaBaseMacAddr m) = 6"

lemma kerSysGetMacAddress_eq:
  assumes "mac_wf m" "ulId \<noteq> MAC_ADDRESS_ANY"
  shows "kerSysGetMacAddress (Some m) buf ulId =
    Some (case mac_choice ulId (MacAddrs m) of Some i \<Rightarrow> use_mac i ulId m | None \<Rightarrow> (- EADDRNOTAVAIL, buf, Some m))"
proof -
  have "(\<lambda>i::nat. 0 + i) = (\<lambda>i. i)" by auto
  then show ?thesis using assms mac_loop_eq [of ulId 0 "MacAddrs m" "unat (mac_ulNumMacAddrs m)" None None]
    by (auto simp: kerSysGetMacAddress_def mac_wf_def mac_choice_def or_first_def option.map_ident
        dest: first_index_Some split: option.splits)
qed

lemma mac_choice_Some:
  assumes "mac_choice ulId ms = Some i"
  shows "i < length ms \<and>
    (mac_ulId (ms ! i) = ulId \<or> chInUse (ms ! i) = 0 \<and> (\<forall>j<length ms. mac_ulId (ms ! j) \<noteq> ulId))"
  using assms
  by (auto simp: mac_choice_def or_first_def never_used_def used_before_def first_index_None dest!: first_index_Some split: option.splits)

lemma mac_choice_None:
  "mac_choice ulId ms = None \<longleftrightarrow> (\<forall>i<length ms. mac_ulId (ms ! i) \<noteq> ulId \<and> chInUse (ms ! i) \<noteq> 0)"
  by (auto simp: mac_choice_def or_first_None first_index_None never_used_def used_before_def)

section \<open>Addresses\<close>

lemma list6: "length (a :: 'a list) = 6 \<Longrightarrow> \<exists>b0 b1 b2 b3 b4 b5. a = [b0, b1, b2, b3, b4, b5]"
  by (auto simp: numeral_eq_Suc length_Suc_conv)

lemma bit_mac_low: "bit (mac_low [b0, b1, b2, b3, b4, b5]) n \<longleftrightarrow>
    (if n < 8 then bit b5 n else if n < 16 then bit b4 (n - 8) else n < 24 \<and> bit b3 (n - 16))"
proof (cases "n < 32")
  case True
  then show ?thesis
    by (cases "n < 8"; cases "n < 16"; cases "n < 24") (auto simp: mac_low_def bit_simps dest: bit_imp_le_length)
next
  case False
  then show ?thesis by (auto simp: mac_low_def bit_simps dest: bit_imp_le_length)
qed

lemma mac_low_take: "length a = 6 \<Longrightarrow> take_bit 24 (mac_low a) = mac_low a"
  by (auto dest!: list6 intro!: bit_word_eqI simp: bit_take_bit_iff bit_mac_low)

lemma mac_low_word: "mac_low (x # y # z # drop 1 (be32 w)) = take_bit 24 w"
  by (rule bit_word_eqI) (auto simp: be32_def bit_mac_low bit_simps)

lemma mac_low_addr: "length base = 6 \<Longrightarrow> mac_low (mac_addr base i) = take_bit 24 (mac_low base + of_nat i)"
  using mac_low_word by (auto dest!: list6 simp: mac_addr_def simp del: drop_Suc_Cons)

lemma unat_mac_low: "length a = 6 \<Longrightarrow> unat (mac_low a) < 2 ^ 24"
  using mac_low_take [of a] by (metis unsigned_take_bit_eq take_bit_nat_less_exp)

text \<open>The index \<open>kerSysReleaseMacAddress\<close> computes for an address of the table.\<close>

lemma mac_low_diff:
  assumes "length base = 6" "i < 32"
  shows "mac_low (mac_addr base i) - mac_low base =
    (if unat (mac_low base) + i < 2 ^ 24 then of_nat i else of_nat i - 0x1000000)"
proof -
  have u: "unat (mac_low base + of_nat i) = unat (mac_low base) + i"
    using unat_mac_low [OF assms(1)] assms(2) by (simp add: unat_word_ariths unat_of_nat)
  show ?thesis
  proof (cases "unat (mac_low base) + i < 2 ^ 24")
    case True
    then have "take_bit 24 (mac_low base + of_nat i) = mac_low base + of_nat i"
      using u by (simp add: take_bit_nat_eq_self unsigned_take_bit_eq word_unat_eq_iff)
    then show ?thesis using True assms by (simp add: mac_low_addr)
  next
    case False
    have "(0x1000000 :: u32) \<le> mac_low base + of_nat i" using False u by (simp add: word_le_nat_alt)
    then have "unat (mac_low base + of_nat i - 0x1000000) = unat (mac_low base) + i - 0x1000000"
      using u by (simp add: unat_sub)
    moreover have "take_bit 24 (unat (mac_low base) + i) = unat (mac_low base) + i - 0x1000000"
      using False unat_mac_low [OF assms(1)] assms(2) by (simp add: take_bit_eq_mod le_mod_geq)
    ultimately have "take_bit 24 (mac_low base + of_nat i) = mac_low base + of_nat i - 0x1000000"
      using u by (simp add: unsigned_take_bit_eq word_unat_eq_iff)
    then show ?thesis using False assms by (simp add: mac_low_addr)
  qed
qed

section \<open>The size of the block\<close>

lemma mac_entries_le: "mac_entries n \<le> n"
  unfolding mac_entries_def by (rule order_trans [OF length_filter_le]) simp

lemma mac_entries_eq: "mac_entries n = n \<longleftrightarrow> n \<le> 11"
proof -
  have "mac_entries n = n \<longleftrightarrow> filter (\<lambda>k. 12 + 8 * k + 5 \<le> mac_info_size n) [0..<n] = [0..<n]"
    unfolding mac_entries_def by (metis length_filter_less length_upt diff_zero filter_True less_irrefl)
  also have "\<dots> \<longleftrightarrow> (\<forall>k<n. 17 + 8 * k \<le> mac_info_size n)" by (auto simp: filter_id_conv)
  also have "\<dots> \<longleftrightarrow> n \<le> 11"
  proof
    assume all: "\<forall>k<n. 17 + 8 * k \<le> mac_info_size n"
    show "n \<le> 11" using all [rule_format, of "n - 1"] by (cases n) (auto simp: mac_info_size_def)
  qed (auto simp: mac_info_size_def)
  finally show ?thesis .
qed

text \<open>A search in a block with fewer entries than its count.\<close>

lemma mac_loop_short:
  assumes "ulId \<noteq> MAC_ADDRESS_ANY" "\<forall>m\<in>set ms. mac_ulId m \<noteq> ulId" "i + length ms < n"
  shows "mac_loop ms i n ulId a b = None"
  using assms(2,3)
proof (induction ms arbitrary: i a b)
  case (Cons m ms)
  then show ?case using assms(1) by auto
qed simp

lemma mac_table_get:
  assumes "ulId \<noteq> 0" "ulId \<noteq> MAC_ADDRESS_ANY" "length base = 6"
  shows "kerSysGetMacAddress (Some (mac_table n base)) buf ulId = None \<longleftrightarrow> 12 \<le> unat n"
proof (cases "unat n \<le> 11")
  case True
  then show ?thesis
    using assms kerSysGetMacAddress_eq [of "mac_table n base" ulId buf] mac_entries_eq [of "unat n"]
    by (simp add: mac_wf_def mac_table_def)
next
  case False
  then have "mac_entries (unat n) < unat n" using mac_entries_eq [of "unat n"] mac_entries_le [of "unat n"] by simp
  then show ?thesis
    using False assms mac_loop_short [of ulId "MacAddrs (mac_table n base)" 0 "unat n" None None]
    by (simp add: kerSysGetMacAddress_def mac_table_def)
qed

end
