(* ===== verification/Mac_Properties.thy ===== *)
theory Mac_Properties
  imports Mac_Addr Upgrade_Properties
begin

text \<open>
  Properties of the MAC addresses: who may share an address, a released address comes
  back to its caller, and the block of \<open>set_mac_info\<close> is large enough for eleven addresses only.
\<close>

section \<open>Reachable tables\<close>

text \<open>By requests with any identifiers, \<open>MAC_ADDRESS_ANY\<close> and 0 among them, and releases of any addresses.\<close>

inductive mac_reach :: "mac_info \<Rightarrow> mac_info \<Rightarrow> bool" for t where
  mac_start: "mac_reach t t"
| mac_get: "mac_reach t m \<Longrightarrow> kerSysGetMacAddress (Some m) buf ulId = Some (r, a, Some m') \<Longrightarrow> mac_reach t m'"
| mac_release: "mac_reach t m \<Longrightarrow> kerSysReleaseMacAddress (Some m) a = Some (r, Some m') \<Longrightarrow> mac_reach t m'"

text \<open>The caller that has an entry in use.\<close>

definition mac_owner :: "mac_info \<Rightarrow> nat \<Rightarrow> u32 option" where
  "mac_owner m i =
     (if i < length (MacAddrs m) \<and> chInUse (MacAddrs m ! i) = 1 then Some (mac_ulId (MacAddrs m ! i)) else None)"

definition mac_inv :: "u32 \<Rightarrow> bytes \<Rightarrow> mac_info \<Rightarrow> bool" where
  "mac_inv n base m \<longleftrightarrow> mac_ulNumMacAddrs m = n \<and> mac_ucaBaseMacAddr m = base \<and> length (MacAddrs m) = unat n \<and>
     (\<forall>i<unat n. \<forall>j<unat n. mac_ulId (MacAddrs m ! i) = mac_ulId (MacAddrs m ! j) \<longrightarrow>
        mac_ulId (MacAddrs m ! i) \<noteq> 0 \<longrightarrow> i = j) \<and>
     (\<forall>i<unat n. chInUse (MacAddrs m ! i) = 0 \<or> chInUse (MacAddrs m ! i) = 1)"

lemma mac_inv_wf: "mac_inv n base m \<Longrightarrow> length base = 6 \<Longrightarrow> mac_wf m"
  by (simp add: mac_inv_def mac_wf_def)

lemma mac_inv_table: "unat n \<le> 11 \<Longrightarrow> mac_inv n base (mac_table n base)"
  using mac_entries_eq [of "unat n"] by (simp add: mac_inv_def mac_table_def)

definition mac_use :: "nat \<Rightarrow> u32 \<Rightarrow> mac_info \<Rightarrow> mac_info" where
  "mac_use i ulId m = m\<lparr>MacAddrs := (MacAddrs m)[i := \<lparr>mac_ulId = ulId, chInUse = 1\<rparr>]\<rparr>"

lemma use_mac_eq: "use_mac i ulId m = (0, mac_addr (mac_ucaBaseMacAddr m) i, Some (mac_use i ulId m))"
  by (simp add: use_mac_def mac_use_def)

text \<open>The outcomes of a request.\<close>

lemma get_cases:
  assumes "mac_inv n base m" "length base = 6" "ulId \<noteq> MAC_ADDRESS_ANY"
  obtains (given) i where "mac_choice ulId (MacAddrs m) = Some i" "i < unat n"
      "mac_ulId (MacAddrs m ! i) = ulId \<or> chInUse (MacAddrs m ! i) = 0 \<and> (\<forall>j<unat n. mac_ulId (MacAddrs m ! j) \<noteq> ulId)"
      "kerSysGetMacAddress (Some m) buf ulId = Some (0, mac_addr base i, Some (mac_use i ulId m))"
    | (none) "\<forall>i<unat n. mac_ulId (MacAddrs m ! i) \<noteq> ulId \<and> chInUse (MacAddrs m ! i) = 1"
      "kerSysGetMacAddress (Some m) buf ulId = Some (- EADDRNOTAVAIL, buf, Some m)"
proof -
  note eq = kerSysGetMacAddress_eq [OF mac_inv_wf [OF assms(1,2)] assms(3), of buf]
  have len: "length (MacAddrs m) = unat n" "mac_ucaBaseMacAddr m = base" using assms(1) by (simp_all add: mac_inv_def)
  show thesis
  proof (cases "mac_choice ulId (MacAddrs m)")
    case None
    then show thesis using none eq assms(1) mac_choice_None [of ulId "MacAddrs m"] by (auto simp: mac_inv_def)
  next
    case (Some i)
    then show thesis using given [of i] eq mac_choice_Some [OF Some] len by (simp add: use_mac_eq)
  qed
qed

lemma mac_inv_use:
  assumes "mac_inv n base m" "i < unat n"
    and "mac_ulId (MacAddrs m ! i) = ulId \<or> (\<forall>j<unat n. mac_ulId (MacAddrs m ! j) \<noteq> ulId)"
  shows "mac_inv n base (mac_use i ulId m)"
  using assms unfolding mac_inv_def mac_use_def by (auto simp: nth_list_update)

lemma mac_inv_release:
  assumes "mac_inv n base m" "kerSysReleaseMacAddress (Some m) a = Some (r, Some m')"
  shows "mac_inv n base m'"
  using assms by (auto simp: kerSysReleaseMacAddress_def Let_def c_assert_def mac_inv_def nth_list_update split: if_splits bind_splits)

lemma get_any:
  assumes "mac_inv n base m"
  shows "kerSysGetMacAddress (Some m) buf MAC_ADDRESS_ANY =
    Some (if unat n = 0 then (- EADDRNOTAVAIL, buf, Some m)
          else (0, mac_addr base 0, Some (mac_use 0 (mac_ulId (MacAddrs m ! 0)) m)))"
  using assms by (cases "MacAddrs m") (auto simp: kerSysGetMacAddress_def mac_inv_def use_mac_eq)

lemma mac_reach_inv:
  assumes "mac_reach (mac_table n base) m" "unat n \<le> 11" "length base = 6"
  shows "mac_inv n base m"
  using assms(1)
proof induction
  case mac_start
  then show ?case using assms(2) by (rule mac_inv_table)
next
  case (mac_get m buf ulId r a m')
  show ?case
  proof (cases "ulId = MAC_ADDRESS_ANY")
    case True
    then show ?thesis
      using mac_get.hyps(2) mac_get.IH get_any [OF mac_get.IH, of buf] mac_inv_use [OF mac_get.IH, of 0]
      by (auto split: if_splits)
  next
    case False
    show ?thesis
      using mac_get.IH assms(3) False by (rule get_cases [where buf = buf]) (use mac_get mac_inv_use in auto)
  qed
next
  case (mac_release m a r m')
  then show ?case using mac_inv_release by blast
qed

lemma mac_addr_inj:
  assumes "length base = 6" "i < 32" "j < 32" "mac_addr base i = mac_addr base j"
  shows "i = j"
proof -
  have no: "(of_nat k :: u32) \<noteq> of_nat l - 0x1000000" if "k < 32" "l < 32" for k l
  proof
    assume "(of_nat k :: u32) = of_nat l - 0x1000000"
    then have "(of_nat (k + 0x1000000) :: u32) = of_nat l" by simp
    then have "unat (of_nat (k + 0x1000000) :: u32) = unat (of_nat l :: u32)" by (rule arg_cong)
    then show False using that unfolding unat_of_nat by simp
  qed
  have eq: "(of_nat i :: u32) = of_nat j \<Longrightarrow> i = j" using assms(2,3) by (simp add: word_unat_eq_iff unat_of_nat)
  define carry where "carry k \<longleftrightarrow> unat (mac_low base) + k < 2 ^ 24" for k
  have "(if carry i then of_nat i else of_nat i - 0x1000000 :: u32) = (if carry j then of_nat j else of_nat j - 0x1000000)"
    unfolding carry_def mac_low_diff [OF assms(1,2), symmetric] mac_low_diff [OF assms(1,3), symmetric] assms(4) ..
  then show ?thesis using eq no [OF assms(2,3)] no [OF assms(3,2)] by (cases "carry i"; cases "carry j") simp_all
qed

definition mac_free :: "nat \<Rightarrow> mac_info \<Rightarrow> mac_info" where
  "mac_free i m = m\<lparr>MacAddrs := (MacAddrs m)[i := (MacAddrs m ! i)\<lparr>chInUse := 0\<rparr>]\<rparr>"

lemma mac_inv_free:
  assumes "mac_inv n base m" "i < unat n"
  shows "mac_inv n base (mac_free i m)"
proof -
  have "mac_ulId (MacAddrs (mac_free i m) ! j) = mac_ulId (MacAddrs m ! j)" if "j < unat n" for j
    using that assms by (cases "j = i") (simp_all add: mac_free_def mac_inv_def)
  moreover have "chInUse (MacAddrs (mac_free i m) ! j) = (if j = i then 0 else chInUse (MacAddrs m ! j))" if "j < unat n" for j
    using that assms by (cases "j = i") (simp_all add: mac_free_def mac_inv_def)
  ultimately show ?thesis using assms unfolding mac_inv_def by (simp add: mac_free_def)
qed

lemma release_entry:
  assumes "mac_inv n base m" "unat n \<le> 11" "length base = 6" "i < unat n" "MacAddrs m ! i = \<lparr>mac_ulId = ulId, chInUse = 1\<rparr>"
  shows "kerSysReleaseMacAddress (Some m) (mac_addr base i) =
    (if unat (mac_low base) + i < 2 ^ 24 then Some (0, Some (mac_free i m)) else Some (- EINVAL, Some m))"
proof -
  have i: "i < 32" "unat (of_nat i :: u32) = i" using assms(2,4) by (simp_all add: unat_of_nat)
  have big: "\<not> (of_nat i - 0x1000000 :: u32) < n"
  proof
    define w where "w = (of_nat i - 0x1000000 :: u32)"
    assume "of_nat i - 0x1000000 < n"
    then have "unat w \<le> 11" using assms(2) by (simp add: w_def word_less_nat_alt)
    then have "unat (w + 0x1000000) = unat w + 0x1000000" by (simp add: unat_word_ariths)
    then show False using i by (simp add: w_def)
  qed
  have small: "(of_nat i :: u32) < n" using i(2) assms(4) by (simp add: word_less_nat_alt)
  show ?thesis
    using assms mac_low_diff [OF assms(3) i(1)] big small i
    by (auto simp: kerSysReleaseMacAddress_def Let_def c_assert_def mac_free_def mac_inv_def)
qed

lemma get_again:
  assumes inv: "mac_inv n base m" and base: "length base = 6" and i: "i < unat n"
    and ent: "MacAddrs m ! i = \<lparr>mac_ulId = ulId, chInUse = 1\<rparr>" and ulId: "ulId \<noteq> 0" "ulId \<noteq> MAC_ADDRESS_ANY"
  shows "kerSysGetMacAddress (Some (mac_free i m)) buf ulId = Some (0, mac_addr base i, Some m)"
proof -
  have inv': "mac_inv n base (mac_free i m)" using inv i by (rule mac_inv_free)
  have ids: "mac_ulId (MacAddrs (mac_free i m) ! i) = ulId"
    using i ent inv by (simp add: mac_free_def mac_inv_def)
  show ?thesis using inv' base ulId(2)
  proof (cases rule: get_cases [where buf = buf, consumes 3])
    case (given j)
    then have "j = i" using inv' i ids ulId(1) unfolding mac_inv_def by metis
    moreover have "mac_use i ulId (mac_free i m) = m"
      using ent i inv by (simp add: mac_use_def mac_free_def flip: ent)
    ultimately show ?thesis using given by simp
  next
    case none
    then show ?thesis using i ids by blast
  qed
qed

section \<open>Requests\<close>

text \<open>
  C33. Who gets which MAC address, in every table reached from the one \<open>set_mac_info\<close>
  allocates for at most eleven addresses, by requests with any identifiers and releases of any
  addresses.  A request returns.  When it succeeds it gives the base address plus the index of one
  entry, and no other entry has this address or another owner than before.  A caller with an identifier
  other than \<open>MAC_ADDRESS_ANY\<close> gets an entry that nobody with another identifier has in use
  and owns it afterwards, and it owns no other one unless its identifier is 0.  With
  \<open>MAC_ADDRESS_ANY\<close> the request always gives the base address itself, also when another
  caller has it in use: then the table does not even change.  When a request fails, with
  \<open>-EADDRNOTAVAIL\<close>, all addresses are in use by callers with other identifiers, or there
  are none; the buffer and the table are unchanged.
\<close>

theorem kerSysGetMacAddress_exclusive:
  assumes n: "unat n \<le> 11" and base: "length base = 6" and m: "mac_reach (mac_table n base) m"
  shows "\<exists>r a m'. kerSysGetMacAddress (Some m) buf ulId = Some (r, a, Some m') \<and>
    (if r = 0
     then \<exists>i<unat n. a = mac_addr base i \<and> (\<forall>j<unat n. mac_addr base j = a \<longrightarrow> j = i) \<and>
       (\<forall>j. j \<noteq> i \<longrightarrow> mac_owner m' j = mac_owner m j) \<and>
       (if ulId = MAC_ADDRESS_ANY then i = 0 \<and> mac_owner m' 0 \<noteq> None \<and> (mac_owner m 0 \<noteq> None \<longrightarrow> m' = m)
        else mac_owner m i \<in> {None, Some ulId} \<and> mac_owner m' i = Some ulId \<and>
          (ulId \<noteq> 0 \<longrightarrow> (\<forall>j. mac_owner m' j = Some ulId \<longleftrightarrow> j = i)))
     else r = - EADDRNOTAVAIL \<and> a = buf \<and> m' = m \<and>
       (if ulId = MAC_ADDRESS_ANY then unat n = 0 else \<forall>i<unat n. \<exists>other. other \<noteq> ulId \<and> mac_owner m i = Some other))"
proof -
  have inv: "mac_inv n base m" using m n base by (rule mac_reach_inv)
  have len: "length (MacAddrs m) = unat n" using inv by (simp add: mac_inv_def)
  have inj: "\<forall>j<unat n. mac_addr base j = mac_addr base i \<longrightarrow> j = i" if "i < unat n" for i
    using mac_addr_inj [OF base] n that by auto
  have others: "\<forall>j. j \<noteq> i \<longrightarrow> mac_owner (mac_use i u m) j = mac_owner m j" for i u by (simp add: mac_owner_def mac_use_def)
  have mine: "mac_owner (mac_use i u m) i = Some u" if "i < unat n" for i u using that len by (simp add: mac_owner_def mac_use_def)
  show ?thesis
  proof (cases "ulId = MAC_ADDRESS_ANY")
    case True
    have same: "mac_use 0 (mac_ulId (MacAddrs m ! 0)) m = m" if "mac_owner m 0 \<noteq> None"
    proof -
      have "\<lparr>mac_ulId = mac_ulId (MacAddrs m ! 0), chInUse = 1\<rparr> = MacAddrs m ! 0"
        using that by (simp add: mac_owner_def split: if_splits)
      then show ?thesis by (simp add: mac_use_def)
    qed
    show ?thesis using True get_any [OF inv, of buf] inj [of 0] others [of 0] mine [of 0] same by (cases "unat n = 0") auto
  next
    case False
    show ?thesis using inv base False
    proof (cases rule: get_cases [where buf = buf, consumes 3])
      case (given i)
      have "mac_owner m i \<in> {None, Some ulId}" using given(3) by (auto simp: mac_owner_def)
      moreover have "\<forall>j. mac_owner (mac_use i ulId m) j = Some ulId \<longleftrightarrow> j = i" if "ulId \<noteq> 0"
        using given(2,3) inv that len by (auto simp: mac_owner_def mac_use_def mac_inv_def nth_list_update)
      ultimately show ?thesis
        using False given(2,4) inj [OF given(2)] others [of i] mine [OF given(2)] by auto
    next
      case none
      then show ?thesis using False inv by (auto simp: mac_owner_def mac_inv_def)
    qed
  qed
qed

theorem kerSysGetMacAddress_exclusive_witness:
  "\<exists>r a m'. kerSysGetMacAddress (Some (mac_table 2 [0, 16, 24, 0, 0, 0xff])) [] 7 = Some (r, a, Some m') \<and> r = 0 \<and>
    a \<in> mac_addr [0, 16, 24, 0, 0, 0xff] ` {..<2} \<and> mac_owner m' 0 = Some 7"
proof -
  let ?b = "[0, 16, 24, 0, 0, 0xff] :: bytes" and ?t = "mac_table 2 [0, 16, 24, 0, 0, 0xff]"
  have len: "length (MacAddrs ?t) = 2" using mac_entries_eq [of 2] by (simp add: mac_table_def)
  obtain r a m' where got: "kerSysGetMacAddress (Some ?t) [] 7 = Some (r, a, Some m')"
      and r: "r = 0 \<longrightarrow> (\<exists>i<unat (2 :: u32). a = mac_addr ?b i)"
    using kerSysGetMacAddress_exclusive [of 2 ?b ?t "[]" 7, OF _ _ mac_start] by (simp split: if_splits) blast
  have "kerSysGetMacAddress (Some ?t) [] 7 = Some (use_mac 0 7 ?t)"
    by (simp add: kerSysGetMacAddress_def mac_table_def mac_entries_def mac_info_size_def upt_rec)
  then have "r = 0" "m' = mac_use 0 7 ?t" using got by (simp_all add: use_mac_eq)
  moreover have "MacAddrs ?t \<noteq> []" using len by auto
  ultimately show ?thesis using got r by (auto simp: mac_owner_def mac_use_def)
qed

text \<open>
  A released address comes back.  After a successful request the release of the address
  returns 0, makes the entry free, and a later request of the same caller gives the same address
  and the same table.  This holds unless the index carries out of the last three bytes of the
  address: then the release returns \<open>-EINVAL\<close> and the entry stays in use.
\<close>

lemma kerSysReleaseMacAddress_get:
  assumes n: "unat n \<le> 11" and base: "length base = 6" and m: "mac_reach (mac_table n base) m"
    and ulId: "ulId \<noteq> 0" "ulId \<noteq> MAC_ADDRESS_ANY"
    and got: "kerSysGetMacAddress (Some m) buf ulId = Some (0, a, Some m')"
  shows "\<exists>i<unat n. a = mac_addr base i \<and>
    (if unat (mac_low base) + i < 2 ^ 24
     then \<exists>m''. kerSysReleaseMacAddress (Some m') a = Some (0, Some m'') \<and> mac_owner m'' i = None \<and>
       (\<forall>buf. kerSysGetMacAddress (Some m'') buf ulId = Some (0, a, Some m'))
     else kerSysReleaseMacAddress (Some m') a = Some (- EINVAL, Some m'))"
proof -
  have inv: "mac_inv n base m" using m n base by (rule mac_reach_inv)
  obtain i where i: "i < unat n" "a = mac_addr base i" "m' = mac_use i ulId m"
      "mac_ulId (MacAddrs m ! i) = ulId \<or> chInUse (MacAddrs m ! i) = 0 \<and> (\<forall>j<unat n. mac_ulId (MacAddrs m ! j) \<noteq> ulId)"
    using inv base ulId(2) by (rule get_cases [where buf = buf]) (use got in auto)
  have inv': "mac_inv n base m'" using mac_inv_use [OF inv i(1)] i(3,4) by blast
  have ent: "MacAddrs m' ! i = \<lparr>mac_ulId = ulId, chInUse = 1\<rparr>" using i(1,3) inv by (simp add: mac_use_def mac_inv_def)
  have less: "i < 32" using i(1) n by simp
  have release: "kerSysReleaseMacAddress (Some m') a =
      (if unat (mac_low base) + i < 2 ^ 24 then Some (0, Some (mac_free i m')) else Some (- EINVAL, Some m'))"
    using release_entry [OF inv' n base i(1) ent] i(2) by simp
  have "kerSysGetMacAddress (Some (mac_free i m')) buf ulId = Some (0, a, Some m')" for buf
    using get_again [OF inv' base i(1) ent ulId] i(2) by simp
  moreover have "mac_owner (mac_free i m') i = None" using i(1) inv' by (simp add: mac_owner_def mac_free_def mac_inv_def)
  ultimately show ?thesis using i(1,2) release by auto
qed

lemma kerSysReleaseMacAddress_get_witness:
  "\<exists>a m' m''. kerSysGetMacAddress (Some (mac_table 2 [0, 16, 24, 0, 0, 0xff])) [] 7 = Some (0, a, Some m') \<and>
    kerSysReleaseMacAddress (Some m') a = Some (0, Some m'') \<and> kerSysGetMacAddress (Some m'') [] 7 = Some (0, a, Some m')"
proof -
  let ?b = "[0, 16, 24, 0, 0, 0xff] :: bytes"
  obtain a m' where got: "kerSysGetMacAddress (Some (mac_table 2 ?b)) [] 7 = Some (0, a, Some m')"
    by (simp add: kerSysGetMacAddress_def mac_table_def mac_entries_def mac_info_size_def upt_rec use_mac_eq)
  have "unat (mac_low ?b) + i < 2 ^ 24" if "i < 2" for i using that by (simp add: mac_low_def)
  then show ?thesis using kerSysReleaseMacAddress_get [OF _ _ mac_start _ _ got] got by fastforce
qed

section \<open>The allocation\<close>

text \<open>
  The size of the table.  When the NVRAM record in flash asks for 1 to 32 addresses,
  \<open>set_mac_info\<close> allocates the table with its count and base address, whatever its checksum is.
  The first request for an address runs out of the allocated block exactly when the count is
  twelve or more.
\<close>

lemma set_mac_info_size:
  assumes chip: "amd_chip nc ready bypass cells geom" and s: "cfi_ok geom ready s"
    and pl: "placed geom (flash_nvram_start_blk fi) (flash_nvram_number_blk fi) (flash_nvram_blk_offset fi) 1024"
    and km: "\<And>z. km z" and mem: "length mem = 300"
    and nd: "nvram_wf nd" "0 < ulNumMacAddrs nd" "ulNumMacAddrs nd \<le> NVRAM_MAC_COUNT_MAX"
    and st: "take 300 (drop (section_pos geom (flash_nvram_start_blk fi) (flash_nvram_blk_offset fi) 0)
      (concat (cfi_contents geom cells s))) = nvram_bytes nd"
    and ulId: "ulId \<noteq> 0" "ulId \<noteq> MAC_ADDRESS_ANY"
  shows "\<exists>m s'. set_mac_info fi km (Some (flash_cfi_dev nc did name)) mem g s = Some (Some m, s') \<and>
    mac_ulNumMacAddrs m = ulNumMacAddrs nd \<and> mac_ucaBaseMacAddr m = ucaBaseMacAddr nd \<and>
    (kerSysGetMacAddress (Some m) buf ulId = None \<longleftrightarrow> 12 \<le> unat (ulNumMacAddrs nd))"
proof -
  let ?m = "mac_table (ulNumMacAddrs nd) (ucaBaseMacAddr nd)"
  obtain r s' where "readNvramData fi km (Some (flash_cfi_dev nc did name)) mem s = Some (r, nd\<lparr>ulCheckSum := 0\<rparr>, s')"
    using flash_device.readNvramData_eq [where km = km, OF amd_chip.cfi_device [where did = did and name = name, OF chip]
        s km pl refl mem st [symmetric] length_nvram_bytes [OF nd(1)]] nvram_of_bytes [OF nd(1)] by auto
  then have "set_mac_info fi km (Some (flash_cfi_dev nc did name)) mem g s = Some (Some ?m, s')"
    using nd(2,3) km by (simp add: set_mac_info_def)
  moreover have "length (ucaBaseMacAddr nd) = 6" using nd(1) by (simp add: nvram_wf_def)
  ultimately show ?thesis using mac_table_get [OF ulId, of "ucaBaseMacAddr nd" "ulNumMacAddrs nd" buf]
    by (auto simp: mac_table_def)
qed

lemma set_mac_info_size_witness:
  "\<exists>m s'. set_mac_info sim_layout (\<lambda>z. True) sim_dev (replicate 300 0) None
      (sim_board (nvram_bytes (sim_nvram\<lparr>ulNumMacAddrs := 16\<rparr>)) sim_bad_tag sim_bad_tag) = Some (Some m, s') \<and>
    kerSysGetMacAddress (Some m) (replicate 6 0) 7 = None"
proof -
  let ?nd = "sim_nvram\<lparr>ulNumMacAddrs := 16\<rparr>"
  have wf: "nvram_wf ?nd" using sim_nvram_wf(1) [of 0] by (simp add: nvram_wf_def)
  note board = sim_board_tags [OF length_nvram_bytes [OF wf] sim_tag_simps(2) sim_tag_simps(2)]
  show ?thesis
    using set_mac_info_size [where km = "\<lambda>z. True" and mem = "replicate 300 0" and fi = sim_layout and g = None
        and ulId = 7 and buf = "replicate 6 0", OF nor8.amd_chip_axioms board(1) sim_layout_placed(2) _ _ wf _ _ board(4)]
    by (simp, blast)
qed

end
