(* ===== verification/Spi_Flash.thy ===== *)
theory Spi_Flash
  imports Flash_Api
begin

text \<open>
  The serial flash driver of \<open>spiflash.c\<close>: identification of the part, the sector table,
  the status polling, reading, erasing, and the three ways of programming (auto address increment by
  bytes or by words, and page program).  The SPI controller with the chip behind it is an argument: one
  transfer, given the values of \<open>spiMsgCtl\<close>, of the message bytes and of
  \<open>spiCmd\<close>, returns the receive fifo, or nothing when \<open>SPI_INTR_CMD_DONE\<close> is
  never set.  A loop that waits for the chip may not end; the call then has the value
  \<^term>\<open>None\<close>.
\<close>

section \<open>State\<close>

datatype spi_family =
  SPI_FLASH_UNDEFINED | SPI_FLASH_SST | SPI_FLASH_ATMEL | SPI_FLASH_AMD | SPI_FLASH_SPAN | SPI_FLASH_NX | SPI_FLASH_KH

datatype spi_status = SPI_STATUS_READY | SPI_STATUS_TIMEOUT | SPI_STATUS_ERROR

abbreviation (input) SPI_STATUS_OK :: int where "SPI_STATUS_OK \<equiv> 0"
abbreviation (input) MAX_READ :: nat where "MAX_READ \<equiv> 60"
abbreviation (input) FLASH_READ :: u8 where "FLASH_READ \<equiv> 0x03"
abbreviation (input) SPI_PROG :: u8 where "SPI_PROG \<equiv> 0x02"
abbreviation (input) FLASH_WREN :: u8 where "FLASH_WREN \<equiv> 0x06"
abbreviation (input) FLASH_WRDI :: u8 where "FLASH_WRDI \<equiv> 0x04"
abbreviation (input) FLASH_RDSR :: u8 where "FLASH_RDSR \<equiv> 0x05"
abbreviation (input) FLASH_WRST :: u8 where "FLASH_WRST \<equiv> 0x01"
abbreviation (input) FLASH_EWSR :: u8 where "FLASH_EWSR \<equiv> 0x50"
abbreviation (input) FLASH_WORD_AAI :: u8 where "FLASH_WORD_AAI \<equiv> 0xAD"
abbreviation (input) FLASH_AAI :: u8 where "FLASH_AAI \<equiv> 0xAF"
abbreviation (input) SR_BP :: u8 where "SR_BP \<equiv> 0x1c"
abbreviation (input) SR_WPEN_BP :: u8 where "SR_WPEN_BP \<equiv> 0x9c"
abbreviation (input) SR_WEN :: u8 where "SR_WEN \<equiv> 0x02"
abbreviation (input) SR_RDY :: u8 where "SR_RDY \<equiv> 0x01"

record spi_sec =
  spi_size :: int
  spi_base :: int

record 's spi_state =
  spi_nsect :: int
  spi_secs :: "spi_sec list"
  spi_totalSize :: int
  spi_flashFamily :: spi_family
  sstAaiWordProgram :: bool
  spi_chip :: 's

record 's spi_bus =
  spi_transfer :: "u8 \<Rightarrow> bytes \<Rightarrow> u16 \<Rightarrow> 's \<Rightarrow> (bytes \<times> 's) option"

section \<open>Transfers\<close>

definition spi_read :: "'s spi_bus \<Rightarrow> bytes \<Rightarrow> nat \<Rightarrow> nat \<Rightarrow> 's \<Rightarrow> (int \<times> bytes \<times> 's) option" where
  "spi_read bus msg_buf prependcnt nbytes c =
     do {
       c_assert (prependcnt \<le> 63);
       tx \<leftarrow> mem_read 0 (int prependcnt) msg_buf;
       (fifo, c) \<leftarrow> spi_transfer bus (of_nat nbytes OR push_bit 6 2) tx (3 OR push_bit 8 (of_nat prependcnt)) c;
       rx \<leftarrow> mem_read 0 (int nbytes) fifo;
       msg_buf \<leftarrow> mem_write 0 rx msg_buf;
       Some (SPI_STATUS_OK, msg_buf, c)
     }"

definition spi_write :: "'s spi_bus \<Rightarrow> bytes \<Rightarrow> nat \<Rightarrow> 's \<Rightarrow> (int \<times> 's) option" where
  "spi_write bus msg_buf nbytes c =
     do {
       c_assert (nbytes \<le> 63);
       tx \<leftarrow> mem_read 0 (int nbytes) msg_buf;
       (_, c) \<leftarrow> spi_transfer bus (of_nat nbytes OR push_bit 6 1) tx 3 c;
       Some (SPI_STATUS_OK, c)
     }"

section \<open>Status\<close>

primrec spi_status_loop :: "'s spi_bus \<Rightarrow> nat \<Rightarrow> 's \<Rightarrow> (spi_status \<times> 's) option" where
  "spi_status_loop bus 0 c = Some (SPI_STATUS_TIMEOUT, c)"
| "spi_status_loop bus (Suc retry) c =
     do {
       (rc, buf, c) \<leftarrow> spi_read bus [FLASH_RDSR] 1 1 c;
       if rc = SPI_STATUS_OK then
         (if hd buf AND SR_RDY = 0 then Some (SPI_STATUS_READY, c) else spi_status_loop bus retry c)
       else Some (SPI_STATUS_ERROR, c)
     }"

text \<open>The loop condition \<open>retry--\<close> starts at 10, so the body runs up to eleven times.\<close>

definition spi_flash_status :: "'s spi_bus \<Rightarrow> 's \<Rightarrow> (spi_status \<times> 's) option" where
  "spi_flash_status bus c = spi_status_loop bus 11 c"

partial_function (option) spi_wait :: "'s spi_bus \<Rightarrow> 's \<Rightarrow> 's option" where
  "spi_wait bus c =
     do {
       (st, c) \<leftarrow> spi_flash_status bus c;
       if st \<noteq> SPI_STATUS_READY then spi_wait bus c else Some c
     }"

definition spi_flash_reset_ub :: "'s spi_bus \<Rightarrow> spi_family \<Rightarrow> 's \<Rightarrow> (int \<times> 's) option" where
  "spi_flash_reset_ub bus fam c =
     (if fam = SPI_FLASH_UNDEFINED then Some (FLASH_API_ERROR, c)
      else do {
        (_, c) \<leftarrow> spi_write bus [FLASH_WRDI] 1 c;
        c \<leftarrow> spi_wait bus c;
        Some (FLASH_API_OK, c)
      })"

definition spi_flash_reset :: "'s spi_bus \<Rightarrow> spi_family \<Rightarrow> 's \<Rightarrow> (int \<times> 's) option" where
  "spi_flash_reset bus fam c =
     (if fam = SPI_FLASH_UNDEFINED then Some (FLASH_API_ERROR, c)
      else do {
        (_, c) \<leftarrow> spi_flash_reset_ub bus fam c;
        c \<leftarrow> spi_wait bus c;
        Some (FLASH_API_OK, c)
      })"

definition spi_flash_write_status :: "'s spi_bus \<Rightarrow> spi_family \<Rightarrow> u8 \<Rightarrow> 's \<Rightarrow> (int \<times> 's) option" where
  "spi_flash_write_status bus fam status c =
     (if fam = SPI_FLASH_UNDEFINED then Some (FLASH_API_ERROR, c)
      else do {
        (rc, c) \<leftarrow>
          (if fam = SPI_FLASH_SST \<or> fam = SPI_FLASH_KH then spi_write bus [FLASH_EWSR] 1 c
           else if fam = SPI_FLASH_SPAN then spi_write bus [FLASH_WREN] 1 c
           else Some (SPI_STATUS_OK, c));
        c \<leftarrow>
          (if rc = SPI_STATUS_OK then
             do {
               (rc, c) \<leftarrow> spi_write bus [FLASH_WRST, status AND SR_WPEN_BP] 2 c;
               if rc = SPI_STATUS_OK then spi_wait bus c else Some c
             }
           else Some c);
        Some (FLASH_API_OK, c)
      })"

text \<open>
  The two loops of \<open>spi_flash_ub\<close>: lift the block protection, and wait for the write enable latch.
  One pass of the first loop leaves it (\<open>Inl\<close>) or is followed by another one (\<open>Inr\<close>).
\<close>

definition spi_unprotect_pass :: "'s spi_bus \<Rightarrow> spi_family \<Rightarrow> 's \<Rightarrow> ('s + 's) option" where
  "spi_unprotect_pass bus fam c =
     do {
       (rc, buf, c) \<leftarrow> spi_read bus [FLASH_RDSR] 1 1 c;
       if rc = SPI_STATUS_OK then
         do {
           c \<leftarrow> spi_wait bus c;
           if hd buf AND SR_BP \<noteq> 0 then
             do {
               (_, c) \<leftarrow> spi_flash_write_status bus fam (NOT SR_WPEN_BP) c;
               Some (Inr c)
             }
           else Some (Inl c)
         }
       else Some (Inl c)
     }"

partial_function (option) spi_unprotect :: "'s spi_bus \<Rightarrow> spi_family \<Rightarrow> 's \<Rightarrow> 's option" where
  "spi_unprotect bus fam c =
     do {
       r \<leftarrow> spi_unprotect_pass bus fam c;
       case r of Inl c \<Rightarrow> Some c | Inr c \<Rightarrow> spi_unprotect bus fam c
     }"

partial_function (option) spi_await_wen :: "'s spi_bus \<Rightarrow> 's \<Rightarrow> 's option" where
  "spi_await_wen bus c =
     do {
       (rc, buf, c) \<leftarrow> spi_read bus [FLASH_RDSR] 1 1 c;
       if rc = SPI_STATUS_OK then
         do {
           c \<leftarrow> spi_wait bus c;
           if hd buf AND SR_WEN \<noteq> 0 then Some c else spi_await_wen bus c
         }
       else Some c
     }"

definition spi_flash_ub :: "'s spi_bus \<Rightarrow> spi_family \<Rightarrow> 's \<Rightarrow> (int \<times> 's) option" where
  "spi_flash_ub bus fam c =
     do {
       c \<leftarrow> spi_unprotect bus fam c;
       (rc, c) \<leftarrow> spi_write bus [FLASH_WREN] 1 c;
       c \<leftarrow>
         (if rc = SPI_STATUS_OK then
            do {
              c \<leftarrow> spi_wait bus c;
              spi_await_wen bus c
            }
          else Some c);
       Some (FLASH_API_OK, c)
     }"

section \<open>Sectors\<close>

definition spi_sec_at :: "int \<Rightarrow> 's spi_state \<Rightarrow> spi_sec option" where
  "spi_sec_at sector s =
     (if 0 \<le> sector \<and> sector < int (length (spi_secs s)) then Some (spi_secs s ! nat sector) else None)"

definition spi_flash_get_numsectors :: "'s spi_state \<Rightarrow> int" where
  "spi_flash_get_numsectors s = spi_nsect s"

definition spi_flash_get_sector_size :: "int \<Rightarrow> 's spi_state \<Rightarrow> int option" where
  "spi_flash_get_sector_size sector s = map_option spi_size (spi_sec_at sector s)"

definition spi_get_flash_memptr :: "int \<Rightarrow> 's spi_state \<Rightarrow> int option" where
  "spi_get_flash_memptr sector s = map_option (\<lambda>e. u32 (FLASH_BASE + spi_base e)) (spi_sec_at sector s)"

definition spi_flash_get_memptr :: "int \<Rightarrow> 's spi_state \<Rightarrow> int option" where
  "spi_flash_get_memptr sector s = spi_get_flash_memptr sector s"

function spi_blk_loop :: "'s spi_state \<Rightarrow> int \<Rightarrow> int \<Rightarrow> int \<Rightarrow> (int \<times> int) option" where
  "spi_blk_loop s relative_addr blk_start i =
     (if i < relative_addr \<and> blk_start < spi_flash_get_numsectors s then
        do {
          sz \<leftarrow> spi_flash_get_sector_size (u16 blk_start) s;
          spi_blk_loop s relative_addr (blk_start + 1) (s32 (i + sz))
        }
      else Some (blk_start, i))"
  by pat_completeness auto
termination
  by (relation "measure (\<lambda>(s, r, b, i). nat (spi_flash_get_numsectors s - b))") auto

declare spi_blk_loop.simps [simp del]

definition spi_flash_get_blk :: "int \<Rightarrow> 's spi_state \<Rightarrow> int option" where
  "spi_flash_get_blk a s =
     (let relative_addr = s32 (a - s32 FLASH_BASE) in
      do {
        (blk_start, i) \<leftarrow> spi_blk_loop s relative_addr 0 0;
        Some (if u32 i > u32 relative_addr then blk_start - 1
              else if blk_start = spi_flash_get_numsectors s then -1
              else blk_start)
      })"

definition spi_flash_get_total_size :: "'s spi_state \<Rightarrow> int" where
  "spi_flash_get_total_size s = spi_totalSize s"

text \<open>\<open>MAX_MEMORY_MAPPED_SIZE\<close> is 0: the array is not mapped.\<close>

definition spi_flash_get_total_memory_mapped_size :: "'s spi_state \<Rightarrow> int" where
  "spi_flash_get_total_memory_mapped_size s = (if spi_totalSize s < 0 then spi_totalSize s else 0)"

section \<open>Erasing and reading\<close>

text \<open>The three address bytes of a command.\<close>

definition addr_bytes :: "u32 \<Rightarrow> bytes" where
  "addr_bytes a =
     [ucast (drop_bit 16 (a AND 0x00ff0000)), ucast (drop_bit 8 (a AND 0x0000ff00)), ucast (a AND 0x000000ff)]"

fun erase_opcode :: "spi_family \<Rightarrow> u8" where
  "erase_opcode SPI_FLASH_SST = 0x20"
| "erase_opcode SPI_FLASH_KH = 0x20"
| "erase_opcode SPI_FLASH_ATMEL = 0x52"
| "erase_opcode SPI_FLASH_AMD = 0xD8"
| "erase_opcode SPI_FLASH_NX = 0xD8"
| "erase_opcode SPI_FLASH_SPAN = 0xD8"
| "erase_opcode SPI_FLASH_UNDEFINED = 0"

definition spi_flash_sector_erase_int :: "'s spi_bus \<Rightarrow> int \<Rightarrow> 's spi_state \<Rightarrow> (int \<times> 's spi_state) option" where
  "spi_flash_sector_erase_int bus sector s =
     (if spi_flashFamily s = SPI_FLASH_UNDEFINED then Some (FLASH_API_ERROR, s)
      else do {
        (_, c) \<leftarrow> spi_flash_reset bus (spi_flashFamily s) (spi_chip s);
        (_, c) \<leftarrow> spi_flash_ub bus (spi_flashFamily s) c;
        p \<leftarrow> spi_get_flash_memptr sector s;
        (rc, c) \<leftarrow> spi_write bus (erase_opcode (spi_flashFamily s) # addr_bytes (of_int p)) 4 c;
        c \<leftarrow> (if rc = SPI_STATUS_OK then spi_wait bus c else Some c);
        Some (FLASH_API_OK, s\<lparr>spi_chip := c\<rparr>)
      })"

text \<open>\<open>buffer\<close> is written from index \<open>idx\<close>; the first four bytes of the 60-byte message are the command.\<close>

function spi_read_loop ::
  "'s spi_bus \<Rightarrow> u32 \<Rightarrow> bytes \<Rightarrow> nat \<Rightarrow> int \<Rightarrow> 's \<Rightarrow> (bytes \<times> 's) option" where
  "spi_read_loop bus addr buffer idx numbytes c =
     (if numbytes > 0 then
        (let maxread = (if numbytes < int MAX_READ then nat numbytes else MAX_READ) in
         do {
           (_, buf, c) \<leftarrow> spi_read bus (FLASH_READ # addr_bytes addr @ replicate 56 0) 4 maxread c;
           c \<leftarrow> spi_wait bus c;
           buffer \<leftarrow> mem_write (int idx) (take maxread buf) buffer;
           spi_read_loop bus (addr + of_nat maxread) buffer (idx + maxread) (numbytes - int maxread) c
         })
      else Some (buffer, c))"
  by pat_completeness auto
termination
  by (relation "measure (\<lambda>(bus, addr, buffer, idx, n, c). nat n)") auto

declare spi_read_loop.simps [simp del]

definition spi_flash_read_buf ::
  "'s spi_bus \<Rightarrow> int \<Rightarrow> int \<Rightarrow> bytes \<Rightarrow> int \<Rightarrow> 's spi_state \<Rightarrow> (int \<times> bytes \<times> 's spi_state) option" where
  "spi_flash_read_buf bus sector offset buffer numbytes s =
     (if spi_flashFamily s = SPI_FLASH_UNDEFINED then Some (FLASH_API_ERROR, buffer, s)
      else do {
        (_, c) \<leftarrow> spi_flash_reset bus (spi_flashFamily s) (spi_chip s);
        p \<leftarrow> spi_get_flash_memptr sector s;
        (buffer, c) \<leftarrow> spi_read_loop bus (of_int (p + offset)) buffer 0 numbytes c;
        Some (FLASH_API_OK, buffer, s\<lparr>spi_chip := c\<rparr>)
      })"

section \<open>Programming\<close>

text \<open>
  The loops return how far they moved \<open>pbuf\<close>; \<open>pbuf\<close> is what is left of the
  buffer.  First, auto address increment by one byte and by two bytes: the first command carries the
  address.
\<close>

fun spi_aai_loop :: "'s spi_bus \<Rightarrow> u32 \<Rightarrow> bool \<Rightarrow> bytes \<Rightarrow> int \<Rightarrow> 's \<Rightarrow> (nat \<times> 's) option" where
  "spi_aai_loop bus dst first [] nbytes c = (if nbytes \<noteq> 0 then None else Some (0, c))"
| "spi_aai_loop bus dst first (b # pbuf) nbytes c =
     (if nbytes \<noteq> 0 then
        do {
          (_, c) \<leftarrow> (if \<not> first then spi_write bus [FLASH_AAI, b] 2 c
                     else spi_write bus (FLASH_AAI # addr_bytes dst @ [b]) 5 c);
          c \<leftarrow> spi_wait bus c;
          (k, c) \<leftarrow> spi_aai_loop bus dst False pbuf (nbytes - 1) c;
          Some (k + 1, c)
        }
      else Some (0, c))"

fun spi_word_aai_loop :: "'s spi_bus \<Rightarrow> u32 \<Rightarrow> bool \<Rightarrow> bytes \<Rightarrow> int \<Rightarrow> 's \<Rightarrow> (nat \<times> 's) option" where
  "spi_word_aai_loop bus dst first (b # b' # pbuf) nbytes c =
     (if nbytes \<noteq> 0 then
        do {
          (_, c) \<leftarrow> (if \<not> first then spi_write bus [FLASH_WORD_AAI, b, b'] 3 c
                     else spi_write bus (FLASH_WORD_AAI # addr_bytes dst @ [b, b']) 6 c);
          c \<leftarrow> spi_wait bus c;
          (k, c) \<leftarrow> spi_word_aai_loop bus dst False pbuf (nbytes - 2) c;
          Some (k + 2, c)
        }
      else Some (0, c))"
| "spi_word_aai_loop bus dst first _ nbytes c = (if nbytes \<noteq> 0 then None else Some (0, c))"

text \<open>The bytes of one page program command: at most what the message holds, and not over the end of a page.\<close>

definition spi_maxwrite :: "int \<Rightarrow> u32 \<Rightarrow> int" where
  "spi_maxwrite nbytes dst =
     (let maxwrite = (if u32 nbytes < 59 then nbytes else 59); pagelimit = 256 - uint (dst AND 0xff) in
      if maxwrite < pagelimit then maxwrite else pagelimit)"

definition spi_program :: "'s spi_bus \<Rightarrow> bytes \<Rightarrow> u32 \<Rightarrow> 's \<Rightarrow> 's option" where
  "spi_program bus data dst c =
     do {
       (_, c) \<leftarrow> spi_write bus (SPI_PROG # addr_bytes dst @ data) (length data + 4) c;
       spi_wait bus c
     }"

lemma spi_pagelimit: "1 \<le> 256 - uint (dst AND 0xff :: u32)"
  using and_less_eq [of "0xff" "uint dst"] AND_upper2 [of "0xff" "uint dst"] by (simp add: uint_and)

lemma spi_maxwrite_pos: "0 < n \<Longrightarrow> 0 < spi_maxwrite n dst"
  using spi_pagelimit [of dst] by (simp add: spi_maxwrite_def Let_def)

function spi_page_loop ::
  "'s spi_bus \<Rightarrow> spi_family \<Rightarrow> bytes \<Rightarrow> int \<Rightarrow> u32 \<Rightarrow> 's \<Rightarrow> (nat \<times> 's) option" where
  "spi_page_loop bus fam pbuf nbytes dst c =
     (if nbytes > 0 then
        (let maxwrite = spi_maxwrite nbytes dst in
         do {
           (_, c) \<leftarrow> spi_flash_ub bus fam c;
           data \<leftarrow> mem_read 0 maxwrite pbuf;
           c \<leftarrow> spi_program bus data dst c;
           (k, c) \<leftarrow> spi_page_loop bus fam (drop (nat maxwrite) pbuf) (nbytes - maxwrite) (dst + of_int maxwrite) c;
           Some (k + nat maxwrite, c)
         })
      else Some (0, c))"
  by pat_completeness auto
termination
  by (relation "measure (\<lambda>(bus, fam, pbuf, n, dst, c). nat n)") (auto dest: spi_maxwrite_pos)

declare spi_page_loop.simps [simp del]

text \<open>
  The variant for NexFlash parts writes pairs of bytes.  A last single byte is paired with
  \<open>btmp2[1]\<close> in the array \<open>btmp2\<close>, to which \<open>pbuf\<close> then points
  (\<open>moved\<close>).
\<close>

partial_function (option) spi_nx_loop ::
  "'s spi_bus \<Rightarrow> spi_family \<Rightarrow> u8 \<Rightarrow> bool \<Rightarrow> bytes \<Rightarrow> int \<Rightarrow> u32 \<Rightarrow> 's \<Rightarrow> (bool \<times> nat \<times> 's) option" where
  "spi_nx_loop bus fam btmp21 moved pbuf nbytes dst c =
     (if nbytes \<noteq> 0 then
        do {
          (moved, pbuf, nbytes) \<leftarrow>
            (if nbytes = 1 then do { b \<leftarrow> mem_read 0 1 pbuf; Some (True, b @ [btmp21], 2) }
             else Some (moved, pbuf, nbytes));
          (_, c) \<leftarrow> spi_flash_ub bus fam c;
          let maxwrite = spi_maxwrite nbytes dst;
          let maxwrite = (if maxwrite mod 2 = 1 then maxwrite - 1 else maxwrite);
          data \<leftarrow> mem_read 0 maxwrite pbuf;
          c \<leftarrow> spi_program bus data dst c;
          (moved, k, c) \<leftarrow>
            spi_nx_loop bus fam btmp21 moved (drop (nat maxwrite) pbuf) (nbytes - maxwrite) (dst + of_int maxwrite) c;
          Some (moved, k + nat maxwrite, c)
        }
      else Some (moved, 0, c))"

definition spi_nx_write ::
  "'s spi_bus \<Rightarrow> int \<Rightarrow> int \<Rightarrow> bytes \<Rightarrow> int \<Rightarrow> u32 \<Rightarrow> 's spi_state \<Rightarrow> (bool \<times> nat \<times> 's spi_state) option" where
  "spi_nx_write bus sector offset pbuf nbytes dst s =
     (let head = (0 < offset \<and> odd offset) in
      do {
        (btmp1, pbuf, dst, s) \<leftarrow>
          (if head then
             do {
               (_, t, s) \<leftarrow> spi_flash_read_buf bus sector (offset - 1) [0] 1 s;
               b \<leftarrow> mem_read 0 1 pbuf;
               Some (t @ b, drop 1 pbuf, dst - 1, s)
             }
           else Some ([], pbuf, dst, s));
        (btmp21, s) \<leftarrow>
          (if (head \<and> even nbytes) \<or> (even offset \<and> 0 < nbytes \<and> odd nbytes) then
             do {
               (_, t, s) \<leftarrow> spi_flash_read_buf bus sector (offset + nbytes) [0] 1 s;
               Some (hd t, s)
             }
           else Some (0, s));
        (nbytes, dst, c) \<leftarrow>
          (if head then
             do {
               (_, c) \<leftarrow> spi_flash_ub bus (spi_flashFamily s) (spi_chip s);
               c \<leftarrow> spi_program bus btmp1 dst c;
               Some (nbytes - 1, dst + 2, c)
             }
           else Some (nbytes, dst, spi_chip s));
        (moved, k, c) \<leftarrow> spi_nx_loop bus (spi_flashFamily s) btmp21 False pbuf nbytes dst c;
        Some (moved, (if head then k + 1 else k), s\<lparr>spi_chip := c\<rparr>)
      })"

text \<open>
  The result is \<open>pbuf - buf\<close>.  When \<open>pbuf\<close> was moved to \<open>btmp2\<close>
  this is a difference of pointers to different objects, which has no value.
\<close>

definition spi_flash_write ::
  "'s spi_bus \<Rightarrow> int \<Rightarrow> int \<Rightarrow> bytes \<Rightarrow> int \<Rightarrow> 's spi_state \<Rightarrow> (int \<times> 's spi_state) option" where
  "spi_flash_write bus sector offset buf nbytes s =
     do {
       p \<leftarrow> spi_get_flash_memptr sector s;
       let fam = spi_flashFamily s;
       let dst = of_int (p + offset);
       case fam of
         SPI_FLASH_SST \<Rightarrow>
           do {
             (_, c) \<leftarrow> spi_flash_ub bus fam (spi_chip s);
             (k, c) \<leftarrow> (if \<not> sstAaiWordProgram s then spi_aai_loop bus dst True buf nbytes c
                        else spi_word_aai_loop bus dst True buf nbytes c);
             (_, c) \<leftarrow> spi_flash_reset_ub bus fam c;
             c \<leftarrow> spi_wait bus c;
             Some (int k, s\<lparr>spi_chip := c\<rparr>)
           }
       | SPI_FLASH_NX \<Rightarrow>
           do {
             (moved, k, s) \<leftarrow> spi_nx_write bus sector offset buf nbytes dst s;
             c_assert (\<not> moved);
             Some (int k, s)
           }
       | SPI_FLASH_UNDEFINED \<Rightarrow> Some (0, s)
       | _ \<Rightarrow>
           do {
             (k, c) \<leftarrow> spi_page_loop bus fam buf nbytes dst (spi_chip s);
             Some (int k, s\<lparr>spi_chip := c\<rparr>)
           }
     }"

definition spi_flash_write_buf ::
  "'s spi_bus \<Rightarrow> int \<Rightarrow> int \<Rightarrow> bytes \<Rightarrow> int \<Rightarrow> 's spi_state \<Rightarrow> (int \<times> 's spi_state) option" where
  "spi_flash_write_buf bus sector offset buffer numbytes s =
     (if spi_flashFamily s = SPI_FLASH_UNDEFINED then Some (FLASH_API_ERROR, s)
      else spi_flash_write bus sector offset buffer numbytes s)"

definition flash_spi_dev :: "'s spi_bus \<Rightarrow> u16 \<Rightarrow> string \<Rightarrow> 's spi_state flash_device_info" where
  "flash_spi_dev bus did name =
     \<lparr>flash_device_id = did, flash_device_name = name,
      fn_flash_sector_erase_int = spi_flash_sector_erase_int bus,
      fn_flash_read_buf = spi_flash_read_buf bus,
      fn_flash_write_buf = spi_flash_write_buf bus,
      fn_flash_get_numsectors = spi_flash_get_numsectors,
      fn_flash_get_sector_size = spi_flash_get_sector_size,
      fn_flash_get_memptr = spi_flash_get_memptr,
      fn_flash_get_blk = spi_flash_get_blk,
      fn_flash_get_total_size = spi_flash_get_total_size,
      fn_flash_get_total_memory_mapped_size = spi_flash_get_total_memory_mapped_size\<rparr>"

section \<open>Identification\<close>

primrec spi_id_poll :: "'s spi_bus \<Rightarrow> nat \<Rightarrow> bool \<Rightarrow> 's \<Rightarrow> (bool \<times> 's) option" where
  "spi_id_poll bus 0 match c = Some (False, c)"
| "spi_id_poll bus (Suc j) match c =
     do {
       (st, c) \<leftarrow> spi_flash_status bus c;
       if st = SPI_STATUS_READY \<and> match then Some (True, c) else spi_id_poll bus j match c
     }"

text \<open>Up to three reads of an id; \<open>cmd\<close> is stored at the start of the four bytes \<open>buf\<close>.\<close>

primrec spi_id_try ::
  "'s spi_bus \<Rightarrow> nat \<Rightarrow> bytes \<Rightarrow> nat \<Rightarrow> (bytes \<Rightarrow> bool) \<Rightarrow> bytes \<Rightarrow> 's \<Rightarrow> (bool \<times> bytes \<times> 's) option" where
  "spi_id_try bus 0 cmd n match buf c = Some (False, buf, c)"
| "spi_id_try bus (Suc i) cmd n match buf c =
     do {
       (_, buf, c) \<leftarrow> spi_read bus (cmd @ drop (length cmd) buf) (length cmd) n c;
       (hit, c) \<leftarrow> spi_id_poll bus 30 (match buf) c;
       if hit then Some (True, buf, c) else spi_id_try bus i cmd n match buf c
     }"

definition id_of :: "bytes \<Rightarrow> u16" where
  "id_of buf = push_bit 8 (ucast (buf ! 0)) OR ucast (buf ! 1)"

definition spi_flash_get_device_id :: "'s spi_bus \<Rightarrow> spi_family \<Rightarrow> 's \<Rightarrow> (u16 \<times> 's) option" where
  "spi_flash_get_device_id bus fam c =
     do {
       (hit, buf, c) \<leftarrow> spi_id_try bus 3 [0x90, 0, 0, 0] 2 (\<lambda>buf. hd buf \<in> {0xBF, 0xEF, 0x14}) [0, 0, 0, 0] c;
       if hit then Some (id_of buf, c)
       else do {
         (_, c) \<leftarrow> spi_flash_reset bus fam c;
         (hit, buf, c) \<leftarrow> spi_id_try bus 3 [0x15] 2 (\<lambda>buf. hd buf = 0x1F) buf c;
         if hit then Some (id_of buf, c)
         else do {
           (_, c) \<leftarrow> spi_flash_reset bus fam c;
           (hit, buf, c) \<leftarrow> spi_id_try bus 3 [0x9F] 3 (\<lambda>buf. hd buf = 0x01 \<and> buf ! 1 = 0x02) buf c;
           if hit then Some (id_of (buf[1 := buf ! 2]), c)
           else do {
             (_, c) \<leftarrow> spi_flash_reset bus fam c;
             (_, buf, c) \<leftarrow> spi_id_try bus 3 [0xAB, 0, 0, 0] 2 (\<lambda>buf. hd buf \<in> {0x11, 0x12}) buf c;
             Some (id_of buf, c)
           }
         }
       }
     }"

definition SPI_FLASH_DEVICES :: "(u16 \<times> string) list" where
  "SPI_FLASH_DEVICES =
    [(0x1F60, ''AT25F512''), (0x1F63, ''AT25F2048''), (0x1100, ''AMD_S25FL002D''),
     (0xBF41, ''SST25VF016B''), (0xBF43, ''SST25VF020''), (0xBF44, ''SST25VF040''), (0xBF80, ''SST25VF080''),
     (0xEF11, ''NX25P20''), (0xEF12, ''NX25P40''), (0x1212, ''M25P40''),
     (0x0112, ''S25FL004A''), (0x0113, ''S25FL008A''), (0x0114, ''S25FL016A''), (0x0115, ''S25FL032A''),
     (0xEF14, ''NXW25P16''), (0x1414, ''KH25L1605'')]"

text \<open>
  The switch over the manufacturer and device bytes: family, number and size of the sectors, the
  id to look up the name with, and whether to set \<open>sstAaiWordProgram\<close>.
\<close>

definition spi_part :: "u16 \<Rightarrow> (spi_family \<times> nat \<times> int \<times> u16 \<times> bool) option" where
  "spi_part device_id =
     (let part = device_id AND 0x00ff; x = drop_bit 8 device_id in
          if x = 0x1F then
            Some (if part = 0x60 then (SPI_FLASH_ATMEL, 2, 0x8000, device_id, False)
                  else if part = 0x63 then (SPI_FLASH_ATMEL, 4, 0x10000, device_id, False)
                  else (SPI_FLASH_ATMEL, 0, 0, device_id, False))
          else if x = 0xBF then
            Some (SPI_FLASH_SST,
              (if part = 0x41 then 512 else if part = 0x80 then 256 else if part = 0x44 then 128 else 64),
              0x1000, device_id, part = 0x41)
          else if x = 0x14 then Some (SPI_FLASH_KH, (if part = 0x14 then 512 else 0), 0x1000, device_id, False)
          else if x = 0x11 then Some (SPI_FLASH_AMD, 4, 0x10000, device_id AND 0xff00, False)
          else if x = 0xEF then
            Some (SPI_FLASH_NX, (if part = 0x11 then 4 else if part = 0x12 then 8 else if part = 0x14 then 32 else 0),
              0x10000, device_id, False)
          else if x = 0x12 then Some (SPI_FLASH_AMD, 8, 0x10000, device_id, False)
          else if x = 0x01 then
            Some (SPI_FLASH_SPAN,
              (if part = 0x15 then 64 else if part = 0x14 then 32 else if part = 0x13 then 16 else 8),
              0x10000, device_id, False)
          else None)"

primrec spi_fill :: "nat \<Rightarrow> int \<Rightarrow> nat \<times> int \<times> spi_sec list \<Rightarrow> nat \<times> int \<times> spi_sec list" where
  "spi_fill 0 sectorsize t = t"
| "spi_fill (Suc k) sectorsize t =
     (let (i, basecount, secs) = t in
      spi_fill k sectorsize
        (i + 1, basecount + sectorsize, secs[i := \<lparr>spi_size = sectorsize, spi_base = basecount\<rparr>]))"

text \<open>
  \<open>name\<close> is \<open>flash_device_name\<close> before the call.  With no sector the total
  size is read from \<open>sec[-1]\<close>, outside of the table.
\<close>

definition spi_flash_init ::
  "'s spi_bus \<Rightarrow> string \<Rightarrow> 's spi_state \<Rightarrow> (int \<times> 's spi_state flash_device_info \<times> 's spi_state) option" where
  "spi_flash_init bus name s =
     do {
       (device_id, c) \<leftarrow> spi_flash_get_device_id bus (spi_flashFamily s) (spi_chip s);
       let s = s\<lparr>spi_chip := c\<rparr>;
       (case spi_part device_id of
          None \<Rightarrow>
            Some (FLASH_API_ERROR, flash_spi_dev bus device_id name,
              s\<lparr>spi_nsect := 1, spi_secs := (spi_secs s)[0 := \<lparr>spi_size = 0x1000, spi_base = 0\<rparr>]\<rparr>)
        | Some (fam, numsector, sectorsize, key, aai) \<Rightarrow>
            do {
              let (count, _, secs) = spi_fill numsector sectorsize (0, 0, spi_secs s);
              c_assert (0 < count);
              let last = secs ! (count - 1);
              Some (FLASH_API_OK,
                flash_spi_dev bus device_id (case map_of SPI_FLASH_DEVICES key of Some n \<Rightarrow> n | None \<Rightarrow> name),
                s\<lparr>spi_nsect := int numsector, spi_secs := secs, spi_totalSize := spi_base last + spi_size last,
                  spi_flashFamily := fam, sstAaiWordProgram := sstAaiWordProgram s \<or> aai\<rparr>)
            })
     }"

end
