(* ===== verification/Spi_Driver.thy ===== *)
theory Spi_Driver
  imports Spi_Flash Cfi_Geometry
begin

text \<open>
  The serial driver keeps the contract of \<^verbatim>\<open>Flash_Api\<close> on every part with page
  program, i.e. of the families other than SST, as long as none of its blocks is protected.  The part is
  described by what its data sheet promises of a transfer: the status register with its busy, write
  enable and protection bits, the write enable latch, reading, programming within a page, which can only
  clear bits, and erasing a sector.  What the driver does with a protected part is the last section.
\<close>

section \<open>Definitions\<close>

text \<open>One transfer that reads \<open>n\<close> bytes after the message \<open>tx\<close>, and one that writes \<open>tx\<close>.\<close>

definition spi_rd :: "'s spi_bus \<Rightarrow> bytes \<Rightarrow> nat \<Rightarrow> 's \<Rightarrow> (bytes \<times> 's) option" where
  "spi_rd bus tx n c = spi_transfer bus (of_nat n OR push_bit 6 2) tx (3 OR push_bit 8 (of_nat (length tx))) c"

definition spi_wr :: "'s spi_bus \<Rightarrow> bytes \<Rightarrow> 's \<Rightarrow> 's option" where
  "spi_wr bus tx c = map_option snd (spi_transfer bus (of_nat (length tx) OR push_bit 6 1) tx 3 c)"

text \<open>The byte of the array a three-byte address selects: higher address bits are ignored.\<close>

fun spi_pos :: "nat \<Rightarrow> bytes \<Rightarrow> nat" where
  "spi_pos tot [a, b, c] = (unat a * 65536 + unat b * 256 + unat c) mod tot"
| "spi_pos tot _ = 0"

text \<open>Programming clears bits.\<close>

definition and_at :: "nat \<Rightarrow> bytes \<Rightarrow> bytes \<Rightarrow> bytes" where
  "and_at p d xs = take p xs @ map2 (AND) (take (length d) (drop p xs)) d @ drop (p + length d) xs"

definition put_at :: "nat \<Rightarrow> bytes \<Rightarrow> bytes \<Rightarrow> bytes" where
  "put_at p d xs = take p xs @ d @ drop (p + length d) xs"

definition spi_geom :: "'s spi_state \<Rightarrow> nat list \<Rightarrow> bool" where
  "spi_geom s geom \<longleftrightarrow> spi_nsect s = int (length geom) \<and> length (spi_secs s) = 1024 \<and> length geom \<le> 1024 \<and>
     (\<forall>i<length geom. 0 < geom ! i \<and> spi_secs s ! i = \<lparr>spi_size = int (geom ! i), spi_base = int (blk_base geom i)\<rparr>) \<and>
     spi_totalSize s = int (sum_list geom) \<and> sum_list geom \<le> 0x400000"

definition spi_ok :: "spi_family \<Rightarrow> nat list \<Rightarrow> ('s \<Rightarrow> bool) \<Rightarrow> ('s \<Rightarrow> nat) \<Rightarrow> 's spi_state \<Rightarrow> bool" where
  "spi_ok fam geom good busy s \<longleftrightarrow>
     spi_geom s geom \<and> spi_flashFamily s = fam \<and> good (spi_chip s) \<and> busy (spi_chip s) = 0"

definition sector_of :: "nat list \<Rightarrow> bytes \<Rightarrow> nat \<Rightarrow> bytes" where
  "sector_of geom xs i = take (geom ! i) (drop (blk_base geom i) xs)"

definition spi_contents :: "nat list \<Rightarrow> ('s \<Rightarrow> bytes) \<Rightarrow> 's spi_state \<Rightarrow> bytes list" where
  "spi_contents geom cells s = map (sector_of geom (cells (spi_chip s))) [0..<length geom]"

text \<open>What polling leaves unchanged.\<close>

definition settled :: "('s \<Rightarrow> bool) \<Rightarrow> ('s \<Rightarrow> nat) \<Rightarrow> ('s \<Rightarrow> bool) \<Rightarrow> ('s \<Rightarrow> bytes) \<Rightarrow> 's \<Rightarrow> 's \<Rightarrow> bool" where
  "settled good busy wen cells c c' \<longleftrightarrow>
     good c' \<and> busy c' = 0 \<and> cells c' = cells c \<and> (busy c = 0 \<longrightarrow> wen c' = wen c)"

section \<open>The part\<close>

text \<open>
  The status register: \<open>busy c\<close> is the number of reads of it that still show an operation
  in progress, \<open>wen c\<close> the write enable latch, \<open>cells c\<close> the array once that
  operation is complete.
\<close>

locale spi_polled =
  fixes bus :: "'s spi_bus"
    and good :: "'s \<Rightarrow> bool"
    and busy :: "'s \<Rightarrow> nat"
    and wen :: "'s \<Rightarrow> bool"
    and cells :: "'s \<Rightarrow> bytes"
  assumes read_status: "good c \<Longrightarrow> \<exists>st rest c'. spi_rd bus [FLASH_RDSR] 1 c = Some (st # rest, c') \<and> good c' \<and>
          cells c' = cells c \<and> busy c' = busy c - 1 \<and> (st AND SR_RDY = 0 \<longleftrightarrow> busy c = 0) \<and>
          (busy c = 0 \<longrightarrow> (st AND SR_WEN \<noteq> 0 \<longleftrightarrow> wen c) \<and> wen c' = wen c)"

text \<open>A part with page program, in the states in which none of its blocks is protected.\<close>

locale spi_page_chip = spi_polled bus good busy wen cells
  for bus :: "'s spi_bus" and good and busy and wen and cells +
  fixes fam :: spi_family
    and geom :: "nat list"
  assumes family: "fam \<in> {SPI_FLASH_ATMEL, SPI_FLASH_AMD, SPI_FLASH_SPAN, SPI_FLASH_KH, SPI_FLASH_NX}"
    and sectors: "0 < length geom" "length geom \<le> 1024" "n \<in> set geom \<Longrightarrow> 0 < n \<and> even n"
      "sum_list geom \<le> 0x400000" "sum_list geom dvd 0xC00000"
    and cells_length: "good c \<Longrightarrow> length (cells c) = sum_list geom"
    and not_protected: "good c \<Longrightarrow> busy c = 0 \<Longrightarrow>
          \<exists>st rest c'. spi_rd bus [FLASH_RDSR] 1 c = Some (st # rest, c') \<and> st AND SR_BP = 0"
    and write_enable: "good c \<Longrightarrow> busy c = 0 \<Longrightarrow>
          \<exists>c'. spi_wr bus [FLASH_WREN] c = Some c' \<and> good c' \<and> busy c' = 0 \<and> cells c' = cells c \<and> wen c'"
    and write_disable: "good c \<Longrightarrow> busy c = 0 \<Longrightarrow>
          \<exists>c'. spi_wr bus [FLASH_WRDI] c = Some c' \<and> good c' \<and> busy c' = 0 \<and> cells c' = cells c"
    and read_array: "good c \<Longrightarrow> busy c = 0 \<Longrightarrow> length a = 3 \<Longrightarrow> n \<le> 60 \<Longrightarrow> p = spi_pos (sum_list geom) a \<Longrightarrow>
          p + n \<le> sum_list geom \<Longrightarrow>
          \<exists>fifo c'. spi_rd bus (FLASH_READ # a) n c = Some (fifo, c') \<and> n \<le> length fifo \<and>
            take n fifo = take n (drop p (cells c)) \<and> good c' \<and> busy c' = 0 \<and> cells c' = cells c"
    and page_program: "good c \<Longrightarrow> busy c = 0 \<Longrightarrow> wen c \<Longrightarrow> length a = 3 \<Longrightarrow> p = spi_pos (sum_list geom) a \<Longrightarrow>
          0 < length d \<Longrightarrow> length d \<le> 59 \<Longrightarrow> p mod 256 + length d \<le> 256 \<Longrightarrow> p + length d \<le> sum_list geom \<Longrightarrow>
          (fam = SPI_FLASH_NX \<longrightarrow> even p \<and> even (length d)) \<Longrightarrow>
          \<exists>c'. spi_wr bus (SPI_PROG # a @ d) c = Some c' \<and> good c' \<and> cells c' = and_at p d (cells c)"
    and sector_erase: "good c \<Longrightarrow> busy c = 0 \<Longrightarrow> wen c \<Longrightarrow> length a = 3 \<Longrightarrow> i < length geom \<Longrightarrow>
          spi_pos (sum_list geom) a = blk_base geom i \<Longrightarrow>
          \<exists>c'. spi_wr bus (erase_opcode fam # a) c = Some c' \<and> good c' \<and>
            cells c' = put_at (blk_base geom i) (replicate (geom ! i) 0xff) (cells c)"

text \<open>
  A part whose blocks can be protected against programming and erasing: in the states
  \<open>locked\<close> the status register shows it.  Writing 0 to the register lifts the protection
  when the write enable latch is set, and is ignored otherwise; the KH parts have a command of their own
  that allows the write which follows it.
\<close>

locale spi_protectable_chip = spi_page_chip bus good busy wen cells fam geom + lck: spi_polled bus locked busy wen cells
  for bus :: "'s spi_bus" and good and busy and wen and cells and fam and geom and locked +
  assumes locked_length: "locked c \<Longrightarrow> length (cells c) = sum_list geom"
    and locked_status: "locked c \<Longrightarrow> busy c = 0 \<Longrightarrow>
          \<exists>st rest c'. spi_rd bus [FLASH_RDSR] 1 c = Some (st # rest, c') \<and> st AND SR_BP \<noteq> 0"
    and locked_enable: "locked c \<Longrightarrow> busy c = 0 \<Longrightarrow>
          \<exists>c'. spi_wr bus [FLASH_WREN] c = Some c' \<and> locked c' \<and> busy c' = 0 \<and> cells c' = cells c \<and> wen c'"
    and locked_disable: "locked c \<Longrightarrow> busy c = 0 \<Longrightarrow>
          \<exists>c'. spi_wr bus [FLASH_WRDI] c = Some c' \<and> locked c' \<and> busy c' = 0 \<and> cells c' = cells c \<and> \<not> wen c'"
    and status_write: "locked c \<Longrightarrow> busy c = 0 \<Longrightarrow>
          \<exists>c'. spi_wr bus [FLASH_WRST, 0] c = Some c' \<and> cells c' = cells c \<and>
            (if wen c then good c' else locked c' \<and> busy c' = 0 \<and> \<not> wen c')"
    and status_write_kh: "fam = SPI_FLASH_KH \<Longrightarrow> locked c \<Longrightarrow> busy c = 0 \<Longrightarrow>
          \<exists>c1 c2. spi_wr bus [FLASH_EWSR] c = Some c1 \<and> spi_wr bus [FLASH_WRST, 0] c1 = Some c2 \<and>
            good c2 \<and> cells c2 = cells c"

section \<open>Addresses\<close>

lemma length_addr_bytes [simp]: "length (addr_bytes a) = 3"
  by (simp add: addr_bytes_def)

lemma unat_byte:
  "unat (ucast (drop_bit k (a AND push_bit k 0xff) :: u32) :: u8) = unat a div 2 ^ k mod 256" if "k \<le> 16" for a :: u32
proof -
  have m: "(0xff :: u32) = mask 8" by (simp add: mask_eq_exp_minus_1)
  have "(ucast (drop_bit k (a AND push_bit k 0xff) :: u32) :: u8) = ucast (drop_bit k a)"
    unfolding m using that by (intro bit_word_eqI) (auto simp: bit_simps)
  moreover have "unat a < 2 ^ 32" using unsigned_less [of a] by simp
  then have "unat (drop_bit k a) = unat a div 2 ^ k"
    using take_bit_nat_eq_self [of "unat a" 32] unfolding unsigned_drop_bit_eq by (simp add: drop_bit_eq_div)
  ultimately show ?thesis by (simp add: unsigned_ucast_eq take_bit_eq_mod)
qed

lemma addr_bytes_value:
  "spi_pos tot (addr_bytes a) = unat a mod 0x1000000 mod tot"
proof -
  have "n div 65536 mod 256 * 65536 + n div 256 mod 256 * 256 + n mod 256 = n mod 0x1000000" for n :: nat
    using mod_mult2_eq [of n 65536 256] mod_mult2_eq [of n 256 256] by simp
  then show ?thesis using unat_byte [of 16 a] unat_byte [of 8 a] unat_byte [of 0 a] by (simp add: addr_bytes_def)
qed

lemma spi_pos_addr:
  assumes "x < tot" "tot \<le> 0x400000" "tot dvd 0xC00000"
  shows "spi_pos tot (addr_bytes (of_nat (0xBFC00000 + x))) = x"
proof -
  have "unat (of_nat (0xBFC00000 + x) :: u32) = 0xBFC00000 + x"
    using assms(1,2) by (simp only: unat_of_nat) simp
  moreover have "(0xBFC00000 + x) mod 0x1000000 = 0xC00000 + x"
    using mod_mult_self1 [of "0xC00000 + x" "0xBF" "0x1000000"] assms(1,2) by simp
  moreover have "(0xC00000 + x) mod tot = x"
    using assms(1,3) by (metis mod_add_left_eq mod_less add_0 dvd_imp_mod_0)
  ultimately show ?thesis by (simp only: addr_bytes_value)
qed

text \<open>The address the driver computes for byte \<open>x\<close> of the part.\<close>

definition flash_addr :: "nat \<Rightarrow> u32" where
  "flash_addr x = of_nat (0xBFC00000 + x)"

lemma flash_addr_of_int: "of_int (FLASH_BASE + int b + int n) = flash_addr (b + n)"
proof -
  have "FLASH_BASE + int b + int n = int (0xBFC00000 + (b + n))" by (simp add: FLASH_BASE_def)
  then show ?thesis unfolding flash_addr_def by (simp only: of_int_of_nat_eq)
qed

lemma flash_addr_add: "flash_addr x + of_nat k = flash_addr (x + k)"
  by (simp add: flash_addr_def)

lemma spi_pos_flash_addr:
  "x < tot \<Longrightarrow> tot \<le> 0x400000 \<Longrightarrow> tot dvd 0xC00000 \<Longrightarrow> spi_pos tot (addr_bytes (flash_addr x)) = x"
  unfolding flash_addr_def by (rule spi_pos_addr)

lemma flash_addr_page: "x < 0x400000 \<Longrightarrow> uint (flash_addr x AND 0xff) = int (x mod 256)"
proof -
  assume x: "x < 0x400000"
  have m: "(0xff :: u32) = mask 8" by (simp add: mask_eq_exp_minus_1)
  have "unat (flash_addr x) = 0xBFC00000 + x" unfolding flash_addr_def using x by (simp only: unat_of_nat) simp
  moreover have "(0xBFC00000 + x) mod 256 = x mod 256" using mod_mult_self1 [of x "0xBFC000" 256] by (simp add: add.commute)
  ultimately have "take_bit 8 (unat (flash_addr x)) = x mod 256" by (simp add: take_bit_eq_mod)
  then have "unat (take_bit 8 (flash_addr x)) = x mod 256" by (simp only: unsigned_take_bit_eq)
  then have "uint (take_bit 8 (flash_addr x)) = int (x mod 256)" by (simp only: uint_nat)
  then show ?thesis unfolding m take_bit_eq_mask .
qed

lemma spi_maxwrite_eq:
  assumes "0 < n" "n \<le> 0x400000" "x < 0x400000"
  shows "spi_maxwrite (int n) (flash_addr x) = int (min (min n 59) (256 - x mod 256))"
proof -
  have "u32 (int n) = int n" using assms(2) by (simp add: u32_id)
  then show ?thesis using flash_addr_page [OF assms(3)] by (auto simp: spi_maxwrite_def Let_def min_def of_nat_diff)
qed

section \<open>Programmed bytes\<close>

lemma length_and_at [simp]: "p + length d \<le> length xs \<Longrightarrow> length (and_at p d xs) = length xs"
  by (simp add: and_at_def)

lemma length_put_at [simp]: "p + length d \<le> length xs \<Longrightarrow> length (put_at p d xs) = length xs"
  by (simp add: put_at_def)

lemma nth_and_at:
  assumes "p + length d \<le> length xs" "k < length xs"
  shows "and_at p d xs ! k = (if p \<le> k \<and> k < p + length d then xs ! k AND d ! (k - p) else xs ! k)"
  using assms by (auto simp: and_at_def nth_append min_def)

lemma nth_put_at:
  assumes "p + length d \<le> length xs" "k < length xs"
  shows "put_at p d xs ! k = (if p \<le> k \<and> k < p + length d then d ! (k - p) else xs ! k)"
  using assms by (auto simp: put_at_def nth_append min_def)

lemma and_at_and_at:
  assumes "p + length d + length e \<le> length xs"
  shows "and_at (p + length d) e (and_at p d xs) = and_at p (d @ e) xs"
  by (rule nth_equalityI) (use assms in \<open>auto simp: nth_and_at nth_append\<close>)

lemma put_at_put_at:
  assumes "p + length d + length e \<le> length xs"
  shows "put_at (p + length d) e (put_at p d xs) = put_at p (d @ e) xs"
  by (rule nth_equalityI) (use assms in \<open>auto simp: nth_put_at nth_append\<close>)

lemma and_at_Nil [simp]: "and_at p [] xs = xs"
  by (simp add: and_at_def)

lemma put_at_Nil [simp]: "put_at p [] xs = xs"
  by (simp add: put_at_def)

section \<open>Sectors\<close>

lemma spi_geom_chip [simp]: "spi_geom (s\<lparr>spi_chip := c\<rparr>) geom = spi_geom s geom"
  by (simp add: spi_geom_def)

lemma spi_geom_sector_size:
  "spi_geom s geom \<Longrightarrow> i < length geom \<Longrightarrow> spi_flash_get_sector_size (int i) s = Some (int (geom ! i))"
  by (simp add: spi_geom_def spi_flash_get_sector_size_def spi_sec_at_def)

lemma spi_geom_memptr:
  assumes "spi_geom s geom" "i < length geom"
  shows "spi_get_flash_memptr (int i) s = Some (FLASH_BASE + int (blk_base geom i))"
proof -
  have "blk_base geom i \<le> 0x400000"
    using blk_base_le_total [of geom i] assms(1) by (simp add: spi_geom_def)
  then have "u32 (FLASH_BASE + int (blk_base geom i)) = FLASH_BASE + int (blk_base geom i)"
    by (intro u32_id) (simp_all add: FLASH_BASE_def)
  then show ?thesis
    using assms by (simp add: spi_geom_def spi_get_flash_memptr_def spi_sec_at_def)
qed

lemma spi_blk_loop_eq:
  assumes g: "spi_geom s geom" and k: "k \<le> length geom"
    and below: "\<forall>j<k. int (blk_base geom j) < rel"
  shows "\<exists>m. k \<le> m \<and> m \<le> length geom \<and> (\<forall>j<m. int (blk_base geom j) < rel) \<and>
     (rel \<le> int (blk_base geom m) \<or> m = length geom) \<and>
     spi_blk_loop s rel (int k) (int (blk_base geom k)) = Some (int m, int (blk_base geom m))"
  using k below
proof (induction "length geom - k" arbitrary: k)
  case 0
  then show ?case
    using g by (intro exI [of _ k])
      (auto simp: spi_blk_loop.simps spi_flash_get_numsectors_def spi_geom_def)
next
  case (Suc x)
  show ?case
  proof (cases "int (blk_base geom k) < rel")
    case False
    then show ?thesis using Suc.prems by (intro exI [of _ k]) (auto simp: spi_blk_loop.simps)
  next
    case True
    have k: "k < length geom" using Suc.hyps by simp
    have kb: "k < 1024" using k g by (simp add: spi_geom_def)
    have "blk_base geom (Suc k) \<le> 0x400000"
      using blk_base_le_total [of geom "Suc k"] g by (simp add: spi_geom_def)
    then have "s32 (int (blk_base geom k) + int (geom ! k)) = int (blk_base geom (Suc k))"
      using blk_base_Suc [OF k] by (subst s32_id) simp_all
    then have "spi_blk_loop s rel (int k) (int (blk_base geom k)) =
        spi_blk_loop s rel (int (Suc k)) (int (blk_base geom (Suc k)))"
      using True k kb g spi_geom_sector_size [OF g k]
      by (subst spi_blk_loop.simps)
        (simp add: spi_flash_get_numsectors_def spi_geom_def u16_id add.commute)
    moreover have "\<forall>j<Suc k. int (blk_base geom j) < rel"
      using True Suc.prems by (auto simp: less_Suc_eq)
    ultimately show ?thesis
      using Suc.hyps(1) [of "Suc k"] Suc.hyps(2) k by fastforce
  qed
qed

lemma spi_flash_get_blk_eq:
  assumes g: "spi_geom s geom" and a: "a < sum_list geom"
  shows "spi_flash_get_blk (s32 (FLASH_BASE + int a)) s = Some (int (blk_of geom a))"
proof -
  have a': "a < 0x400000" using a g by (simp add: spi_geom_def)
  then have r: "s32 (s32 (FLASH_BASE + int a) - s32 FLASH_BASE) = int a"
    by (simp add: s32_diff s32_id)
  obtain m where m: "m \<le> length geom" "\<forall>j<m. int (blk_base geom j) < int a"
      "int a \<le> int (blk_base geom m) \<or> m = length geom"
      "spi_blk_loop s (int a) 0 0 = Some (int m, int (blk_base geom m))"
    using spi_blk_loop_eq [OF g, of 0 "int a"] by auto
  have "blk_base geom m \<le> 0x400000" using blk_base_le_total [of geom m] g by (simp add: spi_geom_def)
  then have u: "u32 (int (blk_base geom m)) = int (blk_base geom m)" "u32 (int a) = int a"
    using a' by (simp_all add: u32_id)
  have "spi_flash_get_numsectors s = int (length geom)"
    using g by (simp add: spi_flash_get_numsectors_def spi_geom_def)
  then have "spi_flash_get_blk (s32 (FLASH_BASE + int a)) s = Some (blk_found geom (int a) m)"
    using m(4) r u by (simp add: spi_flash_get_blk_def blk_found_def)
  moreover have "blk_base geom i < blk_base geom (Suc i)" if "i < length geom" for i
    using g that blk_base_Suc [OF that] by (simp add: spi_geom_def)
  then have "blk_found geom (int a) m = int (blk_of geom a)"
    using blk_found_inside [OF _ m(1-3)] a by simp
  ultimately show ?thesis by simp
qed

section \<open>Transfers and polling\<close>

lemma spi_write_wr:
  assumes "spi_wr bus tx c = Some c'" "n = length tx" "n \<le> 63"
  shows "spi_write bus tx n c = Some (SPI_STATUS_OK, c')"
  using assms by (auto simp: spi_write_def spi_wr_def mem_read_def)

lemma spi_read_rd:
  assumes "spi_rd bus tx n c = Some (fifo, c')" "length tx \<le> 63" "n \<le> length fifo" "n \<le> length tx + length rest"
  shows "spi_read bus (tx @ rest) (length tx) n c = Some (SPI_STATUS_OK, take n fifo @ drop n (tx @ rest), c')"
  using assms by (simp add: spi_read_def spi_rd_def mem_read_def mem_write_def)

lemma even_ge_2: "even (q :: nat) \<Longrightarrow> 0 < q \<Longrightarrow> 2 \<le> q"
  by (auto elim!: evenE)

context spi_polled
begin

lemma status_read:
  assumes "good c"
  shows "\<exists>st c'. spi_read bus [FLASH_RDSR] 1 1 c = Some (SPI_STATUS_OK, [st], c') \<and> good c' \<and>
    cells c' = cells c \<and> busy c' = busy c - 1 \<and> (st AND SR_RDY = 0 \<longleftrightarrow> busy c = 0) \<and>
    (busy c = 0 \<longrightarrow> (st AND SR_WEN \<noteq> 0 \<longleftrightarrow> wen c) \<and> wen c' = wen c)"
proof -
  obtain st rest c' where c': "spi_rd bus [FLASH_RDSR] 1 c = Some (st # rest, c')" "good c'"
      "cells c' = cells c" "busy c' = busy c - 1" "st AND SR_RDY = 0 \<longleftrightarrow> busy c = 0"
      "busy c = 0 \<longrightarrow> (st AND SR_WEN \<noteq> 0 \<longleftrightarrow> wen c) \<and> wen c' = wen c"
    using read_status [OF assms] by (elim exE conjE) (rule that)
  then show ?thesis using spi_read_rd [OF c'(1), of "[]"] by auto
qed

lemma status_loop:
  assumes "good c"
  shows "\<exists>c'. spi_status_loop bus k c = Some (if busy c < k then SPI_STATUS_READY else SPI_STATUS_TIMEOUT, c') \<and>
    (busy c < k \<longrightarrow> settled good busy wen cells c c') \<and> good c' \<and> cells c' = cells c \<and> busy c' = busy c - k \<and> (busy c = 0 \<longrightarrow> wen c' = wen c)"
  using assms
proof (induction k arbitrary: c)
  case (Suc k)
  obtain st c1 where c1: "spi_read bus [FLASH_RDSR] 1 1 c = Some (SPI_STATUS_OK, [st], c1)" "good c1"
    "cells c1 = cells c" "busy c1 = busy c - 1" "st AND SR_RDY = 0 \<longleftrightarrow> busy c = 0" "busy c = 0 \<longrightarrow> wen c1 = wen c"
    using status_read [OF Suc.prems] by (elim exE conjE) (rule that, assumption+, iprover)
  show ?case
  proof (cases "busy c = 0")
    case True
    then show ?thesis using c1 by (simp add: settled_def)
  next
    case False
    have le: "busy c1 < k \<longleftrightarrow> busy c < Suc k" "busy c1 - k = busy c - Suc k" using c1(4) False by auto
    obtain c2 where c2: "spi_status_loop bus k c1 = Some (if busy c1 < k then SPI_STATUS_READY else SPI_STATUS_TIMEOUT, c2)"
        "busy c1 < k \<longrightarrow> settled good busy wen cells c1 c2" "good c2" "cells c2 = cells c1" "busy c2 = busy c1 - k"
      using Suc.IH [OF c1(2)] by blast
    have step: "spi_status_loop bus (Suc k) c = Some (if busy c < Suc k then SPI_STATUS_READY else SPI_STATUS_TIMEOUT, c2)"
      using c1(1,5) False c2(1) le(1) by simp
    have "settled good busy wen cells c c2" if "busy c < Suc k"
      using that c2(2) le(1) c1(3) False by (simp add: settled_def)
    then show ?thesis using step c2(3-5) c1(3) False le(2) by metis
  qed
qed simp

lemma wait:
  assumes "good c"
  shows "\<exists>c'. spi_wait bus c = Some c' \<and> settled good busy wen cells c c'"
  using assms
proof (induction "busy c" arbitrary: c rule: less_induct)
  case less
  obtain c1 where c1: "spi_status_loop bus 11 c = Some (if busy c < 11 then SPI_STATUS_READY else SPI_STATUS_TIMEOUT, c1)"
    "busy c < 11 \<longrightarrow> settled good busy wen cells c c1" "good c1" "cells c1 = cells c" "busy c1 = busy c - 11" "busy c = 0 \<longrightarrow> wen c1 = wen c"
    using status_loop [OF less.prems, of 11] by (elim exE conjE) (rule that)
  show ?case
  proof (cases "busy c < 11")
    case True
    then show ?thesis using c1(1,2) by (subst spi_wait.simps) (simp add: spi_flash_status_def del: spi_status_loop.simps)
  next
    case False
    then obtain c2 where "spi_wait bus c1 = Some c2" "settled good busy wen cells c1 c2" using less.hyps [of c1] c1 by auto
    then show ?thesis
      using False c1(1,4) by (subst spi_wait.simps) (simp add: spi_flash_status_def settled_def del: spi_status_loop.simps)
  qed
qed

text \<open>The first status read of a pass, and the wait behind it.\<close>

lemma pass_status:
  assumes "good c" "busy c = 0" "spi_rd bus [FLASH_RDSR] 1 c = Some (st # rest, c0)"
  obtains c1 c2 where "spi_read bus [FLASH_RDSR] 1 1 c = Some (SPI_STATUS_OK, [st], c1)" "spi_wait bus c1 = Some c2"
    "good c2" "busy c2 = 0" "cells c2 = cells c" "wen c2 = wen c"
proof -
  obtain st' c1 where c1: "spi_read bus [FLASH_RDSR] 1 1 c = Some (SPI_STATUS_OK, [st'], c1)" "good c1" "cells c1 = cells c"
      "busy c1 = 0" "wen c1 = wen c"
    using status_read [OF assms(1)] assms(2) by auto
  moreover have "st' = st" using c1(1) spi_read_rd [OF assms(3), of "[]"] by simp
  moreover obtain c2 where "spi_wait bus c1 = Some c2" "settled good busy wen cells c1 c2" using wait [OF c1(2)] by blast
  ultimately show ?thesis using that by (simp add: settled_def)
qed

text \<open>Putting the part back to reading, given what the write disable command does.\<close>

lemma reset_from:
  assumes "spi_wr bus [FLASH_WRDI] c = Some c1" "good c1" "busy c1 = 0" "fam \<noteq> SPI_FLASH_UNDEFINED"
  shows "\<exists>c'. spi_flash_reset bus fam c = Some (FLASH_API_OK, c') \<and> good c' \<and> busy c' = 0 \<and> cells c' = cells c1 \<and> wen c' = wen c1"
proof -
  obtain c2 where c2: "spi_wait bus c1 = Some c2" "settled good busy wen cells c1 c2" using wait [OF assms(2)] by blast
  obtain c3 where c3: "spi_wait bus c2 = Some c3" "settled good busy wen cells c2 c3" using wait [of c2] c2(2) by (auto simp: settled_def)
  show ?thesis
    using spi_write_wr [OF assms(1)] assms(2-4) c2 c3 by (simp add: spi_flash_reset_def spi_flash_reset_ub_def settled_def)
qed

end

context spi_page_chip
begin

lemma not_undefined [simp]: "fam \<noteq> SPI_FLASH_UNDEFINED" "fam \<noteq> SPI_FLASH_SST"
  using family by auto

lemma reset:
  assumes "good c" "busy c = 0"
  shows "\<exists>c'. spi_flash_reset bus fam c = Some (FLASH_API_OK, c') \<and> good c' \<and> busy c' = 0 \<and> cells c' = cells c"
proof -
  obtain c1 where "spi_wr bus [FLASH_WRDI] c = Some c1" "good c1" "busy c1 = 0" "cells c1 = cells c"
    using write_disable [OF assms] by blast
  then show ?thesis using reset_from [of c c1 fam] by auto
qed

text \<open>Without a protected block the first pass is the last.\<close>

lemma unprotect_good:
  assumes "good c" "busy c = 0"
  shows "\<exists>c'. spi_unprotect bus fam c = Some c' \<and> good c' \<and> busy c' = 0 \<and> cells c' = cells c"
proof -
  obtain st rest c0 where st: "spi_rd bus [FLASH_RDSR] 1 c = Some (st # rest, c0)" "st AND SR_BP = 0"
    using not_protected [OF assms] by blast
  obtain c1 c2 where "spi_read bus [FLASH_RDSR] 1 1 c = Some (SPI_STATUS_OK, [st], c1)" "spi_wait bus c1 = Some c2"
      "good c2" "busy c2 = 0" "cells c2 = cells c"
    by (rule pass_status [OF assms st(1)]) (rule that)
  then show ?thesis using st(2) by (subst spi_unprotect.simps) (simp add: spi_unprotect_pass_def)
qed

text \<open>\<open>spi_flash_ub\<close> leaves the part write enabled.\<close>

lemma enable_from:
  assumes u: "spi_unprotect bus fam c = Some c2" and g: "good c2" "busy c2 = 0"
  shows "\<exists>c'. spi_flash_ub bus fam c = Some (FLASH_API_OK, c') \<and> good c' \<and> busy c' = 0 \<and> cells c' = cells c2 \<and> wen c'"
proof -
  obtain c3 where c3: "spi_wr bus [FLASH_WREN] c2 = Some c3" "good c3" "busy c3 = 0" "cells c3 = cells c2" "wen c3"
    using write_enable [OF g] by blast
  obtain c4 where c4: "spi_wait bus c3 = Some c4" "settled good busy wen cells c3 c4" using wait [OF c3(2)] by blast
  then have g4: "good c4" "busy c4 = 0" "wen c4" using c3 by (simp_all add: settled_def)
  obtain st' c5 where c5: "spi_read bus [FLASH_RDSR] 1 1 c4 = Some (SPI_STATUS_OK, [st'], c5)" "good c5"
    "cells c5 = cells c4" "st' AND SR_WEN \<noteq> 0" "wen c5" "busy c5 = 0"
    using status_read [OF g4(1)] g4 by auto
  obtain c6 where c6: "spi_wait bus c5 = Some c6" "settled good busy wen cells c5 c6" using wait [OF c5(2)] by blast
  have w: "spi_await_wen bus c4 = Some c6" using c5 c6 by (subst spi_await_wen.simps) simp
  show ?thesis using u w spi_write_wr [OF c3(1)] c3 c4 c5 c6 by (simp add: spi_flash_ub_def settled_def)
qed

lemma enable:
  assumes "good c" "busy c = 0"
  shows "\<exists>c'. spi_flash_ub bus fam c = Some (FLASH_API_OK, c') \<and> good c' \<and> busy c' = 0 \<and> cells c' = cells c \<and> wen c'"
proof -
  obtain c1 where "spi_unprotect bus fam c = Some c1" "good c1" "busy c1 = 0" "cells c1 = cells c"
    using unprotect_good [OF assms] by blast
  then show ?thesis using enable_from [of c c1] by auto
qed

text \<open>Reading from byte \<open>x\<close>.\<close>

lemma read_loop:
  assumes "good c" "busy c = 0" "x + n \<le> sum_list geom" "idx + n \<le> length buffer"
  shows "\<exists>c'. spi_read_loop bus (flash_addr x) buffer idx (int n) c =
      Some (put_at idx (take n (drop x (cells c))) buffer, c') \<and> good c' \<and> busy c' = 0 \<and> cells c' = cells c"
  using assms
proof (induction n arbitrary: c x idx buffer rule: less_induct)
  case (less n)
  show ?case
  proof (cases "n = 0")
    case True
    then show ?thesis using less.prems by (simp add: spi_read_loop.simps)
  next
    case False
    define m where "m = min n 60"
    have m: "0 < m" "m \<le> n" "m \<le> 60" using False by (simp_all add: m_def)
    have max: "(if int n < int MAX_READ then nat (int n) else MAX_READ) = m" by (simp add: m_def)
    have x: "spi_pos (sum_list geom) (addr_bytes (flash_addr x)) = x"
      using less.prems(3) False sectors(4,5) by (intro spi_pos_flash_addr) simp_all
    obtain fifo c1 where c1: "spi_rd bus (FLASH_READ # addr_bytes (flash_addr x)) m c = Some (fifo, c1)" "m \<le> length fifo"
        "take m fifo = take m (drop x (cells c))" "good c1" "busy c1 = 0" "cells c1 = cells c"
      using read_array [of c "addr_bytes (flash_addr x)" m x] less.prems(1-3) m x by auto
    obtain c2 where c2: "spi_wait bus c1 = Some c2" "good c2" "busy c2 = 0" "cells c2 = cells c"
      using wait [OF c1(4)] c1(6) by (auto simp: settled_def)
    have rd: "\<exists>t. spi_read bus (FLASH_READ # addr_bytes (flash_addr x) @ replicate 56 0) 4 m c = Some (SPI_STATUS_OK, take m (drop x (cells c)) @ t, c1)"
      using spi_read_rd [OF c1(1), of "replicate 56 0"] c1(2,3) m(3) by simp
    let ?d = "take m (drop x (cells c))"
    have len: "length ?d = m" using cells_length [OF less.prems(1)] less.prems(3) m by simp
    have mw: "mem_write (int idx) ?d buffer = Some (put_at idx ?d buffer)"
      using less.prems(4) m len by (subst mem_write_int) (simp_all add: put_at_def)
    obtain c3 where c3: "spi_read_loop bus (flash_addr (x + m)) (put_at idx ?d buffer) (idx + m) (int (n - m)) c2 =
        Some (put_at (idx + m) (take (n - m) (drop (x + m) (cells c))) (put_at idx ?d buffer), c3)"
        "good c3" "busy c3 = 0" "cells c3 = cells c"
      using less.IH [of "n - m" c2 "x + m" "idx + m" "put_at idx ?d buffer"] less.prems c2 m len by auto
    have tk: "take n (drop x (cells c)) = ?d @ take (n - m) (drop (x + m) (cells c))"
      using m(2) by (metis add.commute drop_drop le_add_diff_inverse take_add)
    have "put_at (idx + m) (take (n - m) (drop (x + m) (cells c))) (put_at idx ?d buffer) = put_at idx (take n (drop x (cells c))) buffer"
      unfolding tk using put_at_put_at [of idx ?d "take (n - m) (drop (x + m) (cells c))" buffer] less.prems(4) m len by simp
    moreover have "spi_read_loop bus (flash_addr x) buffer idx (int n) c =
        spi_read_loop bus (flash_addr (x + m)) (put_at idx ?d buffer) (idx + m) (int (n - m)) c2"
      using rd c2(1) mw len False m(2)
      by (subst spi_read_loop.simps, unfold max Let_def) (auto simp: flash_addr_add of_nat_diff)
    ultimately show ?thesis using c3 by auto
  qed
qed

lemma program_at:
  assumes "good c" "busy c = 0" "wen c" "0 < length d" "length d \<le> 59" "x mod 256 + length d \<le> 256"
    and "x + length d \<le> sum_list geom" "fam = SPI_FLASH_NX \<longrightarrow> even x \<and> even (length d)"
  shows "\<exists>c'. spi_program bus d (flash_addr x) c = Some c' \<and> good c' \<and> busy c' = 0 \<and> cells c' = and_at x d (cells c)"
proof -
  have "x < sum_list geom" using assms(4,7) by linarith
  then have x: "spi_pos (sum_list geom) (addr_bytes (flash_addr x)) = x"
    using sectors(4,5) by (intro spi_pos_flash_addr) simp_all
  obtain c1 where c1: "spi_wr bus (SPI_PROG # addr_bytes (flash_addr x) @ d) c = Some c1" "good c1" "cells c1 = and_at x d (cells c)"
    using page_program [of c "addr_bytes (flash_addr x)" x d] assms x by auto
  obtain c2 where "spi_wait bus c1 = Some c2" "good c2" "busy c2 = 0" "cells c2 = cells c1"
    using wait [OF c1(2)] by (auto simp: settled_def)
  then show ?thesis using spi_write_wr [OF c1(1), of "length d + 4"] c1(3) assms(5) by (simp add: spi_program_def)
qed

lemma page_loop:
  assumes "good c" "busy c = 0" "x + n \<le> sum_list geom" "n \<le> length pbuf" "fam \<noteq> SPI_FLASH_NX"
  shows "\<exists>c'. spi_page_loop bus fam pbuf (int n) (flash_addr x) c = Some (n, c') \<and> good c' \<and> busy c' = 0 \<and>
    cells c' = and_at x (take n pbuf) (cells c)"
  using assms(1-4)
proof (induction n arbitrary: c x pbuf rule: less_induct)
  case (less n)
  show ?case
  proof (cases "n = 0")
    case True
    then show ?thesis using less.prems by (simp add: spi_page_loop.simps)
  next
    case False
    define m where "m = min (min n 59) (256 - x mod 256)"
    have m: "0 < m" "m \<le> n" "m \<le> 59" "x mod 256 + m \<le> 256" using False by (auto simp: m_def min_def)
    have max: "spi_maxwrite (int n) (flash_addr x) = int m"
      unfolding m_def using False less.prems(3) sectors(4) by (intro spi_maxwrite_eq) simp_all
    obtain c1 where c1: "spi_flash_ub bus fam c = Some (FLASH_API_OK, c1)" "good c1" "busy c1 = 0" "cells c1 = cells c" "wen c1"
      using enable [OF less.prems(1,2)] by blast
    obtain c2 where c2: "spi_program bus (take m pbuf) (flash_addr x) c1 = Some c2" "good c2" "busy c2 = 0"
        "cells c2 = and_at x (take m pbuf) (cells c)"
      using program_at [of c1 "take m pbuf" x] c1 m less.prems(3,4) assms(5) by auto
    obtain c3 where c3: "spi_page_loop bus fam (drop m pbuf) (int (n - m)) (flash_addr (x + m)) c2 = Some (n - m, c3)"
        "good c3" "busy c3 = 0" "cells c3 = and_at (x + m) (take (n - m) (drop m pbuf)) (cells c2)"
      using less.IH [of "n - m" c2 "x + m" "drop m pbuf"] less.prems c2 m diff_le_mono [OF less.prems(4), of m] by auto
    have "take n pbuf = take m pbuf @ take (n - m) (drop m pbuf)"
      using m(2) by (metis le_add_diff_inverse take_add)
    then have "cells c3 = and_at x (take n pbuf) (cells c)"
      using c3(4) c2(4) and_at_and_at [of x "take m pbuf" "take (n - m) (drop m pbuf)" "cells c"]
        cells_length [OF less.prems(1)] less.prems(3,4) m(2) by simp
    moreover have "spi_page_loop bus fam pbuf (int n) (flash_addr x) c = Some (n, c3)"
      using c1(1) c2(1) c3(1) max m(2) False less.prems(4) mem_read_int [of 0 m pbuf] flash_addr_add [of x m]
      by (subst spi_page_loop.simps) (simp add: of_nat_diff)
    ultimately show ?thesis using c3 by auto
  qed
qed

text \<open>The loop for NexFlash parts, when offset and length are even.\<close>

lemma nx_loop:
  assumes "good c" "busy c = 0" "x + n \<le> sum_list geom" "n \<le> length pbuf" "even x" "even n"
  shows "\<exists>c'. spi_nx_loop bus fam b False pbuf (int n) (flash_addr x) c = Some (False, n, c') \<and> good c' \<and> busy c' = 0 \<and>
    cells c' = and_at x (take n pbuf) (cells c)"
  using assms
proof (induction n arbitrary: c x pbuf rule: less_induct)
  case (less n)
  show ?case
  proof (cases "n = 0")
    case True
    then show ?thesis using less.prems by (simp add: spi_nx_loop.simps)
  next
    case False
    define k where "k = min (min n 59) (256 - x mod 256)"
    define m where "m = (if odd k then k - 1 else k)"
    have n2: "n \<noteq> 1" "2 \<le> n" using less.prems(6) False even_ge_2 [of n] by auto
    have "even (256 - x mod 256)" using less.prems(5) by (simp add: even_diff_nat dvd_mod_iff)
    then have "2 \<le> 256 - x mod 256" by (rule even_ge_2) (simp add: mod_less_divisor)
    then have k: "2 \<le> k" "k \<le> n" "k \<le> 59" "x mod 256 + k \<le> 256" using n2 by (auto simp: k_def)
    have m: "0 < m" "m \<le> n" "m \<le> 59" "x mod 256 + m \<le> 256" "even m" using k by (auto simp: m_def)
    have kmax: "spi_maxwrite (int n) (flash_addr x) = int k"
      unfolding k_def using False less.prems(3) sectors(4) by (intro spi_maxwrite_eq) simp_all
    have max: "(if int k mod 2 = 1 then int k - 1 else int k) = int m"
      using k(1) by (auto simp: m_def mod2_eq_if of_nat_diff)
    obtain c1 where c1: "spi_flash_ub bus fam c = Some (FLASH_API_OK, c1)" "good c1" "busy c1 = 0" "cells c1 = cells c" "wen c1"
      using enable [OF less.prems(1,2)] by blast
    obtain c2 where c2: "spi_program bus (take m pbuf) (flash_addr x) c1 = Some c2" "good c2" "busy c2 = 0"
        "cells c2 = and_at x (take m pbuf) (cells c)"
      using program_at [of c1 "take m pbuf" x] c1 m less.prems(3-5) by auto
    obtain c3 where c3: "spi_nx_loop bus fam b False (drop m pbuf) (int (n - m)) (flash_addr (x + m)) c2 = Some (False, n - m, c3)"
        "good c3" "busy c3 = 0" "cells c3 = and_at (x + m) (take (n - m) (drop m pbuf)) (cells c2)"
      using less.IH [of "n - m" c2 "x + m" "drop m pbuf"] less.prems c2 m diff_le_mono [OF less.prems(4), of m] by auto
    have "take n pbuf = take m pbuf @ take (n - m) (drop m pbuf)"
      using m(2) by (metis le_add_diff_inverse take_add)
    then have "cells c3 = and_at x (take n pbuf) (cells c)"
      using c3(4) c2(4) and_at_and_at [of x "take m pbuf" "take (n - m) (drop m pbuf)" "cells c"]
        cells_length [OF less.prems(1)] less.prems(3,4) m(2) by simp
    moreover have "spi_nx_loop bus fam b False pbuf (int n) (flash_addr x) c = Some (False, n, c3)"
      using c1(1) c2(1) c3(1) kmax m(2) False n2 less.prems(4) mem_read_int [of 0 m pbuf] flash_addr_add [of x m]
      by (subst spi_nx_loop.simps, unfold Let_def kmax, simp only: if_not_P [of "int n = 1"] if_P refl not_False_eq_True
          bind.bind_lunit case_prod_conv of_nat_eq_0_iff of_nat_eq_1_iff if_False if_True max) (simp add: of_nat_diff)
    ultimately show ?thesis using c3 by auto
  qed
qed

lemma memptr_addr:
  "spi_geom s geom \<Longrightarrow> i < length geom \<Longrightarrow>
   \<exists>p. spi_get_flash_memptr (int i) s = Some p \<and> (\<forall>off. of_int (p + int off) = flash_addr (blk_base geom i + off))"
  using spi_geom_memptr flash_addr_of_int by blast

lemma erase_from:
  assumes s: "spi_geom s geom" "spi_flashFamily s = fam" and i: "i < length geom"
    and c1: "spi_flash_reset bus fam (spi_chip s) = Some (r, c1)"
    and u: "spi_unprotect bus fam c1 = Some c" and g: "good c" "busy c = 0"
  shows "\<exists>c'. spi_flash_sector_erase_int bus (int i) s = Some (FLASH_API_OK, s\<lparr>spi_chip := c'\<rparr>) \<and> good c' \<and> busy c' = 0 \<and>
    cells c' = put_at (blk_base geom i) (replicate (geom ! i) 0xff) (cells c)"
proof -
  obtain c2 where c2: "spi_flash_ub bus fam c1 = Some (FLASH_API_OK, c2)" "good c2" "busy c2 = 0" "cells c2 = cells c" "wen c2"
    using enable_from [OF u g] by blast
  obtain p where p: "spi_get_flash_memptr (int i) s = Some p" "of_int (p + int 0) = flash_addr (blk_base geom i + 0)"
    using memptr_addr [OF s(1) i] by blast
  have "blk_base geom i < sum_list geom"
    using blk_base_Suc [OF i] blk_base_le_total [of geom "Suc i"] sectors(3) [of "geom ! i"] i by simp
  then have "spi_pos (sum_list geom) (addr_bytes (flash_addr (blk_base geom i))) = blk_base geom i"
    using sectors(4,5) by (intro spi_pos_flash_addr) simp_all
  then obtain c3 where c3: "spi_wr bus (erase_opcode fam # addr_bytes (flash_addr (blk_base geom i))) c2 = Some c3" "good c3"
      "cells c3 = put_at (blk_base geom i) (replicate (geom ! i) 0xff) (cells c2)"
    using sector_erase [OF c2(2,3,5) length_addr_bytes i] by blast
  obtain c4 where "spi_wait bus c3 = Some c4" "good c4" "busy c4 = 0" "cells c4 = cells c3"
    using wait [OF c3(2)] by (auto simp: settled_def)
  then show ?thesis
    using s(2) c1 c2 c3(3) p spi_write_wr [OF c3(1), of 4]
    by (intro exI [of _ c4]) (simp add: spi_flash_sector_erase_int_def)
qed

lemma erase_at:
  assumes "spi_ok fam geom good busy s" "i < length geom"
  shows "\<exists>c'. spi_flash_sector_erase_int bus (int i) s = Some (FLASH_API_OK, s\<lparr>spi_chip := c'\<rparr>) \<and> good c' \<and> busy c' = 0 \<and>
    cells c' = put_at (blk_base geom i) (replicate (geom ! i) 0xff) (cells (spi_chip s))"
proof -
  have s: "spi_geom s geom" "spi_flashFamily s = fam" "good (spi_chip s)" "busy (spi_chip s) = 0"
    using assms(1) by (simp_all add: spi_ok_def)
  obtain c1 where c1: "spi_flash_reset bus fam (spi_chip s) = Some (FLASH_API_OK, c1)" "good c1" "busy c1 = 0"
      "cells c1 = cells (spi_chip s)"
    using reset [OF s(3,4)] by blast
  obtain c2 where "spi_unprotect bus fam c1 = Some c2" "good c2" "busy c2 = 0" "cells c2 = cells c1"
    using unprotect_good [OF c1(2,3)] by blast
  then show ?thesis using erase_from [OF s(1,2) assms(2) c1(1)] c1(4) by auto
qed

lemma read_at:
  assumes "spi_ok fam geom good busy s" "i < length geom" "off + n \<le> geom ! i" "n \<le> length buf"
  shows "\<exists>c'. spi_flash_read_buf bus (int i) (int off) buf (int n) s =
      Some (FLASH_API_OK, take n (drop (blk_base geom i + off) (cells (spi_chip s))) @ drop n buf, s\<lparr>spi_chip := c'\<rparr>) \<and>
    good c' \<and> busy c' = 0 \<and> cells c' = cells (spi_chip s)"
proof -
  have s: "spi_geom s geom" "spi_flashFamily s = fam" "good (spi_chip s)" "busy (spi_chip s) = 0"
    using assms(1) by (simp_all add: spi_ok_def)
  obtain c1 where c1: "spi_flash_reset bus fam (spi_chip s) = Some (FLASH_API_OK, c1)" "good c1" "busy c1 = 0"
      "cells c1 = cells (spi_chip s)"
    using reset [OF s(3,4)] by blast
  obtain p where p: "spi_get_flash_memptr (int i) s = Some p" "of_int (p + int off) = flash_addr (blk_base geom i + off)"
    using memptr_addr [OF s(1) assms(2)] by blast
  have room: "blk_base geom i + off + n \<le> sum_list geom"
    using blk_base_Suc [OF assms(2)] blk_base_le_total [of geom "Suc i"] assms(3) by simp
  obtain c2 where c2: "spi_read_loop bus (flash_addr (blk_base geom i + off)) buf 0 (int n) c1 =
      Some (put_at 0 (take n (drop (blk_base geom i + off) (cells c1))) buf, c2)" "good c2" "busy c2 = 0" "cells c2 = cells c1"
    using read_loop [OF c1(2,3) room, of 0 buf] assms(4) by auto
  have "put_at 0 (take n (drop (blk_base geom i + off) (cells c1))) buf =
      take n (drop (blk_base geom i + off) (cells c1)) @ drop n buf"
    using cells_length [OF c1(2)] room by (simp add: put_at_def)
  then show ?thesis using s(2) c1 c2 p by (intro exI [of _ c2]) (simp add: spi_flash_read_buf_def)
qed

lemma write_at:
  assumes "spi_ok fam geom good busy s" "i < length geom" "off + n \<le> geom ! i" "n \<le> length buf" "even off" "even n"
  shows "\<exists>c'. spi_flash_write_buf bus (int i) (int off) buf (int n) s = Some (int n, s\<lparr>spi_chip := c'\<rparr>) \<and>
    good c' \<and> busy c' = 0 \<and> cells c' = and_at (blk_base geom i + off) (take n buf) (cells (spi_chip s))"
proof -
  have s: "spi_geom s geom" "spi_flashFamily s = fam" "good (spi_chip s)" "busy (spi_chip s) = 0"
    using assms(1) by (simp_all add: spi_ok_def)
  obtain p where p: "spi_get_flash_memptr (int i) s = Some p" "of_int (p + int off) = flash_addr (blk_base geom i + off)"
    using memptr_addr [OF s(1) assms(2)] by blast
  have room: "blk_base geom i + off + n \<le> sum_list geom"
    using blk_base_Suc [OF assms(2)] blk_base_le_total [of geom "Suc i"] assms(3) by simp
  have "even (blk_base geom i)" unfolding blk_base_def
    by (rule even_sum_list) (use sectors(3) in \<open>auto dest: in_set_takeD\<close>)
  then have ev: "even (blk_base geom i + off)" using assms(5) by simp
  show ?thesis
  proof (cases "fam = SPI_FLASH_NX")
    case True
    then show ?thesis
      using nx_loop [OF s(3,4) room assms(4) ev assms(6), of 0] s(2) p assms(5,6)
      by (auto simp: spi_flash_write_buf_def spi_flash_write_def spi_nx_write_def)
  next
    case False
    then show ?thesis
      using page_loop [OF s(3,4) room assms(4) False] s(2) p family
      by (auto simp: spi_flash_write_buf_def spi_flash_write_def split: spi_family.split)
  qed
qed

end

section \<open>The contract\<close>

lemma length_sector_of:
  "length xs = sum_list geom \<Longrightarrow> i < length geom \<Longrightarrow> length (sector_of geom xs i) = geom ! i"
  using blk_base_Suc [of i geom] blk_base_le_total [of geom "Suc i"] by (simp add: sector_of_def)

lemma nth_sector_of:
  "length xs = sum_list geom \<Longrightarrow> i < length geom \<Longrightarrow> k < geom ! i \<Longrightarrow> sector_of geom xs i ! k = xs ! (blk_base geom i + k)"
  using blk_base_Suc [of i geom] blk_base_le_total [of geom "Suc i"] by (simp add: sector_of_def)

lemma take_drop_sector_of:
  "off + n \<le> geom ! i \<Longrightarrow> take n (drop off (sector_of geom xs i)) = take n (drop (blk_base geom i + off) xs)"
  by (simp add: sector_of_def drop_take add.commute min_absorb1)

lemma sector_of_other:
  assumes "length xs = sum_list geom" "length ys = sum_list geom" "i < length geom" "j < length geom" "j \<noteq> i"
    and "\<forall>k < sum_list geom. k < blk_base geom i \<or> blk_base geom (Suc i) \<le> k \<longrightarrow> ys ! k = xs ! k"
  shows "sector_of geom ys j = sector_of geom xs j"
proof (rule nth_equalityI)
  show "length (sector_of geom ys j) = length (sector_of geom xs j)" using assms by (simp add: length_sector_of)
  fix k assume "k < length (sector_of geom ys j)"
  then have k: "k < geom ! j" using assms(2,4) by (simp add: length_sector_of)
  let ?p = "blk_base geom j + k"
  have p: "?p < blk_base geom (Suc j)" "?p < sum_list geom"
    using k blk_base_Suc [OF assms(4)] blk_base_le_total [of geom "Suc j"] by simp_all
  have "blk_base geom (Suc j) \<le> blk_base geom i \<or> blk_base geom (Suc i) \<le> blk_base geom j"
    using assms(5) blk_base_mono [of "Suc j" i geom] blk_base_mono [of "Suc i" j geom] by (cases "j < i") auto
  then have "?p < blk_base geom i \<or> blk_base geom (Suc i) \<le> ?p" using p(1) by linarith
  then have "ys ! ?p = xs ! ?p" using assms(6) p(2) by blast
  then show "sector_of geom ys j ! k = sector_of geom xs j ! k"
    using assms(1,2,4) k by (simp add: nth_sector_of)
qed

lemma spi_contents_update:
  assumes len: "length (cells (spi_chip s)) = sum_list geom" "length (cells c') = sum_list geom" and i: "i < length geom"
    and out: "\<forall>k < sum_list geom. k < blk_base geom i \<or> blk_base geom (Suc i) \<le> k \<longrightarrow> cells c' ! k = cells (spi_chip s) ! k"
  shows "spi_contents geom cells (s\<lparr>spi_chip := c'\<rparr>) = (spi_contents geom cells s)[i := sector_of geom (cells c') i]"
proof (rule nth_equalityI)
  fix j assume "j < length (spi_contents geom cells (s\<lparr>spi_chip := c'\<rparr>))"
  then have j: "j < length geom" by (simp add: spi_contents_def)
  then show "spi_contents geom cells (s\<lparr>spi_chip := c'\<rparr>) ! j = (spi_contents geom cells s)[i := sector_of geom (cells c') i] ! j"
    using i sector_of_other [OF len i j _ out] by (cases "j = i") (simp_all add: spi_contents_def)
qed (simp add: spi_contents_def)

lemma sector_of_put_at:
  assumes "length xs = sum_list geom" "i < length geom" "off + length d \<le> geom ! i"
  shows "sector_of geom (put_at (blk_base geom i + off) d xs) i = put_at off d (sector_of geom xs i)"
proof -
  have room: "blk_base geom i + geom ! i \<le> length xs"
    using blk_base_Suc [OF assms(2)] blk_base_le_total [of geom "Suc i"] assms(1) by simp
  show ?thesis
    by (rule nth_equalityI) (use assms room in \<open>auto simp: length_sector_of nth_sector_of nth_put_at\<close>)
qed

lemma sector_of_and_at:
  assumes "length xs = sum_list geom" "i < length geom" "off + length d \<le> geom ! i"
  shows "sector_of geom (and_at (blk_base geom i + off) d xs) i = and_at off d (sector_of geom xs i)"
proof -
  have room: "blk_base geom i + geom ! i \<le> length xs"
    using blk_base_Suc [OF assms(2)] blk_base_le_total [of geom "Suc i"] assms(1) by simp
  show ?thesis
    by (rule nth_equalityI) (use assms room in \<open>auto simp: length_sector_of nth_sector_of nth_and_at\<close>)
qed

text \<open>Programming erased bytes stores the data.\<close>

lemma and_at_erased:
  assumes "p + length d \<le> length xs" "take (length d) (drop p xs) = replicate (length d) 0xff"
  shows "and_at p d xs = put_at p d xs"
proof -
  have ff: "(0xff :: u8) = - 1" by simp
  have "map2 (AND) (replicate (length d) 0xff) d = d"
    by (rule nth_equalityI) (simp_all add: ff)
  then show ?thesis using assms by (simp add: and_at_def put_at_def)
qed

context spi_page_chip
begin

lemma ok_chip: "spi_ok fam geom good busy s \<Longrightarrow> good c \<Longrightarrow> busy c = 0 \<Longrightarrow> spi_ok fam geom good busy (s\<lparr>spi_chip := c\<rparr>)"
  by (simp add: spi_ok_def)

lemma room: "i < length geom \<Longrightarrow> good c \<Longrightarrow> blk_base geom i + geom ! i \<le> length (cells c) \<and> blk_base geom (Suc i) = blk_base geom i + geom ! i"
  using blk_base_Suc [of i geom] blk_base_le_total [of geom "Suc i"] cells_length by simp

lemma erased_contents:
  assumes "length (cells (spi_chip s)) = sum_list geom" "good c'" "i < length geom"
    and c': "cells c' = put_at (blk_base geom i) (replicate (geom ! i) 0xff) (cells (spi_chip s))"
  shows "spi_contents geom cells (s\<lparr>spi_chip := c'\<rparr>) = (spi_contents geom cells s)[i := replicate (geom ! i) 0xff]"
proof -
  let ?ff = "replicate (geom ! i) 0xff :: bytes"
  note len = assms(1) cells_length [OF assms(2)]
  have "sector_of geom (cells c') i = put_at 0 ?ff (sector_of geom (cells (spi_chip s)) i)"
    using sector_of_put_at [OF len(1) assms(3), of 0 ?ff] c' by simp
  also have "\<dots> = ?ff" using length_sector_of [OF len(1) assms(3)] by (simp add: put_at_def)
  finally show ?thesis
    using spi_contents_update [of cells s geom c' i, OF len assms(3)] room [OF assms(3,2)] c' len
    by (simp add: nth_put_at)
qed

lemma contract_erase:
  assumes "spi_ok fam geom good busy s" "i < length geom"
  shows "\<exists>s'. spi_flash_sector_erase_int bus (int i) s = Some (FLASH_API_OK, s') \<and> spi_ok fam geom good busy s' \<and>
    spi_contents geom cells s' = (spi_contents geom cells s)[i := replicate (geom ! i) 0xff]"
proof -
  obtain c' where c': "spi_flash_sector_erase_int bus (int i) s = Some (FLASH_API_OK, s\<lparr>spi_chip := c'\<rparr>)" "good c'" "busy c' = 0"
      "cells c' = put_at (blk_base geom i) (replicate (geom ! i) 0xff) (cells (spi_chip s))"
    using erase_at [OF assms] by blast
  have "good (spi_chip s)" using assms(1) by (simp add: spi_ok_def)
  then show ?thesis
    using c'(1-3) erased_contents [OF cells_length c'(2) assms(2) c'(4)] ok_chip [OF assms(1)] by blast
qed

text \<open>Programming clears bits of the given bytes, and of no others.\<close>

lemma contract_program:
  assumes "spi_ok fam geom good busy s" "i < length geom" "off + n \<le> geom ! i" "n \<le> length buf" "even off" "even n"
  shows "\<exists>s'. spi_flash_write_buf bus (int i) (int off) buf (int n) s = Some (int n, s') \<and> spi_ok fam geom good busy s' \<and>
    spi_contents geom cells s' = (spi_contents geom cells s)[i := and_at off (take n buf) (spi_contents geom cells s ! i)]"
proof -
  let ?d = "take n buf"
  obtain c' where c': "spi_flash_write_buf bus (int i) (int off) buf (int n) s = Some (int n, s\<lparr>spi_chip := c'\<rparr>)" "good c'"
      "busy c' = 0" "cells c' = and_at (blk_base geom i + off) ?d (cells (spi_chip s))"
    using write_at [OF assms] by blast
  have g: "good (spi_chip s)" using assms(1) by (simp add: spi_ok_def)
  note len = cells_length [OF g] cells_length [OF c'(2)]
  have ld: "length ?d = n" using assms(4) by simp
  have "sector_of geom (cells c') i = and_at off ?d (sector_of geom (cells (spi_chip s)) i)"
    using sector_of_and_at [OF len(1) assms(2), of off ?d] c'(4) ld assms(3) by simp
  moreover have "\<forall>k < sum_list geom. k < blk_base geom i \<or> blk_base geom (Suc i) \<le> k \<longrightarrow> cells c' ! k = cells (spi_chip s) ! k"
    using room [OF assms(2) g] c'(4) len(1) ld assms(3) by (auto simp: nth_and_at)
  ultimately have "spi_contents geom cells (s\<lparr>spi_chip := c'\<rparr>) =
      (spi_contents geom cells s)[i := and_at off ?d (spi_contents geom cells s ! i)]"
    using spi_contents_update [of cells s geom c' i, OF len assms(2)] assms(2) by (simp add: spi_contents_def)
  then show ?thesis using c'(1-3) ok_chip [OF assms(1)] by blast
qed

lemma contract_write:
  assumes "spi_ok fam geom good busy s" "i < length geom" "off + n \<le> geom ! i" "n \<le> length buf" "even off" "even n"
    and erased: "take n (drop off (spi_contents geom cells s ! i)) = replicate n 0xff"
  shows "\<exists>s'. spi_flash_write_buf bus (int i) (int off) buf (int n) s = Some (int n, s') \<and> spi_ok fam geom good busy s' \<and>
    spi_contents geom cells s' = (spi_contents geom cells s)[i := put_at off (take n buf) (spi_contents geom cells s ! i)]"
proof -
  have "good (spi_chip s)" using assms(1) by (simp add: spi_ok_def)
  then have "length (spi_contents geom cells s ! i) = geom ! i"
    using assms(2) by (simp add: spi_contents_def length_sector_of cells_length)
  then have "and_at off (take n buf) (spi_contents geom cells s ! i) = put_at off (take n buf) (spi_contents geom cells s ! i)"
    using assms(3,4) erased by (intro and_at_erased) simp_all
  then show ?thesis using contract_program [OF assms(1-6)] by simp
qed

end

sublocale spi_page_chip \<subseteq> spi: reliable_flash_device "flash_spi_dev bus did name" "spi_ok fam geom good busy" geom
  "spi_contents geom cells" for did name
proof
  fix d i a n
  show "0 < length geom" "length geom \<le> 1024" "sum_list geom \<le> 0x4000000"
    using sectors by simp_all
  show "n \<in> set geom \<Longrightarrow> 0 < n \<and> even n" by (rule sectors(3))
  show "spi_ok fam geom good busy d \<Longrightarrow> map length (spi_contents geom cells d) = geom"
    by (auto simp: spi_contents_def spi_ok_def length_sector_of cells_length intro: nth_equalityI)
  show "spi_ok fam geom good busy d \<Longrightarrow> fn_flash_get_numsectors (flash_spi_dev bus did name) d = int (length geom)"
    by (simp add: flash_spi_dev_def spi_flash_get_numsectors_def spi_ok_def spi_geom_def)
  show "spi_ok fam geom good busy d \<Longrightarrow> fn_flash_get_total_size (flash_spi_dev bus did name) d = int (sum_list geom)"
    by (simp add: flash_spi_dev_def spi_flash_get_total_size_def spi_ok_def spi_geom_def)
  show "spi_ok fam geom good busy d \<Longrightarrow> i < length geom \<Longrightarrow>
      fn_flash_get_sector_size (flash_spi_dev bus did name) (int i) d = Some (int (geom ! i))"
    by (simp add: flash_spi_dev_def spi_ok_def spi_geom_sector_size)
  show "spi_ok fam geom good busy d \<Longrightarrow> i < length geom \<Longrightarrow>
      fn_flash_get_memptr (flash_spi_dev bus did name) (int i) d = Some (FLASH_BASE + int (blk_base geom i))"
    by (simp add: flash_spi_dev_def spi_ok_def spi_geom_memptr spi_flash_get_memptr_def)
  show "spi_ok fam geom good busy d \<Longrightarrow> a < sum_list geom \<Longrightarrow>
      fn_flash_get_blk (flash_spi_dev bus did name) (s32 (FLASH_BASE + int a)) d = Some (int (blk_of geom a))"
    by (simp add: flash_spi_dev_def spi_ok_def spi_flash_get_blk_eq)
next
  fix d i off n and buf :: bytes
  assume a: "spi_ok fam geom good busy d" "i < length geom" "off + n \<le> geom ! i" "n \<le> length buf"
  show "\<exists>r d'. fn_flash_read_buf (flash_spi_dev bus did name) (int i) (int off) buf (int n) d =
      Some (r, take n (drop off (spi_contents geom cells d ! i)) @ drop n buf, d') \<and>
      spi_ok fam geom good busy d' \<and> spi_contents geom cells d' = spi_contents geom cells d"
    using read_at [OF a] a ok_chip [OF a(1)] by (auto simp: flash_spi_dev_def spi_contents_def take_drop_sector_of)
next
  fix d i
  assume a: "spi_ok fam geom good busy d" "i < length geom"
  then obtain d' where d': "spi_flash_sector_erase_int bus (int i) d = Some (FLASH_API_OK, d')" "spi_ok fam geom good busy d'"
      "spi_contents geom cells d' = (spi_contents geom cells d)[i := replicate (geom ! i) 0xff]"
    using contract_erase by blast
  then show "\<exists>r d'. fn_flash_sector_erase_int (flash_spi_dev bus did name) (int i) d = Some (r, d') \<and>
      spi_ok fam geom good busy d' \<and> spi_contents geom cells d' = (spi_contents geom cells d)[i := replicate (geom ! i) 0xff]"
    by (simp add: flash_spi_dev_def)
  show "\<exists>r x d'. fn_flash_sector_erase_int (flash_spi_dev bus did name) (int i) d = Some (r, d') \<and>
      spi_ok fam geom good busy d' \<and> spi_contents geom cells d' = (spi_contents geom cells d)[i := x] \<and> length x = geom ! i"
    using d' by (intro exI [of _ FLASH_API_OK] exI [of _ "replicate (geom ! i) 0xff"] exI [of _ d']) (simp add: flash_spi_dev_def)
next
  fix d i off n and buf :: bytes
  assume a: "spi_ok fam geom good busy d" "i < length geom" "off + n \<le> geom ! i" "n \<le> length buf" "even off" "even n"
    and e: "take n (drop off (spi_contents geom cells d ! i)) = replicate n 0xff"
  show "\<exists>d'. fn_flash_write_buf (flash_spi_dev bus did name) (int i) (int off) buf (int n) d = Some (int n, d') \<and>
      spi_ok fam geom good busy d' \<and> spi_contents geom cells d' =
        (spi_contents geom cells d)[i := take off (spi_contents geom cells d ! i) @ take n buf @
          drop (off + n) (spi_contents geom cells d ! i)]"
    using contract_write [OF a e] a(4) by (simp add: flash_spi_dev_def put_at_def min_absorb2)
next
  fix d i off n e d1 and buf :: bytes
  assume a: "spi_ok fam geom good busy d" "i < length geom" "off + n \<le> geom ! i" "n \<le> length buf" "even off" "even n"
    and "fn_flash_sector_erase_int (flash_spi_dev bus did name) (int i) d = Some (e, d1)"
  then have d1: "spi_ok fam geom good busy d1" "spi_contents geom cells d1 = (spi_contents geom cells d)[i := replicate (geom ! i) 0xff]"
    using contract_erase [OF a(1,2)] by (auto simp: flash_spi_dev_def)
  then have i: "spi_contents geom cells d1 ! i = replicate (geom ! i) 0xff" using a(2) by (simp add: spi_contents_def)
  then have "take n (drop off (spi_contents geom cells d1 ! i)) = replicate n 0xff" using a(3) by (simp add: min_absorb1)
  then obtain d2 where "spi_flash_write_buf bus (int i) (int off) buf (int n) d1 = Some (int n, d2)" "spi_ok fam geom good busy d2"
      "spi_contents geom cells d2 = (spi_contents geom cells d1)[i := put_at off (take n buf) (spi_contents geom cells d1 ! i)]"
    using contract_write [OF d1(1) a(2-6)] by blast
  then show "\<exists>r x d'. fn_flash_write_buf (flash_spi_dev bus did name) (int i) (int off) buf (int n) d1 = Some (r, d') \<and>
      spi_ok fam geom good busy d' \<and> spi_contents geom cells d' = (spi_contents geom cells d)[i := x] \<and>
      length x = geom ! i \<and> (r = int n \<longrightarrow> take n (drop off x) = take n buf)"
    using d1(2) i a(3,4) by (intro exI [of _ "int n"] exI [of _ "put_at off (take n buf) (replicate (geom ! i) 0xff)"] exI [of _ d2])
      (simp add: flash_spi_dev_def put_at_def min_absorb2)
qed

context spi_page_chip
begin

lemma spi_device:
  "reliable_flash_device (flash_spi_dev bus did name) (spi_ok fam geom good busy) geom (spi_contents geom cells)"
  by (rule spi.reliable_flash_device_axioms)

end

section \<open>Protected blocks\<close>

text \<open>
  The driver tries to lift the protection.  It enables the write to the status register for two families
  only; for the others each pass of its loop leaves the part as it was.
\<close>

context spi_protectable_chip
begin

lemma locked_pass:
  assumes "locked c" "busy c = 0" "\<not> wen c"
  shows "\<exists>c'. spi_unprotect_pass bus fam c = Some (Inr c') \<and> busy c' = 0 \<and> cells c' = cells c \<and>
    (if fam \<in> {SPI_FLASH_SPAN, SPI_FLASH_KH} then good c' else locked c' \<and> \<not> wen c')"
proof -
  obtain st rest c0 where st: "spi_rd bus [FLASH_RDSR] 1 c = Some (st # rest, c0)" "st AND SR_BP \<noteq> 0"
    using locked_status [OF assms(1,2)] by blast
  obtain c1 c2 where c2: "spi_read bus [FLASH_RDSR] 1 1 c = Some (SPI_STATUS_OK, [st], c1)" "spi_wait bus c1 = Some c2"
      "locked c2" "busy c2 = 0" "cells c2 = cells c" "wen c2 = wen c"
    by (rule lck.pass_status [OF assms(1,2) st(1)]) (rule that)
  have pass: "spi_unprotect_pass bus fam c = map_option (\<lambda>(_, c). Inr c) (spi_flash_write_status bus fam (NOT SR_WPEN_BP) c2)"
    using c2(1,2) st(2) by (cases "spi_flash_write_status bus fam (NOT SR_WPEN_BP) c2") (auto simp: spi_unprotect_pass_def)
  have ready: "\<exists>c'. spi_wait bus c4 = Some c' \<and> good c' \<and> busy c' = 0 \<and> cells c' = cells c4" if "good c4" for c4
    using wait [OF that] by (auto simp: settled_def)
  consider (span) "fam = SPI_FLASH_SPAN" | (kh) "fam = SPI_FLASH_KH" | (other) "fam \<noteq> SPI_FLASH_SPAN" "fam \<noteq> SPI_FLASH_KH" by blast
  then show ?thesis
  proof cases
    case span
    obtain c3 where c3: "spi_wr bus [FLASH_WREN] c2 = Some c3" "locked c3" "busy c3 = 0" "cells c3 = cells c2" "wen c3"
      using locked_enable [OF c2(3,4)] by blast
    obtain c4 where c4: "spi_wr bus [FLASH_WRST, 0] c3 = Some c4" "cells c4 = cells c3" "good c4"
      using status_write [OF c3(2,3)] c3(5) by auto
    show ?thesis
      using span pass ready [OF c4(3)] spi_write_wr [OF c3(1)] spi_write_wr [OF c4(1)] c2(5) c3(4) c4(2)
      by (auto simp: spi_flash_write_status_def)
  next
    case kh
    obtain c3 c4 where c4: "spi_wr bus [FLASH_EWSR] c2 = Some c3" "spi_wr bus [FLASH_WRST, 0] c3 = Some c4" "good c4"
        "cells c4 = cells c2"
      using status_write_kh [OF kh c2(3,4)] by blast
    show ?thesis
      using kh pass ready [OF c4(3)] spi_write_wr [OF c4(1)] spi_write_wr [OF c4(2)] c2(5) c4(4)
      by (auto simp: spi_flash_write_status_def)
  next
    case other
    obtain c4 where c4: "spi_wr bus [FLASH_WRST, 0] c2 = Some c4" "cells c4 = cells c2" "locked c4" "busy c4 = 0" "\<not> wen c4"
      using status_write [OF c2(3,4)] c2(6) assms(3) by auto
    show ?thesis
      using other pass lck.wait [OF c4(3)] spi_write_wr [OF c4(1)] c2(5) c4(2,4,5)
      by (auto simp: spi_flash_write_status_def settled_def)
  qed
qed

lemma locked_reset:
  assumes "locked c" "busy c = 0"
  shows "\<exists>c'. spi_flash_reset bus fam c = Some (FLASH_API_OK, c') \<and> locked c' \<and> busy c' = 0 \<and> cells c' = cells c \<and> \<not> wen c'"
proof -
  obtain c1 where "spi_wr bus [FLASH_WRDI] c = Some c1" "locked c1" "busy c1 = 0" "cells c1 = cells c" "\<not> wen c1"
    using locked_disable [OF assms] by blast
  then show ?thesis using lck.reset_from [of c c1 fam] by auto
qed

text \<open>The families for which the protection is lifted.\<close>

lemma erase_locked:
  assumes s: "spi_ok fam geom locked busy s" and i: "i < length geom" and fam: "fam \<in> {SPI_FLASH_SPAN, SPI_FLASH_KH}"
  shows "\<exists>s'. spi_flash_sector_erase_int bus (int i) s = Some (FLASH_API_OK, s') \<and> spi_ok fam geom good busy s' \<and>
    spi_contents geom cells s' = (spi_contents geom cells s)[i := replicate (geom ! i) 0xff]"
proof -
  have l: "spi_geom s geom" "spi_flashFamily s = fam" "locked (spi_chip s)" "busy (spi_chip s) = 0" using s by (simp_all add: spi_ok_def)
  obtain c1 where c1: "spi_flash_reset bus fam (spi_chip s) = Some (FLASH_API_OK, c1)" "locked c1" "busy c1 = 0"
      "cells c1 = cells (spi_chip s)" "\<not> wen c1"
    using locked_reset [OF l(3,4)] by blast
  obtain c2 where c2: "spi_unprotect_pass bus fam c1 = Some (Inr c2)" "busy c2 = 0" "cells c2 = cells c1" "good c2"
    using locked_pass [OF c1(2,3,5)] fam by auto
  obtain c3 where c3: "spi_unprotect bus fam c2 = Some c3" "good c3" "busy c3 = 0" "cells c3 = cells c2"
    using unprotect_good [OF c2(4,2)] by blast
  have "spi_unprotect bus fam c1 = Some c3" using c2(1) c3(1) by (subst spi_unprotect.simps) simp
  then obtain c' where c': "spi_flash_sector_erase_int bus (int i) s = Some (FLASH_API_OK, s\<lparr>spi_chip := c'\<rparr>)" "good c'" "busy c' = 0"
      "cells c' = put_at (blk_base geom i) (replicate (geom ! i) 0xff) (cells (spi_chip s))"
    using erase_from [OF l(1,2) i c1(1) _ c3(2,3)] c1(4) c2(3) c3(4) by auto
  then show ?thesis
    using erased_contents [OF locked_length [OF l(3)] c'(2) i c'(4)] l(1,2) by (auto simp: spi_ok_def)
qed

text \<open>The other families: the loop runs for ever.\<close>

lemma unprotect_stuck:
  assumes "spi_unprotect b f c = Some y"
  shows "b = bus \<Longrightarrow> f = fam \<Longrightarrow> fam \<notin> {SPI_FLASH_SPAN, SPI_FLASH_KH} \<Longrightarrow> \<not> (locked c \<and> busy c = 0 \<and> \<not> wen c)"
  using assms
proof (induction rule: spi_unprotect.raw_induct [rotated 1, consumes 1])
  case (1 u b f c y)
  show ?case
  proof
    assume "locked c \<and> busy c = 0 \<and> \<not> wen c"
    then obtain c' where c': "spi_unprotect_pass bus fam c = Some (Inr c')" "locked c' \<and> busy c' = 0 \<and> \<not> wen c'"
      using locked_pass [of c] 1 by (auto split: if_splits)
    then have "u b f c' = Some y" using 1 by simp
    then show False using 1 c'(2) by blast
  qed
qed

lemma erase_stuck:
  assumes s: "spi_ok fam geom locked busy s" and fam: "fam \<notin> {SPI_FLASH_SPAN, SPI_FLASH_KH}"
  shows "\<exists>run. spi_flash_reset bus fam (spi_chip s) = Some (FLASH_API_OK, run 0) \<and>
      (\<forall>k. spi_unprotect_pass bus fam (run k) = Some (Inr (run (Suc k)))) \<and> spi_flash_sector_erase_int bus i s = None"
proof -
  have l: "spi_flashFamily s = fam" "locked (spi_chip s)" "busy (spi_chip s) = 0" using s by (simp_all add: spi_ok_def)
  obtain c1 where c1: "spi_flash_reset bus fam (spi_chip s) = Some (FLASH_API_OK, c1)" "locked c1" "busy c1 = 0" "\<not> wen c1"
    using locked_reset [OF l(2,3)] by blast
  define nxt where "nxt c = (case spi_unprotect_pass bus fam c of Some (Inr c') \<Rightarrow> c' | _ \<Rightarrow> c)" for c
  define run where "run k = (nxt ^^ k) c1" for k :: nat
  have step: "spi_unprotect_pass bus fam c = Some (Inr (nxt c)) \<and> locked (nxt c) \<and> busy (nxt c) = 0 \<and> \<not> wen (nxt c)"
    if "locked c" "busy c = 0" "\<not> wen c" for c
    using locked_pass [OF that] fam by (auto simp: nxt_def)
  have inv: "locked (run k) \<and> busy (run k) = 0 \<and> \<not> wen (run k)" for k
    by (induction k) (use c1 step in \<open>auto simp: run_def\<close>)
  have "spi_unprotect_pass bus fam (run k) = Some (Inr (run (Suc k)))" for k
    using step [of "run k"] inv [of k] by (simp add: run_def)
  moreover have "spi_unprotect bus fam c1 = None"
    using unprotect_stuck [of bus fam c1] c1(2-4) fam by (cases "spi_unprotect bus fam c1") auto
  then have "spi_flash_sector_erase_int bus i s = None"
    using c1(1) l(1) by (simp add: spi_flash_sector_erase_int_def spi_flash_ub_def)
  ultimately show ?thesis using c1(1) by (intro exI [of _ run]) (simp add: run_def)
qed

end

end
