(* ===== verification/Spi_Sim.thy ===== *)
theory Spi_Sim
  imports Spi_Driver
begin

text \<open>
  A simulated serial part with page program, on which the laws of \<^verbatim>\<open>Spi_Driver\<close>
  hold: it shows an operation in progress in three status reads, ignores commands meanwhile, and
  programs, erases or writes its status register only while its write enable latch is set.  A protected
  part does not program or erase.  It answers the last of the four commands that ask for an id.
\<close>

section \<open>Definitions\<close>

record spi_sim =
  sim_cells :: bytes
  sim_busy :: nat
  sim_wen :: bool
  sim_prot :: bool

definition spi_sim_status :: "spi_sim \<Rightarrow> u8" where
  "spi_sim_status c = (if sim_prot c then SR_BP else 0) OR (if sim_wen c then 2 else 0) OR (if sim_busy c = 0 then 0 else 1)"

definition spi_sim_command :: "spi_family \<Rightarrow> nat list \<Rightarrow> bytes \<Rightarrow> spi_sim \<Rightarrow> spi_sim" where
  "spi_sim_command fam geom tx c =
     (let p = spi_pos (sum_list geom) (take 3 (tl tx)) in
      if sim_busy c \<noteq> 0 then c
      else if hd tx = FLASH_WREN then c\<lparr>sim_wen := True\<rparr>
      else if hd tx = FLASH_WRDI then c\<lparr>sim_wen := False\<rparr>
      else if hd tx = FLASH_EWSR \<and> fam = SPI_FLASH_KH then c\<lparr>sim_wen := True\<rparr>
      else if \<not> sim_wen c then c
      else if hd tx = FLASH_WRST then c\<lparr>sim_prot := hd (tl tx) AND SR_BP \<noteq> 0, sim_busy := 3, sim_wen := False\<rparr>
      else if sim_prot c then c\<lparr>sim_wen := False\<rparr>
      else if hd tx = SPI_PROG then
        c\<lparr>sim_cells := and_at p (drop 4 tx) (sim_cells c), sim_busy := 3, sim_wen := False\<rparr>
      else if hd tx = erase_opcode fam then
        (let i = blk_of geom p in
         c\<lparr>sim_cells := put_at (blk_base geom i) (replicate (geom ! i) 0xff) (sim_cells c), sim_busy := 3, sim_wen := False\<rparr>)
      else c)"

definition spi_sim_bus :: "spi_family \<Rightarrow> nat list \<Rightarrow> spi_sim spi_bus" where
  "spi_sim_bus fam geom =
     \<lparr>spi_transfer = (\<lambda>ctl tx cmd c.
        if bit ctl 7 then
          (if hd tx = FLASH_RDSR then Some ([spi_sim_status c], c\<lparr>sim_busy := sim_busy c - 1\<rparr>)
           else if hd tx = FLASH_READ \<and> sim_busy c = 0
           then Some (take 63 (drop (spi_pos (sum_list geom) (tl tx)) (sim_cells c)), c)
           else Some (if hd tx = 0xAB then [0x12, 0x12, 0xff] else [0xff, 0xff, 0xff], c))
        else Some ([], spi_sim_command fam geom tx c))\<rparr>"

definition spi_sim_good :: "nat list \<Rightarrow> spi_sim \<Rightarrow> bool" where
  "spi_sim_good geom c \<longleftrightarrow> length (sim_cells c) = sum_list geom \<and> \<not> sim_prot c"

definition spi_sim_locked :: "nat list \<Rightarrow> spi_sim \<Rightarrow> bool" where
  "spi_sim_locked geom c \<longleftrightarrow> length (sim_cells c) = sum_list geom \<and> sim_prot c"

section \<open>The laws\<close>

lemma bit7_read: "bit (of_nat n OR push_bit 6 2 :: u8) 7"
  by (simp add: bit_or_iff bit_push_bit_iff)

lemma bit7_write: "n \<le> 63 \<Longrightarrow> \<not> bit (of_nat n OR push_bit 6 1 :: u8) 7"
proof -
  assume "n \<le> 63"
  then have "(of_nat n :: u8) = take_bit 6 (of_nat n)" by (simp add: take_bit_of_nat take_bit_nat_eq_self)
  then have "bit (of_nat n :: u8) 7 = bit (take_bit 6 (of_nat n :: u8)) 7" by simp
  then have "\<not> bit (of_nat n :: u8) 7" by (simp only: bit_take_bit_iff) simp
  then show ?thesis by (simp add: bit_or_iff bit_push_bit_iff)
qed

lemma sim_rd:
  "spi_rd (spi_sim_bus fam geom) tx n c =
    (if hd tx = FLASH_RDSR then Some ([spi_sim_status c], c\<lparr>sim_busy := sim_busy c - 1\<rparr>)
     else if hd tx = FLASH_READ \<and> sim_busy c = 0
     then Some (take 63 (drop (spi_pos (sum_list geom) (tl tx)) (sim_cells c)), c)
     else Some (if hd tx = 0xAB then [0x12, 0x12, 0xff] else [0xff, 0xff, 0xff], c))"
  using bit7_read [of n] by (simp add: spi_rd_def spi_sim_bus_def)

lemma sim_wr: "length tx \<le> 63 \<Longrightarrow> spi_wr (spi_sim_bus fam geom) tx c = Some (spi_sim_command fam geom tx c)"
  using bit7_write [of "length tx"] by (simp add: spi_wr_def spi_sim_bus_def)

lemma sim_status_bits:
  "spi_sim_status c AND SR_RDY = 0 \<longleftrightarrow> sim_busy c = 0" "spi_sim_status c AND SR_BP = 0 \<longleftrightarrow> \<not> sim_prot c"
  "spi_sim_status c AND SR_WEN \<noteq> 0 \<longleftrightarrow> sim_wen c"
  by (simp_all add: spi_sim_status_def)

lemma erase_opcode_neq: "erase_opcode fam \<noteq> FLASH_WREN" "erase_opcode fam \<noteq> FLASH_WRDI" "erase_opcode fam \<noteq> SPI_PROG"
  "erase_opcode fam \<noteq> FLASH_EWSR" "erase_opcode fam \<noteq> FLASH_WRST"
  by (cases fam; simp)+

lemma spi_sim_polled:
  assumes "\<And>c n. P c \<Longrightarrow> P (c\<lparr>sim_busy := n\<rparr>)"
  shows "spi_polled (spi_sim_bus fam geom) P sim_busy sim_wen sim_cells"
proof
  fix c
  assume "P c"
  then show "\<exists>st rest c'. spi_rd (spi_sim_bus fam geom) [FLASH_RDSR] 1 c = Some (st # rest, c') \<and> P c' \<and>
      sim_cells c' = sim_cells c \<and> sim_busy c' = sim_busy c - 1 \<and> (st AND SR_RDY = 0 \<longleftrightarrow> sim_busy c = 0) \<and>
      (sim_busy c = 0 \<longrightarrow> (st AND SR_WEN \<noteq> 0 \<longleftrightarrow> sim_wen c) \<and> sim_wen c' = sim_wen c)"
    using assms sim_status_bits [of c] by (simp add: sim_rd)
qed

lemma spi_sim_laws:
  assumes fam: "fam \<in> {SPI_FLASH_ATMEL, SPI_FLASH_AMD, SPI_FLASH_SPAN, SPI_FLASH_KH, SPI_FLASH_NX}"
    and geom: "0 < length geom" "length geom \<le> 1024" "\<forall>n\<in>set geom. 0 < n \<and> even n"
      "sum_list geom \<le> 0x400000" "sum_list geom dvd 0xC00000"
  shows "spi_page_chip (spi_sim_bus fam geom) (spi_sim_good geom) sim_busy sim_wen sim_cells fam geom"
proof (intro spi_page_chip.intro spi_sim_polled spi_page_chip_axioms.intro)
  fix c p n i and a d :: bytes
  assume g: "spi_sim_good geom c"
  show "length (sim_cells c) = sum_list geom" using g by (simp add: spi_sim_good_def)
  show "spi_sim_good geom (c\<lparr>sim_busy := n\<rparr>)" using g by (simp add: spi_sim_good_def)
  assume b: "sim_busy c = 0"
  show "\<exists>st rest c'. spi_rd (spi_sim_bus fam geom) [FLASH_RDSR] 1 c = Some (st # rest, c') \<and> st AND SR_BP = 0"
    using g sim_status_bits [of c] by (simp add: sim_rd spi_sim_good_def)
  show "\<exists>c'. spi_wr (spi_sim_bus fam geom) [FLASH_WREN] c = Some c' \<and> spi_sim_good geom c' \<and> sim_busy c' = 0 \<and>
      sim_cells c' = sim_cells c \<and> sim_wen c'"
    using g b by (simp add: sim_wr spi_sim_command_def spi_sim_good_def)
  show "\<exists>c'. spi_wr (spi_sim_bus fam geom) [FLASH_WRDI] c = Some c' \<and> spi_sim_good geom c' \<and> sim_busy c' = 0 \<and>
      sim_cells c' = sim_cells c"
    using g b by (simp add: sim_wr spi_sim_command_def spi_sim_good_def)
  assume a: "length a = 3"
  show "\<exists>fifo c'. spi_rd (spi_sim_bus fam geom) (FLASH_READ # a) n c = Some (fifo, c') \<and> n \<le> length fifo \<and>
      take n fifo = take n (drop p (sim_cells c)) \<and> spi_sim_good geom c' \<and> sim_busy c' = 0 \<and> sim_cells c' = sim_cells c"
    if "n \<le> 60" "p = spi_pos (sum_list geom) a" "p + n \<le> sum_list geom"
    using g b that by (simp add: sim_rd spi_sim_good_def)
  assume w: "sim_wen c"
  show "\<exists>c'. spi_wr (spi_sim_bus fam geom) (SPI_PROG # a @ d) c = Some c' \<and> spi_sim_good geom c' \<and>
      sim_cells c' = and_at p d (sim_cells c)"
    if "p = spi_pos (sum_list geom) a" "length d \<le> 59" "p + length d \<le> sum_list geom"
    using g b w a that by (simp add: sim_wr spi_sim_command_def spi_sim_good_def)
  show "\<exists>c'. spi_wr (spi_sim_bus fam geom) (erase_opcode fam # a) c = Some c' \<and> spi_sim_good geom c' \<and>
      sim_cells c' = put_at (blk_base geom i) (replicate (geom ! i) 0xff) (sim_cells c)"
    if i: "i < length geom" "spi_pos (sum_list geom) a = blk_base geom i"
  proof -
    have le: "blk_base geom i + geom ! i \<le> sum_list geom" "0 < geom ! i"
      using blk_base_Suc [OF i(1)] blk_base_le_total [of geom "Suc i"] geom(3) i(1) by simp_all
    then have "blk_of geom (blk_base geom i) = i" using blk_base_Suc [OF i(1)] i(1) by (intro blk_of_unique) simp_all
    then show ?thesis using g b w a i le erase_opcode_neq [of fam] by (simp add: sim_wr spi_sim_command_def spi_sim_good_def)
  qed
qed (use fam geom in auto)

lemma spi_sim_protectable:
  assumes fam: "fam \<in> {SPI_FLASH_ATMEL, SPI_FLASH_AMD, SPI_FLASH_SPAN, SPI_FLASH_KH, SPI_FLASH_NX}"
    and geom: "0 < length geom" "length geom \<le> 1024" "\<forall>n\<in>set geom. 0 < n \<and> even n"
      "sum_list geom \<le> 0x400000" "sum_list geom dvd 0xC00000"
  shows "spi_protectable_chip (spi_sim_bus fam geom) (spi_sim_good geom) sim_busy sim_wen sim_cells fam geom (spi_sim_locked geom)"
proof (intro spi_protectable_chip.intro spi_sim_laws [OF assms] spi_sim_polled spi_protectable_chip_axioms.intro)
  fix c n
  assume l: "spi_sim_locked geom c"
  show "spi_sim_locked geom (c\<lparr>sim_busy := n\<rparr>)" "length (sim_cells c) = sum_list geom"
    using l by (simp_all add: spi_sim_locked_def)
  assume b: "sim_busy c = 0"
  show "\<exists>st rest c'. spi_rd (spi_sim_bus fam geom) [FLASH_RDSR] 1 c = Some (st # rest, c') \<and> st AND SR_BP \<noteq> 0"
    using l sim_status_bits [of c] by (simp add: sim_rd spi_sim_locked_def)
  show "\<exists>c'. spi_wr (spi_sim_bus fam geom) [FLASH_WREN] c = Some c' \<and> spi_sim_locked geom c' \<and> sim_busy c' = 0 \<and>
      sim_cells c' = sim_cells c \<and> sim_wen c'"
    using l b by (simp add: sim_wr spi_sim_command_def spi_sim_locked_def)
  show "\<exists>c'. spi_wr (spi_sim_bus fam geom) [FLASH_WRDI] c = Some c' \<and> spi_sim_locked geom c' \<and> sim_busy c' = 0 \<and>
      sim_cells c' = sim_cells c \<and> \<not> sim_wen c'"
    using l b by (simp add: sim_wr spi_sim_command_def spi_sim_locked_def)
  show "\<exists>c'. spi_wr (spi_sim_bus fam geom) [FLASH_WRST, 0] c = Some c' \<and> sim_cells c' = sim_cells c \<and>
      (if sim_wen c then spi_sim_good geom c' else spi_sim_locked geom c' \<and> sim_busy c' = 0 \<and> \<not> sim_wen c')"
    using l b by (simp add: sim_wr spi_sim_command_def spi_sim_locked_def spi_sim_good_def)
  show "\<exists>c1 c2. spi_wr (spi_sim_bus fam geom) [FLASH_EWSR] c = Some c1 \<and> spi_wr (spi_sim_bus fam geom) [FLASH_WRST, 0] c1 = Some c2 \<and>
      spi_sim_good geom c2 \<and> sim_cells c2 = sim_cells c" if "fam = SPI_FLASH_KH"
    using l b that by (simp add: sim_wr spi_sim_command_def spi_sim_locked_def spi_sim_good_def)
qed

text \<open>A part of 512 kilobytes in eight sectors, as the \<open>M25P40\<close>.\<close>

definition spi_sectors :: "nat list" where
  "spi_sectors = replicate 8 0x10000"

lemma spi_sectors_sum [simp]: "sum_list spi_sectors = 0x80000" "length spi_sectors = 8"
  by (simp_all add: spi_sectors_def sum_list_replicate)

interpretation spi8: spi_protectable_chip "spi_sim_bus SPI_FLASH_AMD spi_sectors" "spi_sim_good spi_sectors" sim_busy sim_wen sim_cells
  SPI_FLASH_AMD spi_sectors "spi_sim_locked spi_sectors"
  by (rule spi_sim_protectable) (auto simp: spi_sectors_def sum_list_replicate)

end
