(* ===== verification/Spi_Properties.thy ===== *)
theory Spi_Properties
  imports Spi_Sim Flash_Properties
begin

text \<open>
  Properties of the serial flash driver: the flash storage of the board works on it, when an erase
  returns, programming clears bits, the sector table of a part, and
  writes of odd length on parts with word programming.
\<close>

section \<open>The simulated part\<close>

definition spi_sim_table :: "spi_sec list" where
  "spi_sim_table = map (\<lambda>i. \<lparr>spi_size = 0x10000, spi_base = int i * 0x10000\<rparr>) [0..<8] @
     replicate 1016 \<lparr>spi_size = 0, spi_base = 0\<rparr>"

definition spi_sim_state :: "bytes \<Rightarrow> spi_sim spi_state" where
  "spi_sim_state b =
     \<lparr>spi_nsect = 8, spi_secs = spi_sim_table, spi_totalSize = 0x80000, spi_flashFamily = SPI_FLASH_AMD,
      sstAaiWordProgram = False, spi_chip = \<lparr>sim_cells = b, sim_busy = 0, sim_wen = False, sim_prot = False\<rparr>\<rparr>"

lemma spi_sim_state_ok:
  "length b = 0x80000 \<Longrightarrow> spi_ok SPI_FLASH_AMD spi_sectors (spi_sim_good spi_sectors) sim_busy (spi_sim_state b)"
  by (auto simp: spi_ok_def spi_geom_def spi_sim_state_def spi_sim_good_def spi_sim_table_def nth_append spi_sectors_def
      blk_base_replicate sum_list_replicate)

abbreviation spi_sim_dev :: "spi_sim spi_state flash_device_info option" where
  "spi_sim_dev \<equiv> Some (flash_spi_dev (spi_sim_bus SPI_FLASH_AMD spi_sectors) 0x1212 ''M25P40'')"

lemma spi_sectors_sim: "spi_sectors = sim_sectors"
  by (simp add: spi_sectors_def sim_sectors_def)

section \<open>Storage on a serial part\<close>

text \<open>
  C34. The configuration on serial flash.  On every part with page program, i.e. of the families other
  than SST, that obeys its data sheet and has no protected block, \<open>kerSysPersistentSet\<close>
  returns 0, stores the bytes at their place in the configuration section and changes no other byte of
  the part, and \<open>kerSysPersistentGet\<close> reads them back.
\<close>

theorem kerSysPersistentSet_serial:
  assumes chip: "spi_page_chip bus good busy wen arr fam geom" and s: "spi_ok fam geom good busy s"
    and pl: "placed geom (flash_persistent_start_blk fi) (flash_persistent_number_blk fi)
      (flash_persistent_blk_offset fi) (flash_persistent_length fi)"
    and n: "0 \<le> offset" "offset + int n \<le> flash_persistent_length fi" "n \<le> length string" "n \<le> length buf"
    and km: "\<And>z. km z"
    and p: "p = section_pos geom (flash_persistent_start_blk fi) (flash_persistent_blk_offset fi) offset"
  shows "\<exists>s'. kerSysPersistentSet fi km (Some (flash_spi_dev bus did name)) string (int n) offset s = Some (0, s') \<and>
    spi_ok fam geom good busy s' \<and>
    concat (spi_contents geom arr s') =
      take p (concat (spi_contents geom arr s)) @ take n string @ drop (p + n) (concat (spi_contents geom arr s)) \<and>
    (\<exists>s''. kerSysPersistentGet fi km (Some (flash_spi_dev bus did name)) buf (int n) offset s' =
       Some (0, take n string @ drop n buf, s''))"
  unfolding kerSysPersistentSet_def kerSysPersistentGet_def
  by (rule reliable_flash_device.section_roundtrip_reliable [where km = km, OF spi_page_chip.spi_device [OF chip] s pl n km p])

theorem kerSysPersistentSet_serial_witness:
  "\<exists>s'. kerSysPersistentSet sim_layout (\<lambda>z. True) spi_sim_dev [1, 2, 3] 3 100 (spi_sim_state (replicate 0x80000 0)) = Some (0, s') \<and>
    (\<exists>s''. kerSysPersistentGet sim_layout (\<lambda>z. True) spi_sim_dev [0, 0, 0, 0] 3 100 s' = Some (0, [1, 2, 3, 0], s''))"
  using kerSysPersistentSet_serial [where km = "\<lambda>z. True" and n = 3 and string = "[1, 2, 3]" and buf = "[0, 0, 0, 0]",
      OF spi8.spi_page_chip_axioms spi_sim_state_ok sim_layout_placed(1) [folded spi_sectors_sim] _ _ _ _ _ refl,
      of "replicate 0x80000 0" 100]
  by (fastforce simp: sim_layout_def)

text \<open>
  C35. Programming.  A write of an even number of bytes at an even offset reports all of its bytes
  and makes every byte it is given the conjunction of the old and the new value.  It reports the
  same when the bytes were not erased before, so that what is stored is not what was written.
\<close>

theorem spi_flash_write_buf_program:
  assumes "spi_page_chip bus good busy wen arr fam geom" "spi_ok fam geom good busy s"
    and "i < length geom" "off + n \<le> geom ! i" "n \<le> length buf" "even off" "even n"
  shows "\<exists>s'. spi_flash_write_buf bus (int i) (int off) buf (int n) s = Some (int n, s') \<and> spi_ok fam geom good busy s' \<and>
    (\<forall>j<length geom. j \<noteq> i \<longrightarrow> spi_contents geom arr s' ! j = spi_contents geom arr s ! j) \<and>
    (\<forall>k<geom ! i. spi_contents geom arr s' ! i ! k =
       (if off \<le> k \<and> k < off + n then spi_contents geom arr s ! i ! k AND buf ! (k - off)
        else spi_contents geom arr s ! i ! k))"
proof -
  obtain s' where s': "spi_flash_write_buf bus (int i) (int off) buf (int n) s = Some (int n, s')" "spi_ok fam geom good busy s'"
      "spi_contents geom arr s' = (spi_contents geom arr s)[i := and_at off (take n buf) (spi_contents geom arr s ! i)]"
    using spi_page_chip.contract_program [OF assms] by blast
  have "good (spi_chip s)" using assms(2) by (simp add: spi_ok_def)
  then have len: "length (spi_contents geom arr s ! i) = geom ! i"
    using assms(3) by (simp add: spi_contents_def length_sector_of spi_page_chip.cells_length [OF assms(1)])
  have "spi_contents geom arr s' ! i = and_at off (take n buf) (spi_contents geom arr s ! i)"
    using s'(3) assms(3) by (simp add: spi_contents_def)
  then have "spi_contents geom arr s' ! i ! k = (if off \<le> k \<and> k < off + n then spi_contents geom arr s ! i ! k AND buf ! (k - off)
      else spi_contents geom arr s ! i ! k)" if "k < geom ! i" for k
    using that assms(4,5) len by (auto simp: nth_and_at min_absorb2)
  then show ?thesis using s' by (intro exI [of _ s']) simp
qed

theorem spi_flash_write_buf_program_witness:
  "\<exists>s'. spi_flash_write_buf (spi_sim_bus SPI_FLASH_AMD spi_sectors) 2 4 [0xf0, 0x3c] 2 (spi_sim_state (replicate 0x80000 0xaa)) =
      Some (2, s') \<and> spi_ok SPI_FLASH_AMD spi_sectors (spi_sim_good spi_sectors) sim_busy s'"
  using spi_flash_write_buf_program [OF spi8.spi_page_chip_axioms spi_sim_state_ok, of "replicate 0x80000 0xaa" 2 4 2 "[0xf0, 0x3c]"]
  by (auto simp: spi_sectors_def)

text \<open>
  C36. Erasing a sector of a part with page program, i.e. of the families other than SST, whose blocks
  may be protected. However many status reads show the part busy,
  \<open>spi_flash_sector_erase_int\<close> returns when no block is protected, and for Spansion and KH
  parts in any case; then the sector is \<open>0xff\<close> throughout, the other sectors are unchanged
  and no block is protected.  For a protected part of Atmel, AMD or NexFlash it never returns: the loop
  that lifts the protection writes the status register without enabling that, so that pass after pass
  finds the part as the one before.
\<close>

theorem spi_flash_sector_erase_int_returns:
  assumes chip: "spi_protectable_chip bus good busy wen arr fam geom locked" and i: "i < length geom"
    and s: "spi_ok fam geom good busy s \<or> spi_ok fam geom locked busy s"
  shows "if spi_ok fam geom good busy s \<or> fam = SPI_FLASH_SPAN \<or> fam = SPI_FLASH_KH
    then \<exists>s'. spi_flash_sector_erase_int bus (int i) s = Some (FLASH_API_OK, s') \<and> spi_ok fam geom good busy s' \<and>
      spi_contents geom arr s' = (spi_contents geom arr s)[i := replicate (geom ! i) 0xff]
    else \<exists>run. spi_flash_reset bus fam (spi_chip s) = Some (FLASH_API_OK, run 0) \<and>
      (\<forall>k. spi_unprotect_pass bus fam (run k) = Some (Inr (run (Suc k)))) \<and> spi_flash_sector_erase_int bus (int i) s = None"
  using s spi_page_chip.contract_erase [OF spi_protectable_chip.axioms(1) [OF chip] _ i]
    spi_protectable_chip.erase_locked [OF chip _ i] spi_protectable_chip.erase_stuck [OF chip, of s "int i"]
  by simp blast

definition spi_sim_protected :: "bytes \<Rightarrow> spi_sim spi_state" where
  "spi_sim_protected b = (spi_sim_state b)\<lparr>spi_chip := \<lparr>sim_cells = b, sim_busy = 0, sim_wen = False, sim_prot = True\<rparr>\<rparr>"

lemma spi_sim_protected_ok:
  assumes "length b = 0x80000"
  shows "spi_ok SPI_FLASH_AMD spi_sectors (spi_sim_locked spi_sectors) sim_busy (spi_sim_protected b)"
    "\<not> spi_ok SPI_FLASH_AMD spi_sectors (spi_sim_good spi_sectors) sim_busy (spi_sim_protected b)"
  using spi_sim_state_ok [OF assms] assms by (simp_all add: spi_ok_def spi_sim_protected_def spi_sim_good_def spi_sim_locked_def)

theorem spi_flash_sector_erase_int_returns_witness:
  "(\<exists>s'. spi_flash_sector_erase_int (spi_sim_bus SPI_FLASH_AMD spi_sectors) 3 (spi_sim_state (replicate 0x80000 0)) =
      Some (FLASH_API_OK, s') \<and> spi_contents spi_sectors sim_cells s' ! 3 = replicate 0x10000 0xff) \<and>
   spi_flash_sector_erase_int (spi_sim_bus SPI_FLASH_AMD spi_sectors) 3 (spi_sim_protected (replicate 0x80000 0)) = None"
proof -
  have l: "length (replicate 0x80000 (0 :: u8)) = 0x80000" by simp
  have i: "3 < length spi_sectors" "spi_sectors ! 3 = 0x10000" by (simp_all add: spi_sectors_def)
  note th = spi_flash_sector_erase_int_returns [OF spi8.spi_protectable_chip_axioms i(1)]
  have "spi_flash_sector_erase_int (spi_sim_bus SPI_FLASH_AMD spi_sectors) 3 (spi_sim_protected (replicate 0x80000 0)) = None"
    using th [OF disjI2, OF spi_sim_protected_ok(1) [OF l]] spi_sim_protected_ok(2) [OF l] by auto
  moreover obtain s' where "spi_flash_sector_erase_int (spi_sim_bus SPI_FLASH_AMD spi_sectors) (int 3) (spi_sim_state (replicate 0x80000 0)) =
      Some (FLASH_API_OK, s')"
      "spi_contents spi_sectors sim_cells s' =
        (spi_contents spi_sectors sim_cells (spi_sim_state (replicate 0x80000 0)))[3 := replicate (spi_sectors ! 3) 0xff]"
    using th [OF disjI1, OF spi_sim_state_ok [OF l], unfolded if_P [OF disjI1, OF spi_sim_state_ok [OF l]]] by blast
  moreover have "3 < length (spi_contents spi_sectors sim_cells (spi_sim_state (replicate 0x80000 0)))" by (simp add: spi_contents_def)
  ultimately show ?thesis using i(2) by (intro conjI exI [of _ s']) simp_all
qed

section \<open>The sector table\<close>

lemma spi_fill_eq:
  assumes "i + k \<le> length secs"
  shows "\<exists>secs'. spi_fill k z (i, int i * z, secs) = (i + k, int (i + k) * z, secs') \<and> length secs' = length secs \<and>
    (\<forall>j<length secs. secs' ! j = (if i \<le> j \<and> j < i + k then \<lparr>spi_size = z, spi_base = int j * z\<rparr> else secs ! j))"
  using assms
proof (induction k arbitrary: i secs)
  case (Suc k)
  let ?secs = "secs[i := \<lparr>spi_size = z, spi_base = int i * z\<rparr>]"
  have b: "int i * z + z = int (Suc i) * z" by (simp add: distrib_right)
  obtain secs' where "spi_fill k z (Suc i, int (Suc i) * z, ?secs) = (Suc i + k, int (Suc i + k) * z, secs')"
      "length secs' = length ?secs"
      "\<forall>j<length ?secs. secs' ! j = (if Suc i \<le> j \<and> j < Suc i + k then \<lparr>spi_size = z, spi_base = int j * z\<rparr> else ?secs ! j)"
    using Suc.IH [of "Suc i" ?secs] Suc.prems by auto
  then show ?case using Suc.prems b by (intro exI [of _ secs']) (auto simp: nth_list_update)
qed auto

lemma spi_part_bounds:
  assumes "spi_part device_id = Some (fam, n, z, key, aai)" "0 < n"
  shows "n \<le> 512 \<and> (\<exists>m. z = int m \<and> 0 < m \<and> even m \<and> n * m \<le> 0x400000 \<and> n * m dvd 0xC00000)"
  using assms by (auto simp: spi_part_def Let_def split: if_splits)

text \<open>
  C37. The sector table of a part.  When the identification reads an id whose manufacturer the
  driver does not know, \<open>spi_flash_init\<close> returns an error and leaves the driver unused.  For every
  known part the table describes sectors of equal size that lie one after the other and fill a part
  of at most 4 megabytes, whose size divides the address bits the chip ignores.  An unknown part of
  a known manufacturer with no default size makes the driver read in front of its table.
\<close>

theorem spi_flash_init_table:
  assumes id: "spi_flash_get_device_id bus (spi_flashFamily s) (spi_chip s) = Some (device_id, c)"
    and tab: "length (spi_secs s) = 1024"
  shows "case spi_part device_id of
      None \<Rightarrow> \<exists>dev s'. spi_flash_init bus name s = Some (FLASH_API_ERROR, dev, s') \<and> spi_flashFamily s' = spi_flashFamily s
    | Some (fam, n, z, key, aai) \<Rightarrow>
        if n = 0 then spi_flash_init bus name s = None
        else \<exists>dev s'. spi_flash_init bus name s = Some (FLASH_API_OK, dev, s') \<and> flash_device_id dev = device_id \<and>
          spi_geom s' (replicate n (nat z)) \<and> n * nat z dvd 0xC00000 \<and> spi_flashFamily s' = fam \<and> spi_chip s' = c"
proof (cases "spi_part device_id")
  case None
  then show ?thesis using id by (simp add: spi_flash_init_def)
next
  case (Some t)
  obtain fam n z key aai where t: "t = (fam, n, z, key, aai)" by (cases t) auto
  note part = Some [unfolded t]
  show ?thesis
  proof (cases "n = 0")
    case True
    then show ?thesis using id part by (simp add: spi_flash_init_def c_assert_def)
  next
    case False
    then obtain m where m: "n \<le> 512" "z = int m" "0 < m" "n * m \<le> 0x400000" "n * m dvd 0xC00000"
      using spi_part_bounds [OF part] by auto
    obtain secs' where secs': "spi_fill n z (0, 0, spi_secs s) = (n, int n * z, secs')" "length secs' = 1024"
        "\<forall>j<1024. secs' ! j = (if j < n then \<lparr>spi_size = z, spi_base = int j * z\<rparr> else spi_secs s ! j)"
      using spi_fill_eq [of 0 n "spi_secs s" z] tab m(1) by auto
    have tot: "spi_base (secs' ! (n - 1)) + spi_size (secs' ! (n - 1)) = int (n * m)"
      using secs'(3) False m(1,2) by (simp add: of_nat_diff left_diff_distrib)
    have init: "\<exists>dev. spi_flash_init bus name s = Some (FLASH_API_OK, dev,
        s\<lparr>spi_chip := c, spi_nsect := int n, spi_secs := secs', spi_totalSize := int (n * m),
          spi_flashFamily := fam, sstAaiWordProgram := sstAaiWordProgram s \<or> aai\<rparr>) \<and> flash_device_id dev = device_id"
      using id part secs'(1) tot False by (simp add: spi_flash_init_def flash_spi_dev_def)
    have "spi_geom (s\<lparr>spi_chip := c, spi_nsect := int n, spi_secs := secs', spi_totalSize := int (n * m),
          spi_flashFamily := fam, sstAaiWordProgram := sstAaiWordProgram s \<or> aai\<rparr>) (replicate n m)"
      using m secs'(2,3) by (simp add: spi_geom_def blk_base_replicate sum_list_replicate)
    then show ?thesis using part False init m(2,5) by auto
  qed
qed

text \<open>The simulated part answers with its id to the last command only.\<close>

lemma sim_idle_status: "sim_busy c = 0 \<Longrightarrow> spi_flash_status (spi_sim_bus fam geom) c = Some (SPI_STATUS_READY, c)"
proof -
  assume b: "sim_busy c = 0"
  then have "c\<lparr>sim_busy := sim_busy c - 1\<rparr> = c" by (cases c) simp
  then have "spi_read (spi_sim_bus fam geom) [FLASH_RDSR] 1 1 c = Some (0, [spi_sim_status c], c)"
    using spi_read_rd [of "spi_sim_bus fam geom" "[FLASH_RDSR]" 1 c "[spi_sim_status c]" c "[]"] by (simp add: sim_rd)
  then have "spi_status_loop (spi_sim_bus fam geom) (Suc k) c = Some (SPI_STATUS_READY, c)" for k
    using sim_status_bits(1) [of c] b by simp
  from this [of 10] show ?thesis by (simp add: spi_flash_status_def del: spi_status_loop.simps)
qed

lemma sim_id_poll: "sim_busy c = 0 \<Longrightarrow> spi_id_poll (spi_sim_bus fam geom) (Suc j) match c = Some (match, c)"
  by (induction j) (auto simp: sim_idle_status)

lemma sim_read_id:
  assumes "hd cmd \<notin> {FLASH_RDSR, FLASH_READ}" "cmd \<noteq> []" "length cmd \<le> 4" "length buf = 4" "n \<le> 3"
  shows "spi_read (spi_sim_bus fam geom) (cmd @ drop (length cmd) buf) (length cmd) n c =
    Some (0, take n (if hd cmd = 0xAB then [0x12, 0x12, 0xff] else [0xff, 0xff, 0xff]) @ drop n (cmd @ drop (length cmd) buf), c)"
  using assms by (intro spi_read_rd) (auto simp: sim_rd)

lemma sim_id_try:
  assumes "sim_busy c = 0" "hd cmd \<notin> {FLASH_RDSR, FLASH_READ}" "cmd \<noteq> []" "length cmd \<le> 4" "length buf = 4" "n \<le> 3" "length r = 4"
    and r: "take n (if hd cmd = 0xAB then [0x12, 0x12, 0xff] else [0xff, 0xff, 0xff]) @ drop n (cmd @ drop (length cmd) buf) = r"
      "take n (if hd cmd = 0xAB then [0x12, 0x12, 0xff] else [0xff, 0xff, 0xff]) @ drop n (cmd @ drop (length cmd) r) = r"
  shows "spi_id_try (spi_sim_bus fam geom) (Suc k) cmd n match buf c = Some (match r, r, c)"
  using assms(5,8)
proof (induction k arbitrary: buf)
  case 0
  then show ?case
    using sim_read_id [OF assms(2-4) 0(1) assms(6)] sim_id_poll [OF assms(1), of fam geom 29] by simp
next
  case (Suc k)
  have "spi_id_try (spi_sim_bus fam geom) (Suc (Suc k)) cmd n match buf c =
      (if match r then Some (True, r, c) else spi_id_try (spi_sim_bus fam geom) (Suc k) cmd n match r c)"
    using sim_read_id [OF assms(2-4) Suc.prems(1) assms(6)] sim_id_poll [OF assms(1), of fam geom 29] Suc.prems(2)
    by (simp del: spi_id_try.simps(2) add: spi_id_try.simps(2) [of _ "Suc k"])
  then show ?case using Suc.IH [OF assms(7) r(2)] by simp
qed

lemma sim_device_id:
  assumes "sim_busy c = 0"
  shows "spi_flash_get_device_id (spi_sim_bus fam geom) SPI_FLASH_UNDEFINED c = Some (0x1212, c)"
proof -
  note tries = sim_id_try [OF assms, where k = 2, simplified]
  have "spi_id_try (spi_sim_bus fam geom) 3 [0x90, 0, 0, 0] 2 m [0, 0, 0, 0] c = Some (m [0xff, 0xff, 0, 0], [0xff, 0xff, 0, 0], c)"
    "spi_id_try (spi_sim_bus fam geom) 3 [0x15] 2 m [0xff, 0xff, 0, 0] c = Some (m [0xff, 0xff, 0, 0], [0xff, 0xff, 0, 0], c)"
    "spi_id_try (spi_sim_bus fam geom) 3 [0x9F] 3 m [0xff, 0xff, 0, 0] c = Some (m [0xff, 0xff, 0xff, 0], [0xff, 0xff, 0xff, 0], c)"
    "spi_id_try (spi_sim_bus fam geom) 3 [0xAB, 0, 0, 0] 2 m [0xff, 0xff, 0xff, 0] c = Some (m [0x12, 0x12, 0, 0], [0x12, 0x12, 0, 0], c)"
    for m
    by (intro tries; simp)+
  then show ?thesis by (simp add: spi_flash_get_device_id_def spi_flash_reset_def id_of_def)
qed

theorem spi_flash_init_table_witness:
  "\<exists>dev s'. spi_flash_init (spi_sim_bus SPI_FLASH_AMD spi_sectors) []
      (spi_sim_state (replicate 0x80000 0)\<lparr>spi_flashFamily := SPI_FLASH_UNDEFINED\<rparr>) = Some (FLASH_API_OK, dev, s') \<and>
    spi_geom s' (replicate 8 0x10000)"
proof -
  let ?s = "spi_sim_state (replicate 0x80000 0)\<lparr>spi_flashFamily := SPI_FLASH_UNDEFINED\<rparr>"
  have "spi_flash_get_device_id (spi_sim_bus SPI_FLASH_AMD spi_sectors) (spi_flashFamily ?s) (spi_chip ?s) = Some (0x1212, spi_chip ?s)"
    using sim_device_id [of "spi_chip ?s"] by (simp add: spi_sim_state_def)
  moreover have "spi_part 0x1212 = Some (SPI_FLASH_AMD, 8, 0x10000, 0x1212, False)" by (simp add: spi_part_def)
  ultimately show ?thesis
    using spi_flash_init_table [where s = ?s and name = "[]"] by (fastforce simp: spi_sim_state_def spi_sim_table_def)
qed

section \<open>Word programming\<close>

lemma spi_word_aai_loop_odd: "odd nbytes \<Longrightarrow> spi_word_aai_loop bus dst first pbuf nbytes c = None"
proof (induction bus dst first pbuf nbytes c rule: spi_word_aai_loop.induct)
  case (1 bus dst first b b' pbuf nbytes c)
  then show ?case by (auto split: bind_splits)
qed auto

text \<open>
  Odd lengths on parts with word programming.  Each turn takes two bytes and the loop ends
  when none is left, so with an odd number of bytes the count passes zero: whatever the part
  answers, \<open>spi_flash_write_buf\<close> runs past the end of the buffer and never returns a value.
\<close>

lemma spi_flash_write_buf_odd_words:
  assumes "spi_flashFamily s = SPI_FLASH_SST" "sstAaiWordProgram s" "odd numbytes"
  shows "spi_flash_write_buf bus sector offset buffer numbytes s = None"
  using assms
  by (auto simp: spi_flash_write_buf_def spi_flash_write_def spi_word_aai_loop_odd split: bind_splits option.splits)

lemma spi_flash_write_buf_odd_words_witness:
  "spi_flash_write_buf (spi_sim_bus SPI_FLASH_SST spi_sectors) 0 0 [1, 2, 3, 4] 3
     (spi_sim_state (replicate 0x80000 0xff)\<lparr>spi_flashFamily := SPI_FLASH_SST, sstAaiWordProgram := True\<rparr>) = None"
  by (rule spi_flash_write_buf_odd_words) simp_all

end
