(* ===== verification/Skb.thy ===== *)
theory Skb
  imports Board_Prelude
begin

text \<open>
  Socket buffers of the kernel (\<open>skbuff.h\<close>, \<open>skbuff.c\<close>), as far as the ATM/PTM
  network driver uses them.  A buffer is linear: the bytes from \<open>head\<close> to
  \<open>end\<close> are \<open>sk_mem\<close>, and the packet is the \<open>len\<close> bytes from
  \<open>data\<close> on.  The kernel is a parameter \<open>K\<close>: \<open>kmem K n size\<close> is
  the outcome of the \<open>n\<close>-th allocation, an address with the bytes found there or nothing,
  and the sizes of the kernel's structures.  A state that extends \<open>kst\<close> counts the
  allocations and logs the addresses given to \<open>kfree\<close> and \<open>kfree_skb\<close>.
  \<open>BUG\<close> and an access outside of a buffer have no value.
\<close>

section \<open>Definitions\<close>

record kernel =
  kmem :: "nat \<Rightarrow> int \<Rightarrow> (int \<times> (nat \<Rightarrow> u8)) option"
  sizeof_sk_buff :: int
  sizeof_skb_shared_info :: int
  sizeof_net_device :: int
  sizeof_dev_context :: int
  SMP_CACHE_BYTES :: int

record kst =
  k_allocs :: nat
  k_freed :: "int list"
  k_skb_freed :: "int list"

definition kmalloc :: "kernel \<Rightarrow> int \<Rightarrow> 'a kst_scheme \<Rightarrow> (int \<times> (nat \<Rightarrow> u8)) option \<times> 'a kst_scheme" where
  "kmalloc K n s = (kmem K (k_allocs s) n, s\<lparr>k_allocs := Suc (k_allocs s)\<rparr>)"

definition kfree :: "int \<Rightarrow> 'a kst_scheme \<Rightarrow> 'a kst_scheme" where
  "kfree p s = (if p = 0 then s else s\<lparr>k_freed := k_freed s @ [p]\<rparr>)"

definition round_up :: "int \<Rightarrow> int \<Rightarrow> int" where
  "round_up a x = (x + a - 1) div a * a"

abbreviation SKB_DATA_ALIGN :: "kernel \<Rightarrow> int \<Rightarrow> int" where
  "SKB_DATA_ALIGN K x \<equiv> round_up (SMP_CACHE_BYTES K) x"

record sk_buff =
  sk_at :: int
  sk_head :: int
  sk_data :: int
  sk_tail :: int
  sk_end :: int
  sk_len :: int
  sk_mem :: bytes
  sk_priority :: u32
  sk_nfmark :: u32
  sk_protocol :: u16

definition kfree_skb :: "sk_buff \<Rightarrow> 'a kst_scheme \<Rightarrow> 'a kst_scheme" where
  "kfree_skb skb s = s\<lparr>k_skb_freed := k_skb_freed s @ [sk_at skb]\<rparr>"

definition skb_headroom :: "sk_buff \<Rightarrow> int" where
  "skb_headroom skb = sk_data skb - sk_head skb"

definition skb_reserve :: "int \<Rightarrow> sk_buff \<Rightarrow> sk_buff" where
  "skb_reserve n skb = skb\<lparr>sk_data := sk_data skb + n, sk_tail := sk_tail skb + n\<rparr>"

definition skb_put :: "int \<Rightarrow> sk_buff \<Rightarrow> sk_buff option" where
  "skb_put n skb =
     (if sk_end skb < sk_tail skb + n then None
      else Some (skb\<lparr>sk_tail := sk_tail skb + n, sk_len := sk_len skb + n\<rparr>))"

definition skb_push :: "int \<Rightarrow> sk_buff \<Rightarrow> sk_buff option" where
  "skb_push n skb =
     (if sk_data skb - n < sk_head skb then None
      else Some (skb\<lparr>sk_data := sk_data skb - n, sk_len := sk_len skb + n\<rparr>))"

text \<open>\<open>memcpy\<close> or \<open>memset\<close> into the buffer at an address, and the packet.\<close>

definition skb_write :: "int \<Rightarrow> bytes \<Rightarrow> sk_buff \<Rightarrow> sk_buff option" where
  "skb_write p bs skb =
     do { m \<leftarrow> mem_write (p - sk_head skb) bs (sk_mem skb); Some (skb\<lparr>sk_mem := m\<rparr>) }"

definition skb_bytes :: "sk_buff \<Rightarrow> bytes option" where
  "skb_bytes skb = mem_read (skb_headroom skb) (sk_len skb) (sk_mem skb)"

definition alloc_skb :: "kernel \<Rightarrow> int \<Rightarrow> 'a kst_scheme \<Rightarrow> sk_buff option \<times> 'a kst_scheme" where
  "alloc_skb K n s =
     (case kmalloc K (sizeof_sk_buff K) s of
        (None, s) \<Rightarrow> (None, s)
      | (Some (h, _), s) \<Rightarrow>
          let n = SKB_DATA_ALIGN K n in
          (case kmalloc K (n + sizeof_skb_shared_info K) s of
             (None, s) \<Rightarrow> (None, s)
           | (Some (d, c), s) \<Rightarrow>
               (Some \<lparr>sk_at = h, sk_head = d, sk_data = d, sk_tail = d, sk_end = d + n, sk_len = 0,
                      sk_mem = map c [0..<nat n], sk_priority = 0, sk_nfmark = 0, sk_protocol = 0\<rparr>, s)))"

definition dev_alloc_skb :: "kernel \<Rightarrow> int \<Rightarrow> 'a kst_scheme \<Rightarrow> sk_buff option \<times> 'a kst_scheme" where
  "dev_alloc_skb K n s = (case alloc_skb K (n + 16) s of (r, s) \<Rightarrow> (map_option (skb_reserve 16) r, s))"

definition copy_skb_header :: "sk_buff \<Rightarrow> sk_buff \<Rightarrow> sk_buff" where
  "copy_skb_header n skb =
     n\<lparr>sk_priority := sk_priority skb, sk_nfmark := sk_nfmark skb, sk_protocol := sk_protocol skb\<rparr>"

definition skb_copy_expand ::
  "kernel \<Rightarrow> sk_buff \<Rightarrow> int \<Rightarrow> int \<Rightarrow> 'a kst_scheme \<Rightarrow> (sk_buff option \<times> 'a kst_scheme) option" where
  "skb_copy_expand K skb newheadroom newtailroom s =
     (case alloc_skb K (newheadroom + sk_len skb + newtailroom) s of
        (None, s) \<Rightarrow> Some (None, s)
      | (Some n, s) \<Rightarrow>
          do {
            n \<leftarrow> skb_put (sk_len skb) (skb_reserve newheadroom n);
            let headroom = skb_headroom skb;
            let head_copy_len = (if newheadroom \<le> headroom then newheadroom else headroom);
            let head_copy_off = (if newheadroom \<le> headroom then 0 else newheadroom - headroom);
            bs \<leftarrow> mem_read (headroom - head_copy_len) (sk_len skb + head_copy_len) (sk_mem skb);
            n \<leftarrow> skb_write (sk_head n + head_copy_off) bs n;
            Some (Some (copy_skb_header n skb), s)
          })"

definition pskb_copy :: "kernel \<Rightarrow> sk_buff \<Rightarrow> 'a kst_scheme \<Rightarrow> (sk_buff option \<times> 'a kst_scheme) option" where
  "pskb_copy K skb s =
     (case alloc_skb K (sk_end skb - sk_head skb) s of
        (None, s) \<Rightarrow> Some (None, s)
      | (Some n, s) \<Rightarrow>
          do {
            n \<leftarrow> skb_put (sk_len skb) (skb_reserve (sk_data skb - sk_head skb) n);
            bs \<leftarrow> skb_bytes skb;
            n \<leftarrow> skb_write (sk_data n) bs n;
            Some (Some (copy_skb_header n skb), s)
          })"

definition pskb_expand_head ::
  "kernel \<Rightarrow> int \<Rightarrow> int \<Rightarrow> sk_buff \<Rightarrow> 'a kst_scheme \<Rightarrow> (sk_buff option \<times> 'a kst_scheme) option" where
  "pskb_expand_head K nhead ntail skb s =
     (let n = SKB_DATA_ALIGN K (nhead + (sk_end skb - sk_head skb) + ntail) in
      case kmalloc K (n + sizeof_skb_shared_info K) s of
        (None, s) \<Rightarrow> Some (None, s)
      | (Some (d, c), s) \<Rightarrow>
          do {
            bs \<leftarrow> mem_read 0 (sk_tail skb - sk_head skb) (sk_mem skb);
            m \<leftarrow> mem_write nhead bs (map c [0..<nat n]);
            let off = d + nhead - sk_head skb;
            Some (Some (skb\<lparr>sk_head := d, sk_end := d + n, sk_data := sk_data skb + off,
                            sk_tail := sk_tail skb + off, sk_mem := m\<rparr>), s)
          })"

definition skb_clone :: "kernel \<Rightarrow> sk_buff \<Rightarrow> 'a kst_scheme \<Rightarrow> sk_buff option \<times> 'a kst_scheme" where
  "skb_clone K skb s =
     (case kmalloc K (sizeof_sk_buff K) s of (r, s) \<Rightarrow> (map_option (\<lambda>(h, _). skb\<lparr>sk_at := h\<rparr>) r, s))"

definition skb_realloc_headroom ::
  "kernel \<Rightarrow> sk_buff \<Rightarrow> int \<Rightarrow> 'a kst_scheme \<Rightarrow> (sk_buff option \<times> 'a kst_scheme) option" where
  "skb_realloc_headroom K skb headroom s =
     (let delta = headroom - skb_headroom skb in
      if delta \<le> 0 then pskb_copy K skb s
      else
        (case skb_clone K skb s of
           (None, s) \<Rightarrow> Some (None, s)
         | (Some skb2, s) \<Rightarrow>
             do {
               (r, s) \<leftarrow> pskb_expand_head K (SKB_DATA_ALIGN K delta) 0 skb2 s;
               Some (case r of None \<Rightarrow> (None, kfree_skb skb2 s) | Some skb2 \<Rightarrow> (Some skb2, s))
             }))"

section \<open>Well-formed buffers\<close>

text \<open>
  What the driver relies on: \<open>kernel_ok\<close> says that the sizes are positive and that blocks start at
  multiples of four and not at the null pointer; \<open>kmem_ok\<close> that no allocation fails.
\<close>

definition kernel_ok :: "kernel \<Rightarrow> bool" where
  "kernel_ok K \<longleftrightarrow>
     0 < SMP_CACHE_BYTES K \<and> 0 < sizeof_sk_buff K \<and> 0 < sizeof_skb_shared_info K \<and> 0 < sizeof_net_device K \<and>
     (\<forall>n sz p c. kmem K n sz = Some (p, c) \<longrightarrow> 0 < p \<and> p mod 4 = 0)"

definition kmem_ok :: "kernel \<Rightarrow> bool" where
  "kmem_ok K \<longleftrightarrow> (\<forall>n sz. kmem K n sz \<noteq> None)"

definition skb_wf :: "sk_buff \<Rightarrow> bool" where
  "skb_wf skb \<longleftrightarrow>
     sk_head skb \<le> sk_data skb \<and> 0 \<le> sk_len skb \<and> sk_tail skb = sk_data skb + sk_len skb \<and>
     sk_tail skb \<le> sk_end skb \<and> int (length (sk_mem skb)) = sk_end skb - sk_head skb"

text \<open>The fields a copy keeps.\<close>

definition skb_same :: "sk_buff \<Rightarrow> sk_buff \<Rightarrow> bool" where
  "skb_same a b \<longleftrightarrow> sk_priority a = sk_priority b \<and> sk_nfmark a = sk_nfmark b \<and> sk_protocol a = sk_protocol b"

lemma kernel_okD:
  assumes "kernel_ok K"
  shows "0 < SMP_CACHE_BYTES K" "0 < sizeof_sk_buff K" "0 < sizeof_skb_shared_info K" "0 < sizeof_net_device K"
    "kmem K n sz = Some (p, c) \<Longrightarrow> 0 < p \<and> p mod 4 = 0"
  using assms by (auto simp: kernel_ok_def)

lemma round_up_ge: "0 < a \<Longrightarrow> x \<le> round_up a x"
proof -
  assume a: "0 < a"
  have "x + a - 1 = (x + a - 1) div a * a + (x + a - 1) mod a" by simp
  moreover have "(x + a - 1) mod a < a" using a by simp
  ultimately show ?thesis unfolding round_up_def by linarith
qed

lemma round_up_less: "0 < a \<Longrightarrow> round_up a x < x + a"
proof -
  assume a: "0 < a"
  have "x + a - 1 = (x + a - 1) div a * a + (x + a - 1) mod a" by simp
  moreover have "0 \<le> (x + a - 1) mod a" using a by simp
  ultimately show ?thesis unfolding round_up_def by linarith
qed

lemma round_up_dvd [simp]: "a dvd round_up a x"
  by (simp add: round_up_def)

lemma round_up_id: "0 < a \<Longrightarrow> a dvd x \<Longrightarrow> round_up a x = x"
proof -
  assume a: "0 < a" and d: "a dvd x"
  have "a dvd round_up a x - x" using d by simp
  moreover have "0 \<le> round_up a x - x" "round_up a x - x < a" using round_up_ge [OF a, of x] round_up_less [OF a, of x] by linarith+
  ultimately show ?thesis using zdvd_not_zless [of "round_up a x - x" a] by fastforce
qed

lemma kfree_simps [simp]:
  "k_allocs (kfree p s) = k_allocs s" "k_skb_freed (kfree p s) = k_skb_freed s" "kst.more (kfree p s) = kst.more s"
  by (simp_all add: kfree_def)

lemma skb_same_refl [simp]: "skb_same a a"
  by (simp add: skb_same_def)

lemma skb_same_trans: "skb_same a b \<Longrightarrow> skb_same b c \<Longrightarrow> skb_same a c"
  by (simp add: skb_same_def)

lemma skb_bytes_wf: "skb_wf skb \<Longrightarrow> \<exists>bs. skb_bytes skb = Some bs \<and> int (length bs) = sk_len skb"
  by (auto simp: skb_wf_def skb_bytes_def skb_headroom_def mem_read_def)

lemma alloc_skb_cases:
  assumes K: "kernel_ok K" and n: "0 \<le> n"
  obtains (fail) m where "alloc_skb K n s = (None, s\<lparr>k_allocs := m\<rparr>)" "\<not> kmem_ok K"
  | (ok) k m where "alloc_skb K n s = (Some k, s\<lparr>k_allocs := m\<rparr>)" "skb_wf k" "sk_data k = sk_head k" "sk_len k = 0"
      "sk_head k + n \<le> sk_end k" "sk_head k mod 4 = 0" "skb_headroom k = 0"
proof (cases "kmem K (k_allocs s) (sizeof_sk_buff K)")
  case None
  then have "\<not> kmem_ok K" unfolding kmem_ok_def by blast
  then show ?thesis using None fail [of "Suc (k_allocs s)"] by (simp add: alloc_skb_def kmalloc_def)
next
  case (Some hb)
  obtain h b where hb: "hb = (h, b)" by (cases hb)
  let ?n = "SKB_DATA_ALIGN K n"
  have ge: "n \<le> ?n" by (rule round_up_ge [OF kernel_okD(1) [OF K]])
  show ?thesis
  proof (cases "kmem K (Suc (k_allocs s)) (?n + sizeof_skb_shared_info K)")
    case None
    then have "\<not> kmem_ok K" unfolding kmem_ok_def by blast
    then show ?thesis
      using None Some hb fail [of "Suc (Suc (k_allocs s))"] by (simp add: alloc_skb_def kmalloc_def)
  next
    case (Some dc)
    obtain d c where dc: "dc = (d, c)" by (cases dc)
    have "d mod 4 = 0" using kernel_okD(5) [OF K] Some dc by blast
    then show ?thesis
      by (intro ok [of _ "Suc (Suc (k_allocs s))"])
        (use Some dc hb ge n \<open>kmem K (k_allocs s) (sizeof_sk_buff K) = Some hb\<close> in
         \<open>auto simp: alloc_skb_def kmalloc_def skb_wf_def skb_headroom_def Let_def\<close>)
  qed
qed

lemma skb_write_wf:
  assumes "skb_wf skb" "sk_head skb \<le> p" "p + int (length bs) \<le> sk_end skb"
  obtains m where "skb_write p bs skb = Some (skb\<lparr>sk_mem := m\<rparr>)" "length m = length (sk_mem skb)"
    "mem_write (p - sk_head skb) bs (sk_mem skb) = Some m"
proof -
  have "0 \<le> p - sk_head skb" "p - sk_head skb + int (length bs) \<le> int (length (sk_mem skb))"
    using assms by (simp_all add: skb_wf_def)
  then obtain m where m: "mem_write (p - sk_head skb) bs (sk_mem skb) = Some m" by (simp add: mem_write_def)
  then show thesis using that [of m] mem_write_length [OF m] by (simp add: skb_write_def)
qed

text \<open>A copy with room at its tail, as the driver makes it: it has the same packet.\<close>

lemma skb_copy_expand_cases:
  assumes K: "kernel_ok K" and wf: "skb_wf skb" and nt: "0 \<le> nt"
  obtains (fail) m where "skb_copy_expand K skb 0 nt s = Some (None, s\<lparr>k_allocs := m\<rparr>)" "\<not> kmem_ok K"
  | (ok) k m where "skb_copy_expand K skb 0 nt s = Some (Some k, s\<lparr>k_allocs := m\<rparr>)" "skb_wf k" "skb_same k skb"
      "sk_len k = sk_len skb" "skb_bytes k = skb_bytes skb" "sk_data k mod 4 = 0" "sk_tail k + nt \<le> sk_end k"
proof -
  have len: "0 \<le> sk_len skb" "0 \<le> skb_headroom skb" using wf by (simp_all add: skb_wf_def skb_headroom_def)
  then have n: "0 \<le> 0 + sk_len skb + nt" using nt by simp
  obtain bs where bs: "skb_bytes skb = Some bs" "int (length bs) = sk_len skb" using skb_bytes_wf [OF wf] by blast
  show ?thesis
  proof (rule alloc_skb_cases [OF K n, of s])
    fix m assume "alloc_skb K (0 + sk_len skb + nt) s = (None, s\<lparr>k_allocs := m\<rparr>)" "\<not> kmem_ok K"
    then show ?thesis using fail by (simp add: skb_copy_expand_def)
  next
    fix k m assume a: "alloc_skb K (0 + sk_len skb + nt) s = (Some k, s\<lparr>k_allocs := m\<rparr>)" "skb_wf k"
      "sk_data k = sk_head k" "sk_len k = 0" "sk_head k + (0 + sk_len skb + nt) \<le> sk_end k" "sk_head k mod 4 = 0"
      "skb_headroom k = 0"
    define k1 where "k1 = k\<lparr>sk_tail := sk_head k + sk_len skb, sk_len := sk_len skb\<rparr>"
    have t: "sk_tail k = sk_head k" using a(2-4) by (simp add: skb_wf_def)
    have put: "skb_put (sk_len skb) (skb_reserve 0 k) = Some k1"
      using a(3-5) t nt by (simp add: skb_put_def skb_reserve_def k1_def)
    have wf1: "skb_wf k1" using a(2-5) len nt by (simp add: skb_wf_def k1_def)
    obtain mm where mm: "skb_write (sk_head k1 + 0) bs k1 = Some (k1\<lparr>sk_mem := mm\<rparr>)" "length mm = length (sk_mem k1)"
      "mem_write (sk_head k1 + 0 - sk_head k1) bs (sk_mem k1) = Some mm"
      by (rule skb_write_wf [OF wf1, of "sk_head k1 + 0" bs]) (use a(3,5) nt bs(2) in \<open>auto simp: k1_def\<close>)
    define k2 where "k2 = copy_skb_header (k1\<lparr>sk_mem := mm\<rparr>) skb"
    have e: "skb_copy_expand K skb 0 nt s = Some (Some k2, s\<lparr>k_allocs := m\<rparr>)"
      using a(1) put bs(1) mm(1) len by (simp add: skb_copy_expand_def skb_bytes_def Let_def k2_def)
    have r: "mem_read 0 (int (length bs)) mm = Some bs" using mem_read_write_same [OF mm(3)] by simp
    show ?thesis
      by (rule ok [OF e])
        (use wf1 mm(2) r bs a(3,5,6) nt in
         \<open>auto simp: k2_def k1_def copy_skb_header_def skb_wf_def skb_same_def skb_bytes_def skb_headroom_def\<close>)
  qed
qed

lemma skb_push_write:
  assumes wf: "skb_wf skb" and hr: "int (length hdr) \<le> skb_headroom skb" and bs: "skb_bytes skb = Some bs"
  obtains k k' where "skb_push (int (length hdr)) skb = Some k" "skb_write (sk_data k) hdr k = Some k'" "skb_wf k'"
    "skb_same k' skb" "skb_bytes k' = Some (hdr @ bs)" "sk_len k' = int (length hdr) + sk_len skb"
    "sk_at k' = sk_at skb" "sk_data k' = sk_data skb - int (length hdr)"
proof -
  let ?n = "int (length hdr)"
  define k where "k = skb\<lparr>sk_data := sk_data skb - ?n, sk_len := sk_len skb + ?n\<rparr>"
  have p: "skb_push ?n skb = Some k" using hr by (simp add: skb_push_def skb_headroom_def k_def)
  have wk: "skb_wf k" using wf hr by (simp add: skb_wf_def skb_headroom_def k_def)
  obtain m where m: "skb_write (sk_data k) hdr k = Some (k\<lparr>sk_mem := m\<rparr>)" "length m = length (sk_mem k)"
    "mem_write (sk_data k - sk_head k) hdr (sk_mem k) = Some m"
    by (rule skb_write_wf [OF wk, of "sk_data k" hdr]) (use wk wf in \<open>auto simp: skb_wf_def k_def\<close>)
  have r: "mem_read (sk_data k - sk_head k) ?n m = Some hdr" by (rule mem_read_write_same [OF m(3)])
  have "mem_read (skb_headroom skb) (sk_len skb) m = mem_read (skb_headroom skb) (sk_len skb) (sk_mem k)"
    by (rule mem_read_write_disjoint [OF m(3)]) (simp add: k_def skb_headroom_def)
  then have b: "mem_read (skb_headroom skb) (sk_len skb) m = Some bs" using bs by (simp add: skb_bytes_def k_def)
  have e: "length hdr + nat (sk_data skb - ?n - sk_head skb) = nat (sk_data skb - sk_head skb)"
    using hr by (simp add: skb_headroom_def)
  have "skb_bytes (k\<lparr>sk_mem := m\<rparr>) = Some (hdr @ bs)"
    using r b wk wf hr unfolding skb_bytes_def skb_headroom_def mem_read_def skb_wf_def
    by (auto simp: k_def e nat_add_distrib take_add add.commute split: if_splits)
  then show thesis using that [OF p m(1)] wk m(2) by (simp add: skb_wf_def skb_same_def k_def)
qed

lemma skb_realloc_headroom_cases:
  assumes K: "kernel_ok K" and wf: "skb_wf skb" and d: "skb_headroom skb < n"
  obtains (fail) m l where "skb_realloc_headroom K skb n s = Some (None, s\<lparr>k_allocs := m, k_skb_freed := k_skb_freed s @ l\<rparr>)"
      "\<not> kmem_ok K"
  | (ok) k m where "skb_realloc_headroom K skb n s = Some (Some k, s\<lparr>k_allocs := m\<rparr>)" "skb_wf k" "skb_same k skb"
      "sk_len k = sk_len skb" "skb_bytes k = skb_bytes skb" "n \<le> skb_headroom k"
proof (cases "kmem K (k_allocs s) (sizeof_sk_buff K)")
  case None
  then have "\<not> kmem_ok K" unfolding kmem_ok_def by blast
  then show ?thesis
    using None d fail [of "[]" "Suc (k_allocs s)"] by (simp add: skb_realloc_headroom_def skb_clone_def kmalloc_def)
next
  case (Some hb)
  obtain h b where hb: "hb = (h, b)" by (cases hb)
  let ?d = "SKB_DATA_ALIGN K (n - skb_headroom skb)"
  let ?n = "SKB_DATA_ALIGN K (?d + (sk_end skb - sk_head skb) + 0)"
  have a: "0 < SMP_CACHE_BYTES K" by (rule kernel_okD(1) [OF K])
  have ge: "n - skb_headroom skb \<le> ?d" "?d + (sk_end skb - sk_head skb) \<le> ?n" using round_up_ge [OF a] by (simp, metis add.right_neutral)
  show ?thesis
  proof (cases "kmem K (Suc (k_allocs s)) (?n + sizeof_skb_shared_info K)")
    case None
    then have "\<not> kmem_ok K" unfolding kmem_ok_def by blast
    then show ?thesis
      using None Some hb d fail [of "[h]" "Suc (Suc (k_allocs s))"]
      by (simp add: skb_realloc_headroom_def skb_clone_def kmalloc_def pskb_expand_head_def kfree_skb_def Let_def)
  next
    case (Some dc)
    obtain d0 c where dc: "dc = (d0, c)" by (cases dc)
    let ?blk = "map c [0..<nat ?n]"
    let ?bs = "take (nat (sk_tail skb - sk_head skb)) (sk_mem skb)"
    have pos: "0 \<le> ?d" using ge(1) d by linarith
    have lb: "int (length ?bs) = sk_tail skb - sk_head skb" using wf by (auto simp: skb_wf_def)
    have rd: "mem_read 0 (sk_tail skb - sk_head skb) (sk_mem skb) = Some ?bs"
      using wf by (auto simp: skb_wf_def mem_read_def)
    obtain m where m: "mem_write ?d ?bs ?blk = Some m"
      using pos ge(2) lb wf by (simp add: mem_write_def skb_wf_def)
    let ?k = "skb\<lparr>sk_at := h, sk_head := d0, sk_end := d0 + ?n, sk_data := sk_data skb + (d0 + ?d - sk_head skb),
                  sk_tail := sk_tail skb + (d0 + ?d - sk_head skb), sk_mem := m\<rparr>"
    have e: "skb_realloc_headroom K skb n s = Some (Some ?k, s\<lparr>k_allocs := Suc (Suc (k_allocs s))\<rparr>)"
      using \<open>kmem K (k_allocs s) (sizeof_sk_buff K) = Some hb\<close> hb Some dc rd m d
      by (simp add: skb_realloc_headroom_def skb_clone_def kmalloc_def pskb_expand_head_def Let_def)
    have "mem_read (?d + skb_headroom skb) (sk_len skb) m = mem_read (skb_headroom skb) (sk_len skb) (sk_mem skb)"
    proof -
      have "mem_read ?d (int (length ?bs)) m = Some ?bs" by (rule mem_read_write_same [OF m])
      then have t: "take (length ?bs) (drop (nat ?d) m) = ?bs" and l: "?d + int (length ?bs) \<le> int (length m)"
        by (auto simp: mem_read_def split: if_splits)
      have T: "length ?bs = nat (skb_headroom skb) + nat (sk_len skb)"
        and N: "nat (?d + skb_headroom skb) = nat ?d + nat (skb_headroom skb)"
        and S: "nat (sk_tail skb - sk_head skb) = nat (skb_headroom skb) + nat (sk_len skb)"
        using wf pos lb by (auto simp: skb_wf_def skb_headroom_def)
      have "take (nat (sk_len skb)) (drop (nat (?d + skb_headroom skb)) m) =
          take (nat (sk_len skb)) (drop (nat (skb_headroom skb)) (take (length ?bs) (drop (nat ?d) m)))"
        using N unfolding T by (simp add: drop_take add.commute)
      also have "\<dots> = take (nat (sk_len skb)) (drop (nat (skb_headroom skb)) (sk_mem skb))"
        unfolding t using T by (simp add: drop_take S)
      finally show ?thesis using wf pos l lb by (auto simp: mem_read_def skb_wf_def skb_headroom_def)
    qed
    then have b: "skb_bytes ?k = skb_bytes skb" by (simp add: skb_bytes_def skb_headroom_def algebra_simps)
    show ?thesis
      by (rule ok [OF e])
        (use wf b ge pos mem_write_length [OF m] in \<open>auto simp: skb_wf_def skb_same_def skb_headroom_def\<close>)
  qed
qed

end
