(* ===== verification/Xtm_Tx.thy ===== *)
theory Xtm_Tx
  imports Skb Mac_Addr
begin

text \<open>
  The ATM/PTM network driver \<open>bcmxtmrt.c\<close>: its state and sending.  A device context is named
  by its address, 0 being the null pointer; \<open>x_devs\<close> are the contexts that are allocated.  A
  transmit queue has its descriptors and its socket buffers as two lists, one entry per
  descriptor of the ring.  Calls into the kernel that have no result are logged.  Cache operations,
  time stamps and console output are left out, and so is what is compiled for \<open>CONFIG_L2PT\<close> and
  \<open>ATM_BONDING_TEST\<close> only, which no profile sets.  When there is no memory for the RFC 2684 header
  the socket buffer is a null pointer afterwards and sending has no value.
\<close>

section \<open>Definitions\<close>

abbreviation (input) MAX_DEV_CTXS :: nat where "MAX_DEV_CTXS \<equiv> 16"
abbreviation (input) MAX_MATCH_IDS :: nat where "MAX_MATCH_IDS \<equiv> 128"
abbreviation (input) MAX_PHY_PORTS :: nat where "MAX_PHY_PORTS \<equiv> 4"
abbreviation (input) MAX_RECEIVE_QUEUES :: nat where "MAX_RECEIVE_QUEUES \<equiv> 4"
abbreviation (input) MAX_SUB_PRIORITIES :: nat where "MAX_SUB_PRIORITIES \<equiv> 8"
abbreviation (input) MAX_TRANSMIT_QUEUES :: nat where "MAX_TRANSMIT_QUEUES \<equiv> 16"
abbreviation (input) SAR_DMA_MAX_BURST_LENGTH :: u32 where "SAR_DMA_MAX_BURST_LENGTH \<equiv> 8"
abbreviation (input) INVALID_VCID :: u8 where "INVALID_VCID \<equiv> 0xff"
abbreviation (input) XTMRT_UNINITIALIZED :: u32 where "XTMRT_UNINITIALIZED \<equiv> 0"
abbreviation (input) XTMRT_INITIALIZED :: u32 where "XTMRT_INITIALIZED \<equiv> 1"
abbreviation (input) XTMRT_RUNNING :: u32 where "XTMRT_RUNNING \<equiv> 2"
abbreviation (input) XTMRT_DEV_OPENED :: u32 where "XTMRT_DEV_OPENED \<equiv> 1"
abbreviation (input) XTMRT_DEV_CLOSED :: u32 where "XTMRT_DEV_CLOSED \<equiv> 2"
abbreviation (input) LINK_UP :: u32 where "LINK_UP \<equiv> 1"
abbreviation (input) ADMSTS_UP :: u32 where "ADMSTS_UP \<equiv> 1"
abbreviation (input) TRAFFIC_TYPE_ATM :: u32 where "TRAFFIC_TYPE_ATM \<equiv> 1"
abbreviation (input) TRAFFIC_TYPE_PTM :: u32 where "TRAFFIC_TYPE_PTM \<equiv> 2"
abbreviation (input) HT_NONE :: u32 where "HT_NONE \<equiv> 0"
abbreviation (input) HT_LLC_SNAP_ROUTE_IP :: u32 where "HT_LLC_SNAP_ROUTE_IP \<equiv> 2"
abbreviation (input) HT_LLC_ENCAPS_PPP :: u32 where "HT_LLC_ENCAPS_PPP \<equiv> 3"
abbreviation (input) CNI_HW_ADD_REMOVE_HEADER :: u32 where "CNI_HW_ADD_REMOVE_HEADER \<equiv> 1"
abbreviation (input) CNI_USE_ALT_FSTAT :: u32 where "CNI_USE_ALT_FSTAT \<equiv> 2"
abbreviation (input) ETH_ZLEN :: int where "ETH_ZLEN \<equiv> 60"
abbreviation (input) SKB_PROTO_ATM_CELL :: u16 where "SKB_PROTO_ATM_CELL \<equiv> 0xf000"
abbreviation (input) DMA_OWN :: u16 where "DMA_OWN \<equiv> 0x8000"
abbreviation (input) DMA_EOP :: u16 where "DMA_EOP \<equiv> 0x4000"
abbreviation (input) DMA_SOP :: u16 where "DMA_SOP \<equiv> 0x2000"
abbreviation (input) DMA_WRAP :: u16 where "DMA_WRAP \<equiv> 0x1000"
abbreviation (input) DMA_ENABLE :: u32 where "DMA_ENABLE \<equiv> 1"
abbreviation (input) DMA_BURST_HALT :: u32 where "DMA_BURST_HALT \<equiv> 4"
abbreviation (input) DMA_BUFF_DONE :: u32 where "DMA_BUFF_DONE \<equiv> 1"
abbreviation (input) DMA_DONE :: u32 where "DMA_DONE \<equiv> 2"
abbreviation (input) DMA_NO_DESC :: u32 where "DMA_NO_DESC \<equiv> 4"
abbreviation (input) FSTAT_CT_MASK :: u16 where "FSTAT_CT_MASK \<equiv> 0xf0"
abbreviation (input) FSTAT_CT_AAL5 :: u16 where "FSTAT_CT_AAL5 \<equiv> 0x70"
abbreviation (input) FSTAT_CT_PTM :: u16 where "FSTAT_CT_PTM \<equiv> 0xf0"
abbreviation (input) FSTAT_PTM_CRC :: u16 where "FSTAT_PTM_CRC \<equiv> 1"
abbreviation (input) FSTAT_PTM_ENET_FCS :: u16 where "FSTAT_PTM_ENET_FCS \<equiv> 2"
abbreviation (input) FSTAT_COMMON_INS_HDR_EN :: u16 where "FSTAT_COMMON_INS_HDR_EN \<equiv> 0x100"
abbreviation (input) FSTAT_COMMON_HDR_INDEX_MASK :: u16 where "FSTAT_COMMON_HDR_INDEX_MASK \<equiv> 0x600"
abbreviation (input) FSTAT_MODE_COMMON :: u16 where "FSTAT_MODE_COMMON \<equiv> 0x800"

text \<open>
  The address of a connection.  \<open>ulPortMask\<close> is at the same place in both variants of the
  union, and \<open>ulPtmPriority\<close> of a PTM flow is the 32 bits of \<open>usVpi\<close> and
  \<open>usVci\<close>.
\<close>

record xtm_addr =
  ulTrafficType :: u32
  ulPortMask :: u32
  usVpi :: u16
  usVci :: u16

record xtm_cell =
  ConnAddr :: xtm_addr
  ucCircuitType :: u8
  ucData :: bytes

record dma_desc =
  bd_length :: u16
  bd_status :: u16
  bd_address :: u32

record dma_channel =
  ch_cfg :: u32
  ch_intStat :: u32
  ch_intMask :: u32
  ch_maxBurst :: u32

record txqinfo =
  ulPort :: nat
  ulPtmPriority :: u32
  ulSubPriority :: nat
  ulQueueSize :: nat
  ulDmaIndex :: nat
  pDma :: "nat option"
  pBds_at :: int
  ppSkbs_at :: int
  pBds :: "dma_desc list"
  ppSkbs :: "sk_buff option list"
  ulFreeBds :: nat
  ulHead :: nat
  ulTail :: nat

definition txq_zero :: txqinfo where
  "txq_zero =
     \<lparr>ulPort = 0, ulPtmPriority = 0, ulSubPriority = 0, ulQueueSize = 0, ulDmaIndex = 0, pDma = None,
      pBds_at = 0, ppSkbs_at = 0, pBds = [], ppSkbs = [], ulFreeBds = 0, ulHead = 0, ulTail = 0\<rparr>"

record dev_stats =
  tx_packets :: u32
  tx_bytes :: u32
  tx_errors :: u32
  tx_dropped :: u32
  rx_packets :: u32
  rx_bytes :: u32
  rx_errors :: u32

definition stats_zero :: dev_stats where
  "stats_zero = \<lparr>tx_packets = 0, tx_bytes = 0, tx_errors = 0, tx_dropped = 0, rx_packets = 0, rx_bytes = 0,
                 rx_errors = 0\<rparr>"

text \<open>
  The device context, with the fields of its \<open>net_device\<close> the driver sets: the address of
  the allocated block, the MAC address and the flags.  \<open>pTxPriorities\<close> holds indices into
  \<open>TxQInfos\<close>.
\<close>

record dev_context =
  dev_block :: int
  dev_addr :: bytes
  dev_flags :: u32
  DevStats :: dev_stats
  ulIfLastChange :: u32
  ulIfSpeed :: u32
  Addr :: xtm_addr
  ulLinkState :: u32
  ulOpenState :: u32
  ulAdminStatus :: u32
  ulHdrType :: u32
  ulFlags :: u32
  pTxQMem :: int
  ucTxVcid :: u8
  ulTxQInfosSize :: nat
  TxQInfos :: "txqinfo list"
  pTxPriorities :: "nat option list list"

text \<open>A receive ring; one that is not set up is \<^term>\<open>None\<close> in \<open>RxBdInfos\<close>.\<close>

record rxbdinfo =
  pBdBase :: int
  rx_bds :: "dma_desc list"
  pBdHead :: nat
  pBdTail :: nat

datatype rx_kind = RX_IP | RX_PPP | RX_ETHERNET

record rx_packet =
  rp_skb :: int
  rp_dev :: int
  rp_ring :: nat
  rp_head :: int
  rp_data :: int
  rp_len :: int
  rp_kind :: rx_kind

datatype xcall =
    Netif_rx rx_packet
  | Cell_received int int xtm_cell int
  | No_place nat
  | Netif_start_queue int
  | Netif_stop_queue int
  | Netif_wake_queue int
  | Add_timer
  | Del_timer
  | Interrupt_enable nat
  | Interrupt_disable nat
  | Map_interrupt nat
  | Tasklet_schedule
  | Unregister_netdev int

record xtm_state = kst +
  x_devs :: "int \<Rightarrow> dev_context option"
  x_mac :: "mac_info option"
  x_mem :: "int \<Rightarrow> u8"
  x_calls :: "xcall list"
  pDevCtxs :: "int list"
  pDevCtxsByMatchId :: "int list"
  x_controller :: u32
  x_tx_dma :: "dma_channel list"
  x_rx_dma :: "dma_channel list"
  x_tx_base :: "int list"
  x_rx_base :: "int list"
  pRxBdMem :: int
  RxBdInfos :: "rxbdinfo option list"
  pRxSkbMem :: int
  pFreeRxSkbList :: "int list"
  pBufMem :: "int list"
  ulIntEnableMask :: u32
  pfnOamHandler :: int
  pOamContext :: int
  pfnAsmHandler :: int
  pAsmContext :: int
  ulDrvState :: u32

definition x_call :: "xcall \<Rightarrow> xtm_state \<Rightarrow> xtm_state" where
  "x_call c s = s\<lparr>x_calls := x_calls s @ [c]\<rparr>"

definition put_dev :: "int \<Rightarrow> dev_context \<Rightarrow> xtm_state \<Rightarrow> xtm_state" where
  "put_dev h c s = s\<lparr>x_devs := (x_devs s)(h := Some c)\<rparr>"

subsection \<open>The header of RFC 2684\<close>

definition ulHdrLens :: "nat list" where
  "ulHdrLens = [0, 10, 7, 4, 2]"

definition ucHdrs :: "bytes list" where
  "ucHdrs =
     [replicate 16 0,
      [0xAA, 0xAA, 0x03, 0x00, 0x80, 0xC2, 0x00, 0x07, 0x00, 0x00] @ replicate 6 0,
      [0xAA, 0xAA, 0x03, 0x00, 0x00, 0x00, 0x08, 0x00] @ replicate 8 0,
      [0xFE, 0xFE, 0x03, 0xCF] @ replicate 12 0,
      [0x00, 0x00] @ replicate 14 0]"

text \<open>
  Zero padding up to \<open>n\<close> bytes: the expanded copy, \<open>memset\<close> at its tail and
  \<open>skb_put\<close>.
\<close>

definition skb_zero_pad :: "int \<Rightarrow> sk_buff \<Rightarrow> sk_buff option" where
  "skb_zero_pad n skb =
     do {
       skb' \<leftarrow> skb_write (sk_tail skb) (replicate (nat (n - sk_len skb)) 0) skb;
       skb_put (n - sk_len skb) skb'
     }"

definition AddRfc2684Hdr ::
  "kernel \<Rightarrow> u32 \<Rightarrow> sk_buff \<Rightarrow> 'a kst_scheme \<Rightarrow> (sk_buff option \<times> 'a kst_scheme) option" where
  "AddRfc2684Hdr K ht skb s =
     do {
       c_assert (unat ht < length ulHdrLens);
       let minheadroom = ulHdrLens ! unat ht;
       (r, s) \<leftarrow>
         (if skb_headroom skb < int minheadroom
          then do { (r, s) \<leftarrow> skb_realloc_headroom K skb (int minheadroom) s; Some (r, kfree_skb skb s) }
          else Some (Some skb, s));
       (case r of
          None \<Rightarrow> Some (None, s)
        | Some skb \<Rightarrow>
            do {
              skb \<leftarrow> skb_push (int minheadroom) skb;
              skb \<leftarrow> skb_write (sk_data skb) (take minheadroom (ucHdrs ! unat ht)) skb;
              if sk_len skb < 60 then
                do {
                  (r, s) \<leftarrow> skb_copy_expand K skb 0 (60 - sk_len skb) s;
                  let s = kfree_skb skb s;
                  (case r of
                     None \<Rightarrow> Some (None, s)
                   | Some skb \<Rightarrow> do { skb \<leftarrow> skb_zero_pad 60 skb; Some (Some skb, s) })
                }
              else Some (Some skb, s)
            })
     }"

subsection \<open>Transmission\<close>

text \<open>
  The packets the DMA controller is done with: the loop over one queue.  An index inside of a ring and
  a count below its size do not wrap around.
\<close>

function tx_reclaim :: "txqinfo \<Rightarrow> int list \<Rightarrow> (txqinfo \<times> int list) option" where
  "tx_reclaim q freed =
     (if ulFreeBds q < ulQueueSize q then
        do {
          c_assert (ulHead q < length (pBds q) \<and> ulHead q < length (ppSkbs q));
          if bd_status (pBds q ! ulHead q) AND DMA_OWN = 0 then
            do {
              skb \<leftarrow> ppSkbs q ! ulHead q;
              tx_reclaim
                (q\<lparr>ppSkbs := (ppSkbs q)[ulHead q := None],
                   ulHead := (if bd_status (pBds q ! ulHead q) AND DMA_WRAP = 0 then Suc (ulHead q) else 0),
                   ulFreeBds := Suc (ulFreeBds q)\<rparr>)
                (freed @ [sk_at skb])
            }
          else Some (q, freed)
        }
      else Some (q, freed))"
  by pat_completeness auto
termination by (relation "measure (\<lambda>(q, _). ulQueueSize q - ulFreeBds q)") auto

declare tx_reclaim.simps [simp del]

fun tx_reclaim_all :: "nat \<Rightarrow> txqinfo list \<Rightarrow> int list \<Rightarrow> (txqinfo list \<times> int list) option" where
  "tx_reclaim_all 0 qs freed = Some (qs, freed)"
| "tx_reclaim_all (Suc n) [] freed = None"
| "tx_reclaim_all (Suc n) (q # qs) freed =
     do {
       (q, freed) \<leftarrow> tx_reclaim q freed;
       (qs, freed) \<leftarrow> tx_reclaim_all n qs freed;
       Some (q # qs, freed)
     }"

text \<open>The queue of a packet: by the priority in its mark, by its priority, or the first one.\<close>

definition tx_queue :: "dev_context \<Rightarrow> sk_buff \<Rightarrow> nat option" where
  "tx_queue c skb =
     (let ulPriority = sk_nfmark skb AND 0x0F in
      if ulPriority \<le> 4 \<and> 1 \<le> ulPriority then pTxPriorities c ! 0 ! unat ulPriority
      else if sk_priority skb \<le> 4 \<and> 1 \<le> sk_priority skb then pTxPriorities c ! 0 ! unat (sk_priority skb)
      else None)"

definition is_atm_cell :: "sk_buff \<Rightarrow> bool" where
  "is_atm_cell skb \<longleftrightarrow> sk_protocol skb AND NOT FSTAT_CT_MASK = SKB_PROTO_ATM_CELL"

text \<open>The status word of the descriptor without \<open>DMA_OWN\<close>, from its old value.\<close>

definition tx_status :: "dev_context \<Rightarrow> sk_buff \<Rightarrow> u16 \<Rightarrow> u16" where
  "tx_status c skb old =
     (let st = (old AND DMA_WRAP) OR DMA_SOP OR DMA_EOP OR ucast (ucTxVcid c);
          alt = ulFlags c AND CNI_USE_ALT_FSTAT \<noteq> 0;
          noidx = NOT (FSTAT_COMMON_INS_HDR_EN OR FSTAT_COMMON_HDR_INDEX_MASK)
      in if is_atm_cell skb then
           (let st = st OR (sk_protocol skb AND FSTAT_CT_MASK)
            in if alt then (st OR FSTAT_MODE_COMMON) AND noidx else st)
         else if ulTrafficType (Addr c) = TRAFFIC_TYPE_ATM then
           (let st = st OR FSTAT_CT_AAL5
            in if alt then
                 (let st = st OR FSTAT_MODE_COMMON
                  in if ulHdrType c \<noteq> HT_NONE
                     then st OR FSTAT_COMMON_INS_HDR_EN OR ucast (push_bit 9 (ulHdrType c - 1))
                     else st AND noidx)
               else st)
         else st OR FSTAT_CT_PTM OR FSTAT_PTM_ENET_FCS OR FSTAT_PTM_CRC)"

text \<open>Filling the descriptor at the tail of the queue and advancing the tail.\<close>

definition tx_enqueue :: "dev_context \<Rightarrow> sk_buff \<Rightarrow> txqinfo \<Rightarrow> txqinfo option" where
  "tx_enqueue c skb q =
     do {
       c_assert (ulTail q < length (pBds q) \<and> ulTail q < length (ppSkbs q));
       let bd = pBds q ! ulTail q;
       let st = tx_status c skb (bd_status bd) OR DMA_OWN;
       Some (q\<lparr>ulFreeBds := ulFreeBds q - 1,
               ppSkbs := (ppSkbs q)[ulTail q := Some skb],
               pBds := (pBds q)[ulTail q := \<lparr>bd_length = word_of_int (sk_len skb), bd_status = st,
                                            bd_address = word_of_int (sk_data skb) AND 0x1fffffff\<rparr>],
               ulTail := (if st AND DMA_WRAP = 0 then Suc (ulTail q) else 0)\<rparr>)
     }"

text \<open>The packet before it is queued: its header and the alignment of its data.\<close>

definition tx_align :: "kernel \<Rightarrow> sk_buff \<Rightarrow> 'a kst_scheme \<Rightarrow> (sk_buff \<times> 'a kst_scheme) option" where
  "tx_align K skb s =
     (if sk_data skb mod 4 \<noteq> 0 then
        do {
          (r, s) \<leftarrow> skb_copy_expand K skb 0 (round_up 4 (sk_data skb) - sk_data skb) s;
          Some (case r of None \<Rightarrow> (skb, s) | Some skb2 \<Rightarrow> (skb2, kfree_skb skb s))
        }
      else Some (skb, s))"

definition tx_pad :: "kernel \<Rightarrow> sk_buff \<Rightarrow> 'a kst_scheme \<Rightarrow> (sk_buff \<times> 'a kst_scheme) option" where
  "tx_pad K skb s =
     (if sk_len skb < ETH_ZLEN \<and> \<not> is_atm_cell skb then
        do {
          (r, s) \<leftarrow> skb_copy_expand K skb 0 (ETH_ZLEN - sk_len skb) s;
          (case r of
             None \<Rightarrow> Some (skb, s)
           | Some skb2 \<Rightarrow> do { skb2 \<leftarrow> skb_zero_pad ETH_ZLEN skb2; Some (skb2, kfree_skb skb s) })
        }
      else Some (skb, s))"

definition tx_send :: "kernel \<Rightarrow> int \<Rightarrow> dev_context \<Rightarrow> sk_buff \<Rightarrow> xtm_state \<Rightarrow> xtm_state option" where
  "tx_send K h c skb s =
     do {
       let i = (case tx_queue c skb of None \<Rightarrow> 0 | Some i \<Rightarrow> i);
       (r, s) \<leftarrow>
         (if ulFlags c AND CNI_HW_ADD_REMOVE_HEADER = 0 \<and> ulHdrType c \<noteq> HT_NONE
          then AddRfc2684Hdr K (ulHdrType c) skb s else Some (Some skb, s));
       skb \<leftarrow> r;
       (skb, s) \<leftarrow> tx_align K skb s;
       c_assert (i < length (TxQInfos c));
       let q = TxQInfos c ! i;
       if ulFreeBds q \<noteq> 0 then
         do {
           (skb, s) \<leftarrow> tx_pad K skb s;
           q \<leftarrow> tx_enqueue c skb q;
           ch \<leftarrow> pDma q;
           c_assert (ch < length (x_tx_dma s));
           Some (put_dev h (c\<lparr>TxQInfos := (TxQInfos c)[i := q],
                              DevStats := (DevStats c)\<lparr>tx_packets := tx_packets (DevStats c) + 1\<rparr>\<rparr>)
                   (s\<lparr>x_tx_dma := (x_tx_dma s)[ch := (x_tx_dma s ! ch)\<lparr>ch_cfg := DMA_ENABLE\<rparr>]\<rparr>))
         }
       else
         Some (put_dev h (c\<lparr>DevStats := (DevStats c)\<lparr>tx_errors := tx_errors (DevStats c) + 1\<rparr>\<rparr>) (kfree_skb skb s))
     }"

definition bcmxtmrt_xmit :: "kernel \<Rightarrow> sk_buff option \<Rightarrow> int \<Rightarrow> xtm_state \<Rightarrow> xtm_state option" where
  "bcmxtmrt_xmit K skb h s =
     do {
       c \<leftarrow> x_devs s h;
       (qs, freed) \<leftarrow> tx_reclaim_all (ulTxQInfosSize c) (TxQInfos c) [];
       let c = c\<lparr>TxQInfos := qs\<rparr>;
       let s = put_dev h c (s\<lparr>k_skb_freed := k_skb_freed s @ freed\<rparr>);
       (case skb of
          None \<Rightarrow> Some s
        | Some skb \<Rightarrow>
            (if ulTxQInfosSize c \<noteq> 0 then tx_send K h c skb s
             else Some (put_dev h (c\<lparr>DevStats := (DevStats c)\<lparr>tx_dropped := tx_dropped (DevStats c) + 1\<rparr>\<rparr>)
                          (kfree_skb skb s))))
     }"

end
