(* ===== verification/Xtm_Ring.thy ===== *)
theory Xtm_Ring
  imports Xtm_Tx
begin

text \<open>
  The transmit ring as a queue.  \<open>tx_ring_ok\<close> is its invariant: the socket buffers lie in
  the entries from \<open>ulHead\<close> on, the free entries follow up to \<open>ulHead\<close> again,
  and exactly the last descriptor has \<open>DMA_WRAP\<close>.  \<open>tx_fifo\<close> is the content in
  order, each packet with its descriptor. Reclaiming removes the completed packets at its front, sending
  appends one packet.
\<close>

section \<open>Indices modulo the size of a ring\<close>

lemma ring_next: "h < n \<Longrightarrow> (if Suc h = n then 0 else Suc h) = Suc h mod (n :: nat)"
  by auto

lemma ring_Suc: "(Suc h mod n + k) mod n = (h + Suc k) mod (n :: nat)"
  by (simp add: mod_add_left_eq)

lemma ring_inj:
  assumes "(h + j) mod n = (h + k) mod n" "j < n" "k < (n :: nat)"
  shows "j = k"
proof -
  have "int n dvd int j - int k"
    using assms(1) by (metis add_diff_cancel_left mod_eq_dvd_iff of_nat_add zmod_int)
  moreover have "\<bar>int j - int k\<bar> < int n" using assms by auto
  ultimately show ?thesis using dvd_imp_le_int [of "int j - int k" "int n"] by auto
qed

lemma ring_surj:
  assumes "h < n" "i < (n :: nat)"
  obtains k where "k < n" "(h + k) mod n = i"
proof (cases "h \<le> i")
  case True
  then show ?thesis using assms that [of "i - h"] by auto
next
  case False
  then have "(h + (n + i - h)) mod n = i" using assms by simp
  then show ?thesis using assms False that [of "n + i - h"] by auto
qed

section \<open>The transmit ring\<close>

definition tx_used :: "txqinfo \<Rightarrow> nat" where
  "tx_used q = ulQueueSize q - ulFreeBds q"

definition tx_slot :: "txqinfo \<Rightarrow> nat \<Rightarrow> nat" where
  "tx_slot q k = (ulHead q + k) mod ulQueueSize q"

definition wrap_ok :: "dma_desc list \<Rightarrow> bool" where
  "wrap_ok bds \<longleftrightarrow> (\<forall>i<length bds. bd_status (bds ! i) AND DMA_WRAP \<noteq> 0 \<longleftrightarrow> Suc i = length bds)"

definition tx_ring_ok :: "txqinfo \<Rightarrow> bool" where
  "tx_ring_ok q \<longleftrightarrow>
     length (pBds q) = ulQueueSize q \<and> length (ppSkbs q) = ulQueueSize q \<and>
     ulFreeBds q \<le> ulQueueSize q \<and> (0 < ulQueueSize q \<longrightarrow> ulHead q < ulQueueSize q) \<and>
     ulTail q = tx_slot q (tx_used q) \<and> wrap_ok (pBds q) \<and>
     (\<forall>k<ulQueueSize q. ppSkbs q ! tx_slot q k \<noteq> None \<longleftrightarrow> k < tx_used q)"

definition tx_fifo :: "txqinfo \<Rightarrow> (sk_buff \<times> dma_desc) list" where
  "tx_fifo q = map (\<lambda>k. (the (ppSkbs q ! tx_slot q k), pBds q ! tx_slot q k)) [0..<tx_used q]"

definition tx_complete :: "sk_buff \<times> dma_desc \<Rightarrow> bool" where
  "tx_complete x \<longleftrightarrow> bd_status (snd x) AND DMA_OWN = 0"

definition tx_done :: "txqinfo \<Rightarrow> int list" where
  "tx_done q = map (sk_at \<circ> fst) (takeWhile tx_complete (tx_fifo q))"

lemma length_tx_fifo [simp]: "length (tx_fifo q) = tx_used q"
  by (simp add: tx_fifo_def)

lemma tx_ring_okD:
  assumes "tx_ring_ok q"
  shows "length (pBds q) = ulQueueSize q" "length (ppSkbs q) = ulQueueSize q" "ulFreeBds q \<le> ulQueueSize q"
    "0 < ulQueueSize q \<Longrightarrow> ulHead q < ulQueueSize q" "ulTail q = tx_slot q (tx_used q)" "wrap_ok (pBds q)"
    "k < ulQueueSize q \<Longrightarrow> ppSkbs q ! tx_slot q k \<noteq> None \<longleftrightarrow> k < tx_used q"
  using assms by (auto simp: tx_ring_ok_def)

lemma tx_ring_ok_zero [simp]: "tx_ring_ok txq_zero"
  by (simp add: tx_ring_ok_def txq_zero_def tx_slot_def tx_used_def wrap_ok_def)

lemma wrap_okD: "wrap_ok bds \<Longrightarrow> i < length bds \<Longrightarrow> bd_status (bds ! i) AND DMA_WRAP = 0 \<longleftrightarrow> Suc i \<noteq> length bds"
  by (auto simp: wrap_ok_def)

text \<open>Taking the packet at the head out of the ring.\<close>

abbreviation (input) tx_pop :: "txqinfo \<Rightarrow> txqinfo" where
  "tx_pop q \<equiv>
     q\<lparr>ppSkbs := (ppSkbs q)[ulHead q := None],
       ulHead := (if bd_status (pBds q ! ulHead q) AND DMA_WRAP = 0 then Suc (ulHead q) else 0),
       ulFreeBds := Suc (ulFreeBds q)\<rparr>"

lemma tx_pop_slot:
  assumes ok: "tx_ring_ok q" and f: "ulFreeBds q < ulQueueSize q"
  shows "tx_slot (tx_pop q) k = tx_slot q (Suc k)" "tx_used q = Suc (tx_used (tx_pop q))" "tx_slot q 0 = ulHead q"
    "ulHead q < ulQueueSize q" "ppSkbs q ! ulHead q \<noteq> None"
proof -
  have h: "ulHead q < ulQueueSize q" using tx_ring_okD(4) [OF ok] f by simp
  then show "tx_slot q 0 = ulHead q" "ulHead q < ulQueueSize q" by (simp_all add: tx_slot_def)
  have "(if bd_status (pBds q ! ulHead q) AND DMA_WRAP = 0 then Suc (ulHead q) else 0) = Suc (ulHead q) mod ulQueueSize q"
    using h wrap_okD [OF tx_ring_okD(6) [OF ok], of "ulHead q"] by (simp add: tx_ring_okD(1) [OF ok])
  then show "tx_slot (tx_pop q) k = tx_slot q (Suc k)" by (simp add: tx_slot_def ring_Suc del: mod_Suc_eq)
  show u: "tx_used q = Suc (tx_used (tx_pop q))" using f by (simp add: tx_used_def)
  show "ppSkbs q ! ulHead q \<noteq> None"
    using tx_ring_okD(7) [OF ok, of 0] u h by (simp add: tx_slot_def)
qed

lemma tx_slot_less: "0 < ulQueueSize q \<Longrightarrow> tx_slot q k < ulQueueSize q"
  by (simp add: tx_slot_def)

lemma tx_slot_inj: "tx_slot q j = tx_slot q k \<Longrightarrow> j < ulQueueSize q \<Longrightarrow> k < ulQueueSize q \<Longrightarrow> j = k"
  unfolding tx_slot_def by (rule ring_inj)

lemma tx_slot_size: "tx_slot q (ulQueueSize q) = tx_slot q 0"
  by (simp add: tx_slot_def)

lemma tx_pop_ok:
  assumes ok: "tx_ring_ok q" and f: "ulFreeBds q < ulQueueSize q"
  shows "tx_ring_ok (tx_pop q)"
    "tx_fifo q = (the (ppSkbs q ! ulHead q), pBds q ! ulHead q) # tx_fifo (tx_pop q)"
proof -
  note S = tx_pop_slot [OF ok f]
  have n: "0 < ulQueueSize q" using f by simp
  have u: "tx_used q \<le> ulQueueSize q" by (simp add: tx_used_def)
  have skb: "ppSkbs (tx_pop q) ! tx_slot q (Suc k) = (if Suc k = ulQueueSize q then None else ppSkbs q ! tx_slot q (Suc k))"
    if "k < ulQueueSize q" for k
  proof (cases "Suc k = ulQueueSize q")
    case True
    then have "tx_slot q (Suc k) = ulHead q" using S(3) tx_slot_size by simp
    then show ?thesis using True S(4) tx_ring_okD(2) [OF ok] by simp
  next
    case False
    then have "tx_slot q (Suc k) \<noteq> ulHead q" using tx_slot_inj [of q "Suc k" 0] that n S(3) by auto
    then show ?thesis using False by simp
  qed
  have "ppSkbs (tx_pop q) ! tx_slot q (Suc k) \<noteq> None \<longleftrightarrow> k < tx_used (tx_pop q)" if "k < ulQueueSize q" for k
    using skb [OF that] tx_ring_okD(7) [OF ok, of "Suc k"] that S(2) u by auto
  then show "tx_ring_ok (tx_pop q)"
    using ok S f n unfolding tx_ring_ok_def by (auto simp: Suc_le_eq wrap_okD)
  have "tx_fifo q = map (\<lambda>k. (the (ppSkbs q ! tx_slot q k), pBds q ! tx_slot q k)) (0 # map Suc [0..<tx_used (tx_pop q)])"
    unfolding tx_fifo_def S(2) by (simp add: upt_conv_Cons map_Suc_upt del: upt_Suc)
  also have "\<dots> = (the (ppSkbs q ! ulHead q), pBds q ! ulHead q) # tx_fifo (tx_pop q)"
    using skb S(2) u unfolding tx_fifo_def by (auto simp: S)
  finally show "tx_fifo q = (the (ppSkbs q ! ulHead q), pBds q ! ulHead q) # tx_fifo (tx_pop q)" .
qed

lemma tx_reclaim_stop:
  assumes ok: "tx_ring_ok q" and n: "\<not> (ulFreeBds q < ulQueueSize q \<and> bd_status (pBds q ! ulHead q) AND DMA_OWN = 0)"
  shows "tx_reclaim q freed = Some (q, freed)" "dropWhile tx_complete (tx_fifo q) = tx_fifo q"
    "takeWhile tx_complete (tx_fifo q) = []"
proof -
  show "tx_reclaim q freed = Some (q, freed)"
    using n tx_ring_okD(1,2,4) [OF ok] by (subst tx_reclaim.simps) (auto simp: c_assert_def)
  have "tx_fifo q = [] \<or> \<not> tx_complete (hd (tx_fifo q))"
  proof (cases "ulFreeBds q < ulQueueSize q")
    case True
    then show ?thesis using n unfolding tx_pop_ok(2) [OF ok True] by (simp add: tx_complete_def)
  next
    case False
    then show ?thesis by (simp add: tx_fifo_def tx_used_def)
  qed
  then show "dropWhile tx_complete (tx_fifo q) = tx_fifo q" "takeWhile tx_complete (tx_fifo q) = []"
    by (cases "tx_fifo q"; simp)+
qed

lemma tx_reclaim_ok:
  assumes "tx_ring_ok q"
  obtains q' where "tx_reclaim q freed = Some (q', freed @ tx_done q)"
    "tx_ring_ok q'" "tx_fifo q' = dropWhile tx_complete (tx_fifo q)" "pBds q' = pBds q"
    "ulQueueSize q' = ulQueueSize q" "pDma q' = pDma q" "ulDmaIndex q' = ulDmaIndex q"
  using assms
proof (induction q freed arbitrary: thesis rule: tx_reclaim.induct)
  case (1 q freed)
  show ?case
  proof (cases "ulFreeBds q < ulQueueSize q \<and> bd_status (pBds q ! ulHead q) AND DMA_OWN = 0")
    case True
    then have f: "ulFreeBds q < ulQueueSize q" and d: "bd_status (pBds q ! ulHead q) AND DMA_OWN = 0" by auto
    note S = tx_pop_slot [OF 1(3) f]
    obtain skb where skb: "ppSkbs q ! ulHead q = Some skb" using S(5) by auto
    have in_range: "ulHead q < length (pBds q) \<and> ulHead q < length (ppSkbs q)"
      using S(4) tx_ring_okD(1,2) [OF 1(3)] by simp
    have r: "tx_reclaim q freed = tx_reclaim (tx_pop q) (freed @ [sk_at skb])"
      using f d skb in_range by (subst tx_reclaim.simps) (simp add: c_assert_def)
    have F: "tx_fifo q = (skb, pBds q ! ulHead q) # tx_fifo (tx_pop q)" using tx_pop_ok(2) [OF 1(3) f] skb by simp
    have c: "tx_complete (skb, pBds q ! ulHead q)" using d by (simp add: tx_complete_def)
    obtain q' where q': "tx_reclaim (tx_pop q) (freed @ [sk_at skb]) =
        Some (q', (freed @ [sk_at skb]) @ tx_done (tx_pop q))"
      "tx_ring_ok q'" "tx_fifo q' = dropWhile tx_complete (tx_fifo (tx_pop q))" "pBds q' = pBds (tx_pop q)"
      "ulQueueSize q' = ulQueueSize (tx_pop q)" "pDma q' = pDma (tx_pop q)" "ulDmaIndex q' = ulDmaIndex (tx_pop q)"
      by (rule 1(1) [OF f, of "()" skb]) (use in_range d skb tx_pop_ok(1) [OF 1(3) f] in \<open>simp_all add: c_assert_def\<close>)
    show ?thesis by (rule 1(2) [of q']) (use r F c q' in \<open>simp_all add: tx_done_def\<close>)
  next
    case False
    show ?thesis by (rule 1(2) [of q]) (use tx_reclaim_stop [OF 1(3) False] 1(3) in \<open>simp_all add: tx_done_def\<close>)
  qed
qed

lemma and_wrap: "(w :: u16) AND DMA_WRAP = (if bit w 12 then DMA_WRAP else 0)"
proof -
  have e: "(DMA_WRAP :: u16) = push_bit 12 1" by simp
  have b: "bit (DMA_WRAP :: u16) n \<longleftrightarrow> n = 12" for n
    unfolding e bit_push_bit_iff by (auto simp: bit_1_iff possible_bit_def)
  show ?thesis
  proof (rule bit_word_eqI)
    fix n assume "n < LENGTH(16)"
    show "bit (w AND DMA_WRAP) n \<longleftrightarrow> bit (if bit w 12 then DMA_WRAP else 0) n"
      by (cases "bit w 12"; cases "n = 12") (simp_all only: bit_and_iff b if_True if_False bit_0_eq simp_thms bot_apply bot_bool_def)
  qed
qed

lemma tx_status_wrap:
  assumes "ulHdrType c \<le> 4"
  shows "tx_status c skb old AND DMA_WRAP = old AND DMA_WRAP"
proof -
  have "bit (tx_status c skb old) 12 = bit old 12"
  proof -
    have v: "\<not> bit (ucTxVcid c) 12" by (rule bit8_beyond) simp
    have "\<not> bit (push_bit 9 (ulHdrType c - 1)) 12" if "ulHdrType c \<noteq> 0"
    proof -
      have "0 < unat (ulHdrType c)" using that by (simp add: unat_gt_0)
      then have "unat (ulHdrType c - 1) < 2 ^ 3" using assms by (simp add: word_le_nat_alt unat_sub_if_size)
      then have t: "take_bit 3 (unat (ulHdrType c - 1)) = unat (ulHdrType c - 1)" by (simp add: take_bit_nat_eq_self)
      have "bit (ulHdrType c - 1) 3 = bit (take_bit 3 (unat (ulHdrType c - 1))) 3" unfolding t by (simp add: bit_unsigned_iff)
      then have "\<not> bit (ulHdrType c - 1) 3" by (simp add: bit_take_bit_iff)
      then show ?thesis by (simp add: bit_simps)
    qed
    then show ?thesis using v by (auto simp: tx_status_def Let_def bit_simps)
  qed
  then show ?thesis by (simp add: and_wrap)
qed

lemma or_own_wrap: "(w OR DMA_OWN) AND DMA_WRAP = w AND DMA_WRAP" "(w OR DMA_OWN) AND DMA_OWN \<noteq> (0 :: u16)"
proof -
  show "(w OR DMA_OWN) AND DMA_WRAP = w AND DMA_WRAP" by (simp add: bit.conj_disj_distrib2)
  have "(w OR DMA_OWN) AND DMA_OWN = DMA_OWN" by (simp add: and.commute)
  then show "(w OR DMA_OWN) AND DMA_OWN \<noteq> (0 :: u16)" by simp
qed

lemma wrap_ok_update:
  "wrap_ok bds \<Longrightarrow> i < length bds \<Longrightarrow> bd_status b AND DMA_WRAP = bd_status (bds ! i) AND DMA_WRAP \<Longrightarrow>
   wrap_ok (bds[i := b])"
  by (auto simp: wrap_ok_def nth_list_update)

definition tx_desc :: "dev_context \<Rightarrow> sk_buff \<Rightarrow> u16 \<Rightarrow> dma_desc" where
  "tx_desc c skb old =
     \<lparr>bd_length = word_of_int (sk_len skb), bd_status = tx_status c skb old OR DMA_OWN,
      bd_address = word_of_int (sk_data skb) AND 0x1fffffff\<rparr>"

lemma tx_enqueue_ok:
  assumes ok: "tx_ring_ok q" and f: "ulFreeBds q \<noteq> 0" and ht: "ulHdrType c \<le> 4"
  obtains q' old where "tx_enqueue c skb q = Some q'" "tx_ring_ok q'" "tx_fifo q' = tx_fifo q @ [(skb, tx_desc c skb old)]"
    "ulQueueSize q' = ulQueueSize q" "pDma q' = pDma q" "ulDmaIndex q' = ulDmaIndex q"
    "old AND DMA_WRAP = (if Suc (ulTail q) = ulQueueSize q then DMA_WRAP else 0)"
proof -
  define n where "n = ulQueueSize q"
  define t where "t = ulTail q"
  define old where "old = bd_status (pBds q ! t)"
  have n: "0 < n" using f tx_ring_okD(3) [OF ok] by (simp add: n_def)
  have u: "tx_used q < n" using f tx_ring_okD(3) [OF ok] by (auto simp: n_def tx_used_def)
  have ts: "t = tx_slot q (tx_used q)" by (simp add: t_def tx_ring_okD(5) [OF ok])
  have t: "t < n" using tx_slot_less n by (simp add: ts n_def)
  have L: "length (pBds q) = n" "length (ppSkbs q) = n" using tx_ring_okD(1,2) [OF ok] by (simp_all add: n_def)
  have W: "(tx_status c skb old OR DMA_OWN) AND DMA_WRAP = old AND DMA_WRAP"
    by (simp add: or_own_wrap tx_status_wrap [OF ht])
  have W0: "old AND DMA_WRAP = 0 \<longleftrightarrow> Suc t \<noteq> n" using wrap_okD [OF tx_ring_okD(6) [OF ok], of t] t L by (simp add: old_def)
  define q' where "q' = q\<lparr>ulFreeBds := ulFreeBds q - 1, ppSkbs := (ppSkbs q)[t := Some skb],
    pBds := (pBds q)[t := tx_desc c skb old], ulTail := (if Suc t = n then 0 else Suc t)\<rparr>"
  have e: "tx_enqueue c skb q = Some q'"
    using t L W W0 unfolding tx_enqueue_def q'_def by (simp add: t_def [symmetric] old_def [symmetric] tx_desc_def)
  have sl: "tx_slot q' k = tx_slot q k" for k by (simp add: tx_slot_def q'_def)
  have us: "tx_used q' = Suc (tx_used q)" using f tx_ring_okD(3) [OF ok] by (auto simp: tx_used_def q'_def)
  have other: "tx_slot q k \<noteq> t" if "k < n" "k \<noteq> tx_used q" for k
    using tx_slot_inj [of q k "tx_used q"] that u by (auto simp: ts n_def)
  have skb: "ppSkbs q' ! tx_slot q k = (if k = tx_used q then Some skb else ppSkbs q ! tx_slot q k)"
    and bd: "pBds q' ! tx_slot q k = (if k = tx_used q then tx_desc c skb old else pBds q ! tx_slot q k)" if "k < n" for k
    using other [OF that] t L ts by (auto simp: q'_def)
  have "wrap_ok (pBds q')"
    unfolding q'_def using W tx_ring_okD(6) [OF ok] t L
    by (simp add: tx_desc_def old_def wrap_ok_update)
  moreover have "ulTail q' = tx_slot q' (tx_used q')"
  proof -
    have "(if Suc t = n then 0 else Suc t) = Suc t mod n" by (rule ring_next [OF t])
    also have "\<dots> = tx_slot q (Suc (tx_used q))" by (simp add: ts tx_slot_def n_def mod_Suc_eq)
    finally show ?thesis by (simp add: sl us) (simp add: q'_def)
  qed
  moreover have "ppSkbs q' ! tx_slot q' k \<noteq> None \<longleftrightarrow> k < tx_used q'" if "k < n" for k
    using skb [OF that] tx_ring_okD(7) [OF ok, of k] that by (auto simp: sl us n_def less_Suc_eq)
  ultimately have ok': "tx_ring_ok q'"
    using tx_ring_okD(3,4) [OF ok] L n by (auto simp: tx_ring_ok_def q'_def n_def [symmetric])
  have "tx_fifo q' = tx_fifo q @ [(skb, tx_desc c skb old)]"
    using skb bd u by (simp add: tx_fifo_def sl us)
  moreover have "old AND DMA_WRAP = (if Suc t = n then DMA_WRAP else 0)"
  proof -
    have "old AND DMA_WRAP = 0 \<or> old AND DMA_WRAP = DMA_WRAP" by (simp add: and_wrap)
    then show ?thesis using W0 by auto
  qed
  ultimately show thesis using that [of q' old] e ok' by (simp add: q'_def t_def n_def)
qed

lemma tx_reclaim_all_ok:
  assumes "\<forall>q\<in>set qs. tx_ring_ok q" "n \<le> length qs"
  obtains qs' where
    "tx_reclaim_all n qs freed =
       Some (qs', freed @ concat (map tx_done (take n qs)))"
    "length qs' = length qs" "\<forall>q\<in>set qs'. tx_ring_ok q"
    "\<forall>i<length qs. tx_fifo (qs' ! i) = (if i < n then dropWhile tx_complete (tx_fifo (qs ! i)) else tx_fifo (qs ! i))"
    "\<forall>i<length qs. ulQueueSize (qs' ! i) = ulQueueSize (qs ! i) \<and> pDma (qs' ! i) = pDma (qs ! i) \<and> ulDmaIndex (qs' ! i) = ulDmaIndex (qs ! i)"
  using assms
proof (induction n qs freed arbitrary: thesis rule: tx_reclaim_all.induct)
  case (1 qs freed)
  then show ?case by simp
next
  case (2 n freed)
  then show ?case by simp
next
  case (3 n q qs freed)
  have q: "tx_ring_ok q" using 3(3) by simp
  obtain q' where q': "tx_reclaim q freed = Some (q', freed @ tx_done q)" "tx_ring_ok q'"
    "tx_fifo q' = dropWhile tx_complete (tx_fifo q)" "ulQueueSize q' = ulQueueSize q" "pDma q' = pDma q" "ulDmaIndex q' = ulDmaIndex q"
    by (rule tx_reclaim_ok [OF q, of freed]) (rule that)
  obtain qs' where qs': "tx_reclaim_all n qs (freed @ tx_done q) = Some (qs', (freed @ tx_done q) @ concat (map tx_done (take n qs)))"
    "length qs' = length qs" "\<forall>q\<in>set qs'. tx_ring_ok q"
    "\<forall>i<length qs. tx_fifo (qs' ! i) = (if i < n then dropWhile tx_complete (tx_fifo (qs ! i)) else tx_fifo (qs ! i))"
    "\<forall>i<length qs. ulQueueSize (qs' ! i) = ulQueueSize (qs ! i) \<and> pDma (qs' ! i) = pDma (qs ! i) \<and> ulDmaIndex (qs' ! i) = ulDmaIndex (qs ! i)"
    by (rule 3(1) [OF q'(1) refl]) (use 3(3,4) in simp_all)
  show ?case by (rule 3(2) [of "q' # qs'"]) (use q' qs' in \<open>auto simp: nth_Cons split: nat.split\<close>)
qed

end
