(* ===== verification/Xtm_Send.thy ===== *)
theory Xtm_Send
  imports Xtm_Ring
begin

text \<open>
  Sending a packet, step by step: what \<open>AddRfc2684Hdr\<close>, the alignment and the padding make of the
  packet, and what \<open>bcmxtmrt_xmit\<close> does to the queues of a device whose context is
  well formed (\<open>ctx_ok\<close>).
\<close>

section \<open>The packet\<close>

definition pad60 :: "bytes \<Rightarrow> bytes" where
  "pad60 bs = bs @ replicate (60 - length bs) 0"

definition rfc2684_hdr :: "u32 \<Rightarrow> bytes" where
  "rfc2684_hdr ht = take (ulHdrLens ! unat ht) (ucHdrs ! unat ht)"

text \<open>A state after allocations and frees of socket buffers.\<close>

definition kst_after :: "nat \<Rightarrow> int list \<Rightarrow> 'a kst_scheme \<Rightarrow> 'a kst_scheme" where
  "kst_after m l s = s\<lparr>k_allocs := m, k_skb_freed := k_skb_freed s @ l\<rparr>"

lemma kst_after_xtm [simp]:
  "x_devs (kst_after m l s) = x_devs s" "x_tx_dma (kst_after m l s) = x_tx_dma s"
  "x_calls (kst_after m l s) = x_calls s" "RxBdInfos (kst_after m l s) = RxBdInfos s"
  "pDevCtxs (kst_after m l s) = pDevCtxs s" "pDevCtxsByMatchId (kst_after m l s) = pDevCtxsByMatchId s"
  "x_rx_dma (kst_after m l s) = x_rx_dma s" "ulDrvState (kst_after m l s) = ulDrvState s"
  "pFreeRxSkbList (kst_after m l s) = pFreeRxSkbList s" "x_mem (kst_after m l s) = x_mem s"
  "x_mac (kst_after m l s) = x_mac s"
  by (simp_all add: kst_after_def)

lemma kst_after_simps [simp]:
  "k_skb_freed (kst_after m l s) = k_skb_freed s @ l" "kst_after m' l' (kst_after m l s) = kst_after m' (l @ l') s"
  "k_freed (kst_after m l s) = k_freed s" "k_allocs (kst_after m l s) = m" "kst_after (k_allocs s) [] s = s"
  by (simp_all add: kst_after_def)

lemma kst_after_fold:
  "s\<lparr>k_allocs := m\<rparr> = kst_after m [] s" "kfree_skb skb s = kst_after (k_allocs s) [sk_at skb] s"
  "(kst_after m [] s)\<lparr>k_skb_freed := k_skb_freed s @ l\<rparr> = kst_after m l s"
  by (simp_all add: kst_after_def kfree_skb_def)

lemma word4_cases: "(ht :: u32) \<le> 4 \<Longrightarrow> ht = 0 \<or> ht = 1 \<or> ht = 2 \<or> ht = 3 \<or> ht = 4"
proof -
  assume "ht \<le> 4"
  then have "unat ht \<le> 4" by (simp add: word_le_nat_alt)
  then have "unat ht \<in> {0, 1, 2, 3, 4}" by auto
  then show ?thesis by (auto simp: word_unat_eq_iff)
qed

lemma length_rfc2684_hdr: "ht \<le> 4 \<Longrightarrow> length (rfc2684_hdr ht) = ulHdrLens ! unat ht \<and> unat ht < length ulHdrLens"
  by (drule word4_cases) (auto simp: rfc2684_hdr_def ulHdrLens_def ucHdrs_def)

lemma skb_zero_pad_ok:
  assumes wf: "skb_wf k" and n: "sk_len k \<le> n" "sk_tail k + (n - sk_len k) \<le> sk_end k" and bs: "skb_bytes k = Some bs"
  obtains k' where "skb_zero_pad n k = Some k'" "skb_wf k'" "skb_same k' k" "sk_len k' = n" "sk_data k' = sk_data k"
    "skb_bytes k' = Some (bs @ replicate (nat (n - sk_len k)) 0)" "sk_at k' = sk_at k"
proof -
  let ?z = "replicate (nat (n - sk_len k)) (0 :: u8)"
  obtain m where m: "skb_write (sk_tail k) ?z k = Some (k\<lparr>sk_mem := m\<rparr>)" "length m = length (sk_mem k)"
    "mem_write (sk_tail k - sk_head k) ?z (sk_mem k) = Some m"
    by (rule skb_write_wf [OF wf, of "sk_tail k" ?z]) (use wf n in \<open>auto simp: skb_wf_def\<close>)
  define k' where "k' = k\<lparr>sk_mem := m, sk_tail := sk_tail k + (n - sk_len k), sk_len := n\<rparr>"
  have e: "skb_zero_pad n k = Some k'" using m(1) n by (simp add: skb_zero_pad_def skb_put_def k'_def)
  have r: "mem_read (sk_tail k - sk_head k) (n - sk_len k) m = Some ?z" using mem_read_write_same [OF m(3)] n by simp
  have "mem_read (skb_headroom k) (sk_len k) m = mem_read (skb_headroom k) (sk_len k) (sk_mem k)"
    by (rule mem_read_write_disjoint [OF m(3)]) (use wf in \<open>simp add: skb_wf_def skb_headroom_def\<close>)
  then have b: "mem_read (skb_headroom k) (sk_len k) m = Some bs" using bs by (simp add: skb_bytes_def)
  have T: "nat (sk_tail k - sk_head k) = nat (sk_len k) + nat (skb_headroom k)" "nat n = nat (sk_len k) + nat (n - sk_len k)"
    using wf n by (auto simp: skb_wf_def skb_headroom_def)
  have "skb_bytes k' = Some (bs @ ?z)"
    using r b wf n unfolding skb_bytes_def mem_read_def skb_wf_def T k'_def
    by (auto simp: skb_headroom_def take_add add.commute T split: if_splits)
  then show thesis using that [OF e] wf m(2) n by (simp add: skb_wf_def skb_same_def k'_def)
qed

lemma copy_pad_cases:
  assumes K: "kernel_ok K" and wf: "skb_wf skb" and l: "sk_len skb < 60" and bs: "skb_bytes skb = Some bs"
  obtains (fail) m where "skb_copy_expand K skb 0 (60 - sk_len skb) s = Some (None, kst_after m [] s)" "\<not> kmem_ok K"
  | (ok) k k' m where "skb_copy_expand K skb 0 (60 - sk_len skb) s = Some (Some k, kst_after m [] s)"
      "skb_zero_pad 60 k = Some k'" "skb_wf k'" "skb_same k' skb" "skb_bytes k' = Some (pad60 bs)" "sk_data k' mod 4 = 0"
proof (rule skb_copy_expand_cases [OF K wf, of "60 - sk_len skb" s])
  show "0 \<le> 60 - sk_len skb" using l by simp
next
  fix m assume "skb_copy_expand K skb 0 (60 - sk_len skb) s = Some (None, s\<lparr>k_allocs := m\<rparr>)" "\<not> kmem_ok K"
  then show ?thesis using fail by (simp add: kst_after_fold)
next
  fix k m assume a: "skb_copy_expand K skb 0 (60 - sk_len skb) s = Some (Some k, s\<lparr>k_allocs := m\<rparr>)" "skb_wf k"
    "skb_same k skb" "sk_len k = sk_len skb" "skb_bytes k = skb_bytes skb" "sk_data k mod 4 = 0"
    "sk_tail k + (60 - sk_len skb) \<le> sk_end k"
  obtain k' where k': "skb_zero_pad 60 k = Some k'" "skb_wf k'" "skb_same k' k" "sk_data k' = sk_data k"
    "skb_bytes k' = Some (bs @ replicate (nat (60 - sk_len k)) 0)"
    by (rule skb_zero_pad_ok [OF a(2), of 60 bs]) (use a l bs in auto)
  have "int (length bs) = sk_len skb" using skb_bytes_wf [OF wf] bs by auto
  then have "nat (60 - sk_len k) = 60 - length bs" using a(4) by linarith
  then show ?thesis using ok [of k m k'] a k' by (simp add: kst_after_fold pad60_def skb_same_trans [of k' k skb])
qed

lemma AddRfc2684Hdr_eq:
  assumes "ht \<le> 4"
  shows "AddRfc2684Hdr K ht skb s =
    do {
      (r, s) \<leftarrow>
        (if skb_headroom skb < int (length (rfc2684_hdr ht))
         then do { (r, s) \<leftarrow> skb_realloc_headroom K skb (int (length (rfc2684_hdr ht))) s; Some (r, kfree_skb skb s) }
         else Some (Some skb, s));
      (case r of
         None \<Rightarrow> Some (None, s)
       | Some skb \<Rightarrow>
           do {
             skb \<leftarrow> skb_push (int (length (rfc2684_hdr ht))) skb;
             skb \<leftarrow> skb_write (sk_data skb) (rfc2684_hdr ht) skb;
             if sk_len skb < 60 then
               do {
                 (r, s) \<leftarrow> skb_copy_expand K skb 0 (60 - sk_len skb) s;
                 (case r of
                    None \<Rightarrow> Some (None, kfree_skb skb s)
                  | Some skb2 \<Rightarrow> do { k \<leftarrow> skb_zero_pad 60 skb2; Some (Some k, kfree_skb skb s) })
               }
             else Some (Some skb, s)
           })
    }"
proof -
  note L = length_rfc2684_hdr [OF assms]
  have h: "take (ulHdrLens ! unat ht) (ucHdrs ! unat ht) = rfc2684_hdr ht" by (simp add: rfc2684_hdr_def)
  show ?thesis unfolding AddRfc2684Hdr_def Let_def h unfolding L [THEN conjunct1, symmetric] using L [THEN conjunct2] by simp
qed

lemma AddRfc2684Hdr_cases:
  assumes K: "kernel_ok K" and ht: "ht \<le> 4" and wf: "skb_wf skb" and bs: "skb_bytes skb = Some bs"
  obtains (fail) m l where "AddRfc2684Hdr K ht skb s = Some (None, kst_after m l s)" "\<not> kmem_ok K"
  | (ok) k m l where "AddRfc2684Hdr K ht skb s = Some (Some k, kst_after m l s)" "skb_wf k" "skb_same k skb"
      "skb_bytes k = Some (pad60 (rfc2684_hdr ht @ bs))"
proof -
  note L = length_rfc2684_hdr [OF ht]
  let ?h = "rfc2684_hdr ht"
  have push: ?thesis
    if k: "skb_wf k" "skb_same k skb" "skb_bytes k = Some bs" "int (length ?h) \<le> skb_headroom k"
      and r: "(if skb_headroom skb < int (length ?h)
               then do { (r, s) \<leftarrow> skb_realloc_headroom K skb (int (length ?h)) s; Some (r, kfree_skb skb s) }
               else Some (Some skb, s)) = Some (Some k, kst_after m l s)" for k m l
  proof -
    obtain k1 k2 where p: "skb_push (int (length ?h)) k = Some k1" "skb_write (sk_data k1) ?h k1 = Some k2" "skb_wf k2"
      "skb_same k2 k" "skb_bytes k2 = Some (?h @ bs)"
      by (rule skb_push_write [OF k(1,4,3)]) (rule that)
    have len: "int (length (?h @ bs)) = sk_len k2" using skb_bytes_wf [OF p(3)] p(5) by auto
    have same: "skb_same k2 skb" using p(4) k(2) by (rule skb_same_trans)
    show ?thesis
    proof (cases "sk_len k2 < 60")
      case False
      then have "pad60 (?h @ bs) = ?h @ bs" using len by (simp add: pad60_def)
      then show ?thesis
        using ok [of k2 m l] False r p L same unfolding AddRfc2684Hdr_eq [OF ht] by (simp add: kst_after_fold)
    next
      case True
      show ?thesis
      proof (rule copy_pad_cases [OF K p(3) True p(5), of "kst_after m l s"])
        fix m' assume "skb_copy_expand K k2 0 (60 - sk_len k2) (kst_after m l s) = Some (None, kst_after m' [] (kst_after m l s))" "\<not> kmem_ok K"
        then show ?thesis
          using fail [of m' "l @ [sk_at k2]"] True r p L unfolding AddRfc2684Hdr_eq [OF ht] by (simp add: kst_after_fold)
      next
        fix k3 k4 m' assume c: "skb_copy_expand K k2 0 (60 - sk_len k2) (kst_after m l s) = Some (Some k3, kst_after m' [] (kst_after m l s))"
          "skb_zero_pad 60 k3 = Some k4" "skb_wf k4" "skb_same k4 k2" "skb_bytes k4 = Some (pad60 (?h @ bs))"
        then show ?thesis
          using ok [of k4 m' "l @ [sk_at k2]"] True r p L skb_same_trans [OF c(4) same] unfolding AddRfc2684Hdr_eq [OF ht] by (simp add: kst_after_fold)
      qed
    qed
  qed
  show ?thesis
  proof (cases "skb_headroom skb < int (length ?h)")
    case False
    then show ?thesis using push [of skb "k_allocs s" "[]"] wf bs by simp
  next
    case True
    show ?thesis
    proof (rule skb_realloc_headroom_cases [OF K wf True, of s])
      fix m l assume "skb_realloc_headroom K skb (int (length ?h)) s = Some (None, s\<lparr>k_allocs := m, k_skb_freed := k_skb_freed s @ l\<rparr>)" "\<not> kmem_ok K"
      then show ?thesis using fail [of m "l @ [sk_at skb]"] True L unfolding AddRfc2684Hdr_eq [OF ht] by (simp add: kst_after_fold)
    next
      fix k m assume "skb_realloc_headroom K skb (int (length ?h)) s = Some (Some k, s\<lparr>k_allocs := m\<rparr>)" "skb_wf k" "skb_same k skb"
        "skb_bytes k = skb_bytes skb" "int (length ?h) \<le> skb_headroom k"
      then show ?thesis using push [of k m "[sk_at skb]"] True bs by (simp add: kst_after_fold)
    qed
  qed
qed

lemma tx_align_cases:
  assumes K: "kernel_ok K" and wf: "skb_wf skb"
  obtains k m l where "tx_align K skb s = Some (k, kst_after m l s)" "skb_wf k" "skb_same k skb"
    "skb_bytes k = skb_bytes skb" "kmem_ok K \<Longrightarrow> sk_data k mod 4 = 0"
proof (cases "sk_data skb mod 4 = 0")
  case True
  then show ?thesis using that [of skb "k_allocs s" "[]"] wf by (simp add: tx_align_def)
next
  case False
  let ?n = "round_up 4 (sk_data skb) - sk_data skb"
  have n: "0 \<le> ?n" using round_up_ge [of 4 "sk_data skb"] by simp
  show ?thesis
  proof (rule skb_copy_expand_cases [OF K wf n, of s])
    fix m assume "skb_copy_expand K skb 0 ?n s = Some (None, s\<lparr>k_allocs := m\<rparr>)" "\<not> kmem_ok K"
    then show ?thesis using that [of skb m "[]"] False wf by (simp add: tx_align_def kst_after_fold)
  next
    fix k m assume "skb_copy_expand K skb 0 ?n s = Some (Some k, s\<lparr>k_allocs := m\<rparr>)" "skb_wf k" "skb_same k skb"
      "skb_bytes k = skb_bytes skb" "sk_data k mod 4 = 0"
    then show ?thesis using that [of k m "[sk_at skb]"] False by (simp add: tx_align_def kst_after_fold)
  qed
qed

text \<open>The bytes of the packet that goes out when no allocation fails.\<close>

definition tx_padded :: "sk_buff \<Rightarrow> bytes \<Rightarrow> bytes" where
  "tx_padded skb bs = (if is_atm_cell skb then bs else pad60 bs)"

definition tx_framed :: "dev_context \<Rightarrow> bytes \<Rightarrow> bytes" where
  "tx_framed c bs =
     (if ulFlags c AND CNI_HW_ADD_REMOVE_HEADER = 0 \<and> ulHdrType c \<noteq> HT_NONE then pad60 (rfc2684_hdr (ulHdrType c) @ bs)
      else bs)"

lemma skb_same_cell: "skb_same a b \<Longrightarrow> is_atm_cell a = is_atm_cell b"
  by (simp add: skb_same_def is_atm_cell_def)

lemma tx_pad_cases:
  assumes K: "kernel_ok K" and wf: "skb_wf skb" and bs: "skb_bytes skb = Some bs"
  obtains k m l where "tx_pad K skb s = Some (k, kst_after m l s)" "skb_wf k" "skb_same k skb"
    "kmem_ok K \<Longrightarrow> skb_bytes k = Some (tx_padded skb bs)" "sk_data skb mod 4 = 0 \<Longrightarrow> sk_data k mod 4 = 0"
proof (cases "sk_len skb < 60 \<and> \<not> is_atm_cell skb")
  case False
  have "int (length bs) = sk_len skb" using skb_bytes_wf [OF wf] bs by auto
  then have "tx_padded skb bs = bs" using False by (auto simp: tx_padded_def pad60_def)
  then show ?thesis using that [of skb "k_allocs s" "[]"] wf bs False by (auto simp: tx_pad_def)
next
  case True
  then have l: "sk_len skb < 60" and c: "\<not> is_atm_cell skb" by auto
  show ?thesis
  proof (rule copy_pad_cases [OF K wf l bs, of s])
    fix m assume "skb_copy_expand K skb 0 (60 - sk_len skb) s = Some (None, kst_after m [] s)" "\<not> kmem_ok K"
    then show ?thesis using that [of skb m "[]"] True wf by (simp add: tx_pad_def)
  next
    fix k k' m assume "skb_copy_expand K skb 0 (60 - sk_len skb) s = Some (Some k, kst_after m [] s)"
      "skb_zero_pad 60 k = Some k'" "skb_wf k'" "skb_same k' skb" "skb_bytes k' = Some (pad60 bs)" "sk_data k' mod 4 = 0"
    then show ?thesis using that [of k' m "[sk_at skb]"] True by (simp add: tx_pad_def kst_after_fold tx_padded_def)
  qed
qed

lemma tx_header_cases:
  assumes K: "kernel_ok K" and ht: "ulHdrType c \<le> 4" and wf: "skb_wf skb" and bs: "skb_bytes skb = Some bs"
  obtains (fail) m l where
      "(if ulFlags c AND CNI_HW_ADD_REMOVE_HEADER = 0 \<and> ulHdrType c \<noteq> HT_NONE
        then AddRfc2684Hdr K (ulHdrType c) skb s else Some (Some skb, s)) = Some (None, kst_after m l s)" "\<not> kmem_ok K"
  | (ok) k m l where
      "(if ulFlags c AND CNI_HW_ADD_REMOVE_HEADER = 0 \<and> ulHdrType c \<noteq> HT_NONE
        then AddRfc2684Hdr K (ulHdrType c) skb s else Some (Some skb, s)) = Some (Some k, kst_after m l s)"
      "skb_wf k" "skb_same k skb" "skb_bytes k = Some (tx_framed c bs)"
proof (cases "ulFlags c AND CNI_HW_ADD_REMOVE_HEADER = 0 \<and> ulHdrType c \<noteq> HT_NONE")
  case False
  then show ?thesis using ok [of skb "k_allocs s" "[]"] wf bs by (auto simp: tx_framed_def)
next
  case True
  show ?thesis
  proof (rule AddRfc2684Hdr_cases [OF K ht wf bs, of s])
    fix m l assume "AddRfc2684Hdr K (ulHdrType c) skb s = Some (None, kst_after m l s)" "\<not> kmem_ok K"
    then show ?thesis using fail True by simp
  next
    fix k m l assume "AddRfc2684Hdr K (ulHdrType c) skb s = Some (Some k, kst_after m l s)" "skb_wf k" "skb_same k skb"
      "skb_bytes k = Some (pad60 (rfc2684_hdr (ulHdrType c) @ bs))"
    then show ?thesis using ok True by (simp add: tx_framed_def)
  qed
qed

section \<open>The device\<close>

text \<open>The tables of a context have their sizes, and the queues in use have their channel.\<close>

definition queue_ok :: "txqinfo \<Rightarrow> bool" where
  "queue_ok q \<longleftrightarrow> tx_ring_ok q \<and> (ulQueueSize q \<noteq> 0 \<longrightarrow> pDma q = Some (ulDmaIndex q) \<and> ulDmaIndex q < MAX_TRANSMIT_QUEUES)"

definition ctx_ok :: "dev_context \<Rightarrow> bool" where
  "ctx_ok c \<longleftrightarrow>
     length (TxQInfos c) = MAX_TRANSMIT_QUEUES \<and> (\<forall>q\<in>set (TxQInfos c). queue_ok q) \<and>
     ulTxQInfosSize c \<le> MAX_TRANSMIT_QUEUES \<and> ulHdrType c \<le> 4 \<and>
     length (pTxPriorities c) = MAX_PHY_PORTS \<and>
     (\<forall>row\<in>set (pTxPriorities c). length row = MAX_SUB_PRIORITIES \<and> (\<forall>i. Some i \<in> set row \<longrightarrow> i < MAX_TRANSMIT_QUEUES))"

definition tx_index :: "dev_context \<Rightarrow> sk_buff \<Rightarrow> nat" where
  "tx_index c skb = (case tx_queue c skb of None \<Rightarrow> 0 | Some i \<Rightarrow> i)"

lemma queue_ok_zero [simp]: "queue_ok txq_zero"
  by (simp add: queue_ok_def) (simp add: txq_zero_def)

lemma ctx_okD:
  assumes "ctx_ok c"
  shows "length (TxQInfos c) = MAX_TRANSMIT_QUEUES" "i < MAX_TRANSMIT_QUEUES \<Longrightarrow> queue_ok (TxQInfos c ! i)"
    "q \<in> set (TxQInfos c) \<Longrightarrow> queue_ok q" "ulTxQInfosSize c \<le> MAX_TRANSMIT_QUEUES" "ulHdrType c \<le> 4"
    "length (pTxPriorities c) = MAX_PHY_PORTS" "p < MAX_PHY_PORTS \<Longrightarrow> length (pTxPriorities c ! p) = MAX_SUB_PRIORITIES"
    "p < MAX_PHY_PORTS \<Longrightarrow> Some i \<in> set (pTxPriorities c ! p) \<Longrightarrow> i < MAX_TRANSMIT_QUEUES"
  using assms unfolding ctx_ok_def by (simp_all add: nth_mem) (metis nth_mem)+

lemma tx_index_less: "ctx_ok c \<Longrightarrow> tx_index c skb < MAX_TRANSMIT_QUEUES"
proof -
  assume c: "ctx_ok c"
  have row: "i < 16" if "pTxPriorities c ! 0 ! unat w = Some i" "w \<le> 4" for w :: u32 and i
  proof -
    have "unat w < 8" using that(2) by (simp add: word_le_nat_alt)
    then have "Some i \<in> set (pTxPriorities c ! 0)" using that(1) ctx_okD(7) [OF c, of 0] by (metis nth_mem zero_less_numeral)
    then show ?thesis using ctx_okD(8) [OF c, of 0] by simp
  qed
  show ?thesis unfolding tx_index_def tx_queue_def Let_def by (auto split: option.splits if_splits dest: row)
qed

definition count_packet :: "dev_context \<Rightarrow> dev_context" where
  "count_packet c = c\<lparr>DevStats := (DevStats c)\<lparr>tx_packets := tx_packets (DevStats c) + 1\<rparr>\<rparr>"

definition count_error :: "dev_context \<Rightarrow> dev_context" where
  "count_error c = c\<lparr>DevStats := (DevStats c)\<lparr>tx_errors := tx_errors (DevStats c) + 1\<rparr>\<rparr>"

definition count_dropped :: "dev_context \<Rightarrow> dev_context" where
  "count_dropped c = c\<lparr>DevStats := (DevStats c)\<lparr>tx_dropped := tx_dropped (DevStats c) + 1\<rparr>\<rparr>"

lemma count_simps [simp]:
  "TxQInfos (count_packet c) = TxQInfos c" "TxQInfos (count_error c) = TxQInfos c" "TxQInfos (count_dropped c) = TxQInfos c"
  "ctx_ok (count_packet c) = ctx_ok c" "ctx_ok (count_error c) = ctx_ok c" "ctx_ok (count_dropped c) = ctx_ok c"
  "ulLinkState (count_packet c) = ulLinkState c" "ulLinkState (count_error c) = ulLinkState c" "ulLinkState (count_dropped c) = ulLinkState c"
  by (simp_all add: count_packet_def count_error_def count_dropped_def ctx_ok_def)

lemma ctx_ok_update_queue:
  "ctx_ok c \<Longrightarrow> queue_ok q \<Longrightarrow> ctx_ok (c\<lparr>TxQInfos := (TxQInfos c)[i := q]\<rparr>)"
  unfolding ctx_ok_def by (auto dest!: subsetD [OF set_update_subset_insert])

lemma tx_send_cases:
  assumes K: "kernel_ok K" and c: "ctx_ok c" and wf: "skb_wf skb" and bs: "skb_bytes skb = Some bs"
    and dma: "length (x_tx_dma s) = MAX_TRANSMIT_QUEUES"
  obtains (fail) "tx_send K h c skb s = None" "\<not> kmem_ok K"
  | (queued) k m l q old d where
      "tx_send K h c skb s = Some (put_dev h (count_packet (c\<lparr>TxQInfos := (TxQInfos c)[tx_index c skb := q]\<rparr>))
         ((kst_after m l s)\<lparr>x_tx_dma := d\<rparr>))"
      "ulFreeBds (TxQInfos c ! tx_index c skb) \<noteq> 0" "queue_ok q"
      "tx_fifo q = tx_fifo (TxQInfos c ! tx_index c skb) @ [(k, tx_desc c k old)]" "length d = MAX_TRANSMIT_QUEUES"
      "kmem_ok K \<Longrightarrow> skb_bytes k = Some (tx_padded skb (tx_framed c bs))" "kmem_ok K \<Longrightarrow> sk_data k mod 4 = 0" "skb_wf k"
  | (full) k :: sk_buff and m l where
      "tx_send K h c skb s = Some (put_dev h (count_error c) (kst_after m (l @ [sk_at k]) s))"
      "ulFreeBds (TxQInfos c ! tx_index c skb) = 0"
proof -
  let ?i = "tx_index c skb"
  let ?q = "TxQInfos c ! ?i"
  have i: "?i < length (TxQInfos c)" using tx_index_less [OF c] ctx_okD(1) [OF c] by simp
  have q: "queue_ok ?q" using ctx_okD(2) [OF c] tx_index_less [OF c] by simp
  have idx: "(case tx_queue c skb of None \<Rightarrow> 0 | Some i \<Rightarrow> i) = ?i" by (simp add: tx_index_def)
  note ht = ctx_okD(5) [OF c]
  show ?thesis
  proof (rule tx_header_cases [OF K ht wf bs, of s], goal_cases)
    case (1 m l)
    then show ?thesis using fail by (simp add: tx_send_def)
  next
    case (2 k m l)
    obtain k2 m2 l2 where a: "tx_align K k (kst_after m l s) = Some (k2, kst_after m2 l2 (kst_after m l s))" "skb_wf k2"
      "skb_same k2 k" "skb_bytes k2 = skb_bytes k" "kmem_ok K \<Longrightarrow> sk_data k2 mod 4 = 0"
      by (rule tx_align_cases [OF K 2(2), of "kst_after m l s"]) (rule that)
    have b2: "skb_bytes k2 = Some (tx_framed c bs)" using a(4) 2(4) by simp
    have same: "skb_same k2 skb" using a(3) 2(3) by (rule skb_same_trans)
    show ?thesis
    proof (cases "ulFreeBds ?q = 0")
      case True
      show ?thesis
        by (rule full [where k = k2 and m = m2 and l = "l @ l2"])
          (use 2(1) a(1) i True in \<open>simp_all add: tx_send_def idx kst_after_fold count_error_def\<close>)
    next
      case False
      obtain k3 m3 l3 where p: "tx_pad K k2 (kst_after m2 (l @ l2) s) = Some (k3, kst_after m3 l3 (kst_after m2 (l @ l2) s))"
        "skb_wf k3" "skb_same k3 k2" "kmem_ok K \<Longrightarrow> skb_bytes k3 = Some (tx_padded k2 (tx_framed c bs))"
        "sk_data k2 mod 4 = 0 \<Longrightarrow> sk_data k3 mod 4 = 0"
        by (rule tx_pad_cases [OF K a(2) b2, of "kst_after m2 (l @ l2) s"]) (rule that)
      have ring: "tx_ring_ok ?q" using q by (simp add: queue_ok_def)
      obtain q' old where e: "tx_enqueue c k3 ?q = Some q'" "tx_ring_ok q'" "tx_fifo q' = tx_fifo ?q @ [(k3, tx_desc c k3 old)]"
        "ulQueueSize q' = ulQueueSize ?q" "pDma q' = pDma ?q" "ulDmaIndex q' = ulDmaIndex ?q"
        by (rule tx_enqueue_ok [OF ring False ht, of k3]) (rule that)
      have "ulQueueSize ?q \<noteq> 0" using False tx_ring_okD(3) [OF ring] by simp
      then have d: "pDma q' = Some (ulDmaIndex ?q)" "ulDmaIndex ?q < 16" and q': "queue_ok q'" using q e by (auto simp: queue_ok_def)
      show ?thesis
        by (rule queued [where q = q' and m = m3 and l = "l @ l2 @ l3" and k = k3 and old = old
              and d = "(x_tx_dma s)[ulDmaIndex ?q := (x_tx_dma s ! ulDmaIndex ?q)\<lparr>ch_cfg := DMA_ENABLE\<rparr>]"])
          (use 2(1) a p e(1-3) d q' i False dma skb_same_cell [OF same] in
           \<open>simp_all add: tx_send_def idx Let_def count_packet_def tx_padded_def\<close>)
    qed
  qed
qed

text \<open>A context after the completed packets are reclaimed.\<close>

definition tx_freed :: "dev_context \<Rightarrow> int list" where
  "tx_freed c = concat (map tx_done (take (ulTxQInfosSize c) (TxQInfos c)))"

definition tx_left :: "dev_context \<Rightarrow> nat \<Rightarrow> (sk_buff \<times> dma_desc) list" where
  "tx_left c i = (if i < ulTxQInfosSize c then dropWhile tx_complete (tx_fifo (TxQInfos c ! i)) else tx_fifo (TxQInfos c ! i))"

lemma tx_reclaim_ctx:
  assumes c: "ctx_ok c"
  obtains qs where "tx_reclaim_all (ulTxQInfosSize c) (TxQInfos c) [] = Some (qs, tx_freed c)"
    "ctx_ok (c\<lparr>TxQInfos := qs\<rparr>)" "\<forall>i<MAX_TRANSMIT_QUEUES. tx_fifo (qs ! i) = tx_left c i"
    "\<forall>i<MAX_TRANSMIT_QUEUES. ulQueueSize (qs ! i) = ulQueueSize (TxQInfos c ! i)"
proof -
  have ok: "\<forall>q\<in>set (TxQInfos c). tx_ring_ok q" and l: "ulTxQInfosSize c \<le> length (TxQInfos c)"
    using ctx_okD(1,3,4) [OF c] by (auto simp: queue_ok_def)
  obtain qs where qs: "tx_reclaim_all (ulTxQInfosSize c) (TxQInfos c) [] = Some (qs, [] @ tx_freed c)"
    "length qs = length (TxQInfos c)" "\<forall>q\<in>set qs. tx_ring_ok q"
    "\<forall>i<length (TxQInfos c). tx_fifo (qs ! i) =
       (if i < ulTxQInfosSize c then dropWhile tx_complete (tx_fifo (TxQInfos c ! i)) else tx_fifo (TxQInfos c ! i))"
    "\<forall>i<length (TxQInfos c). ulQueueSize (qs ! i) = ulQueueSize (TxQInfos c ! i) \<and> pDma (qs ! i) = pDma (TxQInfos c ! i) \<and>
       ulDmaIndex (qs ! i) = ulDmaIndex (TxQInfos c ! i)"
    by (rule tx_reclaim_all_ok [OF ok l, of "[]", folded tx_freed_def]) (rule that)
  note L = ctx_okD(1) [OF c]
  have "queue_ok q" if "q \<in> set qs" for q
  proof -
    have "\<exists>i<length qs. qs ! i = q" using that by (simp only: in_set_conv_nth)
    then obtain i where i: "i < 16" "q = qs ! i" using qs(2) L by auto
    have s: "ulQueueSize q = ulQueueSize (TxQInfos c ! i)" "pDma q = pDma (TxQInfos c ! i)" "ulDmaIndex q = ulDmaIndex (TxQInfos c ! i)"
      using qs(5) i L by auto
    have "queue_ok (TxQInfos c ! i)" "tx_ring_ok q" using ctx_okD(2) [OF c i(1)] qs(3) that by auto
    then show ?thesis unfolding queue_ok_def s by blast
  qed
  then have "ctx_ok (c\<lparr>TxQInfos := qs\<rparr>)" using c qs(2) by (simp add: ctx_ok_def)
  then show thesis using that [of qs] qs L by (simp add: tx_left_def)
qed

lemma tx_index_simps [simp]: "tx_index (c\<lparr>TxQInfos := qs\<rparr>) skb = tx_index c skb" "tx_framed (c\<lparr>TxQInfos := qs\<rparr>) bs = tx_framed c bs"
  "tx_desc (c\<lparr>TxQInfos := qs\<rparr>) k old = tx_desc c k old"
  by (simp_all add: tx_index_def tx_queue_def tx_framed_def tx_desc_def tx_status_def Let_def)

lemma tx_room:
  assumes "tx_ring_ok q" shows "ulFreeBds q = 0 \<longleftrightarrow> length (tx_fifo q) = ulQueueSize q"
  using tx_ring_okD(3) [OF assms] by (auto simp: tx_used_def)

lemma put_dev_simps [simp]:
  "x_devs (put_dev h c s) = (x_devs s)(h := Some c)" "x_tx_dma (put_dev h c s) = x_tx_dma s"
  "k_skb_freed (put_dev h c s) = k_skb_freed s" "x_calls (put_dev h c s) = x_calls s" "RxBdInfos (put_dev h c s) = RxBdInfos s"
  "pDevCtxs (put_dev h c s) = pDevCtxs s" "pDevCtxsByMatchId (put_dev h c s) = pDevCtxsByMatchId s"
  "x_rx_dma (put_dev h c s) = x_rx_dma s" "ulDrvState (put_dev h c s) = ulDrvState s" "k_freed (put_dev h c s) = k_freed s"
  "pFreeRxSkbList (put_dev h c s) = pFreeRxSkbList s" "x_mem (put_dev h c s) = x_mem s" "x_mac (put_dev h c s) = x_mac s"
  by (simp_all add: put_dev_def)

text \<open>What sending leaves alone.\<close>

definition tx_frame :: "int \<Rightarrow> xtm_state \<Rightarrow> xtm_state \<Rightarrow> bool" where
  "tx_frame h s s' \<longleftrightarrow>
     (\<forall>h'. h' \<noteq> h \<longrightarrow> x_devs s' h' = x_devs s h') \<and> x_calls s' = x_calls s \<and> RxBdInfos s' = RxBdInfos s \<and>
     pDevCtxs s' = pDevCtxs s \<and> pDevCtxsByMatchId s' = pDevCtxsByMatchId s \<and> x_rx_dma s' = x_rx_dma s \<and>
     ulDrvState s' = ulDrvState s \<and> k_freed s' = k_freed s \<and> pFreeRxSkbList s' = pFreeRxSkbList s \<and>
     x_mem s' = x_mem s \<and> x_mac s' = x_mac s \<and> length (x_tx_dma s') = length (x_tx_dma s)"

text \<open>The fields of a context that sending changes are its queues and its statistics.\<close>

definition tx_ctx :: "dev_context \<Rightarrow> dev_context \<Rightarrow> bool" where
  "tx_ctx c c' \<longleftrightarrow> (\<exists>qs st. c' = c\<lparr>TxQInfos := qs, DevStats := st\<rparr>)"

lemma tx_frame_refl [simp]: "tx_frame h s s"
  by (simp add: tx_frame_def)

lemma tx_frame_put [simp]: "tx_frame h s (put_dev h c s') = tx_frame h s s'" "tx_frame h s (kst_after m l s') = tx_frame h s s'"
  by (auto simp: tx_frame_def)

lemma tx_frame_dma: "length d = length (x_tx_dma s') \<Longrightarrow> tx_frame h s (s'\<lparr>x_tx_dma := d\<rparr>) = tx_frame h s s'"
  by (auto simp: tx_frame_def)

lemma tx_ctx_simps [simp]:
  "tx_ctx c c" "tx_ctx c (c\<lparr>TxQInfos := qs\<rparr>)" "tx_ctx c (count_packet (c\<lparr>TxQInfos := qs\<rparr>))"
  "tx_ctx c (count_error (c\<lparr>TxQInfos := qs\<rparr>))" "tx_ctx c (count_dropped (c\<lparr>TxQInfos := qs\<rparr>))"
proof -
  show "tx_ctx c (count_packet (c\<lparr>TxQInfos := qs\<rparr>))"
    unfolding tx_ctx_def count_packet_def by (rule exI [of _ qs], rule exI) (rule refl)
  show "tx_ctx c (count_error (c\<lparr>TxQInfos := qs\<rparr>))"
    unfolding tx_ctx_def count_error_def by (rule exI [of _ qs], rule exI) (rule refl)
  show "tx_ctx c (count_dropped (c\<lparr>TxQInfos := qs\<rparr>))"
    unfolding tx_ctx_def count_dropped_def by (rule exI [of _ qs], rule exI) (rule refl)
  have "c\<lparr>TxQInfos := qs\<rparr> = c\<lparr>TxQInfos := qs, DevStats := DevStats c\<rparr>" for qs by simp
  then show "tx_ctx c (c\<lparr>TxQInfos := qs\<rparr>)" unfolding tx_ctx_def by blast
  have "c = c\<lparr>TxQInfos := TxQInfos c, DevStats := DevStats c\<rparr>" by simp
  then show "tx_ctx c c" unfolding tx_ctx_def by metis
qed

lemma bcmxtmrt_xmit_None:
  assumes c: "x_devs s h = Some c" "ctx_ok c"
  obtains c' where "bcmxtmrt_xmit K None h s = Some (put_dev h c' (s\<lparr>k_skb_freed := k_skb_freed s @ tx_freed c\<rparr>))"
    "ctx_ok c'" "tx_ctx c c'" "\<forall>i<MAX_TRANSMIT_QUEUES. tx_fifo (TxQInfos c' ! i) = tx_left c i"
proof -
  obtain qs where qs: "tx_reclaim_all (ulTxQInfosSize c) (TxQInfos c) [] = Some (qs, tx_freed c)"
    "ctx_ok (c\<lparr>TxQInfos := qs\<rparr>)" "\<forall>i<MAX_TRANSMIT_QUEUES. tx_fifo (qs ! i) = tx_left c i"
    by (rule tx_reclaim_ctx [OF c(2)]) (rule that)
  show thesis by (rule that [of "c\<lparr>TxQInfos := qs\<rparr>"]) (use c qs in \<open>simp_all add: bcmxtmrt_xmit_def\<close>)
qed

lemma bcmxtmrt_xmit_cases:
  assumes K: "kernel_ok K" and c: "x_devs s h = Some c" "ctx_ok c" and wf: "skb_wf skb" and bs: "skb_bytes skb = Some bs"
    and dma: "length (x_tx_dma s) = MAX_TRANSMIT_QUEUES" and n: "ulTxQInfosSize c \<noteq> 0"
  obtains (fail) "bcmxtmrt_xmit K (Some skb) h s = None" "\<not> kmem_ok K"
  | (queued) s' c' k l old where "bcmxtmrt_xmit K (Some skb) h s = Some s'" "x_devs s' h = Some c'" "ctx_ok c'" "tx_ctx c c'"
      "tx_frame h s s'" "k_skb_freed s' = k_skb_freed s @ tx_freed c @ l"
      "length (tx_left c (tx_index c skb)) < ulQueueSize (TxQInfos c ! tx_index c skb)"
      "\<forall>i<MAX_TRANSMIT_QUEUES. tx_fifo (TxQInfos c' ! i) =
         (if i = tx_index c skb then tx_left c i @ [(k, tx_desc c k old)] else tx_left c i)"
      "kmem_ok K \<Longrightarrow> skb_bytes k = Some (tx_padded skb (tx_framed c bs))" "kmem_ok K \<Longrightarrow> sk_data k mod 4 = 0" "skb_wf k"
      "DevStats c' = DevStats (count_packet c)"
  | (full) s' c' l and k :: sk_buff where "bcmxtmrt_xmit K (Some skb) h s = Some s'" "x_devs s' h = Some c'" "ctx_ok c'" "tx_ctx c c'"
      "tx_frame h s s'" "k_skb_freed s' = k_skb_freed s @ tx_freed c @ l @ [sk_at k]"
      "length (tx_left c (tx_index c skb)) = ulQueueSize (TxQInfos c ! tx_index c skb)"
      "\<forall>i<MAX_TRANSMIT_QUEUES. tx_fifo (TxQInfos c' ! i) = tx_left c i" "DevStats c' = DevStats (count_error c)"
proof -
  let ?i = "tx_index c skb"
  have i: "?i < 16" by (rule tx_index_less [OF c(2)])
  obtain qs where qs: "tx_reclaim_all (ulTxQInfosSize c) (TxQInfos c) [] = Some (qs, tx_freed c)"
    "ctx_ok (c\<lparr>TxQInfos := qs\<rparr>)" "\<forall>i<MAX_TRANSMIT_QUEUES. tx_fifo (qs ! i) = tx_left c i"
    "\<forall>i<MAX_TRANSMIT_QUEUES. ulQueueSize (qs ! i) = ulQueueSize (TxQInfos c ! i)"
    by (rule tx_reclaim_ctx [OF c(2)]) (rule that)
  define s1 where "s1 = put_dev h (c\<lparr>TxQInfos := qs\<rparr>) (s\<lparr>k_skb_freed := k_skb_freed s @ tx_freed c\<rparr>)"
  have x: "bcmxtmrt_xmit K (Some skb) h s = tx_send K h (c\<lparr>TxQInfos := qs\<rparr>) skb s1"
    using c(1) qs(1) n by (simp add: bcmxtmrt_xmit_def s1_def Let_def)
  have L: "length qs = 16" using ctx_okD(1) [OF qs(2)] by simp
  have dma1: "length (x_tx_dma s1) = 16" using dma by (simp add: s1_def)
  have fr: "tx_frame h s s1" "k_skb_freed s1 = k_skb_freed s @ tx_freed c" by (auto simp: s1_def tx_frame_def)
  have room: "ulFreeBds (qs ! ?i) = 0 \<longleftrightarrow> length (tx_left c ?i) = ulQueueSize (TxQInfos c ! ?i)"
    "length (tx_left c ?i) \<le> ulQueueSize (TxQInfos c ! ?i)"
  proof -
    have r: "tx_ring_ok (qs ! ?i)" using ctx_okD(2) [OF qs(2) i] by (simp add: queue_ok_def)
    show "ulFreeBds (qs ! ?i) = 0 \<longleftrightarrow> length (tx_left c ?i) = ulQueueSize (TxQInfos c ! ?i)"
      using tx_room [OF r] qs(3,4) i by (simp del: length_tx_fifo)
    have "length (tx_fifo (qs ! ?i)) \<le> ulQueueSize (qs ! ?i)" by (simp add: tx_used_def)
    then show "length (tx_left c ?i) \<le> ulQueueSize (TxQInfos c ! ?i)" using qs(3,4) i by (simp del: length_tx_fifo)
  qed
  show ?thesis
  proof (rule tx_send_cases [OF K qs(2) wf bs dma1, of h], goal_cases)
    case 1
    then show ?thesis using fail x by simp
  next
    case (2 k m l q old d)
    define c1 where "c1 = count_packet (c\<lparr>TxQInfos := qs[?i := q]\<rparr>)"
    define s2 where "s2 = put_dev h c1 ((kst_after m l s1)\<lparr>x_tx_dma := d\<rparr>)"
    have r: "bcmxtmrt_xmit K (Some skb) h s = Some s2" using 2(1) x by (simp add: s2_def c1_def)
    have d: "x_devs s2 h = Some c1" by (simp add: s2_def)
    have "ctx_ok (c\<lparr>TxQInfos := qs[?i := q]\<rparr>)" using ctx_ok_update_queue [OF qs(2) 2(3), of ?i] by simp
    then have ok: "ctx_ok c1" by (simp add: c1_def)
    have cx: "tx_ctx c c1" by (simp add: c1_def)
    have f: "tx_frame h s s2" using fr(1) 2(5) dma1 by (simp add: s2_def tx_frame_dma)
    have kf: "k_skb_freed s2 = k_skb_freed s @ tx_freed c @ l" using fr(2) by (simp add: s2_def)
    have rm: "length (tx_left c ?i) < ulQueueSize (TxQInfos c ! ?i)" using room 2(2) by simp
    have q: "tx_fifo q = tx_left c ?i @ [(k, tx_desc c k old)]" using 2(4) qs(3) i by simp
    have "tx_fifo (TxQInfos c1 ! j) = (if j = ?i then tx_left c j @ [(k, tx_desc c k old)] else tx_left c j)" if "j < 16" for j
    proof (cases "j = ?i")
      case True
      then show ?thesis using L i q by (simp add: c1_def)
    next
      case False
      then show ?thesis using qs(3) that by (simp add: c1_def)
    qed
    then have ff: "\<forall>j<MAX_TRANSMIT_QUEUES. tx_fifo (TxQInfos c1 ! j) =
        (if j = ?i then tx_left c j @ [(k, tx_desc c k old)] else tx_left c j)" by blast
    have b: "skb_bytes k = Some (tx_padded skb (tx_framed c bs))" if "kmem_ok K" using 2(6) that by simp
    have st: "DevStats c1 = DevStats (count_packet c)" by (simp add: c1_def count_packet_def)
    show ?thesis by (rule queued [OF r d ok cx f kf rm ff b 2(7,8) st])
  next
    case (3 k m l)
    define c1 where "c1 = count_error (c\<lparr>TxQInfos := qs\<rparr>)"
    define s2 where "s2 = put_dev h c1 (kst_after m (l @ [sk_at k]) s1)"
    have r: "bcmxtmrt_xmit K (Some skb) h s = Some s2" using 3(1) x by (simp add: s2_def c1_def)
    have d: "x_devs s2 h = Some c1" by (simp add: s2_def)
    have ok: "ctx_ok c1" and cx: "tx_ctx c c1" using qs(2) by (simp_all add: c1_def)
    have f: "tx_frame h s s2" using fr(1) by (simp add: s2_def)
    have kf: "k_skb_freed s2 = k_skb_freed s @ tx_freed c @ l @ [sk_at k]" using fr(2) by (simp add: s2_def)
    have rm: "length (tx_left c ?i) = ulQueueSize (TxQInfos c ! ?i)" using room 3(2) by simp
    have ff: "\<forall>i<MAX_TRANSMIT_QUEUES. tx_fifo (TxQInfos c1 ! i) = tx_left c i" using qs(3) by (simp add: c1_def)
    have st: "DevStats c1 = DevStats (count_error c)" by (simp add: c1_def count_error_def)
    show ?thesis by (rule full [OF r d ok cx f kf rm ff st])
  qed
qed

end
