(* ===== verification/Xtm_Rx.thy ===== *)
theory Xtm_Rx
  imports Xtm_Tx
begin

text \<open>
  Receiving in the ATM/PTM network driver \<open>bcmxtmrt.c\<close>: the receive rings, the tasklet that empties
  them, received cells and the return of buffers from the network stack.  A receive ring is named by
  the index of its queue.  \<open>x_mem\<close> is the memory the DMA controller writes received data to.
  Writing ones to \<open>intStat\<close> acknowledges the interrupts, i.e. clears these bits.
\<close>

section \<open>Definitions\<close>

abbreviation (input) RXBUF_HEAD_RESERVE :: int where "RXBUF_HEAD_RESERVE \<equiv> 32"
abbreviation (input) FSTAT_MATCH_ID_MASK :: u16 where "FSTAT_MATCH_ID_MASK \<equiv> 0x7f"
abbreviation (input) FSTAT_PACKET_CELL_MASK :: u16 where "FSTAT_PACKET_CELL_MASK \<equiv> 0x400"
abbreviation (input) FSTAT_ERROR :: u16 where "FSTAT_ERROR \<equiv> 0x800"
abbreviation (input) CHDR_CT_MASK :: u8 where "CHDR_CT_MASK \<equiv> 0x0f"
abbreviation (input) CHDR_PORT_MASK :: u8 where "CHDR_PORT_MASK \<equiv> 0x60"
abbreviation (input) CHDR_ERROR :: u8 where "CHDR_ERROR \<equiv> 0x80"
abbreviation (input) CHDR_CT_OAM_F5_SEG :: u8 where "CHDR_CT_OAM_F5_SEG \<equiv> 4"
abbreviation (input) CHDR_CT_OAM_F5_E2E :: u8 where "CHDR_CT_OAM_F5_E2E \<equiv> 5"
abbreviation (input) CHDR_CT_ASM_P0 :: u8 where "CHDR_CT_ASM_P0 \<equiv> 8"
abbreviation (input) CHDR_CT_ASM_P3 :: u8 where "CHDR_CT_ASM_P3 \<equiv> 0xb"
abbreviation (input) CHDR_CT_OAM_F4_SEG :: u8 where "CHDR_CT_OAM_F4_SEG \<equiv> 0xc"
abbreviation (input) CHDR_CT_OAM_F4_E2E :: u8 where "CHDR_CT_OAM_F4_E2E \<equiv> 0xd"
abbreviation (input) CELL_SIZE :: nat where "CELL_SIZE \<equiv> 53"

text \<open>Addresses as the processor and as the DMA controller use them.\<close>

definition VIRT_TO_PHY :: "int \<Rightarrow> u32" where
  "VIRT_TO_PHY a = word_of_int a AND 0x1fffffff"

definition KSEG0ADDR :: "u32 \<Rightarrow> int" where
  "KSEG0ADDR p = uint ((p AND 0x1fffffff) OR 0x80000000)"

definition RXBUF_SIZE :: "kernel \<Rightarrow> int" where
  "RXBUF_SIZE K = SKB_DATA_ALIGN K (1518 + 10 + 8)"

definition RXBUF_ALLOC_SIZE :: "kernel \<Rightarrow> int" where
  "RXBUF_ALLOC_SIZE K = SKB_DATA_ALIGN K (RXBUF_HEAD_RESERVE + RXBUF_SIZE K + sizeof_skb_shared_info K)"

subsection \<open>The receive ring\<close>

definition put_ring :: "nat \<Rightarrow> rxbdinfo \<Rightarrow> xtm_state \<Rightarrow> xtm_state" where
  "put_ring i r s = s\<lparr>RxBdInfos := (RxBdInfos s)[i := Some r]\<rparr>"

definition dma_restart :: "nat \<Rightarrow> xtm_state \<Rightarrow> xtm_state option" where
  "dma_restart i s =
     do {
       c_assert (i < length (x_rx_dma s));
       let ch = x_rx_dma s ! i;
       Some (if ch_intStat ch AND DMA_NO_DESC \<noteq> 0
             then s\<lparr>x_rx_dma := (x_rx_dma s)[i := ch\<lparr>ch_intStat := ch_intStat ch AND NOT DMA_NO_DESC,
                                                   ch_cfg := DMA_ENABLE\<rparr>]\<rparr>
             else s)
     }"

definition AssignRxBuffer :: "kernel \<Rightarrow> nat \<Rightarrow> int \<Rightarrow> xtm_state \<Rightarrow> xtm_state option" where
  "AssignRxBuffer K i pucData s =
     do {
       c_assert (i < length (RxBdInfos s));
       r \<leftarrow> RxBdInfos s ! i;
       c_assert (pBdTail r < length (rx_bds r));
       let bd = rx_bds r ! pBdTail r;
       let usWrap = bd_status bd AND DMA_WRAP;
       let s =
         (if bd_address bd = 0 then
            put_ring i
              (r\<lparr>rx_bds := (rx_bds r)[pBdTail r :=
                   \<lparr>bd_length = word_of_int (RXBUF_SIZE K), bd_status = usWrap OR DMA_OWN,
                    bd_address = VIRT_TO_PHY (pucData + RXBUF_HEAD_RESERVE)\<rparr>],
                 pBdTail := (if usWrap \<noteq> 0 then 0 else Suc (pBdTail r))\<rparr>) s
          else x_call (No_place i) s);
       dma_restart i s
     }"

text \<open>
  The callback of \<open>kfree_skb\<close>: the header of a socket buffer or its data, whose buffer starts at
  \<open>head\<close>.
\<close>

definition bcmxtmrt_freeskbordata :: "kernel \<Rightarrow> nat \<Rightarrow> int \<Rightarrow> int \<Rightarrow> bool \<Rightarrow> xtm_state \<Rightarrow> xtm_state option" where
  "bcmxtmrt_freeskbordata K i skb head retfreeq_skb s =
     (if retfreeq_skb then Some (s\<lparr>pFreeRxSkbList := skb # pFreeRxSkbList s\<rparr>)
      else AssignRxBuffer K i head s)"

subsection \<open>Cells\<close>

definition PORT_TO_PORTID :: "u8 \<Rightarrow> u32" where
  "PORT_TO_PORTID p = push_bit (unat p) 1"

definition ucCts :: "u8 list" where
  "ucCts = [0, 0, 0, 0, 0, 1, 0, 0, 4, 5, 6, 7, 2, 3]"

text \<open>
  The address of a cell: \<open>b0\<close> to \<open>b3\<close> are the bytes of its ATM header.  The
  cast to 16 bits in the second expression applies to the sum and not to the shifted sum.
\<close>

definition cell_vpi :: "u8 \<Rightarrow> u8 \<Rightarrow> u16" where
  "cell_vpi b0 b1 = drop_bit 4 (push_bit 8 (ucast b0) + ucast b1)"

definition cell_vci :: "u8 \<Rightarrow> u8 \<Rightarrow> u8 \<Rightarrow> u16" where
  "cell_vci b1 b2 b3 =
     drop_bit 4 (ucast (push_bit 16 (ucast (b1 AND 0x0f)) + push_bit 8 (ucast b2) + ucast b3 :: u32))"

definition rx_cell :: "xtm_addr \<Rightarrow> (nat \<Rightarrow> u8) \<Rightarrow> (u8 \<times> xtm_cell) option" where
  "rx_cell addr p =
     do {
       let ucCHdr = p 0;
       let addr = addr\<lparr>ulPortMask := PORT_TO_PORTID (drop_bit 5 (ucCHdr AND CHDR_PORT_MASK)),
                       usVpi := cell_vpi (p 1) (p 2), usVci := cell_vci (p 2) (p 3) (p 4)\<rparr>;
       let ucCHdr = (if usVci addr = 3 then CHDR_CT_OAM_F4_SEG
                     else if usVci addr = 4 then CHDR_CT_OAM_F4_E2E else ucCHdr);
       c_assert (unat (ucCHdr AND CHDR_CT_MASK) < length ucCts);
       Some (ucCHdr, \<lparr>ConnAddr = addr, ucCircuitType = ucCts ! unat (ucCHdr AND CHDR_CT_MASK),
                      ucData = map (\<lambda>k. p (Suc k)) [0..<CELL_SIZE]\<rparr>)
     }"

definition cell_is_oam :: "u8 \<Rightarrow> bool" where
  "cell_is_oam ct \<longleftrightarrow>
     ct = CHDR_CT_OAM_F5_SEG \<or> ct = CHDR_CT_OAM_F5_E2E \<or> ct = CHDR_CT_OAM_F4_SEG \<or> ct = CHDR_CT_OAM_F4_E2E"

definition cell_is_asm :: "u8 \<Rightarrow> bool" where
  "cell_is_asm ct \<longleftrightarrow> CHDR_CT_ASM_P0 \<le> ct \<and> ct \<le> CHDR_CT_ASM_P3"

definition rx_error :: "int \<Rightarrow> xtm_state \<Rightarrow> xtm_state" where
  "rx_error h s =
     s\<lparr>x_devs := (x_devs s)(h := map_option (\<lambda>c. c\<lparr>DevStats := (DevStats c)\<lparr>rx_errors := rx_errors (DevStats c) + 1\<rparr>\<rparr>)
                                         (x_devs s h))\<rparr>"

definition ProcessRxCell :: "kernel \<Rightarrow> int \<Rightarrow> nat \<Rightarrow> int \<Rightarrow> xtm_state \<Rightarrow> xtm_state option" where
  "ProcessRxCell K h i pucData s =
     do {
       c \<leftarrow> x_devs s h;
       (ucCHdr, cell) \<leftarrow> rx_cell (Addr c) (\<lambda>k. x_mem s (pucData + int k));
       let s =
         (if ucCHdr AND CHDR_ERROR = 0 then
            (if cell_is_oam (ucCHdr AND CHDR_CT_MASK) then
               (if pfnOamHandler s \<noteq> 0 then x_call (Cell_received (pfnOamHandler s) h cell (pOamContext s)) s else s)
             else if cell_is_asm (ucCHdr AND CHDR_CT_MASK) then
               (if pfnAsmHandler s \<noteq> 0 then x_call (Cell_received (pfnAsmHandler s) h cell (pAsmContext s)) s else s)
             else s)
          else rx_error h s);
       AssignRxBuffer K i (pucData - RXBUF_HEAD_RESERVE) s
     }"

subsection \<open>The tasklet\<close>

text \<open>A packet: its length, and what the network stack is given.\<close>

definition rx_length :: "dev_context \<Rightarrow> u16 \<Rightarrow> u16" where
  "rx_length c len =
     (let len = (if ulTrafficType (Addr c) = TRAFFIC_TYPE_PTM \<and> len \<noteq> 0 then len - 4 else len)
      in if len < 60 then 60 else len)"

definition rx_deliver :: "int \<Rightarrow> nat \<Rightarrow> int \<Rightarrow> u16 \<Rightarrow> dev_context \<Rightarrow> xtm_state \<Rightarrow> xtm_state option" where
  "rx_deliver h i pucData len c s =
     (case pFreeRxSkbList s of
        [] \<Rightarrow> None
      | skb # rest \<Rightarrow>
          do {
            hdr \<leftarrow>
              (if ulFlags c AND CNI_HW_ADD_REMOVE_HEADER = 0 then
                 do { c_assert (unat (ulHdrType c) < length ulHdrLens); Some (int (ulHdrLens ! unat (ulHdrType c))) }
               else Some 0);
            Some (x_call
              (Netif_rx
                 \<lparr>rp_skb = skb, rp_dev = h, rp_ring = i, rp_head = pucData - RXBUF_HEAD_RESERVE,
                  rp_data = pucData + hdr, rp_len = uint len - hdr,
                  rp_kind = (if ulHdrType c = HT_LLC_SNAP_ROUTE_IP then RX_IP
                             else if ulHdrType c = HT_LLC_ENCAPS_PPP then RX_PPP else RX_ETHERNET)\<rparr>)
              (s\<lparr>pFreeRxSkbList := rest\<rparr>))
          })"

text \<open>One turn of the loop over the receive queues; the result says whether a buffer was taken.\<close>

definition rx_service :: "kernel \<Rightarrow> nat \<Rightarrow> xtm_state \<Rightarrow> (bool \<times> xtm_state) option" where
  "rx_service K i s =
     do {
       c_assert (i < length (RxBdInfos s));
       (case RxBdInfos s ! i of
          None \<Rightarrow> Some (False, s)
        | Some r \<Rightarrow>
            do {
              c_assert (pBdHead r < length (rx_bds r));
              let bd = rx_bds r ! pBdHead r;
              if bd_status bd AND DMA_OWN = 0 \<and> bd_address bd \<noteq> 0 then
                do {
                  let pucData = KSEG0ADDR (bd_address bd);
                  let usStatus = bd_status bd;
                  let h = pDevCtxsByMatchId s ! unat (usStatus AND FSTAT_MATCH_ID_MASK);
                  let packet = (h \<noteq> 0 \<and> usStatus AND FSTAT_ERROR = 0 \<and> usStatus AND FSTAT_PACKET_CELL_MASK = 0);
                  c \<leftarrow> (if packet then map_option Some (x_devs s h) else Some None);
                  let len = (case c of None \<Rightarrow> bd_length bd | Some c \<Rightarrow> rx_length c (bd_length bd));
                  let s = put_ring i
                    (r\<lparr>rx_bds := (rx_bds r)[pBdHead r :=
                         \<lparr>bd_length = len, bd_status = usStatus AND DMA_WRAP, bd_address = 0\<rparr>],
                       pBdHead := (if usStatus AND DMA_WRAP \<noteq> 0 then 0 else Suc (pBdHead r))\<rparr>) s;
                  s \<leftarrow>
                    (if h \<noteq> 0 \<and> usStatus AND FSTAT_ERROR = 0 then
                       (case c of
                          Some c \<Rightarrow> rx_deliver h i pucData len c s
                        | None \<Rightarrow> ProcessRxCell K h i pucData s)
                     else
                       do {
                         s \<leftarrow> AssignRxBuffer K i (pucData - RXBUF_HEAD_RESERVE) s;
                         if h \<noteq> 0 then do { c_assert (x_devs s h \<noteq> None); Some (rx_error h s) } else Some s
                       });
                  Some (True, s)
                }
              else Some (False, s)
            })
     }"

fun rx_round :: "kernel \<Rightarrow> nat list \<Rightarrow> bool \<Rightarrow> xtm_state \<Rightarrow> (bool \<times> xtm_state) option" where
  "rx_round K [] ulMoreToReceive s = Some (ulMoreToReceive, s)"
| "rx_round K (i # is) ulMoreToReceive s =
     do { (b, s) \<leftarrow> rx_service K i s; rx_round K is (ulMoreToReceive \<or> b) s }"

partial_function (option) rx_loop :: "kernel \<Rightarrow> xtm_state \<Rightarrow> xtm_state option" where
  "rx_loop K s =
     do {
       (ulMoreToReceive, s) \<leftarrow> rx_round K [0..<MAX_RECEIVE_QUEUES] False s;
       if ulMoreToReceive then rx_loop K s else Some s
     }"

fun rx_interrupts :: "nat \<Rightarrow> nat \<Rightarrow> u32 \<Rightarrow> xtm_state \<Rightarrow> xtm_state" where
  "rx_interrupts 0 i ulMask s = s"
| "rx_interrupts (Suc n) i ulMask s =
     (if ulMask = 0 then s
      else rx_interrupts n (Suc i) (drop_bit 1 ulMask)
             (if ulMask AND 1 = 1 then x_call (Interrupt_enable i) s else s))"

definition bcmxtmrt_rxtasklet :: "kernel \<Rightarrow> xtm_state \<Rightarrow> xtm_state option" where
  "bcmxtmrt_rxtasklet K s =
     do {
       s \<leftarrow> rx_loop K s;
       Some (rx_interrupts MAX_RECEIVE_QUEUES 0 (ulIntEnableMask s) (s\<lparr>ulIntEnableMask := 0\<rparr>))
     }"

definition bcmxtmrt_rxisr :: "nat \<Rightarrow> xtm_state \<Rightarrow> xtm_state option" where
  "bcmxtmrt_rxisr i s =
     do {
       c_assert (i < length (x_rx_dma s));
       let ch = x_rx_dma s ! i;
       Some (x_call Tasklet_schedule
               (s\<lparr>x_rx_dma := (x_rx_dma s)[i := ch\<lparr>ch_intStat := ch_intStat ch AND NOT DMA_DONE\<rparr>],
                  ulIntEnableMask := ulIntEnableMask s OR push_bit i 1\<rparr>))
     }"

end
