(* ===== verification/Xtm_Request.thy ===== *)
theory Xtm_Request
  imports Xtm_Rx
begin

text \<open>
  The entry points of the ATM/PTM network driver \<open>bcmxtmrt.c\<close>: the requests of the configuration
  driver (\<open>bcmxtmrt_request\<close>), the operations of a network device and the timer.  The result of
  \<open>register_netdev\<close> is an argument.
\<close>

section \<open>Definitions\<close>

abbreviation (input) EPERM :: int where "EPERM \<equiv> 1"
abbreviation (input) EIO :: int where "EIO \<equiv> 5"
abbreviation (input) ENOMEM :: int where "ENOMEM \<equiv> 12"
abbreviation (input) EFAULT :: int where "EFAULT \<equiv> 14"
abbreviation (input) EEXIST :: int where "EEXIST \<equiv> 17"
abbreviation (input) EOPNOTSUPP :: int where "EOPNOTSUPP \<equiv> 122"
abbreviation (input) MAX_BUFMEM_BLOCKS :: nat where "MAX_BUFMEM_BLOCKS \<equiv> 16"
abbreviation (input) MAX_VCIDS :: nat where "MAX_VCIDS \<equiv> 16"
abbreviation (input) CELL_PAYLOAD_SIZE :: nat where "CELL_PAYLOAD_SIZE \<equiv> 48"
abbreviation (input) CELL_HDLR_OAM :: u32 where "CELL_HDLR_OAM \<equiv> 1"
abbreviation (input) CELL_HDLR_ASM :: u32 where "CELL_HDLR_ASM \<equiv> 2"

definition bcmxtmrt_init :: "xtm_state \<Rightarrow> xtm_state" where
  "bcmxtmrt_init s =
     s\<lparr>pDevCtxs := replicate MAX_DEV_CTXS 0, pDevCtxsByMatchId := replicate MAX_MATCH_IDS 0,
       pRxBdMem := 0, RxBdInfos := replicate MAX_RECEIVE_QUEUES None, pRxSkbMem := 0, pFreeRxSkbList := [],
       pBufMem := replicate MAX_BUFMEM_BLOCKS 0, ulIntEnableMask := 0, pfnOamHandler := 0, pOamContext := 0,
       pfnAsmHandler := 0, pAsmContext := 0, ulDrvState := XTMRT_UNINITIALIZED\<rparr>"

subsection \<open>Initialization\<close>

definition SKB_ALIGNED_SIZE :: "kernel \<Rightarrow> int" where
  "SKB_ALIGNED_SIZE K = round_up 16 (sizeof_sk_buff K)"

text \<open>
  The addresses of the \<open>n\<close> socket buffers of the block, chained so that the last one is first.
\<close>

definition rx_skb_chain :: "kernel \<Rightarrow> int \<Rightarrow> nat \<Rightarrow> int list" where
  "rx_skb_chain K p n = rev (map (\<lambda>k. round_up 16 p + int k * SKB_ALIGNED_SIZE K) [0..<n])"

definition rx_block_bds :: "kernel \<Rightarrow> int \<Rightarrow> nat \<Rightarrow> dma_desc list" where
  "rx_block_bds K p n =
     map (\<lambda>k. \<lparr>bd_length = word_of_int (RXBUF_SIZE K), bd_status = DMA_OWN,
               bd_address = VIRT_TO_PHY (round_up 16 p + int k * RXBUF_ALLOC_SIZE K + RXBUF_HEAD_RESERVE)\<rparr>) [0..<n]"

text \<open>
  The data buffers: \<open>n\<close> are still to be allocated, \<open>j\<close> blocks are there and
  \<open>bds\<close> are the descriptors filled so far.  After a failure the descriptors are given back
  and \<open>pRxBdMem\<close> is null, but the loop goes on; filling a descriptor then has no value.
\<close>

partial_function (option) rx_buf_loop ::
  "kernel \<Rightarrow> nat \<Rightarrow> nat \<Rightarrow> dma_desc list \<Rightarrow> int \<Rightarrow> xtm_state \<Rightarrow> (int \<times> dma_desc list \<times> xtm_state) option" where
  "rx_buf_loop K n j bds nRet s =
     (if n = 0 then Some (nRet, bds, s)
      else
        let ulBufsPerBlock = nat (64 * 1024 div RXBUF_ALLOC_SIZE K);
            ulAllocAmt = (if ulBufsPerBlock < n then ulBufsPerBlock else n) in
        (case kmalloc K (int ulAllocAmt * RXBUF_ALLOC_SIZE K) s of
           (Some (p, _), s) \<Rightarrow>
             do {
               c_assert (j < length (pBufMem s) \<and> pRxBdMem s \<noteq> 0);
               rx_buf_loop K (n - ulAllocAmt) (Suc j) (bds @ rx_block_bds K p ulAllocAmt) nRet
                 (s\<lparr>pBufMem := (pBufMem s)[j := p]\<rparr>)
             }
         | (None, s) \<Rightarrow>
             rx_buf_loop K n j bds (- ENOMEM)
               ((kfree (pRxBdMem s) (fold kfree (pBufMem s) s))
                  \<lparr>pBufMem := replicate (length (pBufMem s)) 0, pRxBdMem := 0\<rparr>)))"

text \<open>The rings of the queues in consecutive descriptors, the last one of each marked.\<close>

definition rx_ring :: "int \<Rightarrow> dma_desc list \<Rightarrow> rxbdinfo" where
  "rx_ring base bds =
     \<lparr>pBdBase = base, rx_bds = bds[length bds - 1 := (last bds)\<lparr>bd_status := bd_status (last bds) OR DMA_WRAP\<rparr>],
      pBdHead = 0, pBdTail = 0\<rparr>"

fun rx_rings :: "nat list \<Rightarrow> int \<Rightarrow> dma_desc list \<Rightarrow> rxbdinfo option list" where
  "rx_rings [] base bds = []"
| "rx_rings (n # ns) base bds =
     (if n = 0 then None # rx_rings ns base bds
      else Some (rx_ring base (take n bds)) # rx_rings ns (base + 8 * int n) (drop n bds))"

definition rx_channel :: "nat \<Rightarrow> dma_channel \<Rightarrow> dma_channel" where
  "rx_channel n ch =
     (if n = 0 then ch\<lparr>ch_cfg := 0\<rparr>
      else \<lparr>ch_cfg = 0, ch_intStat = ch_intStat ch AND NOT (DMA_DONE OR DMA_NO_DESC OR DMA_BUFF_DONE),
            ch_intMask = DMA_DONE, ch_maxBurst = SAR_DMA_MAX_BURST_LENGTH\<rparr>)"

definition init_calls :: "nat list \<Rightarrow> xcall list" where
  "init_calls sizes =
     concat (map (\<lambda>i. Interrupt_disable i # (if sizes ! i = 0 then [] else [Map_interrupt i])) [0..<MAX_RECEIVE_QUEUES])
     @ map (\<lambda>i. Interrupt_disable (4 + i)) [0..<MAX_TRANSMIT_QUEUES]"

definition init_dma :: "nat list \<Rightarrow> int \<Rightarrow> dma_desc list \<Rightarrow> xtm_state \<Rightarrow> xtm_state" where
  "init_dma sizes base bds s =
     s\<lparr>RxBdInfos := rx_rings sizes base bds,
       x_rx_dma := map2 rx_channel sizes (x_rx_dma s),
       x_rx_base := map (\<lambda>r. case r of None \<Rightarrow> 0 | Some r \<Rightarrow> uint (VIRT_TO_PHY (pBdBase r))) (rx_rings sizes base bds),
       x_controller := x_controller s OR 1,
       x_tx_base := map (\<lambda>_. 0) (x_tx_base s),
       x_tx_dma := map (\<lambda>ch. ch\<lparr>ch_cfg := 0\<rparr>) (x_tx_dma s),
       x_calls := x_calls s @ init_calls sizes,
       ulDrvState := XTMRT_INITIALIZED\<rparr>"

definition DoGlobInitReq :: "kernel \<Rightarrow> nat list \<Rightarrow> xtm_state \<Rightarrow> (int \<times> xtm_state) option" where
  "DoGlobInitReq K sizes s =
     do {
       let n = nat (u32 (int (sum_list sizes)));
       let nRet = (if ulDrvState s \<noteq> XTMRT_UNINITIALIZED then - EPERM else 0);
       let (nRet, s) =
         (if nRet = 0 then
            (case kmalloc K (u32 (int n * SKB_ALIGNED_SIZE K)) s of
               (None, s) \<Rightarrow> (- ENOMEM, s\<lparr>pRxSkbMem := 0\<rparr>)
             | (Some (p, _), s) \<Rightarrow>
                 (0, s\<lparr>pRxSkbMem := p, pFreeRxSkbList := rx_skb_chain K p n @ pFreeRxSkbList s\<rparr>))
          else (- ENOMEM, s));
       let (nRet, s) =
         (if nRet = 0 then
            (case kmalloc K (u32 (int n * 8 + 16)) s of
               (None, s) \<Rightarrow> (- ENOMEM, (kfree (pRxSkbMem s) s)\<lparr>pRxSkbMem := 0, pRxBdMem := 0\<rparr>)
             | (Some (p, _), s) \<Rightarrow> (0, s\<lparr>pRxBdMem := p\<rparr>))
          else (- ENOMEM, (kfree (pRxSkbMem s) s)\<lparr>pRxSkbMem := 0\<rparr>));
       let base = round_up 16 (pRxBdMem s);
       (nRet, bds, s) \<leftarrow> (if nRet = 0 then rx_buf_loop K n 0 [] 0 s else Some (nRet, [], s));
       Some (nRet, if nRet = 0 then init_dma sizes base bds s else s)
     }"

subsection \<open>Network devices\<close>

record create_device =
  cd_ConnAddr :: xtm_addr
  cd_ulHeaderType :: u32
  cd_ulFlags :: u32

text \<open>
  \<open>alloc_netdev\<close> aligns the device and its private area, the context, to 32 bytes.  The new
  \<open>net_device\<close> is zero except for the flags of \<open>ether_setup\<close>; its
  \<open>ifindex\<close> is given by \<open>register_netdev\<close> and still 0.
\<close>

definition netdev_priv :: "kernel \<Rightarrow> int \<Rightarrow> int" where
  "netdev_priv K p = round_up 32 p + round_up 32 (sizeof_net_device K)"

definition device_mac :: "mac_info option \<Rightarrow> u32 \<Rightarrow> (bytes \<times> mac_info option) option" where
  "device_mac g ifindex =
     do {
       (_, a, g) \<leftarrow> kerSysGetMacAddress g [0xff, 0, 0, 0, 0, 0] (ifindex OR 0x10000000);
       Some (if a ! 0 AND 1 = 1 then [0x02, 0x10, 0x18, 0x02, 0x00, 0x01] else a, g)
     }"

definition new_context :: "create_device \<Rightarrow> int \<Rightarrow> bytes \<Rightarrow> dev_context" where
  "new_context cnd p a =
     \<lparr>dev_block = p, dev_addr = a,
      dev_flags = (if cd_ulHeaderType cnd = HT_LLC_SNAP_ROUTE_IP then 0x1090
                   else if cd_ulHeaderType cnd = HT_LLC_ENCAPS_PPP then 0x1002 else 0),
      DevStats = stats_zero, ulIfLastChange = 0, ulIfSpeed = 0, Addr = cd_ConnAddr cnd, ulLinkState = 0,
      ulOpenState = 0, ulAdminStatus = ADMSTS_UP, ulHdrType = cd_ulHeaderType cnd, ulFlags = cd_ulFlags cnd,
      pTxQMem = 0, ucTxVcid = INVALID_VCID, ulTxQInfosSize = 0,
      TxQInfos = replicate MAX_TRANSMIT_QUEUES txq_zero,
      pTxPriorities = replicate MAX_PHY_PORTS (replicate MAX_SUB_PRIORITIES None)\<rparr>"

fun first_free :: "int list \<Rightarrow> int \<Rightarrow> int list" where
  "first_free [] h = []"
| "first_free (x # xs) h = (if x = 0 then h # xs else x # first_free xs h)"

text \<open>The result has the handle \<open>hDev\<close> of a new device.\<close>

definition DoCreateDeviceReq ::
  "kernel \<Rightarrow> int \<Rightarrow> create_device \<Rightarrow> xtm_state \<Rightarrow> (int \<times> int option \<times> xtm_state) option" where
  "DoCreateDeviceReq K register cnd s =
     (if ulDrvState s = XTMRT_UNINITIALIZED then Some (- ENOMEM, None, s)
      else
        (case kmalloc K (round_up 32 (sizeof_net_device K) + sizeof_dev_context K + 31) s of
           (None, s) \<Rightarrow> Some (- ENOMEM, None, s)
         | (Some (p, _), s) \<Rightarrow>
             do {
               let h = netdev_priv K p;
               (a, g) \<leftarrow> device_mac (x_mac s) 0;
               let s = s\<lparr>x_mac := g\<rparr>;
               Some
                 (if register = 0
                  then (0, Some h, put_dev h (new_context cnd p a) (s\<lparr>pDevCtxs := first_free (pDevCtxs s) h\<rparr>))
                  else (register, None, kfree h (kfree p s)))
             }))"

definition clear_match :: "int \<Rightarrow> int list \<Rightarrow> int list" where
  "clear_match h ids = map (\<lambda>x. if x = h then 0 else x) ids"

fun remove_first :: "int list \<Rightarrow> int \<Rightarrow> int list" where
  "remove_first [] h = []"
| "remove_first (x # xs) h = (if x = h then 0 # xs else x # remove_first xs h)"

definition DoDeleteDeviceReq :: "int \<Rightarrow> xtm_state \<Rightarrow> (int \<times> xtm_state) option" where
  "DoDeleteDeviceReq h s =
     do {
       (nRet, s) \<leftarrow>
         (if h \<in> set (pDevCtxs s) then
            do {
              c \<leftarrow> x_devs s h;
              (_, g) \<leftarrow> kerSysReleaseMacAddress (x_mac s) (dev_addr c);
              let s = x_call (Unregister_netdev h) (s\<lparr>pDevCtxs := remove_first (pDevCtxs s) h, x_mac := g\<rparr>);
              Some (0, (kfree h (kfree (dev_block c) s))\<lparr>x_devs := (x_devs s)(h := None)\<rparr>)
            }
          else Some (- EPERM, s));
       Some (nRet, s\<lparr>pDevCtxsByMatchId := clear_match h (pDevCtxsByMatchId s)\<rparr>)
     }"

definition bcmxtmrt_open :: "int \<Rightarrow> xtm_state \<Rightarrow> (int \<times> xtm_state) option" where
  "bcmxtmrt_open h s =
     do {
       c \<leftarrow> x_devs s h;
       let up = (ulAdminStatus c = ADMSTS_UP);
       Some (if up then 0 else - EIO,
             x_call (Netif_start_queue h) (if up then put_dev h (c\<lparr>ulOpenState := XTMRT_DEV_OPENED\<rparr>) s else s))
     }"

definition bcmxtmrt_close :: "int \<Rightarrow> xtm_state \<Rightarrow> (int \<times> xtm_state) option" where
  "bcmxtmrt_close h s =
     do {
       c \<leftarrow> x_devs s h;
       Some (0, x_call (Netif_stop_queue h) (put_dev h (c\<lparr>ulOpenState := XTMRT_DEV_CLOSED\<rparr>) s))
     }"

definition bcmxtmrt_timeout :: "int \<Rightarrow> xtm_state \<Rightarrow> xtm_state" where
  "bcmxtmrt_timeout h s = x_call (Netif_wake_queue h) s"

text \<open>
  The MIB registers are hardware: \<open>tx_octets\<close> is indexed by the transmit id, the counters
  behind the match register by the receive id.
\<close>

definition bcmxtmrt_query ::
  "(nat \<Rightarrow> u32) \<Rightarrow> (nat \<Rightarrow> u32) \<Rightarrow> (nat \<Rightarrow> u32) \<Rightarrow> int \<Rightarrow> xtm_state \<Rightarrow> (dev_stats \<times> xtm_state) option" where
  "bcmxtmrt_query tx_octets rx_octets rx_pkts h s =
     do {
       c \<leftarrow> x_devs s h;
       let st = DevStats c;
       let st = (if ulTrafficType (Addr c) = TRAFFIC_TYPE_ATM \<and> ucTxVcid c \<noteq> INVALID_VCID
                 then st\<lparr>tx_bytes := tx_bytes st + tx_octets (unat (ucTxVcid c))\<rparr> else st);
       let ids = filter (\<lambda>i. pDevCtxsByMatchId s ! i = h) [0..<MAX_MATCH_IDS];
       let st = st\<lparr>rx_bytes := rx_bytes st + sum_list (map rx_octets ids),
                  rx_packets := rx_packets st + sum_list (map rx_pkts ids)\<rparr>;
       Some (st, put_dev h (c\<lparr>DevStats := st\<rparr>) s)
     }"

datatype xtm_ioctl =
    SIOCGLINKSTATE
  | SIOCSCLEARMIBCNTR
  | SIOCMIBINFO
  | SIOCETHTOOL "u32 option"
  | SIOC_OTHER

datatype ioctl_out = Out_int int | Out_mib u32 u32 | Out_drvinfo string string | Out_speed u32

abbreviation (input) ETHTOOL_GSET :: u32 where "ETHTOOL_GSET \<equiv> 1"
abbreviation (input) ETHTOOL_GDRVINFO :: u32 where "ETHTOOL_GDRVINFO \<equiv> 3"

text \<open>
  \<open>copy\<close> says whether the copy to user space succeeds; the output is what is copied.  The
  command of \<open>SIOCETHTOOL\<close> is read from user space, which may fail.
\<close>

definition bcmxtmrt_ethtool_ioctl :: "bool \<Rightarrow> dev_context \<Rightarrow> u32 option \<Rightarrow> int \<times> ioctl_out option" where
  "bcmxtmrt_ethtool_ioctl copy c ethcmd =
     (case ethcmd of
        None \<Rightarrow> (- EFAULT, None)
      | Some ethcmd \<Rightarrow>
          (if ethcmd = ETHTOOL_GDRVINFO then
             (if copy then (0, Some (Out_drvinfo ''bcmxtmrt'' ''0.1'')) else (- EFAULT, None))
           else if ethcmd = ETHTOOL_GSET then
             (if copy then (0, Some (Out_speed (ulIfSpeed c div (1024 * 1024)))) else (- EFAULT, None))
           else (- EOPNOTSUPP, None)))"

definition bcmxtmrt_ioctl :: "bool \<Rightarrow> int \<Rightarrow> xtm_ioctl \<Rightarrow> xtm_state \<Rightarrow> (int \<times> ioctl_out option \<times> xtm_state) option" where
  "bcmxtmrt_ioctl copy h nCmd s =
     do {
       c \<leftarrow> x_devs s h;
       Some
         (case nCmd of
            SIOCGLINKSTATE \<Rightarrow>
              (if copy then (0, Some (Out_int (if ulLinkState c = LINK_UP then 1 else 0)), s) else (- EFAULT, None, s))
          | SIOCSCLEARMIBCNTR \<Rightarrow> (0, None, put_dev h (c\<lparr>DevStats := stats_zero\<rparr>) s)
          | SIOCMIBINFO \<Rightarrow>
              (if copy then (0, Some (Out_mib (ulIfLastChange c) (ulIfSpeed c)), s) else (- EFAULT, None, s))
          | SIOCETHTOOL ethcmd \<Rightarrow>
              (case bcmxtmrt_ethtool_ioctl copy c ethcmd of (r, out) \<Rightarrow> (r, out, s))
          | SIOC_OTHER \<Rightarrow> (- EOPNOTSUPP, None, s))
     }"

fun timer_xmit :: "kernel \<Rightarrow> int list \<Rightarrow> xtm_state \<Rightarrow> xtm_state option" where
  "timer_xmit K [] s = Some s"
| "timer_xmit K (h # hs) s =
     do { s \<leftarrow> (if h \<noteq> 0 then bcmxtmrt_xmit K None h s else Some s); timer_xmit K hs s }"

definition bcmxtmrt_timer :: "kernel \<Rightarrow> xtm_state \<Rightarrow> xtm_state option" where
  "bcmxtmrt_timer K s = do { s \<leftarrow> timer_xmit K (pDevCtxs s) s; Some (x_call Add_timer s) }"

subsection \<open>Cell handlers\<close>

definition DoRegCellHdlrReq :: "u32 \<Rightarrow> int \<Rightarrow> int \<Rightarrow> xtm_state \<Rightarrow> int \<times> xtm_state" where
  "DoRegCellHdlrReq typ fn cx s =
     (if typ = CELL_HDLR_OAM then
        (if pfnOamHandler s = 0 then (0, s\<lparr>pfnOamHandler := fn, pOamContext := cx\<rparr>) else (- EEXIST, s))
      else if typ = CELL_HDLR_ASM then
        (if pfnAsmHandler s = 0 then (0, s\<lparr>pfnAsmHandler := fn, pAsmContext := cx\<rparr>) else (- EEXIST, s))
      else (0, s))"

definition DoUnregCellHdlrReq :: "u32 \<Rightarrow> int \<Rightarrow> xtm_state \<Rightarrow> int \<times> xtm_state" where
  "DoUnregCellHdlrReq typ fn s =
     (if typ = CELL_HDLR_OAM then
        (if pfnOamHandler s = fn then (0, s\<lparr>pfnOamHandler := 0, pOamContext := 0\<rparr>) else (- EPERM, s))
      else if typ = CELL_HDLR_ASM then
        (if pfnAsmHandler s = fn then (0, s\<lparr>pfnAsmHandler := 0, pAsmContext := 0\<rparr>) else (- EPERM, s))
      else (0, s))"

subsection \<open>Link changes\<close>

record transmit_queue_id =
  tq_ulPortId :: u32
  tq_ulPtmPriority :: u32
  tq_ulSubPriority :: nat
  tq_ulQueueSize :: nat
  tq_ulQueueIndex :: nat

record link_change =
  lc_ulLinkState :: u32
  lc_ulLinkUsRate :: u32
  lc_queues :: "transmit_queue_id list"
  lc_ucTxVcid :: u8
  lc_ucRxVcids :: "u8 list"

definition PORTID_TO_PORT :: "u32 \<Rightarrow> nat" where
  "PORTID_TO_PORT p = (if p = 1 then 0 else if p = 2 then 1 else if p = 4 then 2 else if p = 8 then 3 else MAX_PHY_PORTS)"

definition tx_mem_size :: "transmit_queue_id list \<Rightarrow> int" where
  "tx_mem_size qs = u32 (u32 (int (sum_list (map tq_ulQueueSize qs))) * (4 + 8) + int (length qs) * 16)"

text \<open>The addresses of the descriptors and of the socket buffers of a queue that starts at \<open>p\<close>.\<close>

definition tx_skbs_at :: "int \<Rightarrow> nat \<Rightarrow> int" where
  "tx_skbs_at p n = round_up 16 (p + 8 * int n)"

definition tx_next :: "int \<Rightarrow> nat \<Rightarrow> int" where
  "tx_next p n = tx_skbs_at p n + 4 * int n"

definition new_queue :: "transmit_queue_id \<Rightarrow> int \<Rightarrow> txqinfo" where
  "new_queue q p =
     (let n = tq_ulQueueSize q in
      \<lparr>ulPort = PORTID_TO_PORT (tq_ulPortId q), ulPtmPriority = tq_ulPtmPriority q, ulSubPriority = tq_ulSubPriority q,
       ulQueueSize = n, ulDmaIndex = tq_ulQueueIndex q, pDma = Some (tq_ulQueueIndex q),
       pBds_at = p, ppSkbs_at = tx_skbs_at p n,
       pBds = (replicate n \<lparr>bd_length = 0, bd_status = 0, bd_address = 0\<rparr>)
                [n - 1 := \<lparr>bd_length = 0, bd_status = DMA_WRAP, bd_address = 0\<rparr>],
       ppSkbs = replicate n None, ulFreeBds = n, ulHead = 0, ulTail = 0\<rparr>)"

definition valid_queue :: "transmit_queue_id \<Rightarrow> bool" where
  "valid_queue q \<longleftrightarrow> PORTID_TO_PORT (tq_ulPortId q) < MAX_PHY_PORTS \<and> tq_ulSubPriority q < MAX_SUB_PRIORITIES"

definition set_priority :: "nat \<Rightarrow> nat \<Rightarrow> nat \<Rightarrow> nat option list list \<Rightarrow> nat option list list" where
  "set_priority port sub i t = t[port := (t ! port)[sub := Some i]]"

fun tx_queues_up ::
  "transmit_queue_id list \<Rightarrow> nat \<Rightarrow> int \<Rightarrow> dev_context \<Rightarrow> xtm_state \<Rightarrow> (dev_context \<times> xtm_state) option" where
  "tx_queues_up [] i p c s = Some (c, s)"
| "tx_queues_up (q # qs) i p c s =
     (if valid_queue q then
        do {
          c_assert (i < length (TxQInfos c) \<and> tq_ulQueueSize q \<noteq> 0 \<and> tq_ulQueueIndex q < length (x_tx_dma s));
          let d = tq_ulQueueIndex q;
          let ch = x_tx_dma s ! d;
          let ch = \<lparr>ch_cfg = 0, ch_intStat = ch_intStat ch AND NOT (DMA_DONE OR DMA_NO_DESC OR DMA_BUFF_DONE),
                    ch_intMask = ch_intMask ch, ch_maxBurst = SAR_DMA_MAX_BURST_LENGTH\<rparr>;
          tx_queues_up qs (Suc i) (tx_next p (tq_ulQueueSize q))
            (c\<lparr>TxQInfos := (TxQInfos c)[i := new_queue q p],
               pTxPriorities := set_priority (PORTID_TO_PORT (tq_ulPortId q)) (tq_ulSubPriority q) i (pTxPriorities c)\<rparr>)
            (s\<lparr>x_tx_dma := (x_tx_dma s)[d := ch], x_tx_base := (x_tx_base s)[d := uint (VIRT_TO_PHY p)]\<rparr>)
        }
      else tx_queues_up qs (Suc i) p c s)"

fun match_up :: "u8 list \<Rightarrow> int \<Rightarrow> int list \<Rightarrow> int list option" where
  "match_up [] h ids = Some ids"
| "match_up (v # vs) h ids = (if unat v < length ids then match_up vs h (ids[unat v := h]) else None)"

text \<open>The receive channels that have a ring, and the calls that enable or disable their interrupts.\<close>

definition rx_active :: "xtm_state \<Rightarrow> nat list" where
  "rx_active s = filter (\<lambda>i. RxBdInfos s ! i \<noteq> None) [0..<length (RxBdInfos s)]"

definition rx_set_cfg :: "u32 \<Rightarrow> xtm_state \<Rightarrow> xtm_state" where
  "rx_set_cfg v s =
     s\<lparr>x_rx_dma := map (\<lambda>(i, ch). if i \<in> set (rx_active s) then ch\<lparr>ch_cfg := v\<rparr> else ch) (enumerate 0 (x_rx_dma s))\<rparr>"

definition start_running :: "int \<Rightarrow> dev_context \<Rightarrow> xtm_state \<Rightarrow> xtm_state" where
  "start_running h c s =
     (if ulDrvState s = XTMRT_INITIALIZED then
        (rx_set_cfg DMA_ENABLE s)
          \<lparr>x_calls := x_calls s @ map Interrupt_enable (rx_active s) @ [Add_timer] @
                      (if ulOpenState c = XTMRT_DEV_OPENED then [Netif_start_queue h] else []),
           ulDrvState := XTMRT_RUNNING\<rparr>
      else s)"

definition DoLinkUp :: "kernel \<Rightarrow> int \<Rightarrow> link_change \<Rightarrow> xtm_state \<Rightarrow> (int \<times> xtm_state) option" where
  "DoLinkUp K h lc s =
     do {
       c \<leftarrow> x_devs s h;
       c_assert (length (lc_queues lc) \<le> MAX_TRANSMIT_QUEUES \<and> length (lc_ucRxVcids lc) \<le> MAX_VCIDS);
       (case kmalloc K (tx_mem_size (lc_queues lc)) s of
          (None, s) \<Rightarrow> Some (- ENOMEM, put_dev h (c\<lparr>pTxQMem := 0\<rparr>) s)
        | (Some (p, _), s) \<Rightarrow>
            do {
              let c = c\<lparr>pTxQMem := p, ucTxVcid := lc_ucTxVcid lc, ulLinkState := lc_ulLinkState lc,
                        ulTxQInfosSize := length (lc_queues lc)\<rparr>;
              ids \<leftarrow> match_up (lc_ucRxVcids lc) h (pDevCtxsByMatchId s);
              (c, s) \<leftarrow> tx_queues_up (lc_queues lc) 0 (round_up 16 p) c (s\<lparr>pDevCtxsByMatchId := ids\<rparr>);
              Some (0, start_running h c (put_dev h c s))
            })
     }"

fun tx_queues_down :: "txqinfo list \<Rightarrow> xtm_state \<Rightarrow> xtm_state option" where
  "tx_queues_down [] s = Some s"
| "tx_queues_down (q # qs) s =
     do {
       d \<leftarrow> pDma q;
       c_assert (d < length (x_tx_dma s));
       tx_queues_down qs
         (s\<lparr>x_tx_dma := (x_tx_dma s)[d := (x_tx_dma s ! d)\<lparr>ch_cfg := DMA_BURST_HALT\<rparr>],
            x_tx_base := (x_tx_base s)[ulDmaIndex q := 0]\<rparr>)
     }"

text \<open>Whether some device of the table has its link up.\<close>

definition any_link_up :: "xtm_state \<Rightarrow> bool" where
  "any_link_up s \<longleftrightarrow>
     (\<exists>h\<in>set (pDevCtxs s). h \<noteq> 0 \<and> (case x_devs s h of None \<Rightarrow> False | Some c \<Rightarrow> ulLinkState c = LINK_UP))"

definition stop_running :: "xtm_state \<Rightarrow> xtm_state" where
  "stop_running s =
     (if any_link_up s then s
      else (rx_set_cfg 0 s)\<lparr>x_calls := x_calls s @ map Interrupt_disable (rx_active s) @ [Del_timer],
                            ulDrvState := XTMRT_INITIALIZED\<rparr>)"

definition DoLinkDown :: "kernel \<Rightarrow> int \<Rightarrow> link_change \<Rightarrow> xtm_state \<Rightarrow> (int \<times> xtm_state) option" where
  "DoLinkDown K h lc s =
     do {
       s \<leftarrow> bcmxtmrt_xmit K None h (x_call (Netif_stop_queue h) s);
       c \<leftarrow> x_devs s h;
       s \<leftarrow> tx_queues_down (take (ulTxQInfosSize c) (TxQInfos c)) s;
       let s = kfree (pTxQMem c) s;
       let c = c\<lparr>ulTxQInfosSize := 0, TxQInfos := replicate MAX_TRANSMIT_QUEUES txq_zero,
                 pTxPriorities := replicate MAX_PHY_PORTS (replicate MAX_SUB_PRIORITIES None),
                 ulLinkState := lc_ulLinkState lc, ucTxVcid := INVALID_VCID\<rparr>;
       let s = (put_dev h c s)\<lparr>pDevCtxsByMatchId := clear_match h (pDevCtxsByMatchId s)\<rparr>;
       Some (0, x_call (Netif_wake_queue h) (stop_running s))
     }"

text \<open>\<open>now\<close> is the time in hundredths of a second.\<close>

definition DoLinkStsChangedReq :: "kernel \<Rightarrow> u32 \<Rightarrow> int \<Rightarrow> link_change \<Rightarrow> xtm_state \<Rightarrow> (int \<times> xtm_state) option" where
  "DoLinkStsChangedReq K now h lc s =
     (if h \<in> set (pDevCtxs s) then
        do {
          (nRet, s) \<leftarrow> (if lc_ulLinkState lc = LINK_UP then DoLinkUp K h lc s else DoLinkDown K h lc s);
          c \<leftarrow> x_devs s h;
          Some (nRet, put_dev h (c\<lparr>ulIfLastChange := now, ulIfSpeed := lc_ulLinkUsRate lc\<rparr>) s)
        }
      else Some (- EPERM, s))"

subsection \<open>Sending a cell\<close>

definition cell_protocol :: "u8 \<Rightarrow> u16" where
  "cell_protocol ct =
     (if ct = 0 then 0x40 else if ct = 1 then 0x50 else if ct = 2 then 0xc0 else if ct = 3 then 0xd0
      else if ct = 4 then 0x80 else if ct = 5 then 0x90 else if ct = 6 then 0xa0 else if ct = 7 then 0xb0
      else 0)"

fun first_priority :: "nat option list \<Rightarrow> nat \<Rightarrow> u32" where
  "first_priority [] i = 0"
| "first_priority (x # xs) i = (if x \<noteq> None then of_nat i else first_priority xs (Suc i))"

definition DoSendCellReq :: "kernel \<Rightarrow> int \<Rightarrow> xtm_cell \<Rightarrow> xtm_state \<Rightarrow> (int \<times> xtm_state) option" where
  "DoSendCellReq K h cell s =
     do {
       c \<leftarrow> x_devs s h;
       if ulLinkState c = LINK_UP then
         (case dev_alloc_skb K (int CELL_PAYLOAD_SIZE) s of
            (None, s) \<Rightarrow> Some (- ENOMEM, s)
          | (Some skb, s) \<Rightarrow>
              do {
                let port = unat (ulPortMask (ConnAddr cell));
                c_assert (port < length (pTxPriorities c));
                let skb = skb\<lparr>sk_priority := first_priority (pTxPriorities c ! port) 0\<rparr>;
                skb \<leftarrow> skb_write (sk_data skb) (take CELL_PAYLOAD_SIZE (ucData cell))
                        (skb\<lparr>sk_tail := sk_tail skb + int CELL_PAYLOAD_SIZE, sk_len := sk_len skb + int CELL_PAYLOAD_SIZE\<rparr>);
                s \<leftarrow> bcmxtmrt_xmit K (Some (skb\<lparr>sk_protocol := cell_protocol (ucCircuitType cell) OR SKB_PROTO_ATM_CELL\<rparr>)) h s;
                Some (0, s)
              })
       else Some (- EPERM, s)
     }"

subsection \<open>Requests\<close>

datatype xtm_request =
    XTMRT_CMD_GLOBAL_INITIALIZATION "nat list"
  | XTMRT_CMD_CREATE_DEVICE create_device
  | XTMRT_CMD_GET_DEVICE_STATE
  | XTMRT_CMD_SET_ADMIN_STATUS u32
  | XTMRT_CMD_REGISTER_CELL_HANDLER u32 int int
  | XTMRT_CMD_UNREGISTER_CELL_HANDLER u32 int
  | XTMRT_CMD_LINK_STATUS_CHANGED link_change
  | XTMRT_CMD_SEND_CELL xtm_cell
  | XTMRT_CMD_DELETE_DEVICE
  | XTMRT_CMD_OTHER

text \<open>The output is the handle of a created device or the state of the device asked for.\<close>

definition bcmxtmrt_request ::
  "kernel \<Rightarrow> int \<Rightarrow> u32 \<Rightarrow> int \<Rightarrow> xtm_request \<Rightarrow> xtm_state \<Rightarrow> (int \<times> int option \<times> xtm_state) option" where
  "bcmxtmrt_request K register now h cmd s =
     (case cmd of
        XTMRT_CMD_GLOBAL_INITIALIZATION sizes \<Rightarrow> do { (r, s) \<leftarrow> DoGlobInitReq K sizes s; Some (r, None, s) }
      | XTMRT_CMD_CREATE_DEVICE cnd \<Rightarrow> DoCreateDeviceReq K register cnd s
      | XTMRT_CMD_GET_DEVICE_STATE \<Rightarrow> do { c \<leftarrow> x_devs s h; Some (0, Some (uint (ulOpenState c)), s) }
      | XTMRT_CMD_SET_ADMIN_STATUS v \<Rightarrow> do { c \<leftarrow> x_devs s h; Some (0, None, put_dev h (c\<lparr>ulAdminStatus := v\<rparr>) s) }
      | XTMRT_CMD_REGISTER_CELL_HANDLER typ fn cx \<Rightarrow> (case DoRegCellHdlrReq typ fn cx s of (r, s) \<Rightarrow> Some (r, None, s))
      | XTMRT_CMD_UNREGISTER_CELL_HANDLER typ fn \<Rightarrow> (case DoUnregCellHdlrReq typ fn s of (r, s) \<Rightarrow> Some (r, None, s))
      | XTMRT_CMD_LINK_STATUS_CHANGED lc \<Rightarrow> do { (r, s) \<leftarrow> DoLinkStsChangedReq K now h lc s; Some (r, None, s) }
      | XTMRT_CMD_SEND_CELL cell \<Rightarrow> do { (r, s) \<leftarrow> DoSendCellReq K h cell s; Some (r, None, s) }
      | XTMRT_CMD_DELETE_DEVICE \<Rightarrow> do { (r, s) \<leftarrow> DoDeleteDeviceReq h s; Some (r, None, s) }
      | XTMRT_CMD_OTHER \<Rightarrow> Some (- EINVAL, None, s))"

end
