(* ===== verification/Xtm_Link.thy ===== *)
theory Xtm_Link
  imports Xtm_Send Xtm_Request
begin

text \<open>
  Link changes of the ATM/PTM network driver: the queues \<open>DoLinkUp\<close> makes and where they lie in the
  allocated block, and what \<open>DoLinkDown\<close> leaves.
\<close>

section \<open>New queues\<close>

lemma new_queue_ok:
  assumes "tq_ulQueueSize q \<noteq> 0"
  shows "tx_ring_ok (new_queue q p)" "tx_fifo (new_queue q p) = []"
proof -
  let ?q = "new_queue q p"
  have n: "ulQueueSize ?q = tq_ulQueueSize q" "ulFreeBds ?q = tq_ulQueueSize q" "ulHead ?q = 0" "ulTail ?q = 0"
    "ppSkbs ?q = replicate (tq_ulQueueSize q) None"
    by (simp_all add: new_queue_def Let_def)
  then have u: "tx_used ?q = 0" by (simp add: tx_used_def)
  have "wrap_ok (pBds ?q)"
    using assms by (auto simp: new_queue_def Let_def wrap_ok_def nth_list_update)
  then show "tx_ring_ok ?q"
    using n u assms by (auto simp: tx_ring_ok_def tx_slot_def new_queue_def Let_def)
  show "tx_fifo ?q = []" by (simp add: tx_fifo_def u)
qed

lemma new_queue_queue_ok:
  "tq_ulQueueSize q \<noteq> 0 \<Longrightarrow> tq_ulQueueIndex q < MAX_TRANSMIT_QUEUES \<Longrightarrow> queue_ok (new_queue q p)"
  using new_queue_ok(1) [of q p] by (simp add: queue_ok_def) (simp add: new_queue_def Let_def)

lemma ctx_ok_priority:
  assumes "ctx_ok c" "i < MAX_TRANSMIT_QUEUES"
  shows "ctx_ok (c\<lparr>pTxPriorities := set_priority p sub i (pTxPriorities c)\<rparr>)"
proof (cases "p < length (pTxPriorities c)")
  case True
  let ?row = "(pTxPriorities c ! p)[sub := Some i]"
  have "length ?row = 8 \<and> (\<forall>k. Some k \<in> set ?row \<longrightarrow> k < 16)"
    using assms True ctx_okD(6-8) [OF assms(1)] by (auto dest!: subsetD [OF set_update_subset_insert])
  then show ?thesis
    using assms True unfolding ctx_ok_def set_priority_def by (auto dest!: subsetD [OF set_update_subset_insert])
next
  case False
  then show ?thesis using assms by (simp add: set_priority_def list_update_beyond)
qed

text \<open>Where the queues start.\<close>

fun tx_starts :: "int \<Rightarrow> transmit_queue_id list \<Rightarrow> int list" where
  "tx_starts p [] = []"
| "tx_starts p (q # qs) = p # tx_starts (if valid_queue q then tx_next p (tq_ulQueueSize q) else p) qs"

lemma length_tx_starts [simp]: "length (tx_starts p qs) = length qs"
  by (induction qs arbitrary: p) auto

lemma tx_queues_up_Some:
  assumes "tx_queues_up qs i p c s = Some (c', s')" "ctx_ok c" "length (x_tx_dma s) = MAX_TRANSMIT_QUEUES"
  obtains qs' t d b where "c' = c\<lparr>TxQInfos := qs', pTxPriorities := t\<rparr>" "s' = s\<lparr>x_tx_dma := d, x_tx_base := b\<rparr>"
    "ctx_ok c'" "length d = MAX_TRANSMIT_QUEUES" "\<forall>j<i. TxQInfos c' ! j = TxQInfos c ! j"
    "\<forall>k<length qs. valid_queue (qs ! k) \<longrightarrow> TxQInfos c' ! (i + k) = new_queue (qs ! k) (tx_starts p qs ! k)"
  using assms
proof (induction qs i p c s arbitrary: thesis rule: tx_queues_up.induct)
  case (1 i p c s)
  show ?case
    by (rule 1(1) [where qs' = "TxQInfos c" and t = "pTxPriorities c" and d = "x_tx_dma s" and b = "x_tx_base s"])
      (use 1(2-4) in simp_all)
next
  case (2 q qs i p c s)
  show ?case
  proof (cases "valid_queue q")
    case False
    have e: "tx_queues_up qs (Suc i) p c s = Some (c', s')" using 2(4) False by simp
    show ?thesis
    proof (rule 2(2) [OF False _ e 2(5,6)])
      fix qs' t d b assume a: "c' = c\<lparr>TxQInfos := qs', pTxPriorities := t\<rparr>" "s' = s\<lparr>x_tx_dma := d, x_tx_base := b\<rparr>" "ctx_ok c'"
        "length d = 16" "\<forall>j<Suc i. TxQInfos c' ! j = TxQInfos c ! j"
        "\<forall>k<length qs. valid_queue (qs ! k) \<longrightarrow> TxQInfos c' ! (Suc i + k) = new_queue (qs ! k) (tx_starts p qs ! k)"
      have "TxQInfos c' ! (i + k) = new_queue ((q # qs) ! k) (tx_starts p (q # qs) ! k)"
        if "k < length (q # qs)" "valid_queue ((q # qs) ! k)" for k
        using that False a(6) by (cases k) auto
      then show ?thesis by (intro 2(3) [OF a(1-4)]) (use a(5) in auto)
    qed
  next
    case True
    let ?d = "tq_ulQueueIndex q"
    let ?ch = "\<lparr>ch_cfg = 0, ch_intStat = ch_intStat (x_tx_dma s ! ?d) AND NOT (DMA_DONE OR DMA_NO_DESC OR DMA_BUFF_DONE),
                ch_intMask = ch_intMask (x_tx_dma s ! ?d), ch_maxBurst = SAR_DMA_MAX_BURST_LENGTH\<rparr>"
    let ?c = "c\<lparr>TxQInfos := (TxQInfos c)[i := new_queue q p],
               pTxPriorities := set_priority (PORTID_TO_PORT (tq_ulPortId q)) (tq_ulSubPriority q) i (pTxPriorities c)\<rparr>"
    let ?s = "s\<lparr>x_tx_dma := (x_tx_dma s)[?d := ?ch], x_tx_base := (x_tx_base s)[?d := uint (VIRT_TO_PHY p)]\<rparr>"
    let ?p = "tx_next p (tq_ulQueueSize q)"
    have as: "i < length (TxQInfos c) \<and> tq_ulQueueSize q \<noteq> 0 \<and> ?d < length (x_tx_dma s)"
      and e: "tx_queues_up qs (Suc i) ?p ?c ?s = Some (c', s')"
      using 2(4) True by (auto simp: c_assert_def Let_def split: if_splits)
    have i: "i < 16" "tq_ulQueueSize q \<noteq> 0" "?d < 16" using as 2(6) ctx_okD(1) [OF 2(5)] by simp_all
    have ok: "ctx_ok ?c"
      using ctx_ok_priority [OF ctx_ok_update_queue [OF 2(5) new_queue_queue_ok [OF i(2,3)], of i] i(1)] by simp
    have l: "length (x_tx_dma ?s) = 16" using 2(6) by simp
    note IH = 2(1) [OF True _ refl refl refl _ e ok l]
    show ?thesis
    proof (rule IH)
      show "c_assert (i < length (TxQInfos c) \<and> tq_ulQueueSize q \<noteq> 0 \<and> ?d < length (x_tx_dma s)) = Some ()" using as by simp
    next
      fix qs' t d b assume a: "c' = ?c\<lparr>TxQInfos := qs', pTxPriorities := t\<rparr>" "s' = ?s\<lparr>x_tx_dma := d, x_tx_base := b\<rparr>" "ctx_ok c'"
        "length d = 16" "\<forall>j<Suc i. TxQInfos c' ! j = TxQInfos ?c ! j"
        "\<forall>k<length qs. valid_queue (qs ! k) \<longrightarrow> TxQInfos c' ! (Suc i + k) = new_queue (qs ! k) (tx_starts ?p qs ! k)"
      have "TxQInfos c' ! (i + k) = new_queue ((q # qs) ! k) (tx_starts p (q # qs) ! k)"
        if "k < length (q # qs)" "valid_queue ((q # qs) ! k)" for k
        using that True a(5,6) as by (cases k) auto
      moreover have "\<forall>j<i. TxQInfos c' ! j = TxQInfos c ! j" using a(5) by auto
      ultimately show ?thesis
        by (intro 2(3) [where qs' = qs' and t = t and d = d and b = b]) (use a(1-4) in auto)
    qed
  qed
qed

lemma round_up_le:
  assumes "0 < a" "d dvd a" "d dvd x"
  shows "round_up a x \<le> x + a - d"
proof -
  have "d dvd round_up a x" using assms(2) round_up_dvd by (rule dvd_trans)
  then have "d dvd x + a - round_up a x" using assms by simp
  moreover have "0 < x + a - round_up a x" using round_up_less [OF assms(1), of x] by simp
  ultimately have "d \<le> x + a - round_up a x" by (rule zdvd_imp_le)
  then show ?thesis by simp
qed

lemma tx_next_bounds:
  assumes "4 dvd p"
  shows "4 dvd tx_next p n" "p + 8 * int n \<le> tx_skbs_at p n" "tx_next p n \<le> p + 12 * int n + 12"
    "16 dvd p \<Longrightarrow> tx_next p n \<le> p + 12 * int n + 8"
proof -
  have "4 dvd (16 :: int)" "(16 :: int) dvd tx_skbs_at p n" by (simp_all add: tx_skbs_at_def)
  then have "4 dvd tx_skbs_at p n" by (rule dvd_trans)
  then show "4 dvd tx_next p n" by (simp add: tx_next_def)
  show "p + 8 * int n \<le> tx_skbs_at p n" using round_up_ge [of 16] by (simp add: tx_skbs_at_def)
  have "4 dvd p + 8 * int n" using assms by (simp add: dvd_add)
  then show "tx_next p n \<le> p + 12 * int n + 12"
    using round_up_le [of 16 4 "p + 8 * int n"] by (simp add: tx_next_def tx_skbs_at_def)
  assume "16 dvd p"
  then have "8 dvd p + 8 * int n" by (metis dvd_add dvd_trans dvd_triv_left numeral_Bit0_eq_double dvd_mult2 dvd_refl mult.commute)
  then show "tx_next p n \<le> p + 12 * int n + 8"
    using round_up_le [of 16 8 "p + 8 * int n"] by (simp add: tx_next_def tx_skbs_at_def)
qed

text \<open>The bytes the valid queues need, and the room for aligning them.\<close>

definition tx_need :: "transmit_queue_id list \<Rightarrow> int" where
  "tx_need qs = (\<Sum>q\<leftarrow>qs. if valid_queue q then 12 * int (tq_ulQueueSize q) + 12 else 0)"

lemma tx_need_simps [simp]:
  "tx_need [] = 0" "tx_need (q # qs) = (if valid_queue q then 12 * int (tq_ulQueueSize q) + 12 else 0) + tx_need qs"
  by (simp_all add: tx_need_def)

lemma tx_need_nonneg: "0 \<le> tx_need qs"
  by (induction qs) auto

lemma tx_starts_ge: "4 dvd p \<Longrightarrow> k < length qs \<Longrightarrow> p \<le> tx_starts p qs ! k \<and> 4 dvd tx_starts p qs ! k"
proof (induction qs arbitrary: p k)
  case (Cons q qs)
  let ?n = "tq_ulQueueSize q"
  have "p \<le> tx_next p ?n" "4 dvd tx_next p ?n" using tx_next_bounds(1,2) [OF Cons(2), of ?n] by (simp_all add: tx_next_def)
  then show ?case using Cons by (cases k) (auto intro: order_trans)
qed simp

lemma tx_starts_disjoint:
  "4 dvd p \<Longrightarrow> j < k \<Longrightarrow> k < length qs \<Longrightarrow> valid_queue (qs ! j) \<Longrightarrow>
   tx_next (tx_starts p qs ! j) (tq_ulQueueSize (qs ! j)) \<le> tx_starts p qs ! k"
proof (induction qs arbitrary: p j k)
  case (Cons q qs)
  obtain k' where k: "k = Suc k'" using Cons(3) by (cases k) auto
  show ?case
  proof (cases j)
    case 0
    then show ?thesis using Cons k tx_starts_ge [OF tx_next_bounds(1) [OF Cons(2)]] by simp
  next
    case (Suc j')
    then show ?thesis using Cons k tx_next_bounds(1) [OF Cons(2)] by simp
  qed
qed simp

lemma tx_starts_end:
  "4 dvd p \<Longrightarrow> k < length qs \<Longrightarrow> valid_queue (qs ! k) \<Longrightarrow>
   tx_next (tx_starts p qs ! k) (tq_ulQueueSize (qs ! k)) \<le> p + tx_need qs"
proof (induction qs arbitrary: p k)
  case (Cons q qs)
  note b = tx_next_bounds [OF Cons(2), of "tq_ulQueueSize q"]
  show ?case
  proof (cases k)
    case 0
    then show ?thesis using Cons(4) b(3) tx_need_nonneg [of qs] by simp
  next
    case (Suc k')
    then show ?thesis using Cons.IH [OF b(1), of k'] Cons.IH [OF Cons(2), of k'] Cons(3,4) b(3) by auto
  qed
qed simp

lemma tx_starts_end16:
  "16 dvd p \<Longrightarrow> k < length qs \<Longrightarrow> valid_queue (qs ! k) \<Longrightarrow>
   tx_next (tx_starts p qs ! k) (tq_ulQueueSize (qs ! k)) \<le> p + tx_need qs - 4"
proof (induction qs arbitrary: k)
  case (Cons q qs)
  have four: "4 dvd p" using Cons(2) by (rule dvd_trans [rotated]) simp
  note b = tx_next_bounds [OF four, of "tq_ulQueueSize q"]
  show ?case
  proof (cases k)
    case 0
    then show ?thesis using Cons(2,4) b(4) tx_need_nonneg [of qs] by simp
  next
    case (Suc k')
    then show ?thesis using tx_starts_end [OF b(1), of k' qs] Cons.IH [OF Cons(2), of k'] Cons(2-4) b(4) by auto
  qed
qed simp

lemma tx_need_size:
  assumes "12 * int (sum_list (map tq_ulQueueSize qs)) + 16 * int (length qs) < 2 ^ 32" "k < length qs" "valid_queue (qs ! k)"
  shows "tx_need qs + 4 \<le> tx_mem_size qs"
proof -
  have "tx_need qs \<le> 12 * int (sum_list (map tq_ulQueueSize qs)) + 12 * int (length qs)" by (induction qs) auto
  moreover have "0 < length qs" using assms(2) by linarith
  moreover have "tx_mem_size qs = 12 * int (sum_list (map tq_ulQueueSize qs)) + 16 * int (length qs)"
  proof -
    have a: "u32 (int (sum_list (map tq_ulQueueSize qs))) = int (sum_list (map tq_ulQueueSize qs))"
      by (rule u32_id) (use assms(1) in simp_all)
    show ?thesis unfolding tx_mem_size_def a by (subst u32_id) (use assms(1) in simp_all)
  qed
  ultimately show ?thesis by linarith
qed

section \<open>Link up\<close>

lemma DoLinkUp_Some:
  assumes "DoLinkUp K h lc s = Some (r, s')" "x_devs s h = Some c" "ctx_ok c" "length (x_tx_dma s) = MAX_TRANSMIT_QUEUES"
  obtains (fail) m where "r = - ENOMEM" "s' = put_dev h (c\<lparr>pTxQMem := 0\<rparr>) (s\<lparr>k_allocs := m\<rparr>)"
  | (up) p b m ids qs' t d base c' where "r = 0" "kmem K (k_allocs s) (tx_mem_size (lc_queues lc)) = Some (p, b)"
      "length (lc_queues lc) \<le> MAX_TRANSMIT_QUEUES" "match_up (lc_ucRxVcids lc) h (pDevCtxsByMatchId s) = Some ids"
      "c' = c\<lparr>pTxQMem := p, ucTxVcid := lc_ucTxVcid lc, ulLinkState := lc_ulLinkState lc, ulTxQInfosSize := length (lc_queues lc),
              TxQInfos := qs', pTxPriorities := t\<rparr>" "ctx_ok c'" "length d = MAX_TRANSMIT_QUEUES"
      "s' = start_running h c' (put_dev h c' (s\<lparr>k_allocs := m, pDevCtxsByMatchId := ids, x_tx_dma := d, x_tx_base := base\<rparr>))"
      "\<forall>k<length (lc_queues lc). valid_queue (lc_queues lc ! k) \<longrightarrow>
         TxQInfos c' ! k = new_queue (lc_queues lc ! k) (tx_starts (round_up 16 p) (lc_queues lc) ! k)"
proof -
  let ?qs = "lc_queues lc"
  have l: "length ?qs \<le> 16 \<and> length (lc_ucRxVcids lc) \<le> 16"
    using assms(1,2) by (auto simp: DoLinkUp_def c_assert_def split: if_splits)
  show ?thesis
  proof (cases "kmem K (k_allocs s) (tx_mem_size ?qs)")
    case None
    then show ?thesis using fail [of "Suc (k_allocs s)"] assms(1,2) l by (simp add: DoLinkUp_def kmalloc_def)
  next
    case (Some pb)
    obtain p b where pb: "pb = (p, b)" by (cases pb)
    let ?c = "c\<lparr>pTxQMem := p, ucTxVcid := lc_ucTxVcid lc, ulLinkState := lc_ulLinkState lc, ulTxQInfosSize := length ?qs\<rparr>"
    obtain ids c' s1 where u: "match_up (lc_ucRxVcids lc) h (pDevCtxsByMatchId s) = Some ids"
      "tx_queues_up ?qs 0 (round_up 16 p) ?c (s\<lparr>k_allocs := Suc (k_allocs s), pDevCtxsByMatchId := ids\<rparr>) = Some (c', s1)"
      "r = 0" "s' = start_running h c' (put_dev h c' s1)"
      using assms(1,2) l Some pb by (auto simp: DoLinkUp_def kmalloc_def Let_def split: bind_splits)
    have ok: "ctx_ok ?c" using assms(3) l by (simp add: ctx_ok_def)
    have dma: "length (x_tx_dma (s\<lparr>k_allocs := Suc (k_allocs s), pDevCtxsByMatchId := ids\<rparr>)) = 16" using assms(4) by simp
    show ?thesis
    proof (rule tx_queues_up_Some [OF u(2) ok dma], goal_cases)
      case (1 qs' t d base)
      have e: "s' = start_running h c' (put_dev h c' (s\<lparr>k_allocs := Suc (k_allocs s), pDevCtxsByMatchId := ids, x_tx_dma := d, x_tx_base := base\<rparr>))"
        using u(4) 1(2) by simp
      have c': "c' = c\<lparr>pTxQMem := p, ucTxVcid := lc_ucTxVcid lc, ulLinkState := lc_ulLinkState lc, ulTxQInfosSize := length ?qs,
              TxQInfos := qs', pTxPriorities := t\<rparr>" using 1(1) by simp
      show ?case by (rule up [OF u(3) _ _ u(1) c' 1(3,4) e]) (use Some pb l 1(6) in simp_all)
    qed
  qed
qed

section \<open>Link down\<close>

lemma tx_queues_down_Some:
  "tx_queues_down qs s = Some s' \<Longrightarrow> \<exists>d b. s' = s\<lparr>x_tx_dma := d, x_tx_base := b\<rparr> \<and> length d = length (x_tx_dma s)"
proof (induction qs arbitrary: s)
  case Nil
  then have "s' = s\<lparr>x_tx_dma := x_tx_dma s, x_tx_base := x_tx_base s\<rparr>" by simp
  then show ?case by blast
next
  case (Cons q qs)
  obtain d where "pDma q = Some d" using Cons(2) by (cases "pDma q") auto
  then have "tx_queues_down qs (s\<lparr>x_tx_dma := (x_tx_dma s)[d := (x_tx_dma s ! d)\<lparr>ch_cfg := DMA_BURST_HALT\<rparr>],
      x_tx_base := (x_tx_base s)[ulDmaIndex q := 0]\<rparr>) = Some s'"
    using Cons(2) by (simp add: c_assert_def split: if_splits)
  from Cons.IH [OF this] show ?case by auto
qed

text \<open>The context that a link down leaves, from the context \<open>c\<close> after the last reclaim.\<close>

definition ctx_down :: "u32 \<Rightarrow> dev_context \<Rightarrow> dev_context" where
  "ctx_down state c =
     c\<lparr>ulTxQInfosSize := 0, TxQInfos := replicate MAX_TRANSMIT_QUEUES txq_zero,
       pTxPriorities := replicate MAX_PHY_PORTS (replicate MAX_SUB_PRIORITIES None), ulLinkState := state, ucTxVcid := INVALID_VCID\<rparr>"

lemma ctx_down_ok: "ctx_ok c \<Longrightarrow> ctx_ok (ctx_down st c)"
  by (simp add: ctx_ok_def ctx_down_def)

lemma tx_ctxD:
  assumes "tx_ctx c c'"
  shows "pTxQMem c' = pTxQMem c" "ulTxQInfosSize c' = ulTxQInfosSize c" "ulLinkState c' = ulLinkState c" "ulOpenState c' = ulOpenState c"
    "ulHdrType c' = ulHdrType c" "pTxPriorities c' = pTxPriorities c" "dev_addr c' = dev_addr c" "dev_block c' = dev_block c"
  using assms by (auto simp: tx_ctx_def)

lemma DoLinkDown_Some:
  assumes "DoLinkDown K h lc s = Some (r, s')" "x_devs s h = Some c" "ctx_ok c" "length (x_tx_dma s) = MAX_TRANSMIT_QUEUES"
  obtains c' l d b where "r = 0" "tx_ctx c c'" "ctx_ok c'" "length d = MAX_TRANSMIT_QUEUES"
    "s' = x_call (Netif_wake_queue h) (stop_running (put_dev h (ctx_down (lc_ulLinkState lc) c') (kfree (pTxQMem c)
       (s\<lparr>x_calls := x_calls s @ [Netif_stop_queue h], k_skb_freed := k_skb_freed s @ tx_freed c, x_tx_dma := d, x_tx_base := b,
          pDevCtxsByMatchId := clear_match h (pDevCtxsByMatchId s)\<rparr>))))"
proof -
  let ?s = "x_call (Netif_stop_queue h) s"
  have dev: "x_devs ?s h = Some c" using assms(2) by (simp add: x_call_def)
  obtain c' where c': "bcmxtmrt_xmit K None h ?s = Some (put_dev h c' (?s\<lparr>k_skb_freed := k_skb_freed ?s @ tx_freed c\<rparr>))"
    "ctx_ok c'" "tx_ctx c c'"
    by (rule bcmxtmrt_xmit_None [OF dev assms(3)]) (rule that)
  let ?s1 = "put_dev h c' (?s\<lparr>k_skb_freed := k_skb_freed ?s @ tx_freed c\<rparr>)"
  obtain s2 where s2: "tx_queues_down (take (ulTxQInfosSize c') (TxQInfos c')) ?s1 = Some s2" "r = 0"
    "s' = x_call (Netif_wake_queue h) (stop_running ((put_dev h (ctx_down (lc_ulLinkState lc) c') (kfree (pTxQMem c') s2))
       \<lparr>pDevCtxsByMatchId := clear_match h (pDevCtxsByMatchId (kfree (pTxQMem c') s2))\<rparr>))"
    using assms(1) c'(1) by (auto simp: DoLinkDown_def Let_def ctx_down_def split: bind_splits)
  obtain d b where d: "s2 = ?s1\<lparr>x_tx_dma := d, x_tx_base := b\<rparr>" "length d = length (x_tx_dma ?s1)"
    using tx_queues_down_Some [OF s2(1)] by blast
  have l: "length d = 16" using d(2) assms(4) by (simp add: x_call_def)
  have e: "(put_dev h x (kfree p (put_dev h c' t\<lparr>x_tx_dma := d, x_tx_base := b\<rparr>)))\<lparr>pDevCtxsByMatchId := w\<rparr> =
      put_dev h x (kfree p (t\<lparr>x_tx_dma := d, x_tx_base := b, pDevCtxsByMatchId := w\<rparr>))" for x p t w
    by (simp add: put_dev_def kfree_def)
  have "s' = x_call (Netif_wake_queue h) (stop_running (put_dev h (ctx_down (lc_ulLinkState lc) c') (kfree (pTxQMem c)
       (s\<lparr>x_calls := x_calls s @ [Netif_stop_queue h], k_skb_freed := k_skb_freed s @ tx_freed c, x_tx_dma := d, x_tx_base := b,
          pDevCtxsByMatchId := clear_match h (pDevCtxsByMatchId s)\<rparr>))))"
    unfolding s2(3) d(1) e tx_ctxD(1) [OF c'(3)] by (simp add: x_call_def kfree_def put_dev_def)
  then show thesis using that s2(2) c'(2,3) l by blast
qed

lemma DoLinkDown_idle:
  assumes "x_devs s h = Some c" "ctx_ok c" "ulTxQInfosSize c = 0"
  shows "\<exists>s'. DoLinkDown K h lc s = Some (0, s')"
proof -
  let ?s = "x_call (Netif_stop_queue h) s"
  have dev: "x_devs ?s h = Some c" using assms(1) by (simp add: x_call_def)
  obtain c' where c': "bcmxtmrt_xmit K None h ?s = Some (put_dev h c' (?s\<lparr>k_skb_freed := k_skb_freed ?s @ tx_freed c\<rparr>))" "tx_ctx c c'"
    by (rule bcmxtmrt_xmit_None [OF dev assms(2)]) (rule that)
  then show ?thesis using assms(3) tx_ctxD(2) [OF c'(2)] by (simp add: DoLinkDown_def Let_def)
qed

lemma stop_running_simps [simp]:
  "x_devs (stop_running s) = x_devs s" "k_freed (stop_running s) = k_freed s" "pDevCtxs (stop_running s) = pDevCtxs s"
  "x_tx_dma (stop_running s) = x_tx_dma s" "pDevCtxsByMatchId (stop_running s) = pDevCtxsByMatchId s" "RxBdInfos (stop_running s) = RxBdInfos s"
  "x_mac (stop_running s) = x_mac s"
  by (simp_all add: stop_running_def rx_set_cfg_def)

lemma x_call_simps [simp]:
  "x_devs (x_call k s) = x_devs s" "k_freed (x_call k s) = k_freed s" "pDevCtxs (x_call k s) = pDevCtxs s"
  "x_tx_dma (x_call k s) = x_tx_dma s" "pDevCtxsByMatchId (x_call k s) = pDevCtxsByMatchId s" "RxBdInfos (x_call k s) = RxBdInfos s"
  "ulDrvState (x_call k s) = ulDrvState s" "x_rx_dma (x_call k s) = x_rx_dma s" "x_calls (x_call k s) = x_calls s @ [k]"
  "x_mac (x_call k s) = x_mac s" "pFreeRxSkbList (x_call k s) = pFreeRxSkbList s" "x_mem (x_call k s) = x_mem s"
  by (simp_all add: x_call_def)

lemma start_running_simps [simp]:
  "x_devs (start_running h c s) = x_devs s" "k_freed (start_running h c s) = k_freed s" "pDevCtxs (start_running h c s) = pDevCtxs s"
  "x_tx_dma (start_running h c s) = x_tx_dma s" "pDevCtxsByMatchId (start_running h c s) = pDevCtxsByMatchId s"
  "RxBdInfos (start_running h c s) = RxBdInfos s" "x_mac (start_running h c s) = x_mac s"
  by (simp_all add: start_running_def rx_set_cfg_def)

lemma kfree_xtm [simp]:
  "x_devs (kfree p s) = x_devs s" "pDevCtxs (kfree p s) = pDevCtxs s" "x_tx_dma (kfree p s) = x_tx_dma s"
  "pDevCtxsByMatchId (kfree p s) = pDevCtxsByMatchId s" "RxBdInfos (kfree p s) = RxBdInfos s" "ulDrvState (kfree p s) = ulDrvState s"
  "x_rx_dma (kfree p s) = x_rx_dma s" "x_calls (kfree p s) = x_calls s" "x_mac (kfree p s) = x_mac s"
  by (simp_all add: kfree_def)

end
