(* ===== verification/Xtm_Rx_Ring.thy ===== *)
theory Xtm_Rx_Ring
  imports "HOL-Library.Multiset" Xtm_Ring Xtm_Request
begin

unbundle bit_operations_syntax

text \<open>
  The receive ring.  \<open>rx_ring_ok\<close> is its invariant: the descriptors with a buffer lie from
  \<open>pBdHead\<close> on, those without one from \<open>pBdTail\<close> on, and exactly the last
  descriptor has \<open>DMA_WRAP\<close>. \<open>rx_bufs\<close> are the buffers of a ring by their
  addresses.  Servicing the ring takes the buffer at its head, returning a buffer puts it at its tail.
\<close>

section \<open>Addresses\<close>

lemma virt_of_kseg0: "VIRT_TO_PHY (KSEG0ADDR a) = a AND 0x1fffffff"
proof -
  have "((a AND 0x1fffffff) OR 0x80000000) AND 0x1fffffff = (a AND 0x1fffffff) OR (0x80000000 AND 0x1fffffff)"
    by (simp add: bit.conj_disj_distrib2 and.assoc)
  then show ?thesis by (simp add: VIRT_TO_PHY_def KSEG0ADDR_def)
qed

lemma virt_to_phy_and [simp]: "VIRT_TO_PHY a AND 0x1fffffff = VIRT_TO_PHY a"
  by (simp add: VIRT_TO_PHY_def and.assoc)

lemma virt_to_phy_nonzero:
  assumes "0x80000000 < a" "a < 0xa0000000"
  shows "VIRT_TO_PHY a \<noteq> 0"
proof
  assume "VIRT_TO_PHY a = 0"
  have "word_of_int a AND (0x1fffffff :: u32) = take_bit 29 (word_of_int a)"
    by (simp add: take_bit_eq_mask mask_eq_exp_minus_1)
  then have "uint (take_bit 29 (word_of_int a :: u32)) = 0" using \<open>VIRT_TO_PHY a = 0\<close> by (simp add: VIRT_TO_PHY_def)
  then have "take_bit 29 (uint (word_of_int a :: u32)) = 0" by (simp add: unsigned_take_bit_eq)
  moreover have "uint (word_of_int a :: u32) = a" using assms unfolding uint_word_of_int by simp
  ultimately have "a mod 2 ^ 29 = 0" by (simp add: take_bit_eq_mod)
  then obtain k where "a = 2 ^ 29 * k" by auto
  then show False using assms by simp
qed

section \<open>The invariant of a receive ring\<close>

definition bufs :: "dma_desc list \<Rightarrow> u32 multiset" where
  "bufs bds = filter_mset (\<lambda>a. a \<noteq> 0) (image_mset bd_address (mset bds))"

definition rx_bufs :: "rxbdinfo \<Rightarrow> u32 multiset" where
  "rx_bufs r = bufs (rx_bds r)"

definition rx_slot :: "rxbdinfo \<Rightarrow> nat \<Rightarrow> nat" where
  "rx_slot r k = (pBdHead r + k) mod length (rx_bds r)"

definition rx_ring_ok :: "rxbdinfo \<Rightarrow> bool" where
  "rx_ring_ok r \<longleftrightarrow>
     pBdHead r < length (rx_bds r) \<and> wrap_ok (rx_bds r) \<and> pBdTail r = rx_slot r (size (rx_bufs r)) \<and>
     (\<forall>k<length (rx_bds r). bd_address (rx_bds r ! rx_slot r k) \<noteq> 0 \<longleftrightarrow> k < size (rx_bufs r)) \<and>
     (\<forall>b\<in>set (rx_bds r). bd_address b AND 0x1fffffff = bd_address b)"

lemma rx_ring_okD:
  assumes "rx_ring_ok r"
  shows "pBdHead r < length (rx_bds r)" "wrap_ok (rx_bds r)" "pBdTail r = rx_slot r (size (rx_bufs r))"
    "k < length (rx_bds r) \<Longrightarrow> bd_address (rx_bds r ! rx_slot r k) \<noteq> 0 \<longleftrightarrow> k < size (rx_bufs r)"
    "b \<in> set (rx_bds r) \<Longrightarrow> bd_address b AND 0x1fffffff = bd_address b"
    "rx_bds r \<noteq> []" "k < length (rx_bds r) \<Longrightarrow> rx_slot r k < length (rx_bds r)" "rx_slot r 0 = pBdHead r"
  using assms by (auto simp: rx_ring_ok_def rx_slot_def intro!: mod_less_divisor)

lemma bufs_update:
  assumes "i < length bds"
  shows "bufs (bds[i := b]) + (if bd_address (bds ! i) = 0 then {#} else {#bd_address (bds ! i)#})
         = bufs bds + (if bd_address b = 0 then {#} else {#bd_address b#})"
proof -
  obtain M where M: "mset bds = add_mset (bds ! i) M"
    using assms by (meson mset_add nth_mem_mset)
  then have "mset (bds[i := b]) = add_mset b M" using assms by (simp add: mset_update)
  then show ?thesis by (simp add: bufs_def M)
qed

lemma bufs_size: "size (bufs bds) \<le> length bds"
proof -
  have "size (bufs bds) \<le> size (image_mset bd_address (mset bds))" unfolding bufs_def by (rule size_filter_mset_lesseq)
  then show ?thesis by simp
qed

text \<open>The slots of a ring that moves its head, and of one that changes a descriptor.\<close>

lemma rx_slot_inj: "rx_slot r j = rx_slot r k \<Longrightarrow> j < length (rx_bds r) \<Longrightarrow> k < length (rx_bds r) \<Longrightarrow> j = k"
  unfolding rx_slot_def by (rule ring_inj)

definition rx_take :: "u16 \<Rightarrow> rxbdinfo \<Rightarrow> rxbdinfo" where
  "rx_take len r =
     r\<lparr>rx_bds := (rx_bds r)[pBdHead r :=
          \<lparr>bd_length = len, bd_status = bd_status (rx_bds r ! pBdHead r) AND DMA_WRAP, bd_address = 0\<rparr>],
       pBdHead := (if bd_status (rx_bds r ! pBdHead r) AND DMA_WRAP \<noteq> 0 then 0 else Suc (pBdHead r))\<rparr>"

lemma rx_take_ok:
  assumes ok: "rx_ring_ok r" and a: "bd_address (rx_bds r ! pBdHead r) \<noteq> 0"
  shows "rx_ring_ok (rx_take len r)" "rx_bufs r = add_mset (bd_address (rx_bds r ! pBdHead r)) (rx_bufs (rx_take len r))"
    "length (rx_bds (rx_take len r)) = length (rx_bds r)"
proof -
  let ?n = "length (rx_bds r)"
  note D = rx_ring_okD [OF ok]
  have n: "length (rx_bds (rx_take len r)) = ?n" by (simp add: rx_take_def)
  then show "length (rx_bds (rx_take len r)) = ?n" .
  have h: "pBdHead (rx_take len r) = Suc (pBdHead r) mod ?n"
    using D(1) wrap_okD [OF D(2,1)] by (simp add: rx_take_def)
  have sl: "rx_slot (rx_take len r) k = rx_slot r (Suc k)" for k
    unfolding rx_slot_def n h by (rule ring_Suc)
  show b: "rx_bufs r = add_mset (bd_address (rx_bds r ! pBdHead r)) (rx_bufs (rx_take len r))"
    using bufs_update [OF D(1), of "\<lparr>bd_length = len, bd_status = bd_status (rx_bds r ! pBdHead r) AND DMA_WRAP, bd_address = 0\<rparr>"] a
    by (simp add: rx_bufs_def rx_take_def)
  have sz: "size (rx_bufs r) = Suc (size (rx_bufs (rx_take len r)))" "size (rx_bufs r) \<le> ?n"
    using b bufs_size [of "rx_bds r"] by (simp_all add: rx_bufs_def)
  have "bd_address (rx_bds (rx_take len r) ! rx_slot r (Suc k)) \<noteq> 0 \<longleftrightarrow> k < size (rx_bufs (rx_take len r))" if k: "k < ?n" for k
  proof (cases "Suc k = ?n")
    case True
    then have "rx_slot r (Suc k) = pBdHead r" using D(1) by (simp add: rx_slot_def)
    then show ?thesis using sz True D(1) by (simp add: rx_take_def)
  next
    case False
    moreover have "rx_slot r (Suc k) \<noteq> rx_slot r 0" if "Suc k < ?n" using rx_slot_inj [of r "Suc k" 0] that by fastforce
    ultimately have "rx_slot r (Suc k) \<noteq> pBdHead r" using D(8) k by simp
    then show ?thesis using D(4) [of "Suc k"] False k sz by (simp add: rx_take_def)
  qed
  moreover have "wrap_ok (rx_bds (rx_take len r))"
    using wrap_ok_update [OF D(2,1)] by (simp add: rx_take_def and.assoc)
  moreover have "bd_address b AND 0x1fffffff = bd_address b" if "b \<in> set (rx_bds (rx_take len r))" for b
    using that D(5) by (auto simp: rx_take_def dest!: subsetD [OF set_update_subset_insert])
  moreover have "pBdTail (rx_take len r) = pBdTail r" by (simp add: rx_take_def)
  ultimately show "rx_ring_ok (rx_take len r)"
    using D(1,3) sz(1) unfolding rx_ring_ok_def n sl by (auto simp: h intro!: mod_less_divisor)
qed

definition rx_put :: "kernel \<Rightarrow> int \<Rightarrow> rxbdinfo \<Rightarrow> rxbdinfo" where
  "rx_put K p r =
     r\<lparr>rx_bds := (rx_bds r)[pBdTail r :=
          \<lparr>bd_length = word_of_int (RXBUF_SIZE K), bd_status = (bd_status (rx_bds r ! pBdTail r) AND DMA_WRAP) OR DMA_OWN,
           bd_address = VIRT_TO_PHY (p + RXBUF_HEAD_RESERVE)\<rparr>],
       pBdTail := (if bd_status (rx_bds r ! pBdTail r) AND DMA_WRAP \<noteq> 0 then 0 else Suc (pBdTail r))\<rparr>"

lemma rx_put_ok:
  assumes ok: "rx_ring_ok r" and f: "size (rx_bufs r) < length (rx_bds r)" and p: "VIRT_TO_PHY (p + RXBUF_HEAD_RESERVE) \<noteq> 0"
  shows "rx_ring_ok (rx_put K p r)" "rx_bufs (rx_put K p r) = add_mset (VIRT_TO_PHY (p + RXBUF_HEAD_RESERVE)) (rx_bufs r)"
    "length (rx_bds (rx_put K p r)) = length (rx_bds r)" "pBdTail r < length (rx_bds r)" "bd_address (rx_bds r ! pBdTail r) = 0"
proof -
  let ?n = "length (rx_bds r)" and ?m = "size (rx_bufs r)"
  note D = rx_ring_okD [OF ok]
  have t: "pBdTail r < ?n" "bd_address (rx_bds r ! pBdTail r) = 0" using D(3) D(7) [OF f] D(4) [OF f] by simp_all
  then show "pBdTail r < ?n" "bd_address (rx_bds r ! pBdTail r) = 0" by simp_all
  have n: "length (rx_bds (rx_put K p r)) = ?n" by (simp add: rx_put_def)
  then show "length (rx_bds (rx_put K p r)) = ?n" .
  have sl: "rx_slot (rx_put K p r) k = rx_slot r k" for k unfolding rx_slot_def n by (simp add: rx_put_def)
  show b: "rx_bufs (rx_put K p r) = add_mset (VIRT_TO_PHY (p + RXBUF_HEAD_RESERVE)) (rx_bufs r)"
    using bufs_update [OF t(1)] t(2) p by (simp add: rx_bufs_def rx_put_def)
  have tl: "pBdTail (rx_put K p r) = rx_slot r (Suc ?m)"
  proof -
    have "pBdTail (rx_put K p r) = Suc (pBdTail r) mod ?n" using t wrap_okD [OF D(2) t(1)] by (simp add: rx_put_def)
    then show ?thesis by (simp add: D(3) rx_slot_def mod_Suc_eq)
  qed
  have "bd_address (rx_bds (rx_put K p r) ! rx_slot r k) \<noteq> 0 \<longleftrightarrow> k < Suc ?m" if k: "k < ?n" for k
  proof (cases "k = ?m")
    case True
    then show ?thesis using t p D(3) by (simp add: rx_put_def)
  next
    case False
    then have "rx_slot r k \<noteq> pBdTail r" using rx_slot_inj [of r k ?m] k f D(3) by auto
    then show ?thesis using D(4) [OF k] False by (auto simp: rx_put_def)
  qed
  moreover have "wrap_ok (rx_bds (rx_put K p r))"
    using wrap_ok_update [OF D(2) t(1)] by (simp add: rx_put_def or_own_wrap and.assoc)
  moreover have "bd_address b AND 0x1fffffff = bd_address b" if "b \<in> set (rx_bds (rx_put K p r))" for b
    using that D(5) by (auto simp: rx_put_def dest!: subsetD [OF set_update_subset_insert])
  moreover have "pBdHead (rx_put K p r) = pBdHead r" by (simp add: rx_put_def)
  ultimately show "rx_ring_ok (rx_put K p r)"
    using D(1) unfolding rx_ring_ok_def n sl tl b by simp
qed

text \<open>The controller gives a descriptor back: it keeps the address and \<open>DMA_WRAP\<close>.\<close>

definition rx_dma_done :: "nat \<Rightarrow> u16 \<Rightarrow> u16 \<Rightarrow> rxbdinfo \<Rightarrow> rxbdinfo" where
  "rx_dma_done k st len r =
     r\<lparr>rx_bds := (rx_bds r)[k := (rx_bds r ! k)
          \<lparr>bd_length := len, bd_status := (st AND NOT (DMA_WRAP OR DMA_OWN)) OR (bd_status (rx_bds r ! k) AND DMA_WRAP)\<rparr>]\<rparr>"

lemma rx_dma_done_ok:
  assumes ok: "rx_ring_ok r" and k: "k < length (rx_bds r)"
  shows "rx_ring_ok (rx_dma_done k st len r)" "rx_bufs (rx_dma_done k st len r) = rx_bufs r"
    "length (rx_bds (rx_dma_done k st len r)) = length (rx_bds r)"
proof -
  note D = rx_ring_okD [OF ok]
  let ?r = "rx_dma_done k st len r"
  have n: "length (rx_bds ?r) = length (rx_bds r)" by (simp add: rx_dma_done_def)
  then show "length (rx_bds ?r) = length (rx_bds r)" .
  show b: "rx_bufs ?r = rx_bufs r"
    using bufs_update [OF k, of "rx_bds ?r ! k"] k by (simp add: rx_bufs_def rx_dma_done_def split: if_splits)
  have a: "bd_address (rx_bds ?r ! i) = bd_address (rx_bds r ! i)" if "i < length (rx_bds r)" for i
    using that by (cases "i = k") (simp_all add: rx_dma_done_def)
  have sl: "rx_slot ?r i = rx_slot r i" for i unfolding rx_slot_def n by (simp add: rx_dma_done_def)
  have "((st AND NOT (DMA_WRAP OR DMA_OWN)) OR (w AND DMA_WRAP)) AND DMA_WRAP = w AND DMA_WRAP" for w :: u16
    by (simp add: bit.conj_disj_distrib2 and.assoc)
  then have "wrap_ok (rx_bds ?r)" using wrap_ok_update [OF D(2) k] by (simp add: rx_dma_done_def)
  moreover have "bd_address b AND 0x1fffffff = bd_address b" if b: "b \<in> set (rx_bds ?r)" for b
  proof -
    obtain i where i: "i < length (rx_bds r)" "b = rx_bds ?r ! i" using b n by (auto simp: in_set_conv_nth)
    then show ?thesis using a D(5) [OF nth_mem [OF i(1)]] by simp
  qed
  moreover have "pBdHead ?r = pBdHead r" "pBdTail ?r = pBdTail r" by (simp_all add: rx_dma_done_def)
  ultimately show "rx_ring_ok ?r"
    using D(1,3,4) D(7) a unfolding rx_ring_ok_def n sl b by simp
qed

section \<open>The operations on a ring\<close>

lemma AssignRxBuffer_Some:
  assumes "AssignRxBuffer K i p s = Some s'" "RxBdInfos s ! i = Some r" "rx_ring_ok r" "size (rx_bufs r) < length (rx_bds r)"
    "VIRT_TO_PHY (p + RXBUF_HEAD_RESERVE) \<noteq> 0"
  shows "i < length (RxBdInfos s)" "RxBdInfos s' = (RxBdInfos s)[i := Some (rx_put K p r)]" "x_calls s' = x_calls s"
  using assms rx_put_ok(4,5) [OF assms(3-5)]
  by (auto simp: AssignRxBuffer_def dma_restart_def put_ring_def rx_put_def Let_def split: bind_splits if_splits)

lemma AssignRxBuffer_None:
  assumes "AssignRxBuffer K i p s = Some s'"
  shows "i < length (RxBdInfos s)" "RxBdInfos s ! i \<noteq> None"
  using assms by (auto simp: AssignRxBuffer_def split: bind_splits)

lemma rx_error_simps [simp]: "RxBdInfos (rx_error h s) = RxBdInfos s" "x_calls (rx_error h s) = x_calls s"
  by (simp_all add: rx_error_def)

definition cell_calls :: "xcall list \<Rightarrow> bool" where
  "cell_calls l \<longleftrightarrow> (\<forall>x\<in>set l. case x of Cell_received _ _ _ _ \<Rightarrow> True | _ \<Rightarrow> False)"

lemma ProcessRxCell_Some:
  assumes "ProcessRxCell K h i p s = Some s'"
  obtains s1 l where "RxBdInfos s1 = RxBdInfos s" "x_calls s1 = x_calls s @ l" "cell_calls l"
    "AssignRxBuffer K i (p - RXBUF_HEAD_RESERVE) s1 = Some s'"
proof -
  let ?F = "\<lambda>(ucCHdr :: u8) cell.
    (if ucCHdr AND CHDR_ERROR = 0 then
       (if cell_is_oam (ucCHdr AND CHDR_CT_MASK) then
          (if pfnOamHandler s \<noteq> 0 then x_call (Cell_received (pfnOamHandler s) h cell (pOamContext s)) s else s)
        else if cell_is_asm (ucCHdr AND CHDR_CT_MASK) then
          (if pfnAsmHandler s \<noteq> 0 then x_call (Cell_received (pfnAsmHandler s) h cell (pAsmContext s)) s else s)
        else s)
     else rx_error h s)"
  obtain ucCHdr cell where a: "AssignRxBuffer K i (p - RXBUF_HEAD_RESERVE) (?F ucCHdr cell) = Some s'"
    using assms unfolding ProcessRxCell_def Let_def by (auto split: bind_splits)
  have "RxBdInfos (?F ucCHdr cell) = RxBdInfos s" by (simp add: x_call_def)
  moreover have "\<exists>l. x_calls (?F ucCHdr cell) = x_calls s @ l \<and> cell_calls l"
    by (simp add: x_call_def cell_calls_def)
  ultimately show thesis using a that by blast
qed

lemma rx_deliver_Some:
  assumes "rx_deliver h i p len c s = Some s'"
  obtains pk where "RxBdInfos s' = RxBdInfos s" "x_calls s' = x_calls s @ [Netif_rx pk]" "rp_ring pk = i" "rp_head pk = p - RXBUF_HEAD_RESERVE"
  using assms unfolding rx_deliver_def
  by (auto simp: x_call_def split: list.splits bind_splits if_splits intro!: that)

lemma rx_service_Some:
  assumes s: "rx_service K i s = Some (b, s')" and ok: "\<And>r. RxBdInfos s ! i = Some r \<Longrightarrow> rx_ring_ok r"
  obtains (idle) "s' = s"
  | (packet) r len pk where "i < length (RxBdInfos s)" "RxBdInfos s ! i = Some r" "bd_address (rx_bds r ! pBdHead r) \<noteq> 0"
      "RxBdInfos s' = (RxBdInfos s)[i := Some (rx_take len r)]" "x_calls s' = x_calls s @ [Netif_rx pk]" "rp_ring pk = i"
      "VIRT_TO_PHY (rp_head pk + RXBUF_HEAD_RESERVE) = bd_address (rx_bds r ! pBdHead r)"
  | (reuse) r len p l where "i < length (RxBdInfos s)" "RxBdInfos s ! i = Some r" "bd_address (rx_bds r ! pBdHead r) \<noteq> 0"
      "RxBdInfos s' = (RxBdInfos s)[i := Some (rx_put K p (rx_take len r))]" "x_calls s' = x_calls s @ l" "cell_calls l"
      "VIRT_TO_PHY (p + RXBUF_HEAD_RESERVE) = bd_address (rx_bds r ! pBdHead r)"
proof -
  have i: "i < length (RxBdInfos s)" using s by (auto simp: rx_service_def split: bind_splits)
  show thesis
  proof (cases "RxBdInfos s ! i")
    case None
    then show ?thesis using s i idle by (simp add: rx_service_def)
  next
    case (Some r)
    have r: "rx_ring_ok r" by (rule ok [OF Some])
    note D = rx_ring_okD [OF r]
    let ?bd = "rx_bds r ! pBdHead r"
    let ?a = "bd_address ?bd"
    let ?h = "pDevCtxsByMatchId s ! unat (bd_status ?bd AND FSTAT_MATCH_ID_MASK)"
    show ?thesis
    proof (cases "bd_status ?bd AND DMA_OWN = 0 \<and> ?a \<noteq> 0")
      case False
      then show ?thesis using s i Some D(1) idle by (auto simp: rx_service_def Let_def)
    next
      case True
      then have a: "?a \<noteq> 0" by simp
      have reuse': thesis if as: "AssignRxBuffer K i (KSEG0ADDR ?a - RXBUF_HEAD_RESERVE) s1 = Some s2"
        "RxBdInfos s1 = (RxBdInfos s)[i := Some (rx_take len r)]" "x_calls s1 = x_calls s @ l" "cell_calls l"
        "RxBdInfos s' = RxBdInfos s2" "x_calls s' = x_calls s2" for s1 s2 l len
      proof -
        note T = rx_take_ok [OF r a, of len]
        have e: "VIRT_TO_PHY (KSEG0ADDR ?a - RXBUF_HEAD_RESERVE + RXBUF_HEAD_RESERVE) = ?a"
          using D(5) [OF nth_mem [OF D(1)]] by (simp add: virt_of_kseg0)
        have sz: "size (rx_bufs (rx_take len r)) < length (rx_bds (rx_take len r))"
          using T(2,3) bufs_size [of "rx_bds r"] by (simp add: rx_bufs_def)
        have g: "RxBdInfos s1 ! i = Some (rx_take len r)" using as(2) i by simp
        note A = AssignRxBuffer_Some [OF as(1) g T(1) sz, unfolded e, OF a]
        show thesis by (rule reuse [OF i Some a _ _ as(4) e]) (use A as in simp_all)
      qed
      let ?S = "\<lambda>len. put_ring i (rx_take len r) s"
      have S: "RxBdInfos (?S len) = (RxBdInfos s)[i := Some (rx_take len r)]" "x_calls (?S len) = x_calls s" for len
        by (simp_all add: put_ring_def)
      have C: "cell_calls []" by (simp add: cell_calls_def)
      consider (p) c len where "rx_deliver ?h i (KSEG0ADDR ?a) len c (?S len) = Some s'"
        | (c) len where "ProcessRxCell K ?h i (KSEG0ADDR ?a) (?S len) = Some s'"
        | (e) len s2 where "AssignRxBuffer K i (KSEG0ADDR ?a - RXBUF_HEAD_RESERVE) (?S len) = Some s2" "s' = s2 \<or> s' = rx_error ?h s2"
        using s i Some D(1) True unfolding rx_service_def Let_def rx_take_def
        by (auto split: bind_splits if_splits option.splits)
      then show ?thesis
      proof cases
        case (p c len)
        obtain pk where pk: "RxBdInfos s' = RxBdInfos (?S len)" "x_calls s' = x_calls (?S len) @ [Netif_rx pk]" "rp_ring pk = i"
          "rp_head pk = KSEG0ADDR ?a - RXBUF_HEAD_RESERVE" by (rule rx_deliver_Some [OF p]) (rule that)
        have "VIRT_TO_PHY (rp_head pk + RXBUF_HEAD_RESERVE) = ?a"
          using D(5) [OF nth_mem [OF D(1)]] by (simp add: virt_of_kseg0 pk(4))
        then show ?thesis by (rule packet [OF i Some a _ _ pk(3), rotated 2]) (simp_all add: pk S)
      next
        case (c len)
        obtain s1 l where l: "RxBdInfos s1 = RxBdInfos (?S len)" "x_calls s1 = x_calls (?S len) @ l" "cell_calls l"
          "AssignRxBuffer K i (KSEG0ADDR ?a - RXBUF_HEAD_RESERVE) s1 = Some s'" by (rule ProcessRxCell_Some [OF c]) (rule that)
        show ?thesis by (rule reuse' [OF l(4) _ _ l(3)]) (simp_all add: l S)
      next
        case (e len s2)
        then show ?thesis using reuse' [OF e(1) S(1) _ C] S(2) by auto
      qed
    qed
  qed
qed

section \<open>Ownership of the buffers\<close>

text \<open>
  The buffers the network stack holds, each as the ring it belongs to and the start of its memory, and
  the steps of the receive side: a turn of the tasklet, the two callbacks of the stack for a buffer and
  for a socket buffer, the interrupt, and the controller completing a descriptor it owns.
\<close>

type_synonym rx_config = "xtm_state \<times> (nat \<times> int) multiset"

fun delivered :: "xcall list \<Rightarrow> (nat \<times> int) multiset" where
  "delivered [] = {#}"
| "delivered (Netif_rx pk # l) = add_mset (rp_ring pk, rp_head pk) (delivered l)"
| "delivered (_ # l) = delivered l"

inductive rx_step :: "kernel \<Rightarrow> rx_config \<Rightarrow> rx_config \<Rightarrow> bool" for K :: kernel where
  service: "rx_service K i s = Some (b, s') \<Longrightarrow>
    rx_step K (s, out) (s', out + delivered (drop (length (x_calls s)) (x_calls s')))"
| data: "(i, p) \<in># out \<Longrightarrow> bcmxtmrt_freeskbordata K i skb p False s = Some s' \<Longrightarrow>
    rx_step K (s, out) (s', out - {#(i, p)#})"
| header: "bcmxtmrt_freeskbordata K i skb p True s = Some s' \<Longrightarrow> rx_step K (s, out) (s', out)"
| interrupt: "bcmxtmrt_rxisr i s = Some s' \<Longrightarrow> rx_step K (s, out) (s', out)"
| dma: "i < length (RxBdInfos s) \<Longrightarrow> RxBdInfos s ! i = Some r \<Longrightarrow> k < length (rx_bds r) \<Longrightarrow>
    bd_status (rx_bds r ! k) AND DMA_OWN \<noteq> 0 \<Longrightarrow>
    rx_step K (s, out) (put_ring i (rx_dma_done k st len r) (s\<lparr>x_mem := m\<rparr>), out)"

definition rx_out :: "(nat \<times> int) multiset \<Rightarrow> nat \<Rightarrow> u32 multiset" where
  "rx_out out i = image_mset (\<lambda>x. VIRT_TO_PHY (snd x + RXBUF_HEAD_RESERVE)) (filter_mset (\<lambda>x. fst x = i) out)"

definition rx_inv :: "(nat \<Rightarrow> u32 multiset) \<Rightarrow> rx_config \<Rightarrow> bool" where
  "rx_inv B c \<longleftrightarrow>
     (\<forall>i<length (RxBdInfos (fst c)). case RxBdInfos (fst c) ! i of
        None \<Rightarrow> rx_out (snd c) i = {#}
      | Some r \<Rightarrow> rx_ring_ok r \<and> length (rx_bds r) = size (B i) \<and> rx_bufs r + rx_out (snd c) i = B i \<and> 0 \<notin># B i)"

lemma rx_invD:
  assumes "rx_inv B (s, out)" "i < length (RxBdInfos s)" "RxBdInfos s ! i = Some r"
  shows "rx_ring_ok r" "length (rx_bds r) = size (B i)" "rx_bufs r + rx_out out i = B i" "0 \<notin># B i"
  using assms by (auto simp: rx_inv_def dest!: spec [of _ i])

lemma rx_inv_None: "rx_inv B (s, out) \<Longrightarrow> i < length (RxBdInfos s) \<Longrightarrow> RxBdInfos s ! i = None \<Longrightarrow> rx_out out i = {#}"
  by (auto simp: rx_inv_def dest!: spec [of _ i])

lemma rx_inv_cong: "RxBdInfos s' = RxBdInfos s \<Longrightarrow> rx_inv B (s', out) = rx_inv B (s, out)"
  by (simp only: rx_inv_def fst_conv snd_conv)

lemma rx_inv_update:
  assumes "rx_inv B (s, out)" "i < length (RxBdInfos s)" "RxBdInfos s ! i = Some r" "RxBdInfos s' = (RxBdInfos s)[i := Some r']"
    "rx_ring_ok r'" "length (rx_bds r') = length (rx_bds r)" "rx_bufs r' + rx_out out' i = rx_bufs r + rx_out out i"
    "\<And>j. j \<noteq> i \<Longrightarrow> rx_out out' j = rx_out out j"
  shows "rx_inv B (s', out')"
  unfolding rx_inv_def
proof (intro allI impI, goal_cases)
  case (1 j)
  show ?case
  proof (cases "j = i")
    case True
    then show ?thesis using assms rx_invD [OF assms(1-3)] by simp
  next
    case False
    then show ?thesis using 1 assms(4) assms(8) [OF False] rx_invD [OF assms(1), of j] rx_inv_None [OF assms(1), of j]
      by (auto split: option.split)
  qed
qed

lemma rx_out_add: "rx_out (add_mset (i, p) out) j = (if i = j then add_mset (VIRT_TO_PHY (p + RXBUF_HEAD_RESERVE)) (rx_out out j) else rx_out out j)"
  by (simp add: rx_out_def)

lemma rx_out_union: "rx_out (out + out') j = rx_out out j + rx_out out' j"
  by (simp add: rx_out_def)

lemma delivered_cells: "cell_calls l \<Longrightarrow> delivered l = {#}" "cell_calls l \<Longrightarrow> No_place i \<notin> set l"
  by (induction l rule: delivered.induct) (auto simp: cell_calls_def)

text \<open>What a step keeps besides the invariant.\<close>

definition rx_frame :: "xtm_state \<Rightarrow> xtm_state \<Rightarrow> bool" where
  "rx_frame s s' \<longleftrightarrow>
     (\<forall>j. count_list (x_calls s') (No_place j) = count_list (x_calls s) (No_place j)) \<and>
     map Option.is_none (RxBdInfos s') = map Option.is_none (RxBdInfos s)"

lemma rx_frame_update:
  "RxBdInfos s' = (RxBdInfos s)[i := Some r'] \<Longrightarrow> RxBdInfos s ! i = Some r \<Longrightarrow> x_calls s' = x_calls s @ l \<Longrightarrow>
   (\<And>j. No_place j \<notin> set l) \<Longrightarrow> rx_frame s s'"
  unfolding rx_frame_def by (cases "i < length (RxBdInfos s)") (auto simp: map_update list_update_same_conv not_less list_update_beyond)

lemma rx_step_inv:
  assumes st: "rx_step K c c'" and inv: "rx_inv B c"
  shows "rx_inv B c' \<and> rx_frame (fst c) (fst c')"
  using st
proof cases
    case (service i s b s' out)
    note inv' = inv [unfolded service(1)]
    have i: "i < length (RxBdInfos s)" using service(3) by (auto simp: rx_service_def split: bind_splits)
    show ?thesis
    proof (rule rx_service_Some [OF service(3)], goal_cases)
      case (1 r)
      then show ?case by (rule rx_invD(1) [OF inv' i])
    next
      case 2
      then show ?case using inv' by (simp add: service(1,2) rx_frame_def)
    next
      case (3 r len pk)
      note I = rx_invD [OF inv' i 3(2)] and T = rx_take_ok [OF rx_invD(1) [OF inv' i 3(2)] 3(3), of len]
      have d: "delivered (drop (length (x_calls s)) (x_calls s')) = {#(i, rp_head pk)#}" using 3(5,6) by simp
      have "rx_inv B (s', out + {#(i, rp_head pk)#})"
        by (rule rx_inv_update [OF inv' i 3(2,4) T(1,3)]) (simp_all add: T(2) 3(7) rx_out_add)
      then show ?case using rx_frame_update [OF 3(4,2,5)] d by (simp add: service(1,2))
    next
      case (4 r len p l)
      note I = rx_invD [OF inv' i 4(2)] and T = rx_take_ok [OF rx_invD(1) [OF inv' i 4(2)] 4(3), of len]
      have sz: "size (rx_bufs (rx_take len r)) < length (rx_bds (rx_take len r))"
        using T(2,3) bufs_size [of "rx_bds r"] by (simp add: rx_bufs_def)
      note P = rx_put_ok(1-3) [OF T(1) sz, of p K, unfolded 4(7), OF 4(3)]
      have "rx_inv B (s', out)"
        by (rule rx_inv_update [OF inv' i 4(2,4) P(1)]) (simp_all add: T(2,3) P(2,3))
      then show ?case using rx_frame_update [OF 4(4,2,5)] 4(5) delivered_cells [OF 4(6)] by (simp add: service(1,2))
    qed
  next
    case (data i p out skb s s')
    note inv' = inv [unfolded data(1)]
    have a: "AssignRxBuffer K i p s = Some s'" using data(4) by (simp add: bcmxtmrt_freeskbordata_def)
    obtain r where r: "i < length (RxBdInfos s)" "RxBdInfos s ! i = Some r" using AssignRxBuffer_None [OF a] by auto
    note I = rx_invD [OF inv' r]
    obtain out' where o': "out = add_mset (i, p) out'" using data(3) by (meson multi_member_split)
    let ?v = "VIRT_TO_PHY (p + RXBUF_HEAD_RESERVE)"
    have v: "B i = add_mset ?v (rx_bufs r + rx_out out' i)" using I(3) by (simp add: o' rx_out_add)
    then have nz: "?v \<noteq> 0" and sz: "size (rx_bufs r) < length (rx_bds r)" using I(2,4) by auto
    note A = AssignRxBuffer_Some [OF a r(2) I(1) sz nz] and P = rx_put_ok(1-3) [OF I(1) sz nz, of K]
    have "rx_inv B (s', out')"
      by (rule rx_inv_update [OF inv' r A(2) P(1,3)]) (simp_all add: P(2) o' rx_out_add)
    then show ?thesis using rx_frame_update [OF A(2) r(2), of "[]"] A(3) by (simp add: data(1,2) o')
  next
    case (header i skb p s s' out)
    then show ?thesis using inv rx_inv_cong [of s' s B out] by (auto simp: bcmxtmrt_freeskbordata_def rx_frame_def)
  next
    case (interrupt i s s' out)
    then show ?thesis using inv rx_inv_cong [of s' s B out] by (auto simp: bcmxtmrt_rxisr_def x_call_def Let_def rx_frame_def split: bind_splits)
  next
    case (dma i s r k out st len m)
    note inv' = inv [unfolded dma(1)]
    note I = rx_invD [OF inv' dma(3,4)]
    have "rx_inv B (put_ring i (rx_dma_done k st len r) (s\<lparr>x_mem := m\<rparr>), out)"
      by (rule rx_inv_update [OF inv' dma(3,4) _ rx_dma_done_ok(1,3) [OF I(1) dma(5)]])
        (simp_all add: put_ring_def rx_dma_done_ok(2) [OF I(1) dma(5)])
    then show ?thesis using rx_frame_update [OF _ dma(4), of _ _ "[]"] by (simp add: dma(1,2) put_ring_def)
  qed

section \<open>Initialization\<close>

text \<open>The memory \<open>kmalloc\<close> gives lies in the directly mapped segment of the processor.\<close>

definition kseg0_ok :: "kernel \<Rightarrow> bool" where
  "kseg0_ok K \<longleftrightarrow> (\<forall>n sz p b. kmem K n sz = Some (p, b) \<longrightarrow> 0x80000000 \<le> p \<and> p + sz \<le> 0xa0000000)"

definition rx_fresh :: "dma_desc \<Rightarrow> bool" where
  "rx_fresh b \<longleftrightarrow> bd_status b = DMA_OWN \<and> bd_address b \<noteq> 0 \<and> bd_address b AND 0x1fffffff = bd_address b"

lemma RXBUF_ALLOC_SIZE_ge:
  assumes "kernel_ok K"
  shows "1568 \<le> RXBUF_ALLOC_SIZE K"
proof -
  have c: "0 < SMP_CACHE_BYTES K" "0 < sizeof_skb_shared_info K" using assms by (simp_all add: kernel_ok_def)
  show ?thesis
    using round_up_ge(1) [OF c(1), of "1518 + 10 + 8"] round_up_ge(1) [OF c(1), of "RXBUF_HEAD_RESERVE + RXBUF_SIZE K + sizeof_skb_shared_info K"] c(2)
    by (simp add: RXBUF_ALLOC_SIZE_def RXBUF_SIZE_def)
qed

lemma rx_block_bds_fresh:
  assumes "kernel_ok K" "kseg0_ok K" "kmem K m (int n * RXBUF_ALLOC_SIZE K) = Some (p, c)" "b \<in> set (rx_block_bds K p n)"
  shows "rx_fresh b"
proof -
  obtain k where k: "k < n" "b = rx_block_bds K p n ! k" using assms(4) by (auto simp: in_set_conv_nth rx_block_bds_def)
  let ?R = "RXBUF_ALLOC_SIZE K"
  let ?a = "round_up 16 p + int k * ?R + RXBUF_HEAD_RESERVE"
  have R: "1568 \<le> ?R" by (rule RXBUF_ALLOC_SIZE_ge [OF assms(1)])
  have p: "0x80000000 \<le> p" "p + int n * ?R \<le> 0xa0000000" using assms(2,3) by (auto simp: kseg0_ok_def)
  have "(int k + 1) * ?R \<le> int n * ?R" using k R by (intro mult_right_mono) simp_all
  then have "int k * ?R + ?R \<le> int n * ?R" by (simp add: distrib_right)
  moreover have "0 \<le> int k * ?R" using R by simp
  moreover have "p \<le> round_up 16 p" "round_up 16 p \<le> p + 15" unfolding round_up_def by linarith+
  ultimately have "0x80000000 < ?a" "?a < 0xa0000000" using p R by linarith+
  then show ?thesis using virt_to_phy_nonzero [of ?a] k by (simp add: rx_fresh_def rx_block_bds_def)
qed

text \<open>Once the descriptors are given back, the loop does not return.\<close>

lemma rx_buf_loop_lost:
  assumes "n \<noteq> 0" "pRxBdMem s = 0"
  shows "rx_buf_loop K n j bds nRet s = None"
proof -
  have "n = 0 \<or> pRxBdMem s \<noteq> 0" if "rx_buf_loop K n j bds nRet s = Some y" for y
  proof (induction K n j bds nRet s y rule: rx_buf_loop.raw_induct)
    case (1 f K n j bds nRet s y)
    show ?case
    proof (rule ccontr)
      assume c: "\<not> (n = 0 \<or> pRxBdMem s \<noteq> 0)"
      then show False using 1(2) by (auto simp: kmalloc_def Let_def split: option.splits if_splits bind_splits dest!: 1(1))
    qed
  qed (rule that)
  then show ?thesis using assms by (cases "rx_buf_loop K n j bds nRet s") auto
qed

lemma rx_buf_loop_Some:
  assumes "rx_buf_loop K n j bds nRet s = Some y" "kernel_ok K" "kseg0_ok K" "\<forall>b\<in>set bds. rx_fresh b"
  shows "fst y = nRet \<and> (n = 0 \<or> pRxBdMem s \<noteq> 0) \<and> length (fst (snd y)) = length bds + n \<and> (\<forall>b\<in>set (fst (snd y)). rx_fresh b) \<and>
    (\<exists>m f bm rb. snd (snd y) = s\<lparr>k_allocs := m, k_freed := f, pBufMem := bm, pRxBdMem := rb\<rparr>)"
  using assms(2-4)
proof (induction K n j bds nRet s y rule: rx_buf_loop.raw_induct)
  case (1 f K n j bds nRet s y)
  show ?case
  proof (cases "n = 0")
    case True
    have "\<exists>m f bm rb. s = s\<lparr>k_allocs := m, k_freed := f, pBufMem := bm, pRxBdMem := rb\<rparr>"
      by (intro exI [of _ "k_allocs s"] exI [of _ "k_freed s"] exI [of _ "pBufMem s"] exI [of _ "pRxBdMem s"]) simp
    moreover have "y = (nRet, bds, s)" using 1(2) True by simp
    ultimately show ?thesis using True 1(5) by simp
  next
    case False
    define a where "a = (let N = nat (64 * 1024 div RXBUF_ALLOC_SIZE K) in if N < n then N else n)"
    note B = 1(2) [simplified False if_False Let_def, folded a_def [unfolded Let_def], unfolded kmalloc_def]
    show ?thesis
    proof (cases "kmem K (k_allocs s) (int a * RXBUF_ALLOC_SIZE K)")
      case None
      obtain s2 where "f K n j bds (- ENOMEM) s2 = Some y" "pRxBdMem s2 = 0" using B None by auto
      then show ?thesis using 1(1) [of K n j bds "- ENOMEM" s2 y] 1(3-5) False by simp
    next
      case (Some pc)
      obtain p c where pc: "pc = (p, c)" by (cases pc)
      let ?s = "s\<lparr>k_allocs := Suc (k_allocs s), pBufMem := (pBufMem s)[j := p]\<rparr>"
      have a: "a \<le> n" by (simp add: a_def Let_def)
      have r: "f K (n - a) (Suc j) (bds @ rx_block_bds K p a) nRet ?s = Some y" "pRxBdMem s \<noteq> 0"
        using B Some pc by (auto split: bind_splits)
      have "\<forall>b\<in>set (bds @ rx_block_bds K p a). rx_fresh b"
        using 1(5) rx_block_bds_fresh [OF 1(3,4) Some [unfolded pc]] by auto
      from 1(1) [OF r(1) 1(3,4) this] show ?thesis using a r(2) by (auto simp: rx_block_bds_def)
    qed
  qed
qed (rule assms(1))

lemma length_rx_rings [simp]: "length (rx_rings sizes base bds) = length sizes"
  by (induction sizes base bds rule: rx_rings.induct) simp_all

lemma rx_rings_nth:
  "i < length sizes \<Longrightarrow> rx_rings sizes base bds ! i =
     (if sizes ! i = 0 then None
      else Some (rx_ring (base + 8 * int (sum_list (take i sizes))) (take (sizes ! i) (drop (sum_list (take i sizes)) bds))))"
proof (induction sizes base bds arbitrary: i rule: rx_rings.induct)
  case (2 n ns base bds)
  then show ?case by (cases i) (auto simp: ac_simps distrib_left)
qed simp

lemma rx_ring_fresh_ok:
  assumes "bds \<noteq> []" "\<forall>b\<in>set bds. rx_fresh b"
  shows "rx_ring_ok (rx_ring base bds)" "length (rx_bds (rx_ring base bds)) = length bds" "size (rx_bufs (rx_ring base bds)) = length bds"
    "0 \<notin># rx_bufs (rx_ring base bds)" "list_all (\<lambda>b. bd_status b AND DMA_OWN \<noteq> 0) (rx_bds (rx_ring base bds))"
proof -
  let ?r = "rx_ring base bds"
  let ?n = "length bds"
  show n: "length (rx_bds ?r) = ?n" by (simp add: rx_ring_def)
  have f: "bd_address b \<noteq> 0" "bd_address b AND 0x1fffffff = bd_address b" if "b \<in> set (rx_bds ?r)" for b
    using that assms last_in_set [OF assms(1)]
    by (auto simp: rx_ring_def rx_fresh_def dest!: subsetD [OF set_update_subset_insert])
  have "filter_mset (\<lambda>a. a \<noteq> 0) (image_mset bd_address (mset (rx_bds ?r))) = image_mset bd_address (mset (rx_bds ?r))"
    using f(1) by (auto simp: filter_mset_eq_conv)
  then show sz: "size (rx_bufs ?r) = ?n" using n by (simp add: rx_bufs_def bufs_def)
  show "0 \<notin># rx_bufs ?r" by (simp add: rx_bufs_def bufs_def)
  show "list_all (\<lambda>b. bd_status b AND DMA_OWN \<noteq> 0) (rx_bds ?r)"
    using assms last_in_set [OF assms(1)]
    by (auto simp: list_all_iff rx_ring_def rx_fresh_def dest!: subsetD [OF set_update_subset_insert])
  have "bd_status (rx_bds ?r ! i) AND DMA_WRAP \<noteq> 0 \<longleftrightarrow> Suc i = ?n" if "i < ?n" for i
  proof (cases "Suc i = ?n")
    case True
    have "bd_status (last bds) = DMA_OWN" using assms last_in_set [OF assms(1)] by (auto simp: rx_fresh_def)
    moreover have "i = ?n - 1" using True by simp
    ultimately show ?thesis using that by (simp add: rx_ring_def)
  next
    case False
    have "bd_status (bds ! i) = DMA_OWN" using assms(2) that by (auto simp: rx_fresh_def)
    then show ?thesis using False that by (simp add: rx_ring_def)
  qed
  then have "wrap_ok (rx_bds ?r)" by (simp add: wrap_ok_def n)
  moreover have "bd_address (rx_bds ?r ! rx_slot ?r k) \<noteq> 0" if "k < ?n" for k
  proof -
    have "rx_slot ?r k < length (rx_bds ?r)" using that n by (auto simp: rx_slot_def intro!: mod_less_divisor)
    then show ?thesis by (intro f(1) nth_mem)
  qed
  moreover have "pBdHead ?r = 0" "pBdTail ?r = 0" by (simp_all add: rx_ring_def)
  ultimately show "rx_ring_ok ?r" using assms(1) f(2) unfolding rx_ring_ok_def n sz by (simp add: rx_slot_def n)
qed

lemma DoGlobInitReq_0:
  assumes "DoGlobInitReq K sizes s = Some (0, s')" "kernel_ok K" "kseg0_ok K" "sum_list sizes < 2 ^ 32"
  obtains base bds s1 where "s' = init_dma sizes base bds s1" "length bds = sum_list sizes" "\<forall>b\<in>set bds. rx_fresh b"
    "x_calls s1 = x_calls s" "ulDrvState s = XTMRT_UNINITIALIZED"
proof -
  have n: "nat (u32 (int (sum_list sizes))) = sum_list sizes" using assms(4) by (simp add: u32_def)
  obtain bds s1 s2 where l: "rx_buf_loop K (sum_list sizes) 0 [] 0 s1 = Some (0, bds, s2)" "x_calls s1 = x_calls s"
    "s' = init_dma sizes (round_up 16 (pRxBdMem s1)) bds s2" "ulDrvState s = XTMRT_UNINITIALIZED"
    using assms(1) unfolding DoGlobInitReq_def Let_def n kmalloc_def
    by (auto split: bind_splits if_splits option.splits prod.splits)
  have "length bds = sum_list sizes" "\<forall>b\<in>set bds. rx_fresh b" "x_calls s2 = x_calls s1"
    using rx_buf_loop_Some [OF l(1) assms(2,3)] by auto
  then show thesis using that l(2-4) by simp
qed

lemma sum_list_take_le:
  fixes xs :: "nat list"
  shows "i < length xs \<Longrightarrow> sum_list (take i xs) + xs ! i \<le> sum_list xs"
proof -
  assume i: "i < length xs"
  have "sum_list xs = sum_list (take (Suc i) xs) + sum_list (drop (Suc i) xs)" by (metis append_take_drop_id sum_list_append)
  then show ?thesis using i by (simp add: take_Suc_conv_app_nth)
qed

lemma init_rings:
  assumes "length bds = sum_list sizes" "\<forall>b\<in>set bds. rx_fresh b" "i < length sizes" "sizes ! i \<noteq> 0"
  obtains r where "rx_rings sizes base bds ! i = Some r" "rx_ring_ok r" "length (rx_bds r) = sizes ! i" "size (rx_bufs r) = sizes ! i"
    "0 \<notin># rx_bufs r" "list_all (\<lambda>b. bd_status b AND DMA_OWN \<noteq> 0) (rx_bds r)"
proof -
  let ?b = "take (sizes ! i) (drop (sum_list (take i sizes)) bds)"
  have l: "length ?b = sizes ! i" using sum_list_take_le [OF assms(3)] assms(1) by simp
  have "?b \<noteq> []" using l assms(4) by auto
  moreover have "\<forall>b\<in>set ?b. rx_fresh b" using assms(2) by (auto dest!: in_set_takeD in_set_dropD)
  ultimately show thesis using rx_ring_fresh_ok [of ?b] l assms(4) rx_rings_nth [OF assms(3), of base bds] that by simp
qed

lemma init_dma_inv:
  assumes "length bds = sum_list sizes" "\<forall>b\<in>set bds. rx_fresh b"
  shows "rx_inv (\<lambda>i. case rx_rings sizes base bds ! i of None \<Rightarrow> {#} | Some r \<Rightarrow> rx_bufs r) (init_dma sizes base bds s, {#})"
  unfolding rx_inv_def
proof (intro allI impI, goal_cases)
  case (1 i)
  then have i: "i < length sizes" by (simp add: init_dma_def)
  show ?case
  proof (cases "sizes ! i = 0")
    case True
    then show ?thesis using i by (simp add: init_dma_def rx_rings_nth rx_out_def)
  next
    case False
    show ?thesis
      by (rule init_rings [OF assms i False, of base]) (simp add: init_dma_def rx_out_def)
  qed
qed

lemma rx_steps_inv:
  assumes "(rx_step K)\<^sup>*\<^sup>* c c'" "rx_inv B c"
  shows "rx_inv B c' \<and> rx_frame (fst c) (fst c')"
  using assms
proof (induction rule: rtranclp_induct)
  case base
  then show ?case by (simp add: rx_frame_def)
next
  case (step c1 c2)
  then show ?case using rx_step_inv [OF step(2)] by (auto simp: rx_frame_def)
qed

text \<open>Enough memory lets the loop over the data buffers finish.\<close>

definition kmem_upto :: "kernel \<Rightarrow> int \<Rightarrow> bool" where
  "kmem_upto K M \<longleftrightarrow> (\<forall>n sz. sz \<le> M \<longrightarrow> kmem K n sz \<noteq> None)"

lemma rx_buf_loop_succeeds:
  assumes "kernel_ok K" "kmem_upto K M" "64 * 1024 \<le> M" "0 < nat (64 * 1024 div RXBUF_ALLOC_SIZE K)"
  shows "n \<le> (length (pBufMem s) - j) * nat (64 * 1024 div RXBUF_ALLOC_SIZE K) \<Longrightarrow> pRxBdMem s \<noteq> 0 \<Longrightarrow>
    \<exists>bds' s'. rx_buf_loop K n j bds nRet s = Some (nRet, bds', s')"
proof (induction n arbitrary: j bds s rule: less_induct)
  case (less n)
  let ?N = "nat (64 * 1024 div RXBUF_ALLOC_SIZE K)"
  show ?case
  proof (cases "n = 0")
    case True
    then show ?thesis by (subst rx_buf_loop.simps) simp
  next
    case False
    define a where "a = (if ?N < n then ?N else n)"
    have "int a * RXBUF_ALLOC_SIZE K \<le> M"
    proof -
      have R: "0 < RXBUF_ALLOC_SIZE K" using RXBUF_ALLOC_SIZE_ge [OF assms(1)] by simp
      have "a \<le> ?N" by (simp add: a_def)
      moreover have "0 \<le> 64 * 1024 div RXBUF_ALLOC_SIZE K" using R by (simp add: pos_imp_zdiv_nonneg_iff)
      ultimately have "int a \<le> 64 * 1024 div RXBUF_ALLOC_SIZE K" by linarith
      then have "int a * RXBUF_ALLOC_SIZE K \<le> (64 * 1024 div RXBUF_ALLOC_SIZE K) * RXBUF_ALLOC_SIZE K"
        using R by (intro mult_right_mono) simp_all
      also have "\<dots> \<le> 64 * 1024"
        using div_mult_mod_eq [of "64 * 1024" "RXBUF_ALLOC_SIZE K"] pos_mod_sign [OF R, of "64 * 1024"] by linarith
      finally show ?thesis using assms(3) by simp
    qed
    then obtain p c where m: "kmem K (k_allocs s) (int a * RXBUF_ALLOC_SIZE K) = Some (p, c)"
      using assms(2) unfolding kmem_upto_def by (metis option.exhaust surj_pair)
    let ?s = "s\<lparr>k_allocs := Suc (k_allocs s), pBufMem := (pBufMem s)[j := p]\<rparr>"
    have j: "j < length (pBufMem s)" using less(2) False by (cases "j < length (pBufMem s)") simp_all
    have e: "rx_buf_loop K n j bds nRet s = rx_buf_loop K (n - a) (Suc j) (bds @ rx_block_bds K p a) nRet ?s"
      using m j less(3) False unfolding rx_buf_loop.simps [of K n j bds nRet s] Let_def a_def [symmetric] kmalloc_def by simp
    have "0 < a" using False assms(4) by (simp add: a_def)
    moreover have "n - a \<le> (length (pBufMem s) - Suc j) * ?N"
    proof (cases "?N < n")
      case True
      have "(length (pBufMem s) - j) * ?N = ?N + (length (pBufMem s) - Suc j) * ?N"
        using j by (metis Suc_diff_Suc mult_Suc)
      then show ?thesis using less(2) unfolding a_def if_P [OF True] by linarith
    qed (simp add: a_def)
    ultimately show ?thesis using less(1) [of "n - a" ?s "Suc j" "bds @ rx_block_bds K p a"] less(3) False unfolding e by simp
  qed
qed

lemma DoGlobInitReq_succeeds:
  assumes K: "kernel_ok K" "kseg0_ok K" "kmem_upto K M" "64 * 1024 \<le> M" "RXBUF_ALLOC_SIZE K \<le> 64 * 1024"
    and s: "ulDrvState s = XTMRT_UNINITIALIZED" "length (pBufMem s) = MAX_BUFMEM_BLOCKS"
    and n: "sum_list sizes \<le> MAX_BUFMEM_BLOCKS * nat (64 * 1024 div RXBUF_ALLOC_SIZE K)"
      "int (sum_list sizes) * SKB_ALIGNED_SIZE K \<le> M" "M < 2 ^ 32"
  obtains base bds s' where "DoGlobInitReq K sizes s = Some (0, init_dma sizes base bds s')" "length bds = sum_list sizes"
    "\<forall>b\<in>set bds. rx_fresh b" "length (pFreeRxSkbList s') = length (pFreeRxSkbList s) + sum_list sizes"
proof -
  let ?n = "sum_list sizes"
  have N: "0 < nat (64 * 1024 div RXBUF_ALLOC_SIZE K)"
    using K(5) RXBUF_ALLOC_SIZE_ge [OF K(1)] by (simp add: pos_imp_zdiv_pos_iff)
  have A: "16 \<le> SKB_ALIGNED_SIZE K"
    using K(1) dvd_imp_le_int [of "SKB_ALIGNED_SIZE K" 16] round_up_ge [of 16 "sizeof_sk_buff K"]
    by (simp add: SKB_ALIGNED_SIZE_def kernel_ok_def)
  have "int ?n * 16 \<le> int ?n * SKB_ALIGNED_SIZE K" using A by (intro mult_left_mono) simp_all
  then have b: "int ?n * 8 + 16 \<le> M" "0 \<le> int ?n * SKB_ALIGNED_SIZE K" "int ?n < 2 ^ 32" using n(2,3) K(4) by linarith+
  have u: "nat (u32 (int ?n)) = ?n" "u32 (int ?n * SKB_ALIGNED_SIZE K) = int ?n * SKB_ALIGNED_SIZE K" "u32 (int ?n * 8 + 16) = int ?n * 8 + 16"
    using b n(2,3) by (simp_all add: u32_id)
  obtain p1 c1 where p1: "kmem K (k_allocs s) (int ?n * SKB_ALIGNED_SIZE K) = Some (p1, c1)"
    using K(3) n(2) unfolding kmem_upto_def by (metis option.exhaust surj_pair)
  obtain p2 c2 where p2: "kmem K (Suc (k_allocs s)) (int ?n * 8 + 16) = Some (p2, c2)"
    using K(3) b(1) unfolding kmem_upto_def by (metis option.exhaust surj_pair)
  define s2 where "s2 = s\<lparr>pRxSkbMem := p1, pFreeRxSkbList := rx_skb_chain K p1 ?n @ pFreeRxSkbList s,
    k_allocs := Suc (Suc (k_allocs s)), pRxBdMem := p2\<rparr>"
  have "pRxBdMem s2 \<noteq> 0" "length (pBufMem s2) = 16" using K(1) p2 s(2) by (auto simp: kernel_ok_def s2_def)
  then obtain bds s3 where l: "rx_buf_loop K ?n 0 [] 0 s2 = Some (0, bds, s3)"
    using rx_buf_loop_succeeds [OF K(1,3,4) N, of ?n s2 0 "[]" 0] n(1) by auto
  have B: "length bds = ?n" "\<forall>b\<in>set bds. rx_fresh b" "pFreeRxSkbList s3 = pFreeRxSkbList s2"
    using rx_buf_loop_Some [OF l K(1,2)] by auto
  let ?base = "round_up 16 p2"
  have r: "DoGlobInitReq K sizes s = Some (0, init_dma sizes ?base bds s3)"
    using s(1) p1 p2 l unfolding DoGlobInitReq_def Let_def u kmalloc_def by (simp add: s2_def u)
  then show thesis using that [OF _ B(1,2)] B(3) by (simp add: s2_def rx_skb_chain_def)
qed

end
