(* ===== verification/Xtm_Properties.thy ===== *)
theory Xtm_Properties
  imports Xtm_Link Xtm_Rx_Ring
begin

text \<open>
  Properties of the ATM/PTM network driver: what goes out for a packet and for a cell, where the
  transmit queues lie in memory, the address of a received cell, the MAC addresses of its devices, and
  the error paths of its requests.
\<close>

section \<open>A concrete device\<close>

text \<open>
  A kernel whose allocations never fail, a device with one transmit queue of two entries, and a packet
  of one byte with the given headroom.
\<close>

definition demo_kernel :: kernel where
  "demo_kernel = \<lparr>kmem = \<lambda>n sz. Some (0x80100000 + 0x10000 * int n, \<lambda>_. 0), sizeof_sk_buff = 256, sizeof_skb_shared_info = 160,
     sizeof_net_device = 512, sizeof_dev_context = 1024, SMP_CACHE_BYTES = 32\<rparr>"

definition demo_queue :: transmit_queue_id where
  "demo_queue = \<lparr>tq_ulPortId = 1, tq_ulPtmPriority = 0, tq_ulSubPriority = 0, tq_ulQueueSize = 2, tq_ulQueueIndex = 0\<rparr>"

definition demo_create :: "u32 \<Rightarrow> create_device" where
  "demo_create ht = \<lparr>cd_ConnAddr = \<lparr>ulTrafficType = 1, ulPortMask = 1, usVpi = 0, usVci = 35\<rparr>, cd_ulHeaderType = ht, cd_ulFlags = 0\<rparr>"

definition demo_ctx :: "u32 \<Rightarrow> dev_context" where
  "demo_ctx ht = (new_context (demo_create ht) 1 [2, 0, 0, 0, 0, 0])
     \<lparr>ulLinkState := LINK_UP, ulTxQInfosSize := 1, ucTxVcid := 1, pTxQMem := 0x80100000,
      TxQInfos := (replicate 16 txq_zero)[0 := new_queue demo_queue 0x80100000],
      pTxPriorities := set_priority 0 0 0 (replicate 4 (replicate 8 None))\<rparr>"

definition demo_state :: "u32 \<Rightarrow> xtm_state" where
  "demo_state ht = \<lparr>k_allocs = 0, k_freed = [], k_skb_freed = [], x_devs = [1 \<mapsto> demo_ctx ht], x_mac = None, x_mem = (\<lambda>_. 0),
     x_calls = [], pDevCtxs = 1 # replicate 15 0, pDevCtxsByMatchId = replicate 128 0, x_controller = 0,
     x_tx_dma = replicate 16 \<lparr>ch_cfg = 0, ch_intStat = 0, ch_intMask = 0, ch_maxBurst = 0\<rparr>,
     x_rx_dma = replicate 4 \<lparr>ch_cfg = 0, ch_intStat = 0, ch_intMask = 0, ch_maxBurst = 0\<rparr>,
     x_tx_base = replicate 16 0, x_rx_base = replicate 4 0, pRxBdMem = 0, RxBdInfos = replicate 4 None,
     pRxSkbMem = 0, pFreeRxSkbList = [], pBufMem = replicate 16 0, ulIntEnableMask = 0, pfnOamHandler = 0,
     pOamContext = 0, pfnAsmHandler = 0, pAsmContext = 0, ulDrvState = XTMRT_RUNNING\<rparr>"

definition demo_skb :: sk_buff where
  "demo_skb = \<lparr>sk_at = 0x1000, sk_head = 0x2000, sk_data = 0x2002, sk_tail = 0x2003, sk_end = 0x2004, sk_len = 1,
     sk_mem = [0, 0, 0x45, 0], sk_priority = 0, sk_nfmark = 0, sk_protocol = 0x800\<rparr>"

lemma demo_kernel_ok: "kernel_ok demo_kernel" "kmem_ok demo_kernel"
proof -
  have "(0x80100000 + 0x10000 * int n) mod 4 = 0" for n
  proof -
    have e: "0x80100000 + 0x10000 * int n = 4 * (0x20040000 + 0x4000 * int n)" by simp
    show ?thesis unfolding e by (rule mod_mult_self1_is_0)
  qed
  then show "kernel_ok demo_kernel" by (auto simp: kernel_ok_def demo_kernel_def)
  show "kmem_ok demo_kernel" by (simp add: kmem_ok_def demo_kernel_def)
qed

lemma demo_ctx_ok: "ht \<le> 4 \<Longrightarrow> ctx_ok (demo_ctx ht)"
proof -
  have "queue_ok (new_queue demo_queue 0x80100000)"
    using new_queue_ok [of demo_queue "0x80100000"]
    by (simp add: queue_ok_def demo_queue_def) (simp add: new_queue_def demo_queue_def Let_def)
  then show "ht \<le> 4 \<Longrightarrow> ctx_ok (demo_ctx ht)"
    by (auto simp: ctx_ok_def demo_ctx_def new_context_def demo_create_def set_priority_def numeral_eq_Suc)
qed

lemma demo_hdr4: "rfc2684_hdr 4 = [0, 0]"
  by (simp add: rfc2684_hdr_def ulHdrLens_def ucHdrs_def)

lemma demo_skb_ok: "skb_wf demo_skb" "skb_bytes demo_skb = Some [0x45]"
  by (simp_all add: demo_skb_def skb_wf_def skb_bytes_def skb_headroom_def mem_read_def)

section \<open>Sending\<close>

text \<open>
  C6.  Sending a packet implements a queue: the packets the DMA controller has completed leave the front
  of every queue and are released; when there is room in the packet's queue, exactly one packet is
  appended to it, with the header of the device, padded to 60 bytes and aligned, and it is counted;
  otherwise the packet is released and an error is counted.  Nothing else of the device, of other
  devices or of the receive side changes.
\<close>

theorem bcmxtmrt_xmit_fifo:
  assumes "kernel_ok K" "kmem_ok K" "x_devs s h = Some c" "ctx_ok c" "length (x_tx_dma s) = MAX_TRANSMIT_QUEUES"
    "ulTxQInfosSize c \<noteq> 0" "skb_wf skb" "skb_bytes skb = Some bs"
  shows "\<exists>s' c' l. bcmxtmrt_xmit K (Some skb) h s = Some s' \<and> x_devs s' h = Some c' \<and> ctx_ok c' \<and> tx_ctx c c' \<and>
    tx_frame h s s' \<and> k_skb_freed s' = k_skb_freed s @ tx_freed c @ l \<and>
    (if length (tx_left c (tx_index c skb)) < ulQueueSize (TxQInfos c ! tx_index c skb)
     then DevStats c' = DevStats (count_packet c) \<and>
       (\<exists>k old. skb_bytes k = Some (tx_padded skb (tx_framed c bs)) \<and> sk_data k mod 4 = 0 \<and>
         (\<forall>i<MAX_TRANSMIT_QUEUES. tx_fifo (TxQInfos c' ! i) =
            (if i = tx_index c skb then tx_left c i @ [(k, tx_desc c k old)] else tx_left c i)))
     else DevStats c' = DevStats (count_error c) \<and> (\<forall>i<MAX_TRANSMIT_QUEUES. tx_fifo (TxQInfos c' ! i) = tx_left c i))"
proof (rule bcmxtmrt_xmit_cases [OF assms(1,3,4,7,8,5,6)], goal_cases)
  case 1
  then show ?thesis using assms(2) by simp
next
  case queued: (2 s' c' k l old)
  have q: "\<exists>k old. skb_bytes k = Some (tx_padded skb (tx_framed c bs)) \<and> sk_data k mod 4 = 0 \<and>
      (\<forall>i<MAX_TRANSMIT_QUEUES. tx_fifo (TxQInfos c' ! i) =
         (if i = tx_index c skb then tx_left c i @ [(k, tx_desc c k old)] else tx_left c i))"
    by (intro exI [of _ k] exI [of _ old] conjI) (rule queued(9) [OF assms(2)] queued(10) [OF assms(2)] queued(8))+
  show ?thesis
    by (intro exI [of _ s'] exI [of _ c'] exI [of _ l] conjI) (use queued(1-7,12) q in simp_all)
next
  case full: (3 s' c' l k)
  show ?thesis
    by (intro exI [of _ s'] exI [of _ c'] exI [of _ "l @ [sk_at k]"] conjI) (use full in simp_all)
qed

theorem bcmxtmrt_xmit_fifo_witness:
  "\<exists>s' c' k. bcmxtmrt_xmit demo_kernel (Some demo_skb) 1 (demo_state 4) = Some s' \<and> x_devs s' 1 = Some c' \<and>
     map fst (tx_fifo (TxQInfos c' ! 0)) = [k] \<and> skb_bytes k = Some ([0, 0, 0x45] @ replicate 57 0)"
proof -
  have c: "x_devs (demo_state 4) 1 = Some (demo_ctx 4)" "length (x_tx_dma (demo_state 4)) = 16" by (simp_all add: demo_state_def)
  have n: "ulTxQInfosSize (demo_ctx 4) \<noteq> 0" by (simp add: demo_ctx_def)
  have i: "tx_index (demo_ctx 4) demo_skb = 0" by (simp add: tx_index_def tx_queue_def demo_skb_def)
  have q: "TxQInfos (demo_ctx 4) ! 0 = new_queue demo_queue 0x80100000" by (simp add: demo_ctx_def numeral_eq_Suc)
  have l: "tx_left (demo_ctx 4) 0 = []" unfolding tx_left_def q by (simp add: new_queue_ok(2) demo_queue_def)
  have z: "ulQueueSize (new_queue demo_queue 0x80100000) = 2" by (simp add: new_queue_def demo_queue_def Let_def)
  have f: "tx_padded demo_skb (tx_framed (demo_ctx 4) [0x45]) = [0, 0, 0x45] @ replicate 57 0"
    using demo_hdr4 by (simp add: tx_padded_def tx_framed_def is_atm_cell_def demo_skb_def demo_ctx_def new_context_def demo_create_def
        pad60_def)
  have ok: "ctx_ok (demo_ctx 4)" by (rule demo_ctx_ok) simp
  show ?thesis
    using bcmxtmrt_xmit_fifo [OF demo_kernel_ok c(1) ok c(2) n demo_skb_ok] unfolding i q l z f
    by (auto simp: l)
qed

text \<open>
  C10.  The header of RFC 2684 is put in front of a packet, which is then padded to 60 bytes, or the packet
  is given up because an allocation failed; no other outcome is possible.  For routed IP the header has
  only seven of its eight bytes.
\<close>

theorem AddRfc2684Hdr_frame:
  assumes "kernel_ok K" "ht \<in> {1, 2, 3, 4}" "skb_wf skb" "skb_bytes skb = Some bs"
  shows "\<exists>r m l. AddRfc2684Hdr K ht skb s = Some (r, s\<lparr>k_allocs := m, k_skb_freed := k_skb_freed s @ l\<rparr>) \<and>
    (case r of
       None \<Rightarrow> \<not> kmem_ok K
     | Some k \<Rightarrow> skb_wf k \<and> skb_same k skb \<and>
         skb_bytes k = Some (pad60
           ((if ht = 1 then [0xAA, 0xAA, 0x03, 0x00, 0x80, 0xC2, 0x00, 0x07, 0x00, 0x00]
             else if ht = 2 then [0xAA, 0xAA, 0x03, 0x00, 0x00, 0x00, 0x08]
             else if ht = 3 then [0xFE, 0xFE, 0x03, 0xCF] else [0x00, 0x00]) @ bs)))"
proof -
  have ht: "ht \<le> 4" using assms(2) by auto
  have h: "rfc2684_hdr ht = (if ht = 1 then [0xAA, 0xAA, 0x03, 0x00, 0x80, 0xC2, 0x00, 0x07, 0x00, 0x00]
      else if ht = 2 then [0xAA, 0xAA, 0x03, 0x00, 0x00, 0x00, 0x08]
      else if ht = 3 then [0xFE, 0xFE, 0x03, 0xCF] else [0x00, 0x00])"
    using assms(2) by (auto simp: rfc2684_hdr_def ulHdrLens_def ucHdrs_def)
  show ?thesis
  proof (rule AddRfc2684Hdr_cases [OF assms(1) ht assms(3,4), of s], goal_cases)
    case (1 m l)
    then show ?thesis by (intro exI [of _ None] exI [of _ m] exI [of _ l]) (simp add: kst_after_def)
  next
    case (2 k m l)
    then show ?thesis by (intro exI [of _ "Some k"] exI [of _ m] exI [of _ l]) (simp add: kst_after_def h)
  qed
qed

theorem AddRfc2684Hdr_frame_witness:
  "\<exists>k s'. AddRfc2684Hdr demo_kernel 2 demo_skb (demo_state 2) = Some (Some k, s') \<and>
     skb_bytes k = Some ([0xAA, 0xAA, 0x03, 0x00, 0x00, 0x00, 0x08, 0x45] @ replicate 52 0)"
proof -
  have "(2 :: u32) \<in> {1, 2, 3, 4}" by simp
  from AddRfc2684Hdr_frame [OF demo_kernel_ok(1) this demo_skb_ok, of "demo_state 2"]
  show ?thesis using demo_kernel_ok(2) by (auto simp: pad60_def split: option.splits)
qed

section \<open>Cells\<close>

lemma cell_protocol_atm: "(cell_protocol ct OR SKB_PROTO_ATM_CELL) AND NOT FSTAT_CT_MASK = SKB_PROTO_ATM_CELL"
  by (simp add: cell_protocol_def)

lemma first_priority_index:
  "first_priority xs i = of_nat (case first_index (\<lambda>x. x \<noteq> None) xs of None \<Rightarrow> 0 | Some p \<Rightarrow> i + p)"
  by (induction xs i rule: first_priority.induct) (auto split: option.splits)

text \<open>
  The queue of a cell.  Its priority is the lowest one for which the port of the cell has a queue.  When
  this is one of 1 to 4 the queue of this priority in the first row of the table is taken, whatever the
  port of the cell is, and the first queue otherwise.
\<close>

definition cell_queue :: "dev_context \<Rightarrow> nat \<Rightarrow> nat" where
  "cell_queue c port =
     (case first_index (\<lambda>x. x \<noteq> None) (pTxPriorities c ! port) of
        None \<Rightarrow> 0
      | Some p \<Rightarrow> if 1 \<le> p \<and> p \<le> 4 then (case pTxPriorities c ! 0 ! p of None \<Rightarrow> 0 | Some i \<Rightarrow> i) else 0)"

lemma tx_index_cell:
  assumes "ctx_ok c" "port < MAX_PHY_PORTS" "sk_nfmark k = 0" "sk_priority k = first_priority (pTxPriorities c ! port) 0"
  shows "tx_index c k = cell_queue c port"
proof (cases "first_index (\<lambda>x. x \<noteq> None) (pTxPriorities c ! port)")
  case None
  then show ?thesis using assms(3,4) by (simp add: tx_index_def tx_queue_def cell_queue_def first_priority_index)
next
  case (Some p)
  then have "p < 8" using first_index_Some ctx_okD(7) [OF assms(1,2)] by metis
  then have u: "unat (of_nat p :: u32) = p" by (simp add: unat_of_nat)
  then have "(of_nat p :: u32) \<le> 4 \<longleftrightarrow> p \<le> 4" "1 \<le> (of_nat p :: u32) \<longleftrightarrow> 1 \<le> p" by (simp_all add: word_le_nat_alt)
  then show ?thesis using assms(3,4) Some u by (simp add: tx_index_def tx_queue_def cell_queue_def first_priority_index)
qed

lemma alloc_skb_nfmark: "alloc_skb K n s = (Some k, s') \<Longrightarrow> sk_nfmark k = 0"
  by (auto simp: alloc_skb_def Let_def split: prod.splits option.splits)

lemma cell_skb:
  assumes K: "kernel_ok K" "kmem_ok K" and d: "48 \<le> length d"
  obtains skb k m where "dev_alloc_skb K 48 s = (Some skb, kst_after m [] s)"
    "skb_write (sk_data skb) (take 48 d) (skb\<lparr>sk_priority := p, sk_tail := sk_tail skb + 48, sk_len := sk_len skb + 48\<rparr>) = Some k"
    "skb_wf (k\<lparr>sk_protocol := pr\<rparr>)" "skb_bytes (k\<lparr>sk_protocol := pr\<rparr>) = Some (take 48 d)" "sk_nfmark k = 0" "sk_priority k = p"
proof (rule alloc_skb_cases [OF K(1), of 64 s], goal_cases)
  case 1
  then show ?case by simp
next
  case (2 m)
  then show ?case using K(2) by simp
next
  case (3 b m)
  define skb where "skb = skb_reserve 16 b"
  define k0 where "k0 = skb\<lparr>sk_priority := p, sk_tail := sk_tail skb + 48, sk_len := sk_len skb + 48\<rparr>"
  have e: "dev_alloc_skb K 48 s = (Some skb, kst_after m [] s)"
    using 3(2) by (simp add: dev_alloc_skb_def skb_def kst_after_fold)
  have wf: "skb_wf k0" using 3 by (simp add: k0_def skb_def skb_reserve_def skb_wf_def)
  have l: "length (take 48 d) = 48" using d by simp
  obtain x where x: "skb_write (sk_data k0) (take 48 d) k0 = Some (k0\<lparr>sk_mem := x\<rparr>)" "length x = length (sk_mem k0)"
    "mem_write (sk_data k0 - sk_head k0) (take 48 d) (sk_mem k0) = Some x"
    by (rule skb_write_wf [OF wf, of "sk_data k0" "take 48 d"])
      (use wf l 3 in \<open>auto simp: skb_wf_def k0_def skb_def skb_reserve_def\<close>)
  have r: "mem_read (sk_data k0 - sk_head k0) 48 x = Some (take 48 d)" using mem_read_write_same [OF x(3)] l by simp
  have n: "sk_len k0 = 48" using 3(5) by (simp add: k0_def skb_def skb_reserve_def)
  have "skb_wf (k0\<lparr>sk_mem := x, sk_protocol := pr\<rparr>)" using wf x(2) by (simp add: skb_wf_def)
  moreover have "skb_bytes (k0\<lparr>sk_mem := x, sk_protocol := pr\<rparr>) = Some (take 48 d)"
    using r n by (simp add: skb_bytes_def skb_headroom_def)
  moreover have "sk_data k0 = sk_data skb" "sk_nfmark k0 = 0" "sk_priority k0 = p"
    using alloc_skb_nfmark 3(2) by (simp_all add: k0_def skb_def skb_reserve_def)
  ultimately show ?case using that [OF e, of "k0\<lparr>sk_mem := x\<rparr>"] x(1) by (simp add: k0_def)
qed

lemma DoSendCellReq_xmit:
  assumes K: "kernel_ok K" "kmem_ok K" and c: "x_devs s h = Some c" "ctx_ok c" "ulLinkState c = LINK_UP"
    and port: "unat (ulPortMask (ConnAddr cell)) < MAX_PHY_PORTS" and d: "48 \<le> length (ucData cell)"
  obtains k m where "DoSendCellReq K h cell s = do { s \<leftarrow> bcmxtmrt_xmit K (Some k) h (kst_after m [] s); Some (0, s) }"
    "skb_wf k" "skb_bytes k = Some (take 48 (ucData cell))" "is_atm_cell k"
    "tx_index c k = cell_queue c (unat (ulPortMask (ConnAddr cell)))"
proof -
  let ?pr = "cell_protocol (ucCircuitType cell) OR SKB_PROTO_ATM_CELL"
  obtain skb k m where k: "dev_alloc_skb K 48 s = (Some skb, kst_after m [] s)"
    "skb_write (sk_data skb) (take 48 (ucData cell))
       (skb\<lparr>sk_priority := first_priority (pTxPriorities c ! unat (ulPortMask (ConnAddr cell))) 0,
            sk_tail := sk_tail skb + 48, sk_len := sk_len skb + 48\<rparr>) = Some k"
    "skb_wf (k\<lparr>sk_protocol := ?pr\<rparr>)" "skb_bytes (k\<lparr>sk_protocol := ?pr\<rparr>) = Some (take 48 (ucData cell))"
    "sk_nfmark k = 0" "sk_priority k = first_priority (pTxPriorities c ! unat (ulPortMask (ConnAddr cell))) 0"
    by (rule cell_skb [OF K d]) (rule that)
  have "DoSendCellReq K h cell s = do { s \<leftarrow> bcmxtmrt_xmit K (Some (k\<lparr>sk_protocol := ?pr\<rparr>)) h (kst_after m [] s); Some (0, s) }"
    using c port k(1,2) ctx_okD(6) [OF c(2)] by (simp add: DoSendCellReq_def Let_def)
  moreover have "tx_index c (k\<lparr>sk_protocol := ?pr\<rparr>) = cell_queue c (unat (ulPortMask (ConnAddr cell)))"
    by (rule tx_index_cell [OF c(2) port]) (use k(5,6) in simp_all)
  ultimately show thesis using that k(3,4) cell_protocol_atm by (simp add: is_atm_cell_def)
qed

text \<open>
  C39.  Sending a cell on a device whose link is up and that has queues, when there is memory.  The cell
  joins the end of the queue \<open>cell_queue\<close> and is counted as sent, or it is dropped and counted as
  an error when this queue is full; the other queues only lose what was sent.  The queue is looked up
  among those of the first port, also for a cell of another one.  On a device whose RFC 2684 header
  is made in software the cell goes out with this header in front and padding behind, i.e. not as
  the 48 bytes it was given.  A cell for the second line, whose port masks are 4 and 8, makes the
  driver read behind its table of queues, because the mask is used as the index.
\<close>

theorem DoSendCellReq_frame:
  assumes "kernel_ok K" "kmem_ok K" "x_devs s h = Some c" "ctx_ok c" "ulLinkState c = LINK_UP"
    "length (x_tx_dma s) = MAX_TRANSMIT_QUEUES" "ulTxQInfosSize c \<noteq> 0" "length (ucData cell) = CELL_SIZE"
    and port: "port = unat (ulPortMask (ConnAddr cell))"
  shows "if port < MAX_PHY_PORTS
    then \<exists>s' c'. DoSendCellReq K h cell s = Some (0, s') \<and> x_devs s' h = Some c' \<and> ctx_ok c' \<and> tx_frame h s s' \<and>
      (if length (tx_left c (cell_queue c port)) < ulQueueSize (TxQInfos c ! cell_queue c port)
       then DevStats c' = DevStats (count_packet c) \<and>
         (\<exists>k old. skb_bytes k = Some (tx_framed c (take CELL_PAYLOAD_SIZE (ucData cell))) \<and>
           (\<forall>i<MAX_TRANSMIT_QUEUES. tx_fifo (TxQInfos c' ! i) =
              (if i = cell_queue c port then tx_left c i @ [(k, tx_desc c k old)] else tx_left c i)))
       else DevStats c' = DevStats (count_error c) \<and> (\<forall>i<MAX_TRANSMIT_QUEUES. tx_fifo (TxQInfos c' ! i) = tx_left c i))
    else DoSendCellReq K h cell s = None"
proof (cases "port < MAX_PHY_PORTS")
  case False
  have d: "48 \<le> length (ucData cell)" using assms(8) by simp
  obtain skb m where "dev_alloc_skb K 48 s = (Some skb, kst_after m [] s)"
    by (rule cell_skb [OF assms(1,2) d, of s]) (rule that)
  then show ?thesis
    using False port assms(3,5) ctx_okD(6) [OF assms(4)] by (simp add: DoSendCellReq_def Let_def c_assert_def)
next
  case True
  have d: "48 \<le> length (ucData cell)" using assms(8) by simp
  obtain k m where k: "DoSendCellReq K h cell s = do { s \<leftarrow> bcmxtmrt_xmit K (Some k) h (kst_after m [] s); Some (0, s) }"
    "skb_wf k" "skb_bytes k = Some (take 48 (ucData cell))" "is_atm_cell k" "tx_index c k = cell_queue c port"
    by (rule DoSendCellReq_xmit [OF assms(1-5) True [unfolded port] d]) (rule that, simp_all add: port)
  let ?s = "kst_after m [] s"
  have fr: "tx_frame h ?s s' = tx_frame h s s'" for s' by (simp add: tx_frame_def)
  have dev: "x_devs ?s h = Some c" "length (x_tx_dma ?s) = 16" using assms(3,6) by simp_all
  show ?thesis
  proof (rule bcmxtmrt_xmit_cases [OF assms(1) dev(1) assms(4) k(2,3) dev(2) assms(7)], goal_cases)
    case 1
    then show ?case using assms(2) by simp
  next
    case (2 s' c' k' l old)
    have b: "skb_bytes k' = Some (tx_framed c (take 48 (ucData cell)))" using 2(9) [OF assms(2)] k(4) by (simp add: tx_padded_def)
    have "DoSendCellReq K h cell s = Some (0, s')" using 2(1) k(1) by simp
    moreover have "tx_frame h s s'" using 2(5) fr by simp
    ultimately show ?case using True 2(2,3,7,8,12) [unfolded k(5)] b by auto
  next
    case (3 s' c' l k')
    have "DoSendCellReq K h cell s = Some (0, s')" using 3(1) k(1) by simp
    moreover have "tx_frame h s s'" using 3(5) fr by simp
    ultimately show ?case using True 3(2,3,7,8,9) [unfolded k(5)] by simp
  qed
qed

definition demo_cell :: xtm_cell where
  "demo_cell = \<lparr>ConnAddr = \<lparr>ulTrafficType = 1, ulPortMask = 1, usVpi = 0, usVci = 35\<rparr>, ucCircuitType = 1, ucData = replicate 53 0x6a\<rparr>"

theorem DoSendCellReq_frame_witness:
  "\<exists>s'. DoSendCellReq demo_kernel 1 demo_cell (demo_state 4) = Some (0, s') \<and>
     tx_framed (demo_ctx 4) (take CELL_PAYLOAD_SIZE (ucData demo_cell)) = [0, 0] @ replicate 48 0x6a @ replicate 10 0"
proof -
  have c: "x_devs (demo_state 4) 1 = Some (demo_ctx 4)" "length (x_tx_dma (demo_state 4)) = 16" by (simp_all add: demo_state_def)
  have n: "ulTxQInfosSize (demo_ctx 4) \<noteq> 0" "ulLinkState (demo_ctx 4) = LINK_UP" by (simp_all add: demo_ctx_def)
  have ok: "ctx_ok (demo_ctx 4)" by (rule demo_ctx_ok) simp
  have l: "length (ucData demo_cell) = 53" "unat (ulPortMask (ConnAddr demo_cell)) < 4" by (simp_all add: demo_cell_def)
  have "tx_framed (demo_ctx 4) (take 48 (ucData demo_cell)) = [0, 0] @ replicate 48 0x6a @ replicate 10 0"
    using demo_hdr4 by (simp add: tx_framed_def demo_ctx_def new_context_def demo_create_def demo_cell_def pad60_def)
  then show ?thesis
    using DoSendCellReq_frame [OF demo_kernel_ok c(1) ok n(2) c(2) n(1) l(1) refl] l(2) by (auto split: if_splits)
qed

section \<open>Network devices\<close>

lemma first_index_update:
  assumes "first_index P xs = Some i \<or> first_index P xs = None \<and> i < length xs" "P e"
  shows "first_index P (xs[i := e]) = Some i"
  using assms by (induction xs arbitrary: i) (auto split: nat.splits if_splits)

lemma kerSysGetMacAddress_twice:
  assumes "mac_wf m" "ulId \<noteq> MAC_ADDRESS_ANY" "kerSysGetMacAddress (Some m) buf ulId = Some (r, a, g)"
  shows "\<exists>g'. kerSysGetMacAddress g buf ulId = Some (r, a, g')"
proof (cases "mac_choice ulId (MacAddrs m)")
  case None
  then show ?thesis using assms kerSysGetMacAddress_eq [OF assms(1,2), of buf] by auto
next
  case (Some i)
  let ?m = "m\<lparr>MacAddrs := (MacAddrs m)[i := \<lparr>mac_ulId = ulId, chInUse = 1\<rparr>]\<rparr>"
  have g: "r = 0" "a = mac_addr (mac_ucaBaseMacAddr m) i" "g = Some ?m"
    using Some assms(3) kerSysGetMacAddress_eq [OF assms(1,2), of buf] by (auto simp: use_mac_def)
  have wf: "mac_wf ?m" using assms(1) by (simp add: mac_wf_def)
  have "first_index (\<lambda>m. mac_ulId m = ulId) (MacAddrs m) = Some i \<or>
      first_index (\<lambda>m. mac_ulId m = ulId) (MacAddrs m) = None \<and> i < length (MacAddrs m)"
    using Some mac_choice_Some [OF Some] by (auto simp: mac_choice_def or_first_def split: option.splits)
  then have "first_index (\<lambda>m. mac_ulId m = ulId) (MacAddrs ?m) = Some i"
    using first_index_update [of "\<lambda>m. mac_ulId m = ulId" "MacAddrs m" i "\<lparr>mac_ulId = ulId, chInUse = 1\<rparr>"] by simp
  then have "mac_choice ulId (MacAddrs ?m) = Some i" by (simp add: mac_choice_def or_first_def)
  then show ?thesis using kerSysGetMacAddress_eq [OF wf assms(2), of buf] g by (simp add: use_mac_def)
qed

lemma DoCreateDeviceReq_Some:
  assumes "DoCreateDeviceReq K 0 cnd s = Some (0, Some h, s')"
  obtains p a g m where "device_mac (x_mac s) 0 = Some (a, g)" "h = netdev_priv K p"
    "s' = put_dev h (new_context cnd p a) (s\<lparr>k_allocs := m, x_mac := g, pDevCtxs := first_free (pDevCtxs s) h\<rparr>)"
    "ulDrvState s \<noteq> XTMRT_UNINITIALIZED"
  using assms
  by (auto simp: DoCreateDeviceReq_def kmalloc_def Let_def split: if_splits option.splits prod.splits bind_splits intro!: that)

text \<open>
  Two network devices that are created one after the other have the same MAC address: the request for
  an address carries the interface index, which is still 0 because \<open>register_netdev\<close> has not been
  called, so that both devices have the same identifier in the table of addresses.
\<close>

lemma DoCreateDeviceReq_same_mac:
  assumes "x_mac s = Some m" "mac_wf m"
    "DoCreateDeviceReq K 0 cnd s = Some (0, Some h, s1)" "DoCreateDeviceReq K 0 cnd' s1 = Some (0, Some h', s2)" "h \<noteq> h'"
  shows "\<exists>c c'. x_devs s2 h = Some c \<and> x_devs s2 h' = Some c' \<and> dev_addr c = dev_addr c'"
proof -
  obtain p a g k where c1: "device_mac (x_mac s) 0 = Some (a, g)"
    "s1 = put_dev h (new_context cnd p a) (s\<lparr>k_allocs := k, x_mac := g, pDevCtxs := first_free (pDevCtxs s) h\<rparr>)"
    by (rule DoCreateDeviceReq_Some [OF assms(3)]) (rule that)
  obtain p' a' g' k' where c2: "device_mac (x_mac s1) 0 = Some (a', g')"
    "s2 = put_dev h' (new_context cnd' p' a') (s1\<lparr>k_allocs := k', x_mac := g', pDevCtxs := first_free (pDevCtxs s1) h'\<rparr>)"
    by (rule DoCreateDeviceReq_Some [OF assms(4)]) (rule that)
  let ?buf = "[0xff, 0, 0, 0, 0, 0]"
  obtain r b where b: "kerSysGetMacAddress (Some m) ?buf 0x10000000 = Some (r, b, g)"
      "a = (if b ! 0 AND 1 = 1 then [0x02, 0x10, 0x18, 0x02, 0x00, 0x01] else b)"
    using c1(1) assms(1) by (auto simp: device_mac_def split: bind_splits)
  have "\<exists>g'. kerSysGetMacAddress g ?buf 0x10000000 = Some (r, b, g')"
    by (rule kerSysGetMacAddress_twice [OF assms(2) _ b(1)]) simp
  moreover have "x_mac s1 = g" using c1(2) by simp
  ultimately have "a' = a" using c2(1) b(2) by (auto simp: device_mac_def)
  then show ?thesis using c1(2) c2(2) assms(5) by (simp add: new_context_def)
qed

definition demo_mac :: mac_info where
  "demo_mac = mac_table 4 [0x00, 0x10, 0x18, 0x01, 0x02, 0x03]"

lemma DoCreateDeviceReq_same_mac_witness:
  "\<exists>h h' s1 s2 c c'. DoCreateDeviceReq demo_kernel 0 (demo_create 1) (demo_state 1\<lparr>x_mac := Some demo_mac\<rparr>) = Some (0, Some h, s1) \<and>
     DoCreateDeviceReq demo_kernel 0 (demo_create 4) s1 = Some (0, Some h', s2) \<and> h \<noteq> h' \<and>
     x_devs s2 h = Some c \<and> x_devs s2 h' = Some c' \<and> dev_addr c = dev_addr c'"
proof -
  let ?s = "demo_state 1\<lparr>x_mac := Some demo_mac\<rparr>"
  let ?b = "[0x00, 0x10, 0x18, 0x01, 0x02, 0x03]"
  let ?e = "\<lparr>mac_ulId = 0, chInUse = 0\<rparr>"
  have m: "demo_mac = \<lparr>mac_ulNumMacAddrs = 4, mac_ucaBaseMacAddr = ?b, MacAddrs = [?e, ?e, ?e, ?e]\<rparr>"
  proof -
    have "mac_entries 4 = 4" by (simp add: mac_entries_eq)
    moreover have "replicate 4 ?e = [?e, ?e, ?e, ?e]" by (simp add: numeral_eq_Suc)
    ultimately show ?thesis by (simp add: demo_mac_def mac_table_def)
  qed
  have wf: "mac_wf demo_mac" by (simp add: m mac_wf_def)
  have mac: "device_mac (Some demo_mac) 0 = Some (?b, Some (demo_mac\<lparr>MacAddrs := [\<lparr>mac_ulId = 0x10000000, chInUse = 1\<rparr>, ?e, ?e, ?e]\<rparr>))"
    unfolding m by (simp add: device_mac_def kerSysGetMacAddress_def use_mac_def mac_addr_def mac_low_def be32_def)
  have mac2: "device_mac (Some (demo_mac\<lparr>MacAddrs := [\<lparr>mac_ulId = 0x10000000, chInUse = 1\<rparr>, ?e, ?e, ?e]\<rparr>)) 0 =
      Some (?b, Some (demo_mac\<lparr>MacAddrs := [\<lparr>mac_ulId = 0x10000000, chInUse = 1\<rparr>, ?e, ?e, ?e]\<rparr>))"
    unfolding m by (simp add: device_mac_def kerSysGetMacAddress_def use_mac_def mac_addr_def mac_low_def be32_def)
  have d: "kmalloc demo_kernel n s = (Some (0x80100000 + 0x10000 * int (k_allocs s), \<lambda>_. 0), s\<lparr>k_allocs := Suc (k_allocs s)\<rparr>)" for n and s :: xtm_state
    by (simp add: kmalloc_def demo_kernel_def)
  have z: "ulDrvState ?s \<noteq> 0" "k_allocs ?s = 0" by (simp_all add: demo_state_def)
  obtain h s1 where 1: "DoCreateDeviceReq demo_kernel 0 (demo_create 1) ?s = Some (0, Some h, s1)" "h = netdev_priv demo_kernel 0x80100000"
      "x_mac s1 = Some (demo_mac\<lparr>MacAddrs := [\<lparr>mac_ulId = 0x10000000, chInUse = 1\<rparr>, ?e, ?e, ?e]\<rparr>)" "ulDrvState s1 \<noteq> 0" "k_allocs s1 = 1"
    using z mac by (simp add: DoCreateDeviceReq_def d Let_def put_dev_def)
  obtain h' s2 where 2: "DoCreateDeviceReq demo_kernel 0 (demo_create 4) s1 = Some (0, Some h', s2)" "h' = netdev_priv demo_kernel 0x80110000"
    using 1 mac2 by (simp add: DoCreateDeviceReq_def d Let_def)
  have "h \<noteq> h'" unfolding 1(2) 2(2) by (simp add: netdev_priv_def round_up_def)
  moreover have "x_mac ?s = Some demo_mac" by simp
  ultimately show ?thesis using DoCreateDeviceReq_same_mac [OF _ wf 1(1) 2(1)] 1(1) 2(1) by blast
qed

section \<open>Link changes\<close>

text \<open>
  C9.  The descriptors and the socket buffer tables of all transmit queues lie inside of the block
  \<open>DoLinkUp\<close> allocates for them and do not overlap, although they are aligned in it,
  provided that the block itself is aligned to 8 bytes and its size does not exceed 32 bits.
\<close>

theorem DoLinkUp_memory:
  assumes "DoLinkUp K h lc s = Some (0, s')" "x_devs s h = Some c" "ctx_ok c" "length (x_tx_dma s) = MAX_TRANSMIT_QUEUES"
    and "\<forall>n sz p b. kmem K n sz = Some (p, b) \<longrightarrow> 8 dvd p"
    and "12 * int (sum_list (map tq_ulQueueSize (lc_queues lc))) + 16 * int (length (lc_queues lc)) < 2 ^ 32"
  shows "\<exists>c' b. x_devs s' h = Some c' \<and> kmem K (k_allocs s) (tx_mem_size (lc_queues lc)) = Some (pTxQMem c', b) \<and>
    (\<forall>i<length (lc_queues lc). valid_queue (lc_queues lc ! i) \<longrightarrow>
      pTxQMem c' \<le> pBds_at (TxQInfos c' ! i) \<and>
      pBds_at (TxQInfos c' ! i) + 8 * int (ulQueueSize (TxQInfos c' ! i)) \<le> ppSkbs_at (TxQInfos c' ! i) \<and>
      ppSkbs_at (TxQInfos c' ! i) + 4 * int (ulQueueSize (TxQInfos c' ! i)) \<le> pTxQMem c' + tx_mem_size (lc_queues lc) \<and>
      (\<forall>j<i. valid_queue (lc_queues lc ! j) \<longrightarrow>
        ppSkbs_at (TxQInfos c' ! j) + 4 * int (ulQueueSize (TxQInfos c' ! j)) \<le> pBds_at (TxQInfos c' ! i)))"
proof (rule DoLinkUp_Some [OF assms(1-4)], goal_cases)
  case (1 m)
  then show ?case by simp
next
  case (2 p b m ids qs' t d base c')
  let ?qs = "lc_queues lc"
  let ?P = "round_up 16 p"
  have p: "8 dvd p" by (rule assms(5) [rule_format, OF 2(2)])
  have P: "16 dvd ?P" "4 dvd ?P" "p \<le> ?P" "?P \<le> p + 8"
    using round_up_ge [of 16 p] round_up_le [of 16 8 p] p dvd_trans [of 4 16 ?P] by simp_all
  have q: "pBds_at (new_queue x a) = a" "ppSkbs_at (new_queue x a) = tx_skbs_at a (tq_ulQueueSize x)"
    "ulQueueSize (new_queue x a) = tq_ulQueueSize x" for x a
    by (simp_all add: new_queue_def Let_def)
  have "p \<le> pBds_at (TxQInfos c' ! i) \<and>
      pBds_at (TxQInfos c' ! i) + 8 * int (ulQueueSize (TxQInfos c' ! i)) \<le> ppSkbs_at (TxQInfos c' ! i) \<and>
      ppSkbs_at (TxQInfos c' ! i) + 4 * int (ulQueueSize (TxQInfos c' ! i)) \<le> p + tx_mem_size ?qs \<and>
      (\<forall>j<i. valid_queue (?qs ! j) \<longrightarrow>
        ppSkbs_at (TxQInfos c' ! j) + 4 * int (ulQueueSize (TxQInfos c' ! j)) \<le> pBds_at (TxQInfos c' ! i))"
    if i: "i < length ?qs" "valid_queue (?qs ! i)" for i
  proof -
    let ?a = "tx_starts ?P ?qs ! i"
    have e: "TxQInfos c' ! i = new_queue (?qs ! i) ?a" using 2(9) i by simp
    have a: "?P \<le> ?a" "4 dvd ?a" using tx_starts_ge [OF P(2) i(1)] by simp_all
    have "tx_next ?a (tq_ulQueueSize (?qs ! i)) \<le> p + tx_mem_size ?qs"
      using tx_starts_end16 [OF P(1) i] tx_need_size [OF assms(6) i] P(4) by simp
    moreover have "ppSkbs_at (TxQInfos c' ! j) + 4 * int (ulQueueSize (TxQInfos c' ! j)) \<le> ?a" if j: "j < i" "valid_queue (?qs ! j)" for j
    proof -
      have "TxQInfos c' ! j = new_queue (?qs ! j) (tx_starts ?P ?qs ! j)" using 2(9) i j by simp
      then show ?thesis using tx_starts_disjoint [OF P(2) j(1) i(1) j(2)] by (simp add: q tx_next_def)
    qed
    ultimately show ?thesis using a(1) P(3) tx_next_bounds(2) [OF a(2)] unfolding e by (simp add: q tx_next_def)
  qed
  moreover have "x_devs s' h = Some c'" "pTxQMem c' = p" using 2(8,5) by simp_all
  ultimately show ?case using 2(2) by blast
qed

definition demo_link :: link_change where
  "demo_link = \<lparr>lc_ulLinkState = LINK_UP, lc_ulLinkUsRate = 1000, lc_queues = [demo_queue\<lparr>tq_ulQueueSize := 3\<rparr>, demo_queue\<lparr>tq_ulSubPriority := 1, tq_ulQueueIndex := 1\<rparr>],
     lc_ucTxVcid = 1, lc_ucRxVcids = [5]\<rparr>"

theorem DoLinkUp_memory_witness:
  "\<exists>s' c'. DoLinkUp demo_kernel 1 demo_link (demo_state 4) = Some (0, s') \<and> x_devs s' 1 = Some c' \<and>
     ppSkbs_at (TxQInfos c' ! 0) + 4 * int (ulQueueSize (TxQInfos c' ! 0)) \<le> pBds_at (TxQInfos c' ! 1)"
proof -
  have c: "x_devs (demo_state 4) 1 = Some (demo_ctx 4)" "length (x_tx_dma (demo_state 4)) = 16" by (simp_all add: demo_state_def)
  have m: "length (pDevCtxsByMatchId (demo_state 4)) = 128" by (simp add: demo_state_def)
  have ok: "ctx_ok (demo_ctx 4)" by (rule demo_ctx_ok) simp
  have v: "valid_queue (lc_queues demo_link ! 0)" "valid_queue (lc_queues demo_link ! 1)" "length (lc_queues demo_link) = 2"
    by (simp_all add: valid_queue_def demo_link_def demo_queue_def PORTID_TO_PORT_def)
  have "\<exists>s'. DoLinkUp demo_kernel 1 demo_link (demo_state 4) = Some (0, s')"
    using c m ctx_okD(1) [OF ok]
    by (simp add: DoLinkUp_def demo_link_def kmalloc_def demo_kernel_def Let_def valid_queue_def demo_queue_def PORTID_TO_PORT_def c_assert_def) auto
  then obtain s' where s': "DoLinkUp demo_kernel 1 demo_link (demo_state 4) = Some (0, s')" by blast
  have "8 dvd p" if "kmem demo_kernel n sz = Some (p, b)" for n sz p b
  proof -
    have "p = 8 * (0x10020000 + 0x2000 * int n)" using that by (simp add: demo_kernel_def)
    then show ?thesis by simp
  qed
  then have a: "\<forall>n sz p b. kmem demo_kernel n sz = Some (p, b) \<longrightarrow> 8 dvd p" by blast
  have n: "12 * int (sum_list (map tq_ulQueueSize (lc_queues demo_link))) + 16 * int (length (lc_queues demo_link)) < 2 ^ 32"
    by (simp add: demo_link_def demo_queue_def)
  obtain c' where c': "x_devs s' 1 = Some c'" and q: "\<forall>i<length (lc_queues demo_link). valid_queue (lc_queues demo_link ! i) \<longrightarrow>
      (\<forall>j<i. valid_queue (lc_queues demo_link ! j) \<longrightarrow>
        ppSkbs_at (TxQInfos c' ! j) + 4 * int (ulQueueSize (TxQInfos c' ! j)) \<le> pBds_at (TxQInfos c' ! i))"
    using DoLinkUp_memory [OF s' c(1) ok c(2) a n] by blast
  show ?thesis using s' c' spec [OF q, of 1] v by simp
qed

text \<open>
  Two link down reports in a row release the memory of the transmit queues twice, because its
  address is kept in the context.
\<close>

lemma DoLinkStsChangedReq_down_twice:
  assumes "x_devs s h = Some c" "ctx_ok c" "length (x_tx_dma s) = MAX_TRANSMIT_QUEUES" "pTxQMem c \<noteq> 0" "h \<in> set (pDevCtxs s)"
    "lc_ulLinkState lc \<noteq> LINK_UP" "DoLinkStsChangedReq K now h lc s = Some (r, s1)"
  shows "\<exists>s2. DoLinkStsChangedReq K now' h lc s1 = Some (0, s2) \<and> k_freed s2 = k_freed s @ [pTxQMem c, pTxQMem c]"
proof -
  obtain s0 c0 where 0: "DoLinkDown K h lc s = Some (r, s0)" "x_devs s0 h = Some c0"
    "s1 = put_dev h (c0\<lparr>ulIfLastChange := now, ulIfSpeed := lc_ulLinkUsRate lc\<rparr>) s0"
    using assms(5-7) by (auto simp: DoLinkStsChangedReq_def split: bind_splits)
  obtain c' d b where d: "tx_ctx c c'" "ctx_ok c'" "length d = 16"
    "s0 = x_call (Netif_wake_queue h) (stop_running (put_dev h (ctx_down (lc_ulLinkState lc) c') (kfree (pTxQMem c)
       (s\<lparr>x_calls := x_calls s @ [Netif_stop_queue h], k_skb_freed := k_skb_freed s @ tx_freed c, x_tx_dma := d, x_tx_base := b,
          pDevCtxsByMatchId := clear_match h (pDevCtxsByMatchId s)\<rparr>))))"
    by (rule DoLinkDown_Some [OF 0(1) assms(1-3)]) (rule that)
  define c1 where "c1 = c0\<lparr>ulIfLastChange := now, ulIfSpeed := lc_ulLinkUsRate lc\<rparr>"
  have c0: "c0 = ctx_down (lc_ulLinkState lc) c'" using 0(2) d(4) by simp
  have c1: "ctx_ok c1" "ulTxQInfosSize c1 = 0" "pTxQMem c1 = pTxQMem c" "x_devs s1 h = Some c1" "length (x_tx_dma s1) = 16"
    "pDevCtxs s1 = pDevCtxs s" "k_freed s1 = k_freed s @ [pTxQMem c]"
    using ctx_down_ok [OF d(2), of "lc_ulLinkState lc"] tx_ctxD(1) [OF d(1)] assms(4) d(3)
    by (simp_all add: c1_def c0 0(3) d(4) kfree_def) (simp_all add: ctx_down_def ctx_ok_def)
  obtain s3 where s3: "DoLinkDown K h lc s1 = Some (0, s3)" using DoLinkDown_idle [OF c1(4,1,2)] by blast
  obtain c'' d' b' where d': "s3 = x_call (Netif_wake_queue h) (stop_running (put_dev h (ctx_down (lc_ulLinkState lc) c'') (kfree (pTxQMem c1)
       (s1\<lparr>x_calls := x_calls s1 @ [Netif_stop_queue h], k_skb_freed := k_skb_freed s1 @ tx_freed c1, x_tx_dma := d', x_tx_base := b',
          pDevCtxsByMatchId := clear_match h (pDevCtxsByMatchId s1)\<rparr>))))"
    by (rule DoLinkDown_Some [OF s3 c1(4,1,5)]) (rule that)
  have "k_freed s3 = k_freed s @ [pTxQMem c, pTxQMem c]" "x_devs s3 h = Some (ctx_down (lc_ulLinkState lc) c'')"
    using d' c1(3,7) assms(4) by (simp_all add: kfree_def)
  then show ?thesis using s3 assms(5,6) c1(6) by (simp add: DoLinkStsChangedReq_def)
qed

lemma DoLinkStsChangedReq_down_twice_witness:
  "\<exists>s1 s2. DoLinkStsChangedReq demo_kernel 0 1 (demo_link\<lparr>lc_ulLinkState := 2\<rparr>) (demo_state 4) = Some (0, s1) \<and>
     DoLinkStsChangedReq demo_kernel 0 1 (demo_link\<lparr>lc_ulLinkState := 2\<rparr>) s1 = Some (0, s2) \<and>
     k_freed s2 = [0x80100000, 0x80100000]"
proof -
  let ?lc = "demo_link\<lparr>lc_ulLinkState := 2\<rparr>"
  have c: "x_devs (demo_state 4) 1 = Some (demo_ctx 4)" "length (x_tx_dma (demo_state 4)) = 16" "1 \<in> set (pDevCtxs (demo_state 4))"
    "k_freed (demo_state 4) = []" by (simp_all add: demo_state_def)
  have p: "pTxQMem (demo_ctx 4) = 0x80100000" by (simp add: demo_ctx_def)
  have ok: "ctx_ok (demo_ctx 4)" by (rule demo_ctx_ok) simp
  have r: "tx_reclaim (new_queue demo_queue 0x80100000) [] = Some (new_queue demo_queue 0x80100000, [])"
    by (subst tx_reclaim.simps) (simp add: new_queue_def demo_queue_def Let_def)
  have q: "TxQInfos (demo_ctx 4) = new_queue demo_queue 0x80100000 # replicate 15 txq_zero" by (simp add: demo_ctx_def numeral_eq_Suc)
  have n: "pDma (new_queue demo_queue 0x80100000) = Some 0" by (simp add: new_queue_def demo_queue_def Let_def)
  have "\<exists>s0. DoLinkDown demo_kernel 1 ?lc (demo_state 4) = Some (0, s0) \<and> x_devs s0 1 \<noteq> None"
    using c r q n by (simp add: DoLinkDown_def bcmxtmrt_xmit_def demo_ctx_def Let_def)
  then obtain s1 where s1: "DoLinkStsChangedReq demo_kernel 0 1 ?lc (demo_state 4) = Some (0, s1)"
    using c(3) by (auto simp: DoLinkStsChangedReq_def demo_link_def)
  have l: "lc_ulLinkState ?lc \<noteq> 1" and z: "pTxQMem (demo_ctx 4) \<noteq> 0" by (simp_all add: p)
  show ?thesis using DoLinkStsChangedReq_down_twice [OF c(1) ok c(2) z c(3) l s1, of 0] s1 by (simp add: c p)
qed

section \<open>Received cells\<close>

text \<open>The circuit an ATM header of four bytes names: 12 bits of path and 16 bits of channel.\<close>

definition atm_vpi :: "(nat \<Rightarrow> u8) \<Rightarrow> int" where
  "atm_vpi p = 16 * uint (p 0) + uint (p 1) div 16"

definition atm_vci :: "(nat \<Rightarrow> u8) \<Rightarrow> int" where
  "atm_vci p = 4096 * (uint (p 1) mod 16) + 16 * uint (p 2) + uint (p 3) div 16"

lemma uint_byte: "0 \<le> uint (b :: u8)" "uint (b :: u8) < 256"
  using uint_lt2p [of b] by simp_all

lemma uint_and_15: "uint ((b :: u8) AND 0x0f) = uint b mod 16"
proof -
  have "b AND 0x0f = take_bit 4 b" by (simp add: take_bit_eq_mask mask_eq_exp_minus_1)
  then show ?thesis by (simp add: unsigned_take_bit_eq) (simp add: take_bit_eq_mod)
qed

lemma uint_drop_bit4: "uint (drop_bit 4 (w :: u16)) = uint w div 16"
  by (simp add: drop_bit_eq_div uint_div)

lemma uint_cell_vpi: "uint (cell_vpi b0 b1) = 16 * uint b0 + uint b1 div 16"
proof -
  have "push_bit 8 (ucast b0) + ucast b1 = (word_of_int (256 * uint b0 + uint b1) :: u16)"
    by (simp add: push_bit_eq_mult)
  moreover have "uint (word_of_int (256 * uint b0 + uint b1) :: u16) = 256 * uint b0 + uint b1"
    using uint_byte [of b0] uint_byte [of b1] unfolding uint_word_of_int by simp
  ultimately show ?thesis by (simp add: cell_vpi_def uint_drop_bit4)
qed

lemma uint_cell_vci: "uint (cell_vci b1 b2 b3) = 16 * uint b2 + uint b3 div 16"
proof -
  let ?m = "uint b1 mod 16" and ?z = "256 * uint b2 + uint b3"
  have z: "0 \<le> ?z" "?z < 65536" "0 \<le> ?m" "?m < 16" using uint_byte [of b2] uint_byte [of b3] by simp_all
  have "push_bit 16 (ucast (b1 AND 0x0f)) + push_bit 8 (ucast b2) + ucast b3 = (word_of_int (65536 * ?m + ?z) :: u32)"
    by (simp add: push_bit_eq_mult flip: uint_and_15)
  moreover have "uint (ucast (word_of_int (65536 * ?m + ?z) :: u32) :: u16) = ?z"
  proof -
    have "uint (word_of_int (65536 * ?m + ?z) :: u32) = 65536 * ?m + ?z" using z unfolding uint_word_of_int by simp
    then show ?thesis using z by (simp add: unsigned_ucast_eq take_bit_eq_mod)
  qed
  ultimately have "uint (cell_vci b1 b2 b3) = ?z div 16" unfolding cell_vci_def uint_drop_bit4 by (simp only:)
  then show ?thesis by simp
qed

text \<open>
  C38.  The path of a received cell is that of its ATM header, but the upper four bits of the channel
  are lost, since the cast to 16 bits is applied before the shift.  So the cells of every channel
  4096 k + 3 and 4096 k + 4 are taken for management cells.  On the other channels, the types 14 and 15
  index the table of circuit types behind its end.
\<close>

theorem rx_cell_address:
  "case rx_cell a p of
     None \<Rightarrow> atm_vci (p \<circ> Suc) mod 4096 \<notin> {3, 4} \<and> 14 \<le> uint (p 0) mod 16
   | Some (ucCHdr, cell) \<Rightarrow>
       uint (usVpi (ConnAddr cell)) = atm_vpi (p \<circ> Suc) \<and> uint (usVci (ConnAddr cell)) = atm_vci (p \<circ> Suc) mod 4096 \<and>
       ucCHdr = (if atm_vci (p \<circ> Suc) mod 4096 = 3 then CHDR_CT_OAM_F4_SEG
                 else if atm_vci (p \<circ> Suc) mod 4096 = 4 then CHDR_CT_OAM_F4_E2E else p 0) \<and>
       uint ucCHdr mod 16 < 14"
proof -
  have v: "atm_vci (p \<circ> Suc) mod 4096 = uint (cell_vci (p 2) (p 3) (p 4))"
  proof -
    let ?z = "16 * uint (p 3) + uint (p 4) div 16"
    have "0 \<le> ?z" "?z < 4096" using uint_byte [of "p 3"] uint_byte [of "p 4"] by linarith+
    then have "(4096 * (uint (p 2) mod 16) + ?z) mod 4096 = ?z" by simp
    moreover have "(p \<circ> Suc) 1 = p 2" "(p \<circ> Suc) 2 = p 3" "(p \<circ> Suc) 3 = p 4" by (simp_all add: numeral_eq_Suc)
    ultimately show ?thesis unfolding uint_cell_vci atm_vci_def by (simp only: add.assoc)
  qed
  have e: "w = n \<longleftrightarrow> uint w = uint n" for w n :: u16 by (rule word_uint_eq_iff)
  have t: "unat (b AND 0x0f) < 14 \<longleftrightarrow> uint b mod 16 < 14" for b :: u8
    using uint_and_15 [of b] by (metis of_nat_less_iff of_nat_numeral uint_nat)
  have l: "length ucCts = 14" by (simp add: ucCts_def)
  have w: "uint (cell_vpi (p 1) (p 2)) = atm_vpi (p \<circ> Suc)" by (simp add: uint_cell_vpi atm_vpi_def numeral_eq_Suc)
  show ?thesis by (simp add: rx_cell_def Let_def t l e v w [unfolded One_nat_def] c_assert_def not_less split: option.split)
qed

section \<open>Initialization and the receive rings\<close>

text \<open>
  C8.  With enough memory the first initialization succeeds: every configured receive queue gets a ring
  of exactly its size with a buffer in each descriptor, all owned by the controller, and there is a socket
  buffer for each of them.
\<close>

theorem DoGlobInitReq_rings:
  assumes K: "kernel_ok K" "kseg0_ok K" "kmem_upto K M" "64 * 1024 \<le> M" "RXBUF_ALLOC_SIZE K \<le> 64 * 1024"
    and s: "ulDrvState s = XTMRT_UNINITIALIZED" "length (pBufMem s) = MAX_BUFMEM_BLOCKS" "length sizes = MAX_RECEIVE_QUEUES"
    and n: "sum_list sizes \<le> MAX_BUFMEM_BLOCKS * nat (64 * 1024 div RXBUF_ALLOC_SIZE K)"
      "int (sum_list sizes) * SKB_ALIGNED_SIZE K \<le> M" "M < 2 ^ 32"
  shows "\<exists>s'. DoGlobInitReq K sizes s = Some (0, s') \<and> ulDrvState s' = XTMRT_INITIALIZED \<and>
    length (pFreeRxSkbList s') = length (pFreeRxSkbList s) + sum_list sizes \<and>
    (\<forall>i<MAX_RECEIVE_QUEUES. case RxBdInfos s' ! i of None \<Rightarrow> sizes ! i = 0
       | Some r \<Rightarrow> rx_ring_ok r \<and> length (rx_bds r) = sizes ! i \<and> size (rx_bufs r) = sizes ! i \<and>
           list_all (\<lambda>b. bd_status b AND DMA_OWN \<noteq> 0) (rx_bds r))"
proof -
  obtain base bds s1 where r: "DoGlobInitReq K sizes s = Some (0, init_dma sizes base bds s1)"
    and B: "length bds = sum_list sizes" "\<forall>b\<in>set bds. rx_fresh b"
    and f: "length (pFreeRxSkbList s1) = length (pFreeRxSkbList s) + sum_list sizes"
    by (rule DoGlobInitReq_succeeds [OF K s(1,2) n]) (rule that)
  have "case rx_rings sizes base bds ! i of None \<Rightarrow> sizes ! i = 0
       | Some r \<Rightarrow> rx_ring_ok r \<and> length (rx_bds r) = sizes ! i \<and> size (rx_bufs r) = sizes ! i \<and>
           list_all (\<lambda>b. bd_status b AND DMA_OWN \<noteq> 0) (rx_bds r)" if i: "i < 4" for i
  proof (cases "sizes ! i = 0")
    case True
    then show ?thesis using i s(3) by (simp add: rx_rings_nth)
  next
    case False
    have i': "i < length sizes" using i s(3) by simp
    show ?thesis by (rule init_rings [OF B(1,2) i' False, of base]) simp
  qed
  then show ?thesis using r f by (simp add: init_dma_def)
qed

definition demo_kseg :: kernel where
  "demo_kseg = \<lparr>kmem = \<lambda>n sz. if sz \<le> 0x100000 then Some (0x80100000 + 0x100000 * int (n mod 256), \<lambda>_. 0) else None,
     sizeof_sk_buff = 256, sizeof_skb_shared_info = 160, sizeof_net_device = 512, sizeof_dev_context = 1024, SMP_CACHE_BYTES = 32\<rparr>"

lemma demo_kseg_ok: "kernel_ok demo_kseg" "kseg0_ok demo_kseg" "kmem_upto demo_kseg 0x100000" "RXBUF_ALLOC_SIZE demo_kseg = 1728"
  "SKB_ALIGNED_SIZE demo_kseg = 256"
proof -
  have "(0x80100000 + 0x100000 * k) mod 4 = 0" for k :: int
  proof -
    have "0x80100000 + 0x100000 * k = 4 * (0x20040000 + 0x40000 * k)" by simp
    then show ?thesis using mod_mult_self1_is_0 by metis
  qed
  then show "kernel_ok demo_kseg" by (auto simp: kernel_ok_def demo_kseg_def split: if_splits)
  have "0x80000000 \<le> p \<and> p + sz \<le> 0xa0000000" if "kmem demo_kseg n sz = Some (p, b)" for n sz p b
  proof -
    have "p = 0x80100000 + 0x100000 * int (n mod 256)" "sz \<le> 0x100000" using that by (auto simp: demo_kseg_def split: if_splits)
    moreover have "0 \<le> int (n mod 256)" "int (n mod 256) \<le> 255" by simp_all
    ultimately show ?thesis by linarith
  qed
  then show "kseg0_ok demo_kseg" unfolding kseg0_ok_def by blast
  show "kmem_upto demo_kseg 0x100000" by (simp add: kmem_upto_def demo_kseg_def)
  show "RXBUF_ALLOC_SIZE demo_kseg = 1728" by (simp add: RXBUF_ALLOC_SIZE_def RXBUF_SIZE_def round_up_def demo_kseg_def)
  show "SKB_ALIGNED_SIZE demo_kseg = 256" by (simp add: SKB_ALIGNED_SIZE_def round_up_def demo_kseg_def)
qed

theorem DoGlobInitReq_rings_witness:
  "\<exists>s' r. DoGlobInitReq demo_kseg [2, 0, 0, 1] (bcmxtmrt_init (demo_state 4)) = Some (0, s') \<and> RxBdInfos s' ! 0 = Some r \<and> length (rx_bds r) = 2"
proof -
  let ?s = "bcmxtmrt_init (demo_state 4)"
  have s: "ulDrvState ?s = 0" "length (pBufMem ?s) = 16" "length [2, 0, 0, 1 :: nat] = 4" by (simp_all add: bcmxtmrt_init_def)
  have n: "(64 * 1024 :: int) \<le> 0x100000" "RXBUF_ALLOC_SIZE demo_kseg \<le> 64 * 1024"
    "sum_list [2, 0, 0, 1] \<le> 16 * nat (64 * 1024 div RXBUF_ALLOC_SIZE demo_kseg)"
    "int (sum_list [2, 0, 0, 1]) * SKB_ALIGNED_SIZE demo_kseg \<le> 0x100000" "(0x100000 :: int) < 2 ^ 32"
    by (simp_all add: demo_kseg_ok)
  obtain s' where s': "DoGlobInitReq demo_kseg [2, 0, 0, 1] ?s = Some (0, s')"
    "case RxBdInfos s' ! 0 of None \<Rightarrow> [2, 0, 0, 1 :: nat] ! 0 = 0 | Some r \<Rightarrow> length (rx_bds r) = [2, 0, 0, 1] ! 0"
    using DoGlobInitReq_rings [OF demo_kseg_ok(1-3) n(1,2) s n(3-5)] by (force split: option.splits)
  then show ?thesis by (cases "RxBdInfos s' ! 0") auto
qed

text \<open>
  A second initialization is reported as lack of memory and releases the socket buffers that are in use.
  When the memory for data buffers runs out, the first initialization has no defined outcome: it goes on
  with the descriptors it has released, in a loop that does not end or writes to them.
\<close>

lemma DoGlobInitReq_errors:
  "(ulDrvState s \<noteq> XTMRT_UNINITIALIZED \<longrightarrow>
      DoGlobInitReq K sizes s = Some (- ENOMEM, (kfree (pRxSkbMem s) s)\<lparr>pRxSkbMem := 0\<rparr>)) \<and>
   (ulDrvState s = XTMRT_UNINITIALIZED \<and> 0 < sum_list sizes \<and> sum_list sizes < 2 ^ 32 \<and>
      kmem K (k_allocs s) (u32 (int (sum_list sizes) * SKB_ALIGNED_SIZE K)) \<noteq> None \<and>
      kmem K (Suc (k_allocs s)) (u32 (int (sum_list sizes) * 8 + 16)) \<noteq> None \<and>
      kmem K (Suc (Suc (k_allocs s)))
        (int (min (nat (64 * 1024 div RXBUF_ALLOC_SIZE K)) (sum_list sizes)) * RXBUF_ALLOC_SIZE K) = None \<longrightarrow>
      DoGlobInitReq K sizes s = None)"
proof (intro conjI impI, goal_cases)
  case 1
  then show ?case by (simp add: DoGlobInitReq_def Let_def)
next
  case 2
  let ?n = "sum_list sizes"
  have n: "nat (u32 (int ?n)) = ?n" using 2 by (simp add: u32_id)
  obtain p1 c1 where p1: "kmem K (k_allocs s) (u32 (int ?n * SKB_ALIGNED_SIZE K)) = Some (p1, c1)" using 2 by auto
  obtain p2 c2 where p2: "kmem K (Suc (k_allocs s)) (u32 (int ?n * 8 + 16)) = Some (p2, c2)" using 2 by auto
  define a where "a = (if nat (64 * 1024 div RXBUF_ALLOC_SIZE K) < ?n then nat (64 * 1024 div RXBUF_ALLOC_SIZE K) else ?n)"
  have "a = min (nat (64 * 1024 div RXBUF_ALLOC_SIZE K)) ?n" by (auto simp: a_def)
  then have a: "kmem K (Suc (Suc (k_allocs s))) (int a * RXBUF_ALLOC_SIZE K) = None" "?n \<noteq> 0"
    using 2 by (simp_all del: sum_list_eq_0_iff)
  have "rx_buf_loop K ?n 0 [] 0 s2 = None" if "k_allocs s2 = Suc (Suc (k_allocs s))" for s2
    using a that unfolding rx_buf_loop.simps [of K ?n 0 "[]" 0 s2] Let_def a_def [symmetric] kmalloc_def
    by (simp add: rx_buf_loop_lost del: sum_list_eq_0_iff)
  then show ?case using 2 p1 p2 unfolding DoGlobInitReq_def Let_def n kmalloc_def by simp
qed

lemma DoGlobInitReq_errors_witness:
  "fst (the (DoGlobInitReq demo_kseg [1, 0, 0, 0] (demo_state 4))) = - ENOMEM \<and>
   DoGlobInitReq (demo_kseg\<lparr>kmem := \<lambda>n sz. if n < 2 then Some (0x80100000, \<lambda>_. 0) else None\<rparr>) [1, 0, 0, 0] (bcmxtmrt_init (demo_state 4)) = None"
  using DoGlobInitReq_errors [of "demo_state 4" demo_kseg "[1, 0, 0, 0]"]
    DoGlobInitReq_errors [of "bcmxtmrt_init (demo_state 4)" "demo_kseg\<lparr>kmem := \<lambda>n sz. if n < 2 then Some (0x80100000, \<lambda>_. 0) else None\<rparr>" "[1, 0, 0, 0]"]
  by (simp add: demo_state_def bcmxtmrt_init_def)

text \<open>
  C7.  Receive buffers are neither lost nor duplicated: in every order of received frames, tasklet
  turns, interrupts and returns from the network stack, the buffers in a ring together with those the
  stack holds are the buffers the ring was initialized with.  A returned buffer always finds its place;
  the message \<open>No place to put free buffer\<close> is never printed.
\<close>

theorem rx_buffers_conserved:
  assumes "DoGlobInitReq K sizes s = Some (0, s0)" "kernel_ok K" "kseg0_ok K" "sum_list sizes < 2 ^ 32"
    and "(rx_step K)\<^sup>*\<^sup>* (s0, {#}) (s', out)" "i < length sizes" "sizes ! i \<noteq> 0"
  shows "\<exists>r0 r. RxBdInfos s0 ! i = Some r0 \<and> RxBdInfos s' ! i = Some r \<and> rx_ring_ok r \<and> length (rx_bds r) = sizes ! i \<and>
    rx_bufs r + rx_out out i = rx_bufs r0 \<and> size (rx_bufs r0) = sizes ! i \<and>
    count_list (x_calls s') (No_place i) = count_list (x_calls s0) (No_place i)"
proof -
  obtain base bds s1 where b: "s0 = init_dma sizes base bds s1" "length bds = sum_list sizes" "\<forall>b\<in>set bds. rx_fresh b"
    by (rule DoGlobInitReq_0 [OF assms(1-4)]) (rule that)
  obtain r0 where r0: "rx_rings sizes base bds ! i = Some r0" "length (rx_bds r0) = sizes ! i" "size (rx_bufs r0) = sizes ! i"
    by (rule init_rings [OF b(2,3) assms(6,7)]) (rule that)
  let ?B = "\<lambda>i. case rx_rings sizes base bds ! i of None \<Rightarrow> {#} | Some r \<Rightarrow> rx_bufs r"
  have I: "rx_inv ?B (s', out)" and F: "rx_frame s0 s'"
    using rx_steps_inv [OF assms(5), of ?B] init_dma_inv [OF b(2,3), of base s1] by (simp_all add: b(1))
  have R: "RxBdInfos s0 ! i = Some r0" "length (RxBdInfos s0) = length sizes" using r0(1) by (simp_all add: b(1) init_dma_def)
  have L: "length (RxBdInfos s') = length sizes" using F R(2) unfolding rx_frame_def by (metis length_map)
  have "Option.is_none (RxBdInfos s' ! i) = Option.is_none (RxBdInfos s0 ! i)"
    using F R(2) L assms(6) unfolding rx_frame_def by (metis nth_map)
  then obtain r where r: "RxBdInfos s' ! i = Some r" using R(1) by (cases "RxBdInfos s' ! i") auto
  have "i < length (RxBdInfos s')" using L assms(6) by simp
  note D = rx_invD [OF I this r]
  show ?thesis using R(1) r D r0 F by (simp add: rx_frame_def)
qed

theorem rx_buffers_conserved_witness:
  "\<exists>s0 s' r. DoGlobInitReq demo_kseg [2, 0, 0, 1] (bcmxtmrt_init (demo_state 4)) = Some (0, s0) \<and>
     rx_step demo_kseg (s0, {#}) (s', {#}) \<and> RxBdInfos s' ! 0 = Some r \<and> rx_ring_ok r \<and> rx_out {#} 0 = {#} \<and> size (rx_bufs r) = 2"
proof -
  let ?s = "bcmxtmrt_init (demo_state 4)" and ?z = "[2, 0, 0, 1 :: nat]"
  have s: "ulDrvState ?s = 0" "length (pBufMem ?s) = 16" by (simp_all add: bcmxtmrt_init_def)
  have n: "(64 * 1024 :: int) \<le> 0x100000" "RXBUF_ALLOC_SIZE demo_kseg \<le> 64 * 1024"
    "sum_list ?z \<le> 16 * nat (64 * 1024 div RXBUF_ALLOC_SIZE demo_kseg)"
    "int (sum_list ?z) * SKB_ALIGNED_SIZE demo_kseg \<le> 0x100000" "(0x100000 :: int) < 2 ^ 32"
    by (simp_all add: demo_kseg_ok)
  obtain base bds s1 where r: "DoGlobInitReq demo_kseg ?z ?s = Some (0, init_dma ?z base bds s1)"
    and B: "length bds = sum_list ?z" "\<forall>b\<in>set bds. rx_fresh b"
    by (rule DoGlobInitReq_succeeds [OF demo_kseg_ok(1-3) n(1,2) s n(3-5)]) (rule that)
  have z: "0 < length ?z" "?z ! 0 \<noteq> 0" by simp_all
  obtain r0 where r0: "rx_rings ?z base bds ! 0 = Some r0" "length (rx_bds r0) = 2"
    "list_all (\<lambda>b. bd_status b AND DMA_OWN \<noteq> 0) (rx_bds r0)"
    by (rule init_rings [OF B z, of base]) (simp add: that)
  let ?s0 = "init_dma ?z base bds s1"
  have R: "0 < length (RxBdInfos ?s0)" "RxBdInfos ?s0 ! 0 = Some r0" using r0(1) by (simp_all add: init_dma_def)
  have k: "0 < length (rx_bds r0)" "bd_status (rx_bds r0 ! 0) AND DMA_OWN \<noteq> 0" using r0(2,3) by (simp_all add: list_all_length)
  note st = rx_step.dma [OF R k, of demo_kseg "{#}" 0 64 "\<lambda>_. 0"]
  have "sum_list ?z < 2 ^ 32" by simp
  from rx_buffers_conserved [OF r demo_kseg_ok(1,2) this r_into_rtranclp [of "rx_step demo_kseg", OF st] z]
  show ?thesis using r st by (fastforce simp: rx_out_def)
qed

end
