(* ===== verification/Board_Misc.thy ===== *)
theory Board_Misc
  imports Led_Ctrl Mac_Addr Scratch_Pad
begin

text \<open>
  The parts of \<open>board.c\<close> beside the storage: general purpose pins, the SES and reset
  buttons, the poll of the wireless button, the dying gasp handlers, the choice of the wireless card,
  and the NVRAM file in \<open>/proc\<close>.  They are compiled for the BCM96338 with
  \<open>WIRELESS\<close>, \<open>SUPPORT_PORT_MAP\<close> and \<open>DARE_IMAGE_SIGNATURE\<close>, as
  profile 96338W2 has it.  \<open>board_dev\<close> holds the static variables of the file;
  \<open>b_calls\<close> lists what the driver asks of the interrupt controller and the kernel, the last
  call at the end.  The values of input registers, of the tick counter and of uninitialized memory are
  arguments.
\<close>

section \<open>Definitions\<close>

abbreviation (input) BP_ACTIVE_LOW :: u16 where "BP_ACTIVE_LOW \<equiv> 0x8000"
abbreviation (input) GPIO_LOW :: int where "GPIO_LOW \<equiv> 0"
abbreviation (input) GPIO_HIGH :: int where "GPIO_HIGH \<equiv> 1"
abbreviation (input) WLAN_ON :: int where "WLAN_ON \<equiv> 1"
abbreviation (input) WLAN_OFF :: int where "WLAN_OFF \<equiv> 0"
abbreviation (input) SES_EVENTS :: u32 where "SES_EVENTS \<equiv> 1"
abbreviation (input) kLedSes :: int where "kLedSes \<equiv> 5"
abbreviation (input) POLLIN :: u32 where "POLLIN \<equiv> 1"
abbreviation (input) POLLPRI :: u32 where "POLLPRI \<equiv> 2"
abbreviation (input) INTERRUPT_ID_EXTERNAL_0 :: int where "INTERRUPT_ID_EXTERNAL_0 \<equiv> 3"
abbreviation (input) INTERRUPT_ID_EXTERNAL_3 :: int where "INTERRUPT_ID_EXTERNAL_3 \<equiv> 6"
abbreviation (input) INTERRUPT_ID_DG :: int where "INTERRUPT_ID_DG \<equiv> 12"
abbreviation (input) EI_STATUS_SHFT :: int where "EI_STATUS_SHFT \<equiv> 4"
abbreviation (input) MAX_DELAY_COUNT :: u32 where "MAX_DELAY_COUNT \<equiv> 20"
abbreviation (input) IFNAMSIZ :: nat where "IFNAMSIZ \<equiv> 16"
abbreviation (input) BRCM_VENDOR_ID :: u16 where "BRCM_VENDOR_ID \<equiv> 0x14e4"
abbreviation (input) BRCM_WLAN_DEVICE_IDS :: u16 where "BRCM_WLAN_DEVICE_IDS \<equiv> 0x4300"
abbreviation (input) WLAN_ONBOARD_SLOT :: u8 where "WLAN_ONBOARD_SLOT \<equiv> 1"
abbreviation (input) BP_WLAN_EXCLUDE_ONBOARD :: u16 where "BP_WLAN_EXCLUDE_ONBOARD \<equiv> 2"

datatype bcall =
    Irq_map int
  | Irq_enable int
  | Irq_disable int
  | Wake_up_queue
  | Wake_up_process int
  | Set_timer int
  | Soft_reset
  | Watchdog u32

text \<open>The poll function of a kind of files: its own, or the hook of the board driver.\<close>

datatype poll_fn = File_poll | Monitor_hook

record board_dev =
  b_leds :: led_ctrl
  g_ledInitialized :: bool
  pCurrentBp :: "board_parameters option"
  g_pMacInfo :: "mac_info option"
  g_ulPsiSize :: u32
  g_ulSdramSize :: u32
  wl_protect_flag :: int
  signature_bypass :: int
  requestUserModeResetToDefault :: int
  g_wakeup_monitor :: int
  g_monitor_file :: "int option"
  g_monitor_task :: "int option"
  g_orig_fop_poll :: "poll_fn option"
  fop_poll :: "int \<Rightarrow> poll_fn"
  sesBtn_irq :: u16
  sesLed_gpio :: u16
  g_resetCount :: u32
  g_lastRcdJiff :: u32
  b_calls :: "bcall list"

definition b_call :: "bcall \<Rightarrow> board_dev \<Rightarrow> board_dev" where
  "b_call c s = s\<lparr>b_calls := b_calls s @ [c]\<rparr>"

definition kerSysMipsSoftReset :: "board_dev \<Rightarrow> board_dev" where
  "kerSysMipsSoftReset s = b_call Soft_reset s"

subsection \<open>Pins\<close>

definition SetGpio :: "int \<Rightarrow> int \<Rightarrow> led_ctrl \<Rightarrow> led_ctrl" where
  "SetGpio gpio state s =
     (let active_low = (word_of_int gpio AND BP_ACTIVE_LOW \<noteq> 0)
      in drive_pin (GPIO_NUM_TO_MASK (word_of_int gpio)) (state = GPIO_HIGH \<and> \<not> active_low) s)"

text \<open>\<open>io\<close> is what the pins read when they are inputs.\<close>

definition GetGpio :: "int \<Rightarrow> u32 \<Rightarrow> led_ctrl \<Rightarrow> int \<times> led_ctrl" where
  "GetGpio gpio io s =
     (let gpio_mask = GPIO_NUM_TO_MASK (word_of_int gpio);
          s = s\<lparr>GPIODir := GPIODir s AND NOT gpio_mask\<rparr>
      in (if io AND gpio_mask \<noteq> 0 then 1 else 0, s))"

definition kerSetWirelessPD :: "int \<Rightarrow> board_dev \<Rightarrow> board_dev" where
  "kerSetWirelessPD state s =
     (let (r, wlanPDGpio) = BpGetWirelessPowerDownGpio (pCurrentBp s);
          active_low = (wlanPDGpio AND BP_ACTIVE_LOW \<noteq> 0)
      in if r = BP_SUCCESS \<and> wlanPDGpio \<noteq> BP_NOT_DEFINED then
           (if state = WLAN_OFF
            then s\<lparr>b_leds := SetGpio (uint wlanPDGpio) (if active_low then GPIO_LOW else GPIO_HIGH) (b_leds s)\<rparr>
            else s\<lparr>b_leds := SetGpio (uint wlanPDGpio) (if active_low then GPIO_HIGH else GPIO_LOW) (b_leds s)\<rparr>)
         else s)"

subsection \<open>The task that monitors the link\<close>

definition kerSysWakeupMonitorTask :: "board_dev \<Rightarrow> board_dev" where
  "kerSysWakeupMonitorTask s =
     (let s = s\<lparr>g_wakeup_monitor := 1\<rparr>
      in case g_monitor_task s of None \<Rightarrow> s | Some t \<Rightarrow> b_call (Wake_up_process t) s)"

text \<open>
  \<open>pollmask\<close> is the result of the file's own poll function.  The saved function can be the
  hook itself, which then calls itself.
\<close>

partial_function (option) kerSysMonitorPollHook :: "int \<Rightarrow> u32 \<Rightarrow> board_dev \<Rightarrow> (u32 \<times> board_dev) option" where
  "kerSysMonitorPollHook f pollmask s =
     do {
       orig \<leftarrow> g_orig_fop_poll s;
       (pmask, s) \<leftarrow> (if orig = File_poll then Some (pollmask, s) else kerSysMonitorPollHook f pollmask s);
       Some (if g_wakeup_monitor s = 1 \<and> g_monitor_file s = Some f
             then (pmask OR POLLPRI, s\<lparr>g_wakeup_monitor := 0\<rparr>) else (pmask, s))
     }"

subsection \<open>The SES button and its LED\<close>

definition map_external_irq :: "int \<Rightarrow> int" where
  "map_external_irq irq = (if 0 \<le> irq \<and> irq \<le> 3 then INTERRUPT_ID_EXTERNAL_0 + irq else 0)"

definition sesBtn_pressed :: "u32 \<Rightarrow> board_dev \<Rightarrow> bool" where
  "sesBtn_pressed ExtIrqCfg s \<longleftrightarrow>
     INTERRUPT_ID_EXTERNAL_0 \<le> uint (sesBtn_irq s) \<and> uint (sesBtn_irq s) \<le> INTERRUPT_ID_EXTERNAL_3 \<and>
     ExtIrqCfg AND push_bit (nat (uint (sesBtn_irq s) - INTERRUPT_ID_EXTERNAL_0 + EI_STATUS_SHFT)) 1 = 0"

definition sesBtn_isr :: "u32 \<Rightarrow> board_dev \<Rightarrow> int \<times> board_dev" where
  "sesBtn_isr ExtIrqCfg s = (if sesBtn_pressed ExtIrqCfg s then (1, b_call Wake_up_queue s) else (0, s))"

definition sesBtn_mapIntr :: "board_dev \<Rightarrow> board_dev" where
  "sesBtn_mapIntr s =
     (let (r, irq) = BpGetWirelessSesExtIntr (pCurrentBp s); s = s\<lparr>sesBtn_irq := irq\<rparr>
      in if r = BP_SUCCESS then
           let irq = map_external_irq (uint irq)
           in b_call (Irq_enable irq) (b_call (Irq_map irq) (s\<lparr>sesBtn_irq := word_of_int irq\<rparr>))
         else s)"

definition sesBtn_poll :: "u32 \<Rightarrow> board_dev \<Rightarrow> u32" where
  "sesBtn_poll ExtIrqCfg s = (if sesBtn_pressed ExtIrqCfg s then POLLIN else 0)"

text \<open>The bytes given to the reader; the result is their number.\<close>

definition sesBtn_read :: "u32 \<Rightarrow> board_dev \<Rightarrow> bytes \<times> board_dev" where
  "sesBtn_read ExtIrqCfg s =
     (if sesBtn_pressed ExtIrqCfg s then be32 SES_EVENTS else [], b_call (Irq_enable (uint (sesBtn_irq s))) s)"

definition sesLed_mapGpio :: "board_dev \<Rightarrow> board_dev" where
  "sesLed_mapGpio s = s\<lparr>sesLed_gpio := snd (BpGetWirelessSesLedGpio (pCurrentBp s))\<rparr>"

definition sesLed_ctrl :: "int \<Rightarrow> board_dev \<Rightarrow> board_dev option" where
  "sesLed_ctrl action s =
     (if sesLed_gpio s = BP_NOT_DEFINED then Some s
      else
        do {
          let action = action mod 256;
          let led = (if action = 1 then kLedStateOn else if action = 2 then kLedStateSlowBlinkContinues else kLedStateOff);
          l \<leftarrow> kerSysLedCtrl (g_ledInitialized s) kLedSes led (b_leds s);
          Some (s\<lparr>b_leds := l\<rparr>)
        })"

definition ses_board_init :: "board_dev \<Rightarrow> board_dev" where
  "ses_board_init s = sesLed_mapGpio (sesBtn_mapIntr s)"

definition ses_board_deinit :: "board_dev \<Rightarrow> board_dev" where
  "ses_board_deinit s = (if sesBtn_irq s \<noteq> 0 then b_call (Irq_disable (uint (sesBtn_irq s))) s else s)"

subsection \<open>The reset button\<close>

text \<open>\<open>jiffies\<close> is the tick counter at the start, \<open>jiffies'\<close> the one after the delay.\<close>

definition reset_isr :: "int \<Rightarrow> u32 \<Rightarrow> u32 \<Rightarrow> board_dev \<Rightarrow> board_dev" where
  "reset_isr irq jiffies jiffies' s =
     (let s = (if g_lastRcdJiff s \<noteq> 0 \<and> g_resetCount s \<noteq> 0 \<and> jiffies - g_lastRcdJiff s > 100
               then s\<lparr>g_resetCount := 0\<rparr> else s);
          s = b_call (Irq_disable irq) s
      in if g_resetCount s < MAX_DELAY_COUNT
         then b_call (Irq_enable irq) (s\<lparr>g_resetCount := g_resetCount s + 1, g_lastRcdJiff := jiffies'\<rparr>)
         else kerSysWakeupMonitorTask (s\<lparr>requestUserModeResetToDefault := 1\<rparr>))"

subsection \<open>The wireless button\<close>

definition kerGetWirelessProtectState :: "u32 \<Rightarrow> board_dev \<Rightarrow> int \<times> board_dev" where
  "kerGetWirelessProtectState io s =
     (let (r, l) = GetGpio (uint (snd (BpGetWirelessProtectLedGpio (pCurrentBp s)))) io (b_leds s)
      in (r, s\<lparr>b_leds := l\<rparr>))"

definition kerGetWirelessProtectFlag :: "board_dev \<Rightarrow> int \<times> board_dev" where
  "kerGetWirelessProtectFlag s = (if wl_protect_flag s = 0 then (0, s\<lparr>wl_protect_flag := 1\<rparr>) else (1, s))"

text \<open>The timer is set for the given number of seconds.\<close>

definition pollWirelessProtect :: "u32 \<Rightarrow> board_dev \<Rightarrow> board_dev" where
  "pollWirelessProtect io s =
     (let (curWlState, s) = kerGetWirelessProtectState io s
      in if curWlState = 0 then b_call (Set_timer 10) (kerSysWakeupMonitorTask (s\<lparr>wl_protect_flag := 0\<rparr>))
         else b_call (Set_timer 1) s)"

subsection \<open>Dying gasp\<close>

text \<open>
  A registered handler: its name in an array of 16 bytes, the function and its argument behind it.  The
  list has no value before \<open>kerSysInitDyingGaspHandler\<close>; its first element was registered last.
  \<open>km\<close> says whether the allocation succeeds; its result is not checked.
\<close>

record cb_dgasp =
  dg_name :: bytes
  cb_dgasp_fn :: u32
  dg_context :: u32

definition kerSysInitDyingGaspHandler :: "bool \<Rightarrow> cb_dgasp list option \<Rightarrow> cb_dgasp list option option" where
  "kerSysInitDyingGaspHandler km g =
     (case g of Some l \<Rightarrow> Some (Some l) | None \<Rightarrow> do { c_assert km; Some (Some []) })"

text \<open>Each element is removed and released before the next one is taken from it.\<close>

definition kerSysDeinitDyingGaspHandler :: "cb_dgasp list option \<Rightarrow> cb_dgasp list option option" where
  "kerSysDeinitDyingGaspHandler g =
     (case g of None \<Rightarrow> Some None | Some l \<Rightarrow> do { c_assert (l = []); Some None })"

definition kerSysRegisterDyingGaspHandler ::
  "bool \<Rightarrow> bytes option \<Rightarrow> u32 \<Rightarrow> u32 \<Rightarrow> cb_dgasp list option \<Rightarrow> cb_dgasp list option option" where
  "kerSysRegisterDyingGaspHandler km devname cbfn context g =
     (case (g, devname) of
        (Some l, Some name) \<Rightarrow>
          (if cbfn = 0 then Some g
           else do {
             c_assert (km \<and> (0 \<in> set name \<or> IFNAMSIZ \<le> length name));
             Some (Some (\<lparr>dg_name = strncpy0 IFNAMSIZ name, cb_dgasp_fn = cbfn, dg_context = context\<rparr> # l))
           })
      | _ \<Rightarrow> Some g)"

text \<open>\<open>strcmp\<close> reads behind a name of 16 characters.\<close>

fun strcmp_eq :: "bytes \<Rightarrow> bytes \<Rightarrow> bool option" where
  "strcmp_eq (x # a) (y # b) = (if x \<noteq> y then Some False else if x = 0 then Some True else strcmp_eq a b)"
| "strcmp_eq _ _ = None"

definition dgasp_bytes :: "cb_dgasp \<Rightarrow> bytes" where
  "dgasp_bytes n = dg_name n @ be32 (cb_dgasp_fn n) @ be32 (dg_context n)"

fun dgasp_remove :: "bytes \<Rightarrow> cb_dgasp list \<Rightarrow> cb_dgasp list option" where
  "dgasp_remove name [] = Some []"
| "dgasp_remove name (n # l) =
     do { b \<leftarrow> strcmp_eq (dgasp_bytes n) name; if b then Some l else map_option (Cons n) (dgasp_remove name l) }"

definition kerSysDeregisterDyingGaspHandler ::
  "bytes option \<Rightarrow> cb_dgasp list option \<Rightarrow> cb_dgasp list option option" where
  "kerSysDeregisterDyingGaspHandler devname g =
     (case (g, devname) of (Some l, Some name) \<Rightarrow> map_option Some (dgasp_remove name l) | _ \<Rightarrow> Some g)"

text \<open>
  Waiting until the interrupt goes away or 100 microseconds have passed: \<open>irq n\<close> is the
  \<open>n\<close>-th reading of the interrupt, \<open>clk n\<close> the cycle counter read with it.
\<close>

abbreviation (input) DG_GLITCH_TO :: u32 where "DG_GLITCH_TO \<equiv> 100 * 120"

partial_function (option) dgasp_wait :: "u32 \<Rightarrow> (nat \<Rightarrow> bool) \<Rightarrow> (nat \<Rightarrow> u32) \<Rightarrow> nat \<Rightarrow> nat option" where
  "dgasp_wait clk0 irq clk n = (if irq n \<and> clk n - clk0 < DG_GLITCH_TO then dgasp_wait clk0 irq clk (Suc n) else Some n)"

definition kerSysDyingGaspCheckPowerLoss ::
  "u32 \<Rightarrow> (nat \<Rightarrow> bool) \<Rightarrow> (nat \<Rightarrow> u32) \<Rightarrow> board_dev \<Rightarrow> (bool \<times> board_dev) option" where
  "kerSysDyingGaspCheckPowerLoss clk0 irq clk s =
     do {
       n \<leftarrow> dgasp_wait clk0 irq clk 0;
       Some (if irq (Suc n) then (True, s) else (False, b_call (Irq_enable INTERRUPT_ID_DG) s))
     }"

text \<open>
  The handlers in the order in which they are called: those of DSL are left for the end, where only the
  last one found is called.
\<close>

fun dgasp_calls :: "cb_dgasp list \<Rightarrow> cb_dgasp option \<Rightarrow> (u32 \<times> u32) list option" where
  "dgasp_calls [] dsl = Some (case dsl of None \<Rightarrow> [] | Some n \<Rightarrow> [(cb_dgasp_fn n, dg_context n)])"
| "dgasp_calls (n # l) dsl =
     do {
       b \<leftarrow> strncmp_eq 3 (dg_name n) (ascii ''dsl'');
       if b then dgasp_calls l (Some n)
       else map_option (Cons (cb_dgasp_fn n, dg_context n)) (dgasp_calls l dsl)
     }"

definition kerSysSetWdTimer :: "u32 \<Rightarrow> board_dev \<Rightarrow> board_dev" where
  "kerSysSetWdTimer timeUs s = b_call (Watchdog (timeUs * 50)) s"

definition kerSysDyingGaspShutdown :: "board_dev \<Rightarrow> board_dev" where
  "kerSysDyingGaspShutdown s = kerSysSetWdTimer 1000000 s"

text \<open>The calls of the handlers, whether the interrupt ends in the final endless loop, and the state then.\<close>

definition kerSysDyingGaspIsr ::
  "u32 \<Rightarrow> (nat \<Rightarrow> bool) \<Rightarrow> (nat \<Rightarrow> u32) \<Rightarrow> cb_dgasp list option \<Rightarrow> board_dev \<Rightarrow>
   ((u32 \<times> u32) list \<times> bool \<times> board_dev) option" where
  "kerSysDyingGaspIsr clk0 irq clk g s =
     do {
       (lost, s) \<leftarrow> kerSysDyingGaspCheckPowerLoss clk0 irq clk s;
       if lost then
         do {
           let s = kerSetWirelessPD WLAN_OFF s;
           l \<leftarrow> g;
           calls \<leftarrow> dgasp_calls l None;
           Some (calls, True, kerSysDyingGaspShutdown s)
         }
       else Some ([], False, s)
     }"

definition kerSysDyingGaspMapIntr :: "board_dev \<Rightarrow> board_dev" where
  "kerSysDyingGaspMapIntr s =
     (if fst (BpGetAdslDyingGaspExtIntr (pCurrentBp s)) = BP_SUCCESS
      then b_call (Irq_enable INTERRUPT_ID_DG) (b_call (Irq_map INTERRUPT_ID_DG) s) else s)"

subsection \<open>Wireless cards\<close>

record pci_dev =
  pci_vendor :: u16
  pci_device :: u16
  pci_devfn :: u8

definition PCI_SLOT :: "u8 \<Rightarrow> u8" where
  "PCI_SLOT devfn = drop_bit 3 devfn AND 0x1f"

fun pci_scan :: "pci_dev list \<Rightarrow> nat \<Rightarrow> pci_dev option \<Rightarrow> nat \<times> pci_dev option" where
  "pci_scan [] foundPciAddOn pdevToExclude = (foundPciAddOn, pdevToExclude)"
| "pci_scan (dev # devs) foundPciAddOn pdevToExclude =
     (if pci_vendor dev = BRCM_VENDOR_ID \<and> pci_device dev AND 0xff00 = BRCM_WLAN_DEVICE_IDS then
        (if PCI_SLOT (pci_devfn dev) \<noteq> WLAN_ONBOARD_SLOT then pci_scan devs (Suc foundPciAddOn) pdevToExclude
         else pci_scan devs foundPciAddOn (Some dev))
      else pci_scan devs foundPciAddOn pdevToExclude)"

text \<open>The device that is removed.\<close>

definition kerSysScreenPciDevices :: "board_parameters option \<Rightarrow> pci_dev list \<Rightarrow> pci_dev option" where
  "kerSysScreenPciDevices g devs =
     (let (r, wlFlag) = BpGetWirelessFlags g
      in if r = BP_SUCCESS \<and> wlFlag AND BP_WLAN_EXCLUDE_ONBOARD \<noteq> 0 then
           (let (foundPciAddOn, pdevToExclude) = pci_scan devs 0 None
            in if foundPciAddOn \<noteq> 0 then pdevToExclude else None)
         else None)"

subsection \<open>The NVRAM file\<close>

definition hex_value :: "u8 \<Rightarrow> u8" where
  "hex_value c =
     (if 0x30 \<le> c \<and> c \<le> 0x39 then c - 0x30
      else if 0x61 \<le> c \<and> c \<le> 0x66 then c - 0x61 + 10
      else if 0x41 \<le> c \<and> c \<le> 0x46 then c - 0x41 + 10
      else 0)"

fun str_to_num :: "bytes \<Rightarrow> nat \<Rightarrow> bytes option" where
  "str_to_num txt 0 = Some []"
| "str_to_num (a # b # txt) (Suc len) = map_option (Cons (hex_value a * 16 + hex_value b)) (str_to_num txt len)"
| "str_to_num _ (Suc len) = None"

definition hex_char :: "u8 \<Rightarrow> u8" where
  "hex_char d = (if d < 10 then 0x30 + d else 0x61 + (d - 10))"

text \<open>\<open>%02x\<close> and a blank for each byte.\<close>

definition hex_text :: "bytes \<Rightarrow> bytes" where
  "hex_text bs = concat (map (\<lambda>b. [hex_char (drop_bit 4 b), hex_char (b AND 0x0f), 0x20]) bs)"

text \<open>
  \<open>mem\<close> is the record on the stack before it is read.  The result is the text in the page and the
  number of its bytes that are returned.
\<close>

definition proc_get_param ::
  "flash_addr_info \<Rightarrow> (int \<Rightarrow> bool) \<Rightarrow> 'd flash_device_info option \<Rightarrow> bytes \<Rightarrow> int \<Rightarrow> int \<Rightarrow> int \<Rightarrow> 'd \<Rightarrow>
   (int \<times> bytes \<times> 'd) option" where
  "proc_get_param fi km g mem offset len cnt d =
     (if offset < 0 \<or> offset + len > int sizeof_NVRAM_DATA then Some (0, [], d)
      else
        do {
          (r, nvram, d) \<leftarrow> readNvramData fi km g mem d;
          bs \<leftarrow> (if r = 0 then mem_read offset len (nvram_bytes nvram) else Some []);
          let page = hex_text bs @ [0x0a];
          Some (if int (length page) < cnt then int (length page) else 0, page, d)
        })"

definition isxdigit :: "u8 \<Rightarrow> bool" where
  "isxdigit c \<longleftrightarrow> (0x30 \<le> c \<and> c \<le> 0x39) \<or> (0x41 \<le> c \<and> c \<le> 0x46) \<or> (0x61 \<le> c \<and> c \<le> 0x66)"

text \<open>Closing the gaps: \<open>r\<close> characters are left, those before \<open>i\<close> are digits.\<close>

function drop_separators :: "bytes \<Rightarrow> nat \<Rightarrow> nat \<Rightarrow> bytes option" where
  "drop_separators inp i r =
     (if i < r then
        do {
          c_assert (r \<le> length inp);
          if \<not> isxdigit (inp ! i)
          then drop_separators (take i inp @ take (r - i - 1) (drop (Suc i) inp) @ drop (r - 1) inp) i (r - 1)
          else drop_separators inp (Suc i) r
        }
      else Some inp)"
  by pat_completeness auto
termination by (relation "measure (\<lambda>(inp, i, r). r - i)") auto

declare drop_separators.simps [simp del]

text \<open>
  \<open>buf\<close> is the text of the caller, or has no value when it cannot be read;
  \<open>inp\<close> is the input array on the stack before it is filled.
\<close>

definition proc_set_param ::
  "flash_addr_info \<Rightarrow> (int \<Rightarrow> bool) \<Rightarrow> 'd flash_device_info option \<Rightarrow> bytes \<Rightarrow> bytes \<Rightarrow> int \<Rightarrow> int \<Rightarrow> bytes option \<Rightarrow> nat \<Rightarrow> 'd \<Rightarrow>
   (int \<times> 'd) option" where
  "proc_set_param fi km g mem inp offset len buf cnt d =
     (if offset < 0 \<or> offset + len > int sizeof_NVRAM_DATA then Some (0, d)
      else if cnt > 32 then Some (- 14, d)
      else
        (case buf of
           None \<Rightarrow> Some (- 14, d)
         | Some txt \<Rightarrow>
             do {
               src \<leftarrow> mem_read 0 (int cnt) txt;
               inp \<leftarrow> mem_write 0 src inp;
               inp \<leftarrow> drop_separators inp 0 cnt;
               (r, nvram, d) \<leftarrow> readNvramData fi km g mem d;
               if r = 0 then
                 do {
                   num \<leftarrow> str_to_num inp (nat len);
                   b \<leftarrow> mem_write offset num (nvram_bytes nvram);
                   (_, d) \<leftarrow> writeNvramData fi km g (nvram_of b) d;
                   Some (int cnt, d)
                 }
               else Some (0, d)
             }))"

end
