(* ===== verification/Board_Ioctl.thy ===== *)
theory Board_Ioctl
  imports Board_Misc Image_Tag
begin

text \<open>
  The character device of \<open>board.c\<close>: opening, polling and reading it, and
  \<open>board_ioctl\<close>, through which the applications reach the flash storage, the LEDs, the MAC
  addresses and the board parameters.  A user buffer is the list of its bytes, a null pointer has no
  value; what the kernel passes on to its own functions is accessed without a check.  The parameter
  struct of a command is copied in and, by most commands, out again.
\<close>

section \<open>Definitions\<close>

abbreviation (input) EACCES :: int where "EACCES \<equiv> 13"
abbreviation (input) EFAULT :: int where "EFAULT \<equiv> 14"
abbreviation (input) EINVAL :: int where "EINVAL \<equiv> 22"
abbreviation (input) CFE_VERSION_OFFSET :: nat where "CFE_VERSION_OFFSET \<equiv> 0x570"
abbreviation (input) CFE_VERSION_MARK_SIZE :: nat where "CFE_VERSION_MARK_SIZE \<equiv> 5"
abbreviation (input) CFE_VERSION_SIZE :: nat where "CFE_VERSION_SIZE \<equiv> 5"
abbreviation (input) TAG_VER_LEN :: nat where "TAG_VER_LEN \<equiv> 4"

text \<open>\<open>ACTION_OTHER\<close> and \<open>IOCTL_OTHER\<close> stand for numbers that are not defined.\<close>

datatype BOARD_IOCTL_ACTION = PERSISTENT | NVRAM | BCM_IMAGE_CFE | BCM_IMAGE_FS | BCM_IMAGE_KERNEL | BCM_IMAGE_WHOLE
  | SCRATCH_PAD | FLASH_SIZE | SET_CS_PARAM | DAREPERSISTENT | ACTION_OTHER

datatype board_command = IOCTL_FLASH_WRITE | IOCTL_FLASH_READ | IOCTL_DUMP_ADDR | IOCTL_SET_MEMORY | IOCTL_MIPS_SOFT_RESET
  | IOCTL_LED_CTRL | IOCTL_GET_PSI_SIZE | IOCTL_GET_SDRAM_SIZE | IOCTL_GET_ID | IOCTL_GET_CHIP_ID | IOCTL_GET_CHIP_REV
  | IOCTL_GET_CFE_VER | IOCTL_GET_BASE_MAC_ADDRESS | IOCTL_GET_MAC_ADDRESS | IOCTL_RELEASE_MAC_ADDRESS
  | IOCTL_GET_NUM_ENET_MACS | IOCTL_GET_NUM_ENET_PORTS | IOCTL_SET_MONITOR_FD | IOCTL_WAKEUP_MONITOR_TASK
  | IOCTL_SET_TRIGGER_EVENT | IOCTL_GET_TRIGGER_EVENT | IOCTL_UNSET_TRIGGER_EVENT | IOCTL_GET_WLAN_ANT_INUSE
  | IOCTL_SET_SES_LED | IOCTL_GET_VCOPE_GPIO | IOCTL_SET_CS_PAR | IOCTL_SET_GPIO | IOCTL_QUERY_RESET_DEFAULT_REQUEST
  | IOCTL_WIRELESS_PROTECT | IOCTL_BYPASS_SIGNATURE | IOCTL_OTHER

record ioctl_parms =
  io_string :: "bytes option"
  io_buf :: "bytes option"
  io_strLen :: int
  io_offset :: int
  io_action :: BOARD_IOCTL_ACTION
  io_result :: int

text \<open>
  What a call finds outside of the driver: whether the struct can be copied in, the struct, the NVRAM
  records, the MAC address and the Ethernet records on the stack, the revision register, the name of the
  system, the flash as the processor reads it, the kind of the file of a descriptor, the calling task,
  and whether the image can be read.
\<close>

record ioctl_env =
  in_copy :: bool
  in_parms :: ioctl_parms
  in_nvram :: bytes
  in_nvram2 :: bytes
  in_nvram3 :: bytes
  in_mac :: bytes
  in_enet :: "ethernet_mac_info list"
  in_RevID :: u32
  in_system_type :: bytes
  in_flash :: "nat \<Rightarrow> u8"
  in_fop :: "int \<Rightarrow> int option"
  in_current :: int
  in_image_ok :: bool

text \<open>\<open>__copy_to_user\<close> without a look at its result.\<close>

definition put_user :: "bytes \<Rightarrow> bytes option \<Rightarrow> bytes option" where
  "put_user src b = map_option (\<lambda>b. take (length b) src @ drop (length src) b) b"

definition bitcount :: "int \<Rightarrow> int" where
  "bitcount n =
     (let r = word_of_int n :: u32;
          r = (r AND 0x55555555) + (drop_bit 1 r AND 0x55555555);
          r = (r AND 0x33333333) + (drop_bit 2 r AND 0x33333333);
          r = (r AND 0x0f0f0f0f) + (drop_bit 4 r AND 0x0f0f0f0f)
      in uint r mod 255)"

subsection \<open>Opening, polling and reading\<close>

text \<open>The event mask of the open file.  \<open>km\<close> says whether the allocation succeeds.\<close>

definition board_open :: "bool \<Rightarrow> int \<times> u32 option" where
  "board_open km = (if km then (0, Some 0) else (- 12, None))"

text \<open>\<open>borad_ioc_free\<close> accepts a null pointer, and nothing of the file is left.\<close>

definition board_release :: "u32 option \<Rightarrow> int \<times> u32 option" where
  "board_release ioc = (0, None)"

definition board_poll :: "u32 \<Rightarrow> u32 \<Rightarrow> board_dev \<Rightarrow> u32" where
  "board_poll ExtIrqCfg eventmask s = (if eventmask AND SES_EVENTS \<noteq> 0 then sesBtn_poll ExtIrqCfg s else 0)"

definition board_read :: "u32 \<Rightarrow> u32 \<Rightarrow> board_dev \<Rightarrow> bytes \<times> board_dev" where
  "board_read ExtIrqCfg eventmask s = (if eventmask AND SES_EVENTS \<noteq> 0 then sesBtn_read ExtIrqCfg s else ([], s))"

subsection \<open>Flash commands\<close>

text \<open>The signature of an image, in its tag at the start or behind a boot loader.\<close>

definition BCM_SIG_1 :: bytes where
  "BCM_SIG_1 = ascii ''6338GW2_DLINK'' @ [0]"

definition dare_verify_tag :: "bytes \<Rightarrow> int option" where
  "dare_verify_tag string =
     do {
       a \<leftarrow> strcmp_eq (drop TAG_VER_LEN string) BCM_SIG_1;
       if a then Some 0
       else do {
         b \<leftarrow> strcmp_eq (drop (nat FLASH_LENGTH_BOOT_ROM + TAG_VER_LEN) string) BCM_SIG_1;
         Some (if b then 0 else 1)
       }
     }"

text \<open>After a boot loader was written: its NVRAM record must be right and name a board.\<close>

definition restore_nvram ::
  "flash_addr_info \<Rightarrow> (int \<Rightarrow> bool) \<Rightarrow> 'd flash_device_info option \<Rightarrow> board_chip \<Rightarrow> bytes \<Rightarrow> nvram_data \<Rightarrow>
   board_dev \<times> 'd \<Rightarrow> (board_dev \<times> 'd) option" where
  "restore_nvram fi km g chip mem nvramData sd =
     do {
       let (s, d) = sd;
       (r, tmpNvramData, d) \<leftarrow> readNvramData fi km g mem d;
       (bad, s) \<leftarrow>
         (if r \<noteq> 0 then Some (True, s)
          else do {
            (b, bp) \<leftarrow> BpSetBoardId chip (szBoardId tmpNvramData) (pCurrentBp s);
            Some (b \<noteq> BP_SUCCESS, s\<lparr>pCurrentBp := bp\<rparr>)
          });
       if bad then do { (_, d) \<leftarrow> writeNvramData fi km g nvramData d; Some (s, d) } else Some (s, d)
     }"

definition flash_write ::
  "flash_addr_info \<Rightarrow> (int \<Rightarrow> bool) \<Rightarrow> 'd flash_device_info option \<Rightarrow> board_chip \<Rightarrow> ioctl_env \<Rightarrow> ioctl_parms \<Rightarrow>
   board_dev \<Rightarrow> 'd \<Rightarrow> (int \<times> ioctl_parms \<times> board_dev \<times> 'd) option" where
  "flash_write fi km g chip e p s d =
     do {
       (_, nvramData, d) \<leftarrow> readNvramData fi km g (in_nvram e) d;
       (case io_action p of
          SCRATCH_PAD \<Rightarrow>
            (if io_offset p = -1 then
               do { (ret, d) \<leftarrow> kerSysScratchPadClearAll fi km g d; Some (ret, p, s, d) }
             else
               do {
                 string \<leftarrow> io_string p;
                 (ret, d) \<leftarrow> kerSysScratchPadSet fi km g string (io_buf p) (io_offset p) d;
                 Some (ret, p, s, d)
               })
        | PERSISTENT \<Rightarrow>
            do {
              string \<leftarrow> io_string p;
              (ret, d) \<leftarrow> kerSysPersistentSet fi km g string (io_strLen p) (io_offset p) d;
              Some (ret, p, s, d)
            }
        | DAREPERSISTENT \<Rightarrow>
            do {
              string \<leftarrow> io_string p;
              (ret, d) \<leftarrow> kerSysDarePersistentSet fi km g string (io_strLen p) (io_offset p) d;
              Some (ret, p, s, d)
            }
        | NVRAM \<Rightarrow>
            do {
              string \<leftarrow> io_string p;
              (ret, d) \<leftarrow> kerSysNvRamSet fi km g string (io_strLen p) (io_offset p) d;
              Some (ret, p, s, d)
            }
        | BCM_IMAGE_CFE \<Rightarrow>
            (if io_strLen p \<le> 0 \<or> io_strLen p > FLASH_LENGTH_BOOT_ROM then Some (-1, p, s, d)
             else
               do {
                 string \<leftarrow> io_string p;
                 (ret, d) \<leftarrow> kerSysBcmImageSet km (in_image_ok e) fi g (s32 (io_offset p + BOOT_OFFSET)) string (io_strLen p) d;
                 (s, d) \<leftarrow> restore_nvram fi km g chip (in_nvram2 e) nvramData (s, d);
                 Some (ret, p, s, d)
               })
        | BCM_IMAGE_FS \<Rightarrow>
            do {
              string \<leftarrow> io_string p;
              ret \<leftarrow> dare_verify_tag string;
              if ret = 1 \<and> signature_bypass s = 0 then Some (ret, p, s, d)
              else
                do {
                  (ret, string, d) \<leftarrow> flashFsKernelImage fi km (in_image_ok e) g (in_nvram2 e) (in_nvram3 e) string d;
                  Some (ret, p\<lparr>io_string := Some string\<rparr>, if ret = 0 then kerSysMipsSoftReset s else s, d)
                }
            }
        | BCM_IMAGE_KERNEL \<Rightarrow> Some (0, p, s, d)
        | BCM_IMAGE_WHOLE \<Rightarrow>
            (if io_strLen p \<le> 0 then Some (-1, p, s, d)
             else
               do {
                 string \<leftarrow> io_string p;
                 ret \<leftarrow> dare_verify_tag string;
                 if ret = 1 \<and> signature_bypass s = 0 then Some (ret, p, s, d)
                 else
                   do {
                     let p = (if io_offset p = 0 then p\<lparr>io_offset := s32 FLASH_BASE\<rparr> else p);
                     (ret, d) \<leftarrow> kerSysBcmImageSet km (in_image_ok e) fi g (io_offset p) string (io_strLen p) d;
                     (s, d) \<leftarrow> restore_nvram fi km g chip (in_nvram2 e) nvramData (s, d);
                     Some (ret, p, kerSysMipsSoftReset s, d)
                   }
               })
        | _ \<Rightarrow> Some (- EINVAL, p, s, d))
     }"

definition flash_read ::
  "flash_addr_info \<Rightarrow> (int \<Rightarrow> bool) \<Rightarrow> 'd flash_device_info option \<Rightarrow> ioctl_parms \<Rightarrow> 'd \<Rightarrow> (int \<times> ioctl_parms \<times> 'd) option" where
  "flash_read fi km g p d =
     (case io_action p of
        SCRATCH_PAD \<Rightarrow>
          do {
            string \<leftarrow> io_string p;
            buf \<leftarrow> io_buf p;
            (ret, buf, d) \<leftarrow> kerSysScratchPadGet fi km g string buf (io_offset p) d;
            Some (ret, p\<lparr>io_buf := Some buf\<rparr>, d)
          }
      | PERSISTENT \<Rightarrow>
          do {
            string \<leftarrow> io_string p;
            (ret, string, d) \<leftarrow> kerSysPersistentGet fi km g string (io_strLen p) (io_offset p) d;
            Some (ret, p\<lparr>io_string := Some string\<rparr>, d)
          }
      | DAREPERSISTENT \<Rightarrow>
          do {
            string \<leftarrow> io_string p;
            (ret, string, d) \<leftarrow> kerSysDarePersistentGet fi km g string (io_strLen p) (io_offset p) d;
            Some (ret, p\<lparr>io_string := Some string\<rparr>, d)
          }
      | NVRAM \<Rightarrow>
          do {
            string \<leftarrow> io_string p;
            (ret, string, d) \<leftarrow> kerSysNvRamGet fi km g string (io_strLen p) (io_offset p) d;
            Some (ret, p\<lparr>io_string := Some string\<rparr>, d)
          }
      | FLASH_SIZE \<Rightarrow> Some (kerSysFlashSizeGet g d, p, d)
      | _ \<Rightarrow> Some (- EINVAL, p, d))"

subsection \<open>The other commands\<close>

definition led_state_of :: "int \<Rightarrow> BOARD_LED_STATE" where
  "led_state_of n =
     (if n = 0 then kLedStateOff else if n = 1 then kLedStateOn else if n = 2 then kLedStateFail
      else if n = 3 then kLedStateBlinkOnce else if n = 4 then kLedStateSlowBlinkContinues
      else if n = 5 then kLedStateFastBlinkContinues else kLedStateOther)"

text \<open>The word a user pointer points to.\<close>

definition user_word :: "bytes option \<Rightarrow> u32 option" where
  "user_word b = do { b \<leftarrow> b; w \<leftarrow> mem_read 0 4 b; Some (of_be32 w) }"

definition enet_ports :: "ethernet_mac_info list \<Rightarrow> int" where
  "enet_ports es = sum_list (map (\<lambda>e. if ucPhyType e \<noteq> BP_ENET_NO_PHY then bitcount (port_map (sw e)) else 0) es)"

definition set_memory :: "ioctl_parms \<Rightarrow> ioctl_parms option" where
  "set_memory p =
     do {
       let w = be32 (word_of_int (io_offset p));
       let src = (if io_strLen p = 4 then w else if io_strLen p = 2 then drop 2 w else if io_strLen p = 1 then drop 3 w else []);
       string \<leftarrow> (if src = [] then Some (io_string p)
                 else do { string \<leftarrow> io_string p; map_option Some (mem_write 0 src string) });
       Some (p\<lparr>io_string := string\<rparr>)
     }"

definition get_id :: "ioctl_env \<Rightarrow> ioctl_parms \<Rightarrow> ioctl_parms" where
  "get_id e p =
     (case io_string p of
        None \<Rightarrow> p
      | Some string \<Rightarrow>
          let t = cstring (in_system_type e) @ [0];
              n = (if int (length t) < u32 (io_strLen p) then int (length t) else io_strLen p)
          in p\<lparr>io_strLen := n, io_string := put_user (take (nat n) t) (Some string)\<rparr>)"

definition get_cfe_ver :: "ioctl_env \<Rightarrow> ioctl_parms \<Rightarrow> int \<times> ioctl_parms" where
  "get_cfe_ver e p =
     (if io_strLen p < int CFE_VERSION_SIZE then (- EFAULT, p\<lparr>io_result := 0\<rparr>)
      else if map (\<lambda>i. in_flash e (CFE_VERSION_OFFSET + i)) [0..<5] \<noteq> ascii ''cfe-v'' then (0, p\<lparr>io_result := 0\<rparr>)
      else (0, p\<lparr>io_result := 1,
                 io_string := put_user (map (\<lambda>i. in_flash e (CFE_VERSION_OFFSET + CFE_VERSION_MARK_SIZE + i)) [0..<CFE_VERSION_SIZE])
                                       (io_string p)\<rparr>))"

definition set_monitor_fd :: "ioctl_env \<Rightarrow> ioctl_parms \<Rightarrow> board_dev \<Rightarrow> board_dev" where
  "set_monitor_fd e p s =
     (case in_fop e (io_offset p) of
        None \<Rightarrow> s\<lparr>g_monitor_file := None\<rparr>
      | Some fop \<Rightarrow>
          s\<lparr>g_monitor_file := Some (io_offset p), g_monitor_task := Some (in_current e),
            g_orig_fop_poll := Some (fop_poll s fop), fop_poll := (fop_poll s)(fop := Monitor_hook)\<rparr>)"

definition trigger_event :: "u32 \<Rightarrow> ioctl_parms \<Rightarrow> board_dev \<Rightarrow> (int \<times> ioctl_parms \<times> u32 \<times> board_dev) option" where
  "trigger_event eventmask p s =
     (if io_strLen p = 4 then
        do {
          w \<leftarrow> user_word (io_string p);
          let eventmask = eventmask OR w;
          Some (if eventmask AND SES_EVENTS \<noteq> 0 \<and> sesBtn_irq s \<noteq> BP_NOT_DEFINED
                then (0, p\<lparr>io_result := 0\<rparr>, eventmask, b_call (Irq_enable (uint (sesBtn_irq s))) s)
                else (- EFAULT, p\<lparr>io_result := - EFAULT\<rparr>, eventmask, s))
        }
      else Some (- EFAULT, p, eventmask, s))"

definition ConfigCs :: "ioctl_parms \<Rightarrow> int \<times> ioctl_parms" where
  "ConfigCs p = (0, p)"

subsection \<open>The dispatcher\<close>

text \<open>
  \<open>arg\<close> is the struct of the caller.  A command that does not copy it in writes back the
  struct on the stack with only the result set.
\<close>

definition board_ioctl ::
  "flash_addr_info \<Rightarrow> (int \<Rightarrow> bool) \<Rightarrow> 'd flash_device_info option \<Rightarrow> board_chip \<Rightarrow> ioctl_env \<Rightarrow>
   board_command \<Rightarrow> ioctl_parms \<Rightarrow> u32 \<Rightarrow> board_dev \<Rightarrow> 'd \<Rightarrow> (int \<times> ioctl_parms \<times> u32 \<times> board_dev \<times> 'd) option" where
  "board_ioctl fi km g chip e command arg ev s d =
     (case command of
        IOCTL_FLASH_WRITE \<Rightarrow>
          (if in_copy e then
             do {
               (ret, p, s, d) \<leftarrow> flash_write fi km g chip e arg s d;
               Some (ret, p\<lparr>io_result := ret\<rparr>, ev, s, d)
             }
           else Some (- EFAULT, arg, ev, s, d))
      | IOCTL_FLASH_READ \<Rightarrow>
          (if in_copy e then
             do {
               (ret, p, d) \<leftarrow> flash_read fi km g arg d;
               Some (ret, p\<lparr>io_result := ret\<rparr>, ev, s, d)
             }
           else Some (- EFAULT, arg, ev, s, d))
      | IOCTL_DUMP_ADDR \<Rightarrow>
          (if in_copy e then Some (0, arg\<lparr>io_result := 0\<rparr>, ev, s, d) else Some (- EFAULT, arg, ev, s, d))
      | IOCTL_SET_MEMORY \<Rightarrow>
          (if in_copy e then do { p \<leftarrow> set_memory arg; Some (0, p\<lparr>io_result := 0\<rparr>, ev, s, d) }
           else Some (- EFAULT, arg, ev, s, d))
      | IOCTL_MIPS_SOFT_RESET \<Rightarrow> Some (0, arg, ev, kerSysMipsSoftReset s, d)
      | IOCTL_LED_CTRL \<Rightarrow>
          (if in_copy e then
             do {
               l \<leftarrow> kerSysLedCtrl (g_ledInitialized s) (io_strLen arg) (led_state_of (io_offset arg)) (b_leds s);
               Some (0, arg, ev, s\<lparr>b_leds := l\<rparr>, d)
             }
           else Some (0, arg, ev, s, d))
      | IOCTL_GET_ID \<Rightarrow> Some (0, if in_copy e then (get_id e arg)\<lparr>io_result := 0\<rparr> else arg, ev, s, d)
      | IOCTL_GET_MAC_ADDRESS \<Rightarrow>
          (if in_copy e then
             do {
               (r, a, m) \<leftarrow> kerSysGetMacAddress (g_pMacInfo s) (in_mac e) (word_of_int (io_offset arg));
               let p = (if r = 0 then arg\<lparr>io_string := put_user a (io_string arg)\<rparr> else arg);
               Some (0, p\<lparr>io_result := r\<rparr>, ev, s\<lparr>g_pMacInfo := m\<rparr>, d)
             }
           else Some (- EFAULT, arg, ev, s, d))
      | IOCTL_RELEASE_MAC_ADDRESS \<Rightarrow>
          (if in_copy e then
             (case io_string arg \<bind> mem_read 0 6 of
                None \<Rightarrow> Some (0, arg\<lparr>io_result := - EACCES\<rparr>, ev, s, d)
              | Some a \<Rightarrow>
                  do {
                    (r, m) \<leftarrow> kerSysReleaseMacAddress (g_pMacInfo s) a;
                    Some (0, arg\<lparr>io_result := r\<rparr>, ev, s\<lparr>g_pMacInfo := m\<rparr>, d)
                  })
           else Some (- EFAULT, arg, ev, s, d))
      | IOCTL_GET_PSI_SIZE \<Rightarrow> Some (0, (in_parms e)\<lparr>io_result := sint (g_ulPsiSize s)\<rparr>, ev, s, d)
      | IOCTL_GET_SDRAM_SIZE \<Rightarrow> Some (0, (in_parms e)\<lparr>io_result := sint (g_ulSdramSize s)\<rparr>, ev, s, d)
      | IOCTL_GET_BASE_MAC_ADDRESS \<Rightarrow>
          (if in_copy e then
             do {
               m \<leftarrow> g_pMacInfo s;
               Some (0, arg\<lparr>io_string := put_user (mac_ucaBaseMacAddr m) (io_string arg), io_result := 0\<rparr>, ev, s, d)
             }
           else Some (- EFAULT, arg, ev, s, d))
      | IOCTL_GET_CHIP_ID \<Rightarrow> Some (0, (in_parms e)\<lparr>io_result := sint (in_RevID e AND 0xffff0000) div 65536\<rparr>, ev, s, d)
      | IOCTL_GET_CHIP_REV \<Rightarrow> Some (0, (in_parms e)\<lparr>io_result := sint (in_RevID e AND 0xff)\<rparr>, ev, s, d)
      | IOCTL_GET_NUM_ENET_MACS \<Rightarrow>
          do {
            (r, es) \<leftarrow> BpGetEthernetMacInfo (pCurrentBp s) (in_enet e) BP_MAX_ENET_MACS;
            Some (if r = BP_SUCCESS then (0, (in_parms e)\<lparr>io_result := enet_ports es\<rparr>, ev, s, d) else (- EFAULT, arg, ev, s, d))
          }
      | IOCTL_GET_NUM_ENET_PORTS \<Rightarrow>
          do {
            (r, es) \<leftarrow> BpGetEthernetMacInfo (pCurrentBp s) (in_enet e) BP_MAX_ENET_MACS;
            Some (if r = BP_SUCCESS then (0, (in_parms e)\<lparr>io_result := enet_ports es\<rparr>, ev, s, d) else (- EFAULT, arg, ev, s, d))
          }
      | IOCTL_GET_CFE_VER \<Rightarrow>
          (if in_copy e then let (ret, p) = get_cfe_ver e arg in Some (ret, p, ev, s, d)
           else Some (- EFAULT, arg, ev, s, d))
      | IOCTL_GET_WLAN_ANT_INUSE \<Rightarrow>
          (if in_copy e then
             let (r, antInUse) = BpGetWirelessAntInUse (pCurrentBp s)
             in Some (if r = BP_SUCCESS \<and> io_strLen arg = 2
                      then (0, arg\<lparr>io_string := put_user [ucast (drop_bit 8 antInUse), ucast antInUse] (io_string arg),
                                   io_result := 0\<rparr>, ev, s, d)
                      else (- EFAULT, arg, ev, s, d))
           else Some (- EFAULT, arg, ev, s, d))
      | IOCTL_SET_TRIGGER_EVENT \<Rightarrow>
          (if in_copy e then do { (ret, p, ev, s) \<leftarrow> trigger_event ev arg s; Some (ret, p, ev, s, d) }
           else Some (- EFAULT, arg, ev, s, d))
      | IOCTL_GET_TRIGGER_EVENT \<Rightarrow>
          Some (if in_copy e \<and> io_strLen arg = 4
                then (0, arg\<lparr>io_string := put_user (be32 ev) (io_string arg), io_result := 0\<rparr>, ev, s, d)
                else (- EFAULT, arg, ev, s, d))
      | IOCTL_UNSET_TRIGGER_EVENT \<Rightarrow>
          (if in_copy e \<and> io_strLen arg = 4 then
             do { w \<leftarrow> user_word (io_string arg); Some (0, arg\<lparr>io_result := 0\<rparr>, ev AND NOT w, s, d) }
           else Some (- EFAULT, arg, ev, s, d))
      | IOCTL_SET_SES_LED \<Rightarrow>
          (if in_copy e \<and> io_strLen arg = 4 then
             do { w \<leftarrow> user_word (io_string arg); s \<leftarrow> sesLed_ctrl (sint w) s; Some (0, arg\<lparr>io_result := 0\<rparr>, ev, s, d) }
           else Some (- EFAULT, arg, ev, s, d))
      | IOCTL_SET_MONITOR_FD \<Rightarrow> Some (0, arg, ev, if in_copy e then set_monitor_fd e arg s else s, d)
      | IOCTL_WAKEUP_MONITOR_TASK \<Rightarrow> Some (0, arg, ev, kerSysWakeupMonitorTask s, d)
      | IOCTL_GET_VCOPE_GPIO \<Rightarrow>
          (if in_copy e then
             let r = BpGetVcopeGpio (pCurrentBp s) (io_offset arg)
             in Some (if r \<noteq> 0xffff then 0 else - EFAULT, arg\<lparr>io_result := r\<rparr>, ev, s, d)
           else Some (- EFAULT, arg, ev, s, d))
      | IOCTL_SET_CS_PAR \<Rightarrow>
          (if in_copy e then let (ret, p) = ConfigCs arg in Some (ret, p, ev, s, d) else Some (- EFAULT, arg, ev, s, d))
      | IOCTL_SET_GPIO \<Rightarrow>
          (if in_copy e then Some (0, arg, ev, s\<lparr>b_leds := SetGpio (io_strLen arg) (io_offset arg) (b_leds s)\<rparr>, d)
           else Some (- EFAULT, arg, ev, s, d))
      | IOCTL_QUERY_RESET_DEFAULT_REQUEST \<Rightarrow>
          Some (0, (in_parms e)\<lparr>io_result := requestUserModeResetToDefault s\<rparr>, ev, s, d)
      | IOCTL_WIRELESS_PROTECT \<Rightarrow>
          (if in_copy e then let (r, s) = kerGetWirelessProtectFlag s in Some (0, arg\<lparr>io_result := r\<rparr>, ev, s, d)
           else Some (- EFAULT, arg, ev, s, d))
      | IOCTL_BYPASS_SIGNATURE \<Rightarrow> Some (0, arg, ev, s\<lparr>signature_bypass := 1\<rparr>, d)
      | IOCTL_OTHER \<Rightarrow> Some (- EINVAL, arg, ev, s, d))"

subsection \<open>Start of the driver\<close>

text \<open>
  \<open>reg\<close> is the result of \<open>register_chrdev\<close>, \<open>devs\<close> are the PCI
  devices and \<open>sdram\<close> is the size of the memory; \<open>kd\<close> and \<open>kl\<close>
  say whether the memory for the dying gasp handlers and the LEDs is there.  The result has the PCI
  device that is removed and the list of dying gasp handlers.
\<close>

definition board_psi_size :: "nvram_data \<Rightarrow> u32" where
  "board_psi_size nd = (if ulPsiSize nd \<noteq> - 1 \<and> ulPsiSize nd \<noteq> 0 then ulPsiSize nd * 1024 else 24 * 1024)"

definition map_reset_button :: "board_dev \<Rightarrow> board_dev" where
  "map_reset_button s =
     (let (r, irq) = BpGetResetToDefaultExtIntr (pCurrentBp s)
      in if r = BP_SUCCESS
         then b_call (Irq_enable (map_external_irq (uint irq))) (b_call (Irq_map (map_external_irq (uint irq))) s)
         else s)"

definition set_relay :: "board_dev \<Rightarrow> board_dev" where
  "set_relay s =
     (let vdslRelayGpio = BpGetVcopeGpio (pCurrentBp s) 2
      in if vdslRelayGpio \<noteq> 0xffff then s\<lparr>b_leds := SetGpio vdslRelayGpio GPIO_LOW (b_leds s)\<rparr> else s)"

definition brcm_board_init ::
  "flash_addr_info \<Rightarrow> (int \<Rightarrow> bool) \<Rightarrow> 'd flash_device_info option \<Rightarrow> int \<Rightarrow> bytes \<Rightarrow> bytes \<Rightarrow> ethernet_mac_info \<Rightarrow>
   u32 \<Rightarrow> pci_dev list \<Rightarrow> bool \<Rightarrow> bool \<Rightarrow> cb_dgasp list option \<Rightarrow> board_dev \<Rightarrow> 'd \<Rightarrow>
   (int \<times> pci_dev option \<times> cb_dgasp list option \<times> board_dev \<times> 'd) option" where
  "brcm_board_init fi km g reg mem mem2 e sdram devs kd kl dg s d =
     (if reg < 0 then Some (reg, None, dg, b_call (Set_timer 2) s, d)
      else
        do {
          (_, nvramData, d) \<leftarrow> readNvramData fi km g mem d;
          (m, d) \<leftarrow> set_mac_info fi km g mem2 (g_pMacInfo s) d;
          let s = s\<lparr>g_ulPsiSize := board_psi_size nvramData, g_ulSdramSize := sdram, g_pMacInfo := m\<rparr>;
          leds \<leftarrow> led_mapping (pCurrentBp s) e;
          let dev = kerSysScreenPciDevices (pCurrentBp s) devs;
          let s = kerSetWirelessPD WLAN_ON (ses_board_init s);
          dg \<leftarrow> kerSysInitDyingGaspHandler kd dg;
          let s = kerSysDyingGaspMapIntr s;
          l \<leftarrow> boardLedInit kl leds (b_leds s);
          let s = set_relay (map_reset_button (s\<lparr>b_leds := l, g_ledInitialized := True\<rparr>));
          Some (reg, dev, dg, b_call (Set_timer 2) s, d)
        })"

text \<open>\<open>board_major\<close> is 0 or 206, so that the test for -1 never holds.\<close>

definition brcm_board_cleanup :: "cb_dgasp list option \<Rightarrow> board_dev \<Rightarrow> (cb_dgasp list option \<times> board_dev) option" where
  "brcm_board_cleanup dg s =
     do {
       let s = ses_board_deinit s;
       dg \<leftarrow> kerSysDeinitDyingGaspHandler dg;
       Some (dg, s)
     }"

end
