(* ===== verification/Proc_Nvram.thy ===== *)
theory Proc_Nvram
  imports Board_Misc
begin

text \<open>
  The file \<open>/proc/nvram/BaseMacAddr\<close>: digits with any separators between them are stored as
  the base MAC address, and reading the file shows them.
\<close>

section \<open>Hexadecimal text\<close>

definition hex_lower :: "u8 \<Rightarrow> u8" where
  "hex_lower c = (if 0x41 \<le> c \<and> c \<le> 0x46 then c + 0x20 else c)"

text \<open>The digits in pairs, with a blank behind each pair.\<close>

fun hex_pairs :: "bytes \<Rightarrow> bytes" where
  "hex_pairs (a # b # xs) = hex_lower a # hex_lower b # 0x20 # hex_pairs xs"
| "hex_pairs _ = []"

lemma u8_sub_range: "k \<le> x \<Longrightarrow> x \<le> m \<Longrightarrow> unat (x - k) \<le> unat m - unat k" for x k m :: u8
  by (simp add: unat_sub word_le_nat_alt)

lemma u8_add: "unat x + unat y < 256 \<Longrightarrow> unat (x + y) = unat x + unat y" for x y :: u8
  by (simp add: unat_word_ariths)

lemma hex_value_less: "hex_value c < 16"
proof -
  consider "0x30 \<le> c" "c \<le> 0x39" | "\<not> (0x30 \<le> c \<and> c \<le> 0x39)" "0x61 \<le> c" "c \<le> 0x66"
    | "\<not> (0x30 \<le> c \<and> c \<le> 0x39)" "\<not> (0x61 \<le> c \<and> c \<le> 0x66)" "0x41 \<le> c" "c \<le> 0x46"
    | "hex_value c = 0"
    unfolding hex_value_def by metis
  then show ?thesis
  proof cases
    case 1
    then show ?thesis using u8_sub_range [of "0x30" c "0x39"] by (simp add: hex_value_def word_less_nat_alt)
  next
    case 2
    then have "hex_value c = c - 0x61 + 10" unfolding hex_value_def by presburger
    then show ?thesis using u8_sub_range [OF 2(2,3)] u8_add [of "c - 0x61" 10] by (simp add: word_less_nat_alt)
  next
    case 3
    then have "hex_value c = c - 0x41 + 10" unfolding hex_value_def by presburger
    then show ?thesis using u8_sub_range [OF 3(3,4)] u8_add [of "c - 0x41" 10] by (simp add: word_less_nat_alt)
  qed simp
qed

lemma hex_text_digit: "isxdigit a \<Longrightarrow> hex_char (hex_value a) = hex_lower a"
proof -
  assume "isxdigit a"
  then consider "0x30 \<le> a" "a \<le> 0x39" | "0x41 \<le> a" "a \<le> 0x46" | "0x61 \<le> a" "a \<le> 0x66"
    by (auto simp: isxdigit_def)
  then show ?thesis
  proof cases
    case 1
    moreover have "a - 0x30 < 10" using u8_sub_range [OF 1] by (simp add: word_less_nat_alt)
    moreover have "\<not> 0x41 \<le> a" using 1 by (simp add: word_le_nat_alt)
    ultimately show ?thesis by (simp add: hex_value_def hex_char_def hex_lower_def)
  next
    case 2
    have "\<not> a - 0x41 + 10 < 10" using u8_sub_range [OF 2] u8_add [of "a - 0x41" 10] by (simp add: word_less_nat_alt)
    moreover have "\<not> a \<le> 0x39" "\<not> 0x61 \<le> a" using 2 by (simp_all add: word_le_nat_alt)
    ultimately show ?thesis using 2 by (simp add: hex_value_def hex_char_def hex_lower_def)
  next
    case 3
    have "\<not> a - 0x61 + 10 < 10" using u8_sub_range [OF 3] u8_add [of "a - 0x61" 10] by (simp add: word_less_nat_alt)
    moreover have "\<not> a \<le> 0x39" "\<not> a \<le> 0x46" using 3 by (simp_all add: word_le_nat_alt)
    ultimately show ?thesis using 3 by (simp add: hex_value_def hex_char_def hex_lower_def)
  qed
qed

lemma and_mask15: "n AND 15 = n mod 2 ^ 4" for n :: nat
  using take_bit_eq_mask [of 4 n] by (simp add: take_bit_eq_mod mask_eq_exp_minus_1)

lemma nibbles:
  assumes "x < 16" "y < 16"
  shows "drop_bit 4 (x * 16 + y) = x \<and> (x * 16 + y) AND 0x0f = (y :: u8)"
proof -
  have n: "unat x < 16" "unat y < 16" using assms by (simp_all add: word_less_nat_alt)
  have m: "unat (x * 16) = unat x * 16" using n(1) by (simp add: unat_word_ariths)
  have u: "unat (x * 16 + y) = unat x * 16 + unat y" using u8_add [of "x * 16" y] n m by simp
  have "unat (drop_bit 4 (x * 16 + y)) = drop_bit 4 (unat (x * 16 + y))" by (rule unat_drop_bit_eq)
  then have "unat (drop_bit 4 (x * 16 + y)) = unat x" using u n by (simp only: drop_bit_eq_div) simp
  moreover have "unat ((x * 16 + y) AND 0x0f) = unat (x * 16 + y) AND unat (0x0f :: u8)" by (rule unsigned_and_eq)
  then have "unat ((x * 16 + y) AND 0x0f) = (unat x * 16 + unat y) mod 2 ^ 4"
    using and_mask15 [of "unat x * 16 + unat y"] unfolding u by simp
  then have "unat ((x * 16 + y) AND 0x0f) = unat y" using n(2) by simp
  ultimately show ?thesis unfolding word_unat_eq_iff by blast
qed

lemma str_to_num_text:
  assumes "2 * n \<le> length xs" "\<forall>c\<in>set (take (2 * n) xs). isxdigit c"
  shows "\<exists>num. str_to_num xs n = Some num \<and> length num = n \<and> hex_text num = hex_pairs (take (2 * n) xs)"
  using assms
proof (induction xs n rule: str_to_num.induct)
  case (2 a b cs n)
  then obtain num where n: "str_to_num cs n = Some num" "length num = n" "hex_text num = hex_pairs (take (2 * n) cs)" by auto
  have "isxdigit a" "isxdigit b" using 2(3) by simp_all
  then show ?case
    using n nibbles [OF hex_value_less [of a] hex_value_less [of b]] by (simp add: hex_text_def hex_text_digit)
qed (simp_all add: hex_text_def)

lemma drop_separators_digits:
  assumes "i \<le> r" "r \<le> length inp" "\<forall>k<i. isxdigit (inp ! k)"
  shows "\<exists>inp'. drop_separators inp i r = Some inp' \<and> length inp' = length inp \<and>
    take (length (filter isxdigit (take r inp))) inp' = filter isxdigit (take r inp)"
  using assms
proof (induction inp i r rule: drop_separators.induct)
  case (1 inp i r)
  show ?case
  proof (cases "i < r")
    case False
    then have "filter isxdigit (take r inp) = take r inp" using 1(3-5) by (auto simp: in_set_conv_nth intro!: filter_True)
    then show ?thesis using False 1(4) by (simp add: drop_separators.simps [of inp i r] min_def)
  next
    case True
    have p: "take r inp = take i inp @ inp ! i # take (r - i - 1) (drop (Suc i) inp)"
      using True 1(4) id_take_nth_drop [of i "take r inp"] by (simp add: min_def take_drop)
    show ?thesis
    proof (cases "isxdigit (inp ! i)")
      case d: True
      then show ?thesis using 1(2) [OF True _ _] 1(4,5) True
        by (auto simp: drop_separators.simps [of inp i r] c_assert_def less_Suc_eq)
    next
      case d: False
      let ?i = "take i inp @ take (r - i - 1) (drop (Suc i) inp) @ drop (r - 1) inp"
      have l: "length ?i = length inp" using True 1(4) by simp
      have t: "take (r - 1) ?i = take i inp @ take (r - i - 1) (drop (Suc i) inp)" 
        using True 1(4) by (cases "r = Suc i") (auto simp: min_def)
      have k: "\<forall>k<i. isxdigit (?i ! k)" using True 1(4,5) by (simp add: nth_append)
      have "\<exists>inp'. drop_separators ?i i (r - 1) = Some inp' \<and> length inp' = length ?i \<and>
          take (length (filter isxdigit (take (r - 1) ?i))) inp' = filter isxdigit (take (r - 1) ?i)"
        using 1(1) [OF True _ d _ _ k] l True 1(4) by (simp add: c_assert_def)
      then show ?thesis using d True 1(4) l unfolding t p by (simp add: drop_separators.simps [of inp i r] c_assert_def)
    qed
  qed
qed

section \<open>The file\<close>

text \<open>The base MAC address is the six bytes at 288 of the record.\<close>

lemma nvram_mac_write:
  assumes "nvram_wf nd" "length num = 6"
  shows "\<exists>b. mem_write 288 num (nvram_bytes nd) = Some b \<and> nvram_of b = nd\<lparr>ucaBaseMacAddr := num\<rparr>"
proof -
  have "mem_write 288 num (nvram_bytes nd) = Some (nvram_bytes (nd\<lparr>ucaBaseMacAddr := num\<rparr>))"
    using assms by (simp add: mem_write_def length_nvram_bytes nvram_bytes_def nvram_body_def nvram_wf_def)
  moreover have "nvram_wf (nd\<lparr>ucaBaseMacAddr := num\<rparr>)" using assms by (simp add: nvram_wf_def)
  ultimately show ?thesis by (simp add: nvram_of_bytes)
qed

lemma nvram_mac_read: "nvram_wf nd \<Longrightarrow> mem_read 288 6 (nvram_bytes nd) = Some (ucaBaseMacAddr nd)"
  by (simp add: mem_read_def length_nvram_bytes) (simp add: nvram_bytes_def nvram_body_def nvram_wf_def)

lemma length_hex_text [simp]: "length (hex_text bs) = 3 * length bs"
  by (induction bs) (simp_all add: hex_text_def)

context reliable_flash_device
begin

lemma proc_mac_roundtrip:
  assumes d: "ok d" and km: "\<And>z. km z"
    and pl: "placed geom (flash_nvram_start_blk fi) (flash_nvram_number_blk fi) (flash_nvram_blk_offset fi) 1024"
    and p: "p = section_pos geom (flash_nvram_start_blk fi) (flash_nvram_blk_offset fi) 0"
    and mem: "length mem = 300" "length mem' = 300" "length inp = 32"
    and nd: "nvram_wf nd" "ulCheckSum nd = nvram_crc nd" "take 300 (drop p (concat (contents d))) = nvram_bytes nd"
    and s: "length s \<le> 32" "ds = filter isxdigit s" "12 \<le> length ds" and cnt: "19 < cnt"
  shows "\<exists>d' d''. proc_set_param fi km (Some dev) mem inp 288 6 (Some s) (length s) d = Some (int (length s), d') \<and> ok d' \<and>
    proc_get_param fi km (Some dev) mem' 288 6 cnt d' = Some (19, hex_pairs (take 12 ds) @ [0x0a], d'')"
proof -
  let ?inp = "s @ drop (length s) inp" and ?nd = "nd\<lparr>ulCheckSum := 0\<rparr>"
  obtain inp' where i: "drop_separators ?inp 0 (length s) = Some inp'" "length inp' = length ?inp" "take (length ds) inp' = ds"
    using drop_separators_digits [of 0 "length s" ?inp] s(2) by auto
  have t: "take 12 inp' = take 12 ds" using i(3) s(3) by (metis min.absorb1 take_take)
  have "length ds \<le> length s" unfolding s(2) by (rule length_filter_le)
  then have l: "2 * 6 \<le> length inp'" using s(1,3) mem(3) i(2) by simp
  have "\<forall>c\<in>set (take (2 * 6) inp'). isxdigit c" using t s(2) by (auto dest: in_set_takeD)
  then obtain num where n: "str_to_num inp' 6 = Some num" "length num = 6" "hex_text num = hex_pairs (take 12 ds)"
    using str_to_num_text [OF l] t by auto
  obtain d1 where r: "readNvramData fi km (Some dev) mem d = Some (0, ?nd, d1)" "ok d1"
    using readNvramData_eq [where km = km, OF d km pl p mem(1) nd(3) [symmetric]] nd length_nvram_bytes [OF nd(1)]
    by (auto simp: nvram_of_bytes)
  obtain b where b: "mem_write 288 num (nvram_bytes ?nd) = Some b" "nvram_of b = ?nd\<lparr>ucaBaseMacAddr := num\<rparr>"
    using nvram_mac_write [of ?nd num] nd(1) n(2) by auto
  have w: "nvram_wf (?nd\<lparr>ucaBaseMacAddr := num\<rparr>)" using nd(1) n(2) by (simp add: nvram_wf_def)
  obtain nd' d' d'' where w2: "writeNvramData fi km (Some dev) (nvram_of b) d1 = Some (nd', d')" "ok d'"
      "readNvramData fi km (Some dev) mem' d' = Some (0, ?nd\<lparr>ucaBaseMacAddr := num\<rparr>, d'')"
    using writeNvramData_roundtrip [where km = km, OF r(2) km pl w mem(2)] b(2) by auto
  have "proc_set_param fi km (Some dev) mem inp 288 6 (Some s) (length s) d = Some (int (length s), d')"
    using s(1) mem(3) i(1) r n(1) b(1) w2(1) by (simp add: proc_set_param_def mem_read_def mem_write_def)
  moreover have "proc_get_param fi km (Some dev) mem' 288 6 cnt d' = Some (19, hex_pairs (take 12 ds) @ [0x0a], d'')"
    using w2(3) nvram_mac_read [OF w] n(2) cnt by (simp add: proc_get_param_def flip: n(3))
  ultimately show ?thesis using w2(2) by blast
qed

end

end
