(* ===== verification/Board_Dev_Properties.thy ===== *)
theory Board_Dev_Properties
  imports Board_Ioctl Proc_Nvram Upgrade_Properties Board_Properties
begin

text \<open>
  Properties of the board driver beside the storage: the commands of the character device, the NVRAM
  file in \<open>/proc\<close>, the reset and wireless buttons, the monitor hook and the dying gasp handlers.
\<close>

section \<open>The NVRAM file\<close>

text \<open>
  C11. Writing \<open>/proc/nvram/BaseMacAddr\<close>.  On a chip that does not fail and holds a right
  NVRAM record, a text of at most 32 characters with 12 or more hexadecimal digits, whatever stands
  between them, is accepted as a whole.  Reading the file then gives the first twelve digits in pairs,
  in lower case.
\<close>

theorem proc_set_param_get:
  assumes chip: "reliable_amd_chip nc ready bypass cells geom" and s: "cfi_ok geom ready s" and km: "\<And>z. km z"
    and pl: "placed geom (flash_nvram_start_blk fi) (flash_nvram_number_blk fi) (flash_nvram_blk_offset fi) 1024"
    and p: "p = section_pos geom (flash_nvram_start_blk fi) (flash_nvram_blk_offset fi) 0"
    and mem: "length mem = 300" "length mem' = 300" "length inp = 32"
    and nd: "nvram_wf nd" "ulCheckSum nd = nvram_crc nd"
      "take 300 (drop p (concat (cfi_contents geom cells s))) = nvram_bytes nd"
    and buf: "length buf \<le> 32" "ds = filter isxdigit buf" "12 \<le> length ds" and cnt: "19 < cnt"
  shows "\<exists>s' s''. proc_set_param fi km (Some (flash_cfi_dev nc did name)) mem inp 288 6 (Some buf) (length buf) s =
      Some (int (length buf), s') \<and> cfi_ok geom ready s' \<and>
    proc_get_param fi km (Some (flash_cfi_dev nc did name)) mem' 288 6 cnt s' = Some (19, hex_pairs (take 12 ds) @ [0x0a], s'')"
  by (rule reliable_flash_device.proc_mac_roundtrip
      [where km = km, OF reliable_amd_chip.cfi_reliable_device [OF chip] s km pl p mem nd buf cnt])

theorem proc_set_param_get_witness:
  "\<exists>s' s''. proc_set_param sim_layout (\<lambda>z. True) sim_dev (replicate 300 0) (replicate 32 0) 288 6
      (Some (ascii ''02:10:18:aB:cD:eF'')) 17
      (sim_board (nvram_bytes (sim_nvram\<lparr>ulCheckSum := nvram_crc sim_nvram\<rparr>)) (replicate 256 0) (replicate 256 0)) = Some (17, s') \<and>
    proc_get_param sim_layout (\<lambda>z. True) sim_dev (replicate 300 0) 288 6 1000 s' =
      Some (19, ascii ''02 10 18 ab cd ef '' @ [0x0a], s'')"
proof -
  let ?nd = "sim_nvram\<lparr>ulCheckSum := nvram_crc sim_nvram\<rparr>" and ?t = "ascii ''02:10:18:aB:cD:eF''"
  have nd: "nvram_wf ?nd" "ulCheckSum ?nd = nvram_crc ?nd" using sim_nvram_wf(1) [of 0] sim_nvram_wf(2) by simp_all
  note b = sim_board_tags [OF length_nvram_bytes [OF nd(1)], of "replicate 256 0" "replicate 256 0"]
  have d: "filter isxdigit ?t = ascii ''021018aBcDeF''" by (simp add: ascii_def isxdigit_def)
  have t: "length ?t = 17" "hex_pairs (take 12 (ascii ''021018aBcDeF'')) = ascii ''02 10 18 ab cd ef ''"
    by (simp_all add: ascii_def hex_lower_def)
  have l: "length (replicate 300 (0 :: u8)) = 300" "length (replicate 300 (0 :: u8)) = 300" "length (replicate 32 (0 :: u8)) = 32"
    "length ?t \<le> 32" "12 \<le> length (ascii ''021018aBcDeF'')" "(19 :: int) < 1000"
    using t(1) by (simp_all add: ascii_def)
  show ?thesis
    using proc_set_param_get [where km = "\<lambda>z. True", OF nor8.reliable_amd_chip_axioms b(1) TrueI sim_layout_placed(2) refl l(1-3) nd
        b(4) l(4) d [symmetric] l(5,6)] unfolding t by simp blast
qed

section \<open>The commands\<close>

text \<open>
  C16. Storing the configuration from an application.  On every AMD chip with a configuration section,
  the command to write it followed by the one to read it returns the same bytes, unless the first one
  reports an error.
\<close>

theorem board_ioctl_persistent:
  assumes chip: "amd_chip nc ready bypass cells geom" and s: "cfi_ok geom ready s" and km: "\<And>z. km z"
    and nv: "placed geom (flash_nvram_start_blk fi) (flash_nvram_number_blk fi) (flash_nvram_blk_offset fi) 1024"
    and pl: "placed geom (flash_persistent_start_blk fi) (flash_persistent_number_blk fi) (flash_persistent_blk_offset fi)
      (flash_persistent_length fi)"
    and e: "in_copy e" "length (in_nvram e) = 300"
    and n: "0 \<le> io_offset p" "io_offset p + int n \<le> flash_persistent_length fi" "n = length string" "length buf = n"
    and p: "io_action p = PERSISTENT" "io_string p = Some string" "io_strLen p = int n"
  shows "\<exists>r p' s'. board_ioctl fi km (Some (flash_cfi_dev nc did name)) bchip e IOCTL_FLASH_WRITE p ev bd s =
      Some (r, p', ev, bd, s') \<and> (r = 0 \<or> r = -1) \<and> io_result p' = r \<and>
    (r = 0 \<longrightarrow> (\<exists>p'' s''. board_ioctl fi km (Some (flash_cfi_dev nc did name)) bchip e IOCTL_FLASH_READ
        (p'\<lparr>io_string := Some buf\<rparr>) ev bd s' = Some (0, p'', ev, bd, s'') \<and> io_string p'' = Some string))"
proof -
  let ?g = "Some (flash_cfi_dev nc did name)"
  obtain r0 nd s1 where r: "readNvramData fi km ?g (in_nvram e) s = Some (r0, nd, s1)" "cfi_ok geom ready s1"
    using flash_device.readNvramData_total [where km = km, OF amd_chip.cfi_device [OF chip] s km nv e(2)] by blast
  obtain r' s' where w: "kerSysPersistentSet fi km ?g string (int n) (io_offset p) s1 = Some (r', s')" "r' = 0 \<or> r' = -1"
      "r' = 0 \<longrightarrow> (\<exists>s''. kerSysPersistentGet fi km ?g buf (int n) (io_offset p) s' = Some (0, string, s''))"
    using section_set_get [where km = km and string = string and buf = buf and n = n and did = did and name = name,
        OF chip r(2) pl n(1,2) _ _ km refl] n(3,4)
    unfolding kerSysPersistentSet_def kerSysPersistentGet_def by auto
  show ?thesis using r(1) w e(1) p by (auto simp: board_ioctl_def flash_write_def flash_read_def)
qed

text \<open>The environment of a call on the simulated part.\<close>

definition sim_parms :: ioctl_parms where
  "sim_parms = \<lparr>io_string = Some [1, 2, 3], io_buf = None, io_strLen = 3, io_offset = 100, io_action = PERSISTENT, io_result = 0\<rparr>"

definition sim_env :: ioctl_env where
  "sim_env =
     \<lparr>in_copy = True, in_parms = sim_parms, in_nvram = replicate 300 0, in_nvram2 = replicate 300 0, in_nvram3 = replicate 300 0,
      in_mac = [], in_enet = [], in_RevID = 0x63380001, in_system_type = ascii ''96338W2'' @ [0], in_flash = (\<lambda>i. 0xff),
      in_fop = (\<lambda>fd. Some 0), in_current = 7, in_image_ok = True\<rparr>"

definition sim_board_dev :: board_dev where
  "sim_board_dev =
     \<lparr>b_leds = \<lparr>gLed = [], gpVirtLeds = [], gLedHwFunc = [], gLedHwFailFunc = [], gTimerOn = False, gBlinkOnceTimerOn = False,
        GPIODir = 0, GPIOio = 0, hw_calls = []\<rparr>,
      g_ledInitialized = False, pCurrentBp = Some g_bcm96338gw2, g_pMacInfo = None, g_ulPsiSize = 0, g_ulSdramSize = 0,
      wl_protect_flag = 0, signature_bypass = 0, requestUserModeResetToDefault = 0, g_wakeup_monitor = 0, g_monitor_file = None,
      g_monitor_task = None, g_orig_fop_poll = None, fop_poll = (\<lambda>fop. File_poll), sesBtn_irq = 0xffff, sesLed_gpio = 0xffff,
      g_resetCount = 0, g_lastRcdJiff = 0, b_calls = []\<rparr>"

theorem board_ioctl_persistent_witness:
  "\<exists>r p' s'. board_ioctl sim_layout (\<lambda>z. True) sim_dev BCM96338 sim_env IOCTL_FLASH_WRITE sim_parms 0 sim_board_dev sim_erased =
      Some (r, p', 0, sim_board_dev, s') \<and>
    (r = 0 \<longrightarrow> (\<exists>p'' s''. board_ioctl sim_layout (\<lambda>z. True) sim_dev BCM96338 sim_env IOCTL_FLASH_READ
        (p'\<lparr>io_string := Some [0, 0, 0]\<rparr>) 0 sim_board_dev s' = Some (0, p'', 0, sim_board_dev, s'') \<and> io_string p'' = Some [1, 2, 3]))"
proof -
  have e: "in_copy sim_env" "length (in_nvram sim_env) = 300" by (simp_all add: sim_env_def)
  have p: "0 \<le> io_offset sim_parms" "io_offset sim_parms + int 3 \<le> flash_persistent_length sim_layout" "3 = length [1, 2, 3 :: u8]"
    "length [0, 0, 0 :: u8] = 3" "io_action sim_parms = PERSISTENT" "io_string sim_parms = Some [1, 2, 3]" "io_strLen sim_parms = int 3"
    by (simp_all add: sim_parms_def sim_layout_def)
  show ?thesis
    using board_ioctl_persistent [where km = "\<lambda>z. True", OF nor8.amd_chip_axioms sim_erased_ok TrueI sim_layout_placed(2)
        sim_layout_placed(1) e p] by blast
qed

text \<open>
  What a signed image is: the name of the vendor's model and a zero stand behind the four bytes of the
  tag's version, at the start of the image or behind the 64 kilobytes of a boot loader.
\<close>

definition image_signed :: "bytes \<Rightarrow> bool" where
  "image_signed string \<longleftrightarrow>
     take 14 (drop 4 string) = ascii ''6338GW2_DLINK'' @ [0] \<or> take 14 (drop 65540 string) = ascii ''6338GW2_DLINK'' @ [0]"

lemma strcmp_eq_prefix:
  "0 \<notin> set w \<Longrightarrow> length w < length a \<Longrightarrow> strcmp_eq a (w @ [0]) = Some (take (length w + 1) a = w @ [0])"
proof (induction w arbitrary: a)
  case Nil
  then show ?case by (cases a) auto
next
  case (Cons x w)
  then show ?case by (cases a) auto
qed

lemma dare_verify_tag_eq:
  assumes "65554 \<le> length string"
  shows "dare_verify_tag string = Some (if image_signed string then 0 else 1)"
proof -
  have w: "length (ascii ''6338GW2_DLINK'') = 13" "0 \<notin> set (ascii ''6338GW2_DLINK'')" by (simp_all add: ascii_def)
  show ?thesis
    using strcmp_eq_prefix [OF w(2), of "drop 4 string"] strcmp_eq_prefix [OF w(2), of "drop 65540 string"] assms w(1)
    by (simp add: dare_verify_tag_def BCM_SIG_1_def image_signed_def)
qed

text \<open>
  C12. Unsigned images.  A file system image or whole image, of at least 65554 bytes, that carries the
  signature neither at its start nor behind a boot loader is refused with 1 as long as the check is not
  switched off; nothing but the NVRAM record is read, so that the contents of the flash and the state of
  the driver stay, and the board is not restarted.  This is all the protection there is: the images of a
  boot loader are stored without a look at their signature, and any caller of the driver can switch the
  check off.
\<close>

theorem board_ioctl_unsigned:
  assumes chip: "amd_chip nc ready bypass cells geom" and s: "cfi_ok geom ready s" and km: "\<And>z. km z"
    and nv: "placed geom (flash_nvram_start_blk fi) (flash_nvram_number_blk fi) (flash_nvram_blk_offset fi) 1024"
    and e: "in_copy e" "length (in_nvram e) = 300"
    and p: "io_action p = BCM_IMAGE_FS \<or> io_action p = BCM_IMAGE_WHOLE \<and> 0 < io_strLen p" "io_string p = Some string"
    and sig: "65554 \<le> length string" "\<not> image_signed string" "signature_bypass bd = 0"
  shows "\<exists>s'. board_ioctl fi km (Some (flash_cfi_dev nc did name)) bchip e IOCTL_FLASH_WRITE p ev bd s =
      Some (1, p\<lparr>io_result := 1\<rparr>, ev, bd, s') \<and> cfi_ok geom ready s' \<and> cfi_contents geom cells s' = cfi_contents geom cells s"
proof -
  obtain r nd s' where r: "readNvramData fi km (Some (flash_cfi_dev nc did name)) (in_nvram e) s = Some (r, nd, s')"
      "cfi_ok geom ready s'" "cfi_contents geom cells s' = cfi_contents geom cells s"
    using flash_device.readNvramData_total [where km = km, OF amd_chip.cfi_device [OF chip] s km nv e(2)] by blast
  show ?thesis using r e(1) p sig(3) dare_verify_tag_eq [OF sig(1)] sig(2) by (auto simp: board_ioctl_def flash_write_def)
qed

theorem board_ioctl_unsigned_witness:
  "\<exists>s'. board_ioctl sim_layout (\<lambda>z. True) sim_dev BCM96338 sim_env IOCTL_FLASH_WRITE
      (sim_parms\<lparr>io_action := BCM_IMAGE_FS, io_string := Some (replicate 0x20000 0)\<rparr>) 0 sim_board_dev sim_erased =
      Some (1, (sim_parms\<lparr>io_action := BCM_IMAGE_FS, io_string := Some (replicate 0x20000 0)\<rparr>)\<lparr>io_result := 1\<rparr>, 0, sim_board_dev, s') \<and>
    cfi_contents sim_sectors cells s' = cfi_contents sim_sectors cells sim_erased"
proof -
  have "hd (replicate 14 (0 :: u8)) \<noteq> hd (ascii ''6338GW2_DLINK'' @ [0])" by (simp add: ascii_def)
  then have "replicate 14 (0 :: u8) \<noteq> ascii ''6338GW2_DLINK'' @ [0]" by (rule contrapos_nn) (rule arg_cong)
  then have v: "65554 \<le> length (replicate 0x20000 (0 :: u8))" "\<not> image_signed (replicate 0x20000 0)"
    by (simp_all add: image_signed_def)
  have e: "in_copy sim_env" "length (in_nvram sim_env) = 300" "signature_bypass sim_board_dev = 0"
    by (simp_all add: sim_env_def sim_board_dev_def)
  let ?p = "sim_parms\<lparr>io_action := BCM_IMAGE_FS, io_string := Some (replicate 0x20000 0)\<rparr>"
  have p: "io_action ?p = BCM_IMAGE_FS \<or> io_action ?p = BCM_IMAGE_WHOLE \<and> 0 < io_strLen ?p" "io_string ?p = Some (replicate 0x20000 0)"
    by simp_all
  show ?thesis
    using board_ioctl_unsigned [where km = "\<lambda>z. True", OF nor8.amd_chip_axioms sim_erased_ok TrueI sim_layout_placed(2) e(1,2) p v e(3)]
    by blast
qed

text \<open>
  C13. A new boot loader.  After an image with a boot loader was stored, the NVRAM is looked at again,
  and whatever the image left there, a right record is in the NVRAM afterwards: the one of the image
  when its checksum is right and it names a board, and otherwise the one from before.
\<close>

theorem restore_nvram_right:
  assumes chip: "reliable_amd_chip nc ready bypass cells geom" and s: "cfi_ok geom ready s" and km: "\<And>z. km z"
    and nv: "placed geom (flash_nvram_start_blk fi) (flash_nvram_number_blk fi) (flash_nvram_blk_offset fi) 1024"
    and mem: "length mem = 300" "length mem' = 300" and nd: "nvram_wf nd"
  shows "\<exists>r nd1 s1 bd' s' s''. readNvramData fi km (Some (flash_cfi_dev nc did name)) mem s = Some (r, nd1, s1) \<and>
    restore_nvram fi km (Some (flash_cfi_dev nc did name)) bchip mem nd (bd, s) = Some (bd', s') \<and>
    readNvramData fi km (Some (flash_cfi_dev nc did name)) mem' s' =
      Some (0, if r = 0 \<and> (\<exists>b\<in>set (g_BoardParms bchip). cstring (bp_szBoardId b) = cstring (szBoardId nd1))
               then nd1 else nd\<lparr>ulCheckSum := 0\<rparr>, s'')"
proof -
  let ?g = "Some (flash_cfi_dev nc did name)"
  note dev = reliable_amd_chip.cfi_reliable_device [OF chip, of did name]
  obtain r nd1 s1 where r: "readNvramData fi km ?g mem s = Some (r, nd1, s1)" "cfi_ok geom ready s1" "nvram_wf nd1"
      "\<exists>s2. readNvramData fi km ?g mem' s1 = Some (r, nd1, s2)"
    using flash_device.readNvramData_total [where km = km, OF reliable_flash_device.axioms(1) [OF dev] s km nv mem(1)] mem(2) by blast
  obtain nd2 s2 s3 where w: "writeNvramData fi km ?g nd s1 = Some (nd2, s2)"
      "readNvramData fi km ?g mem' s2 = Some (0, nd\<lparr>ulCheckSum := 0\<rparr>, s3)"
    using reliable_flash_device.writeNvramData_roundtrip [where km = km, OF dev r(2) km nv nd mem(2)] by blast
  have n: "16 \<le> length (szBoardId nd1)" using r(3) by (simp add: nvram_wf_def)
  show ?thesis
  proof (cases "find (\<lambda>x. cstring (bp_szBoardId x) = cstring (szBoardId nd1)) (g_BoardParms bchip)")
    case None
    then have "\<not> (\<exists>b\<in>set (g_BoardParms bchip). cstring (bp_szBoardId b) = cstring (szBoardId nd1))" by (simp add: find_None_iff)
    then show ?thesis using r(1) w None set_board_find [OF n, of bchip "pCurrentBp bd"] by (auto simp: restore_nvram_def)
  next
    case (Some b)
    then have "\<exists>b\<in>set (g_BoardParms bchip). cstring (bp_szBoardId b) = cstring (szBoardId nd1)"
      by (auto simp: find_Some_iff intro: nth_mem)
    then show ?thesis using r(1,4) w Some set_board_find [OF n, of bchip "pCurrentBp bd"]
      by (cases "r = 0") (auto simp: restore_nvram_def)
  qed
qed

theorem restore_nvram_right_witness:
  "\<exists>bd' s' nd' s''. restore_nvram sim_layout (\<lambda>z. True) sim_dev BCM96338 (replicate 300 0) sim_nvram (sim_board_dev, sim_erased) = Some (bd', s') \<and>
    readNvramData sim_layout (\<lambda>z. True) sim_dev (replicate 300 0) s' = Some (0, nd', s'')"
proof -
  have nd: "nvram_wf sim_nvram" using sim_nvram_wf(1) [of 0] sim_nvram_wf(2) by simp
  have l: "length (replicate 300 (0 :: u8)) = 300" by simp
  show ?thesis
    using restore_nvram_right [where km = "\<lambda>z. True", OF nor8.reliable_amd_chip_axioms sim_erased_ok TrueI sim_layout_placed(2) l l nd]
    by blast
qed

section \<open>Buttons and hooks\<close>

text \<open>
  The interrupts of the reset button, each with the ticks at its start and after its delay, the latest
  first: the length of the current run, in which each interrupt starts at most 100 ticks after the end
  of the one before it.
\<close>

fun run_len :: "(u32 \<times> u32) list \<Rightarrow> nat" where
  "run_len [] = 0"
| "run_len [e] = 1"
| "run_len (e # e' # es) = (if fst e - snd e' > 100 then 1 else Suc (run_len (e' # es)))"

definition reset_isrs :: "int \<Rightarrow> (u32 \<times> u32) list \<Rightarrow> board_dev \<Rightarrow> board_dev" where
  "reset_isrs irq evs s = fold (\<lambda>(j, j'). reset_isr irq j j') evs s"

lemma reset_isr_request: "requestUserModeResetToDefault s = 1 \<Longrightarrow> requestUserModeResetToDefault (reset_isr irq j j' s) = 1"
  by (simp add: reset_isr_def kerSysWakeupMonitorTask_def b_call_def Let_def split: option.split)

lemma reset_isr_fields:
  assumes "n = (if g_lastRcdJiff s \<noteq> 0 \<and> g_resetCount s \<noteq> 0 \<and> j - g_lastRcdJiff s > 100 then 0 else g_resetCount s)"
  shows "n < 20 \<Longrightarrow> g_resetCount (reset_isr irq j j' s) = n + 1 \<and> g_lastRcdJiff (reset_isr irq j j' s) = j' \<and>
      requestUserModeResetToDefault (reset_isr irq j j' s) = requestUserModeResetToDefault s"
    and "\<not> n < 20 \<Longrightarrow> requestUserModeResetToDefault (reset_isr irq j j' s) = 1"
  unfolding assms by (auto simp: reset_isr_def kerSysWakeupMonitorTask_def b_call_def Let_def split: option.split if_splits)

lemma run_len_pos: "run_len es = 0 \<longleftrightarrow> es = []"
  by (induction es rule: run_len.induct) simp_all

lemma reset_isrs_state:
  assumes s: "g_resetCount s = 0" "g_lastRcdJiff s = 0" "requestUserModeResetToDefault s = 0"
    and j: "\<forall>e\<in>set es. snd e \<noteq> 0"
  shows "if \<exists>n. 20 < run_len (drop n es) then requestUserModeResetToDefault (reset_isrs irq (rev es) s) = 1
    else requestUserModeResetToDefault (reset_isrs irq (rev es) s) = 0 \<and>
      g_resetCount (reset_isrs irq (rev es) s) = word_of_nat (run_len es) \<and>
      g_lastRcdJiff (reset_isrs irq (rev es) s) = (case es of [] \<Rightarrow> 0 | e # _ \<Rightarrow> snd e)"
  using j
proof (induction es)
  case Nil
  then show ?case using s by (simp add: reset_isrs_def)
next
  case (Cons e es)
  let ?s = "reset_isrs irq (rev es) s"
  have step: "reset_isrs irq (rev (e # es)) s = reset_isr irq (fst e) (snd e) ?s" by (simp add: reset_isrs_def split_beta)
  have ex: "(\<exists>n. 20 < run_len (drop n (e # es))) \<longleftrightarrow> 20 < run_len (e # es) \<or> (\<exists>n. 20 < run_len (drop n es))"
    by (metis drop0 drop_Suc_Cons not0_implies_Suc)
  show ?case
  proof (cases "\<exists>n. 20 < run_len (drop n es)")
    case True
    then show ?thesis using Cons reset_isr_request [of ?s] unfolding ex step by simp
  next
    case False
    then have ih: "requestUserModeResetToDefault ?s = 0" "g_resetCount ?s = word_of_nat (run_len es)"
        "g_lastRcdJiff ?s = (case es of [] \<Rightarrow> 0 | e # _ \<Rightarrow> snd e)" using Cons by simp_all
    have le: "run_len es \<le> 20" using False by (metis drop0 not_le)
    define n where "n = (if g_lastRcdJiff ?s \<noteq> 0 \<and> g_resetCount ?s \<noteq> 0 \<and> fst e - g_lastRcdJiff ?s > 100 then 0 else g_resetCount ?s)"
    have c: "n = word_of_nat (run_len (e # es) - 1) \<and> run_len (e # es) - 1 \<le> 20"
    proof (cases es)
      case Nil
      then show ?thesis using ih by (simp add: n_def)
    next
      case es: (Cons e' es')
      have "word_of_nat (run_len es) \<noteq> (0 :: u32)"
        using le run_len_pos [of es] es by (simp add: word_of_nat_eq_0_iff nat_dvd_not_less)
      then show ?thesis using ih le es Cons.prems by (auto simp: n_def)
    qed
    have n: "n < 20 \<longleftrightarrow> \<not> 20 < run_len (e # es)"
    proof -
      have "unat (word_of_nat (run_len (e # es) - 1) :: u32) = run_len (e # es) - 1" using c by (simp add: unsigned_of_nat take_bit_eq_mod)
      then show ?thesis using c run_len_pos [of "e # es"] by (auto simp: word_less_nat_alt)
    qed
    have p: "word_of_nat (run_len (e # es) - 1) + 1 = (word_of_nat (run_len (e # es)) :: u32)"
      using run_len_pos [of "e # es"] by (cases "run_len (e # es)") (simp_all add: add.commute)
    show ?thesis using reset_isr_fields [OF n_def, of irq "snd e"] False ih(1) c n p unfolding ex step by auto
  qed
qed

text \<open>
  C15. Holding the reset button.  From the start of the driver, the restore of the default settings has
  been requested after any sequence of button interrupts exactly when 21 of them came in a row, each at
  most 100 ticks after the one before was handled.
\<close>

theorem reset_isr_hold:
  assumes "g_resetCount s = 0" "g_lastRcdJiff s = 0" "requestUserModeResetToDefault s = 0" "\<forall>e\<in>set evs. snd e \<noteq> 0"
  shows "requestUserModeResetToDefault (reset_isrs irq evs s) = (if \<exists>n\<le>length evs. 20 < run_len (rev (take n evs)) then 1 else 0)"
proof -
  have "(\<exists>n\<le>length evs. 20 < run_len (rev (take n evs))) \<longleftrightarrow> (\<exists>n. 20 < run_len (drop n (rev evs)))"
    by (metis diff_diff_cancel diff_le_self drop_rev length_rev rev_take take_all_iff nat_le_linear)
  then show ?thesis using reset_isrs_state [OF assms(1-3), of "rev evs" irq] assms(4) by (auto split: if_splits)
qed

theorem reset_isr_hold_witness:
  "requestUserModeResetToDefault (reset_isrs 3 (replicate 21 (100, 100)) sim_board_dev) = 1 \<and>
   requestUserModeResetToDefault (reset_isrs 3 (replicate 20 (100, 100)) sim_board_dev) = 0"
proof -
  have r: "run_len (replicate k (100, 100)) = k" for k
  proof (induction k)
    case (Suc k)
    then show ?case by (cases k) simp_all
  qed simp
  have s: "g_resetCount sim_board_dev = 0" "g_lastRcdJiff sim_board_dev = 0" "requestUserModeResetToDefault sim_board_dev = 0"
    by (simp_all add: sim_board_dev_def)
  have "\<exists>n\<le>length (replicate 21 (100 :: u32, 100 :: u32)). 20 < run_len (rev (take n (replicate 21 (100, 100))))"
    by (intro exI [of _ 21]) (simp only: take_replicate rev_replicate length_replicate min.idem r, simp)
  moreover have "\<not> (\<exists>n\<le>length (replicate 20 (100 :: u32, 100 :: u32)). 20 < run_len (rev (take n (replicate 20 (100, 100)))))"
  proof -
    have "run_len (rev (take n (replicate 20 (100, 100)))) = min n 20" for n unfolding take_replicate rev_replicate by (rule r)
    then show ?thesis by simp
  qed
  ultimately show ?thesis
    using reset_isr_hold [OF s, of "replicate 21 (100, 100)" 3] reset_isr_hold [OF s, of "replicate 20 (100, 100)" 3] by simp
qed

text \<open>
  C31. The wireless button.  No table of the BCM96338 gives its pin.  On every board of this chip, each
  poll therefore makes GPIO 0 an input, on the 96338W2 the pin of the power LED, and takes a low level
  there for a press of the button.
\<close>

theorem pollWirelessProtect_gpio0:
  assumes n: "16 \<le> length n" and set: "BpSetBoardId BCM96338 n g = Some (BP_SUCCESS, pCurrentBp s)"
  shows "GPIODir (b_leds (pollWirelessProtect io s)) = GPIODir (b_leds s) AND NOT 1 \<and>
    wl_protect_flag (pollWirelessProtect io s) = (if io AND 1 = 0 then 0 else wl_protect_flag s) \<and>
    (pCurrentBp s = Some g_bcm96338gw2 \<longrightarrow> BpGetBootloaderPowerOnLedGpio (pCurrentBp s) = (BP_SUCCESS, BP_GPIO_0_AH))"
proof -
  have "usGpioLedBlPowerOn g_bcm96338gw2 = 0" by (simp add: g_bcm96338gw2_def board_parameters.defs)
  moreover have "BpGetWirelessProtectLedGpio (pCurrentBp s) = (BP_SUCCESS, 0)" using BpGetUsbHost_default [OF n set] by simp
  ultimately show ?thesis
    by (simp add: pollWirelessProtect_def kerGetWirelessProtectState_def GetGpio_def GPIO_NUM_TO_MASK_def b_call_def
        kerSysWakeupMonitorTask_def Let_def BpGetBootloaderPowerOnLedGpio_def bp_value_def split: option.split)
qed

theorem pollWirelessProtect_gpio0_witness:
  "GPIODir (b_leds (pollWirelessProtect 0 sim_board_dev)) = 0 \<and> wl_protect_flag (pollWirelessProtect 0 sim_board_dev) = 0 \<and>
    BpGetBootloaderPowerOnLedGpio (Some g_bcm96338gw2) = (BP_SUCCESS, BP_GPIO_0_AH)"
proof -
  have "g_bcm96338gw2 \<in> set (g_BoardParms BCM96338)" "bp_szBoardId g_bcm96338gw2 = board_id ''96338W2''"
    by (simp_all add: g_bcm96338gw2_def)
  moreover have n: "16 \<le> length (board_id ''96338W2'')" by (simp add: board_id_def ascii_def)
  moreover have bp: "pCurrentBp sim_board_dev = Some g_bcm96338gw2" "GPIODir (b_leds sim_board_dev) = 0" by (simp_all add: sim_board_dev_def)
  ultimately have "BpSetBoardId BCM96338 (board_id ''96338W2'') None = Some (BP_SUCCESS, pCurrentBp sim_board_dev)"
    using find_board [of g_bcm96338gw2 BCM96338 "board_id ''96338W2''"] by (subst set_board_find) simp_all
  then show ?thesis using pollWirelessProtect_gpio0 [OF n, of None sim_board_dev 0] bp by simp
qed

section \<open>Power loss\<close>

text \<open>The order of the handlers: those that are not of DSL, then the one of DSL that was registered first.\<close>

definition is_dsl :: "cb_dgasp \<Rightarrow> bool" where
  "is_dsl n \<longleftrightarrow> take 3 (dg_name n) = ascii ''dsl''"

definition dgasp_order :: "cb_dgasp list \<Rightarrow> cb_dgasp list" where
  "dgasp_order l = filter (\<lambda>n. \<not> is_dsl n) l @ (if filter is_dsl l = [] then [] else [last (filter is_dsl l)])"

lemma strncmp_dsl: "3 \<le> length xs \<Longrightarrow> strncmp_eq 3 xs (ascii ''dsl'') = Some (take 3 xs = ascii ''dsl'')"
  by (auto simp: ascii_def numeral_3_eq_3 Suc_le_length_iff)

lemma dgasp_calls_eq:
  assumes "\<forall>n\<in>set l. 3 \<le> length (dg_name n)"
  shows "dgasp_calls l dsl = Some (map (\<lambda>n. (cb_dgasp_fn n, dg_context n))
    (filter (\<lambda>n. \<not> is_dsl n) l @ (if filter is_dsl l = [] then (case dsl of None \<Rightarrow> [] | Some n \<Rightarrow> [n]) else [last (filter is_dsl l)])))"
  using assms by (induction l arbitrary: dsl) (auto simp: strncmp_dsl is_dsl_def split: option.split)

lemma dgasp_wait_returns:
  assumes "\<not> clk (n + k) - clk0 < 12000"
  shows "\<exists>m. dgasp_wait clk0 irq clk n = Some m"
  using assms
proof (induction k arbitrary: n)
  case (Suc k)
  then show ?case using Suc.IH [of "Suc n"] by (subst dgasp_wait.simps) simp
qed (subst dgasp_wait.simps, simp)

text \<open>
  C14. Power loss.  When the interrupt stays on and the cycle counter passes the time of the glitch
  filter, the interrupt routine calls every handler that is not of DSL once, the last registered first,
  then the DSL handler that was registered first, and it ends with the watchdog started, after the
  power down pin of the wireless card was set.
\<close>

theorem kerSysDyingGaspIsr_order:
  assumes "\<forall>n. irq n" "\<not> clk k - clk0 < 12000" "\<forall>n\<in>set l. length (dg_name n) = 16"
  shows "kerSysDyingGaspIsr clk0 irq clk (Some l) s =
    Some (map (\<lambda>n. (cb_dgasp_fn n, dg_context n)) (dgasp_order l), True, b_call (Watchdog 50000000) (kerSetWirelessPD WLAN_OFF s))"
proof -
  obtain m where "dgasp_wait clk0 irq clk 0 = Some m" using dgasp_wait_returns [of clk 0 k clk0 irq] assms(2) by auto
  moreover have "dgasp_calls l None = Some (map (\<lambda>n. (cb_dgasp_fn n, dg_context n)) (dgasp_order l))"
    using dgasp_calls_eq [of l None] assms(3) by (simp add: dgasp_order_def)
  ultimately show ?thesis using assms(1)
    by (simp add: kerSysDyingGaspIsr_def kerSysDyingGaspCheckPowerLoss_def kerSysDyingGaspShutdown_def kerSysSetWdTimer_def)
qed

theorem kerSysDyingGaspIsr_order_witness:
  "\<exists>g1 g2 g3. kerSysRegisterDyingGaspHandler True (Some (ascii ''dsl0'' @ [0])) 1 10 (Some []) = Some g1 \<and>
    kerSysRegisterDyingGaspHandler True (Some (ascii ''eth0'' @ [0])) 2 20 g1 = Some g2 \<and>
    kerSysRegisterDyingGaspHandler True (Some (ascii ''dsl1'' @ [0])) 3 30 g2 = Some g3 \<and>
    kerSysDyingGaspIsr 0 (\<lambda>n. True) (\<lambda>n. 1000 * of_nat n) g3 sim_board_dev =
      Some ([(2, 20), (1, 10)], True, b_call (Watchdog 50000000) (kerSetWirelessPD WLAN_OFF sim_board_dev))"
proof -
  define h where "h nm f c = \<lparr>dg_name = strncpy0 16 nm, cb_dgasp_fn = f, dg_context = c\<rparr>" for nm f c
  let ?l = "[h (ascii ''dsl1'' @ [0]) 3 30, h (ascii ''eth0'' @ [0]) 2 20, h (ascii ''dsl0'' @ [0]) 1 10]"
  have l: "\<forall>n\<in>set ?l. length (dg_name n) = 16" "map (\<lambda>n. (cb_dgasp_fn n, dg_context n)) (dgasp_order ?l) = [(2, 20), (1, 10)]"
    by (simp_all add: h_def strncpy0_def cstring_def ascii_def dgasp_order_def is_dsl_def)
  have "kerSysDyingGaspIsr 0 (\<lambda>n. True) (\<lambda>n. 1000 * of_nat n) (Some ?l) sim_board_dev =
      Some ([(2, 20), (1, 10)], True, b_call (Watchdog 50000000) (kerSetWirelessPD WLAN_OFF sim_board_dev))"
    using kerSysDyingGaspIsr_order [OF _ _ l(1), of "\<lambda>n. True" "\<lambda>n. 1000 * of_nat n" 12 0 sim_board_dev] l(2) by simp
  then show ?thesis by (simp add: kerSysRegisterDyingGaspHandler_def h_def)
qed

section \<open>The monitor\<close>

lemma monitor_hook_loops:
  assumes "kerSysMonitorPollHook f m s = Some r"
  shows "g_orig_fop_poll s = Some File_poll"
  using assms
proof (induction rule: kerSysMonitorPollHook.raw_induct [rotated 1, consumes 1])
  case (1 hook f m s r)
  then show ?case by (auto simp: bind_eq_Some_conv split: if_splits)
qed

text \<open>
  C32. The monitor hook.  After a task asked for a file to be monitored, polling this file gives the
  result of the file's own function and, once after each wakeup, the priority flag.  When it asks a
  second time for a file of the same kind, the hook has saved itself as the original function, and
  polling never returns.
\<close>

theorem set_monitor_fd_poll:
  assumes "in_fop e (io_offset p) = Some k" "fop_poll s k = File_poll"
  shows "kerSysMonitorPollHook (io_offset p) m (kerSysWakeupMonitorTask (set_monitor_fd e p s)) =
      Some (m OR POLLPRI, (kerSysWakeupMonitorTask (set_monitor_fd e p s))\<lparr>g_wakeup_monitor := 0\<rparr>) \<and>
    kerSysMonitorPollHook (io_offset p) m ((kerSysWakeupMonitorTask (set_monitor_fd e p s))\<lparr>g_wakeup_monitor := 0\<rparr>) =
      Some (m, (kerSysWakeupMonitorTask (set_monitor_fd e p s))\<lparr>g_wakeup_monitor := 0\<rparr>) \<and>
    (in_fop e (io_offset p') = Some k \<longrightarrow> kerSysMonitorPollHook f m (set_monitor_fd e p' (set_monitor_fd e p s)) = None)"
proof (intro conjI impI)
  let ?s = "kerSysWakeupMonitorTask (set_monitor_fd e p s)"
  have "g_orig_fop_poll ?s = Some File_poll \<and> g_wakeup_monitor ?s = 1 \<and> g_monitor_file ?s = Some (io_offset p)"
    using assms by (simp add: set_monitor_fd_def kerSysWakeupMonitorTask_def b_call_def)
  then show "kerSysMonitorPollHook (io_offset p) m ?s = Some (m OR POLLPRI, ?s\<lparr>g_wakeup_monitor := 0\<rparr>)"
    "kerSysMonitorPollHook (io_offset p) m (?s\<lparr>g_wakeup_monitor := 0\<rparr>) = Some (m, ?s\<lparr>g_wakeup_monitor := 0\<rparr>)"
    by (simp_all add: kerSysMonitorPollHook.simps)
next
  assume "in_fop e (io_offset p') = Some k"
  then have "g_orig_fop_poll (set_monitor_fd e p' (set_monitor_fd e p s)) \<noteq> Some File_poll"
    using assms by (simp add: set_monitor_fd_def)
  then show "kerSysMonitorPollHook f m (set_monitor_fd e p' (set_monitor_fd e p s)) = None"
    using monitor_hook_loops by (metis not_Some_eq)
qed

theorem set_monitor_fd_poll_witness:
  "kerSysMonitorPollHook 100 0 (kerSysWakeupMonitorTask (set_monitor_fd sim_env sim_parms sim_board_dev)) =
      Some (POLLPRI, (kerSysWakeupMonitorTask (set_monitor_fd sim_env sim_parms sim_board_dev))\<lparr>g_wakeup_monitor := 0\<rparr>) \<and>
    kerSysMonitorPollHook 100 0 (set_monitor_fd sim_env sim_parms (set_monitor_fd sim_env sim_parms sim_board_dev)) = None"
proof -
  have "in_fop sim_env 100 = Some 0" "fop_poll sim_board_dev 0 = File_poll" "io_offset sim_parms = 100"
    by (simp_all add: sim_env_def sim_board_dev_def sim_parms_def)
  then show ?thesis using set_monitor_fd_poll [of sim_env sim_parms 0 sim_board_dev 0 sim_parms 100] by simp
qed

end
