(* ===== verification/Spec2Isabelle.thy ===== *)
theory Spec2Isabelle
  imports Crc32 Flash_Properties Cfi_Properties Upgrade_Properties Layout_Properties Board_Properties
    Led_Properties Mac_Properties Spi_Properties Xtm_Properties Board_Dev_Properties
begin

text \<open>
  This library verifies the board support of the Alice 1121 modem, the part of the firmware that is
  written for this device: the flash drivers, the storage of configuration, NVRAM and firmware images in
  flash, the board parameters, the LED driver, the MAC addresses, the character device and the buttons
  of the board, and the ATM/PTM network driver.  The sources are under \<open>src/shared/opensource\<close> and
  \<open>src/bcmdrivers/opensource\<close>, as they are configured for the BCM96338 (profile 96338W2); the network
  driver is the one of the BCM6368 in the same tree.

  \<^bold>\<open>The parts and how they interact.\<close>  \<open>flash_api.c\<close> chooses one of two drivers, \<open>cfiflash.c\<close> for
  parallel and \<open>spiflash.c\<close> for serial parts, and calls it through a table of functions.
  \<open>bcm63xx_flash.c\<close> is its client: at the start it finds the flash, reads the NVRAM record, makes the
  board it names current in \<open>boardparms.c\<close> and computes where the sections lie; later it reads and
  rewrites sections by reading the blocks that hold them, erasing and writing them again.  \<open>board.c\<close>
  uses it for the NVRAM record with its checksum, for the image tags and the upgrade, and hands out MAC
  addresses; applications reach all of this through the commands of its character device, and it serves
  the buttons, the NVRAM file in \<open>/proc\<close> and the power loss interrupt.  \<open>bcm63xx_led.c\<close> drives the LEDs
  whose pins the board parameters give.  \<open>bcmxtmrt.c\<close> moves packets between the network stack and the DMA
  rings; its devices get their MAC address from \<open>board.c\<close>.

  \<^bold>\<open>Conventions.\<close>  Definitions have the names of the functions they translate.  A C \<open>int\<close> is an \<open>int\<close>
  with \<open>s32\<close> or \<open>u32\<close> where the code can wrap, registers and masks are words of their width, memory is a
  list of bytes with bounded access.  A call has the value \<^term>\<open>None\<close> when it accesses memory out of range,
  dereferences a null or a released pointer, or does not return; so a theorem whose conclusion is
  \<^term>\<open>Some\<close> says that none of this happens.  Where a theorem says which of these happens it says so in terms
  of the steps, e.g. with the state of the pointer or with an infinite run of the passes of a loop.  Chips, memory allocation and user-space copies are arguments.

  \<^bold>\<open>The theories.\<close>
  \<^item> \<^verbatim>\<open>Board_Prelude\<close>: machine types, C integers, buffers, strings, shared lemmas.
  \<^item> \<^verbatim>\<open>Crc32\<close>: \<open>getCrc32\<close>; the table-driven loop equals the bit-serial remainder.
  \<^item> \<^verbatim>\<open>Flash_Api\<close>: the function table and its dispatchers, and the contract of a driver as the locales
    \<open>flash_device\<close> and \<open>reliable_flash_device\<close>, on which all of the storage is proved.
  \<^item> \<^verbatim>\<open>Cfi_Flash\<close>, \<^verbatim>\<open>Cfi_Geometry\<close>, \<^verbatim>\<open>Cfi_Driver\<close>, \<^verbatim>\<open>Cfi_Reliable\<close>, \<^verbatim>\<open>Nor_Sim\<close>: \<open>cfiflash.c\<close>, its sector
    table, the proof that it keeps the contract on every chip with the AMD command set (locales
    \<open>amd_chip\<close>, \<open>reliable_amd_chip\<close>), and a simulated chip on which these are interpreted.
  \<^item> \<^verbatim>\<open>Spi_Flash\<close>, \<^verbatim>\<open>Spi_Driver\<close>, \<^verbatim>\<open>Spi_Sim\<close>: the same for \<open>spiflash.c\<close> and parts with page program
    (locale \<open>spi_page_chip\<close>, and \<open>spi_protectable_chip\<close> for its states with protected blocks).
  \<^item> \<^verbatim>\<open>Board_Flash\<close>, \<^verbatim>\<open>Flash_Layout\<close>, \<^verbatim>\<open>Image_Flash\<close>, \<^verbatim>\<open>Scratch_Pad\<close>, \<^verbatim>\<open>Scratch_Pad_Map\<close>,
    \<^verbatim>\<open>Scratch_Pad_Flash\<close>: \<open>bcm63xx_flash.c\<close>, i.e. sections, layout, flashing an image and the scratch
    pad, which is shown to implement a finite map.
  \<^item> \<^verbatim>\<open>Nvram\<close>, \<^verbatim>\<open>Decimal\<close>, \<^verbatim>\<open>Image_Tag\<close>, \<^verbatim>\<open>Image_Upgrade\<close>: the NVRAM record, image tags, the choice of
    the image to boot and the upgrade of \<open>board.c\<close>.
  \<^item> \<^verbatim>\<open>Board_Tables\<close>, \<^verbatim>\<open>Board_Parms\<close>: \<open>boardparms.c\<close>.
  \<^item> \<^verbatim>\<open>Led_Ctrl\<close>: \<open>bcm63xx_led.c\<close>.  \<^verbatim>\<open>Mac_Addr\<close>: the MAC addresses of \<open>board.c\<close>.
  \<^item> \<^verbatim>\<open>Board_Misc\<close>, \<^verbatim>\<open>Board_Ioctl\<close>: the other parts of \<open>board.c\<close>, i.e. pins, buttons, the monitor hook,
    dying gasp, PCI screening and the NVRAM file, and the character device with all of its commands, the
    start and the end of the driver.  Its static variables are the record \<open>board_dev\<close>; what it asks of
    the interrupt controller and the kernel is a list of calls.  \<^verbatim>\<open>Proc_Nvram\<close>: the text of the NVRAM
    file.
  \<^item> \<^verbatim>\<open>Skb\<close>: the socket buffers of the kernel as far as the network driver uses them.
  \<^item> \<^verbatim>\<open>Xtm_Tx\<close>, \<^verbatim>\<open>Xtm_Rx\<close>, \<^verbatim>\<open>Xtm_Request\<close>: \<open>bcmxtmrt.c\<close>, i.e. its state and sending, receiving, and the
    requests and device operations.  \<^verbatim>\<open>Xtm_Ring\<close>, \<^verbatim>\<open>Xtm_Send\<close>: its transmit rings as queues.
    \<^verbatim>\<open>Xtm_Link\<close>: the memory of the queues when the link changes.  \<^verbatim>\<open>Xtm_Rx_Ring\<close>: the receive rings, the
    steps of the receive side and the ownership of its buffers.
  \<^item> \<^verbatim>\<open>Flash_Properties\<close>, \<^verbatim>\<open>Cfi_Properties\<close>, \<^verbatim>\<open>Spi_Properties\<close>, \<^verbatim>\<open>Upgrade_Properties\<close>,
    \<^verbatim>\<open>Layout_Properties\<close>, \<^verbatim>\<open>Board_Properties\<close>, \<^verbatim>\<open>Led_Properties\<close>, \<^verbatim>\<open>Mac_Properties\<close>,
    \<^verbatim>\<open>Board_Dev_Properties\<close>, \<^verbatim>\<open>Xtm_Properties\<close>: the properties of each component, from the entry points
    through all layers below.

  \<^bold>\<open>Bounds and loops.\<close>  Loops with a bounded counter are recursive functions with a termination proof.
  Loops that wait for a chip are \<open>partial_function (option)\<close>, and that they end is proved from the laws
  of the chip, or that they do not, for protected serial parts of some families; the wait of the power loss interrupt is proved to end with the cycle counter.  The monitor
  hook is one as well, because it may call itself.  There is no fuel except in the polling loop of the
  parallel driver, whose bound is the one of the code.

  \<^bold>\<open>Where the model decides.\<close>  The scratch pad moves its tokens with \<open>memcpy\<close> between places that may overlap; the model
  takes the result of a copy that keeps the bytes of the source.  The lock of the parallel driver is taken without
  interruption by signals.  The serial parts of SST, which have no page program, are modelled but not covered by the
  theorems about storage.

  \<^bold>\<open>Not modelled.\<close>  Of \<open>board.c\<close> the printed messages and dumps, the characters sent to the UART and the
  creation of the file in \<open>/proc\<close> are left out; they have no data of their own.  The serial console
  \<open>bcm63xx_cons.c\<close> moves characters between UART registers and the tty layer.  \<open>userapps/broadcom/cfm\<close>
  passes requests to the kernel.  The kernel, the toolchain, the open-source applications and the host
  tools are third-party programs that are not specific to the device; of the kernel only
  \<open>simple_strtoul\<close> and the socket buffers are modelled, because the code relies on their exact
  behaviour.  The drivers under \<open>bcmdrivers/broadcom\<close> come as binaries with headers, and the register
  maps are constants that are taken over where they are used.
\<close>

end
